(* ===== verification/Prelude.thy ===== *)
theory Prelude
  imports "HOL-Library.AList" "HOL-Library.Char_ord" "HOL-Library.List_Lexorder"
    "HOL-Library.Multiset"
begin

text \<open>
  Shared vocabulary of the development: the Python values the gateway is written with.

  \<^item> A \<open>str\<close> is a \<^typ>\<open>string\<close>. A \<^typ>\<open>char\<close> is a code point below 256, so the model
    covers the Latin-1 strings; \<open>py_isspace\<close> and \<open>py_lower\<close> are Python's tables on that range.
  \<^item> A \<open>dict\<close> is an association list in insertion order: assigning to a present key keeps its
    place and a new key goes to the end, which is what \<^const>\<open>AList.update\<close> does.
  \<^item> A \<open>datetime\<close> used only by comparison is an \<open>instant\<close> (microseconds, timezone aware); where
    the source tests \<open>tzinfo\<close> itself, it is a \<open>datetime\<close> value with an awareness tag.
  \<^item> \<open>tuple(sorted(set(xs)))\<close> is \<open>sorted_set xs\<close>; strings are ordered by code point,
    lexicographically, as in Python.
\<close>

named_theorems wp_rules \<open>weakest preconditions of the effect combinators\<close>
named_theorems check_rules \<open>what a successful validation says\<close>
named_theorems dict_rules \<open>lookups in an updated dictionary\<close>

section \<open>Strings\<close>

definition py_isspace :: "char \<Rightarrow> bool" where
  "py_isspace c =
     (let n = of_char c :: nat
      in (9 \<le> n \<and> n \<le> 13) \<or> (28 \<le> n \<and> n \<le> 32) \<or> n = 133 \<or> n = 160)"

definition py_strip :: "string \<Rightarrow> string" where
  "py_strip s = rev (dropWhile py_isspace (rev (dropWhile py_isspace s)))"

definition py_lower_char :: "char \<Rightarrow> char" where
  "py_lower_char c =
     (let n = of_char c :: nat
      in if (65 \<le> n \<and> n \<le> 90) \<or> (192 \<le> n \<and> n \<le> 222 \<and> n \<noteq> 215) then char_of (n + 32) else c)"

definition py_lower :: "string \<Rightarrow> string" where
  "py_lower s = map py_lower_char s"

text \<open>\<open>not value.strip()\<close>: the test behind every "must not be blank" check.\<close>

definition blank :: "string \<Rightarrow> bool" where
  "blank s \<longleftrightarrow> py_strip s = []"

definition starts_with :: "string \<Rightarrow> string \<Rightarrow> bool" where
  "starts_with s p \<longleftrightarrow> take (length p) s = p"

text \<open>\<open>s.partition(c)\<close> for a one-character separator: head, whether it was found, tail.\<close>

definition py_partition :: "char \<Rightarrow> string \<Rightarrow> string \<times> bool \<times> string" where
  "py_partition c s =
     (takeWhile (\<lambda>x. x \<noteq> c) s, c \<in> set s, tl (dropWhile (\<lambda>x. x \<noteq> c) s))"

definition py_replace_char :: "char \<Rightarrow> char \<Rightarrow> string \<Rightarrow> string" where
  "py_replace_char a b s = map (\<lambda>x. if x = a then b else x) s"

lemma blank_iff: "blank s \<longleftrightarrow> (\<forall>c \<in> set s. py_isspace c)"
proof
  assume "blank s"
  then have "\<forall>c \<in> set (dropWhile py_isspace s). py_isspace c"
    by (auto simp: blank_def py_strip_def dropWhile_eq_Nil_conv dest: set_dropWhileD)
  then have "dropWhile py_isspace s = []"
    by (metis hd_dropWhile hd_in_set)
  then show "\<forall>c \<in> set s. py_isspace c" by (simp add: dropWhile_eq_Nil_conv)
next
  assume "\<forall>c \<in> set s. py_isspace c"
  then have "dropWhile py_isspace s = []" by (simp add: dropWhile_eq_Nil_conv)
  then show "blank s" by (simp only: blank_def py_strip_def rev.simps dropWhile.simps)
qed

lemma blank_Nil [simp]: "blank []"
  by (simp add: blank_iff)

lemma not_blank_nonempty: "\<not> blank s \<Longrightarrow> s \<noteq> []"
  by auto

lemma py_partition_parts: "py_partition c s = (h, True, t) \<longleftrightarrow> s = h @ c # t \<and> c \<notin> set h"
proof
  assume "py_partition c s = (h, True, t)"
  then have h: "h = takeWhile (\<lambda>x. x \<noteq> c) s" and c: "c \<in> set s"
    and t: "t = tl (dropWhile (\<lambda>x. x \<noteq> c) s)"
    by (auto simp: py_partition_def)
  from c have ne: "dropWhile (\<lambda>x. x \<noteq> c) s \<noteq> []" by (auto simp: dropWhile_eq_Nil_conv)
  then have "dropWhile (\<lambda>x. x \<noteq> c) s = c # t"
    using t hd_dropWhile [OF ne] by (cases "dropWhile (\<lambda>x. x \<noteq> c) s") auto
  then have "s = h @ c # t" using h by (metis takeWhile_dropWhile_id)
  moreover have "c \<notin> set h" using h by (auto dest: set_takeWhileD)
  ultimately show "s = h @ c # t \<and> c \<notin> set h" by simp
next
  assume "s = h @ c # t \<and> c \<notin> set h"
  then show "py_partition c s = (h, True, t)"
    by (auto simp: py_partition_def takeWhile_append dropWhile_append)
qed

section \<open>Time\<close>

type_synonym instant = int

datatype datetime = Aware (instant_of: instant) | Naive (instant_of: instant)

primrec is_aware :: "datetime \<Rightarrow> bool" where
  "is_aware (Aware _) = True"
| "is_aware (Naive _) = False"

section \<open>Dictionaries\<close>

type_synonym ('k, 'v) dict = "('k \<times> 'v) list"

abbreviation dict_get :: "('k, 'v) dict \<Rightarrow> 'k \<Rightarrow> 'v option" where
  "dict_get d k \<equiv> map_of d k"

abbreviation dict_set :: "'k \<Rightarrow> 'v \<Rightarrow> ('k, 'v) dict \<Rightarrow> ('k, 'v) dict" where
  "dict_set \<equiv> AList.update"

abbreviation dict_values :: "('k, 'v) dict \<Rightarrow> 'v list" where
  "dict_values d \<equiv> map snd d"

abbreviation dict_wf :: "('k, 'v) dict \<Rightarrow> bool" where
  "dict_wf d \<equiv> distinct (map fst d)"

lemma dict_get_set [simp, dict_rules]:
  "dict_get (dict_set k v d) l = (if l = k then Some v else dict_get d l)"
  by (simp add: update_conv')

lemma dict_wf_set [simp, intro]: "dict_wf d \<Longrightarrow> dict_wf (dict_set k v d)"
  by (rule distinct_update)

lemma dict_set_fresh: "dict_get d k = None \<Longrightarrow> dict_set k v d = d @ [(k, v)]"
  by (induction d) (auto split: if_splits)

lemma dict_values_set_fresh [simp]:
  "dict_get d k = None \<Longrightarrow> dict_values (dict_set k v d) = dict_values d @ [v]"
  by (simp add: dict_set_fresh)

lemma dict_get_values: "dict_get d k = Some v \<Longrightarrow> v \<in> set (dict_values d)"
  by (force dest: map_of_SomeD)

lemma dict_value_get: "dict_wf d \<Longrightarrow> v \<in> set (dict_values d) \<Longrightarrow> \<exists>k. dict_get d k = Some v"
  by (auto intro: map_of_is_SomeI)

lemma dict_values_set_subset: "set (dict_values (dict_set k v d)) \<subseteq> insert v (set (dict_values d))"
  by (induction d) auto

lemma dict_values_set_iff:
  assumes "dict_wf d"
  shows "x \<in> set (dict_values (dict_set k v d)) \<longleftrightarrow>
    x = v \<or> (\<exists>l. l \<noteq> k \<and> dict_get d l = Some x)"
proof -
  have "x \<in> set (dict_values (dict_set k v d)) \<longleftrightarrow> (\<exists>l. dict_get (dict_set k v d) l = Some x)"
    using assms dict_value_get [OF dict_wf_set [OF assms]] dict_get_values by metis
  then show ?thesis by auto
qed

text \<open>A dictionary whose values carry their own key: every repository of the gateway.\<close>

definition keyed :: "('v \<Rightarrow> 'k) \<Rightarrow> ('k, 'v) dict \<Rightarrow> bool" where
  "keyed key d \<longleftrightarrow> dict_wf d \<and> (\<forall>(k, v) \<in> set d. key v = k)"

lemma keyed_Nil [simp]: "keyed key []"
  by (simp add: keyed_def)

lemma keyed_wf [dest]: "keyed key d \<Longrightarrow> dict_wf d"
  by (simp add: keyed_def)

lemma keyed_get: "keyed key d \<Longrightarrow> dict_get d k = Some v \<Longrightarrow> key v = k"
  by (auto simp: keyed_def dest: map_of_SomeD)

lemma keyed_value_get: "keyed key d \<Longrightarrow> v \<in> set (dict_values d) \<Longrightarrow> dict_get d (key v) = Some v"
  by (auto simp: keyed_def)

lemma keyed_set [simp, intro]:
  assumes "keyed key d" and "key v = k"
  shows "keyed key (dict_set k v d)"
proof -
  have "(l, w) \<in> set (dict_set k v d) \<Longrightarrow> key w = l" for l w
  proof -
    assume "(l, w) \<in> set (dict_set k v d)"
    then have "dict_get (dict_set k v d) l = Some w"
      using assms by (simp only: keyed_def dict_wf_set map_of_is_SomeI)
    then show ?thesis using assms by (auto split: if_splits dest: keyed_get)
  qed
  then show ?thesis using assms by (auto simp: keyed_def)
qed

text \<open>Such a dictionary in which every entity satisfies its class invariant.\<close>

definition store_ok :: "('v \<Rightarrow> 'k) \<Rightarrow> ('v \<Rightarrow> bool) \<Rightarrow> ('k, 'v) dict \<Rightarrow> bool" where
  "store_ok key P d \<longleftrightarrow> keyed key d \<and> (\<forall>k v. dict_get d k = Some v \<longrightarrow> P v)"

lemma store_ok_Nil [simp]: "store_ok key P []"
  by (simp add: store_ok_def)

lemma store_ok_get: "store_ok key P d \<Longrightarrow> dict_get d k = Some v \<Longrightarrow> P v \<and> key v = k"
  by (auto simp: store_ok_def dest: keyed_get)

lemma store_ok_set: "store_ok key P d \<Longrightarrow> P v \<Longrightarrow> key v = k \<Longrightarrow> store_ok key P (dict_set k v d)"
  by (auto simp: store_ok_def split: if_splits)

lemma store_ok_values: "store_ok key P d \<Longrightarrow> v \<in> set (dict_values d) \<Longrightarrow> P v \<and> dict_get d (key v) = Some v"
  using keyed_value_get [of key d v] by (auto simp: store_ok_def)

section \<open>Sorting\<close>

definition sorted_set :: "'a::linorder list \<Rightarrow> 'a list" where
  "sorted_set xs = sort (remdups xs)"

lemma set_sorted_set [simp]: "set (sorted_set xs) = set xs"
  by (simp add: sorted_set_def)

lemma distinct_sorted_set [simp]: "distinct (sorted_set xs)"
  by (simp add: sorted_set_def)

lemma sorted_sorted_set [simp]: "sorted (sorted_set xs)"
  by (simp add: sorted_set_def)

lemma sorted_set_unique: "sorted ys \<Longrightarrow> distinct ys \<Longrightarrow> set ys = set xs \<Longrightarrow> sorted_set xs = ys"
  by (rule sorted_distinct_set_unique) simp_all

lemma sorted_set_id: "sorted ys \<Longrightarrow> distinct ys \<Longrightarrow> sorted_set ys = ys"
  by (rule sorted_set_unique) simp_all

lemma sorted_set_cong: "set xs = set ys \<Longrightarrow> sorted_set xs = sorted_set ys"
  by (rule sorted_set_unique) simp_all

lemma sorted_set_idem [simp]: "sorted_set (sorted_set xs) = sorted_set xs"
  by (rule sorted_set_id) simp_all

lemma sorted_set_Nil_iff [simp]: "sorted_set xs = [] \<longleftrightarrow> xs = []"
  using set_sorted_set [of xs] by (metis set_empty)

section \<open>Lists\<close>

text \<open>\<open>next((x for x in xs if p(x)), None)\<close> is \<^const>\<open>List.find\<close>.\<close>

lemma find_Some_sat: "List.find P xs = Some x \<Longrightarrow> x \<in> set xs \<and> P x"
  by (auto simp: find_Some_iff)

lemma find_None: "List.find P xs = None \<longleftrightarrow> (\<forall>x \<in> set xs. \<not> P x)"
  by (auto simp: find_None_iff)

text \<open>Overwriting a value does not move it: what depends on unchanged fields keeps its place.\<close>

lemma dict_values_set_same:
  "dict_get d k = Some old \<Longrightarrow> g old = g v \<Longrightarrow> map g (dict_values (dict_set k v d)) = map g (dict_values d)"
  by (induction d) (auto split: if_splits)

lemma map_filter_pairs: "map f (filter P xs) = map snd (filter fst (map (\<lambda>x. (P x, f x)) xs))"
  by (induction xs) auto

lemma dict_filter_set_same:
  assumes "dict_get d k = Some old" "P old = P v" "f old = f v"
  shows "map f (filter P (dict_values (dict_set k v d))) = map f (filter P (dict_values d))"
proof -
  have "map (\<lambda>x. (P x, f x)) (dict_values (dict_set k v d)) = map (\<lambda>x. (P x, f x)) (dict_values d)"
    using assms by (intro dict_values_set_same [of d k old]) auto
  then show ?thesis by (simp only: map_filter_pairs [of f P])
qed

lemma filter_upd_other:
  assumes "dict_get d k = Some old" and "\<not> P old" and "\<not> P v" and "dict_wf d"
  shows "filter P (dict_values (dict_set k v d)) = filter P (dict_values d)"
  using assms
proof (induction d)
  case (Cons a d)
  then show ?case by (cases a) (auto split: if_splits)
qed simp

end
