(* ===== verification/Errors.thy ===== *)
theory Errors
  imports Prelude
begin

text \<open>
  The errors of the gateway as values. \<open>nexus_error\<close> has one constructor per concrete class of
  \<open>shared/errors.py\<close>, with the attributes a caller can read (an approval id and its expiry, the id
  of the execution that owns an idempotency key); the internal diagnostic text of an error is not
  modelled. \<open>error_code\<close> and \<open>safe_message\<close> are the two class attributes that cross the boundary
  to clients. \<open>exn\<close> adds the Python exceptions the components raise or catch, so that an
  \<open>except\<close> clause is a case distinction: \<open>is_value_error\<close> follows the subclass relation, and
  \<open>CancelledError\<close> is the one constructor that \<open>except Exception\<close> does not catch.

  \<open>validated\<close> is the shape of every \<open>__post_init__\<close>: a list of rejected conditions with their
  messages, tried in order.
\<close>

section \<open>Application errors\<close>

datatype (plugins only: code size) nexus_error =
    ToolNotFoundError
  | ToolVersionNotFoundError
  | ToolBindingNotFoundError
  | ToolNotVisibleError
  | ToolsetNotFoundError
  | ToolsetConflictError
  | ToolsetRevisionConflictError
  | InvalidToolsetMembersError
  | ToolsetMemberUnavailableError
  | ToolsetNotActiveError
  | ToolsetAccessDeniedError
  | SystemToolsetImmutableError
  | InvalidToolStateError
  | TenantBoundaryViolationError
  | PublishConflictError
  | UpstreamNotActiveError
  | UpstreamNotFoundError
  | UpstreamConflictError
  | SchemaDigestMismatchError
  | BindingDigestMismatchError
  | OpenApiSourceNotFoundError
  | OpenApiImportJobNotFoundError
  | OpenApiDocumentInvalidError
  | OpenApiFeatureUnsupportedError
  | ImportedOperationNotFoundError
  | InvalidReviewStateError
  | InvalidArgumentsError
  | FeatureNotEnabledError
  | AuthorizationError
  | AuthenticationError
  | ApprovalRequiredError "string option" "instant option"
  | ApprovalNotFoundError
  | ApprovalPendingError
  | ApprovalRejectedError
  | ApprovalExpiredError
  | ApprovalAlreadyConsumedError
  | ApprovalMismatchError
  | ApprovalInvalidStateError
  | CredentialBindingNotFoundError
  | CredentialBindingConflictError
  | CredentialResolutionError
  | UpstreamTimeoutError
  | UpstreamUnavailableError
  | UpstreamResponseError
  | UnsafeUpstreamEndpointError
  | UnknownExecutionOutcomeError
  | ToolExecutionNotFoundError
  | InvalidExecutionStateError
  | ExecutionAttemptNotFoundError
  | IdempotencyKeyRequiredError
  | IdempotencyConflictError string
  | IdempotencyInProgressError string
  | IdempotencyAlreadyCompletedError string
  | IdempotencyOutcomeUnknownError string
  | IdempotencyPreviousFailedError string
  | IdempotencyRaceError
  | ToolSearchModeUnavailableError
  | ToolSearchReindexJobNotFoundError
  | ToolSearchReindexJobConflictError
  | EmbeddingAuthenticationError
  | EmbeddingRateLimitError
  | EmbeddingUnavailableError
  | EmbeddingResponseError

primrec error_code :: "nexus_error \<Rightarrow> string" where
  "error_code ToolNotFoundError = ''tool_not_found''"
| "error_code ToolVersionNotFoundError = ''tool_version_not_found''"
| "error_code ToolBindingNotFoundError = ''tool_binding_not_found''"
| "error_code ToolNotVisibleError = ''tool_not_visible''"
| "error_code ToolsetNotFoundError = ''toolset_not_found''"
| "error_code ToolsetConflictError = ''toolset_conflict''"
| "error_code ToolsetRevisionConflictError = ''toolset_revision_conflict''"
| "error_code InvalidToolsetMembersError = ''invalid_toolset_members''"
| "error_code ToolsetMemberUnavailableError = ''toolset_member_unavailable''"
| "error_code ToolsetNotActiveError = ''toolset_not_active''"
| "error_code ToolsetAccessDeniedError = ''toolset_access_denied''"
| "error_code SystemToolsetImmutableError = ''system_toolset_immutable''"
| "error_code InvalidToolStateError = ''invalid_tool_state''"
| "error_code TenantBoundaryViolationError = ''tenant_boundary_violation''"
| "error_code PublishConflictError = ''publish_conflict''"
| "error_code UpstreamNotActiveError = ''upstream_not_active''"
| "error_code UpstreamNotFoundError = ''upstream_not_found''"
| "error_code UpstreamConflictError = ''upstream_conflict''"
| "error_code SchemaDigestMismatchError = ''schema_digest_mismatch''"
| "error_code BindingDigestMismatchError = ''binding_digest_mismatch''"
| "error_code OpenApiSourceNotFoundError = ''openapi_source_not_found''"
| "error_code OpenApiImportJobNotFoundError = ''openapi_import_job_not_found''"
| "error_code OpenApiDocumentInvalidError = ''openapi_document_invalid''"
| "error_code OpenApiFeatureUnsupportedError = ''openapi_feature_unsupported''"
| "error_code ImportedOperationNotFoundError = ''imported_operation_not_found''"
| "error_code InvalidReviewStateError = ''invalid_review_state''"
| "error_code InvalidArgumentsError = ''invalid_arguments''"
| "error_code FeatureNotEnabledError = ''feature_not_enabled''"
| "error_code AuthorizationError = ''authorization_denied''"
| "error_code AuthenticationError = ''authentication_failed''"
| "error_code (ApprovalRequiredError _ _) = ''approval_required''"
| "error_code ApprovalNotFoundError = ''approval_not_found''"
| "error_code ApprovalPendingError = ''approval_pending''"
| "error_code ApprovalRejectedError = ''approval_rejected''"
| "error_code ApprovalExpiredError = ''approval_expired''"
| "error_code ApprovalAlreadyConsumedError = ''approval_already_consumed''"
| "error_code ApprovalMismatchError = ''approval_mismatch''"
| "error_code ApprovalInvalidStateError = ''approval_invalid_state''"
| "error_code CredentialBindingNotFoundError = ''credential_binding_not_found''"
| "error_code CredentialBindingConflictError = ''credential_binding_conflict''"
| "error_code CredentialResolutionError = ''credential_resolution_failed''"
| "error_code UpstreamTimeoutError = ''upstream_timeout''"
| "error_code UpstreamUnavailableError = ''upstream_unavailable''"
| "error_code UpstreamResponseError = ''upstream_response_error''"
| "error_code UnsafeUpstreamEndpointError = ''unsafe_upstream_endpoint''"
| "error_code UnknownExecutionOutcomeError = ''unknown_execution_outcome''"
| "error_code ToolExecutionNotFoundError = ''tool_execution_not_found''"
| "error_code InvalidExecutionStateError = ''invalid_execution_state''"
| "error_code ExecutionAttemptNotFoundError = ''execution_attempt_not_found''"
| "error_code IdempotencyKeyRequiredError = ''idempotency_key_required''"
| "error_code (IdempotencyConflictError _) = ''idempotency_conflict''"
| "error_code (IdempotencyInProgressError _) = ''idempotency_in_progress''"
| "error_code (IdempotencyAlreadyCompletedError _) = ''idempotency_already_completed''"
| "error_code (IdempotencyOutcomeUnknownError _) = ''idempotency_outcome_unknown''"
| "error_code (IdempotencyPreviousFailedError _) = ''idempotency_previous_failed''"
| "error_code IdempotencyRaceError = ''idempotency_in_progress''"
| "error_code ToolSearchModeUnavailableError = ''tool_search_mode_unavailable''"
| "error_code ToolSearchReindexJobNotFoundError = ''tool_search_reindex_job_not_found''"
| "error_code ToolSearchReindexJobConflictError = ''tool_search_reindex_job_conflict''"
| "error_code EmbeddingAuthenticationError = ''embedding_authentication_failed''"
| "error_code EmbeddingRateLimitError = ''embedding_rate_limited''"
| "error_code EmbeddingUnavailableError = ''embedding_unavailable''"
| "error_code EmbeddingResponseError = ''embedding_response_invalid''"

primrec safe_message :: "nexus_error \<Rightarrow> string" where
  "safe_message ToolNotFoundError = ''The requested tool was not found.''"
| "safe_message ToolVersionNotFoundError = ''The requested tool version was not found.''"
| "safe_message ToolBindingNotFoundError = ''The requested tool binding was not found.''"
| "safe_message ToolNotVisibleError = ''The requested tool is not available to this principal.''"
| "safe_message ToolsetNotFoundError = ''The requested toolset was not found.''"
| "safe_message ToolsetConflictError = ''The toolset conflicts with existing state.''"
| "safe_message ToolsetRevisionConflictError = ''The toolset changed after it was loaded.''"
| "safe_message InvalidToolsetMembersError = ''The toolset contains invalid members.''"
| "safe_message ToolsetMemberUnavailableError = ''One or more toolset members are unavailable.''"
| "safe_message ToolsetNotActiveError = ''The requested toolset is not active.''"
| "safe_message ToolsetAccessDeniedError = ''The principal is not allowed to access this toolset scope.''"
| "safe_message SystemToolsetImmutableError = ''The system-managed toolset cannot be changed this way.''"
| "safe_message InvalidToolStateError = ''The tool cannot be changed from its current state.''"
| "safe_message TenantBoundaryViolationError = ''The requested resource is not available in this tenant.''"
| "safe_message PublishConflictError = ''The tool could not be published because its state changed.''"
| "safe_message UpstreamNotActiveError = ''The tool upstream is not active.''"
| "safe_message UpstreamNotFoundError = ''The requested upstream service was not found.''"
| "safe_message UpstreamConflictError = ''The upstream service conflicts with an existing registration.''"
| "safe_message SchemaDigestMismatchError = ''The tool schema no longer matches the reviewed version.''"
| "safe_message BindingDigestMismatchError = ''The tool binding no longer matches the reviewed version.''"
| "safe_message OpenApiSourceNotFoundError = ''The OpenAPI source was not found.''"
| "safe_message OpenApiImportJobNotFoundError = ''The OpenAPI import job was not found.''"
| "safe_message OpenApiDocumentInvalidError = ''The OpenAPI document is invalid.''"
| "safe_message OpenApiFeatureUnsupportedError = ''The OpenAPI document uses an unsupported feature.''"
| "safe_message ImportedOperationNotFoundError = ''The imported operation was not found.''"
| "safe_message InvalidReviewStateError = ''The imported operation cannot be reviewed from its current state.''"
| "safe_message InvalidArgumentsError = ''The request arguments are invalid.''"
| "safe_message FeatureNotEnabledError = ''The requested feature is not enabled.''"
| "safe_message AuthorizationError = ''The principal is not allowed to call this tool.''"
| "safe_message AuthenticationError = ''The request could not be authenticated.''"
| "safe_message (ApprovalRequiredError _ _) = ''This tool call requires approval.''"
| "safe_message ApprovalNotFoundError = ''The requested approval was not found.''"
| "safe_message ApprovalPendingError = ''The tool call is still waiting for approval.''"
| "safe_message ApprovalRejectedError = ''The tool call approval was rejected.''"
| "safe_message ApprovalExpiredError = ''The tool call approval has expired.''"
| "safe_message ApprovalAlreadyConsumedError = ''The tool call approval has already been consumed.''"
| "safe_message ApprovalMismatchError = ''The approval does not match this tool call.''"
| "safe_message ApprovalInvalidStateError = ''The approval cannot be changed from its current state.''"
| "safe_message CredentialBindingNotFoundError = ''No credential binding is available for this tool call.''"
| "safe_message CredentialBindingConflictError = ''Multiple credential bindings match this tool call.''"
| "safe_message CredentialResolutionError = ''The upstream credential could not be resolved.''"
| "safe_message UpstreamTimeoutError = ''The upstream service did not respond before the timeout.''"
| "safe_message UpstreamUnavailableError = ''The upstream service is unavailable.''"
| "safe_message UpstreamResponseError = ''The upstream service returned an invalid response.''"
| "safe_message UnsafeUpstreamEndpointError = ''The upstream endpoint is not permitted by the egress policy.''"
| "safe_message UnknownExecutionOutcomeError = ''The upstream execution outcome could not be determined.''"
| "safe_message ToolExecutionNotFoundError = ''The requested tool execution was not found.''"
| "safe_message InvalidExecutionStateError = ''The tool execution cannot be changed from its current state.''"
| "safe_message ExecutionAttemptNotFoundError = ''The requested execution attempt was not found.''"
| "safe_message IdempotencyKeyRequiredError = ''This tool call requires an idempotency key.''"
| "safe_message (IdempotencyConflictError _) = ''The idempotency key was already used with different arguments.''"
| "safe_message (IdempotencyInProgressError _) = ''The idempotent operation is already in progress.''"
| "safe_message (IdempotencyAlreadyCompletedError _) = ''The idempotent operation was already completed.''"
| "safe_message (IdempotencyOutcomeUnknownError _) = ''The previous idempotent operation outcome is unknown.''"
| "safe_message (IdempotencyPreviousFailedError _) = ''The previous idempotent operation did not complete successfully.''"
| "safe_message IdempotencyRaceError = ''The idempotent operation is already in progress.''"
| "safe_message ToolSearchModeUnavailableError = ''The requested tool search mode is not available.''"
| "safe_message ToolSearchReindexJobNotFoundError = ''The requested tool search reindex job was not found.''"
| "safe_message ToolSearchReindexJobConflictError = ''A tool search reindex job is already active for this tenant.''"
| "safe_message EmbeddingAuthenticationError = ''The embedding provider could not be authenticated.''"
| "safe_message EmbeddingRateLimitError = ''The embedding provider rate limit was exceeded.''"
| "safe_message EmbeddingUnavailableError = ''The embedding provider is unavailable.''"
| "safe_message EmbeddingResponseError = ''The embedding provider returned an invalid response.''"

text \<open>The subclasses of \<open>ToolsetScopeError\<close>: refusals that come from the MCP endpoint scope.\<close>

definition is_toolset_scope_error :: "nexus_error \<Rightarrow> bool" where
  "is_toolset_scope_error e \<longleftrightarrow>
     e = ToolsetNotFoundError \<or> e = ToolsetMemberUnavailableError \<or>
     e = ToolsetNotActiveError \<or> e = ToolsetAccessDeniedError"

section \<open>Executor failures\<close>

datatype execution_error_category =
    VALIDATION | AUTHENTICATION | AUTHORIZATION | APPROVAL | CREDENTIAL
  | TIMEOUT_BEFORE_SEND | TIMEOUT_AFTER_SEND | NETWORK | UPSTREAM_4XX | UPSTREAM_5XX
  | CATEGORY_CANCELLED | CATEGORY_UNKNOWN

record executor_failure =
  ef_code :: string
  ef_category :: execution_error_category
  ef_outcome_unknown :: bool
  ef_upstream_status :: "int option"

section \<open>Exceptions\<close>

datatype exn =
    NexusError nexus_error
  | ValueError string
  | ToolsetRevisionConflict string
  | SystemToolsetMutationError string
  | RuntimeError string
  | TypeError string
  | AssertionError
  | ExecutorFailure executor_failure
  | OtherException string
  | CancelledError

fun is_value_error :: "exn \<Rightarrow> bool" where
  "is_value_error (ValueError _) = True"
| "is_value_error (ToolsetRevisionConflict _) = True"
| "is_value_error (SystemToolsetMutationError _) = True"
| "is_value_error _ = False"

definition is_exception :: "exn \<Rightarrow> bool" where
  "is_exception e \<longleftrightarrow> e \<noteq> CancelledError"

type_synonym 'a result = "exn + 'a"

definition result_bind :: "'a result \<Rightarrow> ('a \<Rightarrow> 'b result) \<Rightarrow> 'b result" where
  "result_bind r f = (case r of Inl e \<Rightarrow> Inl e | Inr x \<Rightarrow> f x)"

lemma result_bind_simps [simp]:
  "result_bind (Inl e) f = Inl e"
  "result_bind (Inr x) f = f x"
  by (simp_all add: result_bind_def)

lemma result_bind_Inr_iff: "result_bind r f = Inr y \<longleftrightarrow> (\<exists>x. r = Inr x \<and> f x = Inr y)"
  by (cases r) auto

section \<open>Lists of results\<close>

text \<open>A loop or comprehension whose body may raise: the values in order, or the first error.\<close>

fun collect_results :: "('a \<Rightarrow> 'b result) \<Rightarrow> 'a list \<Rightarrow> 'b list result" where
  "collect_results f [] = Inr []"
| "collect_results f (x # xs) = result_bind (f x) (\<lambda>y. result_bind (collect_results f xs) (\<lambda>ys. Inr (y # ys)))"

lemma collect_results_Inr: "collect_results f xs = Inr ys \<Longrightarrow> x \<in> set xs \<Longrightarrow> \<exists>y. f x = Inr y"
  by (induction xs arbitrary: ys) (auto simp: result_bind_Inr_iff)

lemma collect_results_all2: "collect_results f xs = Inr ys \<longleftrightarrow> list_all2 (\<lambda>x y. f x = Inr y) xs ys"
  by (induction xs arbitrary: ys) (auto simp: result_bind_Inr_iff list_all2_Cons1)

lemma result_bind_cong [fundef_cong]:
  "r = s \<Longrightarrow> (\<And>x. s = Inr x \<Longrightarrow> f x = g x) \<Longrightarrow> result_bind r f = result_bind s g"
  by (auto simp: result_bind_def split: sum.splits)

lemma collect_results_cong [fundef_cong]:
  "xs = ys \<Longrightarrow> (\<And>y. y \<in> set ys \<Longrightarrow> f y = g y) \<Longrightarrow> collect_results f xs = collect_results g ys"
proof (induction ys arbitrary: xs)
  case (Cons y ys)
  then show ?case by (auto simp: result_bind_def split: sum.splits)
qed simp

section \<open>Validation in order\<close>

fun first_error :: "(bool \<times> string) list \<Rightarrow> string option" where
  "first_error [] = None"
| "first_error ((bad, message) # rest) = (if bad then Some message else first_error rest)"

definition validated :: "(bool \<times> string) list \<Rightarrow> 'a \<Rightarrow> 'a result" where
  "validated checks x =
     (case first_error checks of None \<Rightarrow> Inr x | Some message \<Rightarrow> Inl (ValueError message))"

definition non_blank_checks :: "(string \<times> string) list \<Rightarrow> (bool \<times> string) list" where
  "non_blank_checks named =
     map (\<lambda>(field_name, value). (blank value, field_name @ '' must not be blank'')) named"

lemma first_error_None_iff: "first_error checks = None \<longleftrightarrow> (\<forall>c \<in> set checks. \<not> fst c)"
  by (induction checks rule: first_error.induct) auto

lemma validated_Inr_iff [check_rules]:
  "validated checks x = Inr y \<longleftrightarrow> y = x \<and> (\<forall>c \<in> set checks. \<not> fst c)"
  by (auto simp: validated_def first_error_None_iff [symmetric] split: option.splits)

lemma validated_Inl: "validated checks x = Inl e \<Longrightarrow> \<exists>message. e = ValueError message"
  by (auto simp: validated_def split: option.splits)

lemma validated_cases:
  "(\<forall>c \<in> set checks. \<not> fst c) \<Longrightarrow> validated checks x = Inr x"
  by (simp add: validated_Inr_iff)

lemma non_blank_checks_ok [check_rules]:
  "(\<forall>c \<in> set (non_blank_checks named). \<not> fst c) \<longleftrightarrow> (\<forall>(n, v) \<in> set named. \<not> blank v)"
  by (auto simp: non_blank_checks_def)

lemma safe_message_nonempty: "safe_message e \<noteq> []"
  by (cases e) simp_all

end
