(* ===== verification/Digests.thy ===== *)
theory Digests
  imports Errors
begin

text \<open>
  JSON values and the canonical digest of \<open>shared/digests.py\<close>, which binds an approval to the
  arguments of a call, an idempotency key to its first use and a publication to its reviewed schema.

  \<open>json\<close> has the values \<open>json.dumps\<close> accepts except floats; objects keep insertion order, as
  Python dicts do. \<open>json_dumps\<close> is \<open>json.dumps(value, ensure_ascii=False, allow_nan=False,
  sort_keys=True, separators=(",", ":"))\<close>; \<open>utf8_encode\<close> is \<open>str.encode("utf-8")\<close> on Latin-1
  text. The hash itself (\<open>hashlib.sha256(..).hexdigest()\<close>, a library) is the parameter \<open>sha\<close> of
  every definition that computes a digest.
\<close>

section \<open>JSON values\<close>

datatype json =
    JNull
  | JBool bool
  | JInt int
  | JStr string
  | JList "json list"
  | JObj "(string \<times> json) list"

definition json_get :: "json \<Rightarrow> string \<Rightarrow> json option" where
  "json_get v k = (case v of JObj kvs \<Rightarrow> map_of kvs k | _ \<Rightarrow> None)"

section \<open>Canonical text\<close>

fun show_nat :: "nat \<Rightarrow> string" where
  "show_nat n =
     (if n < 10 then [char_of (48 + n)] else show_nat (n div 10) @ [char_of (48 + n mod 10)])"

declare show_nat.simps [simp del]

definition show_int :: "int \<Rightarrow> string" where
  "show_int i = (if i < 0 then CHR ''-'' # show_nat (nat (- i)) else show_nat (nat i))"

definition hex_digit :: "nat \<Rightarrow> char" where
  "hex_digit n = (if n < 10 then char_of (48 + n) else char_of (87 + n))"

definition json_escape :: "char \<Rightarrow> string" where
  "json_escape c =
     (let n = of_char c :: nat
      in if c = CHR 0x22 then [CHR 0x5C, CHR 0x22]
         else if c = CHR 0x5C then [CHR 0x5C, CHR 0x5C]
         else if n = 10 then [CHR 0x5C, CHR ''n'']
         else if n = 13 then [CHR 0x5C, CHR ''r'']
         else if n = 9 then [CHR 0x5C, CHR ''t'']
         else if n = 12 then [CHR 0x5C, CHR ''f'']
         else if n = 8 then [CHR 0x5C, CHR ''b'']
         else if n < 32 then [CHR 0x5C, CHR ''u'', CHR ''0'', CHR ''0'', hex_digit (n div 16), hex_digit (n mod 16)]
         else [c])"

definition json_string :: "string \<Rightarrow> string" where
  "json_string s = CHR 0x22 # concat (map json_escape s) @ [CHR 0x22]"

fun join_with :: "string \<Rightarrow> string list \<Rightarrow> string" where
  "join_with sep [] = []"
| "join_with sep [x] = x"
| "join_with sep (x # y # zs) = x @ sep @ join_with sep (y # zs)"

definition json_member :: "string \<times> string \<Rightarrow> string" where
  "json_member kv = json_string (fst kv) @ '':'' @ snd kv"

primrec json_dumps :: "json \<Rightarrow> string" where
  "json_dumps JNull = ''null''"
| "json_dumps (JBool b) = (if b then ''true'' else ''false'')"
| "json_dumps (JInt i) = show_int i"
| "json_dumps (JStr s) = json_string s"
| "json_dumps (JList vs) = ''['' @ join_with '','' (map json_dumps vs) @ '']''"
| "json_dumps (JObj kvs) =
     ''{'' @ join_with '',''
       (map json_member (sort_key fst (map (map_prod id json_dumps) kvs))) @ ''}''"

definition utf8_encode :: "string \<Rightarrow> string" where
  "utf8_encode s =
     concat (map (\<lambda>c. let n = of_char c :: nat
                       in if n < 128 then [c] else [char_of (192 + n div 64), char_of (128 + n mod 64)]) s)"

definition canonical_json_digest :: "(string \<Rightarrow> string) \<Rightarrow> json \<Rightarrow> string" where
  "canonical_json_digest sha value = sha (utf8_encode (json_dumps value))"

text \<open>What \<open>hexdigest\<close> promises: 64 lower-case hexadecimal characters.\<close>

definition is_sha256_hex :: "string \<Rightarrow> bool" where
  "is_sha256_hex s \<longleftrightarrow> length s = 64 \<and> (\<forall>c \<in> set s. c \<in> set ''0123456789abcdef'')"

definition hex_hash :: "(string \<Rightarrow> string) \<Rightarrow> bool" where
  "hex_hash sha \<longleftrightarrow> (\<forall>x. is_sha256_hex (sha x))"

lemma canonical_json_digest_hex: "hex_hash sha \<Longrightarrow> is_sha256_hex (canonical_json_digest sha v)"
  by (simp add: hex_hash_def canonical_json_digest_def)

lemma sha256_hex_not_blank: "is_sha256_hex s \<Longrightarrow> \<not> blank s"
proof -
  assume h: "is_sha256_hex s"
  then have "hd s \<in> set s" by (cases s) (auto simp: is_sha256_hex_def)
  moreover have "\<forall>c \<in> set ''0123456789abcdef''. \<not> py_isspace c"
    by (simp add: py_isspace_def)
  ultimately show ?thesis using h unfolding is_sha256_hex_def blank_iff by blast
qed

text \<open>A concrete hash of the right shape, used where a statement about \<open>sha\<close> is instantiated.\<close>

definition sample_sha :: "string \<Rightarrow> string" where
  "sample_sha x = replicate 64 (CHR ''0'')"

lemma sample_sha_hex: "hex_hash sample_sha"
  by (simp add: hex_hash_def is_sha256_hex_def sample_sha_def)

section \<open>Equality of JSON values\<close>

text \<open>
  Python compares dicts without regard to insertion order. \<open>json_norm\<close> sorts the keys of every
  object, so two values are equal in Python's sense when their normal forms are.
\<close>

primrec json_norm :: "json \<Rightarrow> json" where
  "json_norm JNull = JNull"
| "json_norm (JBool b) = JBool b"
| "json_norm (JInt i) = JInt i"
| "json_norm (JStr s) = JStr s"
| "json_norm (JList vs) = JList (map json_norm vs)"
| "json_norm (JObj kvs) = JObj (sort_key fst (map (map_prod id json_norm) kvs))"

text \<open>Objects never repeat a key.\<close>

primrec json_wf :: "json \<Rightarrow> bool" where
  "json_wf JNull = True"
| "json_wf (JBool b) = True"
| "json_wf (JInt i) = True"
| "json_wf (JStr s) = True"
| "json_wf (JList vs) = list_all id (map json_wf vs)"
| "json_wf (JObj kvs) =
     (distinct (map fst kvs) \<and> list_all snd (map (map_prod id json_wf) kvs))"

lemma map_insort_key_snd:
  "map (map_prod id f) (insort_key fst x ys) =
     insort_key fst (map_prod id f x) (map (map_prod id f) ys)"
  by (induction ys) auto

lemma map_sort_key_map_prod:
  "map (map_prod id f) (sort_key fst kvs) = sort_key fst (map (map_prod id f) kvs)"
proof (induction kvs)
  case (Cons a kvs)
  then show ?case by (simp only: sort_key_simps list.map map_insort_key_snd)
qed simp

lemma sort_key_idem: "sort_key f (sort_key f xs) = sort_key f xs"
  by (rule sort_key_id_if_sorted) simp

lemma json_dumps_norm: "json_dumps (json_norm v) = json_dumps v"
proof (induction v)
  case (JList vs)
  then show ?case by (simp cong: map_cong)
next
  case (JObj kvs)
  have "map (map_prod id json_dumps) (map (map_prod id json_norm) kvs) = map (map_prod id json_dumps) kvs"
    using JObj by (auto simp: map_prod_def)
  then show ?case
    by (simp only: json_norm.simps json_dumps.simps map_sort_key_map_prod sort_key_idem)
qed simp_all

end
