(* ===== verification/Identity.thy ===== *)
theory Identity
  imports Digests
begin

text \<open>
  The request context (\<open>shared/request_context.py\<close>) and the identity module: the principal that the
  authentication boundary hands on, the resolver that reads it from the context, and the bearer
  authenticator that maps a token digest to an agent service.
\<close>

section \<open>Request context\<close>

record actor_context =
  cx_request_id :: string
  cx_trace_id :: string
  cx_tenant_id :: string
  cx_principal_id :: string
  cx_authn_method :: string
  cx_principal_type :: string

datatype protocol_era = MODERN | LEGACY

record request_context = actor_context +
  cx_protocol_version :: string
  cx_protocol_era :: protocol_era
  cx_policy_snapshot :: "string option"

definition ANONYMOUS_PRINCIPAL_ID :: string where
  "ANONYMOUS_PRINCIPAL_ID = ''anonymous''"

section \<open>Internal principal\<close>

datatype principal_type = AGENT_SERVICE | ANONYMOUS

record internal_principal =
  pr_id :: string
  pr_tenant_id :: string
  pr_principal_type :: principal_type
  pr_authn_method :: string

definition principal_post_init :: "internal_principal \<Rightarrow> internal_principal result" where
  "principal_post_init p = validated
     [(blank (pr_id p), ''principal id must not be blank''),
      (blank (pr_tenant_id p), ''principal tenant id must not be blank''),
      (blank (pr_authn_method p), ''principal authentication method must not be blank'')] p"

text \<open>\<open>PrincipalType(value)\<close>: the enum lookup by value, which raises on an unknown one.\<close>

definition parse_principal_type :: "string \<Rightarrow> principal_type result" where
  "parse_principal_type v =
     (if v = ''agent_service'' then Inr AGENT_SERVICE
      else if v = ''anonymous'' then Inr ANONYMOUS
      else Inl (ValueError ''not a valid PrincipalType''))"

section \<open>Principal resolution from the context\<close>

definition context_resolve :: "('x) actor_context_scheme \<Rightarrow> internal_principal result" where
  "context_resolve cx =
     (let ptype = (case parse_principal_type (cx_principal_type cx) of
                     Inr t \<Rightarrow> t
                   | Inl _ \<Rightarrow> if cx_principal_id cx = ANONYMOUS_PRINCIPAL_ID then ANONYMOUS
                             else AGENT_SERVICE)
      in principal_post_init
           \<lparr>pr_id = cx_principal_id cx, pr_tenant_id = cx_tenant_id cx,
            pr_principal_type = ptype, pr_authn_method = cx_authn_method cx\<rparr>)"

section \<open>Bearer tokens of agent services\<close>

text \<open>A secret value: constructing one from the empty string raises.\<close>

datatype secret_value = SecretValue (reveal: string)

definition secret_value_init :: "string \<Rightarrow> secret_value result" where
  "secret_value_init v =
     validated [(v = [], ''secret value must not be empty'')] (SecretValue v)"

text \<open>\<open>__repr__\<close> and \<open>__str__\<close> of a secret.\<close>

definition secret_repr :: "secret_value \<Rightarrow> string" where
  "secret_repr s = ''SecretValue('' @ [CHR 0x27] @ ''[REDACTED]'' @ [CHR 0x27] @ '')''"

definition secret_str :: "secret_value \<Rightarrow> string" where
  "secret_str s = ''[REDACTED]''"

record bearer_mapping =
  bm_token :: secret_value
  bm_principal :: internal_principal

definition token_digest :: "(string \<Rightarrow> string) \<Rightarrow> string \<Rightarrow> string" where
  "token_digest sha token = sha (utf8_encode token)"

definition principals_by_digest ::
  "(string \<Rightarrow> string) \<Rightarrow> bearer_mapping list \<Rightarrow> (string, internal_principal) dict" where
  "principals_by_digest sha identities =
     fold (\<lambda>m d. dict_set (token_digest sha (reveal (bm_token m))) (bm_principal m) d) identities []"

definition bearer_authenticate ::
  "(string \<Rightarrow> string) \<Rightarrow> bearer_mapping list \<Rightarrow> string option \<Rightarrow> string \<Rightarrow> internal_principal result" where
  "bearer_authenticate sha identities authorization_header tenant_id =
     (case authorization_header of
        None \<Rightarrow> Inl (NexusError AuthenticationError)
      | Some header \<Rightarrow>
          (case py_partition (CHR '' '') header of
             (scheme, found, token) \<Rightarrow>
               if \<not> found \<or> py_lower scheme \<noteq> ''bearer'' \<or> token = []
               then Inl (NexusError AuthenticationError)
               else (case dict_get (principals_by_digest sha identities) (token_digest sha token) of
                       None \<Rightarrow> Inl (NexusError AuthenticationError)
                     | Some p \<Rightarrow> if pr_tenant_id p \<noteq> tenant_id
                                then Inl (NexusError AuthenticationError) else Inr p)))"

section \<open>Lemmas\<close>

lemma principal_post_init_Inr [check_rules]:
  "principal_post_init p = Inr q \<longleftrightarrow>
     q = p \<and> \<not> blank (pr_id p) \<and> \<not> blank (pr_tenant_id p) \<and> \<not> blank (pr_authn_method p)"
  by (auto simp: principal_post_init_def validated_Inr_iff)

lemma context_resolve_id:
  "context_resolve cx = Inr p \<Longrightarrow> pr_id p = cx_principal_id cx \<and> pr_tenant_id p = cx_tenant_id cx"
  by (auto simp: context_resolve_def Let_def check_rules)

lemma context_resolve_raises:
  "context_resolve cx = Inl e \<Longrightarrow> \<exists>m. e = ValueError m"
  by (auto simp: context_resolve_def Let_def principal_post_init_def dest: validated_Inl)

lemma principals_by_digest_get:
  "dict_get (principals_by_digest sha ids) k = Some p \<Longrightarrow>
     \<exists>m \<in> set ids. token_digest sha (reveal (bm_token m)) = k \<and> bm_principal m = p"
proof -
  have step: "dict_get (fold (\<lambda>m d. dict_set (token_digest sha (reveal (bm_token m))) (bm_principal m) d) ids d) k = Some p
      \<Longrightarrow> dict_get d k = Some p \<or>
        (\<exists>m \<in> set ids. token_digest sha (reveal (bm_token m)) = k \<and> bm_principal m = p)" for d
    by (induction ids arbitrary: d) (fastforce split: if_splits)+
  show "dict_get (principals_by_digest sha ids) k = Some p \<Longrightarrow> ?thesis"
    using step [of "[]"] by (simp add: principals_by_digest_def)
qed

text \<open>
  Bearer authentication. A principal is returned only for a header of the form
  \<open>bearer <token>\<close> with a non-empty token whose digest is that of a configured agent service, and
  only inside that service's own tenant; every other header is refused with
  \<open>AuthenticationError\<close>.
\<close>

theorem bearer_authenticate_sound:
  "(\<forall>p. bearer_authenticate sha identities header tenant = Inr p \<longrightarrow>
      (\<exists>scheme token m. header = Some (scheme @ CHR '' '' # token) \<and> py_lower scheme = ''bearer'' \<and>
         token \<noteq> [] \<and> m \<in> set identities \<and>
         token_digest sha (reveal (bm_token m)) = token_digest sha token \<and>
         p = bm_principal m \<and> pr_tenant_id p = tenant)) \<and>
   (\<forall>e. bearer_authenticate sha identities header tenant = Inl e \<longrightarrow> e = NexusError AuthenticationError)"
proof (intro conjI allI impI)
  fix p assume ok: "bearer_authenticate sha identities header tenant = Inr p"
  then obtain h scheme token where h: "header = Some h" "py_partition (CHR '' '') h = (scheme, True, token)"
    and s: "py_lower scheme = ''bearer''" "token \<noteq> []" "pr_tenant_id p = tenant"
    and g: "dict_get (principals_by_digest sha identities) (token_digest sha token) = Some p"
    by (auto simp: bearer_authenticate_def split: option.splits prod.splits if_splits)
  from h(2) have "h = scheme @ CHR '' '' # token" by (simp add: py_partition_parts)
  moreover obtain m where "m \<in> set identities" "bm_principal m = p"
    "token_digest sha (reveal (bm_token m)) = token_digest sha token"
    using principals_by_digest_get [OF g] by blast
  ultimately show "\<exists>scheme token m. header = Some (scheme @ CHR '' '' # token) \<and> py_lower scheme = ''bearer'' \<and>
         token \<noteq> [] \<and> m \<in> set identities \<and>
         token_digest sha (reveal (bm_token m)) = token_digest sha token \<and>
         p = bm_principal m \<and> pr_tenant_id p = tenant"
    using h(1) s by blast
qed (auto simp: bearer_authenticate_def split: option.splits prod.splits if_splits)

definition sample_identities :: "bearer_mapping list" where
  "sample_identities =
     [\<lparr>bm_token = SecretValue ''s3cret'',
       bm_principal = \<lparr>pr_id = ''agent'', pr_tenant_id = ''acme'', pr_principal_type = AGENT_SERVICE,
                       pr_authn_method = ''bearer''\<rparr>\<rparr>]"

theorem bearer_authenticate_sound_witness:
  "\<exists>p m. bearer_authenticate sample_sha sample_identities (Some ''Bearer s3cret'') ''acme'' = Inr p \<and>
     m \<in> set sample_identities \<and> p = bm_principal m \<and> pr_tenant_id p = ''acme''"
proof -
  have "(case bearer_authenticate sample_sha sample_identities (Some ''Bearer s3cret'') ''acme'' of
      Inr p \<Rightarrow> True | Inl _ \<Rightarrow> False)" by code_simp
  then obtain p where "bearer_authenticate sample_sha sample_identities (Some ''Bearer s3cret'') ''acme'' = Inr p"
    by (auto split: sum.splits)
  then show ?thesis
    using bearer_authenticate_sound [of sample_sha sample_identities "Some ''Bearer s3cret''" "''acme''"] by blast
qed

end
