(* ===== verification/Catalog_Domain.thy ===== *)
theory Catalog_Domain
  imports Digests Identity
begin

text \<open>
  The catalog's domain (\<open>catalog/domain.py\<close>, \<open>shared/tool_namespaces.py\<close>, \<open>catalog/digests.py\<close>):
  a stable \<open>tool\<close>, its versions with the life cycle draft, review, published, retired, and the
  published projection that discovery reads. Every transition is \<open>dataclasses.replace\<close>, which runs
  the constructor's validation again; it is therefore composed with the \<open>_post_init\<close> function.
\<close>

section \<open>Data\<close>

datatype tool_status = TOOL_ACTIVE | TOOL_DISABLED

datatype tool_version_status = VERSION_DRAFT | VERSION_REVIEW | VERSION_PUBLISHED | VERSION_RETIRED

datatype tool_visibility = VIS_PUBLIC | VIS_AUTHENTICATED | VIS_RESTRICTED

datatype tool_side_effect = READ_ONLY | IDEMPOTENT_WRITE | NON_IDEMPOTENT_WRITE | SIDE_EFFECT_UNKNOWN

fun side_effect_value :: "tool_side_effect \<Rightarrow> string" where
  "side_effect_value READ_ONLY = ''read_only''"
| "side_effect_value IDEMPOTENT_WRITE = ''idempotent_write''"
| "side_effect_value NON_IDEMPOTENT_WRITE = ''non_idempotent_write''"
| "side_effect_value SIDE_EFFECT_UNKNOWN = ''unknown''"

record tool =
  to_id :: string
  to_tenant_id :: string
  to_namespace :: string
  to_canonical_name :: string
  to_owner :: string
  to_status :: tool_status

record tool_version =
  ve_id :: string
  ve_tenant_id :: string
  ve_tool_id :: string
  ve_version :: int
  ve_display_name :: string
  ve_description :: string
  ve_input_schema :: json
  ve_output_schema :: "json option"
  ve_schema_digest :: string
  ve_tags :: "string list"
  ve_side_effect :: tool_side_effect
  ve_visibility :: tool_visibility
  ve_status :: tool_version_status
  ve_created_by :: string
  ve_created_at :: datetime
  ve_reviewed_at :: "datetime option"
  ve_published_at :: "datetime option"
  ve_retired_at :: "datetime option"

record published_tool =
  pt_tool_id :: string
  pt_tool_version_id :: string
  pt_tenant_id :: string
  pt_canonical_name :: string
  pt_display_name :: string
  pt_description :: string
  pt_input_schema :: json
  pt_output_schema :: "json option"
  pt_version :: int
  pt_visibility :: tool_visibility
  pt_side_effect :: tool_side_effect
  pt_schema_digest :: string
  pt_owner :: "string option"
  pt_tags :: "string list"

definition RESERVED_TOOL_NAMESPACES :: "string list" where
  "RESERVED_TOOL_NAMESPACES = [''nexus'']"

definition is_reserved_tool_namespace :: "string \<Rightarrow> bool" where
  "is_reserved_tool_namespace ns \<longleftrightarrow> ns \<in> set RESERVED_TOOL_NAMESPACES"

section \<open>Validation\<close>

definition tool_post_init :: "tool \<Rightarrow> tool result" where
  "tool_post_init t = validated
     (non_blank_checks
        [(''tool id'', to_id t), (''tenant id'', to_tenant_id t), (''tool namespace'', to_namespace t),
         (''tool canonical name'', to_canonical_name t), (''tool owner'', to_owner t)] @
      [(\<not> starts_with (to_canonical_name t) (to_namespace t @ ''.''),
        ''tool canonical name must start with its namespace''),
       (is_reserved_tool_namespace (to_namespace t), ''tool namespace is reserved by NexusMCP'')]) t"

definition input_schema_bad :: "json \<Rightarrow> bool" where
  "input_schema_bad sch \<longleftrightarrow> json_get sch ''type'' \<noteq> Some (JStr ''object'')"

definition lifecycle_checks :: "tool_version \<Rightarrow> (bool \<times> string) list" where
  "lifecycle_checks v =
     [(ve_status v \<in> {VERSION_REVIEW, VERSION_PUBLISHED, VERSION_RETIRED} \<and> ve_reviewed_at v = None,
       ''review tool version must have reviewed_at''),
      (ve_status v \<in> {VERSION_PUBLISHED, VERSION_RETIRED} \<and> ve_published_at v = None,
       ''published tool version must have published_at''),
      (ve_status v = VERSION_RETIRED \<and> ve_retired_at v = None,
       ''retired tool version must have retired_at'')]"

definition version_post_init :: "tool_version \<Rightarrow> tool_version result" where
  "version_post_init v = validated
     (non_blank_checks
        [(''tool version id'', ve_id v), (''tenant id'', ve_tenant_id v), (''tool id'', ve_tool_id v),
         (''tool display name'', ve_display_name v), (''schema digest'', ve_schema_digest v),
         (''tool version creator'', ve_created_by v)] @
      [(ve_version v < 1, ''tool version must be positive''),
       (input_schema_bad (ve_input_schema v), ''tool input schema root type must be object'')] @
      lifecycle_checks v) v"

definition published_tool_post_init :: "published_tool \<Rightarrow> published_tool result" where
  "published_tool_post_init p = validated
     (non_blank_checks
        [(''tool id'', pt_tool_id p), (''tool version id'', pt_tool_version_id p),
         (''tenant id'', pt_tenant_id p), (''tool canonical name'', pt_canonical_name p),
         (''tool display name'', pt_display_name p), (''schema digest'', pt_schema_digest p)] @
      [(pt_version p < 1, ''tool version must be positive''),
       (input_schema_bad (pt_input_schema p), ''tool input schema root type must be object'')]) p"

section \<open>Transitions\<close>

definition tool_activate :: "tool \<Rightarrow> tool result" where
  "tool_activate t =
     (if to_status t = TOOL_ACTIVE then Inr t else tool_post_init (t\<lparr>to_status := TOOL_ACTIVE\<rparr>))"

definition tool_disable :: "tool \<Rightarrow> tool result" where
  "tool_disable t =
     (if to_status t = TOOL_DISABLED then Inr t else tool_post_init (t\<lparr>to_status := TOOL_DISABLED\<rparr>))"

definition submit_for_review :: "tool_version \<Rightarrow> datetime \<Rightarrow> tool_version result" where
  "submit_for_review v reviewed_at =
     (if ve_status v \<noteq> VERSION_DRAFT
      then Inl (ValueError ''only draft tool version can be submitted for review'')
      else version_post_init (v\<lparr>ve_status := VERSION_REVIEW, ve_reviewed_at := Some reviewed_at\<rparr>))"

definition version_publish :: "tool_version \<Rightarrow> datetime \<Rightarrow> tool_version result" where
  "version_publish v published_at =
     (if ve_status v \<noteq> VERSION_REVIEW
      then Inl (ValueError ''only review tool version can be published'')
      else version_post_init (v\<lparr>ve_status := VERSION_PUBLISHED, ve_published_at := Some published_at\<rparr>))"

definition version_retire :: "tool_version \<Rightarrow> datetime \<Rightarrow> tool_version result" where
  "version_retire v retired_at =
     (if ve_status v \<noteq> VERSION_PUBLISHED
      then Inl (ValueError ''only published tool version can be retired'')
      else version_post_init (v\<lparr>ve_status := VERSION_RETIRED, ve_retired_at := Some retired_at\<rparr>))"

section \<open>Discovery\<close>

definition is_visible_to :: "published_tool \<Rightarrow> string \<Rightarrow> bool" where
  "is_visible_to p principal_id =
     (if pt_visibility p = VIS_PUBLIC then True
      else if pt_visibility p = VIS_AUTHENTICATED then principal_id \<noteq> ANONYMOUS_PRINCIPAL_ID
      else False)"

definition published_namespace :: "published_tool \<Rightarrow> string" where
  "published_namespace p = fst (py_partition (CHR ''.'') (pt_canonical_name p))"

definition calculate_schema_digest :: "(string \<Rightarrow> string) \<Rightarrow> json \<Rightarrow> json option \<Rightarrow> string" where
  "calculate_schema_digest sha input_schema output_schema =
     canonical_json_digest sha
       (JObj [(''input_schema'', input_schema),
              (''output_schema'', case output_schema of None \<Rightarrow> JNull | Some s \<Rightarrow> s)])"

section \<open>Lemmas\<close>

definition tool_wf :: "tool \<Rightarrow> bool" where
  "tool_wf t \<longleftrightarrow> tool_post_init t = Inr t"

definition version_wf :: "tool_version \<Rightarrow> bool" where
  "version_wf v \<longleftrightarrow> version_post_init v = Inr v"

lemma tool_post_init_Inr [check_rules]:
  "tool_post_init t = Inr u \<longleftrightarrow> u = t \<and> tool_wf t"
  by (auto simp: tool_wf_def tool_post_init_def validated_Inr_iff)

lemma version_post_init_Inr [check_rules]:
  "version_post_init v = Inr u \<longleftrightarrow> u = v \<and> version_wf v"
  by (auto simp: version_wf_def version_post_init_def validated_Inr_iff)

lemma tool_wf_status: "tool_wf (t\<lparr>to_status := s\<rparr>) \<longleftrightarrow> tool_wf t"
  by (simp add: tool_wf_def tool_post_init_def validated_Inr_iff non_blank_checks_def)

lemma version_wf_iff:
  "version_wf v \<longleftrightarrow>
     \<not> blank (ve_id v) \<and> \<not> blank (ve_tenant_id v) \<and> \<not> blank (ve_tool_id v) \<and>
     \<not> blank (ve_display_name v) \<and> \<not> blank (ve_schema_digest v) \<and> \<not> blank (ve_created_by v) \<and>
     1 \<le> ve_version v \<and> \<not> input_schema_bad (ve_input_schema v) \<and>
     (ve_status v \<noteq> VERSION_DRAFT \<longrightarrow> ve_reviewed_at v \<noteq> None) \<and>
     (ve_status v \<in> {VERSION_PUBLISHED, VERSION_RETIRED} \<longrightarrow> ve_published_at v \<noteq> None) \<and>
     (ve_status v = VERSION_RETIRED \<longrightarrow> ve_retired_at v \<noteq> None)"
  by (cases "ve_status v")
    (auto simp: version_wf_def version_post_init_def validated_Inr_iff non_blank_checks_def lifecycle_checks_def)

lemma tool_activate_wf: "tool_wf t \<Longrightarrow> tool_activate t = Inr (t\<lparr>to_status := TOOL_ACTIVE\<rparr>)"
  by (auto simp: tool_activate_def check_rules tool_wf_status intro!: tool.equality)

lemma version_publish_wf:
  "version_wf v \<Longrightarrow> ve_status v = VERSION_REVIEW \<Longrightarrow>
     version_publish v at = Inr (v\<lparr>ve_status := VERSION_PUBLISHED, ve_published_at := Some at\<rparr>)"
  by (auto simp: version_publish_def check_rules version_wf_iff)

lemma version_retire_wf:
  "version_wf v \<Longrightarrow> ve_status v = VERSION_PUBLISHED \<Longrightarrow>
     version_retire v at = Inr (v\<lparr>ve_status := VERSION_RETIRED, ve_retired_at := Some at\<rparr>)"
  by (auto simp: version_retire_def check_rules version_wf_iff)

lemma submit_for_review_wf:
  "version_wf v \<Longrightarrow> ve_status v = VERSION_DRAFT \<Longrightarrow>
     submit_for_review v at = Inr (v\<lparr>ve_status := VERSION_REVIEW, ve_reviewed_at := Some at\<rparr>)"
  by (auto simp: submit_for_review_def check_rules version_wf_iff)

end
