(* ===== verification/Effects.thy ===== *)
theory Effects
  imports Errors
begin

text \<open>
  How the use cases act on the world. A \<open>prog\<close> is a Python coroutine seen from outside: from a
  state it returns a value or raises, and in both cases leaves a state. \<open>sys\<close> is what a use case
  can reach: the clock and identifier ports (arbitrary streams of answers, read one at a time;
  the clock's type is a parameter, \<open>instant\<close> or \<open>datetime\<close>) and
  the committed stores \<open>db\<close>. \<open>tx\<close> extends it with the working copy of an open unit of work.

  \<open>with_uow\<close> is \<open>async with unit_of_work_factory() as unit_of_work\<close>: the working copy starts as
  the committed stores, \<open>commit\<close> publishes it, and leaving the block drops whatever was not
  committed, also when an exception passes through. The in-memory adapters hold one lock for the
  whole block and the database adapters lock the rows they read, so a block is one atomic step.

  \<open>wp m Q s\<close> says that running \<open>m\<close> from \<open>s\<close> ends in a result and a state that satisfy \<open>Q\<close>; its
  equations are the collection \<open>wp_rules\<close>.
\<close>

section \<open>Programs\<close>

type_synonym ('s, 'a) prog = "'s \<Rightarrow> 'a result \<times> 's"

definition ret :: "'a \<Rightarrow> ('s, 'a) prog" where
  "ret x = (\<lambda>s. (Inr x, s))"

definition raise :: "exn \<Rightarrow> ('s, 'a) prog" where
  "raise e = (\<lambda>s. (Inl e, s))"

definition bind :: "('s, 'a) prog \<Rightarrow> ('a \<Rightarrow> ('s, 'b) prog) \<Rightarrow> ('s, 'b) prog" where
  "bind m f = (\<lambda>s. case m s of (Inl e, t) \<Rightarrow> (Inl e, t) | (Inr x, t) \<Rightarrow> f x t)"

definition seq :: "('s, 'a) prog \<Rightarrow> ('s, 'b) prog \<Rightarrow> ('s, 'b) prog" where
  "seq m n = bind m (\<lambda>_. n)"

text \<open>\<open>try: m except: h\<close>; the handler re-raises what its clauses do not catch.\<close>

definition catch :: "('s, 'a) prog \<Rightarrow> (exn \<Rightarrow> ('s, 'a) prog) \<Rightarrow> ('s, 'a) prog" where
  "catch m h = (\<lambda>s. case m s of (Inl e, t) \<Rightarrow> h e t | (Inr x, t) \<Rightarrow> (Inr x, t))"

text \<open>\<open>try: x = m\<close> with an \<open>else\<close>: how the body ended, as a value, for the clauses to look at.\<close>

definition attempt_run :: "('s, 'a) prog \<Rightarrow> ('s, 'a result) prog" where
  "attempt_run m = (\<lambda>s. case m s of (r, t) \<Rightarrow> (Inr r, t))"

definition lift :: "'a result \<Rightarrow> ('s, 'a) prog" where
  "lift r = (\<lambda>s. (r, s))"

definition raise_if :: "bool \<Rightarrow> exn \<Rightarrow> ('s, unit) prog" where
  "raise_if b e = (if b then raise e else ret ())"

definition require_some :: "'a option \<Rightarrow> exn \<Rightarrow> ('s, 'a) prog" where
  "require_some v e = (case v of None \<Rightarrow> raise e | Some x \<Rightarrow> ret x)"

definition gets :: "('s \<Rightarrow> 'a) \<Rightarrow> ('s, 'a) prog" where
  "gets f = (\<lambda>s. (Inr (f s), s))"

section \<open>Clock, identifiers and unit of work\<close>

record ('t, 'st) sys =
  now_at :: "nat \<Rightarrow> 't"
  ticks :: nat
  id_at :: "nat \<Rightarrow> string"
  id_count :: nat
  db :: 'st

record ('t, 'st) tx = "('t, 'st) sys" +
  working :: 'st

definition clock_now :: "(('t, 'st, 'x) sys_scheme, 't) prog" where
  "clock_now = (\<lambda>s. (Inr (now_at s (ticks s)), s\<lparr>ticks := Suc (ticks s)\<rparr>))"

definition new_id :: "(('t, 'st, 'x) sys_scheme, string) prog" where
  "new_id = (\<lambda>s. (Inr (id_at s (id_count s)), s\<lparr>id_count := Suc (id_count s)\<rparr>))"

definition enter_uow :: "('t, 'st) sys \<Rightarrow> ('t, 'st) tx" where
  "enter_uow s = sys.extend s (tx.fields (db s))"

definition exit_uow :: "('t, 'st) tx \<Rightarrow> ('t, 'st) sys" where
  "exit_uow t = sys.truncate t"

definition with_uow :: "(('t, 'st) tx, 'a) prog \<Rightarrow> (('t, 'st) sys, 'a) prog" where
  "with_uow m = (\<lambda>s. case m (enter_uow s) of (r, t) \<Rightarrow> (r, exit_uow t))"

definition commit :: "(('t, 'st) tx, unit) prog" where
  "commit = (\<lambda>t. (Inr (), t\<lparr>db := working t\<rparr>))"

definition rollback :: "(('t, 'st) tx, unit) prog" where
  "rollback = (\<lambda>t. (Inr (), t\<lparr>working := db t\<rparr>))"

text \<open>A repository method on the working copy: a query, or an update that may raise.\<close>

definition query :: "('st \<Rightarrow> 'a) \<Rightarrow> (('t, 'st) tx, 'a) prog" where
  "query f = (\<lambda>t. (Inr (f (working t)), t))"

definition update :: "('st \<Rightarrow> 'st result) \<Rightarrow> (('t, 'st) tx, unit) prog" where
  "update f = (\<lambda>t. case f (working t) of Inl e \<Rightarrow> (Inl e, t) | Inr w \<Rightarrow> (Inr (), t\<lparr>working := w\<rparr>))"

section \<open>Weakest preconditions\<close>

definition wp :: "('s, 'a) prog \<Rightarrow> ('a result \<Rightarrow> 's \<Rightarrow> bool) \<Rightarrow> 's \<Rightarrow> bool" where
  "wp m Q s = (case m s of (r, t) \<Rightarrow> Q r t)"

lemma wp_ret [wp_rules]: "wp (ret x) Q s = Q (Inr x) s"
  by (simp add: wp_def ret_def)

lemma wp_raise [wp_rules]: "wp (raise e) Q s = Q (Inl e) s"
  by (simp add: wp_def raise_def)

lemma wp_bind [wp_rules]:
  "wp (bind m f) Q s =
     wp m (\<lambda>r t. case r of Inl e \<Rightarrow> Q (Inl e) t | Inr x \<Rightarrow> wp (f x) Q t) s"
  by (simp add: wp_def bind_def split: prod.splits sum.splits)

lemma wp_seq [wp_rules]:
  "wp (seq m n) Q s = wp m (\<lambda>r t. case r of Inl e \<Rightarrow> Q (Inl e) t | Inr _ \<Rightarrow> wp n Q t) s"
  by (simp add: seq_def wp_bind)

lemma wp_catch [wp_rules]:
  "wp (catch m h) Q s =
     wp m (\<lambda>r t. case r of Inl e \<Rightarrow> wp (h e) Q t | Inr x \<Rightarrow> Q (Inr x) t) s"
  by (simp add: wp_def catch_def split: prod.splits sum.splits)

lemma wp_attempt_run [wp_rules]: "wp (attempt_run m) Q s = wp m (\<lambda>r t. Q (Inr r) t) s"
  by (simp add: wp_def attempt_run_def split: prod.splits)

lemma wp_case_sum [wp_rules]:
  "wp (case v of Inl e \<Rightarrow> m e | Inr x \<Rightarrow> f x) Q s = (case v of Inl e \<Rightarrow> wp (m e) Q s | Inr x \<Rightarrow> wp (f x) Q s)"
  by (cases v) simp_all

lemma wp_lift [wp_rules]: "wp (lift r) Q s = Q r s"
  by (simp add: wp_def lift_def)

lemma wp_raise_if [wp_rules]: "wp (raise_if b e) Q s = (if b then Q (Inl e) s else Q (Inr ()) s)"
  by (simp add: raise_if_def wp_rules)

lemma wp_require_some [wp_rules]:
  "wp (require_some v e) Q s = (case v of None \<Rightarrow> Q (Inl e) s | Some x \<Rightarrow> Q (Inr x) s)"
  by (simp add: require_some_def wp_rules split: option.splits)

lemma wp_gets [wp_rules]: "wp (gets f) Q s = Q (Inr (f s)) s"
  by (simp add: wp_def gets_def)

lemma wp_clock_now [wp_rules]:
  "wp clock_now Q s = Q (Inr (now_at s (ticks s))) (s\<lparr>ticks := Suc (ticks s)\<rparr>)"
  by (simp add: wp_def clock_now_def)

lemma wp_new_id [wp_rules]:
  "wp new_id Q s = Q (Inr (id_at s (id_count s))) (s\<lparr>id_count := Suc (id_count s)\<rparr>)"
  by (simp add: wp_def new_id_def)

lemma wp_with_uow [wp_rules]: "wp (with_uow m) Q s = wp m (\<lambda>r t. Q r (exit_uow t)) (enter_uow s)"
  by (simp add: wp_def with_uow_def split: prod.splits)

lemma wp_commit [wp_rules]: "wp commit Q t = Q (Inr ()) (t\<lparr>db := working t\<rparr>)"
  by (simp add: wp_def commit_def)

lemma wp_rollback [wp_rules]: "wp rollback Q t = Q (Inr ()) (t\<lparr>working := db t\<rparr>)"
  by (simp add: wp_def rollback_def)

lemma wp_query [wp_rules]: "wp (query f) Q t = Q (Inr (f (working t))) t"
  by (simp add: wp_def query_def)

lemma wp_update [wp_rules]:
  "wp (update f) Q t =
     (case f (working t) of Inl e \<Rightarrow> Q (Inl e) t | Inr w \<Rightarrow> Q (Inr ()) (t\<lparr>working := w\<rparr>))"
  by (simp add: wp_def update_def split: sum.splits)

lemma wp_if [wp_rules]: "wp (if b then m else n) Q s = (if b then wp m Q s else wp n Q s)"
  by simp

lemma wp_case_option [wp_rules]:
  "wp (case v of None \<Rightarrow> m | Some x \<Rightarrow> f x) Q s = (case v of None \<Rightarrow> wp m Q s | Some x \<Rightarrow> wp (f x) Q s)"
  by (cases v) simp_all

lemma wp_mono:
  assumes "wp m P s" and "\<And>r t. P r t \<Longrightarrow> Q r t"
  shows "wp m Q s"
  using assms by (auto simp: wp_def split: prod.splits)

lemma wp_conj: "wp m P s \<Longrightarrow> wp m Q s \<Longrightarrow> wp m (\<lambda>r t. P r t \<and> Q r t) s"
  by (auto simp: wp_def split: prod.splits)

lemma wpD: "wp m Q s \<Longrightarrow> m s = (r, t) \<Longrightarrow> Q r t"
  by (simp add: wp_def)

lemma wpI: "(\<And>r t. m s = (r, t) \<Longrightarrow> Q r t) \<Longrightarrow> wp m Q s"
  by (auto simp: wp_def split: prod.splits)

section \<open>Runs that return\<close>

text \<open>How a run that returned a value went; \<open>steps_Inr\<close> decomposes one step by step.\<close>

lemma bind_Inr: "bind m f s = (Inr y, t) \<longleftrightarrow> (\<exists>x u. m s = (Inr x, u) \<and> f x u = (Inr y, t))"
  by (auto simp: bind_def split: prod.splits sum.splits)

lemma seq_Inr: "seq m n s = (Inr y, t) \<longleftrightarrow> (\<exists>x u. m s = (Inr x, u) \<and> n u = (Inr y, t))"
  by (simp add: seq_def bind_Inr)

lemma raise_if_Inr: "raise_if b e s = (Inr y, t) \<longleftrightarrow> \<not> b \<and> t = s"
  by (auto simp: raise_if_def raise_def ret_def)

lemma lift_Inr: "lift r s = (Inr y, t) \<longleftrightarrow> r = Inr y \<and> t = s"
  by (auto simp: lift_def)

lemma ret_Inr: "ret x s = (Inr y, t) \<longleftrightarrow> y = x \<and> t = s"
  by (auto simp: ret_def)

lemmas run_Inr = bind_Inr seq_Inr raise_if_Inr lift_Inr ret_Inr

lemma with_uow_Inr: "with_uow m s = (Inr y, t) \<longleftrightarrow> (\<exists>v. m (enter_uow s) = (Inr y, v) \<and> t = exit_uow v)"
  by (auto simp: with_uow_def split: prod.splits)

lemma query_Inr: "query f v = (Inr y, w) \<longleftrightarrow> y = f (working v) \<and> w = v"
  by (auto simp: query_def)

lemma require_some_Inr: "require_some v e s = (Inr y, t) \<longleftrightarrow> v = Some y \<and> t = s"
  by (auto simp: require_some_def ret_def raise_def split: option.splits)

lemma gets_Inr: "gets f s = (Inr y, t) \<longleftrightarrow> y = f s \<and> t = s"
  by (auto simp: gets_def)

lemma update_Inr: "update f x = (Inr u, y) \<longleftrightarrow> (\<exists>w. f (working x) = Inr w \<and> y = x\<lparr>working := w\<rparr>)"
  by (auto simp: update_def split: sum.splits)

lemma new_id_Inr: "new_id s = (Inr i, t) \<longleftrightarrow> i = id_at s (id_count s) \<and> t = s\<lparr>id_count := Suc (id_count s)\<rparr>"
  by (auto simp: new_id_def)

lemma clock_now_Inr: "clock_now s = (Inr n, t) \<longleftrightarrow> n = now_at s (ticks s) \<and> t = s\<lparr>ticks := Suc (ticks s)\<rparr>"
  by (auto simp: clock_now_def)

lemmas steps_Inr = run_Inr query_Inr require_some_Inr update_Inr new_id_Inr clock_now_Inr gets_Inr

section \<open>States of an open unit of work\<close>

lemma enter_uow_fields [simp]:
  "now_at (enter_uow s) = now_at s" "ticks (enter_uow s) = ticks s"
  "id_at (enter_uow s) = id_at s" "id_count (enter_uow s) = id_count s"
  "db (enter_uow s) = db s" "working (enter_uow s) = db s"
  by (simp_all add: enter_uow_def sys.defs tx.defs)

lemma exit_uow_fields [simp]:
  "now_at (exit_uow t) = now_at t" "ticks (exit_uow t) = ticks t"
  "id_at (exit_uow t) = id_at t" "id_count (exit_uow t) = id_count t"
  "db (exit_uow t) = db t"
  by (simp_all add: exit_uow_def sys.defs)

lemma enter_exit [simp]: "exit_uow (enter_uow s) = s"
  by (cases s) (simp add: enter_uow_def exit_uow_def sys.defs tx.defs)

text \<open>
  Every step keeps the answers of the ports and only moves their counters forward.
\<close>

definition same_ports :: "('t, 'st, 'x) sys_scheme \<Rightarrow> ('t, 'tt, 'y) sys_scheme \<Rightarrow> bool" where
  "same_ports s t \<longleftrightarrow>
     now_at t = now_at s \<and> id_at t = id_at s \<and> ticks s \<le> ticks t \<and> id_count s \<le> id_count t"

lemma same_ports_refl [simp]: "same_ports s s"
  by (simp add: same_ports_def)

lemma same_ports_trans: "same_ports s t \<Longrightarrow> same_ports t u \<Longrightarrow> same_ports s u"
  by (auto simp: same_ports_def)

text \<open>
  What is asked of the identifier port: it never repeats itself and never returns a blank string
  (the source uses \<open>uuid4\<close>).
\<close>

definition good_ids :: "(nat \<Rightarrow> string) \<Rightarrow> bool" where
  "good_ids f \<longleftrightarrow> inj f \<and> (\<forall>n. \<not> blank (f n))"

lemma good_ids_distinct: "good_ids f \<Longrightarrow> f m = f n \<longleftrightarrow> m = n"
  by (auto simp: good_ids_def dest: injD)

lemma good_ids_not_blank: "good_ids f \<Longrightarrow> \<not> blank (f n)"
  by (simp add: good_ids_def)

text \<open>A concrete identifier port, used where a statement about the ports is instantiated.\<close>

definition sample_ids :: "nat \<Rightarrow> string" where
  "sample_ids n = ''id-'' @ replicate n (CHR ''x'')"

lemma sample_ids_good: "good_ids sample_ids"
proof -
  have "inj sample_ids" by (auto simp: inj_def sample_ids_def)
  moreover have "\<not> blank (sample_ids n)" for n
    by (simp add: blank_iff sample_ids_def py_isspace_def)
  ultimately show ?thesis by (simp add: good_ids_def)
qed

end
