(* ===== verification/Tenant_Repository.thy ===== *)
theory Tenant_Repository
  imports Effects
begin

text \<open>
  The contract of the gateway's repositories. Every one of them is a dictionary of entities that
  carry their own identifier and tenant; \<open>add\<close> refuses a foreign tenant and a taken identifier,
  \<open>save\<close> refuses a foreign tenant and an entity that the tenant does not own, and reads are
  scoped to a tenant. The \<open>tenant_repository\<close> locale states these laws over the operations a use
  case calls; tenant isolation and read-your-writes follow in it once for all repositories.

  \<open>keyed_repository\<close> is the shape of the in-memory adapters (a dictionary under the entity's
  identifier, with whatever further conditions an adapter puts on \<open>add\<close> and \<open>save\<close>); the
  \<open>sublocale\<close> shows that this shape gives the contract.
\<close>

definition scoped_get :: "('e \<Rightarrow> string) \<Rightarrow> string \<Rightarrow> string \<Rightarrow> (string, 'e) dict \<Rightarrow> 'e option" where
  "scoped_get tenant tenant_id k d =
     (case dict_get d k of None \<Rightarrow> None | Some e \<Rightarrow> if tenant e = tenant_id then Some e else None)"

text \<open>A method on one field of the store.\<close>

definition on_field :: "('w \<Rightarrow> 'f) \<Rightarrow> (('f \<Rightarrow> 'f) \<Rightarrow> 'w \<Rightarrow> 'w) \<Rightarrow> ('f \<Rightarrow> 'f result) \<Rightarrow> 'w \<Rightarrow> 'w result" where
  "on_field get upd f w = (case f (get w) of Inl e \<Rightarrow> Inl e | Inr v \<Rightarrow> Inr (upd (\<lambda>_. v) w))"

lemma on_field_Inr: "on_field get upd f w = Inr w' \<longleftrightarrow> (\<exists>v. f (get w) = Inr v \<and> w' = upd (\<lambda>_. v) w)"
  by (auto simp: on_field_def split: sum.splits)

lemma on_field_Inl: "on_field get upd f w = Inl e \<longleftrightarrow> f (get w) = Inl e"
  by (auto simp: on_field_def split: sum.splits)

lemma scoped_get_Some:
  "scoped_get tenant t k d = Some e \<longleftrightarrow> dict_get d k = Some e \<and> tenant e = t"
  by (auto simp: scoped_get_def split: option.splits)

lemma scoped_get_None:
  "scoped_get tenant t k d = None \<longleftrightarrow> (\<forall>e. dict_get d k = Some e \<longrightarrow> tenant e \<noteq> t)"
  by (auto simp: scoped_get_def split: option.splits)

lemma scoped_get_set:
  "scoped_get tenant t k (dict_set l e d) =
     (if k = l then (if tenant e = t then Some e else None) else scoped_get tenant t k d)"
  by (simp add: scoped_get_def)

locale tenant_repository =
  fixes key :: "'e \<Rightarrow> string"
    and tenant :: "'e \<Rightarrow> string"
    and get :: "string \<Rightarrow> string \<Rightarrow> 'd \<Rightarrow> 'e option"
    and add :: "string \<Rightarrow> 'e \<Rightarrow> 'd \<Rightarrow> 'd result"
    and save :: "string \<Rightarrow> 'e \<Rightarrow> 'd \<Rightarrow> 'd result"
    and invar :: "'d \<Rightarrow> bool"
  assumes get_scoped: "invar d \<Longrightarrow> get t k d = Some e \<Longrightarrow> tenant e = t \<and> key e = k"
    and add_scoped: "add t e d = Inr d' \<Longrightarrow> tenant e = t"
    and add_fresh: "add t e d = Inr d' \<Longrightarrow> get u (key e) d = None"
    and add_get: "add t e d = Inr d' \<Longrightarrow>
      get u k d' = (if k = key e then (if u = t then Some e else None) else get u k d)"
    and add_invar: "invar d \<Longrightarrow> add t e d = Inr d' \<Longrightarrow> invar d'"
    and save_scoped: "save t e d = Inr d' \<Longrightarrow> tenant e = t"
    and save_present: "save t e d = Inr d' \<Longrightarrow> get t (key e) d \<noteq> None"
    and save_get: "save t e d = Inr d' \<Longrightarrow>
      get u k d' = (if k = key e then (if u = t then Some e else None) else get u k d)"
    and save_invar: "invar d \<Longrightarrow> save t e d = Inr d' \<Longrightarrow> invar d'"
    and one_owner: "get t k d = Some e \<Longrightarrow> get u k d = Some f \<Longrightarrow> u = t"
begin

lemma read_your_add: "add t e d = Inr d' \<Longrightarrow> get t (key e) d' = Some e"
  by (simp add: add_get)

lemma read_your_save: "save t e d = Inr d' \<Longrightarrow> get t (key e) d' = Some e"
  by (simp add: save_get)

lemma add_isolated: "add t e d = Inr d' \<Longrightarrow> u \<noteq> t \<Longrightarrow> get u k d' = get u k d"
  by (simp add: add_get add_fresh)

lemma save_isolated: "save t e d = Inr d' \<Longrightarrow> u \<noteq> t \<Longrightarrow> get u k d' = get u k d"
proof -
  assume s: "save t e d = Inr d'" and u: "u \<noteq> t"
  from save_present [OF s] obtain f where "get t (key e) d = Some f" by auto
  then have "get u (key e) d = None" using one_owner u by (metis not_None_eq)
  then show ?thesis using s u by (simp add: save_get)
qed

lemma save_only_key: "save t e d = Inr d' \<Longrightarrow> k \<noteq> key e \<Longrightarrow> get u k d' = get u k d"
  by (simp add: save_get)

end

text \<open>
  The in-memory adapters: entities in a dictionary under their identifier, with whatever further
  conditions an adapter puts on \<open>add\<close> and \<open>save\<close>.
\<close>

locale keyed_repository =
  fixes key :: "'e \<Rightarrow> string"
    and tenant :: "'e \<Rightarrow> string"
    and add :: "string \<Rightarrow> 'e \<Rightarrow> (string, 'e) dict \<Rightarrow> (string, 'e) dict result"
    and save :: "string \<Rightarrow> 'e \<Rightarrow> (string, 'e) dict \<Rightarrow> (string, 'e) dict result"
  assumes add_shape: "add t e d = Inr d' \<Longrightarrow>
      tenant e = t \<and> dict_get d (key e) = None \<and> d' = dict_set (key e) e d"
    and save_shape: "save t e d = Inr d' \<Longrightarrow>
      tenant e = t \<and> (\<exists>c. dict_get d (key e) = Some c \<and> tenant c = t) \<and>
      (d' = dict_set (key e) e d \<or> d' = d \<and> dict_get d (key e) = Some e)"
begin

lemma save_lookup: "save t e d = Inr d' \<Longrightarrow> dict_get d' k = (if k = key e then Some e else dict_get d k)"
  by (auto dest!: save_shape)

lemma add_lookup: "add t e d = Inr d' \<Longrightarrow> dict_get d' k = (if k = key e then Some e else dict_get d k)"
  by (auto dest!: add_shape)

lemma add_keyed: "keyed key d \<Longrightarrow> add t e d = Inr d' \<Longrightarrow> keyed key d'"
  by (auto dest!: add_shape)

lemma save_keyed: "keyed key d \<Longrightarrow> save t e d = Inr d' \<Longrightarrow> keyed key d'"
  by (auto dest!: save_shape)

end

sublocale keyed_repository \<subseteq> scoped: tenant_repository key tenant "scoped_get tenant" add save "keyed key"
proof unfold_locales
  fix d t k e u d'
  show "keyed key d \<Longrightarrow> scoped_get tenant t k d = Some e \<Longrightarrow> tenant e = t \<and> key e = k"
    by (auto simp: scoped_get_Some dest: keyed_get)
  show "add t e d = Inr d' \<Longrightarrow> tenant e = t" by (auto dest: add_shape)
  show "add t e d = Inr d' \<Longrightarrow> scoped_get tenant u (key e) d = None"
    by (auto simp: scoped_get_None dest: add_shape)
  show "add t e d = Inr d' \<Longrightarrow> scoped_get tenant u k d' =
      (if k = key e then (if u = t then Some e else None) else scoped_get tenant u k d)"
    by (auto simp: scoped_get_set dest!: add_shape)
  show "keyed key d \<Longrightarrow> add t e d = Inr d' \<Longrightarrow> keyed key d'" by (rule add_keyed)
  show "save t e d = Inr d' \<Longrightarrow> tenant e = t" by (auto dest: save_shape)
  show "save t e d = Inr d' \<Longrightarrow> scoped_get tenant t (key e) d \<noteq> None"
    by (auto simp: scoped_get_None dest: save_shape)
  show "save t e d = Inr d' \<Longrightarrow> scoped_get tenant u k d' =
      (if k = key e then (if u = t then Some e else None) else scoped_get tenant u k d)"
    by (auto simp: scoped_get_def dest!: save_shape)
  show "keyed key d \<Longrightarrow> save t e d = Inr d' \<Longrightarrow> keyed key d'" by (rule save_keyed)
next
  fix t k d e u f
  show "scoped_get tenant t k d = Some e \<Longrightarrow> scoped_get tenant u k d = Some f \<Longrightarrow> u = t"
    by (auto simp: scoped_get_Some)
qed

end
