(* ===== verification/Connectors.thy ===== *)
theory Connectors
  imports Digests Tenant_Repository
begin

text \<open>
  The connectors module: the binding that maps one tool version to one non-secret execution
  configuration (\<open>connectors/domain.py\<close>), its digest (\<open>connectors/digests.py\<close>) and its in-memory
  repository (\<open>connectors/adapters/in_memory.py\<close>), which keeps at most one binding per version and
  tenant.
\<close>

section \<open>Domain\<close>

datatype tool_binding_type = BINDING_HTTP | BINDING_REMOTE_MCP

fun binding_type_value :: "tool_binding_type \<Rightarrow> string" where
  "binding_type_value BINDING_HTTP = ''http''"
| "binding_type_value BINDING_REMOTE_MCP = ''remote_mcp''"

datatype tool_binding_status = BINDING_DRAFT | BINDING_PUBLISHED | BINDING_DISABLED

record tool_binding =
  bi_id :: string
  bi_tenant_id :: string
  bi_tool_version_id :: string
  bi_upstream_service_id :: string
  bi_imported_operation_id :: "string option"
  bi_binding_type :: tool_binding_type
  bi_binding_config :: json
  bi_binding_digest :: string
  bi_status :: tool_binding_status
  bi_created_at :: datetime
  bi_published_at :: "datetime option"

definition binding_post_init :: "tool_binding \<Rightarrow> tool_binding result" where
  "binding_post_init b = validated
     (non_blank_checks
        [(''tool binding id'', bi_id b), (''tenant id'', bi_tenant_id b),
         (''tool version id'', bi_tool_version_id b), (''upstream service id'', bi_upstream_service_id b),
         (''binding digest'', bi_binding_digest b)] @
      [(bi_status b = BINDING_PUBLISHED \<and> bi_published_at b = None,
        ''published tool binding must have published_at'')]) b"

definition binding_publish :: "tool_binding \<Rightarrow> datetime \<Rightarrow> tool_binding result" where
  "binding_publish b published_at =
     (if bi_status b \<noteq> BINDING_DRAFT then Inl (ValueError ''only draft tool binding can be published'')
      else binding_post_init (b\<lparr>bi_status := BINDING_PUBLISHED, bi_published_at := Some published_at\<rparr>))"

definition binding_disable :: "tool_binding \<Rightarrow> tool_binding result" where
  "binding_disable b =
     (if bi_status b \<noteq> BINDING_PUBLISHED then Inl (ValueError ''only published tool binding can be disabled'')
      else binding_post_init (b\<lparr>bi_status := BINDING_DISABLED\<rparr>))"

definition calculate_binding_digest :: "(string \<Rightarrow> string) \<Rightarrow> tool_binding \<Rightarrow> string" where
  "calculate_binding_digest sha b =
     canonical_json_digest sha
       (JObj [(''binding_type'', JStr (binding_type_value (bi_binding_type b))),
              (''upstream_service_id'', JStr (bi_upstream_service_id b)),
              (''binding_config'', bi_binding_config b)])"

section \<open>Repository\<close>

type_synonym binding_store = "(string, tool_binding) dict"

definition tenant_mismatch :: exn where
  "tenant_mismatch = ValueError ''entity tenant does not match repository tenant scope''"

definition binding_get :: "string \<Rightarrow> string \<Rightarrow> binding_store \<Rightarrow> tool_binding option" where
  "binding_get tenant_id binding_id d = scoped_get bi_tenant_id tenant_id binding_id d"

definition binding_get_by_tool_version :: "string \<Rightarrow> string \<Rightarrow> binding_store \<Rightarrow> tool_binding option" where
  "binding_get_by_tool_version tenant_id tool_version_id d =
     List.find (\<lambda>b. bi_tenant_id b = tenant_id \<and> bi_tool_version_id b = tool_version_id) (dict_values d)"

definition binding_add :: "string \<Rightarrow> tool_binding \<Rightarrow> binding_store \<Rightarrow> binding_store result" where
  "binding_add tenant_id b d =
     (if tenant_id \<noteq> bi_tenant_id b then Inl tenant_mismatch
      else if dict_get d (bi_id b) \<noteq> None then Inl (ValueError ''tool binding id already exists'')
      else if binding_get_by_tool_version tenant_id (bi_tool_version_id b) d \<noteq> None
        then Inl (ValueError ''tool version already has a binding'')
      else Inr (dict_set (bi_id b) b d))"

definition binding_save :: "string \<Rightarrow> tool_binding \<Rightarrow> binding_store \<Rightarrow> binding_store result" where
  "binding_save tenant_id b d =
     (if tenant_id \<noteq> bi_tenant_id b then Inl tenant_mismatch
      else case dict_get d (bi_id b) of
        None \<Rightarrow> Inl (ValueError ''tool binding does not exist in tenant'')
      | Some current \<Rightarrow>
          if bi_tenant_id current \<noteq> tenant_id then Inl (ValueError ''tool binding does not exist in tenant'')
          else case binding_get_by_tool_version tenant_id (bi_tool_version_id b) d of
            Some version_owner \<Rightarrow>
              if bi_id version_owner \<noteq> bi_id b then Inl (ValueError ''tool version already has a binding'')
              else Inr (dict_set (bi_id b) b d)
          | None \<Rightarrow> Inr (dict_set (bi_id b) b d))"

interpretation binding_repo: keyed_repository bi_id bi_tenant_id binding_add binding_save
  by unfold_locales
    (auto simp: binding_add_def binding_save_def split: if_splits option.splits)

section \<open>Lemmas\<close>

definition binding_wf :: "tool_binding \<Rightarrow> bool" where
  "binding_wf b \<longleftrightarrow> binding_post_init b = Inr b"

lemma binding_post_init_Inr [check_rules]: "binding_post_init b = Inr c \<longleftrightarrow> c = b \<and> binding_wf b"
  by (auto simp: binding_wf_def binding_post_init_def validated_Inr_iff)

lemma binding_wf_iff:
  "binding_wf b \<longleftrightarrow>
     \<not> blank (bi_id b) \<and> \<not> blank (bi_tenant_id b) \<and> \<not> blank (bi_tool_version_id b) \<and>
     \<not> blank (bi_upstream_service_id b) \<and> \<not> blank (bi_binding_digest b) \<and>
     (bi_status b = BINDING_PUBLISHED \<longrightarrow> bi_published_at b \<noteq> None)"
  by (auto simp: binding_wf_def binding_post_init_def validated_Inr_iff non_blank_checks_def)

lemma binding_publish_wf:
  "binding_wf b \<Longrightarrow> bi_status b = BINDING_DRAFT \<Longrightarrow>
     binding_publish b at = Inr (b\<lparr>bi_status := BINDING_PUBLISHED, bi_published_at := Some at\<rparr>)"
  by (auto simp: binding_publish_def check_rules binding_wf_iff)

lemma binding_disable_wf:
  "binding_wf b \<Longrightarrow> bi_status b = BINDING_PUBLISHED \<Longrightarrow>
     binding_disable b = Inr (b\<lparr>bi_status := BINDING_DISABLED\<rparr>)"
  by (auto simp: binding_disable_def check_rules binding_wf_iff)

text \<open>One binding per version and tenant, kept by both writes.\<close>

definition one_binding_per_version :: "binding_store \<Rightarrow> bool" where
  "one_binding_per_version d \<longleftrightarrow>
     (\<forall>k l a b. dict_get d k = Some a \<longrightarrow> dict_get d l = Some b \<longrightarrow> bi_tenant_id a = bi_tenant_id b \<longrightarrow>
        bi_tool_version_id a = bi_tool_version_id b \<longrightarrow> k = l)"

lemma binding_by_version_Some:
  "binding_get_by_tool_version t v d = Some b \<Longrightarrow>
     b \<in> set (dict_values d) \<and> bi_tenant_id b = t \<and> bi_tool_version_id b = v"
  unfolding binding_get_by_tool_version_def by (drule find_Some_sat) auto

lemma binding_by_version_None:
  "binding_get_by_tool_version t v d = None \<Longrightarrow> dict_get d k = Some b \<Longrightarrow>
     \<not> (bi_tenant_id b = t \<and> bi_tool_version_id b = v)"
  unfolding binding_get_by_tool_version_def find_None by (auto dest!: dict_get_values)

lemma binding_by_version_unique:
  assumes "keyed bi_id d" "one_binding_per_version d" "dict_get d k = Some b"
  shows "binding_get_by_tool_version (bi_tenant_id b) (bi_tool_version_id b) d = Some b"
proof (cases "binding_get_by_tool_version (bi_tenant_id b) (bi_tool_version_id b) d")
  case None
  then show ?thesis using binding_by_version_None [OF None assms(3)] by simp
next
  case (Some c)
  note c = binding_by_version_Some [OF Some]
  have "dict_get d (bi_id c) = Some c" using keyed_value_get [OF assms(1) conjunct1 [OF c]] .
  then show ?thesis using assms(2,3) c Some unfolding one_binding_per_version_def by metis
qed

lemma binding_add_unique:
  assumes "one_binding_per_version d" "binding_add t b d = Inr d'"
  shows "one_binding_per_version d'"
  using assms binding_by_version_None [of t "bi_tool_version_id b" d]
  by (auto simp: binding_add_def one_binding_per_version_def split: if_splits) metis+

lemma binding_save_unique:
  assumes "keyed bi_id d" "one_binding_per_version d" "binding_save t b d = Inr d'"
  shows "one_binding_per_version d'"
proof -
  have d': "d' = dict_set (bi_id b) b d" and t: "bi_tenant_id b = t"
    using assms(3) by (auto simp: binding_save_def split: if_splits option.splits)
  have own: "k = bi_id b"
    if "dict_get d k = Some c" "bi_tenant_id c = t" "bi_tool_version_id c = bi_tool_version_id b" for k c
    using binding_by_version_unique [OF assms(1,2) that(1)] that assms(3) keyed_get [OF assms(1) that(1)]
    by (auto simp: binding_save_def split: if_splits option.splits)
  show ?thesis
    unfolding d' one_binding_per_version_def using own t assms(2)
    by (auto simp: one_binding_per_version_def)
qed

end
