(* ===== verification/Specificity.thy ===== *)
theory Specificity
  imports Errors "HOL-Library.Product_Lexorder"
begin

text \<open>
  Rule selection by specificity, the scheme that the policy evaluator and the credential resolver
  share: score every rule that applies to the input, keep the rules of the highest score. The
  \<open>specificity\<close> locale is the contract of a \<open>_specificity\<close> function (30 for a rule of the principal,
  10 for a rule of the tenant, 1 more when the rule names the tool) and holds what follows for
  any selection built on it.
\<close>

definition scored :: "('r \<Rightarrow> 'i \<Rightarrow> int option) \<Rightarrow> 'r list \<Rightarrow> 'i \<Rightarrow> (int \<times> 'r) list" where
  "scored score rules i = List.map_filter (\<lambda>r. map_option (\<lambda>s. (s, r)) (score r i)) rules"

definition most_specific :: "(int \<times> 'r) list \<Rightarrow> 'r list" where
  "most_specific cs = map snd [c \<leftarrow> cs. fst c = Max (set (map fst cs))]"

text \<open>Python's \<open>max(xs, key=f)\<close> over a non-empty sequence: the first element with the largest key.\<close>

fun py_max :: "('a \<Rightarrow> 'b::linorder) \<Rightarrow> 'a \<Rightarrow> 'a list \<Rightarrow> 'a" where
  "py_max key x [] = x"
| "py_max key x (y # ys) = py_max key (if key x < key y then y else x) ys"

lemma py_max_in: "py_max key x xs \<in> set (x # xs)"
proof (induction key x xs rule: py_max.induct)
  case (2 key x y ys)
  then show ?case by (cases "key x < key y") auto
qed simp

lemma py_max_ge_head: "key x \<le> key (py_max key x xs)"
proof (induction key x xs rule: py_max.induct)
  case (2 key x y ys)
  then show ?case by (auto split: if_splits)
qed simp

lemma py_max_ge: "y \<in> set (x # xs) \<Longrightarrow> key y \<le> key (py_max key x xs)"
proof (induction key x xs rule: py_max.induct)
  case (2 key x z zs)
  let ?w = "if key x < key z then z else x"
  have "key ?w \<le> key (py_max key ?w zs)" by (rule py_max_ge_head)
  then show ?case using 2 by (auto split: if_splits)
qed simp

lemma set_scored: "set (scored score rules i) = {(s, r). r \<in> set rules \<and> score r i = Some s}"
  by (force simp: scored_def List.map_filter_def)

lemma mset_scored_cong:
  "mset rules = mset rules' \<Longrightarrow> mset (scored score rules i) = mset (scored score rules' i)"
  by (simp add: scored_def List.map_filter_def)

lemma scored_Nil_iff: "scored score rules i = [] \<longleftrightarrow> (\<forall>r \<in> set rules. score r i = None)"
  by (auto simp: scored_def List.map_filter_def filter_empty_conv)

lemma mset_most_specific_cong:
  assumes "mset cs = mset cs'"
  shows "mset (most_specific cs) = mset (most_specific cs')"
proof -
  have "set cs = set cs'" using assms by (rule mset_eq_setD)
  then have "set (map fst cs) = set (map fst cs')" by simp
  then show ?thesis using assms by (simp add: most_specific_def)
qed

lemma most_specific_nonempty: "cs \<noteq> [] \<Longrightarrow> most_specific cs \<noteq> []"
proof -
  assume "cs \<noteq> []"
  then have "Max (set (map fst cs)) \<in> set (map fst cs)" by (intro Max_in) auto
  then obtain c where "c \<in> set cs" "fst c = Max (set (map fst cs))" by auto
  then show "most_specific cs \<noteq> []" by (auto simp: most_specific_def filter_empty_conv)
qed

locale specificity =
  fixes score :: "'r \<Rightarrow> 'i \<Rightarrow> int option"
    and applies :: "'r \<Rightarrow> 'i \<Rightarrow> bool"
    and of_principal :: "'r \<Rightarrow> bool"
    and of_tool :: "'r \<Rightarrow> bool"
  assumes score_law: "score r i =
    (if applies r i
     then Some ((if of_principal r then 30 else 10) + (if of_tool r then 1 else 0)) else None)"
begin

lemma scored_empty: "scored score rules i = [] \<longleftrightarrow> (\<forall>r \<in> set rules. \<not> applies r i)"
  by (simp add: scored_Nil_iff score_law)

lemma most_specific_iff:
  "r \<in> set (most_specific (scored score rules i)) \<longleftrightarrow>
     r \<in> set rules \<and> applies r i \<and>
     (\<forall>q \<in> set rules. applies q i \<longrightarrow> the (score q i) \<le> the (score r i))"
proof -
  let ?cs = "scored score rules i"
  have set: "set (map fst ?cs) = {s. \<exists>q \<in> set rules. score q i = Some s}"
    by (force simp: set_scored)
  have fin: "finite (set (map fst ?cs))" by (rule finite_set)
  have ap: "applies q i \<longleftrightarrow> (\<exists>s. score q i = Some s)" for q by (simp add: score_law)
  have "r \<in> set (most_specific ?cs) \<longleftrightarrow>
      (\<exists>s. r \<in> set rules \<and> score r i = Some s \<and> s = Max (set (map fst ?cs)))"
    by (force simp: most_specific_def set_scored)
  also have "\<dots> \<longleftrightarrow> r \<in> set rules \<and> (\<exists>s. score r i = Some s \<and> (\<forall>t \<in> set (map fst ?cs). t \<le> s))"
  proof -
    have "s = Max (set (map fst ?cs)) \<longleftrightarrow> (\<forall>t \<in> set (map fst ?cs). t \<le> s)"
      if "r \<in> set rules" "score r i = Some s" for s
    proof -
      have "s \<in> set (map fst ?cs)" using that by (auto simp only: set)
      then show ?thesis using Max_eqI [OF fin, of s] Max_ge [OF fin] by metis
    qed
    then show ?thesis by auto
  qed
  also have "\<dots> \<longleftrightarrow> r \<in> set rules \<and> applies r i \<and>
     (\<forall>q \<in> set rules. applies q i \<longrightarrow> the (score q i) \<le> the (score r i))"
    by (simp only: set ap mem_Collect_eq) fastforce
  finally show ?thesis .
qed

lemma principal_rule_wins:
  assumes "r \<in> set (most_specific (scored score rules i))"
    and "q \<in> set rules" "applies q i" "of_principal q"
  shows "of_principal r"
proof -
  have "applies r i" "the (score q i) \<le> the (score r i)"
    using assms by (auto simp: most_specific_iff)
  then show ?thesis using assms(3,4) by (auto simp: score_law split: if_splits)
qed

end

end
