(* ===== verification/Credentials.thy ===== *)
theory Credentials
  imports Specificity Identity
begin

text \<open>
  The credentials module: references to secrets (\<open>credentials/domain.py\<close>), the resolver that picks
  the one binding of a call (\<open>credentials/adapters/in_memory.py\<close>) and the provider that reads
  secrets from environment variables (\<open>credentials/adapters/environment.py\<close>).
\<close>

datatype credential_subject_type = CREDENTIAL_PRINCIPAL | CREDENTIAL_TENANT

datatype credential_injection_location = INJECT_HEADER | INJECT_QUERY

datatype credential_value_format = FORMAT_RAW | FORMAT_BEARER

datatype credential_binding_status = CREDENTIAL_ACTIVE | CREDENTIAL_DISABLED

record secret_reference =
  sr_provider :: string
  sr_reference :: string
  sr_version :: "string option"

definition py_contains :: "string \<Rightarrow> string \<Rightarrow> bool" where
  "py_contains needle s \<longleftrightarrow> (\<exists>i \<in> set [0..<Suc (length s)]. take (length needle) (drop i s) = needle)"

definition secret_reference_post_init :: "secret_reference \<Rightarrow> secret_reference result" where
  "secret_reference_post_init r = validated
     [(blank (sr_provider r) \<or> blank (sr_reference r),
       ''secret reference provider and reference must not be blank''),
      (py_contains ''://'' (sr_reference r),
       ''secret reference must be opaque and must not contain a URL'')] r"

record credential_binding =
  cb_id :: string
  cb_tenant_id :: string
  cb_subject_type :: credential_subject_type
  cb_subject_id :: "string option"
  cb_tool_id :: "string option"
  cb_upstream_service_id :: string
  cb_secret_reference :: secret_reference
  cb_injection_location :: credential_injection_location
  cb_injection_name :: string
  cb_value_format :: credential_value_format
  cb_status :: credential_binding_status

definition credential_binding_post_init :: "credential_binding \<Rightarrow> credential_binding result" where
  "credential_binding_post_init b = validated
     [(cb_subject_type b = CREDENTIAL_TENANT \<and> cb_subject_id b \<noteq> None,
       ''tenant credential subject must not declare subject id''),
      (cb_subject_type b \<noteq> CREDENTIAL_TENANT \<and> (cb_subject_id b = None \<or> cb_subject_id b = Some []),
       ''principal credential subject must declare subject id''),
      (blank (cb_injection_name b), ''credential injection name must not be blank'')] b"

record resolved_credential =
  rc_credential_binding_id :: string
  rc_injection_location :: credential_injection_location
  rc_injection_name :: string
  rc_value_format :: credential_value_format
  rc_value :: secret_value

section \<open>Choosing a binding\<close>

record credential_request =
  cr_tenant_id :: string
  cr_principal :: internal_principal
  cr_tool_id :: string
  cr_upstream_service_id :: string

definition credential_specificity :: "credential_binding \<Rightarrow> credential_request \<Rightarrow> int option" where
  "credential_specificity b q =
     (if cb_status b \<noteq> CREDENTIAL_ACTIVE then None
      else if cb_tenant_id b \<noteq> cr_tenant_id q \<or> cb_upstream_service_id b \<noteq> cr_upstream_service_id q then None
      else if cb_tool_id b \<noteq> None \<and> cb_tool_id b \<noteq> Some (cr_tool_id q) then None
      else if cb_subject_type b = CREDENTIAL_PRINCIPAL \<and> cb_subject_id b \<noteq> Some (pr_id (cr_principal q)) then None
      else Some ((if cb_subject_type b = CREDENTIAL_PRINCIPAL then 30 else 10) +
                 (if cb_tool_id b \<noteq> None then 1 else 0)))"

definition credential_resolve ::
  "credential_binding list \<Rightarrow> credential_request \<Rightarrow> credential_binding option result" where
  "credential_resolve bindings q =
     (if pr_tenant_id (cr_principal q) \<noteq> cr_tenant_id q
      then Inl (NexusError TenantBoundaryViolationError)
      else let candidates = scored credential_specificity bindings q in
        if candidates = [] then Inr None
        else (case most_specific candidates of
                [b] \<Rightarrow> Inr (Some b)
              | _ \<Rightarrow> Inl (NexusError CredentialBindingConflictError)))"

section \<open>Reading a secret\<close>

definition is_upper :: "char \<Rightarrow> bool" where
  "is_upper c \<longleftrightarrow> CHR ''A'' \<le> c \<and> c \<le> CHR ''Z''"

definition is_digit :: "char \<Rightarrow> bool" where
  "is_digit c \<longleftrightarrow> CHR ''0'' \<le> c \<and> c \<le> CHR ''9''"

text \<open>\<open>^[A-Z][A-Z0-9_]{0,127}$\<close> under \<open>fullmatch\<close>.\<close>

definition environment_reference_ok :: "string \<Rightarrow> bool" where
  "environment_reference_ok s =
     (case s of [] \<Rightarrow> False
      | c # cs \<Rightarrow> is_upper c \<and> length cs \<le> 127 \<and>
          list_all (\<lambda>x. is_upper x \<or> is_digit x \<or> x = CHR ''_'') cs)"

definition environment_resolve :: "(string \<Rightarrow> string option) \<Rightarrow> secret_reference \<Rightarrow> secret_value result" where
  "environment_resolve environment r =
     (if sr_provider r \<noteq> ''environment'' then Inl (NexusError CredentialResolutionError)
      else if \<not> environment_reference_ok (sr_reference r) then Inl (NexusError CredentialResolutionError)
      else case environment (sr_reference r) of
             None \<Rightarrow> Inl (NexusError CredentialResolutionError)
           | Some v \<Rightarrow> if v = [] then Inl (NexusError CredentialResolutionError) else secret_value_init v)"

section \<open>Lemmas\<close>

definition credential_applies :: "credential_binding \<Rightarrow> credential_request \<Rightarrow> bool" where
  "credential_applies b q \<longleftrightarrow>
     cb_status b = CREDENTIAL_ACTIVE \<and> cb_tenant_id b = cr_tenant_id q \<and>
     cb_upstream_service_id b = cr_upstream_service_id q \<and>
     (cb_tool_id b = None \<or> cb_tool_id b = Some (cr_tool_id q)) \<and>
     (cb_subject_type b = CREDENTIAL_PRINCIPAL \<longrightarrow> cb_subject_id b = Some (pr_id (cr_principal q)))"

interpretation credential: specificity credential_specificity credential_applies
  "\<lambda>b. cb_subject_type b = CREDENTIAL_PRINCIPAL" "\<lambda>b. cb_tool_id b \<noteq> None"
  by unfold_locales (auto simp: credential_specificity_def credential_applies_def)

lemma credential_resolve_Some:
  assumes "credential_resolve bindings q = Inr (Some b)"
  shows "most_specific (scored credential_specificity bindings q) = [b]"
    and "pr_tenant_id (cr_principal q) = cr_tenant_id q"
  using assms
  by (auto simp: credential_resolve_def Let_def split: if_splits list.splits)

text \<open>
  C18: credential selection fails closed. A binding is returned only when it is active, belongs to
  the caller's tenant and the upstream, fits principal and tool, and is the only binding of the
  highest specificity; in particular every other applicable binding is strictly less specific.
\<close>

theorem credential_resolve_unique:
  assumes "credential_resolve bindings q = Inr (Some b)"
  shows "b \<in> set bindings \<and> credential_applies b q \<and> pr_tenant_id (cr_principal q) = cr_tenant_id q \<and>
    (\<forall>c \<in> set bindings. c \<noteq> b \<longrightarrow> credential_applies c q \<longrightarrow>
       the (credential_specificity c q) < the (credential_specificity b q))"
proof -
  let ?ms = "most_specific (scored credential_specificity bindings q)"
  have ms: "?ms = [b]" using assms by (rule credential_resolve_Some)
  have b: "b \<in> set bindings" "credential_applies b q"
    "\<forall>c \<in> set bindings. credential_applies c q \<longrightarrow>
       the (credential_specificity c q) \<le> the (credential_specificity b q)"
    using credential.most_specific_iff [of b bindings q] ms by auto
  have "the (credential_specificity c q) < the (credential_specificity b q)"
    if c: "c \<in> set bindings" "c \<noteq> b" "credential_applies c q" for c
  proof (rule ccontr)
    assume "\<not> ?thesis"
    then have "the (credential_specificity c q) = the (credential_specificity b q)" using b(3) c by force
    then have "c \<in> set ?ms" using b c by (auto simp: credential.most_specific_iff)
    then show False using ms c(2) by simp
  qed
  then show ?thesis using b assms credential_resolve_Some(2) by blast
qed

definition sample_credential :: "string option \<Rightarrow> string \<Rightarrow> credential_binding" where
  "sample_credential tool_id i =
     \<lparr>cb_id = i, cb_tenant_id = ''acme'', cb_subject_type = CREDENTIAL_TENANT, cb_subject_id = None,
      cb_tool_id = tool_id, cb_upstream_service_id = ''u1'',
      cb_secret_reference = \<lparr>sr_provider = ''environment'', sr_reference = ''CRM'', sr_version = None\<rparr>,
      cb_injection_location = INJECT_HEADER, cb_injection_name = ''Authorization'',
      cb_value_format = FORMAT_BEARER, cb_status = CREDENTIAL_ACTIVE\<rparr>"

definition sample_credential_request :: credential_request where
  "sample_credential_request =
     \<lparr>cr_tenant_id = ''acme'',
      cr_principal = \<lparr>pr_id = ''agent'', pr_tenant_id = ''acme'', pr_principal_type = AGENT_SERVICE, pr_authn_method = ''bearer''\<rparr>,
      cr_tool_id = ''tool'', cr_upstream_service_id = ''u1''\<rparr>"

theorem credential_resolve_unique_witness:
  "the (credential_specificity (sample_credential None ''a'') sample_credential_request) <
   the (credential_specificity (sample_credential (Some ''tool'') ''b'') sample_credential_request)"
proof -
  have r: "credential_resolve [sample_credential None ''a'', sample_credential (Some ''tool'') ''b'']
      sample_credential_request = Inr (Some (sample_credential (Some ''tool'') ''b''))" by code_simp
  have "credential_applies (sample_credential None ''a'') sample_credential_request"
    by (simp add: credential_applies_def sample_credential_def sample_credential_request_def)
  moreover have "sample_credential None ''a'' \<noteq> sample_credential (Some ''tool'') ''b''"
    by (simp add: sample_credential_def)
  ultimately show ?thesis using credential_resolve_unique [OF r] by simp
qed

text \<open>
  The same selection refuses instead of guessing: with two equally specific best bindings the
  call ends in \<open>CredentialBindingConflictError\<close>, and \<open>None\<close> means that no binding applies.
\<close>

theorem credential_resolve_conflict:
  assumes "pr_tenant_id (cr_principal q) = cr_tenant_id q"
  shows "(credential_resolve bindings q = Inr None \<longleftrightarrow> (\<forall>b \<in> set bindings. \<not> credential_applies b q)) \<and>
    (credential_resolve bindings q = Inl (NexusError CredentialBindingConflictError) \<longleftrightarrow>
       1 < length (most_specific (scored credential_specificity bindings q)))"
proof -
  let ?cs = "scored credential_specificity bindings q"
  have "?cs \<noteq> [] \<Longrightarrow> most_specific ?cs \<noteq> []" by (rule most_specific_nonempty)
  moreover have "?cs = [] \<Longrightarrow> most_specific ?cs = []" by (simp add: most_specific_def)
  ultimately show ?thesis
    using assms
    by (auto simp: credential_resolve_def Let_def credential.scored_empty split: list.splits)
qed

theorem credential_resolve_conflict_witness:
  "credential_resolve [sample_credential None ''a'', sample_credential None ''b''] sample_credential_request =
     Inl (NexusError CredentialBindingConflictError)"
proof -
  have t: "pr_tenant_id (cr_principal sample_credential_request) = cr_tenant_id sample_credential_request"
    by (simp add: sample_credential_request_def)
  have "1 < length (most_specific (scored credential_specificity
      [sample_credential None ''a'', sample_credential None ''b''] sample_credential_request))" by code_simp
  then show ?thesis
    using credential_resolve_conflict [OF t, of "[sample_credential None ''a'', sample_credential None ''b'']"] by simp
qed

end
