(* ===== verification/Execution_Domain.thy ===== *)
theory Execution_Domain
  imports Complex_Main Catalog_Domain Connectors Credentials
begin

text \<open>
  The execution module's domain (\<open>execution/domain.py\<close>): the call command, the resolved tool, the
  persisted execution and its attempts with their state machines, and the retry decision. Seconds
  are rationals: the source only compares a timeout with zero and scales a backoff by powers of two.
\<close>

section \<open>Data\<close>

datatype execution_status = EX_PLANNED | EX_RUNNING | EX_SUCCEEDED | EX_FAILED | EX_UNKNOWN | EX_CANCELLED

fun execution_status_value :: "execution_status \<Rightarrow> string" where
  "execution_status_value EX_PLANNED = ''planned''"
| "execution_status_value EX_RUNNING = ''running''"
| "execution_status_value EX_SUCCEEDED = ''succeeded''"
| "execution_status_value EX_FAILED = ''failed''"
| "execution_status_value EX_UNKNOWN = ''unknown''"
| "execution_status_value EX_CANCELLED = ''cancelled''"

datatype mcp_scope_type = SCOPE_ROOT | SCOPE_TOOLSET

fun scope_type_value :: "mcp_scope_type \<Rightarrow> string" where
  "scope_type_value SCOPE_ROOT = ''root''"
| "scope_type_value SCOPE_TOOLSET = ''toolset''"

datatype retry_decision = RETRY | DO_NOT_RETRY | REQUIRE_RECONCILIATION

datatype attempt_status = AT_RUNNING | AT_SUCCEEDED | AT_FAILED | AT_UNKNOWN | AT_CANCELLED

record call_tool_command =
  ca_context :: actor_context
  ca_tool_name :: string
  ca_arguments :: json
  ca_idempotency_key :: "string option"
  ca_approval_id :: "string option"
  ca_mcp_scope_type :: mcp_scope_type
  ca_toolset_id :: "string option"
  ca_toolset_revision :: "int option"

record resolved_tool =
  rt_tenant_id :: string
  rt_tool_id :: string
  rt_tool_version_id :: string
  rt_tool_binding_id :: string
  rt_upstream_service_id :: string
  rt_canonical_name :: string
  rt_version :: int
  rt_input_schema :: json
  rt_output_schema :: "json option"
  rt_side_effect :: tool_side_effect
  rt_visibility :: tool_visibility
  rt_binding_type :: tool_binding_type
  rt_binding_config :: json
  rt_upstream_endpoint :: string
  rt_upstream_auth_scheme :: "string option"

record tool_execution =
  ex_id :: string
  ex_tenant_id :: string
  ex_request_id :: string
  ex_trace_id :: string
  ex_principal_id :: string
  ex_tool_id :: string
  ex_tool_version_id :: string
  ex_tool_binding_id :: string
  ex_arguments_digest :: string
  ex_policy_version :: string
  ex_policy_reason_code :: string
  ex_side_effect :: tool_side_effect
  ex_status :: execution_status
  ex_planned_at :: instant
  ex_approval_id :: "string option"
  ex_credential_binding_id :: "string option"
  ex_idempotency_key :: "string option"
  ex_started_at :: "instant option"
  ex_finished_at :: "instant option"
  ex_error_code :: "string option"
  ex_error_category :: "execution_error_category option"
  ex_attempt_count :: int
  ex_mcp_scope_type :: mcp_scope_type
  ex_toolset_id :: "string option"
  ex_toolset_revision :: "int option"

record executor_request =
  er_execution_id :: string
  er_tool :: resolved_tool
  er_arguments :: json
  er_timeout_seconds :: rat
  er_idempotency_key :: "string option"

record executor_result =
  es_data :: json
  es_content_type :: "string option"
  es_upstream_status :: "int option"

record call_tool_result =
  cr_execution_id :: string
  cr_data :: json
  cr_content_type :: "string option"
  cr_upstream_status :: "int option"
  cr_attempt_count :: int

record execution_attempt =
  at_id :: string
  at_tenant_id :: string
  at_execution_id :: string
  at_attempt_number :: int
  at_status :: attempt_status
  at_started_at :: instant
  at_finished_at :: "instant option"
  at_error_code :: "string option"
  at_error_category :: "execution_error_category option"
  at_upstream_status :: "int option"

section \<open>Validation\<close>

definition idempotency_key_characters :: string where
  "idempotency_key_characters = ''ABCDEFGHIJKLMNOPQRSTUVWXYZabcdefghijklmnopqrstuvwxyz0123456789._:-''"

definition is_valid_idempotency_key :: "string \<Rightarrow> bool" where
  "is_valid_idempotency_key v \<longleftrightarrow>
     1 \<le> length v \<and> length v \<le> 128 \<and> list_all (\<lambda>c. c \<in> set idempotency_key_characters) v"

definition mcp_scope_checks :: "mcp_scope_type \<Rightarrow> string option \<Rightarrow> int option \<Rightarrow> (bool \<times> string) list" where
  "mcp_scope_checks scope_type toolset_id toolset_revision =
     [(scope_type = SCOPE_ROOT \<and> (toolset_id \<noteq> None \<or> toolset_revision \<noteq> None),
       ''root MCP scope must not declare toolset context''),
      (scope_type = SCOPE_TOOLSET \<and>
         (toolset_id = None \<or> toolset_id = Some [] \<or>
          (case toolset_revision of None \<Rightarrow> True | Some r \<Rightarrow> r \<le> 0)),
       ''toolset MCP scope requires toolset id and positive revision'')]"

definition call_command_post_init :: "call_tool_command \<Rightarrow> call_tool_command result" where
  "call_command_post_init c = validated
     ([(blank (ca_tool_name c), ''tool name must not be blank''),
       (case ca_idempotency_key c of None \<Rightarrow> False | Some k \<Rightarrow> \<not> is_valid_idempotency_key k,
        ''idempotency key must be 1-128 safe ASCII token characters'')] @
      mcp_scope_checks (ca_mcp_scope_type c) (ca_toolset_id c) (ca_toolset_revision c)) c"

definition command_arguments_digest :: "(string \<Rightarrow> string) \<Rightarrow> call_tool_command \<Rightarrow> string" where
  "command_arguments_digest sha c = canonical_json_digest sha (ca_arguments c)"

definition execution_post_init :: "tool_execution \<Rightarrow> tool_execution result" where
  "execution_post_init e = validated
     (non_blank_checks
        [(''execution id'', ex_id e), (''tenant id'', ex_tenant_id e), (''request id'', ex_request_id e),
         (''trace id'', ex_trace_id e), (''principal id'', ex_principal_id e), (''tool id'', ex_tool_id e),
         (''tool version id'', ex_tool_version_id e), (''tool binding id'', ex_tool_binding_id e),
         (''arguments digest'', ex_arguments_digest e), (''policy version'', ex_policy_version e),
         (''policy reason code'', ex_policy_reason_code e)] @
      [(ex_status e = EX_PLANNED \<and> (ex_started_at e \<noteq> None \<or> ex_finished_at e \<noteq> None),
        ''planned execution must not have start or finish time''),
       (ex_status e = EX_RUNNING \<and> ex_started_at e = None, ''running execution must have started_at''),
       (ex_status e \<in> {EX_SUCCEEDED, EX_FAILED, EX_UNKNOWN, EX_CANCELLED} \<and> ex_finished_at e = None,
        ''terminal execution must have finished_at''),
       (ex_status e \<in> {EX_PLANNED, EX_RUNNING} \<and> (ex_error_code e \<noteq> None \<or> ex_error_category e \<noteq> None),
        ''non-terminal execution must not have error state''),
       (ex_status e = EX_SUCCEEDED \<and> (ex_error_code e \<noteq> None \<or> ex_error_category e \<noteq> None),
        ''succeeded execution must not have error state''),
       (ex_status e \<in> {EX_FAILED, EX_UNKNOWN, EX_CANCELLED} \<and>
          (ex_error_code e = None \<or> ex_error_category e = None),
        ''unsuccessful terminal execution must contain error state''),
       (ex_attempt_count e < 0, ''execution attempt count must not be negative'')] @
      mcp_scope_checks (ex_mcp_scope_type e) (ex_toolset_id e) (ex_toolset_revision e)) e"

definition executor_request_post_init :: "executor_request \<Rightarrow> executor_request result" where
  "executor_request_post_init r = validated [(er_timeout_seconds r \<le> 0, ''executor timeout must be positive'')] r"

definition attempt_post_init :: "execution_attempt \<Rightarrow> execution_attempt result" where
  "attempt_post_init a = validated
     (non_blank_checks
        [(''execution attempt id'', at_id a), (''tenant id'', at_tenant_id a),
         (''execution id'', at_execution_id a)] @
      [(at_attempt_number a \<le> 0, ''execution attempt number must be positive''),
       (case at_upstream_status a of None \<Rightarrow> False | Some c \<Rightarrow> \<not> (100 \<le> c \<and> c \<le> 599),
        ''execution attempt upstream status was invalid''),
       (at_status a = AT_RUNNING \<and> at_finished_at a \<noteq> None,
        ''running execution attempt must not have finished_at''),
       (at_status a \<noteq> AT_RUNNING \<and> at_finished_at a = None,
        ''terminal execution attempt must have finished_at''),
       (at_status a \<in> {AT_RUNNING, AT_SUCCEEDED} \<and> (at_error_code a \<noteq> None \<or> at_error_category a \<noteq> None),
        ''running or succeeded attempt must not have error state''),
       (at_status a \<in> {AT_FAILED, AT_UNKNOWN, AT_CANCELLED} \<and>
          (at_error_code a = None \<or> at_error_category a = None),
        ''unsuccessful attempt must contain error state'')]) a"

section \<open>Transitions of an execution\<close>

definition execution_require_running :: "tool_execution \<Rightarrow> unit result" where
  "execution_require_running e =
     (if ex_status e \<noteq> EX_RUNNING
      then Inl (ValueError ''execution must be running before terminal transition'') else Inr ())"

definition execution_start :: "tool_execution \<Rightarrow> instant \<Rightarrow> tool_execution result" where
  "execution_start e started_at =
     (if ex_status e \<noteq> EX_PLANNED then Inl (ValueError ''only planned execution can start'')
      else execution_post_init (e\<lparr>ex_status := EX_RUNNING, ex_started_at := Some started_at\<rparr>))"

definition execution_register_attempt :: "tool_execution \<Rightarrow> tool_execution result" where
  "execution_register_attempt e =
     result_bind (execution_require_running e) (\<lambda>_.
       execution_post_init (e\<lparr>ex_attempt_count := ex_attempt_count e + 1\<rparr>))"

definition execution_succeed :: "tool_execution \<Rightarrow> instant \<Rightarrow> tool_execution result" where
  "execution_succeed e finished_at =
     result_bind (execution_require_running e) (\<lambda>_.
       execution_post_init (e\<lparr>ex_status := EX_SUCCEEDED, ex_finished_at := Some finished_at\<rparr>))"

definition execution_fail ::
  "tool_execution \<Rightarrow> string \<Rightarrow> execution_error_category \<Rightarrow> instant \<Rightarrow> tool_execution result" where
  "execution_fail e code category finished_at =
     result_bind (execution_require_running e) (\<lambda>_.
       execution_post_init (e\<lparr>ex_status := EX_FAILED, ex_error_code := Some code,
         ex_error_category := Some category, ex_finished_at := Some finished_at\<rparr>))"

definition execution_mark_unknown :: "tool_execution \<Rightarrow> string \<Rightarrow> instant \<Rightarrow> tool_execution result" where
  "execution_mark_unknown e code finished_at =
     result_bind (execution_require_running e) (\<lambda>_.
       execution_post_init (e\<lparr>ex_status := EX_UNKNOWN, ex_error_code := Some code,
         ex_error_category := Some CATEGORY_UNKNOWN, ex_finished_at := Some finished_at\<rparr>))"

definition execution_cancel :: "tool_execution \<Rightarrow> instant \<Rightarrow> tool_execution result" where
  "execution_cancel e finished_at =
     (if ex_status e \<notin> {EX_PLANNED, EX_RUNNING}
      then Inl (ValueError ''only planned or running execution can be cancelled'')
      else execution_post_init (e\<lparr>ex_status := EX_CANCELLED, ex_error_code := Some ''execution_cancelled'',
         ex_error_category := Some CATEGORY_CANCELLED, ex_finished_at := Some finished_at\<rparr>))"

section \<open>Transitions of an attempt\<close>

definition attempt_require_running :: "execution_attempt \<Rightarrow> unit result" where
  "attempt_require_running a =
     (if at_status a \<noteq> AT_RUNNING
      then Inl (ValueError ''execution attempt must be running before terminal transition'') else Inr ())"

definition attempt_succeed :: "execution_attempt \<Rightarrow> instant \<Rightarrow> int option \<Rightarrow> execution_attempt result" where
  "attempt_succeed a finished_at upstream_status =
     result_bind (attempt_require_running a) (\<lambda>_.
       attempt_post_init (a\<lparr>at_status := AT_SUCCEEDED, at_finished_at := Some finished_at,
         at_upstream_status := upstream_status\<rparr>))"

definition attempt_fail ::
  "execution_attempt \<Rightarrow> string \<Rightarrow> execution_error_category \<Rightarrow> instant \<Rightarrow> bool \<Rightarrow> int option \<Rightarrow>
   execution_attempt result" where
  "attempt_fail a code category finished_at outcome_unknown upstream_status =
     result_bind (attempt_require_running a) (\<lambda>_.
       attempt_post_init (a\<lparr>at_status := (if outcome_unknown then AT_UNKNOWN else AT_FAILED),
         at_finished_at := Some finished_at, at_error_code := Some code,
         at_error_category := Some category, at_upstream_status := upstream_status\<rparr>))"

definition attempt_cancel :: "execution_attempt \<Rightarrow> instant \<Rightarrow> execution_attempt result" where
  "attempt_cancel a finished_at =
     result_bind (attempt_require_running a) (\<lambda>_.
       attempt_post_init (a\<lparr>at_status := AT_CANCELLED, at_finished_at := Some finished_at,
         at_error_code := Some ''attempt_cancelled'', at_error_category := Some CATEGORY_CANCELLED\<rparr>))"

section \<open>Retry decision\<close>

definition retry_disposition :: "tool_side_effect \<Rightarrow> execution_error_category \<Rightarrow> bool \<Rightarrow> retry_decision" where
  "retry_disposition side_effect error_category has_idempotency_key =
     (if error_category \<in> {VALIDATION, AUTHENTICATION, AUTHORIZATION, APPROVAL, CREDENTIAL, UPSTREAM_4XX,
                           CATEGORY_CANCELLED} then DO_NOT_RETRY
      else if error_category \<in> {TIMEOUT_AFTER_SEND, CATEGORY_UNKNOWN} \<and>
              side_effect \<in> {NON_IDEMPOTENT_WRITE, SIDE_EFFECT_UNKNOWN} then REQUIRE_RECONCILIATION
      else if error_category \<notin> {TIMEOUT_BEFORE_SEND, TIMEOUT_AFTER_SEND, NETWORK, UPSTREAM_5XX,
                                 CATEGORY_UNKNOWN} then DO_NOT_RETRY
      else if side_effect = READ_ONLY then RETRY
      else if side_effect = IDEMPOTENT_WRITE \<and> has_idempotency_key then RETRY
      else DO_NOT_RETRY)"

section \<open>Well-formed executions and attempts\<close>

definition execution_wf :: "tool_execution \<Rightarrow> bool" where
  "execution_wf e \<longleftrightarrow> execution_post_init e = Inr e"

definition attempt_wf :: "execution_attempt \<Rightarrow> bool" where
  "attempt_wf a \<longleftrightarrow> attempt_post_init a = Inr a"

lemma execution_post_init_Inr [check_rules]: "execution_post_init e = Inr f \<longleftrightarrow> f = e \<and> execution_wf e"
  by (auto simp: execution_wf_def execution_post_init_def validated_Inr_iff)

lemma attempt_post_init_Inr [check_rules]: "attempt_post_init a = Inr b \<longleftrightarrow> b = a \<and> attempt_wf a"
  by (auto simp: attempt_wf_def attempt_post_init_def validated_Inr_iff)

definition scope_ok :: "mcp_scope_type \<Rightarrow> string option \<Rightarrow> int option \<Rightarrow> bool" where
  "scope_ok sc t r \<longleftrightarrow>
     (case sc of SCOPE_ROOT \<Rightarrow> t = None \<and> r = None
      | SCOPE_TOOLSET \<Rightarrow> (\<exists>x. t = Some x \<and> x \<noteq> []) \<and> (\<exists>n. r = Some n \<and> 0 < n))"

lemma mcp_scope_checks_ok [check_rules]:
  "(\<forall>c \<in> set (mcp_scope_checks sc t r). \<not> fst c) \<longleftrightarrow> scope_ok sc t r"
  by (cases sc; cases t; cases r) (auto simp: mcp_scope_checks_def scope_ok_def)

definition execution_text_ok :: "tool_execution \<Rightarrow> bool" where
  "execution_text_ok e \<longleftrightarrow>
     \<not> blank (ex_id e) \<and> \<not> blank (ex_tenant_id e) \<and> \<not> blank (ex_request_id e) \<and> \<not> blank (ex_trace_id e) \<and>
     \<not> blank (ex_principal_id e) \<and> \<not> blank (ex_tool_id e) \<and> \<not> blank (ex_tool_version_id e) \<and>
     \<not> blank (ex_tool_binding_id e) \<and> \<not> blank (ex_arguments_digest e) \<and> \<not> blank (ex_policy_version e) \<and>
     \<not> blank (ex_policy_reason_code e) \<and>
     scope_ok (ex_mcp_scope_type e) (ex_toolset_id e) (ex_toolset_revision e)"

definition execution_shape :: "tool_execution \<Rightarrow> bool" where
  "execution_shape e =
     (case ex_status e of
        EX_PLANNED \<Rightarrow> ex_started_at e = None \<and> ex_finished_at e = None \<and> ex_error_code e = None \<and>
          ex_error_category e = None
      | EX_RUNNING \<Rightarrow> ex_started_at e \<noteq> None \<and> ex_error_code e = None \<and> ex_error_category e = None
      | EX_SUCCEEDED \<Rightarrow> ex_finished_at e \<noteq> None \<and> ex_error_code e = None \<and> ex_error_category e = None
      | _ \<Rightarrow> ex_finished_at e \<noteq> None \<and> ex_error_code e \<noteq> None \<and> ex_error_category e \<noteq> None)"

lemma execution_wf_iff:
  "execution_wf e \<longleftrightarrow> execution_text_ok e \<and> execution_shape e \<and> 0 \<le> ex_attempt_count e"
proof -
  have "execution_wf e \<longleftrightarrow> execution_text_ok e \<and>
     (ex_status e = EX_PLANNED \<longrightarrow> ex_started_at e = None \<and> ex_finished_at e = None) \<and>
     (ex_status e = EX_RUNNING \<longrightarrow> ex_started_at e \<noteq> None) \<and>
     (ex_status e \<in> {EX_SUCCEEDED, EX_FAILED, EX_UNKNOWN, EX_CANCELLED} \<longrightarrow> ex_finished_at e \<noteq> None) \<and>
     (ex_status e \<in> {EX_PLANNED, EX_RUNNING} \<longrightarrow> ex_error_code e = None \<and> ex_error_category e = None) \<and>
     (ex_status e = EX_SUCCEEDED \<longrightarrow> ex_error_code e = None \<and> ex_error_category e = None) \<and>
     (ex_status e \<in> {EX_FAILED, EX_UNKNOWN, EX_CANCELLED} \<longrightarrow>
        ex_error_code e \<noteq> None \<and> ex_error_category e \<noteq> None) \<and> 0 \<le> ex_attempt_count e"
    unfolding execution_wf_def execution_post_init_def validated_Inr_iff execution_text_ok_def
      mcp_scope_checks_ok [symmetric]
    by (simp only: ball_Un set_append list.set ball_simps non_blank_checks_ok fst_conv prod.case HOL.simp_thms
        de_Morgan_conj de_Morgan_disj not_less imp_conv_disj not_not) blast
  then show ?thesis by (cases "ex_status e") (auto simp: execution_shape_def)
qed

lemma attempt_wf_iff:
  "attempt_wf a \<longleftrightarrow>
     \<not> blank (at_id a) \<and> \<not> blank (at_tenant_id a) \<and> \<not> blank (at_execution_id a) \<and> 0 < at_attempt_number a \<and>
     (\<forall>c. at_upstream_status a = Some c \<longrightarrow> 100 \<le> c \<and> c \<le> 599) \<and>
     (at_status a = AT_RUNNING \<longleftrightarrow> at_finished_at a = None) \<and>
     (at_status a \<in> {AT_RUNNING, AT_SUCCEEDED} \<longrightarrow> at_error_code a = None \<and> at_error_category a = None) \<and>
     (at_status a \<in> {AT_FAILED, AT_UNKNOWN, AT_CANCELLED} \<longrightarrow>
        at_error_code a \<noteq> None \<and> at_error_category a \<noteq> None)"
  by (cases "at_status a")
    (auto simp: attempt_wf_def attempt_post_init_def validated_Inr_iff non_blank_checks_def not_le
       split: option.splits)

end
