(* ===== verification/Audit_Log.thy ===== *)
theory Audit_Log
  imports Identity Effects
begin

text \<open>
  The audit module: \<open>AuditEvent\<close> with its redaction check (\<open>audit/domain.py\<close>), the metadata that
  records the MCP scope of a request (\<open>audit/scope.py\<close>) and the append-only repository
  (\<open>audit/adapters/in_memory.py\<close>).
\<close>

datatype audit_action = TOOL_CALL | APPROVAL_DECISION | CREDENTIAL_RESOLUTION

datatype audit_outcome =
    OUTCOME_ALLOWED | OUTCOME_DENIED | OUTCOME_APPROVAL_REQUIRED
  | OUTCOME_SUCCEEDED | OUTCOME_FAILED | OUTCOME_UNKNOWN | OUTCOME_CANCELLED

datatype audit_value = AuditStr string | AuditInt int

record audit_event =
  au_id :: string
  au_tenant_id :: string
  au_actor_id :: string
  au_action :: audit_action
  au_resource_type :: string
  au_resource_id :: string
  au_outcome :: audit_outcome
  au_request_id :: string
  au_trace_id :: string
  au_occurred_at :: instant
  au_arguments_digest :: "string option"
  au_policy_version :: "string option"
  au_reason_code :: "string option"
  au_execution_id :: "string option"
  au_metadata :: "(string, audit_value) dict option"

definition sensitive_keys :: "string list" where
  "sensitive_keys =
     [''api_key'', ''arguments'', ''authorization'', ''cookie'', ''password'', ''result'', ''secret'', ''token'']"

definition normalized_key :: "string \<Rightarrow> string" where
  "normalized_key k = py_replace_char (CHR ''-'') (CHR ''_'') (py_lower (py_strip k))"

definition audit_post_init :: "audit_event \<Rightarrow> audit_event result" where
  "audit_post_init ev = validated
     (non_blank_checks
        [(''audit id'', au_id ev), (''tenant id'', au_tenant_id ev), (''actor id'', au_actor_id ev),
         (''resource type'', au_resource_type ev), (''resource id'', au_resource_id ev),
         (''request id'', au_request_id ev), (''trace id'', au_trace_id ev)] @
      [(case au_metadata ev of
          None \<Rightarrow> False
        | Some md \<Rightarrow> \<exists>k \<in> set (map (normalized_key \<circ> fst) md). k \<in> set sensitive_keys,
        ''audit metadata must not contain sensitive fields'')]) ev"

section \<open>Scope evidence\<close>

record scope_evidence =
  sc_scope_type :: string
  sc_toolset_id :: "string option"
  sc_toolset_revision :: "int option"
  sc_toolset_slug :: "string option"

definition scope_evidence_post_init :: "scope_evidence \<Rightarrow> scope_evidence result" where
  "scope_evidence_post_init sc = validated
     [(sc_scope_type sc \<notin> {''root'', ''toolset''}, ''audit MCP scope type was invalid''),
      (sc_scope_type sc = ''root'' \<and>
         (sc_toolset_id sc \<noteq> None \<or> sc_toolset_revision sc \<noteq> None \<or> sc_toolset_slug sc \<noteq> None),
       ''root audit scope must not contain toolset context''),
      ((sc_toolset_id sc = None) \<noteq> (sc_toolset_revision sc = None),
       ''audit toolset id and revision must appear together''),
      (case sc_toolset_revision sc of None \<Rightarrow> False | Some r \<Rightarrow> r \<le> 0,
       ''audit toolset revision must be positive'')] sc"

text \<open>\<open>denial_reason_code or default\<close>: a missing or empty code falls back to the scope's own.\<close>

definition scope_metadata :: "scope_evidence \<Rightarrow> string option \<Rightarrow> (string, audit_value) dict" where
  "scope_metadata sc denial_reason_code =
     [(''mcp_scope_type'', AuditStr (sc_scope_type sc)),
      (''scope_reason_code'', AuditStr
         (case denial_reason_code of
            Some code \<Rightarrow> if code = [] then (if sc_scope_type sc = ''toolset'' then ''active_toolset_grant''
                                         else ''granted_toolset_union'') else code
          | None \<Rightarrow> if sc_scope_type sc = ''toolset'' then ''active_toolset_grant''
                    else ''granted_toolset_union''))] @
     (case sc_toolset_id sc of None \<Rightarrow> [] | Some t \<Rightarrow> [(''toolset_id'', AuditStr t)]) @
     (case sc_toolset_revision sc of None \<Rightarrow> [] | Some r \<Rightarrow> [(''toolset_revision'', AuditInt r)]) @
     (case sc_toolset_slug sc of None \<Rightarrow> [] | Some g \<Rightarrow> [(''toolset_slug'', AuditStr g)])"

section \<open>Repository\<close>

type_synonym audit_store = "(string, audit_event) dict"

definition audit_append :: "audit_event \<Rightarrow> audit_store \<Rightarrow> audit_store result" where
  "audit_append ev events =
     (if dict_get events (au_id ev) \<noteq> None then Inl (ValueError ''audit event id already exists'')
      else Inr (dict_set (au_id ev) ev events))"

definition audit_list_by_tenant :: "string \<Rightarrow> audit_store \<Rightarrow> audit_event list" where
  "audit_list_by_tenant tenant_id events = [ev \<leftarrow> dict_values events. au_tenant_id ev = tenant_id]"

definition audit_list_by_execution :: "string \<Rightarrow> string \<Rightarrow> audit_store \<Rightarrow> audit_event list" where
  "audit_list_by_execution tenant_id execution_id events =
     [ev \<leftarrow> dict_values events. au_tenant_id ev = tenant_id \<and> au_execution_id ev = Some execution_id]"

section \<open>Lemmas\<close>

lemma audit_append_Inr:
  "audit_append ev a = Inr b \<longleftrightarrow> dict_get a (au_id ev) = None \<and> b = a @ [(au_id ev, ev)]"
  by (auto simp: audit_append_def dict_set_fresh)

lemma audit_append_fresh:
  "dict_get a (au_id ev) = None \<Longrightarrow> audit_append ev a = Inr (a @ [(au_id ev, ev)])"
  by (simp add: audit_append_Inr)

lemma audit_post_init_Inr [check_rules]:
  "audit_post_init ev = Inr ev' \<longleftrightarrow> ev' = ev \<and>
     \<not> blank (au_id ev) \<and> \<not> blank (au_tenant_id ev) \<and> \<not> blank (au_actor_id ev) \<and>
     \<not> blank (au_resource_type ev) \<and> \<not> blank (au_resource_id ev) \<and> \<not> blank (au_request_id ev) \<and>
     \<not> blank (au_trace_id ev) \<and>
     (case au_metadata ev of None \<Rightarrow> True
      | Some md \<Rightarrow> \<forall>k \<in> fst ` set md. normalized_key k \<notin> set sensitive_keys)"
  by (auto simp: audit_post_init_def validated_Inr_iff non_blank_checks_def split: option.splits)

lemma scope_evidence_Inr [check_rules]:
  "scope_evidence_post_init sc = Inr sc' \<longleftrightarrow> sc' = sc \<and>
     (sc_scope_type sc = ''root'' \<and> sc_toolset_id sc = None \<and> sc_toolset_revision sc = None \<and>
        sc_toolset_slug sc = None \<or>
      sc_scope_type sc = ''toolset'' \<and>
        (sc_toolset_id sc = None \<longleftrightarrow> sc_toolset_revision sc = None) \<and>
        (\<forall>r. sc_toolset_revision sc = Some r \<longrightarrow> 0 < r))"
  by (auto simp: scope_evidence_post_init_def validated_Inr_iff split: option.splits)

text \<open>The keys of scope metadata are never sensitive ones.\<close>

definition scope_keys :: "string list" where
  "scope_keys = [''mcp_scope_type'', ''scope_reason_code'', ''toolset_id'', ''toolset_revision'', ''toolset_slug'']"

lemma scope_metadata_keys: "fst ` set (scope_metadata sc r) \<subseteq> set scope_keys"
  by (auto simp: scope_metadata_def scope_keys_def split: option.splits)

lemma normalized_key_scope: "map normalized_key scope_keys = scope_keys"
  by code_simp

lemma scope_keys_safe: "k \<in> set scope_keys \<Longrightarrow> normalized_key k \<notin> set sensitive_keys"
proof -
  assume "k \<in> set scope_keys"
  then have "normalized_key k \<in> set (map normalized_key scope_keys)" by simp
  then have "normalized_key k \<in> set scope_keys" by (simp only: normalized_key_scope)
  then show ?thesis by (auto simp: scope_keys_def sensitive_keys_def)
qed

lemma scope_metadata_safe: "k \<in> fst ` set (scope_metadata sc r) \<Longrightarrow> normalized_key k \<notin> set sensitive_keys"
  using scope_metadata_keys scope_keys_safe by blast

end
