(* ===== verification/Approval.thy ===== *)
theory Approval
  imports Audit_Log Tenant_Repository
begin

text \<open>
  The approval module. \<open>approval_request\<close> and its transitions are \<open>approval/domain.py\<close>; the
  repository is \<open>approval/adapters/in_memory.py\<close>; \<open>request_approval\<close>, \<open>decide_approval\<close>,
  \<open>consume_approval\<close>, \<open>get_approval\<close> and \<open>consume_locked_approval\<close> are \<open>approval/use_cases.py\<close>.
  The stores are a record that the execution module extends, so the same definitions run inside
  its transactions.
\<close>

section \<open>Domain\<close>

datatype approval_status = PENDING | APPROVED | REJECTED | EXPIRED | CONSUMED

record approval_request =
  ap_id :: string
  ap_tenant_id :: string
  ap_principal_id :: string
  ap_tool_id :: string
  ap_tool_version_id :: string
  ap_arguments_digest :: string
  ap_policy_version :: string
  ap_status :: approval_status
  ap_requested_at :: instant
  ap_expires_at :: instant
  ap_idempotency_key :: "string option"
  ap_decided_by :: "string option"
  ap_decided_at :: "instant option"
  ap_consumed_at :: "instant option"

definition approval_post_init :: "approval_request \<Rightarrow> approval_request result" where
  "approval_post_init a = validated
     (non_blank_checks
        [(''approval id'', ap_id a), (''tenant id'', ap_tenant_id a), (''principal id'', ap_principal_id a),
         (''tool id'', ap_tool_id a), (''tool version id'', ap_tool_version_id a),
         (''arguments digest'', ap_arguments_digest a), (''policy version'', ap_policy_version a)] @
      [(ap_expires_at a \<le> ap_requested_at a, ''approval expires_at must be after requested_at''),
       (case ap_idempotency_key a of None \<Rightarrow> False | Some k \<Rightarrow> blank k,
        ''approval idempotency key must not be blank''),
       (ap_status a = PENDING \<and>
          (ap_decided_by a \<noteq> None \<or> ap_decided_at a \<noteq> None \<or> ap_consumed_at a \<noteq> None),
        ''pending approval must not contain decision state''),
       (ap_status a \<in> {APPROVED, REJECTED} \<and> (ap_decided_by a = None \<or> ap_decided_at a = None),
        ''decided approval must contain approver and decision time''),
       (ap_status a = EXPIRED \<and> (ap_decided_by a = None \<or> ap_decided_at a = None),
        ''expired approval must contain decision state''),
       (ap_status a \<noteq> CONSUMED \<and> ap_consumed_at a \<noteq> None,
        ''only consumed approval may contain consumed_at''),
       (ap_status a = CONSUMED \<and>
          (ap_decided_by a = None \<or> ap_decided_at a = None \<or> ap_consumed_at a = None),
        ''consumed approval must contain decision and consume state'')]) a"

definition approval_require_pending :: "approval_request \<Rightarrow> instant \<Rightarrow> unit result" where
  "approval_require_pending a decided_at =
     (if ap_status a \<noteq> PENDING then Inl (ValueError ''only pending approval can be decided'')
      else if ap_expires_at a \<le> decided_at then Inl (ValueError ''expired approval cannot be decided'')
      else Inr ())"

definition approval_approve :: "approval_request \<Rightarrow> string \<Rightarrow> instant \<Rightarrow> approval_request result" where
  "approval_approve a approver_id decided_at =
     (if blank approver_id then Inl (ValueError ''approval approver id must not be blank'')
      else result_bind (approval_require_pending a decided_at) (\<lambda>_.
        approval_post_init (a\<lparr>ap_status := APPROVED, ap_decided_by := Some approver_id,
                              ap_decided_at := Some decided_at\<rparr>)))"

definition approval_reject :: "approval_request \<Rightarrow> string \<Rightarrow> instant \<Rightarrow> approval_request result" where
  "approval_reject a approver_id decided_at =
     (if blank approver_id then Inl (ValueError ''approval approver id must not be blank'')
      else result_bind (approval_require_pending a decided_at) (\<lambda>_.
        approval_post_init (a\<lparr>ap_status := REJECTED, ap_decided_by := Some approver_id,
                              ap_decided_at := Some decided_at\<rparr>)))"

definition approval_expire :: "approval_request \<Rightarrow> instant \<Rightarrow> approval_request result" where
  "approval_expire a expired_at =
     (if ap_status a \<notin> {PENDING, APPROVED} then Inl (ValueError ''only pending or approved approval can expire'')
      else if expired_at < ap_expires_at a then Inl (ValueError ''approval cannot expire before expires_at'')
      else if ap_status a = APPROVED then approval_post_init (a\<lparr>ap_status := EXPIRED\<rparr>)
      else approval_post_init (a\<lparr>ap_status := EXPIRED, ap_decided_by := Some ''system'',
                                 ap_decided_at := Some expired_at\<rparr>))"

definition approval_consume ::
  "approval_request \<Rightarrow> string \<Rightarrow> string \<Rightarrow> string \<Rightarrow> string \<Rightarrow> string option \<Rightarrow> instant \<Rightarrow>
   approval_request result" where
  "approval_consume a principal_id tool_version_id arguments_digest policy_version idempotency_key consumed_at =
     (if ap_status a \<noteq> APPROVED then Inl (ValueError ''only approved approval can be consumed'')
      else if ap_expires_at a \<le> consumed_at then Inl (ValueError ''expired approval cannot be consumed'')
      else if principal_id \<noteq> ap_principal_id a
        then Inl (ValueError ''approval principal does not match call principal'')
      else if tool_version_id \<noteq> ap_tool_version_id a
        then Inl (ValueError ''approval tool version does not match call version'')
      else if arguments_digest \<noteq> ap_arguments_digest a
        then Inl (ValueError ''approval arguments digest does not match call arguments'')
      else if policy_version \<noteq> ap_policy_version a
        then Inl (ValueError ''approval policy version does not match current policy'')
      else if idempotency_key \<noteq> ap_idempotency_key a
        then Inl (ValueError ''approval idempotency key does not match call'')
      else approval_post_init (a\<lparr>ap_status := CONSUMED, ap_consumed_at := Some consumed_at\<rparr>))"

section \<open>Repository\<close>

type_synonym approval_store = "(string, approval_request) dict"

definition approval_add :: "string \<Rightarrow> approval_request \<Rightarrow> approval_store \<Rightarrow> approval_store result" where
  "approval_add tenant_id a d =
     (if ap_tenant_id a \<noteq> tenant_id then Inl (NexusError TenantBoundaryViolationError)
      else if dict_get d (ap_id a) \<noteq> None then Inl (ValueError ''approval already exists'')
      else Inr (dict_set (ap_id a) a d))"

definition approval_get :: "string \<Rightarrow> string \<Rightarrow> approval_store \<Rightarrow> approval_request option" where
  "approval_get tenant_id approval_id d = scoped_get ap_tenant_id tenant_id approval_id d"

definition approval_save :: "string \<Rightarrow> approval_request \<Rightarrow> approval_store \<Rightarrow> approval_store result" where
  "approval_save tenant_id a d =
     (if ap_tenant_id a \<noteq> tenant_id then Inl (NexusError TenantBoundaryViolationError)
      else if approval_get tenant_id (ap_id a) d = None then Inl (ValueError ''approval does not exist in tenant'')
      else Inr (dict_set (ap_id a) a d))"

interpretation approval_repo: keyed_repository ap_id ap_tenant_id approval_add approval_save
  by unfold_locales
    (auto simp: approval_add_def approval_save_def approval_get_def scoped_get_def
       split: if_splits option.splits)

record approval_db =
  approvals :: approval_store
  audits :: audit_store

abbreviation save_approval :: "string \<Rightarrow> approval_request \<Rightarrow> ((instant, 'x approval_db_scheme) tx, unit) prog" where
  "save_approval t a \<equiv> update (on_field approvals approvals_update (approval_save t a))"

abbreviation add_approval :: "string \<Rightarrow> approval_request \<Rightarrow> ((instant, 'x approval_db_scheme) tx, unit) prog" where
  "add_approval t a \<equiv> update (on_field approvals approvals_update (approval_add t a))"

abbreviation append_audit :: "audit_event \<Rightarrow> ((instant, 'x approval_db_scheme) tx, unit) prog" where
  "append_audit ev \<equiv> update (on_field audits audits_update (audit_append ev))"

section \<open>Commands\<close>

record request_approval_command =
  rq_context :: actor_context
  rq_principal_id :: string
  rq_tool_id :: string
  rq_tool_version_id :: string
  rq_arguments_digest :: string
  rq_policy_version :: string
  rq_idempotency_key :: "string option"
  rq_policy_reason_code :: string
  rq_mcp_scope_type :: string
  rq_toolset_id :: "string option"
  rq_toolset_revision :: "int option"

record consume_approval_command =
  cc_context :: actor_context
  cc_approval_id :: string
  cc_principal_id :: string
  cc_tool_version_id :: string
  cc_arguments_digest :: string
  cc_policy_version :: string
  cc_idempotency_key :: "string option"

record decide_approval_command =
  dc_context :: actor_context
  dc_approval_id :: string
  dc_approved :: bool

section \<open>Use cases\<close>

text \<open>The scope metadata of an audit event; building the evidence may raise.\<close>

definition scope_audit_metadata ::
  "string \<Rightarrow> string option \<Rightarrow> int option \<Rightarrow> string option \<Rightarrow> string option \<Rightarrow> (string, audit_value) dict result" where
  "scope_audit_metadata scope_type toolset_id toolset_revision toolset_slug denial =
     result_bind (scope_evidence_post_init
       \<lparr>sc_scope_type = scope_type, sc_toolset_id = toolset_id,
        sc_toolset_revision = toolset_revision, sc_toolset_slug = toolset_slug\<rparr>)
     (\<lambda>sc. Inr (scope_metadata sc denial))"

text \<open>The constructor of \<open>RequestApproval\<close>; the time to live is kept in the unit of \<open>instant\<close>.\<close>

definition request_approval_init :: "instant \<Rightarrow> instant result" where
  "request_approval_init ttl = validated [(ttl \<le> 0, ''approval ttl must be positive'')] ttl"

definition request_approval ::
  "instant \<Rightarrow> request_approval_command \<Rightarrow> ((instant, 'x approval_db_scheme) sys, approval_request) prog" where
  "request_approval ttl c =
     bind clock_now (\<lambda>now.
     bind new_id (\<lambda>approval_id.
     bind (lift (approval_post_init
       \<lparr>ap_id = approval_id, ap_tenant_id = cx_tenant_id (rq_context c), ap_principal_id = rq_principal_id c,
        ap_tool_id = rq_tool_id c, ap_tool_version_id = rq_tool_version_id c,
        ap_arguments_digest = rq_arguments_digest c, ap_policy_version = rq_policy_version c,
        ap_status = PENDING, ap_requested_at = now, ap_expires_at = now + ttl,
        ap_idempotency_key = rq_idempotency_key c, ap_decided_by = None, ap_decided_at = None,
        ap_consumed_at = None\<rparr>)) (\<lambda>approval.
     seq (with_uow
       (seq (add_approval (cx_tenant_id (rq_context c)) approval)
       (bind new_id (\<lambda>audit_id.
        bind (lift (result_bind (scope_audit_metadata (rq_mcp_scope_type c) (rq_toolset_id c)
                                  (rq_toolset_revision c) None None) (\<lambda>metadata.
          audit_post_init
            \<lparr>au_id = audit_id, au_tenant_id = cx_tenant_id (rq_context c), au_actor_id = rq_principal_id c,
             au_action = TOOL_CALL, au_resource_type = ''tool_version'',
             au_resource_id = rq_tool_version_id c, au_outcome = OUTCOME_APPROVAL_REQUIRED,
             au_request_id = cx_request_id (rq_context c), au_trace_id = cx_trace_id (rq_context c),
             au_occurred_at = now, au_arguments_digest = Some (rq_arguments_digest c),
             au_policy_version = Some (rq_policy_version c),
             au_reason_code = Some (rq_policy_reason_code c), au_execution_id = None,
             au_metadata = Some metadata\<rparr>))) (\<lambda>event.
        seq (append_audit event) commit)))))
     (ret approval))))"

definition require_pending_decision :: "approval_request \<Rightarrow> unit result" where
  "require_pending_decision a =
     (if ap_status a = PENDING then Inr ()
      else if ap_status a = EXPIRED then Inl (NexusError ApprovalExpiredError)
      else Inl (NexusError ApprovalInvalidStateError))"

definition decide_approval ::
  "decide_approval_command \<Rightarrow> ((instant, 'x approval_db_scheme) sys, approval_request) prog" where
  "decide_approval c = with_uow
     (bind (query (\<lambda>w. approval_get (cx_tenant_id (dc_context c)) (dc_approval_id c) (approvals w))) (\<lambda>found.
      bind (require_some found (NexusError ApprovalNotFoundError)) (\<lambda>approval.
      seq (lift (require_pending_decision approval))
      (bind clock_now (\<lambda>now.
       if ap_expires_at approval \<le> now
       then bind (lift (approval_expire approval now)) (\<lambda>expired.
            seq (save_approval (cx_tenant_id (dc_context c)) expired)
            (seq commit (raise (NexusError ApprovalExpiredError))))
       else
         bind (lift (if dc_approved c then approval_approve approval (cx_principal_id (dc_context c)) now
                     else approval_reject approval (cx_principal_id (dc_context c)) now)) (\<lambda>decided.
         seq (save_approval (cx_tenant_id (dc_context c)) decided)
         (bind new_id (\<lambda>audit_id.
          bind (lift (audit_post_init
            \<lparr>au_id = audit_id, au_tenant_id = cx_tenant_id (dc_context c),
             au_actor_id = cx_principal_id (dc_context c), au_action = APPROVAL_DECISION,
             au_resource_type = ''approval'', au_resource_id = ap_id approval,
             au_outcome = (if dc_approved c then OUTCOME_ALLOWED else OUTCOME_DENIED),
             au_request_id = cx_request_id (dc_context c), au_trace_id = cx_trace_id (dc_context c),
             au_occurred_at = now, au_arguments_digest = Some (ap_arguments_digest approval),
             au_policy_version = Some (ap_policy_version approval),
             au_reason_code = Some (if dc_approved c then ''approval_approved'' else ''approval_rejected''),
             au_execution_id = None, au_metadata = None\<rparr>)) (\<lambda>event.
          seq (append_audit event) (seq commit (ret decided)))))))))))"

definition require_consumable_status :: "approval_request \<Rightarrow> unit result" where
  "require_consumable_status a =
     (case ap_status a of
        APPROVED \<Rightarrow> Inr ()
      | PENDING \<Rightarrow> Inl (NexusError ApprovalPendingError)
      | REJECTED \<Rightarrow> Inl (NexusError ApprovalRejectedError)
      | EXPIRED \<Rightarrow> Inl (NexusError ApprovalExpiredError)
      | CONSUMED \<Rightarrow> Inl (NexusError ApprovalAlreadyConsumedError))"

definition require_matching_call :: "approval_request \<Rightarrow> consume_approval_command \<Rightarrow> unit result" where
  "require_matching_call a c =
     (if ap_principal_id a \<noteq> cc_principal_id c then Inl (NexusError ApprovalMismatchError)
      else if ap_tool_version_id a \<noteq> cc_tool_version_id c then Inl (NexusError ApprovalMismatchError)
      else if ap_arguments_digest a \<noteq> cc_arguments_digest c then Inl (NexusError ApprovalMismatchError)
      else if ap_policy_version a \<noteq> cc_policy_version c then Inl (NexusError ApprovalMismatchError)
      else if ap_idempotency_key a \<noteq> cc_idempotency_key c then Inl (NexusError ApprovalMismatchError)
      else Inr ())"

definition consume_locked_approval ::
  "consume_approval_command \<Rightarrow> instant \<Rightarrow> ((instant, 'x approval_db_scheme) tx, approval_request) prog" where
  "consume_locked_approval c consumed_at =
     bind (query (\<lambda>w. approval_get (cx_tenant_id (cc_context c)) (cc_approval_id c) (approvals w))) (\<lambda>found.
     bind (require_some found (NexusError ApprovalNotFoundError)) (\<lambda>approval.
     seq (lift (require_consumable_status approval))
     (if ap_expires_at approval \<le> consumed_at
      then bind (lift (approval_expire approval consumed_at)) (\<lambda>expired.
           seq (save_approval (cx_tenant_id (cc_context c)) expired)
               (raise (NexusError ApprovalExpiredError)))
      else seq (lift (require_matching_call approval c))
           (bind (lift (approval_consume approval (cc_principal_id c) (cc_tool_version_id c)
                          (cc_arguments_digest c) (cc_policy_version c) (cc_idempotency_key c) consumed_at))
             (\<lambda>consumed.
           seq (save_approval (cx_tenant_id (cc_context c)) consumed) (ret consumed))))))"

text \<open>\<open>except ApprovalExpiredError: await unit_of_work.commit(); raise\<close>.\<close>

definition commit_if_expired :: "exn \<Rightarrow> ((instant, 'x approval_db_scheme) tx, 'a) prog" where
  "commit_if_expired e =
     (if e = NexusError ApprovalExpiredError then seq commit (raise e) else raise e)"

definition consume_approval ::
  "consume_approval_command \<Rightarrow> ((instant, 'x approval_db_scheme) sys, approval_request) prog" where
  "consume_approval c = with_uow
     (bind (catch (bind clock_now (\<lambda>now. consume_locked_approval c now)) commit_if_expired) (\<lambda>consumed.
      seq commit (ret consumed)))"

definition get_approval ::
  "actor_context \<Rightarrow> string \<Rightarrow> ((instant, 'x approval_db_scheme) sys, approval_request) prog" where
  "get_approval cx approval_id =
     bind (with_uow (query (\<lambda>w. approval_get (cx_tenant_id cx) approval_id (approvals w)))) (\<lambda>found.
     require_some found (NexusError ApprovalNotFoundError))"

end
