(* ===== verification/Execution_Store.thy ===== *)
theory Execution_Store
  imports Execution_Domain Approval
begin

text \<open>
  The repositories of the execution module (\<open>execution/adapters/in_memory.py\<close>) and the stores one
  unit of work holds (\<open>execution/adapters/in_memory_uow.py\<close>): executions and attempts beside the
  approvals and audits of the approval module, all copied on entry and written back by \<open>commit\<close>.
\<close>

section \<open>Executions\<close>

type_synonym execution_store = "(string, tool_execution) dict"

definition execution_add :: "string \<Rightarrow> tool_execution \<Rightarrow> execution_store \<Rightarrow> execution_store result" where
  "execution_add tenant_id e d =
     (if tenant_id \<noteq> ex_tenant_id e then Inl tenant_mismatch
      else if dict_get d (ex_id e) \<noteq> None then Inl (ValueError ''tool execution id already exists'')
      else Inr (dict_set (ex_id e) e d))"

definition execution_get :: "string \<Rightarrow> string \<Rightarrow> execution_store \<Rightarrow> tool_execution option" where
  "execution_get tenant_id execution_id d = scoped_get ex_tenant_id tenant_id execution_id d"

definition execution_save :: "string \<Rightarrow> tool_execution \<Rightarrow> execution_store \<Rightarrow> execution_store result" where
  "execution_save tenant_id e d =
     (if tenant_id \<noteq> ex_tenant_id e then Inl tenant_mismatch
      else case dict_get d (ex_id e) of
        None \<Rightarrow> Inl (ValueError ''tool execution does not exist in tenant'')
      | Some current \<Rightarrow>
          if ex_tenant_id current \<noteq> tenant_id then Inl (ValueError ''tool execution does not exist in tenant'')
          else Inr (dict_set (ex_id e) e d))"

definition execution_get_by_idempotency_key ::
  "string \<Rightarrow> string \<Rightarrow> string \<Rightarrow> string \<Rightarrow> execution_store \<Rightarrow> tool_execution option" where
  "execution_get_by_idempotency_key tenant_id principal_id tool_version_id idempotency_key d =
     List.find (\<lambda>e. ex_tenant_id e = tenant_id \<and> ex_principal_id e = principal_id \<and>
                    ex_tool_version_id e = tool_version_id \<and> ex_idempotency_key e = Some idempotency_key)
       (dict_values d)"

definition execution_list_by_tenant :: "string \<Rightarrow> execution_store \<Rightarrow> tool_execution list" where
  "execution_list_by_tenant tenant_id d = [e \<leftarrow> dict_values d. ex_tenant_id e = tenant_id]"

interpretation execution_repo: keyed_repository ex_id ex_tenant_id execution_add execution_save
  by unfold_locales (auto simp: execution_add_def execution_save_def split: if_splits option.splits)

section \<open>Attempts\<close>

type_synonym attempt_store = "(string, execution_attempt) dict"

definition attempt_add :: "string \<Rightarrow> execution_attempt \<Rightarrow> attempt_store \<Rightarrow> attempt_store result" where
  "attempt_add tenant_id a d =
     (if tenant_id \<noteq> at_tenant_id a then Inl tenant_mismatch
      else if dict_get d (at_id a) \<noteq> None then Inl (ValueError ''execution attempt id already exists'')
      else if list_ex (\<lambda>current. at_execution_id current = at_execution_id a \<and>
                                 at_attempt_number current = at_attempt_number a) (dict_values d)
        then Inl (ValueError ''execution attempt number already exists'')
      else Inr (dict_set (at_id a) a d))"

definition attempt_get :: "string \<Rightarrow> string \<Rightarrow> attempt_store \<Rightarrow> execution_attempt option" where
  "attempt_get tenant_id attempt_id d = scoped_get at_tenant_id tenant_id attempt_id d"

definition attempt_save :: "string \<Rightarrow> execution_attempt \<Rightarrow> attempt_store \<Rightarrow> attempt_store result" where
  "attempt_save tenant_id a d =
     (if tenant_id \<noteq> at_tenant_id a then Inl tenant_mismatch
      else case dict_get d (at_id a) of
        None \<Rightarrow> Inl (ValueError ''execution attempt does not exist in tenant'')
      | Some current \<Rightarrow>
          if at_tenant_id current \<noteq> tenant_id then Inl (ValueError ''execution attempt does not exist in tenant'')
          else Inr (dict_set (at_id a) a d))"

definition attempt_list_by_execution :: "string \<Rightarrow> string \<Rightarrow> attempt_store \<Rightarrow> execution_attempt list" where
  "attempt_list_by_execution tenant_id execution_id d =
     sort_key at_attempt_number
       [a \<leftarrow> dict_values d. at_tenant_id a = tenant_id \<and> at_execution_id a = execution_id]"

interpretation attempt_repo: keyed_repository at_id at_tenant_id attempt_add attempt_save
  by unfold_locales (auto simp: attempt_add_def attempt_save_def split: if_splits option.splits)

section \<open>Stores of the unit of work\<close>

record execution_db = approval_db +
  executions :: execution_store
  attempts :: attempt_store

abbreviation add_execution ::
  "string \<Rightarrow> tool_execution \<Rightarrow> ((instant, 'x execution_db_scheme) tx, unit) prog" where
  "add_execution t e \<equiv> update (on_field executions executions_update (execution_add t e))"

abbreviation save_execution ::
  "string \<Rightarrow> tool_execution \<Rightarrow> ((instant, 'x execution_db_scheme) tx, unit) prog" where
  "save_execution t e \<equiv> update (on_field executions executions_update (execution_save t e))"

abbreviation add_attempt ::
  "string \<Rightarrow> execution_attempt \<Rightarrow> ((instant, 'x execution_db_scheme) tx, unit) prog" where
  "add_attempt t a \<equiv> update (on_field attempts attempts_update (attempt_add t a))"

abbreviation save_attempt ::
  "string \<Rightarrow> execution_attempt \<Rightarrow> ((instant, 'x execution_db_scheme) tx, unit) prog" where
  "save_attempt t a \<equiv> update (on_field attempts attempts_update (attempt_save t a))"

definition empty_execution_db :: execution_db where
  "empty_execution_db = \<lparr>approvals = [], audits = [], executions = [], attempts = []\<rparr>"

section \<open>Lemmas\<close>

lemma execution_add_Inr:
  "execution_add t e d = Inr d' \<longleftrightarrow> ex_tenant_id e = t \<and> dict_get d (ex_id e) = None \<and> d' = dict_set (ex_id e) e d"
  by (auto simp: execution_add_def)

lemma execution_save_Inr:
  "execution_save t e d = Inr d' \<longleftrightarrow>
     ex_tenant_id e = t \<and> (\<exists>c. execution_get t (ex_id e) d = Some c) \<and> d' = dict_set (ex_id e) e d"
  by (auto simp: execution_save_def execution_get_def scoped_get_Some split: option.splits)

lemma attempt_add_Inr:
  "attempt_add t a d = Inr d' \<longleftrightarrow>
     at_tenant_id a = t \<and> dict_get d (at_id a) = None \<and>
     (\<forall>b \<in> set (dict_values d). \<not> (at_execution_id b = at_execution_id a \<and> at_attempt_number b = at_attempt_number a)) \<and>
     d' = dict_set (at_id a) a d"
  by (auto simp: attempt_add_def list_ex_iff)

lemma attempt_save_Inr:
  "attempt_save t a d = Inr d' \<longleftrightarrow>
     at_tenant_id a = t \<and> (\<exists>c. attempt_get t (at_id a) d = Some c) \<and> d' = dict_set (at_id a) a d"
  by (auto simp: attempt_save_def attempt_get_def scoped_get_Some split: option.splits)

lemma by_idempotency_key_None:
  "execution_get_by_idempotency_key t p v k d = None \<longleftrightarrow>
     (\<forall>e \<in> set (dict_values d). \<not> (ex_tenant_id e = t \<and> ex_principal_id e = p \<and> ex_tool_version_id e = v \<and>
        ex_idempotency_key e = Some k))"
  by (simp add: execution_get_by_idempotency_key_def find_None)

lemma by_idempotency_key_Some:
  "execution_get_by_idempotency_key t p v k d = Some e \<Longrightarrow>
     e \<in> set (dict_values d) \<and> ex_tenant_id e = t \<and> ex_principal_id e = p \<and> ex_tool_version_id e = v \<and>
     ex_idempotency_key e = Some k"
  unfolding execution_get_by_idempotency_key_def by (drule find_Some_sat) simp

end
