(* ===== verification/Execution_Lifecycle.thy ===== *)
theory Execution_Lifecycle
  imports Execution_Store
begin

text \<open>
  \<open>execution/lifecycle.py\<close>: the short transactions that plan an execution (consuming its approval in
  the same commit), open and close attempts, finish the execution and write the audit trail. Every
  method is one unit of work; the clock is read before it is entered, as in the source.
\<close>

section \<open>Commands\<close>

record plan_execution_command =
  pl_context :: actor_context
  pl_principal_id :: string
  pl_tool_id :: string
  pl_tool_version_id :: string
  pl_tool_binding_id :: string
  pl_arguments_digest :: string
  pl_policy_version :: string
  pl_policy_reason_code :: string
  pl_side_effect :: tool_side_effect
  pl_approval_id :: "string option"
  pl_credential_binding_id :: "string option"
  pl_idempotency_key :: "string option"
  pl_mcp_scope_type :: mcp_scope_type
  pl_toolset_id :: "string option"
  pl_toolset_revision :: "int option"

record record_call_decision_command =
  rd_context :: actor_context
  rd_principal_id :: string
  rd_tool_version_id :: string
  rd_arguments_digest :: string
  rd_policy_version :: string
  rd_reason_code :: string
  rd_outcome :: audit_outcome
  rd_mcp_scope_type :: mcp_scope_type
  rd_toolset_id :: "string option"
  rd_toolset_revision :: "int option"

record record_scope_denial_command =
  sd_context :: actor_context
  sd_tool_name :: string
  sd_arguments_digest :: string
  sd_reason_code :: string
  sd_mcp_scope_type :: mcp_scope_type
  sd_toolset_slug :: "string option"
  sd_toolset_id :: "string option"
  sd_toolset_revision :: "int option"

section \<open>Audit events of an execution\<close>

definition execution_audit_event ::
  "string \<Rightarrow> tool_execution \<Rightarrow> audit_outcome \<Rightarrow> instant \<Rightarrow> audit_event result" where
  "execution_audit_event audit_id e outcome occurred_at =
     result_bind (scope_audit_metadata (scope_type_value (ex_mcp_scope_type e)) (ex_toolset_id e)
                    (ex_toolset_revision e) None None) (\<lambda>scope.
     audit_post_init
       \<lparr>au_id = audit_id, au_tenant_id = ex_tenant_id e, au_actor_id = ex_principal_id e,
        au_action = TOOL_CALL, au_resource_type = ''tool_version'',
        au_resource_id = ex_tool_version_id e, au_outcome = outcome,
        au_request_id = ex_request_id e, au_trace_id = ex_trace_id e, au_occurred_at = occurred_at,
        au_arguments_digest = Some (ex_arguments_digest e), au_policy_version = Some (ex_policy_version e),
        au_reason_code = (if outcome \<in> {OUTCOME_FAILED, OUTCOME_UNKNOWN, OUTCOME_CANCELLED}
                          then ex_error_code e else Some (ex_policy_reason_code e)),
        au_execution_id = Some (ex_id e),
        au_metadata = Some
          ([(''side_effect'', AuditStr (side_effect_value (ex_side_effect e))),
            (''execution_status'', AuditStr (execution_status_value (ex_status e))),
            (''attempt_count'', AuditInt (ex_attempt_count e))] @ scope)\<rparr>)"

definition append_execution_audit ::
  "tool_execution \<Rightarrow> audit_outcome \<Rightarrow> instant \<Rightarrow> ((instant, 'x execution_db_scheme) tx, unit) prog" where
  "append_execution_audit e outcome occurred_at =
     bind new_id (\<lambda>audit_id.
     bind (lift (execution_audit_event audit_id e outcome occurred_at)) append_audit)"

section \<open>Planning\<close>

definition raise_idempotency_reuse :: "tool_execution \<Rightarrow> string \<Rightarrow> nexus_error" where
  "raise_idempotency_reuse e arguments_digest =
     (if ex_arguments_digest e \<noteq> arguments_digest then IdempotencyConflictError (ex_id e)
      else if ex_status e \<in> {EX_PLANNED, EX_RUNNING} then IdempotencyInProgressError (ex_id e)
      else if ex_status e = EX_SUCCEEDED then IdempotencyAlreadyCompletedError (ex_id e)
      else if ex_status e = EX_UNKNOWN then IdempotencyOutcomeUnknownError (ex_id e)
      else IdempotencyPreviousFailedError (ex_id e))"

definition planned_execution :: "plan_execution_command \<Rightarrow> string \<Rightarrow> instant \<Rightarrow> tool_execution" where
  "planned_execution c execution_id now =
     \<lparr>ex_id = execution_id, ex_tenant_id = cx_tenant_id (pl_context c),
      ex_request_id = cx_request_id (pl_context c), ex_trace_id = cx_trace_id (pl_context c),
      ex_principal_id = pl_principal_id c, ex_tool_id = pl_tool_id c,
      ex_tool_version_id = pl_tool_version_id c, ex_tool_binding_id = pl_tool_binding_id c,
      ex_arguments_digest = pl_arguments_digest c, ex_policy_version = pl_policy_version c,
      ex_policy_reason_code = pl_policy_reason_code c, ex_side_effect = pl_side_effect c,
      ex_status = EX_PLANNED, ex_planned_at = now, ex_approval_id = pl_approval_id c,
      ex_credential_binding_id = pl_credential_binding_id c, ex_idempotency_key = pl_idempotency_key c,
      ex_started_at = None, ex_finished_at = None, ex_error_code = None, ex_error_category = None,
      ex_attempt_count = 0, ex_mcp_scope_type = pl_mcp_scope_type c,
      ex_toolset_id = pl_toolset_id c, ex_toolset_revision = pl_toolset_revision c\<rparr>"

definition plan_consume_command :: "plan_execution_command \<Rightarrow> string \<Rightarrow> consume_approval_command" where
  "plan_consume_command c approval_id =
     \<lparr>cc_context = pl_context c, cc_approval_id = approval_id, cc_principal_id = pl_principal_id c,
      cc_tool_version_id = pl_tool_version_id c, cc_arguments_digest = pl_arguments_digest c,
      cc_policy_version = pl_policy_version c, cc_idempotency_key = pl_idempotency_key c\<rparr>"

text \<open>The two guards of the planning transaction.\<close>

definition check_idempotency :: "plan_execution_command \<Rightarrow> ((instant, 'x execution_db_scheme) tx, unit) prog" where
  "check_idempotency c =
     (case pl_idempotency_key c of
        None \<Rightarrow> ret ()
      | Some key \<Rightarrow>
          bind (query (\<lambda>w. execution_get_by_idempotency_key (cx_tenant_id (pl_context c)) (pl_principal_id c)
                              (pl_tool_version_id c) key (executions w))) (\<lambda>existing.
          case existing of
            None \<Rightarrow> ret ()
          | Some e \<Rightarrow> raise (NexusError (raise_idempotency_reuse e (pl_arguments_digest c)))))"

definition consume_for_plan ::
  "plan_execution_command \<Rightarrow> instant \<Rightarrow> ((instant, 'x execution_db_scheme) tx, unit) prog" where
  "consume_for_plan c now =
     (case pl_approval_id c of
        None \<Rightarrow> ret ()
      | Some approval_id \<Rightarrow>
          catch (seq (consume_locked_approval (plan_consume_command c approval_id) now) (ret ()))
            commit_if_expired)"

definition plan ::
  "plan_execution_command \<Rightarrow> ((instant, 'x execution_db_scheme) sys, tool_execution) prog" where
  "plan c =
     bind clock_now (\<lambda>now.
     bind new_id (\<lambda>execution_id.
     bind (lift (result_bind (execution_post_init (planned_execution c execution_id now)) (\<lambda>e.
                 execution_start e now))) (\<lambda>execution.
     seq (with_uow
       (seq (check_idempotency c)
       (seq (consume_for_plan c now)
       (seq (add_execution (cx_tenant_id (pl_context c)) execution)
       (seq (append_execution_audit execution OUTCOME_ALLOWED now)
            commit)))))
     (ret execution))))"

section \<open>Attempts\<close>

definition start_attempt ::
  "string \<Rightarrow> string \<Rightarrow> ((instant, 'x execution_db_scheme) sys, execution_attempt) prog" where
  "start_attempt tenant_id execution_id =
     bind clock_now (\<lambda>now.
     with_uow
       (bind (query (\<lambda>w. execution_get tenant_id execution_id (executions w))) (\<lambda>found.
        bind (require_some found (NexusError ToolExecutionNotFoundError)) (\<lambda>execution.
        seq (raise_if (ex_status execution \<noteq> EX_RUNNING) (NexusError InvalidExecutionStateError))
        (bind (lift (execution_register_attempt execution)) (\<lambda>execution.
        bind new_id (\<lambda>attempt_id.
        bind (lift (attempt_post_init
          \<lparr>at_id = attempt_id, at_tenant_id = tenant_id, at_execution_id = execution_id,
           at_attempt_number = ex_attempt_count execution, at_status = AT_RUNNING, at_started_at = now,
           at_finished_at = None, at_error_code = None, at_error_category = None,
           at_upstream_status = None\<rparr>)) (\<lambda>attempt.
        seq (save_execution tenant_id execution)
        (seq (add_attempt tenant_id attempt)
        (seq commit (ret attempt)))))))))))"

text \<open>The terminal form of an attempt that the requested status asks for.\<close>

definition finished_attempt ::
  "execution_attempt \<Rightarrow> attempt_status \<Rightarrow> string option \<Rightarrow> execution_error_category option \<Rightarrow> int option \<Rightarrow>
   instant \<Rightarrow> execution_attempt result" where
  "finished_attempt a status code category upstream_status now =
     (if status = AT_SUCCEEDED then attempt_succeed a now upstream_status
      else if status = AT_CANCELLED then attempt_cancel a now
      else case (code, category) of
        (Some c, Some cat) \<Rightarrow> attempt_fail a c cat now (status = AT_UNKNOWN) upstream_status
      | _ \<Rightarrow> Inl (ValueError ''failed attempt requires error code and category''))"

definition finish_attempt ::
  "string \<Rightarrow> string \<Rightarrow> attempt_status \<Rightarrow> string option \<Rightarrow> execution_error_category option \<Rightarrow> int option \<Rightarrow>
   ((instant, 'x execution_db_scheme) sys, execution_attempt) prog" where
  "finish_attempt tenant_id attempt_id status code category upstream_status =
     bind clock_now (\<lambda>now.
     with_uow
       (bind (query (\<lambda>w. attempt_get tenant_id attempt_id (attempts w))) (\<lambda>found.
        bind (require_some found (NexusError ExecutionAttemptNotFoundError)) (\<lambda>attempt.
        seq (raise_if (at_status attempt \<noteq> AT_RUNNING) (NexusError InvalidExecutionStateError))
        (bind (lift (finished_attempt attempt status code category upstream_status now)) (\<lambda>terminal.
        seq (save_attempt tenant_id terminal)
        (seq commit (ret terminal))))))))"

definition succeed_attempt ::
  "string \<Rightarrow> string \<Rightarrow> int option \<Rightarrow> ((instant, 'x execution_db_scheme) sys, execution_attempt) prog" where
  "succeed_attempt tenant_id attempt_id upstream_status =
     finish_attempt tenant_id attempt_id AT_SUCCEEDED None None upstream_status"

definition fail_attempt ::
  "string \<Rightarrow> string \<Rightarrow> string \<Rightarrow> execution_error_category \<Rightarrow> bool \<Rightarrow> int option \<Rightarrow>
   ((instant, 'x execution_db_scheme) sys, execution_attempt) prog" where
  "fail_attempt tenant_id attempt_id code category outcome_unknown upstream_status =
     finish_attempt tenant_id attempt_id (if outcome_unknown then AT_UNKNOWN else AT_FAILED)
       (Some code) (Some category) upstream_status"

definition cancel_attempt ::
  "string \<Rightarrow> string \<Rightarrow> ((instant, 'x execution_db_scheme) sys, execution_attempt) prog" where
  "cancel_attempt tenant_id attempt_id = finish_attempt tenant_id attempt_id AT_CANCELLED None None None"

section \<open>Decisions that end before an execution\<close>

definition record_call_decision ::
  "record_call_decision_command \<Rightarrow> ((instant, 'x execution_db_scheme) sys, unit) prog" where
  "record_call_decision c =
     bind new_id (\<lambda>audit_id.
     bind clock_now (\<lambda>now.
     bind (lift (result_bind (scope_audit_metadata (scope_type_value (rd_mcp_scope_type c)) (rd_toolset_id c)
                               (rd_toolset_revision c) None None) (\<lambda>metadata.
       audit_post_init
         \<lparr>au_id = audit_id, au_tenant_id = cx_tenant_id (rd_context c), au_actor_id = rd_principal_id c,
          au_action = TOOL_CALL, au_resource_type = ''tool_version'',
          au_resource_id = rd_tool_version_id c, au_outcome = rd_outcome c,
          au_request_id = cx_request_id (rd_context c), au_trace_id = cx_trace_id (rd_context c),
          au_occurred_at = now, au_arguments_digest = Some (rd_arguments_digest c),
          au_policy_version = Some (rd_policy_version c), au_reason_code = Some (rd_reason_code c),
          au_execution_id = None, au_metadata = Some metadata\<rparr>))) (\<lambda>event.
     with_uow (seq (append_audit event) commit))))"

definition record_scope_denial ::
  "record_scope_denial_command \<Rightarrow> ((instant, 'x execution_db_scheme) sys, unit) prog" where
  "record_scope_denial c =
     bind (lift (scope_audit_metadata (scope_type_value (sd_mcp_scope_type c)) (sd_toolset_id c)
                   (sd_toolset_revision c) (sd_toolset_slug c) (Some (sd_reason_code c)))) (\<lambda>metadata.
     bind new_id (\<lambda>audit_id.
     bind clock_now (\<lambda>now.
     bind (lift (audit_post_init
       \<lparr>au_id = audit_id, au_tenant_id = cx_tenant_id (sd_context c),
        au_actor_id = cx_principal_id (sd_context c), au_action = TOOL_CALL,
        au_resource_type = ''tool_name'', au_resource_id = sd_tool_name c, au_outcome = OUTCOME_DENIED,
        au_request_id = cx_request_id (sd_context c), au_trace_id = cx_trace_id (sd_context c),
        au_occurred_at = now, au_arguments_digest = Some (sd_arguments_digest c),
        au_policy_version = None, au_reason_code = Some (sd_reason_code c), au_execution_id = None,
        au_metadata = Some metadata\<rparr>)) (\<lambda>event.
     with_uow (seq (append_audit event) commit)))))"

section \<open>Finishing\<close>

definition finished_execution ::
  "tool_execution \<Rightarrow> execution_status \<Rightarrow> string option \<Rightarrow> execution_error_category option \<Rightarrow> instant \<Rightarrow>
   (tool_execution \<times> audit_outcome) result" where
  "finished_execution e status code category now =
     (if status = EX_SUCCEEDED
      then result_bind (execution_succeed e now) (\<lambda>t. Inr (t, OUTCOME_SUCCEEDED))
      else if status = EX_UNKNOWN then
        (case code of
           None \<Rightarrow> Inl (ValueError ''unknown execution requires error code'')
         | Some c \<Rightarrow> result_bind (execution_mark_unknown e c now) (\<lambda>t. Inr (t, OUTCOME_UNKNOWN)))
      else if status = EX_CANCELLED
      then result_bind (execution_cancel e now) (\<lambda>t. Inr (t, OUTCOME_CANCELLED))
      else
        (case (code, category) of
           (Some c, Some cat) \<Rightarrow> result_bind (execution_fail e c cat now) (\<lambda>t. Inr (t, OUTCOME_FAILED))
         | _ \<Rightarrow> Inl (ValueError ''failed execution requires error code and category'')))"

definition finish ::
  "string \<Rightarrow> string \<Rightarrow> execution_status \<Rightarrow> string option \<Rightarrow> execution_error_category option \<Rightarrow>
   ((instant, 'x execution_db_scheme) sys, tool_execution) prog" where
  "finish tenant_id execution_id status code category =
     bind clock_now (\<lambda>now.
     with_uow
       (bind (query (\<lambda>w. execution_get tenant_id execution_id (executions w))) (\<lambda>found.
        bind (require_some found (NexusError ToolExecutionNotFoundError)) (\<lambda>execution.
        seq (raise_if (ex_status execution \<noteq> EX_RUNNING) (NexusError InvalidExecutionStateError))
        (bind (lift (finished_execution execution status code category now)) (\<lambda>(terminal, outcome).
        seq (save_execution tenant_id terminal)
        (seq (append_execution_audit terminal outcome now)
        (seq commit (ret terminal)))))))))"

definition succeed_execution ::
  "string \<Rightarrow> string \<Rightarrow> ((instant, 'x execution_db_scheme) sys, tool_execution) prog" where
  "succeed_execution tenant_id execution_id = finish tenant_id execution_id EX_SUCCEEDED None None"

definition fail_execution ::
  "string \<Rightarrow> string \<Rightarrow> string \<Rightarrow> execution_error_category \<Rightarrow> bool \<Rightarrow>
   ((instant, 'x execution_db_scheme) sys, tool_execution) prog" where
  "fail_execution tenant_id execution_id code category outcome_unknown =
     finish tenant_id execution_id (if outcome_unknown then EX_UNKNOWN else EX_FAILED) (Some code) (Some category)"

definition cancel_execution ::
  "string \<Rightarrow> string \<Rightarrow> ((instant, 'x execution_db_scheme) sys, tool_execution) prog" where
  "cancel_execution tenant_id execution_id = finish tenant_id execution_id EX_CANCELLED None None"

end
