(* ===== verification/Approval_Correct.thy ===== *)
theory Approval_Correct
  imports Approval
begin

text \<open>
  What the approval module guarantees: the life cycle of a request as a relation
  (\<open>approval_next\<close>), the well-formedness of the store (\<open>approvals_ok\<close>), and for each use case the
  exact outcome on every branch. The gateway theory lifts these to interleaved runs.
\<close>

section \<open>Well-formed requests\<close>

definition approval_wf :: "approval_request \<Rightarrow> bool" where
  "approval_wf a \<longleftrightarrow> approval_post_init a = Inr a"

lemma approval_post_init_Inr [check_rules]: "approval_post_init a = Inr b \<longleftrightarrow> b = a \<and> approval_wf a"
  by (auto simp: approval_wf_def approval_post_init_def validated_Inr_iff)

lemma approval_post_init_Inl: "approval_post_init a = Inl e \<Longrightarrow> is_value_error e"
  by (auto simp: approval_post_init_def dest: validated_Inl)

definition approval_text_ok :: "approval_request \<Rightarrow> bool" where
  "approval_text_ok a \<longleftrightarrow>
     \<not> blank (ap_id a) \<and> \<not> blank (ap_tenant_id a) \<and> \<not> blank (ap_principal_id a) \<and> \<not> blank (ap_tool_id a) \<and>
     \<not> blank (ap_tool_version_id a) \<and> \<not> blank (ap_arguments_digest a) \<and> \<not> blank (ap_policy_version a) \<and>
     ap_requested_at a < ap_expires_at a \<and> (\<forall>k. ap_idempotency_key a = Some k \<longrightarrow> \<not> blank k)"

lemma approval_wf_iff:
  "approval_wf a \<longleftrightarrow> approval_text_ok a \<and>
     (if ap_status a = PENDING then ap_decided_by a = None \<and> ap_decided_at a = None \<and> ap_consumed_at a = None
      else ap_decided_by a \<noteq> None \<and> ap_decided_at a \<noteq> None \<and>
        (ap_status a = CONSUMED \<longleftrightarrow> ap_consumed_at a \<noteq> None))"
  by (cases "ap_status a")
    (auto simp: approval_wf_def approval_post_init_def approval_text_ok_def validated_Inr_iff
       non_blank_checks_def not_le split: option.splits)

lemma approval_text_ok_update [simp]:
  "approval_text_ok (a\<lparr>ap_status := s, ap_decided_by := x, ap_decided_at := y\<rparr>) = approval_text_ok a"
  "approval_text_ok (a\<lparr>ap_status := s\<rparr>) = approval_text_ok a"
  "approval_text_ok (a\<lparr>ap_status := s, ap_consumed_at := z\<rparr>) = approval_text_ok a"
  by (simp_all add: approval_text_ok_def)

section \<open>Life cycle\<close>

text \<open>What an approval stays bound to from request to consumption.\<close>

definition same_binding :: "approval_request \<Rightarrow> approval_request \<Rightarrow> bool" where
  "same_binding a b \<longleftrightarrow>
     ap_id b = ap_id a \<and> ap_tenant_id b = ap_tenant_id a \<and> ap_principal_id b = ap_principal_id a \<and>
     ap_tool_id b = ap_tool_id a \<and> ap_tool_version_id b = ap_tool_version_id a \<and>
     ap_arguments_digest b = ap_arguments_digest a \<and> ap_policy_version b = ap_policy_version a \<and>
     ap_requested_at b = ap_requested_at a \<and> ap_expires_at b = ap_expires_at a \<and>
     ap_idempotency_key b = ap_idempotency_key a"

inductive approval_next :: "approval_request \<Rightarrow> approval_request \<Rightarrow> bool" where
  approve: "ap_status a = PENDING \<Longrightarrow> at < ap_expires_at a \<Longrightarrow>
    approval_next a (a\<lparr>ap_status := APPROVED, ap_decided_by := Some who, ap_decided_at := Some at\<rparr>)"
| reject: "ap_status a = PENDING \<Longrightarrow> at < ap_expires_at a \<Longrightarrow>
    approval_next a (a\<lparr>ap_status := REJECTED, ap_decided_by := Some who, ap_decided_at := Some at\<rparr>)"
| expire_pending: "ap_status a = PENDING \<Longrightarrow> ap_expires_at a \<le> at \<Longrightarrow>
    approval_next a (a\<lparr>ap_status := EXPIRED, ap_decided_by := Some ''system'', ap_decided_at := Some at\<rparr>)"
| expire_approved: "ap_status a = APPROVED \<Longrightarrow> ap_expires_at a \<le> at \<Longrightarrow>
    approval_next a (a\<lparr>ap_status := EXPIRED\<rparr>)"
| consume: "ap_status a = APPROVED \<Longrightarrow> at < ap_expires_at a \<Longrightarrow>
    approval_next a (a\<lparr>ap_status := CONSUMED, ap_consumed_at := Some at\<rparr>)"

inductive_cases approval_nextE: "approval_next a b"

definition terminal_approval :: "approval_request \<Rightarrow> bool" where
  "terminal_approval a \<longleftrightarrow> ap_status a \<in> {REJECTED, EXPIRED, CONSUMED}"

lemma approval_next_binding: "approval_next a b \<Longrightarrow> same_binding a b"
  by (auto elim!: approval_nextE simp: same_binding_def)

lemma approval_next_wf: "approval_next a b \<Longrightarrow> approval_wf a \<Longrightarrow> approval_wf b"
  by (induction rule: approval_next.induct) (auto simp: approval_wf_iff)

lemma approval_next_terminal: "terminal_approval a \<Longrightarrow> \<not> approval_next a b"
  by (auto elim!: approval_nextE simp: terminal_approval_def)

lemma approval_star_terminal: "approval_next\<^sup>*\<^sup>* a b \<Longrightarrow> terminal_approval a \<Longrightarrow> b = a"
  by (induction rule: converse_rtranclp_induct) (auto dest: approval_next_terminal)

lemma approval_star_binding: "approval_next\<^sup>*\<^sup>* a b \<Longrightarrow> same_binding a b"
  by (induction rule: rtranclp_induct) (auto dest!: approval_next_binding simp: same_binding_def)

section \<open>Transitions of the domain object\<close>

lemma approval_decide_next:
  "approval_wf a \<Longrightarrow> (if b then approval_approve a who at else approval_reject a who at) = Inr a' \<Longrightarrow>
     approval_next a a' \<and> approval_wf a' \<and> ap_status a' = (if b then APPROVED else REJECTED)"
  by (auto simp: approval_approve_def approval_reject_def approval_require_pending_def result_bind_Inr_iff
      check_rules not_le split: if_splits intro: approval_next.intros)

lemma approval_expire_wf:
  assumes "approval_wf a" and "ap_status a \<in> {PENDING, APPROVED}" and "ap_expires_at a \<le> at"
  obtains a' where "approval_expire a at = Inr a'" "approval_next a a'" "approval_wf a'" "ap_status a' = EXPIRED"
proof (cases "ap_status a = APPROVED")
  case True
  let ?b = "a\<lparr>ap_status := EXPIRED\<rparr>"
  have n: "approval_next a ?b" using True assms(3) by (rule approval_next.expire_approved)
  have "approval_expire a at = Inr ?b"
    using assms True approval_next_wf [OF n assms(1)] by (auto simp: approval_expire_def check_rules)
  then show ?thesis using that n approval_next_wf [OF n assms(1)] by simp
next
  case False
  then have p: "ap_status a = PENDING" using assms(2) by simp
  let ?b = "a\<lparr>ap_status := EXPIRED, ap_decided_by := Some ''system'', ap_decided_at := Some at\<rparr>"
  have n: "approval_next a ?b" using p assms(3) by (rule approval_next.expire_pending)
  have "approval_expire a at = Inr ?b"
    using assms p approval_next_wf [OF n assms(1)] by (auto simp: approval_expire_def check_rules)
  then show ?thesis using that n approval_next_wf [OF n assms(1)] by simp
qed

text \<open>The five facts an approval is bound to, against a call.\<close>

definition approval_matches :: "approval_request \<Rightarrow> consume_approval_command \<Rightarrow> bool" where
  "approval_matches a c \<longleftrightarrow>
     ap_principal_id a = cc_principal_id c \<and> ap_tool_version_id a = cc_tool_version_id c \<and>
     ap_arguments_digest a = cc_arguments_digest c \<and> ap_policy_version a = cc_policy_version c \<and>
     ap_idempotency_key a = cc_idempotency_key c"

lemma require_matching_call_eq:
  "require_matching_call a c = (if approval_matches a c then Inr () else Inl (NexusError ApprovalMismatchError))"
  by (simp add: require_matching_call_def approval_matches_def)

lemma approval_consume_wf:
  assumes "approval_wf a" "ap_status a = APPROVED" "at < ap_expires_at a" "approval_matches a c"
  shows "approval_consume a (cc_principal_id c) (cc_tool_version_id c) (cc_arguments_digest c)
      (cc_policy_version c) (cc_idempotency_key c) at =
    Inr (a\<lparr>ap_status := CONSUMED, ap_consumed_at := Some at\<rparr>)"
  using assms approval_next_wf [OF approval_next.consume [OF assms(2,3)] assms(1)]
  by (auto simp: approval_consume_def approval_matches_def check_rules)

section \<open>Well-formed stores\<close>

definition approvals_ok :: "approval_store \<Rightarrow> bool" where
  "approvals_ok d \<longleftrightarrow> store_ok ap_id approval_wf d"

definition approvals_evolve :: "approval_store \<Rightarrow> approval_store \<Rightarrow> bool" where
  "approvals_evolve d d' \<longleftrightarrow>
     (\<forall>k a. dict_get d k = Some a \<longrightarrow> (\<exists>b. dict_get d' k = Some b \<and> approval_next\<^sup>*\<^sup>* a b))"

lemma approvals_okD: "approvals_ok d \<Longrightarrow> dict_get d k = Some a \<Longrightarrow> approval_wf a \<and> ap_id a = k"
  unfolding approvals_ok_def by (rule store_ok_get)

lemma approvals_ok_set:
  "approvals_ok d \<Longrightarrow> approval_wf a \<Longrightarrow> ap_id a = k \<Longrightarrow> approvals_ok (dict_set k a d)"
  unfolding approvals_ok_def by (rule store_ok_set)

lemma approvals_evolve_refl [simp]: "approvals_evolve d d"
  by (auto simp: approvals_evolve_def)

lemma approvals_evolve_trans: "approvals_evolve d e \<Longrightarrow> approvals_evolve e f \<Longrightarrow> approvals_evolve d f"
  unfolding approvals_evolve_def by (meson rtranclp_trans)

lemma approvals_evolve_step:
  "dict_get d k = Some a \<Longrightarrow> approval_next a b \<Longrightarrow> approvals_evolve d (dict_set k b d)"
  by (auto simp: approvals_evolve_def)

lemma approvals_evolve_fresh: "dict_get d k = None \<Longrightarrow> approvals_evolve d (dict_set k b d)"
  by (auto simp: approvals_evolve_def)

lemma approval_save_next:
  assumes ok: "approvals_ok d" and g: "approval_get t k d = Some a" and n: "approval_next a b"
  shows "approval_save t b d = Inr (dict_set k b d)"
    and "approvals_ok (dict_set k b d)" and "approvals_evolve d (dict_set k b d)"
proof -
  have a: "dict_get d k = Some a" "ap_tenant_id a = t" "ap_id a = k" "approval_wf a"
    using ok g approvals_okD by (auto simp: approval_get_def scoped_get_Some)
  have b: "ap_id b = k" "ap_tenant_id b = t" using approval_next_binding [OF n] a by (auto simp: same_binding_def)
  show "approval_save t b d = Inr (dict_set k b d)" using b g by (simp add: approval_save_def)
  show "approvals_ok (dict_set k b d)" using ok approval_next_wf [OF n a(4)] b(1) by (rule approvals_ok_set)
  show "approvals_evolve d (dict_set k b d)" using a(1) n by (rule approvals_evolve_step)
qed

section \<open>Use cases\<close>

text \<open>Consuming inside a transaction: the three ways it can end.\<close>

definition consume_outcome ::
  "consume_approval_command \<Rightarrow> instant \<Rightarrow> 'x approval_db_scheme \<Rightarrow> approval_request result \<Rightarrow>
   'x approval_db_scheme \<Rightarrow> bool" where
  "consume_outcome c at w r w' \<longleftrightarrow>
     (\<exists>a b. approval_get (cx_tenant_id (cc_context c)) (cc_approval_id c) (approvals w) = Some a \<and>
        ap_status a = APPROVED \<and> approval_next a b \<and>
        w' = w\<lparr>approvals := dict_set (cc_approval_id c) b (approvals w)\<rparr> \<and>
        (r = Inr b \<and> ap_status b = CONSUMED \<and> at < ap_expires_at a \<and> approval_matches a c \<and>
           b = a\<lparr>ap_status := CONSUMED, ap_consumed_at := Some at\<rparr> \<or>
         r = Inl (NexusError ApprovalExpiredError) \<and> ap_status b = EXPIRED \<and> ap_expires_at a \<le> at)) \<or>
     w' = w \<and> (\<exists>e. r = Inl (NexusError e) \<and>
        e \<in> {ApprovalNotFoundError, ApprovalPendingError, ApprovalRejectedError, ApprovalExpiredError,
             ApprovalAlreadyConsumedError, ApprovalMismatchError})"

lemma consume_locked_outcome:
  assumes ok: "approvals_ok (approvals (working t))"
  shows "wp (consume_locked_approval c at)
    (\<lambda>r t'. \<exists>w'. t' = t\<lparr>working := w'\<rparr> \<and> consume_outcome c at (working t) r w') t"
proof -
  let ?t = "cx_tenant_id (cc_context c)" and ?k = "cc_approval_id c" and ?d = "approvals (working t)"
  let ?Q = "\<lambda>r t'. \<exists>w'. t' = t\<lparr>working := w'\<rparr> \<and> consume_outcome c at (working t) r w'"
  have same: "t = t\<lparr>working := working t\<rparr>" by simp
  show ?thesis
  proof (cases "approval_get ?t ?k ?d")
    case None
    then show ?thesis
      using same by (auto simp: consume_locked_approval_def consume_outcome_def wp_rules)
  next
    case (Some a)
    have wf: "approval_wf a" using ok Some by (auto simp: approval_get_def scoped_get_Some dest: approvals_okD)
    show ?thesis
    proof (cases "ap_status a = APPROVED")
      case False
      then show ?thesis using Some same
        by (auto simp: consume_locked_approval_def consume_outcome_def require_consumable_status_def wp_rules
            split: approval_status.splits)
    next
      case ap: True
      show ?thesis
      proof (cases "ap_expires_at a \<le> at")
        case True
        obtain b where b: "approval_expire a at = Inr b" "approval_next a b" "ap_status b = EXPIRED"
          using approval_expire_wf [OF wf _ True] ap by blast
        note sv = approval_save_next [OF ok Some b(2)]
        let ?w = "working t\<lparr>approvals := dict_set ?k b ?d\<rparr>"
        have "consume_outcome c at (working t) (Inl (NexusError ApprovalExpiredError)) ?w"
          unfolding consume_outcome_def using Some ap b True by blast
        then show ?thesis using Some ap b True sv
          by (auto simp: consume_locked_approval_def require_consumable_status_def wp_rules on_field_def)
      next
        case False
        let ?b = "a\<lparr>ap_status := CONSUMED, ap_consumed_at := Some at\<rparr>"
        let ?w = "working t\<lparr>approvals := dict_set ?k ?b ?d\<rparr>"
        have lt: "at < ap_expires_at a" using False by simp
        have n: "approval_next a ?b" using ap lt by (rule approval_next.consume)
        note sv = approval_save_next [OF ok Some n]
        show ?thesis
        proof (cases "approval_matches a c")
          case True
          have "consume_outcome c at (working t) (Inr ?b) ?w"
            unfolding consume_outcome_def using Some ap n True lt by auto
          then show ?thesis
            using Some ap False sv True approval_consume_wf [OF wf ap lt True]
            by (auto simp: consume_locked_approval_def require_consumable_status_def wp_rules on_field_def
                require_matching_call_eq)
        next
          case nm: False
          then show ?thesis using Some ap False same
            by (auto simp: consume_locked_approval_def consume_outcome_def require_consumable_status_def wp_rules
                require_matching_call_eq)
        qed
      qed
    qed
  qed
qed

text \<open>Audit stores only grow at the end.\<close>

definition audits_extend :: "audit_store \<Rightarrow> audit_store \<Rightarrow> bool" where
  "audits_extend a b \<longleftrightarrow> (\<exists>new. b = a @ new)"

lemma audits_extend_refl [simp]: "audits_extend a a"
  by (simp add: audits_extend_def)

lemma audits_extend_append [simp]: "audits_extend a (a @ b)"
  by (simp add: audits_extend_def)

lemma audits_extend_trans: "audits_extend a b \<Longrightarrow> audits_extend b c \<Longrightarrow> audits_extend a c"
  by (auto simp: audits_extend_def)

text \<open>
  What every transaction on these stores keeps: well-formed approvals that move only along their
  life cycle, an audit log that only grows, by events not tied to an execution, and every store of
  the modules that extend the record.
\<close>

definition untied :: "audit_store \<Rightarrow> bool" where
  "untied new \<longleftrightarrow> (\<forall>p \<in> set new. au_execution_id (snd p) = None)"

lemma untied_simps [simp]:
  "untied []" "untied [p] \<longleftrightarrow> au_execution_id (snd p) = None"
  by (simp_all add: untied_def)

definition approval_db_safe :: "'x approval_db_scheme \<Rightarrow> 'x approval_db_scheme \<Rightarrow> bool" where
  "approval_db_safe w w' \<longleftrightarrow>
     approvals_ok (approvals w') \<and> approvals_evolve (approvals w) (approvals w') \<and>
     (\<exists>new. audits w' = audits w @ new \<and> untied new) \<and> approval_db.more w' = approval_db.more w"

lemma approval_db_safe_refl: "approvals_ok (approvals w) \<Longrightarrow> approval_db_safe w w"
  by (auto simp: approval_db_safe_def)

lemma approval_db_safe_audits: "approval_db_safe w w' \<Longrightarrow> audits_extend (audits w) (audits w')"
  by (auto simp: approval_db_safe_def)

lemma consume_outcome_safe:
  assumes "approvals_ok (approvals w)" "consume_outcome c at w r w'"
  shows "approval_db_safe w w'"
proof -
  from assms(2) consider (same) "w' = w"
    | (upd) a b where "approval_get (cx_tenant_id (cc_context c)) (cc_approval_id c) (approvals w) = Some a"
        "approval_next a b" "w' = w\<lparr>approvals := dict_set (cc_approval_id c) b (approvals w)\<rparr>"
    unfolding consume_outcome_def by blast
  then show ?thesis
  proof cases
    case same
    then show ?thesis using assms(1) by (simp add: approval_db_safe_refl)
  next
    case upd
    note sv = approval_save_next [OF assms(1) upd(1,2)]
    show ?thesis using sv upd(3) by (auto simp: approval_db_safe_def)
  qed
qed

lemma consume_outcome_unchanged:
  "consume_outcome c at w (Inl e) w' \<Longrightarrow> e \<noteq> NexusError ApprovalExpiredError \<Longrightarrow> w' = w"
  by (auto simp: consume_outcome_def)

lemma consume_outcome_dropped:
  "consume_outcome c at w (Inl e) w' \<Longrightarrow> e \<noteq> NexusError ApprovalExpiredError \<Longrightarrow>
     consume_outcome c at w (Inl e) w"
  by (frule (1) consume_outcome_unchanged) simp

lemma consume_approval_outcome:
  assumes ok: "approvals_ok (approvals (db s))"
  shows "wp (consume_approval c)
    (\<lambda>r s'. consume_outcome c (now_at s (ticks s)) (db s) r (db s') \<and> same_ports s s') s"
proof -
  let ?e = "(enter_uow s)\<lparr>ticks := Suc (ticks s)\<rparr>"
  have ok': "approvals_ok (approvals (working ?e))" using ok by simp
  show ?thesis
    unfolding consume_approval_def
    apply (simp add: wp_rules)
    apply (rule wp_mono [OF consume_locked_outcome [OF ok']])
    apply (auto simp: commit_if_expired_def wp_rules same_ports_def split: sum.splits
        dest: consume_outcome_dropped)
    done
qed

lemma request_approval_safe:
  assumes ok: "approvals_ok (approvals (db s))"
  shows "wp (request_approval ttl c) (\<lambda>r s'. approval_db_safe (db s) (db s') \<and> same_ports s s') s"
proof -
  have add: "approval_add t a d = Inr d' \<Longrightarrow> approval_wf a \<Longrightarrow> approvals_ok d \<Longrightarrow>
      approvals_ok d' \<and> approvals_evolve d d'" for t a d d'
    by (auto simp: approval_add_def approvals_ok_set approvals_evolve_fresh split: if_splits)
  show ?thesis
    unfolding request_approval_def
    by (auto simp: wp_rules same_ports_def check_rules on_field_Inr on_field_Inl approval_db_safe_def
        audit_append_Inr result_bind_Inr_iff ok dest: add split: sum.splits)
qed

text \<open>The ways a decision can end.\<close>

definition decide_outcome ::
  "decide_approval_command \<Rightarrow> instant \<Rightarrow> 'x approval_db_scheme \<Rightarrow> approval_request result \<Rightarrow>
   'x approval_db_scheme \<Rightarrow> bool" where
  "decide_outcome c at w r w' \<longleftrightarrow>
     (\<exists>a b new. approval_get (cx_tenant_id (dc_context c)) (dc_approval_id c) (approvals w) = Some a \<and>
        ap_status a = PENDING \<and> approval_next a b \<and>
        approvals w' = dict_set (dc_approval_id c) b (approvals w) \<and> audits w' = audits w @ new \<and>
        untied new \<and> approval_db.more w' = approval_db.more w \<and>
        (r = Inr b \<and> ap_status b = (if dc_approved c then APPROVED else REJECTED) \<and>
           at < ap_expires_at a \<and> length new = 1 \<or>
         r = Inl (NexusError ApprovalExpiredError) \<and> ap_status b = EXPIRED \<and> ap_expires_at a \<le> at \<and> new = [])) \<or>
     w' = w \<and> (\<exists>e. r = Inl e)"

lemma decide_approval_outcome:
  assumes ok: "approvals_ok (approvals (db s))"
  shows "wp (decide_approval c)
    (\<lambda>r s'. decide_outcome c (now_at s (ticks s)) (db s) r (db s') \<and> same_ports s s') s"
proof (cases "approval_get (cx_tenant_id (dc_context c)) (dc_approval_id c) (approvals (db s))")
  case None
  then show ?thesis
    by (simp add: decide_approval_def wp_rules decide_outcome_def same_ports_def)
next
  case (Some a)
  let ?at = "now_at s (ticks s)"
  have wf: "approval_wf a" using ok Some by (auto simp: approval_get_def scoped_get_Some dest: approvals_okD)
  show ?thesis
  proof (cases "ap_status a = PENDING")
    case False
    then show ?thesis using Some
      by (simp add: decide_approval_def wp_rules decide_outcome_def same_ports_def require_pending_decision_def)
  next
    case pe: True
    show ?thesis
    proof (cases "ap_expires_at a \<le> ?at")
      case True
      obtain b where b: "approval_expire a ?at = Inr b" "approval_next a b" "ap_status b = EXPIRED"
        using approval_expire_wf [OF wf _ True] pe by blast
      note sv = approval_save_next [OF ok Some b(2)]
      show ?thesis using Some pe b True sv
        by (auto simp: decide_approval_def wp_rules decide_outcome_def same_ports_def
            require_pending_decision_def on_field_def)
    next
      case False
      let ?r = "if dc_approved c then approval_approve a (cx_principal_id (dc_context c)) ?at
                else approval_reject a (cx_principal_id (dc_context c)) ?at"
      show ?thesis
      proof (cases ?r)
        case (Inl e)
        have "wp (decide_approval c) (\<lambda>r s'. r = Inl e \<and> db s' = db s \<and> same_ports s s') s"
          using Some pe False Inl
          by (cases "dc_approved c")
            (simp_all add: decide_approval_def wp_rules same_ports_def require_pending_decision_def)
        then show ?thesis by (rule wp_mono) (simp add: decide_outcome_def)
      next
        case (Inr b)
        note nx = approval_decide_next [OF wf Inr]
        note sv = approval_save_next [OF ok Some conjunct1 [OF nx]]
        show ?thesis using Some pe False sv nx Inr
          by (auto simp: decide_approval_def wp_rules decide_outcome_def same_ports_def
              require_pending_decision_def on_field_def audit_append_Inr check_rules
              split: sum.splits)
      qed
    qed
  qed
qed

lemma decide_outcome_safe:
  assumes "approvals_ok (approvals w)" "decide_outcome c at w r w'"
  shows "approval_db_safe w w'"
proof -
  from assms(2) consider (same) "w' = w"
    | (upd) a b new where "approval_get (cx_tenant_id (dc_context c)) (dc_approval_id c) (approvals w) = Some a"
        "approval_next a b" "approvals w' = dict_set (dc_approval_id c) b (approvals w)" "audits w' = audits w @ new"
        "untied new" "approval_db.more w' = approval_db.more w"
    unfolding decide_outcome_def by blast
  then show ?thesis
  proof cases
    case same
    then show ?thesis using assms(1) by (simp add: approval_db_safe_refl)
  next
    case upd
    note sv = approval_save_next [OF assms(1) upd(1,2)]
    show ?thesis using sv upd(3-6) by (auto simp: approval_db_safe_def)
  qed
qed

end
