(* ===== verification/Execution_Correct.thy ===== *)
theory Execution_Correct
  imports Execution_Lifecycle Approval_Correct
begin

text \<open>
  What the execution transactions guarantee: the life cycles of executions and attempts, the
  well-formedness of the stores taken together (\<open>ledger_ok\<close>: one execution per approval and per
  idempotency key, attempts numbered without gaps, an audit trail that agrees with the execution's
  status), and the exact outcome of each method of \<open>ExecutionLifecycle\<close>.
\<close>

section \<open>Life cycle of an execution\<close>

definition same_call :: "tool_execution \<Rightarrow> tool_execution \<Rightarrow> bool" where
  "same_call e f \<longleftrightarrow>
     ex_id f = ex_id e \<and> ex_tenant_id f = ex_tenant_id e \<and> ex_request_id f = ex_request_id e \<and>
     ex_trace_id f = ex_trace_id e \<and> ex_principal_id f = ex_principal_id e \<and> ex_tool_id f = ex_tool_id e \<and>
     ex_tool_version_id f = ex_tool_version_id e \<and> ex_tool_binding_id f = ex_tool_binding_id e \<and>
     ex_arguments_digest f = ex_arguments_digest e \<and> ex_policy_version f = ex_policy_version e \<and>
     ex_policy_reason_code f = ex_policy_reason_code e \<and> ex_side_effect f = ex_side_effect e \<and>
     ex_planned_at f = ex_planned_at e \<and> ex_approval_id f = ex_approval_id e \<and>
     ex_credential_binding_id f = ex_credential_binding_id e \<and> ex_idempotency_key f = ex_idempotency_key e \<and>
     ex_started_at f = ex_started_at e \<and> ex_mcp_scope_type f = ex_mcp_scope_type e \<and>
     ex_toolset_id f = ex_toolset_id e \<and> ex_toolset_revision f = ex_toolset_revision e"

definition terminal_status :: "execution_status \<Rightarrow> bool" where
  "terminal_status s \<longleftrightarrow> s \<in> {EX_SUCCEEDED, EX_FAILED, EX_UNKNOWN, EX_CANCELLED}"

inductive execution_next :: "tool_execution \<Rightarrow> tool_execution \<Rightarrow> bool" where
  attempt: "ex_status e = EX_RUNNING \<Longrightarrow>
    execution_next e (e\<lparr>ex_attempt_count := ex_attempt_count e + 1\<rparr>)"
| succeed: "ex_status e = EX_RUNNING \<Longrightarrow>
    execution_next e (e\<lparr>ex_status := EX_SUCCEEDED, ex_finished_at := Some tm\<rparr>)"
| fail: "ex_status e = EX_RUNNING \<Longrightarrow>
    execution_next e (e\<lparr>ex_status := EX_FAILED, ex_error_code := Some c, ex_error_category := Some cat,
      ex_finished_at := Some tm\<rparr>)"
| mark_unknown: "ex_status e = EX_RUNNING \<Longrightarrow>
    execution_next e (e\<lparr>ex_status := EX_UNKNOWN, ex_error_code := Some c,
      ex_error_category := Some CATEGORY_UNKNOWN, ex_finished_at := Some tm\<rparr>)"
| cancel: "ex_status e = EX_RUNNING \<Longrightarrow>
    execution_next e (e\<lparr>ex_status := EX_CANCELLED, ex_error_code := Some ''execution_cancelled'',
      ex_error_category := Some CATEGORY_CANCELLED, ex_finished_at := Some tm\<rparr>)"

inductive_cases execution_nextE: "execution_next e f"

lemma execution_next_call: "execution_next e f \<Longrightarrow> same_call e f"
  by (auto elim!: execution_nextE simp: same_call_def)

lemma execution_next_running: "execution_next e f \<Longrightarrow> ex_status e = EX_RUNNING"
  by (auto elim: execution_nextE)

lemma execution_text_ok_cong: "same_call e f \<Longrightarrow> execution_text_ok f = execution_text_ok e"
  by (simp add: same_call_def execution_text_ok_def)

lemma execution_next_wf: "execution_next e f \<Longrightarrow> execution_wf e \<Longrightarrow> execution_wf f"
  using execution_text_ok_cong [OF execution_next_call [of e f]]
  by (auto elim!: execution_nextE simp: execution_wf_iff execution_shape_def)

lemma execution_star_terminal:
  "execution_next\<^sup>*\<^sup>* e f \<Longrightarrow> terminal_status (ex_status e) \<Longrightarrow> f = e"
  by (induction rule: converse_rtranclp_induct)
    (auto dest!: execution_next_running simp: terminal_status_def)

lemma same_call_refl [simp]: "same_call e e"
  by (simp add: same_call_def)

lemma same_call_trans: "same_call e f \<Longrightarrow> same_call f g \<Longrightarrow> same_call e g"
  by (simp add: same_call_def)

lemma execution_star_call: "execution_next\<^sup>*\<^sup>* e f \<Longrightarrow> same_call e f"
  by (induction rule: rtranclp_induct) (auto dest: execution_next_call intro: same_call_trans)

text \<open>The audit outcome that belongs to a terminal status.\<close>

fun outcome_of :: "execution_status \<Rightarrow> audit_outcome list" where
  "outcome_of EX_SUCCEEDED = [OUTCOME_SUCCEEDED]"
| "outcome_of EX_FAILED = [OUTCOME_FAILED]"
| "outcome_of EX_UNKNOWN = [OUTCOME_UNKNOWN]"
| "outcome_of EX_CANCELLED = [OUTCOME_CANCELLED]"
| "outcome_of _ = []"

lemma finished_execution_next:
  assumes "ex_status e = EX_RUNNING" "finished_execution e status code category tm = Inr (t, out)"
  shows "execution_next e t \<and> outcome_of (ex_status t) = [out] \<and> terminal_status (ex_status t) \<and>
    (status \<in> {EX_SUCCEEDED, EX_UNKNOWN, EX_CANCELLED, EX_FAILED} \<longrightarrow> ex_status t = status) \<and>
    ex_attempt_count t = ex_attempt_count e"
  using assms
  by (auto simp: finished_execution_def execution_succeed_def execution_mark_unknown_def execution_cancel_def
      execution_fail_def execution_require_running_def result_bind_Inr_iff check_rules terminal_status_def
      split: if_splits option.splits intro: execution_next.intros)

lemma finished_execution_total:
  assumes wf: "execution_wf e" and run: "ex_status e = EX_RUNNING"
    and ok: "status = EX_SUCCEEDED \<or> status = EX_CANCELLED \<or> code \<noteq> None \<and> category \<noteq> None"
  obtains t out where "finished_execution e status code category tm = Inr (t, out)"
proof -
  have nx: "execution_wf f" if "execution_next e f" for f using that wf by (rule execution_next_wf)
  have "execution_wf (e\<lparr>ex_status := EX_SUCCEEDED, ex_finished_at := Some tm\<rparr>)"
    "execution_wf (e\<lparr>ex_status := EX_FAILED, ex_error_code := Some c, ex_error_category := Some cat,
      ex_finished_at := Some tm\<rparr>)"
    "execution_wf (e\<lparr>ex_status := EX_UNKNOWN, ex_error_code := Some c,
      ex_error_category := Some CATEGORY_UNKNOWN, ex_finished_at := Some tm\<rparr>)"
    "execution_wf (e\<lparr>ex_status := EX_CANCELLED, ex_error_code := Some ''execution_cancelled'',
      ex_error_category := Some CATEGORY_CANCELLED, ex_finished_at := Some tm\<rparr>)" for c cat
    by (rule nx, rule execution_next.intros, rule run)+
  then have "\<exists>t out. finished_execution e status code category tm = Inr (t, out)"
    using ok run
    by (auto simp: finished_execution_def execution_succeed_def execution_mark_unknown_def execution_cancel_def
        execution_fail_def execution_require_running_def result_bind_Inr_iff check_rules split: option.splits)
  then show thesis using that by blast
qed

section \<open>Life cycle of an attempt\<close>

definition attempt_next :: "execution_attempt \<Rightarrow> execution_attempt \<Rightarrow> bool" where
  "attempt_next a b \<longleftrightarrow>
     at_status a = AT_RUNNING \<and> at_status b \<noteq> AT_RUNNING \<and> attempt_wf b \<and>
     at_id b = at_id a \<and> at_tenant_id b = at_tenant_id a \<and> at_execution_id b = at_execution_id a \<and>
     at_attempt_number b = at_attempt_number a \<and> at_started_at b = at_started_at a"

lemma finished_attempt_next:
  assumes "at_status a = AT_RUNNING" "finished_attempt a status code category up tm = Inr b"
  shows "attempt_next a b \<and>
    (status \<in> {AT_SUCCEEDED, AT_FAILED, AT_UNKNOWN, AT_CANCELLED} \<longrightarrow> at_status b = status)"
  using assms
  by (auto simp: finished_attempt_def attempt_succeed_def attempt_cancel_def attempt_fail_def attempt_next_def
      attempt_require_running_def result_bind_Inr_iff check_rules split: if_splits option.splits)

section \<open>Audit events\<close>

lemma execution_audit_event_Inr:
  "execution_audit_event i e out tm = Inr ev \<Longrightarrow>
     au_id ev = i \<and> au_execution_id ev = Some (ex_id e) \<and> au_outcome ev = out \<and> au_tenant_id ev = ex_tenant_id e"
  by (auto simp: execution_audit_event_def result_bind_Inr_iff check_rules)

lemma metadata_keys_safe:
  "k \<in> {''side_effect'', ''execution_status'', ''attempt_count''} \<Longrightarrow> normalized_key k \<notin> set sensitive_keys"
proof -
  have "map normalized_key [''side_effect'', ''execution_status'', ''attempt_count''] =
      [''side_effect'', ''execution_status'', ''attempt_count'']" by code_simp
  moreover assume "k \<in> {''side_effect'', ''execution_status'', ''attempt_count''}"
  ultimately have "normalized_key k \<in> {''side_effect'', ''execution_status'', ''attempt_count''}" by auto
  then show ?thesis by (auto simp: sensitive_keys_def)
qed

lemma scope_audit_metadata_ok:
  "scope_ok sc t r \<Longrightarrow> \<exists>md. scope_audit_metadata (scope_type_value sc) t r None None = Inr md \<and>
     (\<forall>k \<in> fst ` set md. normalized_key k \<notin> set sensitive_keys)"
  using scope_metadata_safe
  by (cases sc) (auto simp: scope_audit_metadata_def result_bind_Inr_iff check_rules scope_ok_def)

lemma execution_audit_event_total:
  assumes "execution_wf e" "\<not> blank i"
  obtains ev where "execution_audit_event i e out tm = Inr ev"
proof -
  have "scope_ok (ex_mcp_scope_type e) (ex_toolset_id e) (ex_toolset_revision e)" "execution_text_ok e"
    using assms(1) by (auto simp: execution_wf_iff execution_text_ok_def)
  then obtain md where "scope_audit_metadata (scope_type_value (ex_mcp_scope_type e)) (ex_toolset_id e)
      (ex_toolset_revision e) None None = Inr md" "\<forall>k \<in> fst ` set md. normalized_key k \<notin> set sensitive_keys"
    using scope_audit_metadata_ok by blast
  then have "\<exists>ev. execution_audit_event i e out tm = Inr ev"
    using assms(2) \<open>execution_text_ok e\<close> metadata_keys_safe
    by (auto simp: execution_audit_event_def execution_text_ok_def check_rules blank_iff py_isspace_def)
  then show thesis using that by blast
qed

section \<open>The stores together\<close>

definition executions_ok :: "execution_store \<Rightarrow> bool" where
  "executions_ok d \<longleftrightarrow> store_ok ex_id execution_wf d"

definition attempts_ok :: "attempt_store \<Rightarrow> bool" where
  "attempts_ok d \<longleftrightarrow> store_ok at_id attempt_wf d"

definition one_per_idempotency_key :: "execution_store \<Rightarrow> bool" where
  "one_per_idempotency_key d \<longleftrightarrow>
     (\<forall>k l e f. dict_get d k = Some e \<longrightarrow> dict_get d l = Some f \<longrightarrow> ex_idempotency_key e \<noteq> None \<longrightarrow>
        ex_idempotency_key f = ex_idempotency_key e \<longrightarrow> ex_tenant_id f = ex_tenant_id e \<longrightarrow>
        ex_principal_id f = ex_principal_id e \<longrightarrow> ex_tool_version_id f = ex_tool_version_id e \<longrightarrow> k = l)"

definition one_per_approval :: "execution_store \<Rightarrow> bool" where
  "one_per_approval d \<longleftrightarrow>
     (\<forall>k l e f. dict_get d k = Some e \<longrightarrow> dict_get d l = Some f \<longrightarrow> ex_approval_id e \<noteq> None \<longrightarrow>
        ex_approval_id f = ex_approval_id e \<longrightarrow> k = l)"

text \<open>The approval that an execution used up: consumed, and granted for exactly this call.\<close>

definition approval_for :: "tool_execution \<Rightarrow> approval_request \<Rightarrow> bool" where
  "approval_for e a \<longleftrightarrow>
     ap_status a = CONSUMED \<and> ap_tenant_id a = ex_tenant_id e \<and> ap_principal_id a = ex_principal_id e \<and>
     ap_tool_version_id a = ex_tool_version_id e \<and> ap_arguments_digest a = ex_arguments_digest e \<and>
     ap_policy_version a = ex_policy_version e \<and> ap_idempotency_key a = ex_idempotency_key e \<and>
     ap_consumed_at a = Some (ex_planned_at e)"

definition approvals_used :: "approval_store \<Rightarrow> execution_store \<Rightarrow> bool" where
  "approvals_used ap d \<longleftrightarrow>
     (\<forall>k e i. dict_get d k = Some e \<longrightarrow> ex_approval_id e = Some i \<longrightarrow>
        (\<exists>a. dict_get ap i = Some a \<and> approval_for e a))"

definition attempt_numbers :: "string \<Rightarrow> attempt_store \<Rightarrow> int list" where
  "attempt_numbers k d = map at_attempt_number [a \<leftarrow> dict_values d. at_execution_id a = k]"

definition attempts_numbered :: "execution_store \<Rightarrow> attempt_store \<Rightarrow> bool" where
  "attempts_numbered d ats \<longleftrightarrow>
     (\<forall>k. attempt_numbers k ats = (case dict_get d k of None \<Rightarrow> [] | Some e \<Rightarrow> [1..ex_attempt_count e]))"

definition audit_outcomes :: "string \<Rightarrow> audit_store \<Rightarrow> audit_outcome list" where
  "audit_outcomes k au = map au_outcome [ev \<leftarrow> dict_values au. au_execution_id ev = Some k]"

definition audit_trail_ok :: "execution_store \<Rightarrow> audit_store \<Rightarrow> bool" where
  "audit_trail_ok d au \<longleftrightarrow>
     (\<forall>k. audit_outcomes k au =
        (case dict_get d k of None \<Rightarrow> [] | Some e \<Rightarrow> OUTCOME_ALLOWED # outcome_of (ex_status e)))"

definition ledger_ok :: "'x execution_db_scheme \<Rightarrow> bool" where
  "ledger_ok w \<longleftrightarrow>
     approvals_ok (approvals w) \<and> executions_ok (executions w) \<and> attempts_ok (attempts w) \<and>
     one_per_idempotency_key (executions w) \<and> one_per_approval (executions w) \<and>
     approvals_used (approvals w) (executions w) \<and> attempts_numbered (executions w) (attempts w) \<and>
     audit_trail_ok (executions w) (audits w)"

lemmas ledger_defs = ledger_ok_def one_per_idempotency_key_def one_per_approval_def approvals_used_def
  attempts_numbered_def audit_trail_ok_def

lemma ledger_ok_empty: "ledger_ok empty_execution_db"
  by (simp add: ledger_defs empty_execution_db_def approvals_ok_def executions_ok_def attempts_ok_def
      attempt_numbers_def audit_outcomes_def)

definition executions_evolve :: "execution_store \<Rightarrow> execution_store \<Rightarrow> bool" where
  "executions_evolve d d' \<longleftrightarrow>
     (\<forall>k e. dict_get d k = Some e \<longrightarrow> (\<exists>f. dict_get d' k = Some f \<and> execution_next\<^sup>*\<^sup>* e f))"

definition ledger_step :: "'x execution_db_scheme \<Rightarrow> 'x execution_db_scheme \<Rightarrow> bool" where
  "ledger_step w w' \<longleftrightarrow>
     ledger_ok w' \<and> approvals_evolve (approvals w) (approvals w') \<and>
     executions_evolve (executions w) (executions w') \<and> audits_extend (audits w) (audits w')"

lemma executions_evolve_refl [simp]: "executions_evolve d d"
  by (auto simp: executions_evolve_def)

lemma executions_evolve_trans: "executions_evolve d e \<Longrightarrow> executions_evolve e f \<Longrightarrow> executions_evolve d f"
  unfolding executions_evolve_def by (meson rtranclp_trans)

lemma ledger_step_refl: "ledger_ok w \<Longrightarrow> ledger_step w w"
  by (simp add: ledger_step_def)

lemma ledger_step_trans: "ledger_step u v \<Longrightarrow> ledger_step v w \<Longrightarrow> ledger_step u w"
  by (auto simp: ledger_step_def intro: approvals_evolve_trans executions_evolve_trans audits_extend_trans)

end
