(* ===== verification/Execution_Transactions.thy ===== *)
theory Execution_Transactions
  imports Execution_Correct
begin

text \<open>
  Each method of \<open>ExecutionLifecycle\<close> and of the approval use cases is a \<open>ledger_step\<close>, and its
  outcome on every branch. The first section has one lemma per kind of write; the rest runs the
  transactions with \<open>wp_rules\<close> and applies them.
\<close>

section \<open>Writes that keep the ledger\<close>

lemma audit_outcomes_append:
  "audit_outcomes k (au @ new) =
     audit_outcomes k au @ map au_outcome [ev \<leftarrow> map snd new. au_execution_id ev = Some k]"
  by (simp add: audit_outcomes_def)

lemma audit_outcomes_untied [simp]: "untied new \<Longrightarrow> audit_outcomes k (au @ new) = audit_outcomes k au"
  by (auto simp: audit_outcomes_append untied_def filter_empty_conv)

lemma approvals_used_evolve:
  assumes "approvals_evolve a a'" "approvals_used a d"
  shows "approvals_used a' d"
  unfolding approvals_used_def
proof (intro allI impI)
  fix k e i
  assume "dict_get d k = Some e" "ex_approval_id e = Some i"
  then obtain r where r: "dict_get a i = Some r" "approval_for e r"
    using assms(2) unfolding approvals_used_def by blast
  then obtain r' where "dict_get a' i = Some r'" "approval_next\<^sup>*\<^sup>* r r'"
    using assms(1) unfolding approvals_evolve_def by blast
  moreover have "terminal_approval r" using r(2) by (simp add: approval_for_def terminal_approval_def)
  ultimately show "\<exists>x. dict_get a' i = Some x \<and> approval_for e x"
    using r(2) approval_star_terminal by blast
qed

lemma approval_db_more:
  "approval_db.more w' = approval_db.more (w :: 'x execution_db_scheme) \<Longrightarrow>
     executions w' = executions w \<and> attempts w' = attempts w"
  by (cases w; cases w') simp

lemma ledger_step_approval_db:
  fixes w :: "'x execution_db_scheme"
  assumes ok: "ledger_ok w" and s: "approval_db_safe w w'"
  shows "ledger_step w w'"
proof -
  have same: "executions w' = executions w" "attempts w' = attempts w"
    using s approval_db_more [of w' w] by (auto simp: approval_db_safe_def)
  obtain new where new: "audits w' = audits w @ new" "untied new" using s by (auto simp: approval_db_safe_def)
  have "approvals_used (approvals w') (executions w)"
    using s ok by (auto simp: approval_db_safe_def ledger_ok_def intro: approvals_used_evolve)
  then have "ledger_ok w'"
    using ok s same new by (auto simp: ledger_ok_def approval_db_safe_def audit_trail_ok_def)
  then show ?thesis using s same new by (auto simp: ledger_step_def approval_db_safe_def)
qed

lemma untied_audit_safe:
  "approvals_ok (approvals w) \<Longrightarrow> au_execution_id ev = None \<Longrightarrow>
     approval_db_safe w (w\<lparr>audits := audits w @ [(i, ev)]\<rparr>)"
  by (auto simp: approval_db_safe_def intro!: exI [of _ "[(i, ev)]"])

text \<open>A new execution, with its approval consumed in the same write and its first audit event.\<close>

lemma ledger_step_plan:
  fixes w :: "'x execution_db_scheme"
  assumes ok: "ledger_ok w"
    and fresh: "dict_get (executions w) (ex_id e) = None"
    and wf: "execution_wf e" "ex_status e = EX_RUNNING" "ex_attempt_count e = 0"
    and idem: "\<And>k. ex_idempotency_key e = Some k \<Longrightarrow> execution_get_by_idempotency_key (ex_tenant_id e)
        (ex_principal_id e) (ex_tool_version_id e) k (executions w) = None"
    and ap: "approvals_ok ap'" "approvals_evolve (approvals w) ap'"
    and used: "\<And>i. ex_approval_id e = Some i \<Longrightarrow>
        (\<exists>a. dict_get (approvals w) i = Some a \<and> ap_status a = APPROVED) \<and>
        (\<exists>a. dict_get ap' i = Some a \<and> approval_for e a)"
    and ev: "au_execution_id ev = Some (ex_id e)" "au_outcome ev = OUTCOME_ALLOWED"
    and w': "w' = w\<lparr>approvals := ap', executions := dict_set (ex_id e) e (executions w),
                    audits := audits w @ [(i, ev)]\<rparr>"
  shows "ledger_step w w'"
proof -
  let ?d = "executions w"
  have "executions_ok (dict_set (ex_id e) e ?d)"
    using ok wf(1) by (auto simp: ledger_ok_def executions_ok_def intro: store_ok_set)
  moreover have "one_per_idempotency_key (dict_set (ex_id e) e ?d)"
  proof -
    have no: "\<not> (ex_idempotency_key f = ex_idempotency_key e \<and> ex_idempotency_key e \<noteq> None \<and>
        ex_tenant_id f = ex_tenant_id e \<and> ex_principal_id f = ex_principal_id e \<and>
        ex_tool_version_id f = ex_tool_version_id e)" if "dict_get ?d k = Some f" for k f
      using idem dict_get_values [OF that] by (fastforce simp: by_idempotency_key_None simp del: set_map)
    show ?thesis
      using ok no unfolding ledger_ok_def one_per_idempotency_key_def by (auto split: if_splits; metis)
  qed
  moreover have "one_per_approval (dict_set (ex_id e) e ?d)"
  proof -
    have no: "\<not> (ex_approval_id f = ex_approval_id e \<and> ex_approval_id e \<noteq> None)"
      if "dict_get ?d k = Some f" for k f
      using that used ok by (fastforce simp: ledger_ok_def approvals_used_def approval_for_def)
    show ?thesis
      using ok no unfolding ledger_ok_def one_per_approval_def by (auto split: if_splits; metis)
  qed
  moreover have "approvals_used ap' (dict_set (ex_id e) e ?d)"
    using approvals_used_evolve [OF ap(2)] ok used by (auto simp: ledger_ok_def approvals_used_def)
  moreover have "attempts_numbered (dict_set (ex_id e) e ?d) (attempts w)"
    using ok fresh wf(3) by (auto simp: ledger_ok_def attempts_numbered_def)
  moreover have "audit_trail_ok (dict_set (ex_id e) e ?d) (audits w')"
  proof -
    have "audit_outcomes k (audits w') =
        (if k = ex_id e then [OUTCOME_ALLOWED] else audit_outcomes k (audits w))" for k
      using ok fresh ev by (auto simp: w' audit_outcomes_append ledger_ok_def audit_trail_ok_def)
    then show ?thesis using ok wf(2) by (auto simp: ledger_ok_def audit_trail_ok_def)
  qed
  ultimately have "ledger_ok w'" using ok ap(1) by (simp add: w' ledger_ok_def)
  moreover have "executions_evolve ?d (executions w')"
    using fresh by (auto simp: w' executions_evolve_def)
  ultimately show ?thesis using ap(2) by (simp add: ledger_step_def w')
qed

text \<open>Overwriting an execution by the next state of its life cycle.\<close>

lemma executions_keep:
  assumes "dict_get d k = Some e" "same_call e f"
  shows "one_per_idempotency_key d \<Longrightarrow> one_per_idempotency_key (dict_set k f d)"
    and "one_per_approval d \<Longrightarrow> one_per_approval (dict_set k f d)"
    and "approvals_used ap d \<Longrightarrow> approvals_used ap (dict_set k f d)"
proof -
  show "one_per_idempotency_key d \<Longrightarrow> one_per_idempotency_key (dict_set k f d)"
    using assms unfolding one_per_idempotency_key_def same_call_def by (auto split: if_splits; metis)
  show "one_per_approval d \<Longrightarrow> one_per_approval (dict_set k f d)"
    using assms unfolding one_per_approval_def same_call_def by (auto split: if_splits; metis)
  show "approvals_used ap d \<Longrightarrow> approvals_used ap (dict_set k f d)"
    using assms unfolding approvals_used_def same_call_def by (auto split: if_splits simp: approval_for_def)
qed

lemma executions_ok_next:
  assumes "executions_ok d" "dict_get d k = Some e" "execution_next e f"
  shows "executions_ok (dict_set k f d)" "executions_evolve d (dict_set k f d)" "ex_id f = k" "execution_wf f"
proof -
  have e: "execution_wf e" "ex_id e = k"
    using store_ok_get [OF assms(1) [unfolded executions_ok_def] assms(2)] by blast+
  show f: "ex_id f = k" "execution_wf f"
    using execution_next_call [OF assms(3)] e execution_next_wf [OF assms(3)] by (auto simp: same_call_def)
  show "executions_ok (dict_set k f d)" using assms(1) f unfolding executions_ok_def by (intro store_ok_set)
  show "executions_evolve d (dict_set k f d)" using assms(2,3) by (auto simp: executions_evolve_def)
qed

lemma ledger_step_finish:
  fixes w :: "'x execution_db_scheme"
  assumes ok: "ledger_ok w" and e: "dict_get (executions w) k = Some e" "ex_status e = EX_RUNNING"
    and n: "execution_next e f" "ex_attempt_count f = ex_attempt_count e" "outcome_of (ex_status f) = [out]"
    and ev: "au_execution_id ev = Some k" "au_outcome ev = out"
    and w': "w' = w\<lparr>executions := dict_set k f (executions w), audits := audits w @ [(i, ev)]\<rparr>"
  shows "ledger_step w w'"
proof -
  have eo: "executions_ok (executions w)" using ok by (simp add: ledger_ok_def)
  note nx = executions_ok_next [OF eo e(1) n(1)] and kp = executions_keep [OF e(1) execution_next_call [OF n(1)]]
  have "attempts_numbered (executions w') (attempts w)"
    using ok e n(2) by (auto simp: w' ledger_ok_def attempts_numbered_def)
  moreover have "audit_trail_ok (executions w') (audits w')"
    using ok e ev n(3) by (auto simp: w' ledger_ok_def audit_trail_ok_def audit_outcomes_append)
  ultimately have "ledger_ok w'" using ok nx kp by (simp add: w' ledger_ok_def)
  then show ?thesis using nx by (simp add: w' ledger_step_def)
qed

lemma upto_snoc: "0 \<le> n \<Longrightarrow> [1..n + 1] = [1..n] @ [n + 1 :: int]"
  using upto_rec2 [of 1 "n + 1"] by simp

lemma attempt_numbers_add:
  "dict_get d (at_id a) = None \<Longrightarrow>
     attempt_numbers k (dict_set (at_id a) a d) =
       attempt_numbers k d @ (if at_execution_id a = k then [at_attempt_number a] else [])"
  by (simp add: attempt_numbers_def)

lemma ledger_step_start_attempt:
  fixes w :: "'x execution_db_scheme"
  assumes ok: "ledger_ok w" and e: "dict_get (executions w) k = Some e" "ex_status e = EX_RUNNING"
    and a: "attempt_wf a" "at_execution_id a = k" "at_attempt_number a = ex_attempt_count e + 1"
      "dict_get (attempts w) (at_id a) = None"
    and w': "w' = w\<lparr>executions := dict_set k (e\<lparr>ex_attempt_count := ex_attempt_count e + 1\<rparr>) (executions w),
                    attempts := dict_set (at_id a) a (attempts w)\<rparr>"
  shows "ledger_step w w'"
proof -
  have eo: "executions_ok (executions w)" using ok by (simp add: ledger_ok_def)
  have n: "execution_next e (e\<lparr>ex_attempt_count := ex_attempt_count e + 1\<rparr>)"
    using e(2) by (rule execution_next.attempt)
  note nx = executions_ok_next [OF eo e(1) n] and kp = executions_keep [OF e(1) execution_next_call [OF n]]
  have "0 \<le> ex_attempt_count e"
    using store_ok_get [OF eo [unfolded executions_ok_def] e(1)] by (simp add: execution_wf_iff)
  then have "attempts_numbered (executions w') (attempts w')"
    using ok e(1) a by (auto simp: w' ledger_ok_def attempts_numbered_def attempt_numbers_add upto_snoc)
  moreover have "attempts_ok (attempts w')"
    using ok a(1) by (auto simp: w' ledger_ok_def attempts_ok_def intro: store_ok_set)
  moreover have "audit_trail_ok (executions w') (audits w)"
    using ok e by (auto simp: w' ledger_ok_def audit_trail_ok_def)
  ultimately have "ledger_ok w'" using ok nx kp by (simp add: w' ledger_ok_def)
  then show ?thesis using nx by (simp add: w' ledger_step_def)
qed

lemma ledger_step_finish_attempt:
  fixes w :: "'x execution_db_scheme"
  assumes ok: "ledger_ok w" and a: "dict_get (attempts w) k = Some a" and n: "attempt_next a b"
    and w': "w' = w\<lparr>attempts := dict_set k b (attempts w)\<rparr>"
  shows "ledger_step w w'"
proof -
  have "attempts_ok (attempts w)" using ok by (simp add: ledger_ok_def)
  then have "at_id a = k" using store_ok_get [OF _ a] unfolding attempts_ok_def by blast
  then have "attempts_ok (attempts w')"
    using ok n by (auto simp: w' ledger_ok_def attempts_ok_def attempt_next_def intro: store_ok_set)
  moreover have "attempt_numbers l (attempts w') = attempt_numbers l (attempts w)" for l
    unfolding attempt_numbers_def w' using a n by (simp add: attempt_next_def) (rule dict_filter_set_same, auto)
  then have "attempts_numbered (executions w) (attempts w')"
    using ok by (simp add: ledger_ok_def attempts_numbered_def)
  ultimately have "ledger_ok w'" using ok by (simp add: w' ledger_ok_def)
  then show ?thesis by (simp add: ledger_step_def w')
qed

section \<open>Planning\<close>

text \<open>What the approval of a plan becomes when its consumption succeeds, and when it has expired.\<close>

definition plan_consumes :: "plan_execution_command \<Rightarrow> instant \<Rightarrow> approval_store \<Rightarrow> approval_store \<Rightarrow> bool" where
  "plan_consumes c now ap ap' \<longleftrightarrow>
     (case pl_approval_id c of
        None \<Rightarrow> ap' = ap
      | Some i \<Rightarrow>
          \<exists>a. approval_get (cx_tenant_id (pl_context c)) i ap = Some a \<and> ap_status a = APPROVED \<and>
              now < ap_expires_at a \<and> approval_matches a (plan_consume_command c i) \<and>
              ap' = dict_set i (a\<lparr>ap_status := CONSUMED, ap_consumed_at := Some now\<rparr>) ap)"

definition plan_expires :: "plan_execution_command \<Rightarrow> instant \<Rightarrow> approval_store \<Rightarrow> approval_store \<Rightarrow> bool" where
  "plan_expires c now ap ap' \<longleftrightarrow>
     (\<exists>i a b. pl_approval_id c = Some i \<and> approval_get (cx_tenant_id (pl_context c)) i ap = Some a \<and>
        ap_status a = APPROVED \<and> ap_expires_at a \<le> now \<and> approval_next a b \<and> ap_status b = EXPIRED \<and>
        ap' = dict_set i b ap)"

definition plan_failure ::
  "plan_execution_command \<Rightarrow> instant \<Rightarrow> exn \<Rightarrow> 'x approval_db_scheme \<Rightarrow> 'x approval_db_scheme \<Rightarrow> bool" where
  "plan_failure c now e w w' \<longleftrightarrow>
     w' = w \<or> e = NexusError ApprovalExpiredError \<and>
       (\<exists>ap'. plan_expires c now (approvals w) ap' \<and> w' = w\<lparr>approvals := ap'\<rparr>)"

lemma plan_consume_fields [simp]:
  "cc_context (plan_consume_command c i) = pl_context c" "cc_approval_id (plan_consume_command c i) = i"
  by (simp_all add: plan_consume_command_def)

lemma consume_outcome_plan:
  assumes o: "consume_outcome (plan_consume_command c i) now w r w'" and i: "pl_approval_id c = Some i"
  shows "case r of
      Inr _ \<Rightarrow> \<exists>ap'. w' = w\<lparr>approvals := ap'\<rparr> \<and> plan_consumes c now (approvals w) ap'
    | Inl e \<Rightarrow> plan_failure c now e w w'"
  using o i unfolding consume_outcome_def
  by (auto simp: plan_consumes_def plan_failure_def plan_expires_def) blast+

lemma consume_for_plan_outcome:
  assumes ok: "approvals_ok (approvals (working t))" and same: "db t = working t"
  shows "wp (consume_for_plan c now) (\<lambda>r t'. case r of
      Inr _ \<Rightarrow> \<exists>ap'. t' = t\<lparr>working := (working t)\<lparr>approvals := ap'\<rparr>\<rparr> \<and>
                 plan_consumes c now (approvals (working t)) ap'
    | Inl e \<Rightarrow> plan_failure c now e (db t) (db t') \<and> same_ports t t') t"
proof (cases "pl_approval_id c")
  case None
  then show ?thesis
    by (auto simp: consume_for_plan_def wp_rules plan_consumes_def intro: exI [of _ "approvals (working t)"])
next
  case (Some i)
  show ?thesis
    unfolding consume_for_plan_def Some
    apply (simp add: wp_rules)
    apply (rule wp_mono [OF consume_locked_outcome [OF ok]])
    subgoal premises p for r t'
    proof -
      obtain w' where w': "t' = t\<lparr>working := w'\<rparr>"
        and o: "consume_outcome (plan_consume_command c i) now (working t) r w'" using p by blast
      show ?thesis
        using consume_outcome_plan [OF o Some] w' same
        by (auto simp: commit_if_expired_def wp_rules same_ports_def plan_failure_def split: sum.splits)
    qed
    done
qed

definition started_execution :: "plan_execution_command \<Rightarrow> string \<Rightarrow> instant \<Rightarrow> tool_execution" where
  "started_execution c i now = (planned_execution c i now)\<lparr>ex_status := EX_RUNNING, ex_started_at := Some now\<rparr>"

lemma started_execution_fields [simp]:
  "ex_id (started_execution c i now) = i" "ex_tenant_id (started_execution c i now) = cx_tenant_id (pl_context c)"
  "ex_principal_id (started_execution c i now) = pl_principal_id c"
  "ex_tool_version_id (started_execution c i now) = pl_tool_version_id c"
  "ex_arguments_digest (started_execution c i now) = pl_arguments_digest c"
  "ex_policy_version (started_execution c i now) = pl_policy_version c"
  "ex_status (started_execution c i now) = EX_RUNNING"
  "ex_approval_id (started_execution c i now) = pl_approval_id c"
  "ex_idempotency_key (started_execution c i now) = pl_idempotency_key c"
  "ex_attempt_count (started_execution c i now) = 0" "ex_planned_at (started_execution c i now) = now"
  by (simp_all add: started_execution_def planned_execution_def)

text \<open>The state after a successful plan: approval, execution and audit event in one commit.\<close>

definition planned_db ::
  "plan_execution_command \<Rightarrow> instant \<Rightarrow> string \<Rightarrow> tool_execution \<Rightarrow> 'x execution_db_scheme \<Rightarrow>
   'x execution_db_scheme \<Rightarrow> bool" where
  "planned_db c now audit_id e w w' \<longleftrightarrow>
     (\<exists>ap' ev. au_id ev = audit_id \<and> plan_consumes c now (approvals w) ap' \<and> dict_get (executions w) (ex_id e) = None \<and>
        au_execution_id ev = Some (ex_id e) \<and> au_outcome ev = OUTCOME_ALLOWED \<and>
        dict_get (audits w) (au_id ev) = None \<and>
        (\<forall>k. pl_idempotency_key c = Some k \<longrightarrow>
           execution_get_by_idempotency_key (ex_tenant_id e) (ex_principal_id e) (ex_tool_version_id e) k
             (executions w) = None) \<and>
        w' = w\<lparr>approvals := ap', executions := dict_set (ex_id e) e (executions w),
               audits := audits w @ [(au_id ev, ev)]\<rparr>)"

lemma planned_dbI:
  "plan_consumes c now (approvals w) ap' \<Longrightarrow> k = ex_id e \<Longrightarrow> dict_get (executions w) k = None \<Longrightarrow>
     au_execution_id ev = Some k \<Longrightarrow> au_outcome ev = OUTCOME_ALLOWED \<Longrightarrow> au_id ev = i \<Longrightarrow>
     dict_get (audits w) i = None \<Longrightarrow>
     (\<And>x. pl_idempotency_key c = Some x \<Longrightarrow>
        execution_get_by_idempotency_key (ex_tenant_id e) (ex_principal_id e) (ex_tool_version_id e) x
          (executions w) = None) \<Longrightarrow>
     planned_db c now i e w (w\<lparr>approvals := ap', executions := dict_set k e (executions w),
       audits := audits w @ [(i, ev)]\<rparr>)"
  unfolding planned_db_def by blast

lemma started_execution_Inr:
  "result_bind (execution_post_init (planned_execution c i now)) (\<lambda>e. execution_start e now) = Inr e \<Longrightarrow>
     e = started_execution c i now \<and> execution_wf e"
  by (auto simp: result_bind_Inr_iff check_rules execution_start_def started_execution_def split: if_splits)

lemma plan_outcome:
  fixes s :: "(instant, 'x execution_db_scheme) sys"
  assumes ok: "approvals_ok (approvals (db s))"
  shows "wp (plan c) (\<lambda>r s'. same_ports s s' \<and> (case r of
      Inr e \<Rightarrow> e = started_execution c (id_at s (id_count s)) (now_at s (ticks s)) \<and> execution_wf e \<and>
                planned_db c (now_at s (ticks s)) (id_at s (Suc (id_count s))) e (db s) (db s') \<and>
                id_count s' = Suc (Suc (id_count s))
    | Inl e \<Rightarrow> plan_failure c (now_at s (ticks s)) e (db s) (db s'))) s"
proof -
  let ?now = "now_at s (ticks s)" and ?i = "id_at s (id_count s)" and ?j = "id_at s (Suc (id_count s))"
  let ?s = "s\<lparr>ticks := Suc (ticks s), id_count := Suc (id_count s)\<rparr>"
  let ?e = "started_execution c ?i ?now"
  let ?Q = "\<lambda>r s'. same_ports s s' \<and> (case r of
      Inr e \<Rightarrow> e = ?e \<and> execution_wf e \<and> planned_db c ?now ?j e (db s) (db s') \<and> id_count s' = Suc (Suc (id_count s))
    | Inl e \<Rightarrow> plan_failure c ?now e (db s) (db s'))"
  have same: "plan_failure c ?now e (db s) (db s)" for e by (simp add: plan_failure_def)
  have body: "wp (seq (consume_for_plan c ?now)
       (seq (add_execution (cx_tenant_id (pl_context c)) ?e)
       (seq (append_execution_audit ?e OUTCOME_ALLOWED ?now) commit)))
     (\<lambda>r t. same_ports s t \<and> (case r of Inr _ \<Rightarrow> planned_db c ?now ?j ?e (db s) (db t) \<and> id_count t = Suc (Suc (id_count s))
        | Inl e \<Rightarrow> plan_failure c ?now e (db s) (db t))) (enter_uow ?s)"
    if idem: "\<forall>k. pl_idempotency_key c = Some k \<longrightarrow>
           execution_get_by_idempotency_key (ex_tenant_id ?e) (ex_principal_id ?e) (ex_tool_version_id ?e) k
             (executions (db s)) = None"
    unfolding wp_seq
    apply (rule wp_mono [OF consume_for_plan_outcome])
    subgoal using ok by simp
    subgoal by simp
    subgoal for r t
      using idem
      by (auto simp: wp_rules on_field_Inr on_field_Inl execution_add_Inr append_execution_audit_def same
          audit_append_Inr same_ports_def split: sum.splits dest!: execution_audit_event_Inr intro!: planned_dbI)
    done
  show ?thesis
  proof (cases "result_bind (execution_post_init (planned_execution c ?i ?now)) (\<lambda>e. execution_start e ?now)")
    case (Inl e)
    then show ?thesis by (simp add: plan_def wp_rules same same_ports_def)
  next
    case (Inr e)
    note e = started_execution_Inr [OF Inr]
    define m :: "((instant, 'x execution_db_scheme) tx, unit) prog" where "m = seq (check_idempotency c) (seq (consume_for_plan c ?now)
       (seq (add_execution (cx_tenant_id (pl_context c)) ?e)
       (seq (append_execution_audit ?e OUTCOME_ALLOWED ?now) commit)))"
    have "wp m (\<lambda>r t. same_ports s t \<and> (case r of Inr _ \<Rightarrow> planned_db c ?now ?j ?e (db s) (db t) \<and> id_count t = Suc (Suc (id_count s))
        | Inl e \<Rightarrow> plan_failure c ?now e (db s) (db t))) (enter_uow ?s)"
      using body same unfolding m_def
      by (subst wp_seq) (auto simp: check_idempotency_def wp_rules same_ports_def simp del: wp_seq split: option.splits)
    then have "wp (seq (with_uow m) (ret ?e)) ?Q ?s"
      using e by (simp add: wp_rules) (erule wp_mono, auto simp: same_ports_def wp_rules split: sum.splits)
    then show ?thesis
      using e Inr unfolding m_def by (simp add: plan_def wp_clock_now wp_new_id wp_bind wp_lift)
  qed
qed

lemma plan_failure_safe:
  fixes w :: "'x execution_db_scheme"
  assumes ok: "approvals_ok (approvals w)" and f: "plan_failure c now e w w'"
  shows "approval_db_safe w w'"
proof -
  from f consider "w' = w"
    | i a b where "approval_get (cx_tenant_id (pl_context c)) i (approvals w) = Some a" "approval_next a b"
        "w' = w\<lparr>approvals := dict_set i b (approvals w)\<rparr>"
    unfolding plan_failure_def plan_expires_def by blast
  then show ?thesis
  proof cases
    case 1
    then show ?thesis using ok by (simp add: approval_db_safe_refl)
  next
    case 2
    note sv = approval_save_next [OF ok 2(1,2)]
    show ?thesis using sv 2(3) by (auto simp: approval_db_safe_def)
  qed
qed

lemma plan_consumes_evolve:
  assumes ok: "approvals_ok ap" and c: "plan_consumes c now ap ap'"
  shows "approvals_ok ap' \<and> approvals_evolve ap ap'"
proof (cases "pl_approval_id c")
  case None
  then show ?thesis using ok c by (simp add: plan_consumes_def)
next
  case (Some i)
  then obtain a where a: "approval_get (cx_tenant_id (pl_context c)) i ap = Some a" "ap_status a = APPROVED"
      "now < ap_expires_at a"
    and ap': "ap' = dict_set i (a\<lparr>ap_status := CONSUMED, ap_consumed_at := Some now\<rparr>) ap"
    using c by (auto simp: plan_consumes_def)
  have n: "approval_next a (a\<lparr>ap_status := CONSUMED, ap_consumed_at := Some now\<rparr>)"
    using a(2,3) by (rule approval_next.consume)
  show ?thesis using approval_save_next [OF ok a(1) n] ap' by simp
qed

lemma plan_consumes_for:
  assumes "plan_consumes c now ap ap'" "pl_approval_id c = Some i"
  shows "\<exists>a. dict_get ap i = Some a \<and> ap_status a = APPROVED"
    and "\<exists>a. dict_get ap' i = Some a \<and> approval_for (started_execution c k now) a"
  using assms
  by (auto simp: plan_consumes_def approval_get_def scoped_get_Some approval_for_def approval_matches_def
      plan_consume_command_def)

lemma plan_step:
  fixes s :: "(instant, 'x execution_db_scheme) sys"
  assumes ok: "ledger_ok (db s)"
  shows "wp (plan c) (\<lambda>r s'. ledger_step (db s) (db s') \<and> same_ports s s') s"
proof -
  let ?now = "now_at s (ticks s)" and ?e = "started_execution c (id_at s (id_count s)) (now_at s (ticks s))"
  have ap: "approvals_ok (approvals (db s))" using ok by (simp add: ledger_ok_def)
  have step: "ledger_step (db s) w'" if wf: "execution_wf ?e" and p: "planned_db c ?now (id_at s (Suc (id_count s))) ?e (db s) w'" for w'
  proof -
    from p obtain ap' ev where c: "plan_consumes c ?now (approvals (db s)) ap'"
      and fr: "dict_get (executions (db s)) (ex_id ?e) = None"
      and ev: "au_execution_id ev = Some (ex_id ?e)" "au_outcome ev = OUTCOME_ALLOWED"
      and idem: "\<And>k. ex_idempotency_key ?e = Some k \<Longrightarrow> execution_get_by_idempotency_key (ex_tenant_id ?e)
        (ex_principal_id ?e) (ex_tool_version_id ?e) k (executions (db s)) = None"
      and w': "w' = db s\<lparr>approvals := ap', executions := dict_set (ex_id ?e) ?e (executions (db s)),
               audits := audits (db s) @ [(au_id ev, ev)]\<rparr>"
      unfolding planned_db_def by auto
    note evo = plan_consumes_evolve [OF ap c]
    show ?thesis
      by (rule ledger_step_plan [OF ok fr wf _ _ idem conjunct1 [OF evo] conjunct2 [OF evo] _ ev w'])
        (use plan_consumes_for [OF c] in auto)
  qed
  show ?thesis
    by (rule wp_mono [OF plan_outcome [OF ap]])
      (auto simp: step split: sum.splits dest!: plan_failure_safe [OF ap] ledger_step_approval_db [OF ok])
qed

section \<open>Attempts\<close>

lemma start_attempt_outcome:
  fixes s :: "(instant, 'x execution_db_scheme) sys"
  assumes ok: "ledger_ok (db s)"
  shows "wp (start_attempt t k) (\<lambda>r s'. same_ports s s' \<and> (case r of
      Inl _ \<Rightarrow> db s' = db s
    | Inr a \<Rightarrow> \<exists>e. execution_get t k (executions (db s)) = Some e \<and> ex_status e = EX_RUNNING \<and>
        attempt_wf a \<and> at_execution_id a = k \<and> at_tenant_id a = t \<and> at_status a = AT_RUNNING \<and>
        at_attempt_number a = ex_attempt_count e + 1 \<and> dict_get (attempts (db s)) (at_id a) = None \<and>
        db s' = db s\<lparr>executions := dict_set k (e\<lparr>ex_attempt_count := ex_attempt_count e + 1\<rparr>) (executions (db s)),
                      attempts := dict_set (at_id a) a (attempts (db s))\<rparr>)) s"
proof -
  have id: "ex_id e = k" if "execution_get t k (executions (db s)) = Some e" for e
    using that ok store_ok_get [of ex_id execution_wf "executions (db s)" k e]
    by (auto simp: execution_get_def scoped_get_Some ledger_ok_def executions_ok_def)
  show ?thesis
    unfolding start_attempt_def
    by (auto simp: wp_rules same_ports_def execution_register_attempt_def execution_require_running_def
        check_rules on_field_Inr on_field_Inl execution_save_Inr attempt_add_Inr id
        split: option.splits sum.splits)
qed

lemma start_attempt_step:
  fixes s :: "(instant, 'x execution_db_scheme) sys"
  assumes ok: "ledger_ok (db s)"
  shows "wp (start_attempt t k) (\<lambda>r s'. ledger_step (db s) (db s') \<and> same_ports s s') s"
proof (rule wp_mono [OF start_attempt_outcome [OF ok]])
  fix r s'
  assume o: "same_ports s s' \<and> (case r of
      Inl _ \<Rightarrow> db s' = db s
    | Inr a \<Rightarrow> \<exists>e. execution_get t k (executions (db s)) = Some e \<and> ex_status e = EX_RUNNING \<and>
        attempt_wf a \<and> at_execution_id a = k \<and> at_tenant_id a = t \<and> at_status a = AT_RUNNING \<and>
        at_attempt_number a = ex_attempt_count e + 1 \<and> dict_get (attempts (db s)) (at_id a) = None \<and>
        db s' = db s\<lparr>executions := dict_set k (e\<lparr>ex_attempt_count := ex_attempt_count e + 1\<rparr>) (executions (db s)),
                      attempts := dict_set (at_id a) a (attempts (db s))\<rparr>)"
  show "ledger_step (db s) (db s') \<and> same_ports s s'"
  proof (cases r)
    case (Inl x)
    then show ?thesis using o ok by (simp add: ledger_step_refl)
  next
    case (Inr a)
    then obtain e where "execution_get t k (executions (db s)) = Some e" "ex_status e = EX_RUNNING"
      "attempt_wf a" "at_execution_id a = k" "at_attempt_number a = ex_attempt_count e + 1"
      "dict_get (attempts (db s)) (at_id a) = None"
      "db s' = db s\<lparr>executions := dict_set k (e\<lparr>ex_attempt_count := ex_attempt_count e + 1\<rparr>) (executions (db s)),
                    attempts := dict_set (at_id a) a (attempts (db s))\<rparr>"
      using o by auto
    moreover from this(1) have "dict_get (executions (db s)) k = Some e"
      by (simp add: execution_get_def scoped_get_Some)
    ultimately have "ledger_step (db s) (db s')" using ledger_step_start_attempt [OF ok] by metis
    then show ?thesis using o by simp
  qed
qed

lemma finish_attempt_outcome:
  fixes s :: "(instant, 'x execution_db_scheme) sys"
  assumes ok: "ledger_ok (db s)"
  shows "wp (finish_attempt t k status code category up) (\<lambda>r s'. same_ports s s' \<and> (case r of
      Inl _ \<Rightarrow> db s' = db s
    | Inr b \<Rightarrow> \<exists>a. attempt_get t k (attempts (db s)) = Some a \<and> attempt_next a b \<and>
        (status \<noteq> AT_RUNNING \<longrightarrow> at_status b = status) \<and>
        db s' = db s\<lparr>attempts := dict_set k b (attempts (db s))\<rparr>)) s"
proof (cases "attempt_get t k (attempts (db s))")
  case None
  then show ?thesis by (simp add: finish_attempt_def wp_rules same_ports_def)
next
  case (Some a)
  have id: "at_id a = k" "at_tenant_id a = t"
    using Some ok store_ok_get [of at_id attempt_wf "attempts (db s)" k a]
    by (auto simp: attempt_get_def scoped_get_Some ledger_ok_def attempts_ok_def)
  show ?thesis
  proof (cases "at_status a = AT_RUNNING")
    case False
    then show ?thesis using Some by (simp add: finish_attempt_def wp_rules same_ports_def)
  next
    case run: True
    show ?thesis
    proof (cases "finished_attempt a status code category up (now_at s (ticks s))")
      case (Inl e)
      then show ?thesis using Some run by (simp add: finish_attempt_def wp_rules same_ports_def)
    next
      case (Inr b)
      note n = finished_attempt_next [OF run Inr]
      then have "at_id b = k" "at_tenant_id b = t" using id by (auto simp: attempt_next_def)
      then have "attempt_save t b (attempts (db s)) = Inr (dict_set k b (attempts (db s)))"
        using Some by (simp add: attempt_save_Inr)
      then show ?thesis using Some run Inr n
        by (cases status) (simp_all add: finish_attempt_def wp_rules same_ports_def on_field_def)
    qed
  qed
qed

lemma finish_attempt_step:
  fixes s :: "(instant, 'x execution_db_scheme) sys"
  assumes ok: "ledger_ok (db s)"
  shows "wp (finish_attempt t k status code category up)
    (\<lambda>r s'. ledger_step (db s) (db s') \<and> same_ports s s') s"
  by (rule wp_mono [OF finish_attempt_outcome [OF ok]])
    (auto simp: ledger_step_refl ok attempt_get_def scoped_get_Some split: sum.splits
      intro: ledger_step_finish_attempt [OF ok])

section \<open>Finishing\<close>

text \<open>The state after a successful finish: the terminal execution and its audit event in one commit.\<close>

definition finished_db ::
  "string \<Rightarrow> string \<Rightarrow> execution_status \<Rightarrow> tool_execution \<Rightarrow> 'x execution_db_scheme \<Rightarrow> 'x execution_db_scheme \<Rightarrow> bool" where
  "finished_db t k status f w w' \<longleftrightarrow>
     (\<exists>e ev out. execution_get t k (executions w) = Some e \<and> ex_status e = EX_RUNNING \<and> execution_next e f \<and>
        ex_attempt_count f = ex_attempt_count e \<and> outcome_of (ex_status f) = [out] \<and>
        (terminal_status status \<longrightarrow> ex_status f = status) \<and>
        au_execution_id ev = Some k \<and> au_outcome ev = out \<and>
        w' = w\<lparr>executions := dict_set k f (executions w), audits := audits w @ [(au_id ev, ev)]\<rparr>)"

lemma finish_outcome:
  fixes s :: "(instant, 'x execution_db_scheme) sys"
  assumes ok: "ledger_ok (db s)"
  shows "wp (finish t k status code category) (\<lambda>r s'. same_ports s s' \<and> (case r of
      Inl _ \<Rightarrow> db s' = db s
    | Inr f \<Rightarrow> finished_db t k status f (db s) (db s'))) s"
proof (cases "execution_get t k (executions (db s))")
  case None
  then show ?thesis by (simp add: finish_def wp_rules same_ports_def)
next
  case (Some e)
  have id: "ex_id e = k" "ex_tenant_id e = t" "execution_wf e"
    using Some ok store_ok_get [of ex_id execution_wf "executions (db s)" k e]
    by (auto simp: execution_get_def scoped_get_Some ledger_ok_def executions_ok_def)
  show ?thesis
  proof (cases "ex_status e = EX_RUNNING")
    case False
    then show ?thesis using Some by (simp add: finish_def wp_rules same_ports_def)
  next
    case run: True
    show ?thesis
    proof (cases "finished_execution e status code category (now_at s (ticks s))")
      case (Inl e)
      then show ?thesis using Some run by (simp add: finish_def wp_rules same_ports_def)
    next
      case (Inr p)
      obtain f out where p: "p = (f, out)" by force
      note n = finished_execution_next [OF run Inr [unfolded p]]
      have fid: "ex_id f = k" "ex_tenant_id f = t"
        using execution_next_call [of e f] n id by (auto simp: same_call_def)
      then have sv: "execution_save t f (executions (db s)) = Inr (dict_set k f (executions (db s)))"
        using Some by (simp add: execution_save_Inr)
      show ?thesis
      proof (cases "execution_audit_event (id_at s (id_count s)) f out (now_at s (ticks s))")
        case (Inl e)
        then show ?thesis using Some run Inr p sv
          by (simp add: finish_def wp_rules same_ports_def on_field_def append_execution_audit_def)
      next
        case ev: (Inr ev)
        note evf = execution_audit_event_Inr [OF ev]
        have "finished_db t k status f (db s)
          (db s\<lparr>executions := dict_set k f (executions (db s)), audits := audits (db s) @ [(au_id ev, ev)]\<rparr>)"
          unfolding finished_db_def using Some run n evf fid by (auto simp: terminal_status_def)
        then show ?thesis using Some run Inr p sv ev
          by (auto simp: finish_def wp_rules same_ports_def on_field_def append_execution_audit_def
              audit_append_Inr split: sum.splits)
      qed
    qed
  qed
qed

lemma finish_step:
  fixes s :: "(instant, 'x execution_db_scheme) sys"
  assumes ok: "ledger_ok (db s)"
  shows "wp (finish t k status code category) (\<lambda>r s'. ledger_step (db s) (db s') \<and> same_ports s s') s"
  by (rule wp_mono [OF finish_outcome [OF ok]])
    (auto simp: ledger_step_refl ok finished_db_def execution_get_def scoped_get_Some split: sum.splits
      intro: ledger_step_finish [OF ok])

text \<open>
  A finish that asks for a well-formed end of a running execution succeeds when the audit identifier
  it draws is not taken and not blank.
\<close>

lemma finish_total:
  fixes s :: "(instant, 'x execution_db_scheme) sys"
  assumes ok: "ledger_ok (db s)"
    and e: "execution_get t k (executions (db s)) = Some e" "ex_status e = EX_RUNNING"
    and st: "status = EX_SUCCEEDED \<or> status = EX_CANCELLED \<or> code \<noteq> None \<and> category \<noteq> None"
    and i: "\<not> blank (id_at s (id_count s))" "dict_get (audits (db s)) (id_at s (id_count s)) = None"
  shows "wp (finish t k status code category) (\<lambda>r s'. \<exists>f. r = Inr f) s"
proof -
  have id: "ex_id e = k" "ex_tenant_id e = t" "execution_wf e"
    using e ok store_ok_get [of ex_id execution_wf "executions (db s)" k e]
    by (auto simp: execution_get_def scoped_get_Some ledger_ok_def executions_ok_def)
  obtain f out where f: "finished_execution e status code category (now_at s (ticks s)) = Inr (f, out)"
    using finished_execution_total [OF id(3) e(2) st] .
  note n = finished_execution_next [OF e(2) f]
  have fid: "ex_id f = k" "ex_tenant_id f = t"
    using execution_next_call [of e f] n id by (auto simp: same_call_def)
  then have sv: "execution_save t f (executions (db s)) = Inr (dict_set k f (executions (db s)))"
    using e by (simp add: execution_save_Inr)
  have "execution_wf f" using execution_next_wf n id(3) by blast
  then obtain ev where ev: "execution_audit_event (id_at s (id_count s)) f out (now_at s (ticks s)) = Inr ev"
    using execution_audit_event_total i(1) by blast
  then have "au_id ev = id_at s (id_count s)" using execution_audit_event_Inr by blast
  then show ?thesis using e f sv ev i(2)
    by (simp add: finish_def wp_rules on_field_def append_execution_audit_def audit_append_fresh)
qed

section \<open>Decisions and approvals\<close>

text \<open>One audit event of a kind, tied to no execution, and nothing else.\<close>

definition logs_event :: "(audit_event \<Rightarrow> bool) \<Rightarrow> 'x approval_db_scheme \<Rightarrow> 'x approval_db_scheme \<Rightarrow> bool" where
  "logs_event P w w' \<longleftrightarrow>
     (\<exists>ev. P ev \<and> au_execution_id ev = None \<and> w' = w\<lparr>audits := audits w @ [(au_id ev, ev)]\<rparr>)"

lemma logs_eventI:
  "P ev \<Longrightarrow> au_execution_id ev = None \<Longrightarrow> i = au_id ev \<Longrightarrow>
     logs_event P w (w\<lparr>audits := audits w @ [(i, ev)]\<rparr>)"
  by (auto simp: logs_event_def)

lemma record_call_decision_safe:
  "approvals_ok (approvals (db s)) \<Longrightarrow>
     wp (record_call_decision c) (\<lambda>r s'. same_ports s s' \<and> approval_db_safe (db s) (db s') \<and> (case r of
        Inl _ \<Rightarrow> db s' = db s
      | Inr _ \<Rightarrow> logs_event (\<lambda>ev. au_outcome ev = rd_outcome c \<and> au_resource_id ev = rd_tool_version_id c \<and>
          au_tenant_id ev = cx_tenant_id (rd_context c) \<and> au_actor_id ev = rd_principal_id c)
          (db s) (db s'))) s"
  by (auto simp: record_call_decision_def wp_rules same_ports_def on_field_Inr on_field_Inl audit_append_Inr
      approval_db_safe_refl result_bind_Inr_iff check_rules untied_audit_safe split: sum.splits
      intro!: logs_eventI)

lemma record_scope_denial_safe:
  "approvals_ok (approvals (db s)) \<Longrightarrow>
     wp (record_scope_denial c) (\<lambda>r s'. same_ports s s' \<and> approval_db_safe (db s) (db s') \<and> (case r of
        Inl _ \<Rightarrow> db s' = db s
      | Inr _ \<Rightarrow> logs_event (\<lambda>ev. au_outcome ev = OUTCOME_DENIED \<and> au_resource_id ev = sd_tool_name c \<and>
          au_tenant_id ev = cx_tenant_id (sd_context c) \<and> au_reason_code ev = Some (sd_reason_code c))
          (db s) (db s'))) s"
  by (auto simp: record_scope_denial_def wp_rules same_ports_def on_field_Inr on_field_Inl audit_append_Inr
      approval_db_safe_refl check_rules untied_audit_safe split: sum.splits intro!: logs_eventI)

lemma ledger_approvals: "ledger_ok w \<Longrightarrow> approvals_ok (approvals w)"
  by (simp add: ledger_ok_def)

lemma request_approval_step:
  fixes s :: "(instant, 'x execution_db_scheme) sys"
  assumes ok: "ledger_ok (db s)"
  shows "wp (request_approval ttl c) (\<lambda>r s'. ledger_step (db s) (db s') \<and> same_ports s s') s"
  by (rule wp_mono [OF request_approval_safe [OF ledger_approvals [OF ok]]])
    (auto intro: ledger_step_approval_db [OF ok])

lemma decide_approval_step:
  fixes s :: "(instant, 'x execution_db_scheme) sys"
  assumes ok: "ledger_ok (db s)"
  shows "wp (decide_approval c) (\<lambda>r s'. ledger_step (db s) (db s') \<and> same_ports s s') s"
  by (rule wp_mono [OF decide_approval_outcome [OF ledger_approvals [OF ok]]])
    (auto intro!: ledger_step_approval_db [OF ok] decide_outcome_safe ledger_approvals ok)

lemma consume_approval_step:
  fixes s :: "(instant, 'x execution_db_scheme) sys"
  assumes ok: "ledger_ok (db s)"
  shows "wp (consume_approval c) (\<lambda>r s'. ledger_step (db s) (db s') \<and> same_ports s s') s"
  by (rule wp_mono [OF consume_approval_outcome [OF ledger_approvals [OF ok]]])
    (auto intro!: ledger_step_approval_db [OF ok] consume_outcome_safe ledger_approvals ok)

lemma record_call_decision_step:
  fixes s :: "(instant, 'x execution_db_scheme) sys"
  assumes ok: "ledger_ok (db s)"
  shows "wp (record_call_decision c) (\<lambda>r s'. ledger_step (db s) (db s') \<and> same_ports s s') s"
  by (rule wp_mono [OF record_call_decision_safe [OF ledger_approvals [OF ok]]])
    (auto intro: ledger_step_approval_db [OF ok])

lemma record_scope_denial_step:
  fixes s :: "(instant, 'x execution_db_scheme) sys"
  assumes ok: "ledger_ok (db s)"
  shows "wp (record_scope_denial c) (\<lambda>r s'. ledger_step (db s) (db s') \<and> same_ports s s') s"
  by (rule wp_mono [OF record_scope_denial_safe [OF ledger_approvals [OF ok]]])
    (auto intro: ledger_step_approval_db [OF ok])

end
