(* ===== verification/Retrying_Executor.thy ===== *)
theory Retrying_Executor
  imports Execution_Transactions
begin

text \<open>
  \<open>execution/retrying_executor.py\<close>: the bounded retry loop inside one execution. The executor and
  the sleeper are ports: arbitrary programs on the system state, so that other requests may commit
  while they run. What is asked of them in a theorem is \<open>quiet\<close>: whatever they let happen keeps the
  ledger and does not touch the execution in hand.
\<close>

type_synonym 'x gateway = "(instant, 'x execution_db_scheme) sys"

type_synonym 'x executor_port = "executor_request \<Rightarrow> resolved_credential option \<Rightarrow> ('x gateway, executor_result) prog"

record retry_config =
  max_attempts :: nat
  initial_backoff_seconds :: rat

definition retry_config_init :: "int \<Rightarrow> rat \<Rightarrow> retry_config result" where
  "retry_config_init attempts_max backoff = validated
     [(attempts_max \<le> 0, ''retry max attempts must be positive''),
      (backoff < 0, ''retry backoff must not be negative'')]
     \<lparr>max_attempts = nat attempts_max, initial_backoff_seconds = backoff\<rparr>"

text \<open>
  The exception that leaves the loop when it gives up after an executor failure: a read that may or
  may not have happened is a known failure.
\<close>

definition final_failure :: "executor_request \<Rightarrow> executor_failure \<Rightarrow> retry_decision \<Rightarrow> executor_failure" where
  "final_failure request f disposition =
     (if rt_side_effect (er_tool request) = READ_ONLY \<and> ef_outcome_unknown f \<and>
         disposition \<noteq> REQUIRE_RECONCILIATION
      then f\<lparr>ef_outcome_unknown := False\<rparr> else f)"

definition request_disposition :: "executor_request \<Rightarrow> executor_failure \<Rightarrow> retry_decision" where
  "request_disposition request f =
     retry_disposition (rt_side_effect (er_tool request)) (ef_category f) (er_idempotency_key request \<noteq> None)"

text \<open>
  The loop with \<open>left\<close> rounds to go; the round's \<open>attempt_number\<close> is counted from one. The clauses
  of the \<open>try\<close> are tried in the order of the source; the \<open>else\<close> clause is not covered by them.
\<close>

primrec retry_loop ::
  "'x executor_port \<Rightarrow> (rat \<Rightarrow> ('x gateway, unit) prog) \<Rightarrow> retry_config \<Rightarrow> executor_request \<Rightarrow>
   resolved_credential option \<Rightarrow> nat \<Rightarrow> ('x gateway, executor_result) prog" where
  "retry_loop execute sleep cfg request credential 0 =
     raise (RuntimeError ''retry loop exhausted without a terminal result'')"
| "retry_loop execute sleep cfg request credential (Suc left) =
     bind (start_attempt (rt_tenant_id (er_tool request)) (er_execution_id request)) (\<lambda>attempt.
     bind (attempt_run (execute request credential)) (\<lambda>outcome.
     case outcome of
       Inl e \<Rightarrow>
         (case e of
            CancelledError \<Rightarrow>
              seq (cancel_attempt (rt_tenant_id (er_tool request)) (at_id attempt)) (raise e)
          | ExecutorFailure f \<Rightarrow>
              seq (fail_attempt (rt_tenant_id (er_tool request)) (at_id attempt) (ef_code f) (ef_category f)
                     (ef_outcome_unknown f) (ef_upstream_status f))
              (if request_disposition request f = RETRY \<and> max_attempts cfg - left < max_attempts cfg
               then seq (sleep (initial_backoff_seconds cfg * 2 ^ (max_attempts cfg - left - 1)))
                        (retry_loop execute sleep cfg request credential left)
               else raise (ExecutorFailure (final_failure request f (request_disposition request f))))
          | _ \<Rightarrow>
              seq (fail_attempt (rt_tenant_id (er_tool request)) (at_id attempt) ''unexpected_executor_failure''
                     CATEGORY_UNKNOWN True None)
                  (raise e))
     | Inr result \<Rightarrow>
         seq (succeed_attempt (rt_tenant_id (er_tool request)) (at_id attempt) (es_upstream_status result))
             (ret result)))"

definition execute_with_retry ::
  "'x executor_port \<Rightarrow> (rat \<Rightarrow> ('x gateway, unit) prog) \<Rightarrow> retry_config \<Rightarrow> 'x executor_port" where
  "execute_with_retry execute sleep cfg request credential =
     retry_loop execute sleep cfg request credential (max_attempts cfg)"

section \<open>What runs beside a call\<close>

text \<open>Steps of the rest of the gateway, seen from execution \<open>k\<close>.\<close>

definition outside_step :: "string \<Rightarrow> 'x execution_db_scheme \<Rightarrow> 'x execution_db_scheme \<Rightarrow> bool" where
  "outside_step k w w' \<longleftrightarrow>
     ledger_step w w' \<and> dict_get (executions w') k = dict_get (executions w) k \<and>
     (\<forall>i a. at_execution_id a = k \<longrightarrow>
        (dict_get (attempts w') i = Some a \<longleftrightarrow> dict_get (attempts w) i = Some a))"

definition quiet :: "string \<Rightarrow> ('x gateway, 'a) prog \<Rightarrow> bool" where
  "quiet k m \<longleftrightarrow>
     (\<forall>s. ledger_ok (db s) \<longrightarrow> wp m (\<lambda>r s'. outside_step k (db s) (db s') \<and> same_ports s s') s)"

lemma quietD: "quiet k m \<Longrightarrow> ledger_ok (db s) \<Longrightarrow> wp m (\<lambda>r s'. outside_step k (db s) (db s') \<and> same_ports s s') s"
  by (simp add: quiet_def)

lemma quiet_lift [simp]: "quiet k (lift r)"
  by (simp add: quiet_def wp_rules outside_step_def ledger_step_refl)

lemma quiet_ret [simp]: "quiet k (ret x)"
  by (simp add: quiet_def wp_rules outside_step_def ledger_step_refl)

section \<open>One round\<close>

definition attempts_done :: "string \<Rightarrow> 'x execution_db_scheme \<Rightarrow> bool" where
  "attempts_done k w \<longleftrightarrow>
     (\<forall>i a. dict_get (attempts w) i = Some a \<longrightarrow> at_execution_id a = k \<longrightarrow> at_status a \<noteq> AT_RUNNING)"

text \<open>
  The middle of a round: attempt \<open>a\<close> of execution \<open>e\<close> is open, and it is the only one if all
  earlier ones were closed (\<open>cl\<close>).
\<close>

definition in_round :: "bool \<Rightarrow> tool_execution \<Rightarrow> execution_attempt \<Rightarrow> 'x execution_db_scheme \<Rightarrow> bool" where
  "in_round cl e a w \<longleftrightarrow>
     ledger_ok w \<and> execution_get (ex_tenant_id e) (ex_id e) (executions w) = Some e \<and>
     ex_status e = EX_RUNNING \<and>
     dict_get (attempts w) (at_id a) = Some a \<and> attempt_wf a \<and> at_status a = AT_RUNNING \<and>
     at_tenant_id a = ex_tenant_id e \<and> at_execution_id a = ex_id e \<and>
     (cl \<longrightarrow> (\<forall>i b. dict_get (attempts w) i = Some b \<longrightarrow> at_execution_id b = ex_id e \<longrightarrow> i \<noteq> at_id a \<longrightarrow>
        at_status b \<noteq> AT_RUNNING))"

definition status_ok :: "int option \<Rightarrow> bool" where
  "status_ok up \<longleftrightarrow> (\<forall>c. up = Some c \<longrightarrow> 100 \<le> c \<and> c \<le> 599)"

lemma execution_get_fields:
  "ledger_ok w \<Longrightarrow> execution_get t k (executions w) = Some e \<Longrightarrow>
     ex_id e = k \<and> ex_tenant_id e = t \<and> execution_wf e \<and> dict_get (executions w) k = Some e"
  using store_ok_get [of ex_id execution_wf "executions w" k e]
  by (auto simp: execution_get_def scoped_get_Some ledger_ok_def executions_ok_def)

lemma start_round:
  fixes s :: "'x gateway"
  assumes ok: "ledger_ok (db s)" and e: "execution_get t k (executions (db s)) = Some e"
  shows "wp (start_attempt t k) (\<lambda>r s'. ledger_step (db s) (db s') \<and> same_ports s s' \<and> (case r of
      Inl _ \<Rightarrow> db s' = db s
    | Inr a \<Rightarrow> in_round (attempts_done k (db s)) (e\<lparr>ex_attempt_count := ex_attempt_count e + 1\<rparr>) a (db s'))) s"
  using wp_conj [OF start_attempt_outcome [OF ok] start_attempt_step [OF ok]]
  by (rule wp_mono)
    (use execution_get_fields [OF ok e] e in \<open>auto simp: in_round_def ledger_step_def attempts_done_def
       execution_get_def scoped_get_Some split: sum.splits if_splits\<close>)

lemma in_round_outside: "in_round cl e a w \<Longrightarrow> outside_step (ex_id e) w w' \<Longrightarrow> in_round cl e a w'"
  unfolding in_round_def outside_step_def
  by (auto simp: ledger_step_def execution_get_def scoped_get_Some)

lemma finished_attempt_total:
  assumes "attempt_wf a" "at_status a = AT_RUNNING" "status_ok up"
    and "status = AT_SUCCEEDED \<or> status = AT_CANCELLED \<or> code \<noteq> None \<and> category \<noteq> None"
  shows "\<exists>b. finished_attempt a status code category up tm = Inr b"
  using assms
  by (auto simp: finished_attempt_def attempt_succeed_def attempt_cancel_def attempt_fail_def
      attempt_require_running_def check_rules attempt_wf_iff status_ok_def split: option.splits)

text \<open>Closing the attempt of a round.\<close>

lemma close_round:
  fixes s :: "'x gateway"
  assumes r: "in_round cl e a (db s)"
  shows "wp (finish_attempt (ex_tenant_id e) (at_id a) status code category up)
    (\<lambda>r s'. ledger_step (db s) (db s') \<and> same_ports s s' \<and>
       execution_get (ex_tenant_id e) (ex_id e) (executions (db s')) = Some e \<and>
       (cl \<and> status_ok up \<and> (status = AT_SUCCEEDED \<or> status = AT_CANCELLED \<or>
          status \<noteq> AT_RUNNING \<and> code \<noteq> None \<and> category \<noteq> None) \<longrightarrow> attempts_done (ex_id e) (db s') \<and> (\<exists>b. r = Inr b))) s"
proof -
  let ?t = "ex_tenant_id e" and ?w = "db s"
  have ok: "ledger_ok ?w" and a: "attempt_wf a" "at_status a = AT_RUNNING" "attempt_get ?t (at_id a) (attempts ?w) = Some a"
    and e: "execution_get ?t (ex_id e) (executions ?w) = Some e"
    using r by (auto simp: in_round_def attempt_get_def scoped_get_Some)
  have tot: "wp (finish_attempt ?t (at_id a) status code category up) (\<lambda>r s'. \<exists>b. r = Inr b) s"
    if "status_ok up" "status = AT_SUCCEEDED \<or> status = AT_CANCELLED \<or> code \<noteq> None \<and> category \<noteq> None"
  proof -
    note given = that
    obtain b where b: "finished_attempt a status code category up (now_at s (ticks s)) = Inr b"
      using finished_attempt_total [OF a(1,2) given] by blast
    have "attempt_next a b" using finished_attempt_next [OF a(2) b] by simp
    then have "attempt_save ?t b (attempts ?w) = Inr (dict_set (at_id a) b (attempts ?w))"
      using a(3) by (auto simp: attempt_save_Inr attempt_next_def attempt_get_def scoped_get_Some)
    then show ?thesis using a b by (simp add: finish_attempt_def wp_rules on_field_def)
  qed
  have base: "wp (finish_attempt ?t (at_id a) status code category up) (\<lambda>r s'. ledger_step ?w (db s') \<and> same_ports s s' \<and>
      (case r of Inl _ \<Rightarrow> db s' = ?w
       | Inr b \<Rightarrow> at_execution_id b = at_execution_id a \<and> at_status b \<noteq> AT_RUNNING \<and>
           db s' = ?w\<lparr>attempts := dict_set (at_id a) b (attempts ?w)\<rparr>)) s"
    by (rule wp_mono [OF wp_conj [OF finish_attempt_outcome [OF ok] finish_attempt_step [OF ok]]])
      (use a in \<open>auto simp: attempt_next_def split: sum.splits\<close>)
  show ?thesis
  proof (cases "cl \<and> status_ok up \<and> (status = AT_SUCCEEDED \<or> status = AT_CANCELLED \<or>
          status \<noteq> AT_RUNNING \<and> code \<noteq> None \<and> category \<noteq> None)")
    case False
    show ?thesis by (rule wp_mono [OF base]) (use False e in \<open>auto split: sum.splits\<close>)
  next
    case True
    show ?thesis
      by (rule wp_mono [OF wp_conj [OF base tot]])
        (use True e r in \<open>auto simp: in_round_def attempts_done_def split: sum.splits if_splits\<close>)
  qed
qed

section \<open>The loop\<close>

text \<open>Side effects for which a second attempt may ever be made.\<close>

definition retry_safe :: "executor_request \<Rightarrow> bool" where
  "retry_safe request \<longleftrightarrow>
     rt_side_effect (er_tool request) = READ_ONLY \<or>
     rt_side_effect (er_tool request) = IDEMPOTENT_WRITE \<and> er_idempotency_key request \<noteq> None"

lemma retry_disposition_RETRY:
  "retry_disposition se cat key = RETRY \<longleftrightarrow>
     cat \<in> {TIMEOUT_BEFORE_SEND, TIMEOUT_AFTER_SEND, NETWORK, UPSTREAM_5XX, CATEGORY_UNKNOWN} \<and>
     (se = READ_ONLY \<or> se = IDEMPOTENT_WRITE \<and> key)"
  by (cases se; cases cat) (auto simp: retry_disposition_def)

text \<open>The executor answers with upstream statuses that an attempt can record.\<close>

definition statuses_ok :: "('x gateway, executor_result) prog \<Rightarrow> bool" where
  "statuses_ok m \<longleftrightarrow>
     (\<forall>s. wp m (\<lambda>r s'. case r of
        Inr res \<Rightarrow> status_ok (es_upstream_status res)
      | Inl e \<Rightarrow> (\<forall>f. e = ExecutorFailure f \<longrightarrow> status_ok (ef_upstream_status f))) s)"

text \<open>
  What a run of the loop leaves: the execution still running with \<open>j\<close> more attempts, and all its
  attempts closed if they were before and the executor's statuses can be recorded.
\<close>

definition retry_outcome ::
  "'x executor_port \<Rightarrow> executor_request \<Rightarrow> resolved_credential option \<Rightarrow> nat \<Rightarrow> tool_execution \<Rightarrow>
   'x execution_db_scheme \<Rightarrow> 'x execution_db_scheme \<Rightarrow> bool" where
  "retry_outcome execute request credential left e w w' \<longleftrightarrow>
     ledger_step w w' \<and>
     (\<exists>j \<le> left. execution_get (ex_tenant_id e) (ex_id e) (executions w') =
          Some (e\<lparr>ex_attempt_count := ex_attempt_count e + int j\<rparr>) \<and>
        (2 \<le> j \<longrightarrow> retry_safe request)) \<and>
     (statuses_ok (execute request credential) \<and> attempts_done (ex_id e) w \<longrightarrow> attempts_done (ex_id e) w')"

lemma retry_outcome_start:
  assumes "ledger_ok w" "execution_get (ex_tenant_id e) (ex_id e) (executions w) = Some e"
  shows "retry_outcome execute request credential left e w w"
  using assms by (auto simp: retry_outcome_def ledger_step_refl intro!: exI [of _ 0])

abbreviation next_attempt :: "tool_execution \<Rightarrow> tool_execution" where
  "next_attempt e \<equiv> e\<lparr>ex_attempt_count := ex_attempt_count e + 1\<rparr>"

lemma retry_outcome_round:
  assumes s: "ledger_step w w1"
    and g: "execution_get (ex_tenant_id e) (ex_id e) (executions w1) = Some (next_attempt e)"
    and c: "statuses_ok (execute request credential) \<and> attempts_done (ex_id e) w \<longrightarrow> attempts_done (ex_id e) w1"
  shows "retry_outcome execute request credential (Suc left) e w w1"
  using assms by (auto simp: retry_outcome_def intro!: exI [of _ 1])

lemma retry_outcome_again:
  assumes s: "ledger_step w w1" and safe: "retry_safe request"
    and c: "statuses_ok (execute request credential) \<and> attempts_done (ex_id e) w \<longrightarrow> attempts_done (ex_id e) w1"
    and o: "retry_outcome execute request credential left (next_attempt e) w1 w2"
  shows "retry_outcome execute request credential (Suc left) e w w2"
proof -
  obtain j where j: "j \<le> left" "execution_get (ex_tenant_id e) (ex_id e) (executions w2) =
      Some (e\<lparr>ex_attempt_count := ex_attempt_count e + int (Suc j)\<rparr>)"
    using o by (auto simp: retry_outcome_def algebra_simps)
  show ?thesis
    unfolding retry_outcome_def
  proof (intro conjI)
    show "ledger_step w w2" using ledger_step_trans [OF s] o by (simp add: retry_outcome_def)
    show "\<exists>j\<le>Suc left. execution_get (ex_tenant_id e) (ex_id e) (executions w2) =
        Some (e\<lparr>ex_attempt_count := ex_attempt_count e + int j\<rparr>) \<and> (2 \<le> j \<longrightarrow> retry_safe request)"
      using j safe by (intro exI [of _ "Suc j"]) simp
    show "statuses_ok (execute request credential) \<and> attempts_done (ex_id e) w \<longrightarrow> attempts_done (ex_id e) w2"
      using c o by (simp add: retry_outcome_def)
  qed
qed

lemma retry_loop_outcome:
  fixes s :: "'x gateway"
  assumes q: "quiet (er_execution_id request) (execute request credential)"
    and sl: "\<And>d. quiet (er_execution_id request) (sleep d)"
  shows "ledger_ok (db s) \<Longrightarrow>
    execution_get (ex_tenant_id e) (ex_id e) (executions (db s)) = Some e \<Longrightarrow> ex_status e = EX_RUNNING \<Longrightarrow>
    ex_id e = er_execution_id request \<Longrightarrow> ex_tenant_id e = rt_tenant_id (er_tool request) \<Longrightarrow>
    wp (retry_loop execute sleep cfg request credential left)
      (\<lambda>r s'. retry_outcome execute request credential left e (db s) (db s') \<and> same_ports s s') s"
proof (induction left arbitrary: s e)
  case 0
  then show ?case by (simp add: wp_rules retry_outcome_start)
next
  case (Suc left)
  let ?t = "rt_tenant_id (er_tool request)" and ?k = "er_execution_id request"
  let ?Q = "\<lambda>r s'. retry_outcome execute request credential (Suc left) e (db s) (db s') \<and> same_ports s s'"
  let ?cl = "attempts_done ?k (db s)" and ?e = "next_attempt e" and ?st = "statuses_ok (execute request credential)"
  note ids = Suc.prems(4,5)
  define closed :: "'x gateway \<Rightarrow> bool" where "closed s3 \<longleftrightarrow>
      ledger_step (db s) (db s3) \<and> same_ports s s3 \<and>
      execution_get ?t ?k (executions (db s3)) = Some ?e \<and> (?st \<and> ?cl \<longrightarrow> attempts_done ?k (db s3))" for s3
  have stop: "?Q r s3" if "closed s3" for r :: "executor_result result" and s3
    using that ids by (auto simp: closed_def intro!: retry_outcome_round)
  have again: "wp (seq (sleep d) (retry_loop execute sleep cfg request credential left)) ?Q s3"
    if cl: "closed s3" and safe: "retry_safe request" for d s3
    unfolding wp_seq
  proof (rule wp_mono [OF quietD [OF sl]])
    show ok3: "ledger_ok (db s3)" using cl by (simp add: closed_def ledger_step_def)
    fix r and s4 :: "'x gateway"
    assume o: "outside_step ?k (db s3) (db s4) \<and> same_ports s3 s4"
    then have c4: "closed s4"
      using cl by (auto simp: closed_def outside_step_def execution_get_def scoped_get_Some attempts_done_def
          intro: ledger_step_trans same_ports_trans)
    then have ok4: "ledger_ok (db s4)" by (simp add: closed_def ledger_step_def)
    have "wp (retry_loop execute sleep cfg request credential left)
      (\<lambda>r s'. retry_outcome execute request credential left ?e (db s4) (db s') \<and> same_ports s4 s') s4"
      using c4 Suc.prems by (intro Suc.IH ok4) (simp_all add: closed_def)
    then have "wp (retry_loop execute sleep cfg request credential left) ?Q s4"
      by (rule wp_mono)
        (use c4 ids safe in \<open>auto simp: closed_def intro!: retry_outcome_again [where e = e]
           intro: same_ports_trans\<close>)
    then show "case r of Inl e \<Rightarrow> ?Q (Inl e) s4 | Inr _ \<Rightarrow> wp (retry_loop execute sleep cfg request credential left) ?Q s4"
      using stop [OF c4] by (cases r) auto
  qed
  have closing: "wp (finish_attempt ?t (at_id a) status code category up) (\<lambda>r s3. closed s3) s2"
    if "in_round ?cl ?e a (db s2)" "ledger_step (db s) (db s2)" "same_ports s s2" "?st \<longrightarrow> status_ok up"
      "status = AT_SUCCEEDED \<or> status = AT_CANCELLED \<or> status \<noteq> AT_RUNNING \<and> code \<noteq> None \<and> category \<noteq> None"
    for a status code category up s2
  proof -
    have "wp (finish_attempt ?t (at_id a) status code category up)
     (\<lambda>r s'. ledger_step (db s2) (db s') \<and> same_ports s2 s' \<and>
       execution_get ?t ?k (executions (db s')) = Some ?e \<and>
       (?cl \<and> status_ok up \<longrightarrow> attempts_done ?k (db s'))) s2"
      using close_round [OF that(1), of status code category up] that(5) ids by (auto elim!: wp_mono)
    then show ?thesis
      by (rule wp_mono) (use that(2-4) in \<open>auto simp: closed_def intro: ledger_step_trans same_ports_trans\<close>)
  qed
  have finish: "wp (seq (finish_attempt ?t (at_id a) status code category up) m) ?Q s2"
    if "in_round ?cl ?e a (db s2)" "ledger_step (db s) (db s2)" "same_ports s s2" "?st \<longrightarrow> status_ok up"
      "status = AT_SUCCEEDED \<or> status = AT_CANCELLED \<or> status \<noteq> AT_RUNNING \<and> code \<noteq> None \<and> category \<noteq> None"
      and m: "\<And>s3. closed s3 \<Longrightarrow> wp m ?Q s3"
    for a status code category up s2 and m :: "('x gateway, executor_result) prog"
    unfolding wp_seq using closing [OF that(1-5)] by (rule wp_mono) (use stop m in \<open>auto split: sum.splits\<close>)
  have stops: "wp (raise x) ?Q s3" "wp (ret y) ?Q s3" if "closed s3" for x y s3
    using stop [OF that] by (simp_all add: wp_rules)
  have eget: "execution_get ?t ?k (executions (db s)) = Some e" using Suc.prems ids by simp
  show ?case
    unfolding retry_loop.simps wp_bind
  proof (rule wp_mono [OF start_round [OF Suc.prems(1) eget]], goal_cases)
    case (1 r s1)
    show ?case
    proof (cases r)
      case (Inl x)
      then show ?thesis using 1 Suc.prems by (simp add: retry_outcome_start)
    next
      case (Inr a)
      have s1: "ledger_step (db s) (db s1)" "same_ports s s1" "in_round ?cl ?e a (db s1)" using 1 Inr by auto
      then have ok1: "ledger_ok (db s1)" by (simp add: ledger_step_def)
      have st: "wp (execute request credential) (\<lambda>r s'. ?st \<longrightarrow> (case r of
          Inr res \<Rightarrow> status_ok (es_upstream_status res)
        | Inl e \<Rightarrow> (\<forall>f. e = ExecutorFailure f \<longrightarrow> status_ok (ef_upstream_status f)))) s1"
        by (cases ?st) (simp_all add: statuses_ok_def wp_def split: prod.splits)
      show ?thesis
        unfolding Inr sum.case wp_attempt_run
      proof (rule wp_mono [OF wp_conj [OF quietD [OF q ok1] st]], goal_cases)
        case (1 out s2)
        have s2: "in_round ?cl ?e a (db s2)" "ledger_step (db s) (db s2)" "same_ports s s2"
          using 1 s1 ids in_round_outside [OF s1(3), of "db s2"]
          by (auto simp: outside_step_def intro: ledger_step_trans same_ports_trans)
        note fin = finish [OF s2]
        show ?case
          using 1
          by (auto split: sum.splits exn.splits simp: cancel_attempt_def fail_attempt_def succeed_attempt_def
              status_ok_def request_disposition_def retry_disposition_RETRY retry_safe_def
              intro!: fin stops again)
      qed
    qed
  qed
qed

end
