(* ===== verification/Policy.thy ===== *)
theory Policy
  imports Specificity Catalog_Domain
begin

text \<open>
  The policy module: the three-valued decision (\<open>policy/domain.py\<close>) and the rule-based evaluator
  (\<open>policy/adapters/rule_based.py\<close>) with its order of precedence: specificity, then priority, then
  the stricter effect, then the policy id.
\<close>

datatype tool_action = CALL

datatype policy_effect = ALLOW | DENY | REQUIRE_APPROVAL

datatype policy_subject_type = POLICY_PRINCIPAL | POLICY_TENANT

datatype tool_policy_status = POLICY_ACTIVE | POLICY_DISABLED

record tool_policy =
  po_id :: string
  po_tenant_id :: string
  po_subject_type :: policy_subject_type
  po_subject_id :: "string option"
  po_tool_id :: "string option"
  po_action :: tool_action
  po_effect :: policy_effect
  po_priority :: int
  po_version :: string
  po_reason_code :: string
  po_status :: tool_policy_status

definition tool_policy_post_init :: "tool_policy \<Rightarrow> tool_policy result" where
  "tool_policy_post_init p = validated
     [(po_subject_type p = POLICY_TENANT \<and> po_subject_id p \<noteq> None,
       ''tenant policy subject must not declare subject id''),
      (po_subject_type p \<noteq> POLICY_TENANT \<and> (po_subject_id p = None \<or> po_subject_id p = Some []),
       ''principal policy subject must declare subject id''),
      (blank (po_version p) \<or> blank (po_reason_code p),
       ''policy version and reason code must not be blank'')] p"

record policy_input =
  pi_tenant_id :: string
  pi_principal :: internal_principal
  pi_tool_id :: string
  pi_tool_version_id :: string
  pi_action :: tool_action
  pi_side_effect :: tool_side_effect
  pi_arguments_digest :: string

definition policy_input_post_init :: "policy_input \<Rightarrow> policy_input result" where
  "policy_input_post_init i = validated
     [(pr_tenant_id (pi_principal i) \<noteq> pi_tenant_id i,
       ''policy input principal crossed tenant boundary'')] i"

record policy_decision =
  pd_effect :: policy_effect
  pd_policy_version :: string
  pd_reason_code :: string

definition default_deny :: policy_decision where
  "default_deny = \<lparr>pd_effect = DENY, pd_policy_version = ''default'', pd_reason_code = ''default_deny''\<rparr>"

section \<open>Evaluators\<close>

definition static_read_only_evaluate :: "policy_input \<Rightarrow> policy_decision" where
  "static_read_only_evaluate i =
     (if pi_side_effect i = READ_ONLY
      then \<lparr>pd_effect = ALLOW, pd_policy_version = ''static-read-only-v1'', pd_reason_code = ''read_only_allowed''\<rparr>
      else \<lparr>pd_effect = DENY, pd_policy_version = ''static-read-only-v1'', pd_reason_code = ''write_not_enabled''\<rparr>)"

fun effect_precedence :: "policy_effect \<Rightarrow> int" where
  "effect_precedence ALLOW = 1"
| "effect_precedence REQUIRE_APPROVAL = 2"
| "effect_precedence DENY = 3"

definition policy_specificity :: "tool_policy \<Rightarrow> policy_input \<Rightarrow> int option" where
  "policy_specificity p i =
     (if po_status p \<noteq> POLICY_ACTIVE then None
      else if po_tenant_id p \<noteq> pi_tenant_id i \<or> po_action p \<noteq> pi_action i then None
      else if po_tool_id p \<noteq> None \<and> po_tool_id p \<noteq> Some (pi_tool_id i) then None
      else if po_subject_type p = POLICY_PRINCIPAL \<and> po_subject_id p \<noteq> Some (pr_id (pi_principal i)) then None
      else Some ((if po_subject_type p = POLICY_PRINCIPAL then 30 else 10) +
                 (if po_tool_id p \<noteq> None then 1 else 0)))"

definition decision_of :: "tool_policy \<Rightarrow> policy_decision" where
  "decision_of p =
     \<lparr>pd_effect = po_effect p, pd_policy_version = po_version p, pd_reason_code = po_reason_code p\<rparr>"

definition rule_based_evaluate :: "tool_policy list \<Rightarrow> policy_input \<Rightarrow> policy_decision" where
  "rule_based_evaluate policies i =
     (let candidates = scored policy_specificity policies i in
      if candidates = [] then default_deny
      else let specific = most_specific candidates;
               max_priority = Max (set (map po_priority specific));
               finalists = [p \<leftarrow> specific. po_priority p = max_priority]
           in case finalists of
                [] \<Rightarrow> default_deny
              | p # ps \<Rightarrow> decision_of (py_max (\<lambda>q. (effect_precedence (po_effect q), po_id q)) p ps))"

section \<open>Precedence\<close>

definition policy_applies :: "tool_policy \<Rightarrow> policy_input \<Rightarrow> bool" where
  "policy_applies p i \<longleftrightarrow>
     po_status p = POLICY_ACTIVE \<and> po_tenant_id p = pi_tenant_id i \<and> po_action p = pi_action i \<and>
     (po_tool_id p = None \<or> po_tool_id p = Some (pi_tool_id i)) \<and>
     (po_subject_type p = POLICY_PRINCIPAL \<longrightarrow> po_subject_id p = Some (pr_id (pi_principal i)))"

interpretation policy: specificity policy_specificity policy_applies
  "\<lambda>p. po_subject_type p = POLICY_PRINCIPAL" "\<lambda>p. po_tool_id p \<noteq> None"
  by unfold_locales (auto simp: policy_specificity_def policy_applies_def)

text \<open>The order in which policies override each other for an input they all apply to.\<close>

definition policy_rank :: "policy_input \<Rightarrow> tool_policy \<Rightarrow> int \<times> int \<times> int \<times> string" where
  "policy_rank i p =
     (the (policy_specificity p i), po_priority p, effect_precedence (po_effect p), po_id p)"

lemma effect_precedence_inj: "effect_precedence a = effect_precedence b \<Longrightarrow> a = b"
  by (cases a; cases b) simp_all

lemma evaluate_finalist:
  assumes "\<exists>p \<in> set policies. policy_applies p i"
  obtains p where "p \<in> set policies" "policy_applies p i"
    "\<forall>q \<in> set policies. policy_applies q i \<longrightarrow> policy_rank i q \<le> policy_rank i p"
    "rule_based_evaluate policies i = decision_of p"
proof -
  let ?cs = "scored policy_specificity policies i"
  let ?sp = "most_specific ?cs"
  let ?mp = "Max (set (map po_priority ?sp))"
  let ?fs = "[p \<leftarrow> ?sp. po_priority p = ?mp]"
  let ?key = "\<lambda>q. (effect_precedence (po_effect q), po_id q)"
  have ne: "?cs \<noteq> []" using assms by (auto simp: policy.scored_empty)
  have spne: "?sp \<noteq> []" using ne by (rule most_specific_nonempty)
  have "?mp \<in> set (map po_priority ?sp)" using spne by (intro Max_in) auto
  then have "?fs \<noteq> []" by (auto simp: filter_empty_conv)
  then obtain f fs where fs: "?fs = f # fs" by (cases ?fs) auto
  let ?p = "py_max ?key f fs"
  have "?p \<in> set ?fs" using py_max_in [of ?key f fs] by (simp only: fs)
  then have p: "?p \<in> set ?sp" "po_priority ?p = ?mp" by auto
  have "policy_rank i q \<le> policy_rank i ?p" if q: "q \<in> set policies" "policy_applies q i" for q
  proof -
    have le: "the (policy_specificity q i) \<le> the (policy_specificity ?p i)"
      using p(1) q by (auto simp: policy.most_specific_iff)
    show ?thesis
    proof (cases "the (policy_specificity q i) = the (policy_specificity ?p i)")
      case True
      then have qs: "q \<in> set ?sp" using p(1) q by (auto simp: policy.most_specific_iff)
      then have ple: "po_priority q \<le> po_priority ?p" using p(2) by simp
      show ?thesis
      proof (cases "po_priority q = po_priority ?p")
        case eq: True
        then have "q \<in> set (f # fs)" using qs p(2) by (simp flip: fs)
        then have "?key q \<le> ?key ?p" by (rule py_max_ge)
        then show ?thesis using True eq by (simp add: policy_rank_def)
      next
        case False
        then show ?thesis using True ple by (simp add: policy_rank_def less_eq_prod_def)
      qed
    next
      case False
      then show ?thesis using le by (simp add: policy_rank_def less_eq_prod_def)
    qed
  qed
  moreover have "rule_based_evaluate policies i = decision_of ?p"
    using ne fs by (simp add: rule_based_evaluate_def Let_def)
  moreover have "?p \<in> set policies" "policy_applies ?p i"
    using p(1) by (auto simp: policy.most_specific_iff)
  ultimately show ?thesis using that by blast
qed

lemma evaluate_no_policy:
  "\<forall>p \<in> set policies. \<not> policy_applies p i \<Longrightarrow> rule_based_evaluate policies i = default_deny"
  by (simp add: rule_based_evaluate_def policy.scored_empty)

text \<open>
  C17: policy precedence. The rule-based evaluator denies by default when no active policy of the
  tenant applies; otherwise its decision is that of an applicable policy that is maximal in
  (specificity, priority, strictness of effect, id), so a DENY is never overridden by a policy of
  the same specificity and priority.
\<close>

theorem rule_based_precedence:
  "(rule_based_evaluate policies i = default_deny \<and> (\<forall>p \<in> set policies. \<not> policy_applies p i)) \<or>
   (\<exists>p \<in> set policies. policy_applies p i \<and> rule_based_evaluate policies i = decision_of p \<and>
      (\<forall>q \<in> set policies. policy_applies q i \<longrightarrow> policy_rank i q \<le> policy_rank i p))"
proof (cases "\<exists>p \<in> set policies. policy_applies p i")
  case True
  then show ?thesis by (rule evaluate_finalist) blast
next
  case False
  then show ?thesis using evaluate_no_policy by blast
qed

definition sample_policy :: "policy_effect \<Rightarrow> string \<Rightarrow> tool_policy" where
  "sample_policy effect i =
     \<lparr>po_id = i, po_tenant_id = ''acme'', po_subject_type = POLICY_TENANT, po_subject_id = None,
      po_tool_id = None, po_action = CALL, po_effect = effect, po_priority = 0, po_version = ''p1'',
      po_reason_code = ''rule'', po_status = POLICY_ACTIVE\<rparr>"

definition sample_input :: policy_input where
  "sample_input =
     \<lparr>pi_tenant_id = ''acme'',
      pi_principal = \<lparr>pr_id = ''agent'', pr_tenant_id = ''acme'', pr_principal_type = AGENT_SERVICE, pr_authn_method = ''bearer''\<rparr>,
      pi_tool_id = ''tool'', pi_tool_version_id = ''v1'', pi_action = CALL, pi_side_effect = READ_ONLY,
      pi_arguments_digest = ''d1''\<rparr>"

theorem rule_based_precedence_witness:
  "pd_effect (rule_based_evaluate [sample_policy ALLOW ''a'', sample_policy DENY ''b''] sample_input) = DENY"
proof -
  have "policy_applies (sample_policy e i) sample_input" for e i
    by (simp add: policy_applies_def sample_policy_def sample_input_def)
  moreover have "\<not> policy_rank sample_input (sample_policy DENY ''b'') \<le> policy_rank sample_input (sample_policy ALLOW ''a'')"
    by (simp add: policy_rank_def policy_specificity_def sample_policy_def sample_input_def less_eq_prod_def)
  ultimately show ?thesis
    using rule_based_precedence [of "[sample_policy ALLOW ''a'', sample_policy DENY ''b'']" sample_input]
    by (auto simp: decision_of_def sample_policy_def)
qed

text \<open>
  The decision does not depend on the order in which policies were configured: two
  configurations with the same policies and unique policy ids decide every input alike.
\<close>

theorem rule_based_order_independent:
  assumes "mset policies = mset policies'" and "distinct (map po_id policies)"
  shows "rule_based_evaluate policies i = rule_based_evaluate policies' i"
proof (cases "\<exists>p \<in> set policies. policy_applies p i")
  case True
  have same: "set policies = set policies'" using assms(1) by (rule mset_eq_setD)
  from True obtain p where p: "p \<in> set policies" "policy_applies p i"
    "\<forall>q \<in> set policies. policy_applies q i \<longrightarrow> policy_rank i q \<le> policy_rank i p"
    "rule_based_evaluate policies i = decision_of p" by (rule evaluate_finalist)
  from True same obtain p' where p': "p' \<in> set policies'" "policy_applies p' i"
    "\<forall>q \<in> set policies'. policy_applies q i \<longrightarrow> policy_rank i q \<le> policy_rank i p'"
    "rule_based_evaluate policies' i = decision_of p'"
    using evaluate_finalist [of policies' i] by metis
  have "policy_rank i p = policy_rank i p'"
    by (rule order_antisym) (use p(1-3) p'(1-3) same in auto)
  then have "po_id p = po_id p'" by (simp add: policy_rank_def)
  then have "p = p'" using assms(2) p(1) p'(1) same by (simp add: distinct_map inj_on_def)
  then show ?thesis using p(4) p'(4) by simp
next
  case False
  moreover have "set policies = set policies'" using assms(1) by (rule mset_eq_setD)
  ultimately show ?thesis by (simp add: evaluate_no_policy)
qed

theorem rule_based_order_independent_witness:
  "rule_based_evaluate [sample_policy ALLOW ''a'', sample_policy DENY ''b''] sample_input =
   rule_based_evaluate [sample_policy DENY ''b'', sample_policy ALLOW ''a''] sample_input"
  by (rule rule_based_order_independent) (simp_all add: sample_policy_def)

end
