(* ===== verification/Call_Tool.thy ===== *)
theory Call_Tool
  imports Retrying_Executor Policy
begin

text \<open>
  \<open>execution/call_tool.py\<close>: one tool call, from the principal to the terminal state of its execution.
  Every port of the constructor is a field of \<open>call_ports\<close>: an arbitrary program on the system
  state, so that it may answer anything and let other requests commit; the arguments validator is
  synchronous, hence a function. Optional collaborators are \<open>None\<close> when they were not configured.
  A result \<open>Inl e\<close> is the exception the call raises.
\<close>

record 'x call_ports =
  resolve_principal :: "actor_context \<Rightarrow> ('x gateway, internal_principal) prog"
  resolve_tool :: "string \<Rightarrow> string \<Rightarrow> ('x gateway, resolved_tool option) prog"
  validate_arguments :: "json \<Rightarrow> json \<Rightarrow> unit result"
  evaluate_policy :: "policy_input \<Rightarrow> ('x gateway, policy_decision) prog"
  execute_tool :: "'x executor_port"
  credential_binding_resolver :: "(credential_request \<Rightarrow> ('x gateway, credential_binding option) prog) option"
  credential_provider :: "(secret_reference \<Rightarrow> ('x gateway, secret_value) prog) option"
  approval_ttl :: "instant option"
  validate_endpoint :: "string \<Rightarrow> ('x gateway, unit) prog"
  call_timeout_seconds :: rat

definition call_tool_init :: "'x call_ports \<Rightarrow> 'x call_ports result" where
  "call_tool_init p = validated [(call_timeout_seconds p \<le> 0, ''tool call timeout must be positive'')] p"

definition is_visible :: "tool_visibility \<Rightarrow> principal_type \<Rightarrow> bool" where
  "is_visible visibility ptype =
     (if visibility = VIS_PUBLIC then True
      else if visibility = VIS_AUTHENTICATED then ptype \<noteq> ANONYMOUS
      else False)"

definition public_executor_error :: "executor_failure \<Rightarrow> nexus_error" where
  "public_executor_error f =
     (if ef_outcome_unknown f then UnknownExecutionOutcomeError
      else if ef_category f = VALIDATION then InvalidArgumentsError
      else if ef_category f = AUTHORIZATION then AuthorizationError
      else if ef_category f \<in> {TIMEOUT_BEFORE_SEND, TIMEOUT_AFTER_SEND} then UpstreamTimeoutError
      else if ef_category f \<in> {NETWORK, UPSTREAM_5XX} then UpstreamUnavailableError
      else UpstreamResponseError)"

section \<open>Before the execution\<close>

definition check_idempotency_use :: "call_tool_command \<Rightarrow> resolved_tool \<Rightarrow> unit result" where
  "check_idempotency_use c tool =
     (if ca_idempotency_key c \<noteq> None \<and> rt_side_effect tool \<noteq> IDEMPOTENT_WRITE
        then Inl (NexusError InvalidArgumentsError)
      else if rt_side_effect tool = IDEMPOTENT_WRITE \<and> ca_idempotency_key c = None
        then Inl (NexusError IdempotencyKeyRequiredError)
      else Inr ())"

definition call_policy_input ::
  "(string \<Rightarrow> string) \<Rightarrow> call_tool_command \<Rightarrow> internal_principal \<Rightarrow> resolved_tool \<Rightarrow> policy_input" where
  "call_policy_input sha c caller tool =
     \<lparr>pi_tenant_id = cx_tenant_id (ca_context c), pi_principal = caller, pi_tool_id = rt_tool_id tool,
      pi_tool_version_id = rt_tool_version_id tool, pi_action = CALL, pi_side_effect = rt_side_effect tool,
      pi_arguments_digest = command_arguments_digest sha c\<rparr>"

definition record_policy_decision ::
  "(string \<Rightarrow> string) \<Rightarrow> call_tool_command \<Rightarrow> internal_principal \<Rightarrow> resolved_tool \<Rightarrow> string \<Rightarrow> string \<Rightarrow> audit_outcome \<Rightarrow>
   ('x gateway, unit) prog" where
  "record_policy_decision sha c caller tool policy_version reason_code outcome =
     record_call_decision
       \<lparr>rd_context = ca_context c, rd_principal_id = pr_id caller,
        rd_tool_version_id = rt_tool_version_id tool,
        rd_arguments_digest = command_arguments_digest sha c, rd_policy_version = policy_version,
        rd_reason_code = reason_code, rd_outcome = outcome, rd_mcp_scope_type = ca_mcp_scope_type c,
        rd_toolset_id = ca_toolset_id c, rd_toolset_revision = ca_toolset_revision c\<rparr>"

definition pass_approval_gate ::
  "(string \<Rightarrow> string) \<Rightarrow> 'x call_ports \<Rightarrow> call_tool_command \<Rightarrow> internal_principal \<Rightarrow> resolved_tool \<Rightarrow>
   policy_decision \<Rightarrow> ('x gateway, unit) prog" where
  "pass_approval_gate sha p c caller tool decision =
     (if ca_approval_id c \<noteq> None then ret ()
      else case approval_ttl p of
        None \<Rightarrow> raise (NexusError (ApprovalRequiredError None None))
      | Some ttl \<Rightarrow>
          bind (request_approval ttl
            \<lparr>rq_context = ca_context c, rq_principal_id = pr_id caller, rq_tool_id = rt_tool_id tool,
             rq_tool_version_id = rt_tool_version_id tool,
             rq_arguments_digest = command_arguments_digest sha c,
             rq_policy_version = pd_policy_version decision, rq_idempotency_key = ca_idempotency_key c,
             rq_policy_reason_code = pd_reason_code decision,
             rq_mcp_scope_type = scope_type_value (ca_mcp_scope_type c),
             rq_toolset_id = ca_toolset_id c, rq_toolset_revision = ca_toolset_revision c\<rparr>) (\<lambda>approval.
          raise (NexusError (ApprovalRequiredError (Some (ap_id approval)) (Some (ap_expires_at approval))))))"

definition policy_gate ::
  "(string \<Rightarrow> string) \<Rightarrow> 'x call_ports \<Rightarrow> call_tool_command \<Rightarrow> internal_principal \<Rightarrow> resolved_tool \<Rightarrow>
   policy_decision \<Rightarrow> ('x gateway, unit) prog" where
  "policy_gate sha p c caller tool decision =
     (if pd_effect decision = DENY
      then seq (record_policy_decision sha c caller tool (pd_policy_version decision)
                  (pd_reason_code decision) OUTCOME_DENIED)
               (raise (NexusError AuthorizationError))
      else if pd_effect decision = REQUIRE_APPROVAL
      then pass_approval_gate sha p c caller tool decision
      else ret ())"

definition resolve_credential_binding ::
  "'x call_ports \<Rightarrow> string \<Rightarrow> internal_principal \<Rightarrow> resolved_tool \<Rightarrow> ('x gateway, credential_binding option) prog" where
  "resolve_credential_binding p tenant_id caller tool =
     (let scheme = (case rt_upstream_auth_scheme tool of None \<Rightarrow> ''none'' | Some a \<Rightarrow> if a = [] then ''none'' else a)
      in if py_lower (py_strip scheme) = ''none'' then ret None
      else case (credential_binding_resolver p, credential_provider p) of
        (Some resolve, Some _) \<Rightarrow>
          bind (resolve \<lparr>cr_tenant_id = tenant_id, cr_principal = caller, cr_tool_id = rt_tool_id tool,
                         cr_upstream_service_id = rt_upstream_service_id tool\<rparr>) (\<lambda>binding.
          case binding of
            None \<Rightarrow> raise (NexusError CredentialBindingNotFoundError)
          | Some b \<Rightarrow> ret (Some b))
      | _ \<Rightarrow> raise (NexusError CredentialResolutionError))"

definition resolve_secret ::
  "'x call_ports \<Rightarrow> credential_binding option \<Rightarrow> ('x gateway, resolved_credential option) prog" where
  "resolve_secret p binding =
     (case binding of
        None \<Rightarrow> ret None
      | Some b \<Rightarrow>
          (case credential_provider p of
             None \<Rightarrow> raise (NexusError CredentialResolutionError)
           | Some resolve \<Rightarrow>
               bind (resolve (cb_secret_reference b)) (\<lambda>v.
               ret (Some \<lparr>rc_credential_binding_id = cb_id b, rc_injection_location = cb_injection_location b,
                          rc_injection_name = cb_injection_name b, rc_value_format = cb_value_format b,
                          rc_value = v\<rparr>))))"

definition call_plan_command ::
  "(string \<Rightarrow> string) \<Rightarrow> call_tool_command \<Rightarrow> internal_principal \<Rightarrow> resolved_tool \<Rightarrow> policy_decision \<Rightarrow>
   credential_binding option \<Rightarrow> plan_execution_command" where
  "call_plan_command sha c caller tool decision binding =
     \<lparr>pl_context = ca_context c, pl_principal_id = pr_id caller, pl_tool_id = rt_tool_id tool,
      pl_tool_version_id = rt_tool_version_id tool, pl_tool_binding_id = rt_tool_binding_id tool,
      pl_arguments_digest = command_arguments_digest sha c,
      pl_policy_version = pd_policy_version decision, pl_policy_reason_code = pd_reason_code decision,
      pl_side_effect = rt_side_effect tool,
      pl_approval_id = (if pd_effect decision = REQUIRE_APPROVAL then ca_approval_id c else None),
      pl_credential_binding_id = map_option cb_id binding, pl_idempotency_key = ca_idempotency_key c,
      pl_mcp_scope_type = ca_mcp_scope_type c, pl_toolset_id = ca_toolset_id c,
      pl_toolset_revision = ca_toolset_revision c\<rparr>"

text \<open>Everything up to the decision to execute: what the policy allowed, with the binding to use.\<close>

definition admit_call ::
  "(string \<Rightarrow> string) \<Rightarrow> 'x call_ports \<Rightarrow> call_tool_command \<Rightarrow>
   ('x gateway, internal_principal \<times> resolved_tool \<times> policy_decision \<times> credential_binding option) prog" where
  "admit_call sha p c =
     bind (resolve_principal p (ca_context c)) (\<lambda>caller.
     bind (resolve_tool p (cx_tenant_id (ca_context c)) (ca_tool_name c)) (\<lambda>found.
     bind (require_some found (NexusError ToolNotFoundError)) (\<lambda>tool.
     seq (raise_if (\<not> is_visible (rt_visibility tool) (pr_principal_type caller)) (NexusError ToolNotVisibleError))
     (seq (lift (validate_arguments p (rt_input_schema tool) (ca_arguments c)))
     (seq (lift (check_idempotency_use c tool))
     (bind (lift (policy_input_post_init (call_policy_input sha c caller tool))) (\<lambda>policy_input.
      bind (evaluate_policy p policy_input) (\<lambda>decision.
      seq (policy_gate sha p c caller tool decision)
      (seq (validate_endpoint p (rt_upstream_endpoint tool))
      (bind (resolve_credential_binding p (cx_tenant_id (ca_context c)) caller tool) (\<lambda>binding.
       ret (caller, tool, decision, binding))))))))))))"

section \<open>The execution\<close>

text \<open>Resolving the secret of a planned execution: a failure ends the execution first.\<close>

definition secret_or_fail ::
  "'x call_ports \<Rightarrow> string \<Rightarrow> string \<Rightarrow> credential_binding option \<Rightarrow> ('x gateway, resolved_credential option) prog" where
  "secret_or_fail p tenant_id execution_id binding =
     catch (resolve_secret p binding) (\<lambda>e. case e of
         NexusError ne \<Rightarrow>
           seq (fail_execution tenant_id execution_id (error_code ne) CREDENTIAL False) (raise e)
       | CancelledError \<Rightarrow> raise e
       | _ \<Rightarrow>
           seq (fail_execution tenant_id execution_id ''credential_resolution_failed'' CREDENTIAL False)
               (raise (NexusError CredentialResolutionError)))"

definition execute_or_fail ::
  "'x call_ports \<Rightarrow> string \<Rightarrow> executor_request \<Rightarrow> resolved_credential option \<Rightarrow> ('x gateway, executor_result) prog" where
  "execute_or_fail p tenant_id request credential =
     catch (bind (lift (executor_request_post_init request)) (\<lambda>rq. execute_tool p rq credential)) (\<lambda>e. case e of
         CancelledError \<Rightarrow> seq (cancel_execution tenant_id (er_execution_id request)) (raise e)
       | ExecutorFailure f \<Rightarrow>
           seq (fail_execution tenant_id (er_execution_id request) (ef_code f) (ef_category f) (ef_outcome_unknown f))
               (raise (NexusError (public_executor_error f)))
       | _ \<Rightarrow>
           seq (fail_execution tenant_id (er_execution_id request) ''unexpected_executor_failure'' CATEGORY_UNKNOWN True)
               (raise (NexusError UnknownExecutionOutcomeError)))"

definition call_request :: "'x call_ports \<Rightarrow> call_tool_command \<Rightarrow> resolved_tool \<Rightarrow> string \<Rightarrow> executor_request" where
  "call_request p c tool execution_id =
     \<lparr>er_execution_id = execution_id, er_tool = tool, er_arguments = ca_arguments c,
      er_timeout_seconds = call_timeout_seconds p, er_idempotency_key = ca_idempotency_key c\<rparr>"

definition run_planned ::
  "'x call_ports \<Rightarrow> call_tool_command \<Rightarrow> resolved_tool \<Rightarrow> credential_binding option \<Rightarrow> string \<Rightarrow>
   ('x gateway, call_tool_result) prog" where
  "run_planned p c tool binding execution_id =
     bind (secret_or_fail p (cx_tenant_id (ca_context c)) execution_id binding) (\<lambda>credential.
     bind (execute_or_fail p (cx_tenant_id (ca_context c)) (call_request p c tool execution_id) credential) (\<lambda>result.
     bind (succeed_execution (cx_tenant_id (ca_context c)) execution_id) (\<lambda>terminal.
     ret \<lparr>cr_execution_id = execution_id, cr_data = es_data result, cr_content_type = es_content_type result,
          cr_upstream_status = es_upstream_status result, cr_attempt_count = ex_attempt_count terminal\<rparr>)))"

definition call_tool ::
  "(string \<Rightarrow> string) \<Rightarrow> 'x call_ports \<Rightarrow> call_tool_command \<Rightarrow> ('x gateway, call_tool_result) prog" where
  "call_tool sha p c =
     bind (admit_call sha p c) (\<lambda>(caller, tool, decision, binding).
     bind (plan (call_plan_command sha c caller tool decision binding)) (\<lambda>execution.
     run_planned p c tool binding (ex_id execution)))"

end
