(* ===== verification/Call_Tool_Correct.thy ===== *)
theory Call_Tool_Correct
  imports Call_Tool
begin

text \<open>
  What one tool call guarantees. The statements of the form "two families of ports give the same
  call" say which ports a call can reach: if the executor of a denied call can be exchanged for any
  other without changing the result or the state, the call never uses it.
\<close>

section \<open>Programs that do not return\<close>

definition never_returns :: "('s, 'a) prog \<Rightarrow> bool" where
  "never_returns m \<longleftrightarrow> (\<forall>s. wp m (\<lambda>r s'. \<exists>e. r = Inl e) s)"

lemma bind_never_returns: "never_returns m \<Longrightarrow> bind m f = bind m g"
  by (rule ext) (force simp: never_returns_def wp_def bind_def split: prod.splits sum.splits)

lemma never_returns_raise [simp]: "never_returns (raise e)"
  by (simp add: never_returns_def wp_rules)

lemma never_returns_bind: "(\<And>x. never_returns (f x)) \<Longrightarrow> never_returns (bind m f)"
  by (force simp: never_returns_def wp_def bind_def split: prod.splits sum.splits)

lemma never_returns_bind1: "never_returns m \<Longrightarrow> never_returns (bind m f)"
  by (force simp: never_returns_def wp_def bind_def split: prod.splits sum.splits)

lemma never_returns_seq: "never_returns n \<Longrightarrow> never_returns (seq m n)"
  unfolding seq_def by (rule never_returns_bind)

lemma never_returns_seq1: "never_returns m \<Longrightarrow> never_returns (seq m n)"
  unfolding seq_def by (rule never_returns_bind1)

text \<open>Every value a program can return satisfies \<open>P\<close>.\<close>

definition returns :: "('a \<Rightarrow> bool) \<Rightarrow> ('s, 'a) prog \<Rightarrow> bool" where
  "returns P m \<longleftrightarrow> (\<forall>s. wp m (\<lambda>r s'. \<forall>x. r = Inr x \<longrightarrow> P x) s)"

lemma never_returns_guarded: "returns P m \<Longrightarrow> (\<And>x. P x \<Longrightarrow> never_returns (f x)) \<Longrightarrow> never_returns (bind m f)"
  by (force simp: returns_def never_returns_def wp_def bind_def split: prod.splits sum.splits)

section \<open>Calls that are not admitted\<close>

lemma gate_never_admitted:
  assumes d: "\<And>i. returns P (evaluate_policy p i)"
    and g: "\<And>caller tool d. P d \<Longrightarrow> never_returns (policy_gate sha p c caller tool d)"
  shows "never_returns (admit_call sha p c)"
  unfolding admit_call_def
  by (rule never_returns_bind, rule never_returns_bind, rule never_returns_bind, rule never_returns_seq,
      rule never_returns_seq, rule never_returns_seq, rule never_returns_bind,
      rule never_returns_guarded [OF d], rule never_returns_seq1, erule g)

lemma deny_gate: "pd_effect d = DENY \<Longrightarrow> never_returns (policy_gate sha p c caller tool d)"
  by (simp add: policy_gate_def never_returns_seq)

lemma approval_gate:
  "pd_effect d = REQUIRE_APPROVAL \<Longrightarrow> ca_approval_id c = None \<Longrightarrow>
     never_returns (policy_gate sha p c caller tool d)"
  by (auto simp: policy_gate_def pass_approval_gate_def intro: never_returns_bind split: option.splits)

lemma not_admitted_call: "never_returns (admit_call sha p c) \<Longrightarrow> never_returns (call_tool sha p c)"
  unfolding call_tool_def by (rule never_returns_bind1)

text \<open>The ports that only the execution of a planned call uses.\<close>

abbreviation with_execution_ports ::
  "'x executor_port \<Rightarrow> (secret_reference \<Rightarrow> ('x gateway, secret_value) prog) \<Rightarrow> 'x call_ports \<Rightarrow> 'x call_ports" where
  "with_execution_ports x y p \<equiv> p\<lparr>execute_tool := x, credential_provider := map_option (\<lambda>_. y) (credential_provider p)\<rparr>"

lemma admit_call_execution_ports: "admit_call sha (with_execution_ports x y p) c = admit_call sha p c"
proof -
  have "resolve_credential_binding (with_execution_ports x y p) t pr tool = resolve_credential_binding p t pr tool"
    for t pr tool
    by (cases "credential_provider p") (simp_all add: resolve_credential_binding_def Let_def split: option.splits)
  moreover have "policy_gate sha (with_execution_ports x y p) c pr tool d = policy_gate sha p c pr tool d"
    for pr tool d
    by (simp add: policy_gate_def pass_approval_gate_def)
  ultimately show ?thesis by (simp add: admit_call_def)
qed

lemma not_admitted_ports:
  assumes "never_returns (admit_call sha p c)"
  shows "call_tool sha (with_execution_ports x y p) c = call_tool sha p c"
  unfolding call_tool_def admit_call_execution_ports by (rule bind_never_returns [OF assms])

section \<open>The executor and the execution in hand\<close>

definition running :: "string \<Rightarrow> string \<Rightarrow> 'x execution_db_scheme \<Rightarrow> bool" where
  "running t k w \<longleftrightarrow> (\<exists>e. execution_get t k (executions w) = Some e \<and> ex_status e = EX_RUNNING)"

text \<open>Ports that leave the execution in hand running, whatever else they let happen.\<close>

definition keeps_running :: "string \<Rightarrow> string \<Rightarrow> ('x gateway, 'a) prog \<Rightarrow> bool" where
  "keeps_running t k m \<longleftrightarrow>
     (\<forall>s. ledger_ok (db s) \<longrightarrow> running t k (db s) \<longrightarrow>
        wp m (\<lambda>r s'. ledger_step (db s) (db s') \<and> same_ports s s' \<and> running t k (db s')) s)"

lemma quiet_keeps_running: "quiet k m \<Longrightarrow> keeps_running t k m"
  unfolding keeps_running_def quiet_def
  by (auto elim!: wp_mono simp: running_def outside_step_def execution_get_def scoped_get_Some)

text \<open>The retrying executor is such a port when the executor inside it is quiet.\<close>

lemma retry_keeps_running:
  assumes "quiet (er_execution_id request) (execute request credential)"
    and "\<And>d. quiet (er_execution_id request) (sleep d)"
  shows "keeps_running (rt_tenant_id (er_tool request)) (er_execution_id request)
    (execute_with_retry execute sleep cfg request credential)"
  unfolding keeps_running_def
proof (intro allI impI)
  fix s :: "'a gateway"
  let ?t = "rt_tenant_id (er_tool request)" and ?k = "er_execution_id request"
  assume ok: "ledger_ok (db s)" and r: "running ?t ?k (db s)"
  then obtain e where e: "execution_get ?t ?k (executions (db s)) = Some e" "ex_status e = EX_RUNNING"
    by (auto simp: running_def)
  have ids: "ex_id e = ?k" "ex_tenant_id e = ?t" using execution_get_fields [OF ok e(1)] by auto
  have "wp (retry_loop execute sleep cfg request credential (max_attempts cfg))
      (\<lambda>r s'. retry_outcome execute request credential (max_attempts cfg) e (db s) (db s') \<and> same_ports s s') s"
    using e ids by (intro retry_loop_outcome assms ok) simp_all
  then show "wp (execute_with_retry execute sleep cfg request credential)
      (\<lambda>r s'. ledger_step (db s) (db s') \<and> same_ports s s' \<and> running ?t ?k (db s')) s"
    unfolding execute_with_retry_def
    by (rule wp_mono) (use e ids in \<open>auto simp: retry_outcome_def running_def\<close>)
qed

text \<open>Identifiers that have not been handed out yet are not in the audit log.\<close>

definition audit_ids_fresh :: "('t, 'x approval_db_scheme, 'y) sys_scheme \<Rightarrow> bool" where
  "audit_ids_fresh s \<longleftrightarrow> good_ids (id_at s) \<and> (\<forall>n \<ge> id_count s. dict_get (audits (db s)) (id_at s n) = None)"

definition keeps_ids :: "('x gateway, 'a) prog \<Rightarrow> bool" where
  "keeps_ids m \<longleftrightarrow> (\<forall>s. audit_ids_fresh s \<longrightarrow> wp m (\<lambda>r s'. audit_ids_fresh s') s)"

lemma finish_running:
  fixes s :: "'x gateway"
  assumes ok: "ledger_ok (db s)" and r: "running t k (db s)" and ids: "audit_ids_fresh s"
    and st: "terminal_status status" "status = EX_SUCCEEDED \<or> status = EX_CANCELLED \<or> code \<noteq> None \<and> category \<noteq> None"
  shows "wp (finish t k status code category) (\<lambda>r s'. ledger_step (db s) (db s') \<and> same_ports s s' \<and>
    (\<exists>f. r = Inr f \<and> ex_status f = status \<and> execution_get t k (executions (db s')) = Some f)) s"
proof -
  obtain e where e: "execution_get t k (executions (db s)) = Some e" "ex_status e = EX_RUNNING"
    using r by (auto simp: running_def)
  have i: "\<not> blank (id_at s (id_count s))" "dict_get (audits (db s)) (id_at s (id_count s)) = None"
    using ids by (auto simp: audit_ids_fresh_def good_ids_def)
  note all = wp_conj [OF finish_total [OF ok e st(2) i] wp_conj [OF finish_outcome [OF ok] finish_step [OF ok]]]
  show ?thesis
    by (rule wp_mono [OF all])
      (use st(1) in \<open>auto simp: finished_db_def execution_get_def scoped_get_Some same_call_def
         dest!: execution_next_call\<close>)
qed

section \<open>Ports that keep the ledger\<close>

definition safe :: "('x gateway, 'a) prog \<Rightarrow> bool" where
  "safe m \<longleftrightarrow> (\<forall>s. ledger_ok (db s) \<longrightarrow> wp m (\<lambda>r s'. ledger_step (db s) (db s') \<and> same_ports s s') s)"

named_theorems safe_intros \<open>programs that keep the ledger\<close>

lemma safeD: "safe m \<Longrightarrow> ledger_ok (db s) \<Longrightarrow> wp m (\<lambda>r s'. ledger_step (db s) (db s') \<and> same_ports s s') s"
  by (simp add: safe_def)

lemma quiet_safe: "quiet k m \<Longrightarrow> safe m"
  unfolding quiet_def safe_def by (auto elim!: wp_mono simp: outside_step_def)

lemma safe_pure [safe_intros]: "safe (ret x)" "safe (raise e)" "safe (lift r)" "safe (raise_if b e)" "safe (require_some v e)"
  by (auto simp: safe_def wp_rules ledger_step_refl split: option.splits)

lemma safe_bind [safe_intros]:
  assumes "safe m" "\<And>x. safe (f x)"
  shows "safe (bind m f)"
  unfolding safe_def wp_bind
proof (intro allI impI)
  fix s :: "'a gateway"
  assume ok: "ledger_ok (db s)"
  show "wp m (\<lambda>r t. case r of Inl e \<Rightarrow> ledger_step (db s) (db t) \<and> same_ports s t
      | Inr x \<Rightarrow> wp (f x) (\<lambda>r s'. ledger_step (db s) (db s') \<and> same_ports s s') t) s"
  proof (rule wp_mono [OF safeD [OF assms(1) ok]])
    fix r and t :: "'a gateway"
    assume t: "ledger_step (db s) (db t) \<and> same_ports s t"
    then have "ledger_ok (db t)" by (simp add: ledger_step_def)
    then have "wp (f x) (\<lambda>r s'. ledger_step (db s) (db s') \<and> same_ports s s') t" for x
      by (rule wp_mono [OF safeD [OF assms(2)]]) (use t in \<open>auto intro: ledger_step_trans same_ports_trans\<close>)
    then show "case r of Inl e \<Rightarrow> ledger_step (db s) (db t) \<and> same_ports s t
      | Inr x \<Rightarrow> wp (f x) (\<lambda>r s'. ledger_step (db s) (db s') \<and> same_ports s s') t"
      using t by (simp split: sum.splits)
  qed
qed

lemma safe_seq [safe_intros]: "safe m \<Longrightarrow> safe n \<Longrightarrow> safe (seq m n)"
  unfolding seq_def by (intro safe_bind)

lemma safe_transactions [safe_intros]:
  "safe (plan pc)" "safe (finish t k st code cat)" "safe (record_call_decision rd)" "safe (request_approval ttl rq)"
  by (simp_all add: safe_def plan_step finish_step record_call_decision_step request_approval_step)

text \<open>The ports asked before a call is planned.\<close>

definition safe_ports :: "'x call_ports \<Rightarrow> bool" where
  "safe_ports p \<longleftrightarrow>
     (\<forall>x. safe (resolve_principal p x)) \<and> (\<forall>t n. safe (resolve_tool p t n)) \<and>
     (\<forall>i. safe (evaluate_policy p i)) \<and> (\<forall>u. safe (validate_endpoint p u)) \<and>
     (\<forall>resolve q. credential_binding_resolver p = Some resolve \<longrightarrow> safe (resolve q))"

lemma policy_gate_safe [safe_intros]: "safe (policy_gate sha p c caller tool d)"
  by (auto simp: policy_gate_def record_policy_decision_def pass_approval_gate_def intro!: safe_intros
      split: option.splits)

lemma resolve_credential_binding_safe [safe_intros]:
  "safe_ports p \<Longrightarrow> safe (resolve_credential_binding p t caller tool)"
  by (auto simp: resolve_credential_binding_def safe_ports_def Let_def intro!: safe_intros split: option.splits)

lemma admit_call_safe:
  assumes "safe_ports p"
  shows "safe (admit_call sha p c)"
  unfolding admit_call_def using assms by (intro safe_intros) (simp_all add: safe_ports_def)

section \<open>The executor only runs for a persisted execution\<close>

text \<open>
  The state in which the executor may be called: the execution is committed as running, for this
  command and tool, and if it needed an approval, that approval is consumed by it.
\<close>

definition call_guard :: "(string \<Rightarrow> string) \<Rightarrow> call_tool_command \<Rightarrow> executor_request \<Rightarrow> 'x gateway \<Rightarrow> bool" where
  "call_guard sha c rq s \<longleftrightarrow>
     er_arguments rq = ca_arguments c \<and>
     (\<exists>e. execution_get (cx_tenant_id (ca_context c)) (er_execution_id rq) (executions (db s)) = Some e \<and>
        ex_status e = EX_RUNNING \<and> ex_tool_version_id e = rt_tool_version_id (er_tool rq) \<and>
        ex_arguments_digest e = command_arguments_digest sha c \<and>
        (\<forall>i. ex_approval_id e = Some i \<longrightarrow> (\<exists>a. dict_get (approvals (db s)) i = Some a \<and> approval_for e a)))"

lemma bind_same: "wp m (\<lambda>r t. \<forall>x. r = Inr x \<longrightarrow> f x t = g x t) s \<Longrightarrow> bind m f s = bind m g s"
  by (auto simp: wp_def bind_def split: prod.splits sum.splits)

lemma catch_same: "m s = n s \<Longrightarrow> catch m h s = catch n h s"
  by (simp add: catch_def)

definition quiet_provider :: "string \<Rightarrow> 'x call_ports \<Rightarrow> bool" where
  "quiet_provider k p \<longleftrightarrow> (\<forall>resolve r. credential_provider p = Some resolve \<longrightarrow> quiet k (resolve r))"

lemma resolve_secret_quiet:
  assumes q: "quiet_provider k p" and ok: "ledger_ok (db s)"
  shows "wp (resolve_secret p b) (\<lambda>r s'. outside_step k (db s) (db s')) s"
proof (cases b)
  case None
  then show ?thesis using ok by (simp add: resolve_secret_def wp_rules outside_step_def ledger_step_refl)
next
  case (Some cb)
  show ?thesis
  proof (cases "credential_provider p")
    case None
    then show ?thesis using ok Some by (simp add: resolve_secret_def wp_rules outside_step_def ledger_step_refl)
  next
    case p: (Some resolve)
    have "quiet k (resolve (cb_secret_reference cb))" using q p by (simp add: quiet_provider_def)
    from quietD [OF this ok] show ?thesis
      using Some p
      by (auto simp: resolve_secret_def wp_rules elim!: wp_mono split: sum.splits)
  qed
qed

lemma secret_or_fail_quiet:
  assumes q: "quiet_provider k p" and ok: "ledger_ok (db s)"
  shows "wp (secret_or_fail p t k b) (\<lambda>r s'. \<forall>x. r = Inr x \<longrightarrow> outside_step k (db s) (db s')) s"
proof -
  have no: "wp m (\<lambda>r s'. \<forall>x. r = Inr x \<longrightarrow> outside_step k (db s) (db s')) u"
    if "never_returns m" for m :: "('a gateway, resolved_credential option) prog" and u
    using that unfolding never_returns_def by (rule allE [of _ u]) (auto elim!: wp_mono)
  have nr: "never_returns (case e of
         NexusError ne \<Rightarrow> seq (fail_execution t k (error_code ne) CREDENTIAL False) (raise e)
       | CancelledError \<Rightarrow> raise e
       | _ \<Rightarrow> seq (fail_execution t k ''credential_resolution_failed'' CREDENTIAL False)
               (raise (NexusError CredentialResolutionError)))" for e
    by (cases e) (simp_all add: never_returns_seq)
  show ?thesis
    unfolding secret_or_fail_def wp_catch
    by (rule wp_mono [OF resolve_secret_quiet [OF q ok]])
      (simp split: sum.splits, simp add: no [OF nr, simplified])
qed

text \<open>Two executors that agree wherever the guard holds give the same call.\<close>

lemma execute_or_fail_same:
  assumes "\<And>cred. x (call_request p c tool k) cred s = y (call_request p c tool k) cred s"
  shows "execute_or_fail (p\<lparr>execute_tool := x\<rparr>) t (call_request p c tool k) cred s =
         execute_or_fail (p\<lparr>execute_tool := y\<rparr>) t (call_request p c tool k) cred s"
  unfolding execute_or_fail_def
  by (rule catch_same, rule bind_same)
    (use assms in \<open>auto simp: wp_rules executor_request_post_init_def dest: validated_Inl
       simp: validated_Inr_iff\<close>)

lemma admit_call_executor: "admit_call sha (p\<lparr>execute_tool := x\<rparr>) c = admit_call sha p c"
proof -
  have "resolve_credential_binding (p\<lparr>execute_tool := x\<rparr>) t pr tool = resolve_credential_binding p t pr tool"
    for t pr tool by (simp add: resolve_credential_binding_def)
  moreover have "policy_gate sha (p\<lparr>execute_tool := x\<rparr>) c pr tool d = policy_gate sha p c pr tool d"
    for pr tool d by (simp add: policy_gate_def pass_approval_gate_def)
  ultimately show ?thesis by (simp add: admit_call_def)
qed

lemma secret_or_fail_executor: "secret_or_fail (p\<lparr>execute_tool := x\<rparr>) t k b = secret_or_fail p t k b"
  by (cases b) (simp_all add: secret_or_fail_def resolve_secret_def)

lemma call_request_executor: "call_request (p\<lparr>execute_tool := x\<rparr>) c tool k = call_request p c tool k"
  by (simp add: call_request_def)

lemma planned_guard:
  assumes "ledger_ok w" "execution_get (cx_tenant_id (ca_context c)) k (executions w) = Some e" "db s = w"
    "ex_status e = EX_RUNNING" "ex_tool_version_id e = rt_tool_version_id tool"
    "ex_arguments_digest e = command_arguments_digest sha c"
  shows "call_guard sha c (call_request p c tool k) s"
  using assms by (auto simp: call_guard_def call_request_def ledger_ok_def approvals_used_def execution_get_def scoped_get_Some)

lemma call_tool_executor_guarded:
  fixes s :: "'x gateway"
  assumes ok: "ledger_ok (db s)" and sp: "safe_ports p"
    and q: "\<And>k. quiet_provider k p"
    and same: "\<And>rq cred u. call_guard sha c rq u \<Longrightarrow> x rq cred u = y rq cred u"
  shows "call_tool sha (p\<lparr>execute_tool := x\<rparr>) c s = call_tool sha (p\<lparr>execute_tool := y\<rparr>) c s"
  unfolding call_tool_def admit_call_executor
proof (rule bind_same, rule wp_mono [OF safeD [OF admit_call_safe [OF sp] ok]], intro allI impI, clarify)
  fix r caller tool decision binding and s1 :: "'x gateway"
  assume "ledger_step (db s) (db s1)"
  then have ok1: "ledger_ok (db s1)" by (simp add: ledger_step_def)
  let ?pc = "call_plan_command sha c caller tool decision binding"
  note pl = wp_conj [OF plan_outcome [OF ledger_approvals [OF ok1], of ?pc] plan_step [OF ok1]]
  show "bind (plan ?pc) (\<lambda>execution. run_planned (p\<lparr>execute_tool := x\<rparr>) c tool binding (ex_id execution)) s1 =
        bind (plan ?pc) (\<lambda>execution. run_planned (p\<lparr>execute_tool := y\<rparr>) c tool binding (ex_id execution)) s1"
  proof (rule bind_same, rule wp_mono [OF pl], intro allI impI)
    fix r e and s2 :: "'x gateway"
    assume o: "(same_ports s1 s2 \<and> (case r of
      Inr e \<Rightarrow> e = started_execution ?pc (id_at s1 (id_count s1)) (now_at s1 (ticks s1)) \<and> execution_wf e \<and>
                planned_db ?pc (now_at s1 (ticks s1)) (id_at s1 (Suc (id_count s1))) e (db s1) (db s2) \<and>
                id_count s2 = Suc (Suc (id_count s1))
    | Inl e \<Rightarrow> plan_failure ?pc (now_at s1 (ticks s1)) e (db s1) (db s2))) \<and>
      ledger_step (db s1) (db s2) \<and> same_ports s1 s2" and r: "r = Inr e"
    then have ok2: "ledger_ok (db s2)" by (simp add: ledger_step_def)
    have e: "ex_status e = EX_RUNNING" "ex_tool_version_id e = rt_tool_version_id tool"
        "ex_arguments_digest e = command_arguments_digest sha c"
        "dict_get (executions (db s2)) (ex_id e) = Some e" "ex_tenant_id e = cx_tenant_id (ca_context c)"
      using o r by (auto simp: planned_db_def call_plan_command_def)
    show "run_planned (p\<lparr>execute_tool := x\<rparr>) c tool binding (ex_id e) s2 =
          run_planned (p\<lparr>execute_tool := y\<rparr>) c tool binding (ex_id e) s2"
      unfolding run_planned_def secret_or_fail_executor call_request_executor
    proof (rule bind_same, rule wp_mono [OF secret_or_fail_quiet [OF q ok2]], intro allI impI)
      fix r and cred :: "resolved_credential option" and s3 :: "'x gateway"
      assume "\<forall>x. r = Inr x \<longrightarrow> outside_step (ex_id e) (db s2) (db s3)" "r = Inr cred"
      then have st: "outside_step (ex_id e) (db s2) (db s3)" by simp
      have "call_guard sha c (call_request p c tool (ex_id e)) s3"
        using st e by (intro planned_guard [of "db s3" c "ex_id e" e])
          (auto simp: outside_step_def ledger_step_def execution_get_def scoped_get_Some)
      then have "execute_or_fail (p\<lparr>execute_tool := x\<rparr>) (cx_tenant_id (ca_context c)) (call_request p c tool (ex_id e)) cred s3 =
          execute_or_fail (p\<lparr>execute_tool := y\<rparr>) (cx_tenant_id (ca_context c)) (call_request p c tool (ex_id e)) cred s3"
        by (intro execute_or_fail_same same)
      then show "bind (execute_or_fail (p\<lparr>execute_tool := x\<rparr>) (cx_tenant_id (ca_context c))
             (call_request p c tool (ex_id e)) cred)
           (\<lambda>result. bind (succeed_execution (cx_tenant_id (ca_context c)) (ex_id e))
              (\<lambda>terminal. ret \<lparr>cr_execution_id = ex_id e, cr_data = es_data result,
                 cr_content_type = es_content_type result, cr_upstream_status = es_upstream_status result,
                 cr_attempt_count = ex_attempt_count terminal\<rparr>)) s3 =
         bind (execute_or_fail (p\<lparr>execute_tool := y\<rparr>) (cx_tenant_id (ca_context c))
             (call_request p c tool (ex_id e)) cred)
           (\<lambda>result. bind (succeed_execution (cx_tenant_id (ca_context c)) (ex_id e))
              (\<lambda>terminal. ret \<lparr>cr_execution_id = ex_id e, cr_data = es_data result,
                 cr_content_type = es_content_type result, cr_upstream_status = es_upstream_status result,
                 cr_attempt_count = ex_attempt_count terminal\<rparr>)) s3"
        by (simp add: bind_def)
    qed
  qed
qed

section \<open>A planned call ends its execution\<close>

definition well_behaved :: "string \<Rightarrow> string \<Rightarrow> ('x gateway, 'a) prog \<Rightarrow> bool" where
  "well_behaved t k m \<longleftrightarrow> keeps_running t k m \<and> keeps_ids m"

lemma well_behavedD:
  assumes "well_behaved t k m" "ledger_ok (db s)" "running t k (db s)" "audit_ids_fresh s"
  shows "wp m (\<lambda>r s'. ledger_step (db s) (db s') \<and> same_ports s s' \<and> running t k (db s') \<and> audit_ids_fresh s') s"
proof -
  have "wp m (\<lambda>r s'. ledger_step (db s) (db s') \<and> same_ports s s' \<and> running t k (db s')) s"
    using assms by (simp add: well_behaved_def keeps_running_def)
  moreover have "wp m (\<lambda>r s'. audit_ids_fresh s') s" using assms by (simp add: well_behaved_def keeps_ids_def)
  ultimately show ?thesis by (rule wp_mono [OF wp_conj]) simp
qed

lemma well_behaved_pure [simp]: "well_behaved t k (ret x)" "well_behaved t k (raise e)" "well_behaved t k (lift v)"
  by (simp_all add: well_behaved_def keeps_running_def keeps_ids_def wp_rules ledger_step_refl)

text \<open>What is asked of the credential provider and of the executor.\<close>

definition provider_ok :: "string \<Rightarrow> string \<Rightarrow> 'x call_ports \<Rightarrow> bool" where
  "provider_ok t k p \<longleftrightarrow>
     (\<forall>resolve q. credential_provider p = Some resolve \<longrightarrow>
        well_behaved t k (resolve q) \<and> (\<forall>u. wp (resolve q) (\<lambda>x s'. x \<noteq> Inl CancelledError) u))"

definition executor_ok :: "string \<Rightarrow> string \<Rightarrow> 'x call_ports \<Rightarrow> call_tool_command \<Rightarrow> resolved_tool \<Rightarrow> bool" where
  "executor_ok t k p c tool \<longleftrightarrow> (\<forall>cred. well_behaved t k (execute_tool p (call_request p c tool k) cred))"

text \<open>How an execution stands after the call has ended with a result.\<close>

definition ended_as :: "string \<Rightarrow> string \<Rightarrow> call_tool_result result \<Rightarrow> 'x execution_db_scheme \<Rightarrow> bool" where
  "ended_as t k r w \<longleftrightarrow>
     (\<exists>f. execution_get t k (executions w) = Some f \<and>
        (case r of
           Inr res \<Rightarrow> ex_status f = EX_SUCCEEDED \<and> cr_execution_id res = k \<and> cr_attempt_count res = ex_attempt_count f
         | Inl e \<Rightarrow> if e = CancelledError then ex_status f = EX_CANCELLED
                   else ex_status f = EX_FAILED \<or>
                        ex_status f = EX_UNKNOWN \<and> e = NexusError UnknownExecutionOutcomeError))"

text \<open>The failure branches: finish the execution, then raise.\<close>

lemma finish_then_raise:
  fixes s :: "'x gateway"
  assumes ok: "ledger_ok (db s)" and r: "running t k (db s)" and ids: "audit_ids_fresh s"
    and st: "terminal_status status" "status = EX_CANCELLED \<or> code \<noteq> None \<and> category \<noteq> None"
    and e: "if e = CancelledError then status = EX_CANCELLED
            else status = EX_FAILED \<or> status = EX_UNKNOWN \<and> e = NexusError UnknownExecutionOutcomeError"
    and Q: "\<And>s'. ledger_step (db s) (db s') \<Longrightarrow> same_ports s s' \<Longrightarrow> ended_as t k (Inl e) (db s') \<Longrightarrow> Q (Inl e) s'"
  shows "wp (seq (finish t k status code category) (raise e)) Q s"
proof -
  have "wp (finish t k status code category) (\<lambda>r s'. ledger_step (db s) (db s') \<and> same_ports s s' \<and>
    (\<exists>f. r = Inr f \<and> ex_status f = status \<and> execution_get t k (executions (db s')) = Some f)) s"
    using st by (intro finish_running [OF ok r ids]) auto
  then show ?thesis
    unfolding wp_seq by (rule wp_mono) (use e Q in \<open>auto simp: wp_rules ended_as_def split: if_splits\<close>)
qed

lemmas finish_names = fail_execution_def cancel_execution_def succeed_execution_def

lemma secret_or_fail_outcome:
  fixes s :: "'x gateway"
  assumes ok: "ledger_ok (db s)" and r: "running t k (db s)" and ids: "audit_ids_fresh s"
    and pr: "provider_ok t k p"
  shows "wp (secret_or_fail p t k binding) (\<lambda>x s'. ledger_step (db s) (db s') \<and> same_ports s s' \<and> (case x of
      Inr _ \<Rightarrow> running t k (db s') \<and> audit_ids_fresh s'
    | Inl e \<Rightarrow> ended_as t k (Inl e) (db s'))) s"
proof -
  let ?P = "\<lambda>x s'. (ledger_step (db s) (db s') \<and> same_ports s s' \<and> running t k (db s') \<and> audit_ids_fresh s') \<and>
     x \<noteq> Inl CancelledError"
  have start: "ledger_step (db s) (db s)" using ok by (rule ledger_step_refl)
  have res: "wp (resolve_secret p binding) ?P s"
  proof (cases binding)
    case None
    then show ?thesis using start r ids by (simp add: resolve_secret_def wp_rules)
  next
    case b: (Some cb)
    show ?thesis
    proof (cases "credential_provider p")
      case None
      then show ?thesis using start r ids b by (simp add: resolve_secret_def wp_rules)
    next
      case (Some resolve)
      have "wp (resolve (cb_secret_reference cb)) (\<lambda>x s'. (ledger_step (db s) (db s') \<and> same_ports s s' \<and>
          running t k (db s') \<and> audit_ids_fresh s') \<and> x \<noteq> Inl CancelledError) s"
        using pr Some by (intro wp_conj well_behavedD ok r ids) (simp_all add: provider_ok_def)
      then show ?thesis using b Some
        by (auto simp: resolve_secret_def wp_rules elim!: wp_mono split: sum.splits)
    qed
  qed
  show ?thesis
    unfolding secret_or_fail_def wp_catch
  proof (rule wp_mono [OF res])
    fix x and s1 :: "'x gateway"
    assume P: "?P x s1"
    then have ok1: "ledger_ok (db s1)" by (simp add: ledger_step_def)
    note fin = finish_then_raise [OF ok1]
    show "case x of Inl e \<Rightarrow> wp (case e of
         NexusError ne \<Rightarrow> seq (fail_execution t k (error_code ne) CREDENTIAL False) (raise e)
       | CancelledError \<Rightarrow> raise e
       | _ \<Rightarrow> seq (fail_execution t k ''credential_resolution_failed'' CREDENTIAL False)
               (raise (NexusError CredentialResolutionError)))
        (\<lambda>x s'. ledger_step (db s) (db s') \<and> same_ports s s' \<and> (case x of
          Inr _ \<Rightarrow> running t k (db s') \<and> audit_ids_fresh s' | Inl e \<Rightarrow> ended_as t k (Inl e) (db s'))) s1
      | Inr y \<Rightarrow> ledger_step (db s) (db s1) \<and> same_ports s s1 \<and> (case Inr y of
          Inr _ \<Rightarrow> running t k (db s1) \<and> audit_ids_fresh s1 | Inl e \<Rightarrow> ended_as t k (Inl e) (db s1))"
      using P
      by (auto split: sum.splits exn.splits simp: finish_names terminal_status_def intro!: fin
          intro: ledger_step_trans same_ports_trans)
  qed
qed

lemma public_error_unknown: "public_executor_error f = UnknownExecutionOutcomeError \<longleftrightarrow> ef_outcome_unknown f"
  by (simp add: public_executor_error_def)

lemma execute_or_fail_outcome:
  fixes s :: "'x gateway"
  assumes ok: "ledger_ok (db s)" and r: "running t (er_execution_id rq) (db s)" and ids: "audit_ids_fresh s"
    and wb: "well_behaved t (er_execution_id rq) (execute_tool p rq cred)"
  shows "wp (execute_or_fail p t rq cred) (\<lambda>x s'. ledger_step (db s) (db s') \<and> same_ports s s' \<and> (case x of
      Inr _ \<Rightarrow> running t (er_execution_id rq) (db s') \<and> audit_ids_fresh s'
    | Inl e \<Rightarrow> ended_as t (er_execution_id rq) (Inl e) (db s'))) s"
proof -
  let ?k = "er_execution_id rq"
  let ?P = "\<lambda>x s'. ledger_step (db s) (db s') \<and> same_ports s s' \<and> running t ?k (db s') \<and> audit_ids_fresh s'"
  have res: "wp (bind (lift (executor_request_post_init rq)) (\<lambda>rq. execute_tool p rq cred)) ?P s"
    using well_behavedD [OF wb ok r ids] ok r ids
    by (auto simp: wp_rules executor_request_post_init_def validated_def ledger_step_refl split: option.splits)
  show ?thesis
    unfolding execute_or_fail_def wp_catch
  proof (rule wp_mono [OF res])
    fix x and s1 :: "'x gateway"
    assume P: "?P x s1"
    then have ok1: "ledger_ok (db s1)" by (simp add: ledger_step_def)
    note fin = finish_then_raise [OF ok1]
    show "case x of Inl e \<Rightarrow> wp (case e of
         CancelledError \<Rightarrow> seq (cancel_execution t ?k) (raise e)
       | ExecutorFailure f \<Rightarrow>
           seq (fail_execution t ?k (ef_code f) (ef_category f) (ef_outcome_unknown f))
               (raise (NexusError (public_executor_error f)))
       | _ \<Rightarrow> seq (fail_execution t ?k ''unexpected_executor_failure'' CATEGORY_UNKNOWN True)
               (raise (NexusError UnknownExecutionOutcomeError)))
        (\<lambda>x s'. ledger_step (db s) (db s') \<and> same_ports s s' \<and> (case x of
          Inr _ \<Rightarrow> running t ?k (db s') \<and> audit_ids_fresh s' | Inl e \<Rightarrow> ended_as t ?k (Inl e) (db s'))) s1
      | Inr y \<Rightarrow> ledger_step (db s) (db s1) \<and> same_ports s s1 \<and> (case Inr y of
          Inr _ \<Rightarrow> running t ?k (db s1) \<and> audit_ids_fresh s1 | Inl e \<Rightarrow> ended_as t ?k (Inl e) (db s1))"
      using P
      by (auto split: sum.splits exn.splits simp: finish_names terminal_status_def public_error_unknown intro!: fin
          intro: ledger_step_trans same_ports_trans)
  qed
qed

lemma run_planned_outcome:
  fixes s :: "'x gateway"
  assumes ok: "ledger_ok (db s)" and r: "running (cx_tenant_id (ca_context c)) k (db s)" and ids: "audit_ids_fresh s"
    and pr: "provider_ok (cx_tenant_id (ca_context c)) k p"
    and ex: "executor_ok (cx_tenant_id (ca_context c)) k p c tool"
  shows "wp (run_planned p c tool binding k)
    (\<lambda>x s'. ledger_step (db s) (db s') \<and> same_ports s s' \<and> ended_as (cx_tenant_id (ca_context c)) k x (db s')) s"
proof -
  let ?t = "cx_tenant_id (ca_context c)"
  let ?Q = "\<lambda>x s'. ledger_step (db s) (db s') \<and> same_ports s s' \<and> ended_as ?t k x (db s')"
  have k: "er_execution_id (call_request p c tool k) = k" by (simp add: call_request_def)
  have as: "ended_as ?t k (Inl e) w" if "ended_as ?t k (Inl e) w" for e w using that .
  show ?thesis
    unfolding run_planned_def wp_bind [of "secret_or_fail p ?t k binding"]
  proof (rule wp_mono [OF secret_or_fail_outcome [OF ok r ids pr]], goal_cases)
    case (1 x s1)
    show ?case
    proof (cases x)
      case (Inl e)
      then show ?thesis using 1 by simp
    next
      case (Inr cred)
      then have s1: "ledger_step (db s) (db s1)" "same_ports s s1" "running ?t k (db s1)" "audit_ids_fresh s1"
        using 1 by auto
      then have ok1: "ledger_ok (db s1)" by (simp add: ledger_step_def)
      note eo = execute_or_fail_outcome [where rq = "call_request p c tool k", unfolded k, OF ok1 s1(3,4)
        ex [unfolded executor_ok_def, rule_format]]
      show ?thesis
        unfolding Inr sum.case wp_bind [of "execute_or_fail p ?t (call_request p c tool k) cred"]
      proof (rule wp_mono [OF eo], goal_cases)
        case (1 y s2)
        show ?case
        proof (cases y)
          case (Inl e)
          then show ?thesis using 1 s1 by (auto intro: ledger_step_trans same_ports_trans)
        next
          case (Inr result)
          then have s2: "ledger_step (db s) (db s2)" "same_ports s s2" "running ?t k (db s2)" "audit_ids_fresh s2"
            using 1 s1 by (auto intro: ledger_step_trans same_ports_trans)
          then have ok2: "ledger_ok (db s2)" by (simp add: ledger_step_def)
          have "wp (succeed_execution ?t k) (\<lambda>r s'. ledger_step (db s2) (db s') \<and> same_ports s2 s' \<and>
              (\<exists>f. r = Inr f \<and> ex_status f = EX_SUCCEEDED \<and> execution_get ?t k (executions (db s')) = Some f)) s2"
            unfolding succeed_execution_def
            by (rule finish_running [OF ok2 s2(3,4)]) (simp_all add: terminal_status_def)
          then show ?thesis
            unfolding Inr sum.case wp_bind
            by (rule wp_mono) (use s2 in \<open>auto simp: wp_rules ended_as_def intro: ledger_step_trans same_ports_trans\<close>)
        qed
      qed
    qed
  qed
qed

text \<open>
  From the plan on: a call that was planned ends the execution it planned, one way or the other.
\<close>

lemma planned_ids_fresh:
  fixes s s' :: "'x gateway"
  assumes "audit_ids_fresh s" "same_ports s s'" "id_count s' = Suc (Suc (id_count s))"
    "planned_db c now (id_at s (Suc (id_count s))) e (db s) (db s')"
  shows "audit_ids_fresh s'"
proof -
  have "dict_get (audits (db s')) (id_at s' n) = None" if "id_count s' \<le> n" for n
    using assms that good_ids_distinct [of "id_at s" n "Suc (id_count s)"]
    by (auto simp: audit_ids_fresh_def planned_db_def same_ports_def map_add_def)
  then show ?thesis using assms by (simp add: audit_ids_fresh_def same_ports_def)
qed

lemma plan_then_run_outcome:
  fixes s :: "'x gateway"
  assumes ok: "ledger_ok (db s)" and ids: "audit_ids_fresh s"
    and t: "cx_tenant_id (pl_context pc) = cx_tenant_id (ca_context c)"
    and pr: "provider_ok (cx_tenant_id (ca_context c)) (id_at s (id_count s)) p"
    and ex: "executor_ok (cx_tenant_id (ca_context c)) (id_at s (id_count s)) p c tool"
  shows "wp (bind (plan pc) (\<lambda>execution. run_planned p c tool binding (ex_id execution)))
    (\<lambda>x s'. ledger_step (db s) (db s') \<and> same_ports s s' \<and>
       ((\<exists>e. x = Inl e \<and> plan_failure pc (now_at s (ticks s)) e (db s) (db s')) \<or>
        ended_as (cx_tenant_id (ca_context c)) (id_at s (id_count s)) x (db s'))) s"
  unfolding wp_bind
proof (rule wp_mono [OF wp_conj [OF plan_outcome [OF ledger_approvals [OF ok], of pc] plan_step [OF ok]]], goal_cases)
  case (1 r s1)
  then have st: "ledger_step (db s) (db s1)" "same_ports s s1" "ledger_ok (db s1)" by (auto simp: ledger_step_def)
  show ?case
  proof (cases r)
    case (Inl e)
    then show ?thesis using 1 by simp
  next
    case (Inr e)
    let ?k = "id_at s (id_count s)"
    have e: "ex_id e = ?k" "ex_status e = EX_RUNNING" "ex_tenant_id e = cx_tenant_id (ca_context c)"
      and p: "planned_db pc (now_at s (ticks s)) (id_at s (Suc (id_count s))) e (db s) (db s1)"
        "id_count s1 = Suc (Suc (id_count s))"
      using 1 Inr t by auto
    have run: "running (cx_tenant_id (ca_context c)) ?k (db s1)"
      using p e by (auto simp: running_def planned_db_def execution_get_def scoped_get_Some)
    have ids1: "audit_ids_fresh s1" using planned_ids_fresh [OF ids st(2) p(2,1)] .
    show ?thesis
      unfolding Inr sum.case e(1)
      by (rule wp_mono [OF run_planned_outcome [OF st(3) run ids1 pr ex]])
        (use st in \<open>auto intro: ledger_step_trans same_ports_trans\<close>)
  qed
qed

end
