(* ===== verification/Ledger_Properties.thy ===== *)
theory Ledger_Properties
  imports Call_Tool_Correct
begin

text \<open>
  The gateway as a transition system: any number of requests, from any tenants, interleaved at the
  granularity of their transactions. A step runs one transaction of the approval or execution module
  from any state of the clock and identifier ports (so no assumption on them is made here);
  \<open>reachable\<close> states are those such steps lead to from empty stores.

  The properties of the approval and execution stores over every interleaving of transactions, and
  the outcome of the transactions that decide, consume and plan. The first section is a small
  concrete run (an approval requested, granted and used by a planned call) on which the properties
  are instantiated.
\<close>

inductive gateway_step :: "execution_db \<Rightarrow> execution_db \<Rightarrow> bool" where
  step_request: "request_approval ttl rq s = (r, s') \<Longrightarrow> gateway_step (db s) (db s')"
| step_decide: "decide_approval dc s = (r, s') \<Longrightarrow> gateway_step (db s) (db s')"
| step_consume: "consume_approval cc s = (r, s') \<Longrightarrow> gateway_step (db s) (db s')"
| step_plan: "plan pc s = (r, s') \<Longrightarrow> gateway_step (db s) (db s')"
| step_start_attempt: "start_attempt t k s = (r, s') \<Longrightarrow> gateway_step (db s) (db s')"
| step_finish_attempt: "finish_attempt t k st code cat up s = (r, s') \<Longrightarrow> gateway_step (db s) (db s')"
| step_finish: "finish t k est code cat s = (r, s') \<Longrightarrow> gateway_step (db s) (db s')"
| step_decision: "record_call_decision rd s = (r, s') \<Longrightarrow> gateway_step (db s) (db s')"
| step_scope_denial: "record_scope_denial sd s = (r, s') \<Longrightarrow> gateway_step (db s) (db s')"

definition reachable :: "execution_db \<Rightarrow> bool" where
  "reachable w \<longleftrightarrow> gateway_step\<^sup>*\<^sup>* empty_execution_db w"

lemma gateway_step_ledger: "gateway_step w w' \<Longrightarrow> ledger_ok w \<Longrightarrow> ledger_step w w'"
proof (induction rule: gateway_step.induct)
  case (step_request ttl rq s r s')
  then show ?case using wpD [OF request_approval_step, of s] by blast
next
  case (step_decide dc s r s')
  then show ?case using wpD [OF decide_approval_step, of s] by blast
next
  case (step_consume cc s r s')
  then show ?case using wpD [OF consume_approval_step, of s] by blast
next
  case (step_plan pc s r s')
  then show ?case using wpD [OF plan_step, of s] by blast
next
  case (step_start_attempt t k s r s')
  then show ?case using wpD [OF start_attempt_step, of s] by blast
next
  case (step_finish_attempt t k st code cat up s r s')
  then show ?case using wpD [OF finish_attempt_step, of s] by blast
next
  case (step_finish t k est code cat s r s')
  then show ?case using wpD [OF finish_step, of s] by blast
next
  case (step_decision rd s r s')
  then show ?case using wpD [OF record_call_decision_step, of s] by blast
next
  case (step_scope_denial sd s r s')
  then show ?case using wpD [OF record_scope_denial_step, of s] by blast
qed

lemma gateway_star_ledger: "gateway_step\<^sup>*\<^sup>* w w' \<Longrightarrow> ledger_ok w \<Longrightarrow> ledger_step w w'"
proof (induction rule: rtranclp_induct)
  case base
  then show ?case by (rule ledger_step_refl)
next
  case (step x y)
  then have "ledger_step w x" by simp
  then show ?case using gateway_step_ledger [OF step(2)] ledger_step_trans by (auto simp: ledger_step_def)
qed

lemma reachable_ledger: "reachable w \<Longrightarrow> ledger_ok w"
  unfolding reachable_def using gateway_star_ledger [OF _ ledger_ok_empty] by (simp add: ledger_step_def)

lemma reachable_step: "reachable w \<Longrightarrow> gateway_step w w' \<Longrightarrow> reachable w'"
  by (simp add: reachable_def)

section \<open>A concrete run\<close>

definition sample_context :: actor_context where
  "sample_context =
     \<lparr>cx_request_id = ''r1'', cx_trace_id = ''t1'', cx_tenant_id = ''acme'', cx_principal_id = ''agent'',
      cx_authn_method = ''bearer'', cx_principal_type = ''agent_service''\<rparr>"

definition sample_start :: "(instant, execution_db) sys" where
  "sample_start =
     \<lparr>now_at = int, ticks = 0, id_at = sample_ids, id_count = 0, db = empty_execution_db\<rparr>"

definition sample_request :: request_approval_command where
  "sample_request =
     \<lparr>rq_context = sample_context, rq_principal_id = ''agent'', rq_tool_id = ''tool'',
      rq_tool_version_id = ''v1'', rq_arguments_digest = ''d1'', rq_policy_version = ''p1'',
      rq_idempotency_key = None, rq_policy_reason_code = ''review'', rq_mcp_scope_type = ''root'',
      rq_toolset_id = None, rq_toolset_revision = None\<rparr>"

definition sample_requested :: "(instant, execution_db) sys" where
  "sample_requested = snd (request_approval 100 sample_request sample_start)"

definition sample_decision :: decide_approval_command where
  "sample_decision = \<lparr>dc_context = sample_context, dc_approval_id = ''id-'', dc_approved = True\<rparr>"

definition sample_decided :: "(instant, execution_db) sys" where
  "sample_decided = snd (decide_approval sample_decision sample_requested)"

definition sample_plan :: plan_execution_command where
  "sample_plan =
     \<lparr>pl_context = sample_context, pl_principal_id = ''agent'', pl_tool_id = ''tool'',
      pl_tool_version_id = ''v1'', pl_tool_binding_id = ''b1'', pl_arguments_digest = ''d1'',
      pl_policy_version = ''p1'', pl_policy_reason_code = ''review'', pl_side_effect = NON_IDEMPOTENT_WRITE,
      pl_approval_id = Some ''id-'', pl_credential_binding_id = None, pl_idempotency_key = None,
      pl_mcp_scope_type = SCOPE_ROOT, pl_toolset_id = None, pl_toolset_revision = None\<rparr>"

definition sample_planned :: "(instant, execution_db) sys" where
  "sample_planned = snd (plan sample_plan sample_decided)"

definition sample_attempted :: "(instant, execution_db) sys" where
  "sample_attempted = snd (start_attempt ''acme'' (sample_ids 3) sample_planned)"

definition sample_finished :: "(instant, execution_db) sys" where
  "sample_finished = snd (finish ''acme'' (sample_ids 3) EX_SUCCEEDED None None sample_attempted)"

text \<open>Another run: a planned call with an idempotency key.\<close>

definition sample_keyed :: "(instant, execution_db) sys" where
  "sample_keyed =
     snd (plan (sample_plan\<lparr>pl_approval_id := None, pl_idempotency_key := Some ''k1''\<rparr>) sample_start)"

lemma sample_start_reachable: "reachable (db sample_start)"
  by (simp add: reachable_def sample_start_def)

lemma sample_decided_reachable: "reachable (db sample_decided)"
proof -
  have "gateway_step (db sample_start) (db sample_requested)"
    unfolding sample_requested_def
    by (rule gateway_step.step_request [of 100 sample_request]) (rule surjective_pairing)
  moreover have "gateway_step (db sample_requested) (db sample_decided)"
    unfolding sample_decided_def
    by (rule gateway_step.step_decide [of sample_decision]) (rule surjective_pairing)
  ultimately show ?thesis using sample_start_reachable reachable_step by blast
qed

lemma sample_planned_reachable: "reachable (db sample_planned)"
proof -
  have "gateway_step (db sample_decided) (db sample_planned)"
    unfolding sample_planned_def
    by (rule gateway_step.step_plan [of sample_plan]) (rule surjective_pairing)
  then show ?thesis using sample_decided_reachable reachable_step by blast
qed

lemma sample_attempted_reachable: "reachable (db sample_attempted)"
proof -
  have "gateway_step (db sample_planned) (db sample_attempted)"
    unfolding sample_attempted_def
    by (rule gateway_step.step_start_attempt [of "''acme''" "sample_ids 3"]) (rule surjective_pairing)
  then show ?thesis using sample_planned_reachable reachable_step by blast
qed

lemma sample_finish_step: "gateway_step (db sample_attempted) (db sample_finished)"
  unfolding sample_finished_def
  by (rule gateway_step.step_finish [of "''acme''" "sample_ids 3" EX_SUCCEEDED None None]) (rule surjective_pairing)

lemma sample_finished_reachable: "reachable (db sample_finished)"
  using sample_attempted_reachable sample_finish_step reachable_step by blast

lemma sample_keyed_reachable: "reachable (db sample_keyed)"
proof -
  have "gateway_step (db sample_start) (db sample_keyed)"
    unfolding sample_keyed_def
    by (rule gateway_step.step_plan) (rule surjective_pairing)
  then show ?thesis using sample_start_reachable reachable_step by blast
qed

lemma sample_execution:
  "\<exists>e. dict_get (executions (db sample_planned)) (sample_ids 3) = Some e \<and> ex_approval_id e = Some ''id-'' \<and>
       ex_status e = EX_RUNNING \<and> ex_attempt_count e = 0"
proof -
  have "map_option (\<lambda>e. (ex_approval_id e, ex_status e, ex_attempt_count e))
      (dict_get (executions (db sample_planned)) (sample_ids 3)) = Some (Some ''id-'', EX_RUNNING, 0)"
    by code_simp
  then show ?thesis by auto
qed

lemma sample_execution_finished:
  "\<exists>e. dict_get (executions (db sample_finished)) (sample_ids 3) = Some e \<and> ex_status e = EX_SUCCEEDED \<and>
       ex_attempt_count e = 1"
proof -
  have "map_option (\<lambda>e. (ex_status e, ex_attempt_count e))
      (dict_get (executions (db sample_finished)) (sample_ids 3)) = Some (EX_SUCCEEDED, 1)"
    by code_simp
  then show ?thesis by auto
qed

lemma sample_execution_keyed:
  "\<exists>e. dict_get (executions (db sample_keyed)) (sample_ids 0) = Some e \<and> ex_idempotency_key e = Some ''k1''"
proof -
  have "map_option ex_idempotency_key (dict_get (executions (db sample_keyed)) (sample_ids 0)) = Some (Some ''k1'')"
    by code_simp
  then show ?thesis by auto
qed

section \<open>Over every interleaving\<close>

text \<open>C1: whatever transactions of whatever requests interleave, an approval is used by at most one
  execution, and an execution that names an approval holds one that is consumed, belongs to its
  tenant and principal, and was granted for exactly its tool version, arguments, policy version and
  idempotency key, at the time the execution was planned.\<close>

theorem approval_single_use:
  assumes "reachable w"
    and "dict_get (executions w) k = Some e" and "ex_approval_id e = Some i"
    and "dict_get (executions w) l = Some f" and "ex_approval_id f = Some i"
  shows "k = l \<and> (\<exists>a. dict_get (approvals w) i = Some a \<and> ap_status a = CONSUMED \<and>
     ap_tenant_id a = ex_tenant_id e \<and> ap_principal_id a = ex_principal_id e \<and>
     ap_tool_version_id a = ex_tool_version_id e \<and> ap_arguments_digest a = ex_arguments_digest e \<and>
     ap_policy_version a = ex_policy_version e \<and> ap_idempotency_key a = ex_idempotency_key e \<and>
     ap_consumed_at a = Some (ex_planned_at e))"
proof -
  have "one_per_approval (executions w)" "approvals_used (approvals w) (executions w)"
    using reachable_ledger [OF assms(1)] by (simp_all add: ledger_ok_def)
  then show ?thesis using assms(2-5) unfolding one_per_approval_def approvals_used_def approval_for_def by fastforce
qed

theorem approval_single_use_witness:
  "\<exists>e a. dict_get (executions (db sample_planned)) (sample_ids 3) = Some e \<and> ex_approval_id e = Some ''id-'' \<and>
     dict_get (approvals (db sample_planned)) ''id-'' = Some a \<and> ap_status a = CONSUMED \<and>
     ap_arguments_digest a = ex_arguments_digest e"
proof -
  obtain e where e: "dict_get (executions (db sample_planned)) (sample_ids 3) = Some e" "ex_approval_id e = Some ''id-''"
    using sample_execution by blast
  show ?thesis using approval_single_use [OF sample_planned_reachable e e] e by blast
qed

text \<open>C8: an idempotency key is used by at most one execution per tenant, principal and tool version,
  whatever requests interleave.\<close>

theorem idempotency_key_single_use:
  assumes "reachable w"
    and "dict_get (executions w) k = Some e" and "ex_idempotency_key e = Some key"
    and "dict_get (executions w) l = Some f" and "ex_idempotency_key f = Some key"
    and "ex_tenant_id f = ex_tenant_id e" and "ex_principal_id f = ex_principal_id e"
    and "ex_tool_version_id f = ex_tool_version_id e"
  shows "k = l"
proof -
  have "one_per_idempotency_key (executions w)"
    using reachable_ledger [OF assms(1)] by (simp add: ledger_ok_def)
  then show ?thesis using assms(2-8) unfolding one_per_idempotency_key_def by (metis option.distinct(1))
qed

theorem idempotency_key_single_use_witness:
  "\<exists>e. dict_get (executions (db sample_keyed)) (sample_ids 0) = Some e \<and> ex_idempotency_key e = Some ''k1'' \<and>
     (\<forall>l. dict_get (executions (db sample_keyed)) l = Some e \<longrightarrow> l = sample_ids 0)"
proof -
  obtain e where e: "dict_get (executions (db sample_keyed)) (sample_ids 0) = Some e" "ex_idempotency_key e = Some ''k1''"
    using sample_execution_keyed by blast
  show ?thesis using idempotency_key_single_use [OF sample_keyed_reachable _ e(2) e refl refl refl] e by blast
qed

text \<open>C7: the audit trail of an execution always agrees with its state: exactly one ALLOWED event from
  the planning transaction and, once it is terminal, exactly one more with the matching outcome.\<close>

theorem execution_audit_trail:
  assumes "reachable w" and "dict_get (executions w) k = Some e"
  shows "map au_outcome [ev \<leftarrow> dict_values (audits w). au_execution_id ev = Some k] =
     OUTCOME_ALLOWED #
       (case ex_status e of
          EX_PLANNED \<Rightarrow> [] | EX_RUNNING \<Rightarrow> []
        | EX_SUCCEEDED \<Rightarrow> [OUTCOME_SUCCEEDED] | EX_FAILED \<Rightarrow> [OUTCOME_FAILED]
        | EX_UNKNOWN \<Rightarrow> [OUTCOME_UNKNOWN] | EX_CANCELLED \<Rightarrow> [OUTCOME_CANCELLED])"
proof -
  have "audit_trail_ok (executions w) (audits w)" using reachable_ledger [OF assms(1)] by (simp add: ledger_ok_def)
  then show ?thesis using assms(2) unfolding audit_trail_ok_def audit_outcomes_def
    by (cases "ex_status e") (auto dest!: spec [of _ k])
qed

theorem execution_audit_trail_witness:
  "map au_outcome [ev \<leftarrow> dict_values (audits (db sample_finished)). au_execution_id ev = Some (sample_ids 3)] =
     [OUTCOME_ALLOWED, OUTCOME_SUCCEEDED]"
proof -
  obtain e where e: "dict_get (executions (db sample_finished)) (sample_ids 3) = Some e" "ex_status e = EX_SUCCEEDED"
    using sample_execution_finished by blast
  show ?thesis using execution_audit_trail [OF sample_finished_reachable e(1)] e(2) by simp
qed

text \<open>The attempts of an execution are numbered 1, 2, ..., attempt count, in the order they were
  opened, without gaps or repetitions.\<close>

theorem attempts_numbered_from_one:
  assumes "reachable w" and "dict_get (executions w) k = Some e"
  shows "map at_attempt_number [a \<leftarrow> dict_values (attempts w). at_execution_id a = k] = [1..ex_attempt_count e]"
proof -
  have "attempts_numbered (executions w) (attempts w)"
    using reachable_ledger [OF assms(1)] by (simp add: ledger_ok_def)
  then show ?thesis using assms(2) unfolding attempts_numbered_def attempt_numbers_def
    by (auto dest!: spec [of _ k])
qed

theorem attempts_numbered_from_one_witness:
  "map at_attempt_number [a \<leftarrow> dict_values (attempts (db sample_finished)). at_execution_id a = sample_ids 3] = [1]"
proof -
  obtain e where e: "dict_get (executions (db sample_finished)) (sample_ids 3) = Some e" "ex_attempt_count e = 1"
    using sample_execution_finished by blast
  show ?thesis using attempts_numbered_from_one [OF sample_finished_reachable e(1)] e(2) by simp
qed

text \<open>C11: history only grows: from a reachable state on, a terminal execution and a terminal approval
  never change again and are never removed, and the audit log of any later state starts with the
  present one.\<close>

theorem history_is_final:
  assumes "reachable w" and "gateway_step\<^sup>*\<^sup>* w w'"
  shows "(\<forall>k e. dict_get (executions w) k = Some e \<longrightarrow>
            ex_status e \<in> {EX_SUCCEEDED, EX_FAILED, EX_UNKNOWN, EX_CANCELLED} \<longrightarrow>
            dict_get (executions w') k = Some e) \<and>
         (\<forall>i a. dict_get (approvals w) i = Some a \<longrightarrow> ap_status a \<in> {REJECTED, EXPIRED, CONSUMED} \<longrightarrow>
            dict_get (approvals w') i = Some a) \<and>
         (\<exists>new. audits w' = audits w @ new)"
proof -
  have "ledger_step w w'" using gateway_star_ledger [OF assms(2) reachable_ledger [OF assms(1)]] .
  then show ?thesis
    unfolding ledger_step_def executions_evolve_def approvals_evolve_def audits_extend_def
    by (metis approval_star_terminal execution_star_terminal terminal_approval_def terminal_status_def)
qed

theorem history_is_final_witness:
  "\<exists>new. audits (db sample_finished) = audits (db sample_attempted) @ new"
  using history_is_final [OF sample_attempted_reachable r_into_rtranclp [of gateway_step, OF sample_finish_step]] by blast

section \<open>One transaction\<close>

text \<open>C4: planning is all or nothing. Success commits, together, the consumption of the approval the
  call names, the running execution under a fresh identifier and its ALLOWED audit event, and was
  possible only if no execution held the idempotency key. Failure commits nothing, except that an
  approval found past its expiry is recorded as expired.\<close>

theorem plan_all_or_nothing:
  assumes "approvals_ok (approvals (db s))" and "plan c s = (r, s')"
  shows "case r of
     Inr e \<Rightarrow>
       dict_get (executions (db s)) (ex_id e) = None \<and> ex_status e = EX_RUNNING \<and> ex_attempt_count e = 0 \<and>
       executions (db s') = executions (db s) @ [(ex_id e, e)] \<and> attempts (db s') = attempts (db s) \<and>
       (\<exists>ev. audits (db s') = audits (db s) @ [(au_id ev, ev)] \<and> au_outcome ev = OUTCOME_ALLOWED \<and>
             au_execution_id ev = Some (ex_id e)) \<and>
       (case pl_approval_id c of
          None \<Rightarrow> approvals (db s') = approvals (db s)
        | Some i \<Rightarrow> \<exists>a. dict_get (approvals (db s)) i = Some a \<and> ap_status a = APPROVED \<and>
            ex_planned_at e < ap_expires_at a \<and>
            approvals (db s') = dict_set i (a\<lparr>ap_status := CONSUMED, ap_consumed_at := Some (ex_planned_at e)\<rparr>)
                                  (approvals (db s))) \<and>
       (\<forall>key. pl_idempotency_key c = Some key \<longrightarrow>
          (\<forall>f \<in> set (dict_values (executions (db s))).
             \<not> (ex_tenant_id f = cx_tenant_id (pl_context c) \<and> ex_principal_id f = pl_principal_id c \<and>
                ex_tool_version_id f = pl_tool_version_id c \<and> ex_idempotency_key f = Some key)))
   | Inl x \<Rightarrow>
       db s' = db s \<or>
       x = NexusError ApprovalExpiredError \<and>
       (\<exists>i a b. pl_approval_id c = Some i \<and> dict_get (approvals (db s)) i = Some a \<and>
          ap_status a = APPROVED \<and> ap_expires_at a \<le> now_at s (ticks s) \<and> ap_status b = EXPIRED \<and>
          db s' = db s\<lparr>approvals := dict_set i b (approvals (db s))\<rparr>)"
proof -
  note o = wpD [OF plan_outcome [OF assms(1)] assms(2)]
  show ?thesis
  proof (cases r)
    case (Inl x)
    then show ?thesis using o
      by (auto simp: plan_failure_def plan_expires_def approval_get_def scoped_get_Some)
  next
    case (Inr e)
    then have p: "planned_db c (now_at s (ticks s)) (id_at s (Suc (id_count s))) e (db s) (db s')"
      and e: "e = started_execution c (id_at s (id_count s)) (now_at s (ticks s))" using o by auto
    show ?thesis
      using p Inr unfolding planned_db_def
      by (auto simp: e dict_set_fresh plan_consumes_def approval_get_def scoped_get_Some by_idempotency_key_None
          split: option.splits)
  qed
qed

theorem plan_all_or_nothing_witness:
  "\<exists>e. fst (plan sample_plan sample_decided) = Inr e \<and>
     executions (db sample_planned) = executions (db sample_decided) @ [(ex_id e, e)] \<and>
     (\<exists>a. dict_get (approvals (db sample_decided)) ''id-'' = Some a \<and> ap_status a = APPROVED)"
proof -
  have ok: "approvals_ok (approvals (db sample_decided))"
    using reachable_ledger [OF sample_decided_reachable] by (simp add: ledger_ok_def)
  have run: "plan sample_plan sample_decided = (fst (plan sample_plan sample_decided), sample_planned)"
    by (simp add: sample_planned_def)
  have "(case fst (plan sample_plan sample_decided) of Inr e \<Rightarrow> True | Inl _ \<Rightarrow> False)" by code_simp
  then obtain e where e: "fst (plan sample_plan sample_decided) = Inr e" by (auto split: sum.splits)
  have i: "pl_approval_id sample_plan = Some ''id-''" by (simp add: sample_plan_def)
  show ?thesis using plan_all_or_nothing [OF ok run] unfolding e i by auto
qed

text \<open>Consuming an approval. It succeeds only for an approved, unexpired request of the caller's
  tenant whose principal, tool version, arguments digest, policy version and idempotency key are all
  those of the call, and then that request becomes consumed; a request found past its expiry is
  recorded as expired and the call fails; every other failure leaves the stores as they were.\<close>

theorem consume_approval_exact:
  assumes "approvals_ok (approvals (db s))" and "consume_approval c s = (r, s')"
  shows "case r of
     Inr b \<Rightarrow> \<exists>a. dict_get (approvals (db s)) (cc_approval_id c) = Some a \<and>
        ap_tenant_id a = cx_tenant_id (cc_context c) \<and> ap_status a = APPROVED \<and>
        now_at s (ticks s) < ap_expires_at a \<and> ap_principal_id a = cc_principal_id c \<and>
        ap_tool_version_id a = cc_tool_version_id c \<and> ap_arguments_digest a = cc_arguments_digest c \<and>
        ap_policy_version a = cc_policy_version c \<and> ap_idempotency_key a = cc_idempotency_key c \<and>
        b = a\<lparr>ap_status := CONSUMED, ap_consumed_at := Some (now_at s (ticks s))\<rparr> \<and>
        db s' = db s\<lparr>approvals := dict_set (cc_approval_id c) b (approvals (db s))\<rparr>
   | Inl x \<Rightarrow>
       db s' = db s \<or>
       x = NexusError ApprovalExpiredError \<and>
       (\<exists>a b. dict_get (approvals (db s)) (cc_approval_id c) = Some a \<and> ap_status a = APPROVED \<and>
          ap_expires_at a \<le> now_at s (ticks s) \<and> ap_status b = EXPIRED \<and>
          db s' = db s\<lparr>approvals := dict_set (cc_approval_id c) b (approvals (db s))\<rparr>)"
  using wpD [OF consume_approval_outcome [OF assms(1)] assms(2)]
  by (cases r) (auto simp: consume_outcome_def approval_matches_def approval_get_def scoped_get_Some)

definition sample_consume :: consume_approval_command where
  "sample_consume =
     \<lparr>cc_context = sample_context, cc_approval_id = ''id-'', cc_principal_id = ''agent'',
      cc_tool_version_id = ''v1'', cc_arguments_digest = ''d1'', cc_policy_version = ''p1'',
      cc_idempotency_key = None\<rparr>"

theorem consume_approval_exact_witness:
  "\<exists>b. fst (consume_approval sample_consume sample_decided) = Inr b \<and> ap_status b = CONSUMED"
proof -
  have ok: "approvals_ok (approvals (db sample_decided))"
    using reachable_ledger [OF sample_decided_reachable] by (simp add: ledger_ok_def)
  have "(case fst (consume_approval sample_consume sample_decided) of Inr e \<Rightarrow> True | Inl _ \<Rightarrow> False)" by code_simp
  then obtain b where b: "fst (consume_approval sample_consume sample_decided) = Inr b" by (auto split: sum.splits)
  show ?thesis
    using consume_approval_exact [OF ok surjective_pairing [of "consume_approval sample_consume sample_decided"]]
    unfolding b by auto
qed

text \<open>Deciding an approval. It succeeds only for a pending, unexpired request of the decider's
  tenant, which becomes approved or rejected as asked, with one audit event; a pending request found
  past its expiry is recorded as expired and the decision fails; every other failure leaves the
  stores as they were.\<close>

theorem decide_approval_exact:
  assumes "approvals_ok (approvals (db s))" and "decide_approval c s = (r, s')"
  shows "case r of
     Inr b \<Rightarrow> \<exists>a new. dict_get (approvals (db s)) (dc_approval_id c) = Some a \<and>
        ap_tenant_id a = cx_tenant_id (dc_context c) \<and> ap_status a = PENDING \<and>
        now_at s (ticks s) < ap_expires_at a \<and> same_binding a b \<and>
        ap_status b = (if dc_approved c then APPROVED else REJECTED) \<and>
        approvals (db s') = dict_set (dc_approval_id c) b (approvals (db s)) \<and>
        audits (db s') = audits (db s) @ new \<and> length new = 1
   | Inl x \<Rightarrow>
       db s' = db s \<or>
       x = NexusError ApprovalExpiredError \<and> audits (db s') = audits (db s) \<and>
       (\<exists>a b. dict_get (approvals (db s)) (dc_approval_id c) = Some a \<and> ap_status a = PENDING \<and>
          ap_expires_at a \<le> now_at s (ticks s) \<and> ap_status b = EXPIRED \<and>
          approvals (db s') = dict_set (dc_approval_id c) b (approvals (db s)))"
  using wpD [OF decide_approval_outcome [OF assms(1)] assms(2)]
  by (cases r) (auto simp: decide_outcome_def approval_get_def scoped_get_Some dest: approval_next_binding)

theorem decide_approval_exact_witness:
  "\<exists>b. fst (decide_approval sample_decision sample_requested) = Inr b \<and> ap_status b = APPROVED"
proof -
  have "reachable (db sample_requested)"
    unfolding sample_requested_def
    by (rule reachable_step [OF sample_start_reachable], rule gateway_step.step_request [of 100 sample_request])
      (rule surjective_pairing)
  then have ok: "approvals_ok (approvals (db sample_requested))"
    using reachable_ledger by (simp add: ledger_ok_def)
  have "(case fst (decide_approval sample_decision sample_requested) of Inr e \<Rightarrow> True | Inl _ \<Rightarrow> False)" by code_simp
  then obtain b where b: "fst (decide_approval sample_decision sample_requested) = Inr b" by (auto split: sum.splits)
  have d: "dc_approved sample_decision" by (simp add: sample_decision_def)
  show ?thesis
    using decide_approval_exact [OF ok surjective_pairing [of "decide_approval sample_decision sample_requested"]] d
    unfolding b by auto
qed

text \<open>Tenant isolation of the execution stores: adding or saving an execution, an attempt or an
  approval for one tenant changes nothing that another tenant can read, and what was written is what
  its own tenant reads back.\<close>

theorem execution_stores_isolate_tenants:
  "(execution_add t e d = Inr d' \<or> execution_save t e d = Inr d' \<longrightarrow>
      execution_get t (ex_id e) d' = Some e \<and> (u \<noteq> t \<longrightarrow> execution_get u k d' = execution_get u k d)) \<and>
   (attempt_add t a g = Inr g' \<or> attempt_save t a g = Inr g' \<longrightarrow>
      attempt_get t (at_id a) g' = Some a \<and> (u \<noteq> t \<longrightarrow> attempt_get u k g' = attempt_get u k g)) \<and>
   (approval_add t p h = Inr h' \<or> approval_save t p h = Inr h' \<longrightarrow>
      approval_get t (ap_id p) h' = Some p \<and> (u \<noteq> t \<longrightarrow> approval_get u k h' = approval_get u k h))"
  unfolding execution_get_def attempt_get_def approval_get_def
  by (auto intro: execution_repo.scoped.read_your_add execution_repo.scoped.read_your_save
    execution_repo.scoped.add_isolated execution_repo.scoped.save_isolated
    attempt_repo.scoped.read_your_add attempt_repo.scoped.read_your_save
    attempt_repo.scoped.add_isolated attempt_repo.scoped.save_isolated
    approval_repo.scoped.read_your_add approval_repo.scoped.read_your_save
    approval_repo.scoped.add_isolated approval_repo.scoped.save_isolated)

definition sample_execution_value :: tool_execution where
  "sample_execution_value = started_execution sample_plan ''x1'' 0"

theorem execution_stores_isolate_tenants_witness:
  "execution_get ''acme'' ''x1'' [(''x1'', sample_execution_value)] = Some sample_execution_value \<and>
   execution_get ''other'' ''x1'' [(''x1'', sample_execution_value)] = None"
proof -
  have a: "execution_add ''acme'' sample_execution_value [] = Inr [(''x1'', sample_execution_value)]"
    by (simp add: execution_add_def sample_execution_value_def sample_plan_def sample_context_def)
  have i: "ex_id sample_execution_value = ''x1''" by (simp add: sample_execution_value_def)
  have n: "execution_get ''other'' ''x1'' [] = None" by (simp add: execution_get_def scoped_get_def)
  show ?thesis
    using execution_stores_isolate_tenants [of "''acme''" sample_execution_value "[]"
        "[(''x1'', sample_execution_value)]" "''other''" "''x1''"] a i n by simp
qed

end
