(* ===== verification/Call_Properties.thy ===== *)
theory Call_Properties
  imports Ledger_Properties
begin

text \<open>
  The properties of one tool call, over arbitrary ports, and of the retry loop under it.
\<close>

section \<open>Ports that leave the stores alone\<close>

definition store_free :: "('x gateway, 'a) prog \<Rightarrow> bool" where
  "store_free m \<longleftrightarrow> (\<forall>s. wp m (\<lambda>r s'. db s' = db s \<and> same_ports s s') s)"

definition admission_store_free :: "'x call_ports \<Rightarrow> bool" where
  "admission_store_free p \<longleftrightarrow>
     (\<forall>x. store_free (resolve_principal p x)) \<and> (\<forall>t n. store_free (resolve_tool p t n)) \<and>
     (\<forall>i. store_free (evaluate_policy p i)) \<and> (\<forall>u. store_free (validate_endpoint p u)) \<and>
     (\<forall>resolve q. credential_binding_resolver p = Some resolve \<longrightarrow> store_free (resolve q))"

lemma store_free_pure [simp]:
  "store_free (ret x)" "store_free (raise e)" "store_free (lift r)" "store_free (raise_if b e)"
  "store_free (require_some v e)"
  by (auto simp: store_free_def wp_rules split: option.splits)

text \<open>Stepping over such ports, towards a claim about the stores only.\<close>

definition stays :: "'x gateway \<Rightarrow> 'x gateway \<Rightarrow> bool" where
  "stays s u \<longleftrightarrow> db u = db s \<and> same_ports s u"

lemma stays_refl [simp]: "stays s s"
  by (simp add: stays_def)

lemma store_free_stays: "store_free m \<Longrightarrow> stays s u \<Longrightarrow> wp m (\<lambda>r v. stays s v) u"
  unfolding store_free_def stays_def by (auto elim!: wp_mono dest!: spec [of _ u] intro: same_ports_trans)

lemma wp_bind_stays:
  assumes "store_free m" "stays s u" "\<And>e v. stays s v \<Longrightarrow> Q (Inl e) v" "\<And>x v. stays s v \<Longrightarrow> wp (f x) Q v"
  shows "wp (bind m f) Q u"
  unfolding wp_bind by (rule wp_mono [OF store_free_stays [OF assms(1,2)]]) (use assms in \<open>auto split: sum.splits\<close>)

lemma wp_seq_stays:
  assumes "store_free m" "stays s u" "\<And>e v. stays s v \<Longrightarrow> Q (Inl e) v" "\<And>v. stays s v \<Longrightarrow> wp n Q v"
  shows "wp (seq m n) Q u"
  unfolding seq_def using assms by (rule wp_bind_stays)

lemma store_free_iff: "store_free m \<longleftrightarrow> (\<forall>s. wp m (\<lambda>r v. stays s v) s)"
  by (simp add: store_free_def stays_def)

lemma store_free_bind: "store_free m \<Longrightarrow> (\<And>x. store_free (f x)) \<Longrightarrow> store_free (bind m f)"
  by (subst store_free_iff, intro allI, rule wp_bind_stays, assumption, rule stays_refl, assumption)
    (rule store_free_stays)

text \<open>
  The walk to the policy gate: whatever stops the call earlier leaves the stores alone, and the gate
  is reached with a decision the evaluator returned.
\<close>

lemma admit_call_walk:
  fixes s :: "'x gateway"
  assumes p: "admission_store_free p"
    and dec: "\<And>i. returns P (evaluate_policy p i)"
    and fail: "\<And>e v. stays s v \<Longrightarrow> Q (Inl e) v"
    and gate: "\<And>caller tool d v. P d \<Longrightarrow> stays s v \<Longrightarrow>
        wp (seq (policy_gate sha p c caller tool d)
             (seq (validate_endpoint p (rt_upstream_endpoint tool))
             (bind (resolve_credential_binding p (cx_tenant_id (ca_context c)) caller tool) (\<lambda>binding.
              ret (caller, tool, d, binding))))) Q v"
  shows "wp (admit_call sha p c) Q s"
proof -
  have ps: "store_free (resolve_principal p x)" "store_free (resolve_tool p t n)" for x t n
    using p by (simp_all add: admission_store_free_def)
  have sf: "store_free (evaluate_policy p i)" for i using p by (simp add: admission_store_free_def)
  have ev: "wp (evaluate_policy p i) (\<lambda>r v. stays s v \<and> (\<forall>x. r = Inr x \<longrightarrow> P x)) u" if "stays s u" for i u
    by (rule wp_conj [OF store_free_stays [OF sf that]]) (use dec in \<open>simp add: returns_def\<close>)
  note step = wp_bind_stays [where s = s and Q = Q] wp_seq_stays [where s = s and Q = Q]
  have final: "wp (bind (evaluate_policy p i) (\<lambda>d. seq (policy_gate sha p c caller tool d)
             (seq (validate_endpoint p (rt_upstream_endpoint tool))
             (bind (resolve_credential_binding p (cx_tenant_id (ca_context c)) caller tool) (\<lambda>binding.
              ret (caller, tool, d, binding)))))) Q u" if "stays s u" for i caller tool u
    unfolding wp_bind [of "evaluate_policy p i"]
    by (rule wp_mono [OF ev [OF that]]) (use fail gate in \<open>auto split: sum.splits\<close>)
  show ?thesis
    unfolding admit_call_def
    by (rule step(1) [OF ps(1)], simp, erule fail, rule step(1) [OF ps(2)], assumption, erule fail,
        rule step(1) [OF store_free_pure(5)], assumption, erule fail,
        rule step(2) [OF store_free_pure(4)], assumption, erule fail,
        rule step(2) [OF store_free_pure(3)], assumption, erule fail,
        rule step(2) [OF store_free_pure(3)], assumption, erule fail,
        rule step(1) [OF store_free_pure(3)], assumption, erule fail, rule final, assumption)
qed

section \<open>Concrete ports\<close>

definition sample_tool :: resolved_tool where
  "sample_tool =
     \<lparr>rt_tenant_id = ''acme'', rt_tool_id = ''tool'', rt_tool_version_id = ''v1'', rt_tool_binding_id = ''b1'',
      rt_upstream_service_id = ''u1'', rt_canonical_name = ''crm.read'', rt_version = 1,
      rt_input_schema = JObj [], rt_output_schema = None, rt_side_effect = READ_ONLY,
      rt_visibility = VIS_AUTHENTICATED, rt_binding_type = BINDING_HTTP, rt_binding_config = JObj [],
      rt_upstream_endpoint = ''https://crm'', rt_upstream_auth_scheme = None\<rparr>"

definition sample_result :: executor_result where
  "sample_result = \<lparr>es_data = JNull, es_content_type = None, es_upstream_status = Some 200\<rparr>"

definition sample_ports :: "policy_effect \<Rightarrow> unit call_ports" where
  "sample_ports effect =
     \<lparr>resolve_principal = (\<lambda>cx. lift (context_resolve cx)),
      resolve_tool = (\<lambda>_ _. ret (Some sample_tool)), validate_arguments = (\<lambda>_ _. Inr ()),
      evaluate_policy = (\<lambda>_. ret \<lparr>pd_effect = effect, pd_policy_version = ''p1'', pd_reason_code = ''rule''\<rparr>),
      execute_tool = (\<lambda>_ _. ret sample_result), credential_binding_resolver = None,
      credential_provider = None, approval_ttl = Some 100, validate_endpoint = (\<lambda>_. ret ()),
      call_timeout_seconds = 5\<rparr>"

definition sample_call :: call_tool_command where
  "sample_call =
     \<lparr>ca_context = sample_context, ca_tool_name = ''crm.read'', ca_arguments = JObj [],
      ca_idempotency_key = None, ca_approval_id = None, ca_mcp_scope_type = SCOPE_ROOT,
      ca_toolset_id = None, ca_toolset_revision = None\<rparr>"

lemma sample_ports_safe: "safe_ports (sample_ports e)"
  by (simp add: safe_ports_def sample_ports_def safe_intros)

lemma sample_ports_store_free: "admission_store_free (sample_ports e)"
  by (simp add: admission_store_free_def sample_ports_def)

lemma sample_ports_effect: "returns (\<lambda>d. pd_effect d = e) (evaluate_policy (sample_ports e) i)"
  by (simp add: returns_def sample_ports_def wp_rules)

lemma sample_start_ledger: "ledger_ok (db sample_start)"
  by (simp add: sample_start_def ledger_ok_empty)

section \<open>One call\<close>





text \<open>A call that needs an approval and brings none never executes: it fails, whatever the executor
  and the credential provider are, and leaves executions and attempts as they were; what it may leave
  is a pending approval request, and an audit event that belongs to no execution.\<close>

theorem unapproved_call_never_executes:
  assumes "\<forall>i. returns (\<lambda>d. pd_effect d = REQUIRE_APPROVAL) (evaluate_policy p i)" and "admission_store_free p"
    and "approvals_ok (approvals (db s))" and "ca_approval_id c = None" and "call_tool sha p c s = (r, s')"
  shows "(\<exists>e. r = Inl e) \<and>
     call_tool sha (p\<lparr>execute_tool := x, credential_provider := map_option (\<lambda>_. y) (credential_provider p)\<rparr>) c s = (r, s') \<and>
     executions (db s') = executions (db s) \<and> attempts (db s') = attempts (db s) \<and>
     (\<exists>new. audits (db s') = audits (db s) @ new \<and> (\<forall>(i, ev) \<in> set new. au_execution_id ev = None)) \<and>
     (\<forall>i a. dict_get (approvals (db s)) i = Some a \<longrightarrow> ap_status a \<in> {REJECTED, EXPIRED, CONSUMED} \<longrightarrow>
        dict_get (approvals (db s')) i = Some a)"
proof -
  have dec: "returns (\<lambda>d. pd_effect d = REQUIRE_APPROVAL) (evaluate_policy p i)" for i using assms(1) by blast
  have nr: "never_returns (admit_call sha p c)" by (rule gate_never_admitted [OF dec approval_gate [OF _ assms(4)]])
  let ?Q = "\<lambda>(r :: (internal_principal \<times> resolved_tool \<times> policy_decision \<times> credential_binding option) result) v.
      approval_db_safe (db s) (db v)"
  have gate: "wp (policy_gate sha p c caller tool d) (\<lambda>r v. (\<exists>e. r = Inl e) \<and> ?Q (Inl CancelledError) v) u"
    if "pd_effect d = REQUIRE_APPROVAL" "stays s u" for caller tool d u
  proof -
    have u: "db u = db s" using that(2) by (simp add: stays_def)
    then have ok: "approvals_ok (approvals (db u))" using assms(3) by simp
    note rq = request_approval_safe [OF ok]
    show ?thesis
      using that(1) assms(3,4) unfolding policy_gate_def pass_approval_gate_def
      by (cases "approval_ttl p")
        (auto simp: wp_bind wp_raise approval_db_safe_refl u split: sum.splits intro!: wp_mono [OF rq])
  qed
  have walk: "wp (admit_call sha p c) ?Q s"
  proof (rule admit_call_walk [OF assms(2) dec])
    fix e and v :: "'a gateway"
    assume "stays s v"
    then show "?Q (Inl e) v" using assms(3) by (simp add: stays_def approval_db_safe_refl)
  next
    fix caller tool and d :: policy_decision and v :: "'a gateway"
    assume a: "pd_effect d = REQUIRE_APPROVAL" "stays s v"
    show "wp (seq (policy_gate sha p c caller tool d)
             (seq (validate_endpoint p (rt_upstream_endpoint tool))
             (bind (resolve_credential_binding p (cx_tenant_id (ca_context c)) caller tool) (\<lambda>binding.
              ret (caller, tool, d, binding))))) ?Q v"
      unfolding wp_seq [of "policy_gate sha p c caller tool d"]
      by (rule wp_mono [OF gate [OF a]]) auto
  qed
  obtain ra sa where run: "admit_call sha p c s = (ra, sa)" by fastforce
  then obtain e where ra: "ra = Inl e" using nr unfolding never_returns_def wp_def by (auto dest!: spec [of _ s])
  then have "r = Inl e" "s' = sa" using assms(5) run by (auto simp: call_tool_def bind_def)
  moreover have "approval_db_safe (db s) (db sa)" using wpD [OF walk run] .
  moreover have "call_tool sha (with_execution_ports x y p) c s = (r, s')"
    using not_admitted_ports [OF nr] assms(5) by simp
  moreover have "dict_get (approvals (db sa)) i = Some a"
    if "dict_get (approvals (db s)) i = Some a" "ap_status a \<in> {REJECTED, EXPIRED, CONSUMED}" for i a
    using that \<open>approval_db_safe (db s) (db sa)\<close> approval_star_terminal
    unfolding approval_db_safe_def approvals_evolve_def terminal_approval_def by metis
  ultimately show ?thesis
    using approval_db_more [of "db sa" "db s"] by (auto simp: approval_db_safe_def untied_def split_beta)
qed

theorem unapproved_call_never_executes_witness:
  "\<exists>e s'. call_tool sample_sha (sample_ports REQUIRE_APPROVAL) sample_call sample_start = (Inl e, s') \<and>
     executions (db s') = []"
proof -
  obtain r s' where run: "call_tool sample_sha (sample_ports REQUIRE_APPROVAL) sample_call sample_start = (r, s')"
    by fastforce
  have ok: "approvals_ok (approvals (db sample_start))" using sample_start_ledger by (simp add: ledger_ok_def)
  have d: "\<forall>i. returns (\<lambda>d. pd_effect d = REQUIRE_APPROVAL) (evaluate_policy (sample_ports REQUIRE_APPROVAL) i)"
    using sample_ports_effect by blast
  have n: "ca_approval_id sample_call = None" by (simp add: sample_call_def)
  have "executions (db sample_start) = []" by (simp add: sample_start_def empty_execution_db_def)
  then show ?thesis
    using unapproved_call_never_executes [OF d sample_ports_store_free ok n run,
        where x = "\<lambda>_ _. ret sample_result" and y = "\<lambda>_. raise CancelledError"] run
    by auto
qed

lemma store_free_fresh: "stays s u \<Longrightarrow> audit_ids_fresh s \<Longrightarrow> audit_ids_fresh u"
  by (auto simp: stays_def audit_ids_fresh_def same_ports_def)

text \<open>
  Admission without a REQUIRE_APPROVAL or DENY detour touches no store; on the detours it adds no
  execution.
\<close>

lemma policy_gate_outcome:
  fixes u :: "'x gateway"
  assumes ok: "ledger_ok (db u)"
  shows "wp (policy_gate sha p c caller tool d)
    (\<lambda>r v. (case r of Inr _ \<Rightarrow> v = u | Inl _ \<Rightarrow> executions (db v) = executions (db u))) u"
proof -
  have ap: "approvals_ok (approvals (db u))" using ok by (simp add: ledger_ok_def)
  have same: "executions (db v) = executions (db u)" if "approval_db_safe (db u) (db v)" for v
    using that approval_db_more by (auto simp: approval_db_safe_def)
  have rq: "wp (request_approval ttl q) (\<lambda>r v. executions (db v) = executions (db u)) u" for ttl q
    by (rule wp_mono [OF request_approval_safe [OF ap]]) (simp add: same)
  have rd: "wp (record_call_decision q) (\<lambda>r v. executions (db v) = executions (db u)) u" for q
    by (rule wp_mono [OF record_call_decision_safe [OF ap]]) (simp add: same)
  consider "pd_effect d = DENY" | "pd_effect d = REQUIRE_APPROVAL" | "pd_effect d = ALLOW" by (cases "pd_effect d")
  then show ?thesis
  proof cases
    case 1
    then show ?thesis unfolding policy_gate_def record_policy_decision_def
      by (simp add: wp_seq wp_raise) (rule wp_mono [OF rd], simp add: wp_raise split: sum.splits)
  next
    case 2
    then show ?thesis unfolding policy_gate_def pass_approval_gate_def
      by (cases "ca_approval_id c"; cases "approval_ttl p")
        (auto simp: wp_bind wp_raise wp_ret split: sum.splits intro!: wp_mono [OF rq])
  next
    case 3
    then show ?thesis by (simp add: policy_gate_def wp_ret)
  qed
qed

lemma admit_call_outcome:
  fixes s :: "'x gateway"
  assumes p: "admission_store_free p" and ok: "ledger_ok (db s)"
  shows "wp (admit_call sha p c)
    (\<lambda>r v. (case r of Inr _ \<Rightarrow> stays s v | Inl _ \<Rightarrow> executions (db v) = executions (db s))) s"
proof (rule admit_call_walk [OF p, where P = "\<lambda>_. True"])
  show "returns (\<lambda>_. True) (evaluate_policy p i)" for i by (simp add: returns_def wp_def split: prod.splits)
  show "case Inl e of Inr _ \<Rightarrow> stays s v | Inl _ \<Rightarrow> executions (db v) = executions (db s)" if "stays s v" for e and v :: "'x gateway"
    using that by (simp add: stays_def)
next
  fix caller tool and d :: policy_decision and v :: "'x gateway"
  assume v: "stays s v"
  let ?Q = "\<lambda>r v. (case r of Inr _ \<Rightarrow> stays s v | Inl _ \<Rightarrow> executions (db v) = executions (db s))"
  have okv: "ledger_ok (db v)" using v ok by (simp add: stays_def)
  have sf: "store_free (validate_endpoint p e)" for e using p by (simp add: admission_store_free_def)
  have sb: "store_free (resolve_credential_binding p t caller tool)" for t
  proof -
    have b: "store_free (bind m (\<lambda>binding. case binding of None \<Rightarrow> raise x | Some b \<Rightarrow> ret (Some b)))"
      if "store_free m" for m :: "('x gateway, credential_binding option) prog" and x
      by (rule store_free_bind [OF that]) (simp split: option.splits)
    show ?thesis using p
      by (auto simp: resolve_credential_binding_def admission_store_free_def Let_def intro!: b split: option.splits)
  qed
  have rest: "wp (seq (validate_endpoint p (rt_upstream_endpoint tool))
             (bind (resolve_credential_binding p (cx_tenant_id (ca_context c)) caller tool) (\<lambda>binding.
              ret (caller, tool, d, binding)))) ?Q v"
    by (rule wp_seq_stays [OF sf v], simp add: stays_def, rule wp_bind_stays [OF sb], assumption, simp add: stays_def,
        simp add: wp_ret)
  show "wp (seq (policy_gate sha p c caller tool d)
             (seq (validate_endpoint p (rt_upstream_endpoint tool))
             (bind (resolve_credential_binding p (cx_tenant_id (ca_context c)) caller tool) (\<lambda>binding.
              ret (caller, tool, d, binding))))) ?Q v"
    unfolding wp_seq [of "policy_gate sha p c caller tool d"]
  proof (rule wp_mono [OF policy_gate_outcome [OF okv]], goal_cases)
    case (1 r w)
    then show ?case using rest v by (cases r) (simp_all add: stays_def)
  qed
qed


lemma sample_executor_ok: "executor_ok t k (sample_ports e) c tool"
  by (simp add: executor_ok_def sample_ports_def)

lemma sample_provider_ok: "provider_ok t k (sample_ports e)"
  by (simp add: provider_ok_def sample_ports_def)

lemma sample_start_ids: "audit_ids_fresh sample_start"
  by (simp add: audit_ids_fresh_def sample_start_def empty_execution_db_def sample_ids_good)


text \<open>C40: cancelling a call while its secret is being resolved is the one way to strand it: the
  cancellation passes through without any transaction, so the execution that was just planned stays
  as it is, running.\<close>

theorem cancelled_secret_strands_execution:
  assumes "credential_provider p = Some resolve" and "resolve (cb_secret_reference b) s = (Inl CancelledError, s')"
  shows "run_planned p c tool (Some b) k s = (Inl CancelledError, s')"
  using assms by (simp add: run_planned_def secret_or_fail_def resolve_secret_def bind_def catch_def raise_def)

definition sample_binding :: credential_binding where
  "sample_binding =
     \<lparr>cb_id = ''c1'', cb_tenant_id = ''acme'', cb_subject_type = CREDENTIAL_TENANT, cb_subject_id = None,
      cb_tool_id = None, cb_upstream_service_id = ''u1'',
      cb_secret_reference = \<lparr>sr_provider = ''environment'', sr_reference = ''CRM'', sr_version = None\<rparr>,
      cb_injection_location = INJECT_HEADER, cb_injection_name = ''Authorization'',
      cb_value_format = FORMAT_BEARER, cb_status = CREDENTIAL_ACTIVE\<rparr>"

theorem cancelled_secret_strands_execution_witness:
  "\<exists>e. dict_get (executions (db (snd (run_planned
       (sample_ports ALLOW\<lparr>credential_provider := Some (\<lambda>_. raise CancelledError)\<rparr>)
       sample_call sample_tool (Some sample_binding) (sample_ids 3) sample_planned)))) (sample_ids 3) = Some e \<and>
     ex_status e = EX_RUNNING"
proof -
  let ?p = "sample_ports ALLOW\<lparr>credential_provider := Some (\<lambda>_. raise CancelledError)\<rparr>"
  have "run_planned ?p sample_call sample_tool (Some sample_binding) (sample_ids 3) sample_planned =
      (Inl CancelledError, sample_planned)"
    by (rule cancelled_secret_strands_execution) (simp_all add: raise_def)
  then show ?thesis using sample_execution by auto
qed

section \<open>Retries\<close>

text \<open>When a failed attempt may be repeated: only after a transport failure or an unknown outcome,
  and only for a read or for an idempotent write that carries a key; a write that may have happened
  and cannot be repeated asks for reconciliation.\<close>

lemma retry_only_when_repeatable:
  "(retry_disposition side_effect category has_key = RETRY \<longleftrightarrow>
      category \<in> {TIMEOUT_BEFORE_SEND, TIMEOUT_AFTER_SEND, NETWORK, UPSTREAM_5XX, CATEGORY_UNKNOWN} \<and>
      (side_effect = READ_ONLY \<or> side_effect = IDEMPOTENT_WRITE \<and> has_key)) \<and>
   (retry_disposition side_effect category has_key = REQUIRE_RECONCILIATION \<longleftrightarrow>
      category \<in> {TIMEOUT_AFTER_SEND, CATEGORY_UNKNOWN} \<and>
      side_effect \<in> {NON_IDEMPOTENT_WRITE, SIDE_EFFECT_UNKNOWN})"
  by (cases side_effect; cases category) (auto simp: retry_disposition_def)


definition sample_failure :: executor_failure where
  "sample_failure =
     \<lparr>ef_code = ''upstream_503'', ef_category = UPSTREAM_5XX, ef_outcome_unknown = False, ef_upstream_status = Some 503\<rparr>"

definition sample_executor_request :: executor_request where
  "sample_executor_request = call_request (sample_ports ALLOW) sample_call sample_tool (sample_ids 3)"


end
