(* ===== verification/Urls.thy ===== *)
theory Urls
  imports Errors
begin

text \<open>
  What the gateway uses of Python's \<open>urllib.parse\<close> and \<open>ipaddress\<close> (Python 3.12, which the
  project pins), on the Latin-1 strings of the model: \<open>urlsplit\<close> with its components, and the
  parsing of IP addresses. Both raise \<open>ValueError\<close> on malformed input.

  \<open>urlsplit\<close> rejects a netloc whose NFKC form contains one of \<open>/?#@:\<close>; no Latin-1 character
  decomposes into one of these, so on the strings of the model that check never fires.
\<close>

section \<open>IP addresses\<close>

datatype ip_address = IPv4 int | IPv6 int

primrec ip_int :: "ip_address \<Rightarrow> int" where
  "ip_int (IPv4 n) = n"
| "ip_int (IPv6 n) = n"

primrec ip_version :: "ip_address \<Rightarrow> nat" where
  "ip_version (IPv4 n) = 4"
| "ip_version (IPv6 n) = 6"

primrec ip_bits :: "ip_address \<Rightarrow> nat" where
  "ip_bits (IPv4 n) = 32"
| "ip_bits (IPv6 n) = 128"

definition split_on :: "char \<Rightarrow> string \<Rightarrow> string list" where
  "split_on c s = foldr (\<lambda>x acc. if x = c then [] # acc else (x # hd acc) # tl acc) s [[]]"

definition ascii_digit :: "char \<Rightarrow> bool" where
  "ascii_digit c \<longleftrightarrow> c \<in> set ''0123456789''"

definition digit_value :: "char \<Rightarrow> int" where
  "digit_value c =
     (let n = of_char c :: int in if 97 \<le> n then n - 87 else if 65 \<le> n then n - 55 else n - 48)"

definition int_base :: "int \<Rightarrow> string \<Rightarrow> int" where
  "int_base b s = foldl (\<lambda>n c. n * b + digit_value c) 0 s"

definition parse_octet :: "string \<Rightarrow> int option" where
  "parse_octet s =
     (if s = [] \<or> \<not> list_all ascii_digit s \<or> 3 < length s \<or> (s \<noteq> ''0'' \<and> hd s = CHR ''0'')
         \<or> 255 < int_base 10 s
      then None else Some (int_base 10 s))"

definition parse_ipv4 :: "string \<Rightarrow> int option" where
  "parse_ipv4 s =
     (let octets = map parse_octet (split_on (CHR ''.'') s)
      in if length octets \<noteq> 4 \<or> None \<in> set octets then None
         else Some (foldl (\<lambda>n x. n * 256 + the x) 0 octets))"

definition parse_hextet :: "string \<Rightarrow> int option" where
  "parse_hextet s =
     (if s = [] \<or> \<not> list_all (\<lambda>c. c \<in> set ''0123456789abcdefABCDEF'') s \<or> 4 < length s then None
      else Some (int_base 16 s))"

text \<open>
  \<open>IPv6Address._ip_int_from_string\<close>. A trailing IPv4 part stands for two hextets; the code prints
  them and reads them back, the model keeps them as numbers.
\<close>

definition ipv6_parts :: "string list \<Rightarrow> (string \<times> int option) list option" where
  "ipv6_parts parts =
     (if CHR ''.'' \<notin> set (last parts) then Some (map (\<lambda>p. (p, parse_hextet p)) parts)
      else case parse_ipv4 (last parts) of
        None \<Rightarrow> None
      | Some v \<Rightarrow> Some (map (\<lambda>p. (p, parse_hextet p)) (butlast parts) @
                     [(''v4'', Some (v div 65536)), (''v4'', Some (v mod 65536))]))"

definition hextets_value :: "int option list \<Rightarrow> int option" where
  "hextets_value hs = (if None \<in> set hs then None else Some (foldl (\<lambda>n h. n * 65536 + the h) 0 hs))"

definition ipv6_value :: "(string \<times> int option) list \<Rightarrow> int option" where
  "ipv6_value parts =
     (let n = length parts;
          skips = filter (\<lambda>i. fst (parts ! i) = []) [1 ..< n - 1]
      in if 9 < n \<or> 1 < length skips then None
         else if skips \<noteq> [] then
           (let k = hd skips;
                lead = fst (hd parts) = [];
                trail = fst (last parts) = [];
                hi = (if lead then k - 1 else k);
                lo = (if trail then n - k - 2 else n - k - 1)
            in if lead \<and> hi \<noteq> 0 \<or> trail \<and> lo \<noteq> 0 \<or> 8 \<le> hi + lo then None
               else hextets_value (map snd (take hi parts) @ replicate (8 - (hi + lo)) (Some 0) @
                                   map snd (drop (n - lo) parts)))
         else if n \<noteq> 8 \<or> fst (hd parts) = [] \<or> fst (last parts) = [] then None
         else hextets_value (map snd parts))"

definition parse_ipv6 :: "string \<Rightarrow> int option" where
  "parse_ipv6 s =
     (let (addr, sep, scope) = py_partition (CHR ''%'') s
      in if CHR ''/'' \<in> set s \<or> sep \<and> (scope = [] \<or> CHR ''%'' \<in> set scope) \<or> addr = []
            \<or> length (split_on (CHR '':'') addr) < 3
         then None
         else case ipv6_parts (split_on (CHR '':'') addr) of None \<Rightarrow> None | Some ps \<Rightarrow> ipv6_value ps)"

definition parse_ip :: "string \<Rightarrow> ip_address option" where
  "parse_ip s =
     (case parse_ipv4 s of
        Some n \<Rightarrow> Some (IPv4 n)
      | None \<Rightarrow> (case parse_ipv6 s of Some n \<Rightarrow> Some (IPv6 n) | None \<Rightarrow> None))"

text \<open>A network is a base address and a prefix length; membership compares the leading bits.\<close>

type_synonym ip_network = "ip_address \<times> nat"

definition in_network :: "ip_address \<Rightarrow> ip_network \<Rightarrow> bool" where
  "in_network a net \<longleftrightarrow>
     ip_version a = ip_version (fst net) \<and>
     ip_int a div 2 ^ (ip_bits a - snd net) = ip_int (fst net) div 2 ^ (ip_bits a - snd net)"

section \<open>URLs\<close>

record split_url =
  url_scheme :: string
  url_netloc :: string
  url_path :: string
  url_query :: string
  url_fragment :: string

definition py_rpartition :: "char \<Rightarrow> string \<Rightarrow> string \<times> bool \<times> string" where
  "py_rpartition c s =
     (let r = rev s
      in if c \<in> set s
         then (rev (tl (dropWhile (\<lambda>x. x \<noteq> c) r)), True, rev (takeWhile (\<lambda>x. x \<noteq> c) r))
         else ([], False, s))"

definition ascii_alpha :: "char \<Rightarrow> bool" where
  "ascii_alpha c \<longleftrightarrow> (let n = of_char c :: nat in (65 \<le> n \<and> n \<le> 90) \<or> (97 \<le> n \<and> n \<le> 122))"

definition scheme_char :: "char \<Rightarrow> bool" where
  "scheme_char c \<longleftrightarrow> ascii_alpha c \<or> ascii_digit c \<or> c \<in> set ''+-.''"

definition split_scheme :: "string \<Rightarrow> string \<times> string" where
  "split_scheme url =
     (case py_partition (CHR '':'') url of
        (head, found, rest) \<Rightarrow>
          if found \<and> head \<noteq> [] \<and> ascii_alpha (hd head) \<and> list_all scheme_char head
          then (py_lower head, rest) else ([], url))"

definition hex_digit :: "char \<Rightarrow> bool" where
  "hex_digit c \<longleftrightarrow> c \<in> set ''0123456789abcdefABCDEF''"

text \<open>\<open>re.match(r"\Av[a-fA-F0-9]+\..+\Z", host)\<close>; \<open>.\<close> does not match a line feed.\<close>

definition ip_future :: "string \<Rightarrow> bool" where
  "ip_future h \<longleftrightarrow>
     starts_with h ''v'' \<and>
     (case py_partition (CHR ''.'') (tl h) of
        (digits, found, rest) \<Rightarrow>
          found \<and> digits \<noteq> [] \<and> list_all hex_digit digits \<and> rest \<noteq> [] \<and> CHR 0x0A \<notin> set rest)"

definition bracketed_host_ok :: "string \<Rightarrow> bool" where
  "bracketed_host_ok h =
     (if starts_with h ''v'' then ip_future h
      else case parse_ip h of Some (IPv6 _) \<Rightarrow> True | _ \<Rightarrow> False)"

definition netloc_ok :: "string \<Rightarrow> bool" where
  "netloc_ok netloc \<longleftrightarrow>
     (CHR ''['' \<in> set netloc \<longleftrightarrow> CHR '']'' \<in> set netloc) \<and>
     (CHR ''['' \<in> set netloc \<longrightarrow>
        bracketed_host_ok (fst (py_partition (CHR '']'') (snd (snd (py_partition (CHR ''['') netloc))))))"

definition urlsplit :: "string \<Rightarrow> split_url result" where
  "urlsplit raw =
     (let url0 = filter (\<lambda>c. c \<notin> {CHR 0x09, CHR 0x0A, CHR 0x0D})
                   (dropWhile (\<lambda>c. (of_char c :: nat) \<le> 32) raw);
          (scheme, url1) = split_scheme url0;
          has_netloc = starts_with url1 ''//'';
          stop = (\<lambda>c. c \<notin> set ''/?#'');
          netloc = (if has_netloc then takeWhile stop (drop 2 url1) else []);
          url2 = (if has_netloc then dropWhile stop (drop 2 url1) else url1);
          (url3, _, fragment) = py_partition (CHR ''#'') url2;
          (path, _, query) = py_partition (CHR ''?'') url3
      in if \<not> netloc_ok netloc then Inl (ValueError ''Invalid IPv6 URL'')
         else Inr \<lparr>url_scheme = scheme, url_netloc = netloc, url_path = path,
                   url_query = query, url_fragment = fragment\<rparr>)"

definition url_userinfo :: "split_url \<Rightarrow> (string option \<times> string option)" where
  "url_userinfo u =
     (case py_rpartition (CHR ''@'') (url_netloc u) of
        (info, found, _) \<Rightarrow>
          if \<not> found then (None, None)
          else case py_partition (CHR '':'') info of
            (name, has_password, password) \<Rightarrow> (Some name, if has_password then Some password else None))"

abbreviation url_username :: "split_url \<Rightarrow> string option" where
  "url_username u \<equiv> fst (url_userinfo u)"

abbreviation url_password :: "split_url \<Rightarrow> string option" where
  "url_password u \<equiv> snd (url_userinfo u)"

definition url_hostinfo :: "split_url \<Rightarrow> string \<times> string option" where
  "url_hostinfo u =
     (let hostinfo = snd (snd (py_rpartition (CHR ''@'') (url_netloc u)));
          (_, bracket, bracketed) = py_partition (CHR ''['') hostinfo;
          (host, port) =
            (if bracket
             then (case py_partition (CHR '']'') bracketed of
                     (h, _, rest) \<Rightarrow> (h, snd (snd (py_partition (CHR '':'') rest))))
             else (case py_partition (CHR '':'') hostinfo of (h, _, p) \<Rightarrow> (h, p)))
      in (host, if port = [] then None else Some port))"

definition url_hostname :: "split_url \<Rightarrow> string option" where
  "url_hostname u =
     (let host = fst (url_hostinfo u);
          (name, percent, zone) = py_partition (CHR ''%'') host
      in if host = [] then None
         else Some (py_lower name @ (if percent then CHR ''%'' # zone else [])))"

definition url_port :: "split_url \<Rightarrow> int option result" where
  "url_port u =
     (case snd (url_hostinfo u) of
        None \<Rightarrow> Inr None
      | Some p \<Rightarrow>
          if \<not> list_all ascii_digit p then Inl (ValueError ''Port could not be cast to integer value'')
          else if 65535 < int_base 10 p then Inl (ValueError ''Port out of range 0-65535'')
          else Inr (Some (int_base 10 p)))"

end
