(* ===== verification/Registry.thy ===== *)
theory Registry
  imports Urls Identity Catalog_Domain Connectors "HOL-Library.Product_Lexorder"
begin

text \<open>
  The registry of upstream services: the entity (\<open>registry/domain.py\<close>), its in-memory repository
  (\<open>registry/adapters/in_memory.py\<close>) and the use cases that register, update, disable and list
  upstreams (\<open>registry/use_cases.py\<close>). The endpoint policy (\<open>registry/egress_ports.py\<close>) is a port:
  a program the use cases run between their checks and their write. It may take time, so the
  stores may have moved on when it returns; \<open>Registry_Correct\<close> says how far.
\<close>

section \<open>Domain\<close>

datatype upstream_service_type = UPSTREAM_HTTP | UPSTREAM_REMOTE_MCP

datatype upstream_status = UPSTREAM_DRAFT | UPSTREAM_ACTIVE | UPSTREAM_DISABLED

record upstream_service =
  us_id :: string
  us_tenant_id :: string
  us_namespace :: string
  us_name :: string
  us_description :: "string option"
  us_owner :: string
  us_service_type :: upstream_service_type
  us_transport_type :: string
  us_endpoint :: string
  us_protocol_min :: "string option"
  us_protocol_max :: "string option"
  us_auth_scheme :: "string option"
  us_config :: json
  us_status :: upstream_status

definition upstream_post_init :: "upstream_service \<Rightarrow> upstream_service result" where
  "upstream_post_init u = validated
     (non_blank_checks
        [(''upstream service id'', us_id u), (''tenant id'', us_tenant_id u),
         (''upstream namespace'', us_namespace u), (''upstream name'', us_name u),
         (''upstream owner'', us_owner u), (''upstream transport type'', us_transport_type u),
         (''upstream endpoint'', us_endpoint u)]) u"

definition upstream_update ::
  "upstream_service \<Rightarrow> string option \<Rightarrow> string \<Rightarrow> string \<Rightarrow> string option \<Rightarrow> json \<Rightarrow> upstream_service result" where
  "upstream_update u description owner endpoint auth_scheme config =
     upstream_post_init (u\<lparr>us_description := description, us_owner := owner, us_endpoint := endpoint,
                           us_auth_scheme := auth_scheme, us_config := config\<rparr>)"

definition upstream_disable :: "upstream_service \<Rightarrow> upstream_service result" where
  "upstream_disable u =
     (if us_status u = UPSTREAM_DISABLED then Inr u
      else upstream_post_init (u\<lparr>us_status := UPSTREAM_DISABLED\<rparr>))"

section \<open>Repository\<close>

type_synonym upstream_store = "(string, upstream_service) dict"

definition upstream_get_by_name :: "string \<Rightarrow> string \<Rightarrow> string \<Rightarrow> upstream_store \<Rightarrow> upstream_service option" where
  "upstream_get_by_name tenant_id namespace name d =
     List.find (\<lambda>u. us_tenant_id u = tenant_id \<and> us_namespace u = namespace \<and> us_name u = name)
       (dict_values d)"

definition upstream_add :: "string \<Rightarrow> upstream_service \<Rightarrow> upstream_store \<Rightarrow> upstream_store result" where
  "upstream_add tenant_id u d =
     (if tenant_id \<noteq> us_tenant_id u then Inl tenant_mismatch
      else if dict_get d (us_id u) \<noteq> None then Inl (ValueError ''upstream service id already exists'')
      else if upstream_get_by_name tenant_id (us_namespace u) (us_name u) d \<noteq> None
        then Inl (ValueError ''upstream service name already exists in namespace'')
      else Inr (dict_set (us_id u) u d))"

definition upstream_save :: "string \<Rightarrow> upstream_service \<Rightarrow> upstream_store \<Rightarrow> upstream_store result" where
  "upstream_save tenant_id u d =
     (if tenant_id \<noteq> us_tenant_id u then Inl tenant_mismatch
      else case dict_get d (us_id u) of
        None \<Rightarrow> Inl (ValueError ''upstream service does not exist in tenant'')
      | Some current \<Rightarrow>
          if us_tenant_id current \<noteq> tenant_id
          then Inl (ValueError ''upstream service does not exist in tenant'')
          else Inr (dict_set (us_id u) u d))"

definition upstream_get :: "string \<Rightarrow> string \<Rightarrow> upstream_store \<Rightarrow> upstream_service option" where
  "upstream_get tenant_id upstream_service_id d = scoped_get us_tenant_id tenant_id upstream_service_id d"

definition upstream_list_by_tenant :: "string \<Rightarrow> upstream_store \<Rightarrow> upstream_service list" where
  "upstream_list_by_tenant tenant_id d =
     sort_key (\<lambda>u. (us_namespace u, us_name u)) [u \<leftarrow> dict_values d. us_tenant_id u = tenant_id]"

interpretation upstream_repo: keyed_repository us_id us_tenant_id upstream_add upstream_save
  by unfold_locales (auto simp: upstream_add_def upstream_save_def split: if_splits option.splits)

section \<open>Validation of a registration\<close>

definition SENSITIVE_CONFIG_KEYS :: "string list" where
  "SENSITIVE_CONFIG_KEYS =
     [''access_token'', ''api_key'', ''authorization'', ''authorization_header'', ''client_secret'',
      ''cookie'', ''credential'', ''password'', ''private_key'', ''refresh_token'', ''secret'', ''token'']"

definition normalized_config_key :: "string \<Rightarrow> string" where
  "normalized_config_key key = py_replace_char (CHR ''-'') (CHR ''_'') (py_lower (py_strip key))"

primrec contains_sensitive_key :: "json \<Rightarrow> bool" where
  "contains_sensitive_key JNull = False"
| "contains_sensitive_key (JBool b) = False"
| "contains_sensitive_key (JInt i) = False"
| "contains_sensitive_key (JStr s) = False"
| "contains_sensitive_key (JList vs) = list_ex id (map contains_sensitive_key vs)"
| "contains_sensitive_key (JObj kvs) =
     list_ex (\<lambda>(key, nested). normalized_config_key key \<in> set SENSITIVE_CONFIG_KEYS \<or> nested)
       (map (map_prod id contains_sensitive_key) kvs)"

definition invalid_arguments :: exn where
  "invalid_arguments = NexusError InvalidArgumentsError"

text \<open>\<open>re.compile(r"^[a-z][a-z0-9_]{0,63}$").fullmatch\<close>\<close>

definition namespace_pattern :: "string \<Rightarrow> bool" where
  "namespace_pattern ns \<longleftrightarrow>
     ns \<noteq> [] \<and> hd ns \<in> set ''abcdefghijklmnopqrstuvwxyz'' \<and>
     list_all (\<lambda>c. c \<in> set ''abcdefghijklmnopqrstuvwxyz0123456789_'') (tl ns) \<and> length (tl ns) \<le> 63"

definition validate_namespace :: "string \<Rightarrow> unit result" where
  "validate_namespace ns =
     (if \<not> namespace_pattern ns then Inl invalid_arguments
      else if is_reserved_tool_namespace ns then Inl invalid_arguments
      else Inr ())"

definition validate_http_endpoint :: "string \<Rightarrow> unit result" where
  "validate_http_endpoint endpoint =
     result_bind (urlsplit endpoint) (\<lambda>parsed.
       if url_scheme parsed \<notin> {''http'', ''https''} \<or> url_netloc parsed = [] then Inl invalid_arguments
       else if url_username parsed \<noteq> None \<or> url_password parsed \<noteq> None then Inl invalid_arguments
       else Inr ())"

definition validate_registration ::
  "string \<Rightarrow> string \<Rightarrow> json \<Rightarrow> upstream_service_type \<Rightarrow> unit result" where
  "validate_registration owner endpoint config service_type =
     (if blank owner then Inl invalid_arguments
      else if blank endpoint then Inl invalid_arguments
      else result_bind (if service_type = UPSTREAM_HTTP then validate_http_endpoint endpoint else Inr ())
        (\<lambda>_. if contains_sensitive_key config then Inl invalid_arguments else Inr ()))"

section \<open>Use cases\<close>

record register_upstream_command =
  ru_context :: actor_context
  ru_namespace :: string
  ru_name :: string
  ru_description :: "string option"
  ru_owner :: string
  ru_endpoint :: string
  ru_auth_scheme :: "string option"
  ru_config :: json
  ru_service_type :: upstream_service_type
  ru_transport_type :: string

record update_upstream_command =
  uu_context :: actor_context
  uu_upstream_service_id :: string
  uu_description :: "string option"
  uu_owner :: string
  uu_endpoint :: string
  uu_auth_scheme :: "string option"
  uu_config :: json

record disable_upstream_command =
  du_context :: actor_context
  du_upstream_service_id :: string

type_synonym ('t, 'st) endpoint_policy = "string \<Rightarrow> (('t, 'st) sys, unit) prog"

definition allow_all_endpoints :: "('t, 'st) endpoint_policy" where
  "allow_all_endpoints endpoint = ret ()"

definition registered_upstream :: "register_upstream_command \<Rightarrow> string \<Rightarrow> upstream_service" where
  "registered_upstream command fresh =
     \<lparr>us_id = fresh, us_tenant_id = cx_tenant_id (ru_context command), us_namespace = ru_namespace command,
      us_name = ru_name command, us_description = ru_description command, us_owner = ru_owner command,
      us_service_type = ru_service_type command, us_transport_type = ru_transport_type command,
      us_endpoint = ru_endpoint command, us_protocol_min = None, us_protocol_max = None,
      us_auth_scheme = ru_auth_scheme command, us_config = ru_config command,
      us_status = UPSTREAM_ACTIVE\<rparr>"

definition register_upstream ::
  "('t, upstream_store) endpoint_policy \<Rightarrow> register_upstream_command \<Rightarrow>
   (('t, upstream_store) sys, upstream_service) prog" where
  "register_upstream endpoint_policy command =
     seq (lift (validate_namespace (ru_namespace command)))
    (seq (raise_if (blank (ru_name command)) invalid_arguments)
    (seq (raise_if (blank (ru_transport_type command)) invalid_arguments)
    (seq (lift (validate_registration (ru_owner command) (ru_endpoint command) (ru_config command)
                  (ru_service_type command)))
    (seq (endpoint_policy (ru_endpoint command))
      (with_uow
        (bind (query (upstream_get_by_name (cx_tenant_id (ru_context command)) (ru_namespace command)
                        (ru_name command))) (\<lambda>existing.
         seq (raise_if (existing \<noteq> None) (NexusError UpstreamConflictError))
        (bind new_id (\<lambda>fresh.
         bind (lift (upstream_post_init (registered_upstream command fresh))) (\<lambda>upstream.
         seq (update (upstream_add (cx_tenant_id (ru_context command)) upstream))
        (seq commit
          (ret upstream))))))))))))"

definition update_upstream ::
  "('t, upstream_store) endpoint_policy \<Rightarrow> update_upstream_command \<Rightarrow>
   (('t, upstream_store) sys, upstream_service) prog" where
  "update_upstream endpoint_policy command =
    (let tenant_id = cx_tenant_id (uu_context command) in
     bind (with_uow (query (upstream_get tenant_id (uu_upstream_service_id command)))) (\<lambda>found.
     bind (require_some found (NexusError UpstreamNotFoundError)) (\<lambda>observed.
     seq (lift (validate_registration (uu_owner command) (uu_endpoint command) (uu_config command)
                  (us_service_type observed)))
    (seq (endpoint_policy (uu_endpoint command))
      (with_uow
        (bind (query (upstream_get tenant_id (uu_upstream_service_id command))) (\<lambda>locked.
         bind (require_some locked (NexusError UpstreamNotFoundError)) (\<lambda>upstream.
         bind (lift (upstream_update upstream (uu_description command) (uu_owner command)
                       (uu_endpoint command) (uu_auth_scheme command) (uu_config command))) (\<lambda>updated.
         seq (update (upstream_save tenant_id updated))
        (seq commit
          (ret updated)))))))))))"

definition disable_upstream ::
  "disable_upstream_command \<Rightarrow> (('t, upstream_store) sys, upstream_service) prog" where
  "disable_upstream command =
    (let tenant_id = cx_tenant_id (du_context command) in
     with_uow
       (bind (query (upstream_get tenant_id (du_upstream_service_id command))) (\<lambda>locked.
        bind (require_some locked (NexusError UpstreamNotFoundError)) (\<lambda>upstream.
        bind (lift (upstream_disable upstream)) (\<lambda>disabled.
        seq (update (upstream_save tenant_id disabled))
       (seq commit
         (ret disabled)))))))"

definition list_upstreams ::
  "actor_context \<Rightarrow> (('t, upstream_store) sys, upstream_service list) prog" where
  "list_upstreams context' = with_uow (query (upstream_list_by_tenant (cx_tenant_id context')))"

end
