(* ===== verification/Catalog_Store.thy ===== *)
theory Catalog_Store
  imports Registry
begin

text \<open>
  The catalog's repository (\<open>catalog/adapters/in_memory.py\<close>): tools, their versions and the
  published projections, with the keyword search over the projections; and the stores one catalog
  unit of work holds (\<open>catalog/adapters/in_memory_uow.py\<close>). The queries over the catalog that serve
  discovery (\<open>catalog/search.py\<close>, \<open>catalog/use_cases.py\<close>) are here too.

  The relevance of a hit is a \<open>float\<close> built from sums of 1, 3, 4 and 100, all exact; the model keeps
  it as an \<open>int\<close>.
\<close>

section \<open>Repository\<close>

record catalog_repository =
  ca_tools :: "(string, tool) dict"
  ca_versions :: "(string, tool_version) dict"
  ca_published :: "(string \<times> string, published_tool) dict"

definition tool_get_by_name :: "string \<Rightarrow> string \<Rightarrow> (string, tool) dict \<Rightarrow> tool option" where
  "tool_get_by_name tenant_id canonical_name d =
     List.find (\<lambda>t. to_tenant_id t = tenant_id \<and> to_canonical_name t = canonical_name) (dict_values d)"

definition tool_add :: "string \<Rightarrow> tool \<Rightarrow> (string, tool) dict \<Rightarrow> (string, tool) dict result" where
  "tool_add tenant_id t d =
     (if tenant_id \<noteq> to_tenant_id t then Inl tenant_mismatch
      else if dict_get d (to_id t) \<noteq> None then Inl (ValueError ''tool id already exists'')
      else if tool_get_by_name tenant_id (to_canonical_name t) d \<noteq> None
        then Inl (ValueError ''tool canonical name already exists in tenant'')
      else Inr (dict_set (to_id t) t d))"

definition tool_save :: "string \<Rightarrow> tool \<Rightarrow> (string, tool) dict \<Rightarrow> (string, tool) dict result" where
  "tool_save tenant_id t d =
     (if tenant_id \<noteq> to_tenant_id t then Inl tenant_mismatch
      else case dict_get d (to_id t) of
        None \<Rightarrow> Inl (ValueError ''tool does not exist in tenant'')
      | Some current \<Rightarrow>
          if to_tenant_id current \<noteq> tenant_id then Inl (ValueError ''tool does not exist in tenant'')
          else case tool_get_by_name tenant_id (to_canonical_name t) d of
            Some name_owner \<Rightarrow>
              if to_id name_owner \<noteq> to_id t
              then Inl (ValueError ''tool canonical name already exists in tenant'')
              else Inr (dict_set (to_id t) t d)
          | None \<Rightarrow> Inr (dict_set (to_id t) t d))"

definition tool_get :: "string \<Rightarrow> string \<Rightarrow> (string, tool) dict \<Rightarrow> tool option" where
  "tool_get tenant_id tool_id d = scoped_get to_tenant_id tenant_id tool_id d"

interpretation tool_repo: keyed_repository to_id to_tenant_id tool_add tool_save
  by unfold_locales (auto simp: tool_add_def tool_save_def split: if_splits option.splits)

definition version_number_exists :: "tool_version \<Rightarrow> (string, tool_version) dict \<Rightarrow> bool" where
  "version_number_exists v d =
     list_ex (\<lambda>c. ve_tool_id c = ve_tool_id v \<and> ve_version c = ve_version v) (dict_values d)"

definition version_add ::
  "string \<Rightarrow> tool_version \<Rightarrow> (string, tool_version) dict \<Rightarrow> (string, tool_version) dict result" where
  "version_add tenant_id v d =
     (if tenant_id \<noteq> ve_tenant_id v then Inl tenant_mismatch
      else if dict_get d (ve_id v) \<noteq> None then Inl (ValueError ''tool version id already exists'')
      else if version_number_exists v d then Inl (ValueError ''tool version number already exists'')
      else Inr (dict_set (ve_id v) v d))"

definition version_save ::
  "string \<Rightarrow> tool_version \<Rightarrow> (string, tool_version) dict \<Rightarrow> (string, tool_version) dict result" where
  "version_save tenant_id v d =
     (if tenant_id \<noteq> ve_tenant_id v then Inl tenant_mismatch
      else case dict_get d (ve_id v) of
        None \<Rightarrow> Inl (ValueError ''tool version does not exist in tenant'')
      | Some current \<Rightarrow>
          if ve_tenant_id current \<noteq> tenant_id
          then Inl (ValueError ''tool version does not exist in tenant'')
          else if list_ex (\<lambda>c. ve_id c \<noteq> ve_id v \<and> ve_tool_id c = ve_tool_id v \<and>
                               ve_version c = ve_version v) (dict_values d)
            then Inl (ValueError ''tool version number already exists'')
          else Inr (dict_set (ve_id v) v d))"

definition version_get :: "string \<Rightarrow> string \<Rightarrow> (string, tool_version) dict \<Rightarrow> tool_version option" where
  "version_get tenant_id tool_version_id d = scoped_get ve_tenant_id tenant_id tool_version_id d"

interpretation version_repo: keyed_repository ve_id ve_tenant_id version_add version_save
  by unfold_locales (auto simp: version_add_def version_save_def split: if_splits option.splits)

definition get_published_version :: "string \<Rightarrow> string \<Rightarrow> (string, tool_version) dict \<Rightarrow> tool_version option" where
  "get_published_version tenant_id tool_id d =
     List.find (\<lambda>v. ve_tenant_id v = tenant_id \<and> ve_tool_id v = tool_id \<and> ve_status v = VERSION_PUBLISHED)
       (dict_values d)"

definition next_version_number :: "string \<Rightarrow> string \<Rightarrow> (string, tool_version) dict \<Rightarrow> int" where
  "next_version_number tenant_id tool_id d =
     (case [ve_version v. v \<leftarrow> dict_values d, ve_tenant_id v = tenant_id \<and> ve_tool_id v = tool_id] of
        [] \<Rightarrow> 0 | n # ns \<Rightarrow> foldl max n ns) + 1"

text \<open>What the constructor re-checks each time a unit of work copies the repository.\<close>

definition catalog_seed_ok :: "catalog_repository \<Rightarrow> bool" where
  "catalog_seed_ok c \<longleftrightarrow>
     distinct (map (\<lambda>t. (to_tenant_id t, to_canonical_name t)) (dict_values (ca_tools c))) \<and>
     distinct (map (\<lambda>v. (ve_tool_id v, ve_version v)) (dict_values (ca_versions c)))"

section \<open>Reading the published projections\<close>

definition list_published_by_tenant :: "string \<Rightarrow> catalog_repository \<Rightarrow> published_tool list" where
  "list_published_by_tenant tenant_id c =
     sort_key pt_canonical_name [p \<leftarrow> dict_values (ca_published c). pt_tenant_id p = tenant_id]"

definition get_published_by_name :: "string \<Rightarrow> string \<Rightarrow> catalog_repository \<Rightarrow> published_tool option" where
  "get_published_by_name tenant_id canonical_name c = dict_get (ca_published c) (tenant_id, canonical_name)"

record search_hit =
  hit_tool :: published_tool
  hit_rank :: int

text \<open>\<open>s.split()\<close>: the maximal runs of non-space characters.\<close>

definition py_split :: "string \<Rightarrow> string list" where
  "py_split s =
     [w \<leftarrow> foldr (\<lambda>x acc. if py_isspace x then [] # acc else (x # hd acc) # tl acc) s [[]]. w \<noteq> []]"

text \<open>\<open>token in text\<close>\<close>

definition occurs_in :: "string \<Rightarrow> string \<Rightarrow> bool" where
  "occurs_in token t = list_ex (\<lambda>i. starts_with (drop i t) token) [0 ..< Suc (length t)]"

definition join_spaces :: "string list \<Rightarrow> string" where
  "join_spaces parts = concat (case parts of [] \<Rightarrow> [] | p # ps \<Rightarrow> p # map (\<lambda>q. '' '' @ q) ps)"

record search_filter =
  sf_visibilities :: "tool_visibility list"
  sf_eligible_tool_ids :: "string list option"
  sf_namespace :: "string option"
  sf_side_effect :: "tool_side_effect option"

definition search_eligible :: "string \<Rightarrow> search_filter \<Rightarrow> published_tool \<Rightarrow> bool" where
  "search_eligible tenant_id f p \<longleftrightarrow>
     \<not> (pt_tenant_id p \<noteq> tenant_id \<or> pt_visibility p \<notin> set (sf_visibilities f)) \<and>
     (case sf_eligible_tool_ids f of None \<Rightarrow> True | Some ids \<Rightarrow> pt_tool_id p \<in> set ids) \<and>
     (case sf_namespace f of None \<Rightarrow> True | Some ns \<Rightarrow> published_namespace p = ns) \<and>
     (case sf_side_effect f of None \<Rightarrow> True | Some e \<Rightarrow> pt_side_effect p = e)"

definition name_text :: "published_tool \<Rightarrow> string" where
  "name_text p = py_lower (pt_canonical_name p @ '' '' @ pt_display_name p)"

definition tag_text :: "published_tool \<Rightarrow> string" where
  "tag_text p = py_lower (join_spaces (pt_tags p))"

definition description_text :: "published_tool \<Rightarrow> string" where
  "description_text p = py_lower (pt_description p)"

definition owner_text :: "published_tool \<Rightarrow> string" where
  "owner_text p = py_lower (case pt_owner p of None \<Rightarrow> [] | Some ow \<Rightarrow> ow)"

definition searchable_text :: "published_tool \<Rightarrow> string" where
  "searchable_text p = join_spaces [name_text p, tag_text p, description_text p, owner_text p]"

definition search_matches :: "string list \<Rightarrow> published_tool \<Rightarrow> bool" where
  "search_matches tokens p \<longleftrightarrow> tokens \<noteq> [] \<and> list_all (\<lambda>w. occurs_in w (searchable_text p)) tokens"

definition token_rank :: "published_tool \<Rightarrow> string \<Rightarrow> int" where
  "token_rank p w =
     4 * of_bool (occurs_in w (name_text p)) + 3 * of_bool (occurs_in w (tag_text p)) +
     1 * of_bool (occurs_in w (description_text p)) + 1 * of_bool (occurs_in w (owner_text p))"

definition search_rank :: "string \<Rightarrow> string list \<Rightarrow> published_tool \<Rightarrow> int" where
  "search_rank query_text tokens p =
     sum_list (map (token_rank p) tokens) +
     (if py_lower query_text = py_lower (pt_canonical_name p) then 100 else 0)"

definition search_published ::
  "string \<Rightarrow> string \<Rightarrow> search_filter \<Rightarrow> nat \<Rightarrow> catalog_repository \<Rightarrow> search_hit list" where
  "search_published tenant_id query_text f limit c =
     (let tokens = py_split (py_lower query_text);
          hits = map (\<lambda>p. \<lparr>hit_tool = p, hit_rank = search_rank query_text tokens p\<rparr>)
            [p \<leftarrow> dict_values (ca_published c). search_eligible tenant_id f p \<and> search_matches tokens p]
      in take limit (sort_key (\<lambda>h. (- hit_rank h, pt_canonical_name (hit_tool h))) hits))"

section \<open>Discovery queries\<close>

record search_tools_query =
  sq_context :: actor_context
  sq_text :: string
  sq_limit :: int
  sq_namespace :: "string option"
  sq_side_effect :: "tool_side_effect option"
  sq_eligible_tool_ids :: "string list option"

definition search_visibilities :: "string \<Rightarrow> tool_visibility list" where
  "search_visibilities principal_id =
     (if principal_id \<noteq> ANONYMOUS_PRINCIPAL_ID then [VIS_PUBLIC, VIS_AUTHENTICATED] else [VIS_PUBLIC])"

definition search_published_tools :: "search_tools_query \<Rightarrow> catalog_repository \<Rightarrow> search_hit list result" where
  "search_published_tools q c =
     (let query_text = py_strip (sq_text q); namespace = map_option py_strip (sq_namespace q)
      in if query_text = [] then Inl invalid_arguments
         else if 200 < length query_text then Inl invalid_arguments
         else if \<not> (1 \<le> sq_limit q \<and> sq_limit q \<le> 50) then Inl invalid_arguments
         else if namespace = Some [] then Inl invalid_arguments
         else Inr (search_published (cx_tenant_id (sq_context q)) query_text
           \<lparr>sf_visibilities = search_visibilities (cx_principal_id (sq_context q)),
            sf_eligible_tool_ids = sq_eligible_tool_ids q, sf_namespace = namespace,
            sf_side_effect = sq_side_effect q\<rparr> (nat (sq_limit q)) c))"

definition list_visible_tools :: "request_context \<Rightarrow> catalog_repository \<Rightarrow> published_tool list" where
  "list_visible_tools context' c =
     sort_key pt_canonical_name
       [p \<leftarrow> list_published_by_tenant (cx_tenant_id context') c. is_visible_to p (cx_principal_id context')]"

section \<open>Unit of work\<close>

record catalog_db =
  cd_catalog :: catalog_repository
  cd_bindings :: binding_store
  cd_upstreams :: upstream_store

definition on_tools ::
  "((string, tool) dict \<Rightarrow> (string, tool) dict result) \<Rightarrow> 'x catalog_db_scheme \<Rightarrow> 'x catalog_db_scheme result" where
  "on_tools = on_field (\<lambda>w. ca_tools (cd_catalog w)) (\<lambda>f. cd_catalog_update (ca_tools_update f))"

definition on_versions ::
  "((string, tool_version) dict \<Rightarrow> (string, tool_version) dict result) \<Rightarrow> 'x catalog_db_scheme \<Rightarrow> 'x catalog_db_scheme result" where
  "on_versions = on_field (\<lambda>w. ca_versions (cd_catalog w)) (\<lambda>f. cd_catalog_update (ca_versions_update f))"

definition on_bindings :: "(binding_store \<Rightarrow> binding_store result) \<Rightarrow> 'x catalog_db_scheme \<Rightarrow> 'x catalog_db_scheme result" where
  "on_bindings = on_field cd_bindings cd_bindings_update"

end
