(* ===== verification/Publish.thy ===== *)
theory Publish
  imports Catalog_Store
begin

text \<open>
  Publishing a tool version (\<open>catalog/publish.py\<close>, \<open>catalog/events.py\<close>) and submitting one for review
  (\<open>catalog/review.py\<close>). \<open>publish_tool_in_transaction\<close> switches the published version and its binding
  inside the caller's unit of work and does not commit; the stores are therefore any extension of
  \<open>catalog_db\<close>.
\<close>

record publish_tool_command =
  pc_context :: actor_context
  pc_tool_id :: string
  pc_tool_version_id :: string
  pc_expected_schema_digest :: string
  pc_expected_binding_digest :: string

record tool_published =
  tp_tenant_id :: string
  tp_tool_id :: string
  tp_tool_version_id :: string
  tp_tool_binding_id :: string
  tp_canonical_name :: string
  tp_version :: int
  tp_actor_id :: string
  tp_request_id :: string
  tp_trace_id :: string
  tp_occurred_at :: datetime

record publish_tool_result =
  pres_event :: tool_published
  pres_retired_tool_version_id :: "string option"

record submit_for_review_command =
  sr_context :: actor_context
  sr_tool_version_id :: string

section \<open>The snapshot check\<close>

definition validate_publish_snapshot ::
  "(string \<Rightarrow> string) \<Rightarrow> publish_tool_command \<Rightarrow> tool \<Rightarrow> tool_version \<Rightarrow> tool_binding \<Rightarrow>
   upstream_service \<Rightarrow> unit result" where
  "validate_publish_snapshot sha command t v b u =
     (if {to_tenant_id t, ve_tenant_id v, bi_tenant_id b, us_tenant_id u} \<noteq> {cx_tenant_id (pc_context command)}
        then Inl (NexusError TenantBoundaryViolationError)
      else if ve_tool_id v \<noteq> to_id t \<or> bi_tool_version_id b \<noteq> ve_id v
        then Inl (NexusError InvalidToolStateError)
      else if ve_status v \<noteq> VERSION_REVIEW then Inl (NexusError InvalidToolStateError)
      else if bi_status b \<noteq> BINDING_DRAFT then Inl (NexusError InvalidToolStateError)
      else if us_status u \<noteq> UPSTREAM_ACTIVE then Inl (NexusError UpstreamNotActiveError)
      else if calculate_schema_digest sha (ve_input_schema v) (ve_output_schema v) \<noteq> ve_schema_digest v \<or>
              pc_expected_schema_digest command \<noteq> ve_schema_digest v
        then Inl (NexusError SchemaDigestMismatchError)
      else if calculate_binding_digest sha b \<noteq> bi_binding_digest b \<or>
              pc_expected_binding_digest command \<noteq> bi_binding_digest b
        then Inl (NexusError BindingDigestMismatchError)
      else Inr ())"

section \<open>The switch\<close>

definition versions_of :: "'x catalog_db_scheme \<Rightarrow> (string, tool_version) dict" where
  "versions_of w = ca_versions (cd_catalog w)"

definition tools_of :: "'x catalog_db_scheme \<Rightarrow> (string, tool) dict" where
  "tools_of w = ca_tools (cd_catalog w)"

definition retire_current_version ::
  "string \<Rightarrow> tool \<Rightarrow> tool_version \<Rightarrow> datetime \<Rightarrow> (('t, 'x catalog_db_scheme) tx, string option) prog" where
  "retire_current_version tenant_id t target_version retired_at =
     bind (query (\<lambda>w. get_published_version tenant_id (to_id t) (versions_of w))) (\<lambda>published. case published of
       None \<Rightarrow> ret None
     | Some current \<Rightarrow>
         seq (raise_if (ve_version current \<ge> ve_version target_version) (NexusError PublishConflictError))
        (bind (query (\<lambda>w. version_get tenant_id (ve_id current) (versions_of w))) (\<lambda>locked.
         bind (require_some locked (NexusError PublishConflictError)) (\<lambda>locked_current.
         seq (raise_if (ve_status locked_current \<noteq> VERSION_PUBLISHED) (NexusError PublishConflictError))
        (bind (query (\<lambda>w. binding_get_by_tool_version tenant_id (ve_id locked_current) (cd_bindings w))) (\<lambda>found.
         bind (require_some found (NexusError ToolBindingNotFoundError)) (\<lambda>current_binding.
         seq (raise_if (bi_status current_binding \<noteq> BINDING_PUBLISHED) (NexusError InvalidToolStateError))
        (bind (lift (version_retire locked_current retired_at)) (\<lambda>retired.
         seq (update (on_versions (version_save tenant_id retired)))
        (bind (lift (binding_disable current_binding)) (\<lambda>disabled.
         seq (update (on_bindings (binding_save tenant_id disabled)))
           (ret (Some (ve_id locked_current))))))))))))))"

definition published_event ::
  "publish_tool_command \<Rightarrow> tool \<Rightarrow> tool_version \<Rightarrow> tool_binding \<Rightarrow> datetime \<Rightarrow> tool_published" where
  "published_event command t v b published_at =
     \<lparr>tp_tenant_id = cx_tenant_id (pc_context command), tp_tool_id = to_id t, tp_tool_version_id = ve_id v,
      tp_tool_binding_id = bi_id b, tp_canonical_name = to_canonical_name t, tp_version = ve_version v,
      tp_actor_id = cx_principal_id (pc_context command), tp_request_id = cx_request_id (pc_context command),
      tp_trace_id = cx_trace_id (pc_context command), tp_occurred_at = published_at\<rparr>"

definition publish_tool_in_transaction ::
  "(string \<Rightarrow> string) \<Rightarrow> publish_tool_command \<Rightarrow> datetime \<Rightarrow>
   (('t, 'x catalog_db_scheme) tx, publish_tool_result) prog" where
  "publish_tool_in_transaction sha command published_at =
    (let tenant_id = cx_tenant_id (pc_context command) in
     bind (query (\<lambda>w. tool_get tenant_id (pc_tool_id command) (tools_of w))) (\<lambda>found_tool.
     bind (require_some found_tool (NexusError ToolNotFoundError)) (\<lambda>t.
     bind (query (\<lambda>w. version_get tenant_id (pc_tool_version_id command) (versions_of w))) (\<lambda>found_version.
     bind (require_some found_version (NexusError ToolVersionNotFoundError)) (\<lambda>v.
     bind (query (\<lambda>w. binding_get_by_tool_version tenant_id (ve_id v) (cd_bindings w))) (\<lambda>found_binding.
     bind (require_some found_binding (NexusError ToolBindingNotFoundError)) (\<lambda>b.
     bind (query (\<lambda>w. upstream_get tenant_id (bi_upstream_service_id b) (cd_upstreams w))) (\<lambda>found_upstream.
     bind (require_some found_upstream (NexusError TenantBoundaryViolationError)) (\<lambda>u.
     seq (lift (validate_publish_snapshot sha command t v b u))
    (bind (retire_current_version tenant_id t v published_at) (\<lambda>retired_version_id.
     bind (lift (version_publish v published_at)) (\<lambda>published_version.
     seq (update (on_versions (version_save tenant_id published_version)))
    (bind (lift (binding_publish b published_at)) (\<lambda>published_binding.
     seq (update (on_bindings (binding_save tenant_id published_binding)))
    (bind (lift (tool_activate t)) (\<lambda>active_tool.
     seq (update (on_tools (tool_save tenant_id active_tool)))
       (ret \<lparr>pres_event = published_event command t v b published_at,
             pres_retired_tool_version_id = retired_version_id\<rparr>)))))))))))))))))"

definition publish_tool ::
  "(string \<Rightarrow> string) \<Rightarrow> publish_tool_command \<Rightarrow> ((datetime, 'x catalog_db_scheme) sys, publish_tool_result) prog" where
  "publish_tool sha command =
     bind clock_now (\<lambda>published_at.
     seq (raise_if (\<not> is_aware published_at)
            (ValueError ''publish clock must return a timezone-aware datetime''))
       (with_uow
         (bind (publish_tool_in_transaction sha command published_at) (\<lambda>result.
          seq commit (ret result)))))"

definition submit_tool_version_for_review ::
  "submit_for_review_command \<Rightarrow> ((datetime, 'x catalog_db_scheme) sys, unit) prog" where
  "submit_tool_version_for_review command =
    (let tenant_id = cx_tenant_id (sr_context command) in
     with_uow
       (bind (query (\<lambda>w. version_get tenant_id (sr_tool_version_id command) (versions_of w))) (\<lambda>found.
        bind (require_some found (NexusError ToolVersionNotFoundError)) (\<lambda>v.
        seq (raise_if (ve_status v \<noteq> VERSION_DRAFT) (NexusError InvalidToolStateError))
       (bind clock_now (\<lambda>now.
        bind (lift (submit_for_review v now)) (\<lambda>reviewed.
        seq (update (on_versions (version_save tenant_id reviewed)))
          commit)))))))"

end
