(* ===== verification/Publish_Correct.thy ===== *)
theory Publish_Correct
  imports Publish
begin

text \<open>
  Correctness of publishing. \<open>catalog_ok\<close> is the invariant of the catalog's stores: entities are valid
  under their own keys, names and version numbers are unique, a tool has at most one published
  version, and a version is published exactly when its binding is. \<open>live\<close> forgets everything but
  which version of a tool is published; publishing refines one update of that map.
\<close>

section \<open>Invariant\<close>

definition tool_names_unique :: "(string, tool) dict \<Rightarrow> bool" where
  "tool_names_unique d \<longleftrightarrow>
     (\<forall>k l a b. dict_get d k = Some a \<longrightarrow> dict_get d l = Some b \<longrightarrow> to_tenant_id a = to_tenant_id b \<longrightarrow>
        to_canonical_name a = to_canonical_name b \<longrightarrow> k = l)"

definition version_numbers_unique :: "(string, tool_version) dict \<Rightarrow> bool" where
  "version_numbers_unique d \<longleftrightarrow>
     (\<forall>k l a b. dict_get d k = Some a \<longrightarrow> dict_get d l = Some b \<longrightarrow> ve_tool_id a = ve_tool_id b \<longrightarrow>
        ve_version a = ve_version b \<longrightarrow> k = l)"

definition one_published :: "(string, tool_version) dict \<Rightarrow> bool" where
  "one_published d \<longleftrightarrow>
     (\<forall>k l a b. dict_get d k = Some a \<longrightarrow> dict_get d l = Some b \<longrightarrow>
        ve_status a = VERSION_PUBLISHED \<longrightarrow> ve_status b = VERSION_PUBLISHED \<longrightarrow>
        ve_tenant_id a = ve_tenant_id b \<longrightarrow> ve_tool_id a = ve_tool_id b \<longrightarrow> k = l)"

definition published_together :: "(string, tool_version) dict \<Rightarrow> binding_store \<Rightarrow> bool" where
  "published_together vs bs \<longleftrightarrow>
     (\<forall>k v. dict_get vs k = Some v \<longrightarrow> ve_status v = VERSION_PUBLISHED \<longrightarrow>
        (\<exists>j b. dict_get bs j = Some b \<and> bi_tenant_id b = ve_tenant_id v \<and> bi_tool_version_id b = k \<and>
               bi_status b = BINDING_PUBLISHED)) \<and>
     (\<forall>j b. dict_get bs j = Some b \<longrightarrow> bi_status b = BINDING_PUBLISHED \<longrightarrow>
        (\<exists>v. dict_get vs (bi_tool_version_id b) = Some v \<and> ve_tenant_id v = bi_tenant_id b \<and>
             ve_status v = VERSION_PUBLISHED))"

definition catalog_ok :: "'x catalog_db_scheme \<Rightarrow> bool" where
  "catalog_ok w \<longleftrightarrow>
     store_ok to_id tool_wf (tools_of w) \<and> tool_names_unique (tools_of w) \<and>
     store_ok ve_id version_wf (versions_of w) \<and> version_numbers_unique (versions_of w) \<and>
     store_ok bi_id binding_wf (cd_bindings w) \<and> one_binding_per_version (cd_bindings w) \<and>
     one_published (versions_of w) \<and> published_together (versions_of w) (cd_bindings w)"

lemma catalog_okD:
  assumes "catalog_ok w"
  shows "store_ok to_id tool_wf (tools_of w)" "tool_names_unique (tools_of w)"
    "store_ok ve_id version_wf (versions_of w)" "version_numbers_unique (versions_of w)"
    "store_ok bi_id binding_wf (cd_bindings w)" "one_binding_per_version (cd_bindings w)"
    "one_published (versions_of w)" "published_together (versions_of w) (cd_bindings w)"
    "keyed to_id (tools_of w)" "keyed ve_id (versions_of w)" "keyed bi_id (cd_bindings w)"
  using assms by (auto simp: catalog_ok_def store_ok_def)

section \<open>Lookups\<close>

lemma published_version_SomeD:
  assumes "get_published_version t k d = Some v" "keyed ve_id d"
  shows "dict_get d (ve_id v) = Some v \<and> ve_tenant_id v = t \<and> ve_tool_id v = k \<and> ve_status v = VERSION_PUBLISHED"
  using find_Some_sat [OF assms(1) [unfolded get_published_version_def]] keyed_value_get [OF assms(2)]
  by auto

lemma published_version_NoneD:
  "get_published_version t k d = None \<Longrightarrow> dict_get d l = Some v \<Longrightarrow>
     \<not> (ve_tenant_id v = t \<and> ve_tool_id v = k \<and> ve_status v = VERSION_PUBLISHED)"
  unfolding get_published_version_def find_None by (drule dict_get_values) blast

lemma published_version_eq:
  assumes "keyed ve_id d" "one_published d" "dict_get d (ve_id v) = Some v" "ve_status v = VERSION_PUBLISHED"
  shows "get_published_version (ve_tenant_id v) (ve_tool_id v) d = Some v"
proof (cases "get_published_version (ve_tenant_id v) (ve_tool_id v) d")
  case None
  then show ?thesis using published_version_NoneD [OF None assms(3)] assms(4) by simp
next
  case (Some u)
  have "ve_id u = ve_id v"
    using published_version_SomeD [OF Some assms(1)] assms(2-4) unfolding one_published_def by metis
  then have "u = v" using published_version_SomeD [OF Some assms(1)] assms(3) by (metis option.inject)
  then show ?thesis using Some by (simp only:)
qed

lemma version_save_ok:
  assumes "store_ok ve_id version_wf d" "version_numbers_unique d" "dict_get d (ve_id v) = Some old"
    and "ve_tenant_id old = ve_tenant_id v" "ve_tool_id old = ve_tool_id v" "ve_version old = ve_version v"
  shows "version_save (ve_tenant_id v) v d = Inr (dict_set (ve_id v) v d)"
proof -
  have "\<not> list_ex (\<lambda>c. ve_id c \<noteq> ve_id v \<and> ve_tool_id c = ve_tool_id v \<and> ve_version c = ve_version v)
      (dict_values d)"
  proof
    assume "list_ex (\<lambda>c. ve_id c \<noteq> ve_id v \<and> ve_tool_id c = ve_tool_id v \<and> ve_version c = ve_version v)
      (dict_values d)"
    then obtain c where c: "c \<in> set (dict_values d)" "ve_id c \<noteq> ve_id v" "ve_tool_id c = ve_tool_id v"
      "ve_version c = ve_version v" by (auto simp: list_ex_iff)
    have "dict_get d (ve_id c) = Some c" using store_ok_values [OF assms(1) c(1)] by simp
    then show False using assms(2,3,5,6) c unfolding version_numbers_unique_def by metis
  qed
  then show ?thesis using assms(3,4) by (simp add: version_save_def)
qed

lemma binding_save_ok:
  assumes "keyed bi_id d" "one_binding_per_version d" "dict_get d (bi_id b) = Some old"
    and "bi_tenant_id old = bi_tenant_id b" "bi_tool_version_id old = bi_tool_version_id b"
  shows "binding_save (bi_tenant_id b) b d = Inr (dict_set (bi_id b) b d)"
  using binding_by_version_unique [OF assms(1-3)] assms(3-5) keyed_get [OF assms(1,3)]
  by (simp add: binding_save_def)

lemma tool_save_ok:
  assumes "keyed to_id d" "tool_names_unique d" "dict_get d (to_id t) = Some old"
    and "to_tenant_id old = to_tenant_id t" "to_canonical_name old = to_canonical_name t"
  shows "tool_save (to_tenant_id t) t d = Inr (dict_set (to_id t) t d)"
proof (cases "tool_get_by_name (to_tenant_id t) (to_canonical_name t) d")
  case None
  then show ?thesis by (simp add: tool_save_def assms(3,4))
next
  case (Some c)
  then have c: "c \<in> set (dict_values d)" "to_tenant_id c = to_tenant_id t"
    "to_canonical_name c = to_canonical_name t"
    using find_Some_sat [OF Some [unfolded tool_get_by_name_def]] by auto
  have "to_id c = to_id t"
    using keyed_value_get [OF assms(1) c(1)] c(2,3) assms(2-5) unfolding tool_names_unique_def by metis
  then show ?thesis by (simp add: tool_save_def assms(3,4) Some)
qed

section \<open>Writes\<close>

definition put_version :: "tool_version \<Rightarrow> 'x catalog_db_scheme \<Rightarrow> 'x catalog_db_scheme" where
  "put_version v = cd_catalog_update (ca_versions_update (dict_set (ve_id v) v))"

definition put_binding :: "tool_binding \<Rightarrow> 'x catalog_db_scheme \<Rightarrow> 'x catalog_db_scheme" where
  "put_binding b = cd_bindings_update (dict_set (bi_id b) b)"

definition put_tool :: "tool \<Rightarrow> 'x catalog_db_scheme \<Rightarrow> 'x catalog_db_scheme" where
  "put_tool t = cd_catalog_update (ca_tools_update (dict_set (to_id t) t))"

lemma put_simps [simp]:
  "versions_of (put_version v w) = dict_set (ve_id v) v (versions_of w)"
  "versions_of (put_binding b w) = versions_of w" "versions_of (put_tool t w) = versions_of w"
  "tools_of (put_version v w) = tools_of w" "tools_of (put_binding b w) = tools_of w"
  "tools_of (put_tool t w) = dict_set (to_id t) t (tools_of w)"
  "cd_bindings (put_version v w) = cd_bindings w" "cd_bindings (put_tool t w) = cd_bindings w"
  "cd_bindings (put_binding b w) = dict_set (bi_id b) b (cd_bindings w)"
  "cd_upstreams (put_version v w) = cd_upstreams w" "cd_upstreams (put_binding b w) = cd_upstreams w"
  "cd_upstreams (put_tool t w) = cd_upstreams w"
  "catalog_db.more (put_version v w) = catalog_db.more w"
  "catalog_db.more (put_binding b w) = catalog_db.more w"
  "catalog_db.more (put_tool t w) = catalog_db.more w"
  "ca_published (cd_catalog (put_version v w)) = ca_published (cd_catalog w)"
  "ca_published (cd_catalog (put_binding b w)) = ca_published (cd_catalog w)"
  "ca_published (cd_catalog (put_tool t w)) = ca_published (cd_catalog w)"
  by (simp_all add: put_version_def put_binding_def put_tool_def versions_of_def tools_of_def)

lemma on_versions_Inr: "f (versions_of w) = Inr (dict_set (ve_id v) v (versions_of w)) \<Longrightarrow>
    on_versions f w = Inr (put_version v w)"
  by (cases w) (simp add: on_versions_def on_field_def put_version_def versions_of_def)

lemma on_bindings_Inr: "f (cd_bindings w) = Inr (dict_set (bi_id b) b (cd_bindings w)) \<Longrightarrow>
    on_bindings f w = Inr (put_binding b w)"
  by (cases w) (simp add: on_bindings_def on_field_def put_binding_def)

lemma on_tools_Inr: "f (tools_of w) = Inr (dict_set (to_id t) t (tools_of w)) \<Longrightarrow>
    on_tools f w = Inr (put_tool t w)"
  by (cases w) (simp add: on_tools_def on_field_def put_tool_def tools_of_def)

section \<open>What the writes keep\<close>

lemma version_numbers_set:
  assumes "version_numbers_unique d" "dict_get d (ve_id v) = Some old"
    "ve_tool_id old = ve_tool_id v" "ve_version old = ve_version v"
  shows "version_numbers_unique (dict_set (ve_id v) v d)"
  using assms unfolding version_numbers_unique_def by (auto; metis)

lemma one_published_set:
  assumes "one_published d"
    and "ve_status v = VERSION_PUBLISHED \<Longrightarrow> get_published_version (ve_tenant_id v) (ve_tool_id v) d = None"
  shows "one_published (dict_set (ve_id v) v d)"
  using assms(1) published_version_NoneD [OF assms(2)]
  unfolding one_published_def by (auto; metis)

lemma published_together_set:
  assumes "published_together vs bs" "one_binding_per_version bs"
    and "dict_get vs (ve_id v) = Some ov" "ve_tenant_id ov = ve_tenant_id v"
    and "dict_get bs (bi_id b) = Some ob" "bi_tool_version_id ob = ve_id v" "bi_tenant_id ob = ve_tenant_id v"
    and "bi_tool_version_id b = ve_id v" "bi_tenant_id b = ve_tenant_id v"
    and "bi_status b = BINDING_PUBLISHED \<longleftrightarrow> ve_status v = VERSION_PUBLISHED"
  shows "published_together (dict_set (ve_id v) v vs) (dict_set (bi_id b) b bs)"
proof -
  have vers: "\<exists>j c. dict_get (dict_set (bi_id b) b bs) j = Some c \<and> bi_tenant_id c = ve_tenant_id x \<and>
      bi_tool_version_id c = k \<and> bi_status c = BINDING_PUBLISHED"
    if h: "dict_get (dict_set (ve_id v) v vs) k = Some x" "ve_status x = VERSION_PUBLISHED" for k x
  proof (cases "k = ve_id v")
    case True
    then show ?thesis using h assms(8-10) by (intro exI [of _ "bi_id b"]) auto
  next
    case False
    then have "dict_get vs k = Some x" using h(1) by simp
    then obtain j c where "dict_get bs j = Some c" "bi_tenant_id c = ve_tenant_id x"
      "bi_tool_version_id c = k" "bi_status c = BINDING_PUBLISHED"
      using assms(1) h(2) unfolding published_together_def by blast
    then show ?thesis using False assms(5,6) by (intro exI [of _ j]) auto
  qed
  have binds: "\<exists>x. dict_get (dict_set (ve_id v) v vs) (bi_tool_version_id c) = Some x \<and>
      ve_tenant_id x = bi_tenant_id c \<and> ve_status x = VERSION_PUBLISHED"
    if h: "dict_get (dict_set (bi_id b) b bs) j = Some c" "bi_status c = BINDING_PUBLISHED" for j c
  proof (cases "j = bi_id b")
    case True
    then show ?thesis using h assms(8-10) by auto
  next
    case False
    then have c: "dict_get bs j = Some c" using h(1) by simp
    then obtain x where x: "dict_get vs (bi_tool_version_id c) = Some x" "ve_tenant_id x = bi_tenant_id c"
      "ve_status x = VERSION_PUBLISHED"
      using assms(1) h(2) unfolding published_together_def by blast
    have "bi_tool_version_id c \<noteq> ve_id v"
      using assms(2-7) c x False unfolding one_binding_per_version_def by (metis option.inject)
    then show ?thesis using x by auto
  qed
  show ?thesis unfolding published_together_def using vers binds by blast
qed

lemma binding_by_version_get:
  assumes "binding_get_by_tool_version t k bs = Some b" "keyed bi_id bs"
  shows "dict_get bs (bi_id b) = Some b" "bi_tenant_id b = t" "bi_tool_version_id b = k"
  using binding_by_version_Some [OF assms(1)] keyed_value_get [OF assms(2)] by auto

text \<open>One version and its binding change together; nothing else does.\<close>

lemma catalog_ok_put_pair:
  assumes ok: "catalog_ok w"
    and v: "dict_get (versions_of w) (ve_id v) = Some ov" "ve_tenant_id ov = ve_tenant_id v"
      "ve_tool_id ov = ve_tool_id v" "ve_version ov = ve_version v" "version_wf v"
    and b: "dict_get (cd_bindings w) (bi_id b) = Some ob" "bi_tool_version_id ob = ve_id v"
      "bi_tenant_id ob = ve_tenant_id v" "bi_tool_version_id b = ve_id v" "bi_tenant_id b = ve_tenant_id v"
      "binding_wf b"
    and same: "bi_status b = BINDING_PUBLISHED \<longleftrightarrow> ve_status v = VERSION_PUBLISHED"
    and alone: "ve_status v = VERSION_PUBLISHED \<Longrightarrow>
      get_published_version (ve_tenant_id v) (ve_tool_id v) (versions_of w) = None"
  shows "on_versions (version_save (ve_tenant_id v) v) w = Inr (put_version v w) \<and>
    on_bindings (binding_save (ve_tenant_id v) b) (put_version v w) = Inr (put_binding b (put_version v w)) \<and>
    catalog_ok (put_binding b (put_version v w))"
proof -
  note D = catalog_okD [OF ok]
  have bs: "binding_save (bi_tenant_id b) b (cd_bindings w) = Inr (dict_set (bi_id b) b (cd_bindings w))"
    by (rule binding_save_ok [OF D(11,6) b(1)]) (simp_all add: b)
  have vs: "version_save (ve_tenant_id v) v (versions_of w) = Inr (dict_set (ve_id v) v (versions_of w))"
    by (rule version_save_ok [OF D(3,4) v(1-4)])
  have "catalog_ok (put_binding b (put_version v w))"
    unfolding catalog_ok_def put_simps
    using D(1,2) store_ok_set [OF D(3) v(5) refl] version_numbers_set [OF D(4) v(1,3,4)]
      store_ok_set [OF D(5) b(6) refl] binding_save_unique [OF D(11,6) bs]
      one_published_set [OF D(7) alone] published_together_set [OF D(8,6) v(1,2) b(1-5) same]
    by blast
  then show ?thesis using vs bs b(5) by (auto intro!: on_versions_Inr on_bindings_Inr)
qed

lemma catalog_ok_put_tool:
  assumes ok: "catalog_ok w" and t: "dict_get (tools_of w) (to_id t) = Some ot"
    "to_tenant_id ot = to_tenant_id t" "to_canonical_name ot = to_canonical_name t" "tool_wf t"
  shows "on_tools (tool_save (to_tenant_id t) t) w = Inr (put_tool t w) \<and> catalog_ok (put_tool t w)"
proof -
  note D = catalog_okD [OF ok]
  have "tool_names_unique (dict_set (to_id t) t (tools_of w))"
    using D(2) t(1-3) unfolding tool_names_unique_def by (auto; metis)
  then have "catalog_ok (put_tool t w)"
    unfolding catalog_ok_def put_simps using D(3-8) store_ok_set [OF D(1) t(4) refl] by blast
  then show ?thesis using tool_save_ok [OF D(9,2) t(1-3)] by (auto intro: on_tools_Inr)
qed

section \<open>The switch as two writes\<close>

definition retire_pair :: "string \<Rightarrow> string \<Rightarrow> datetime \<Rightarrow> 'x catalog_db_scheme \<Rightarrow> 'x catalog_db_scheme" where
  "retire_pair t k now w =
     (case get_published_version t k (versions_of w) of None \<Rightarrow> w
      | Some v \<Rightarrow> (case binding_get_by_tool_version t (ve_id v) (cd_bindings w) of None \<Rightarrow> w
        | Some b \<Rightarrow> put_binding (b\<lparr>bi_status := BINDING_DISABLED\<rparr>)
            (put_version (v\<lparr>ve_status := VERSION_RETIRED, ve_retired_at := Some now\<rparr>) w)))"

lemma published_has_binding:
  assumes "catalog_ok w" "get_published_version t k (versions_of w) = Some v"
  obtains b where "binding_get_by_tool_version t (ve_id v) (cd_bindings w) = Some b"
    "bi_status b = BINDING_PUBLISHED" "dict_get (cd_bindings w) (bi_id b) = Some b" "binding_wf b"
    "bi_tenant_id b = t" "bi_tool_version_id b = ve_id v"
proof -
  note D = catalog_okD [OF assms(1)]
  note v = published_version_SomeD [OF assms(2) D(10)]
  obtain j b where b: "dict_get (cd_bindings w) j = Some b" "bi_tenant_id b = t"
    "bi_tool_version_id b = ve_id v" "bi_status b = BINDING_PUBLISHED"
    using v D(8) unfolding published_together_def by blast
  from binding_by_version_unique [OF D(11,6) b(1)] b
  have "binding_get_by_tool_version t (ve_id v) (cd_bindings w) = Some b" by simp
  then show ?thesis using that b store_ok_get [OF D(5) b(1)] by blast
qed

lemma wp_retire_current_version:
  assumes ok: "catalog_ok (working x)"
  shows "wp (retire_current_version t tool' v now) Q x \<longleftrightarrow>
    (case get_published_version t (to_id tool') (versions_of (working x)) of
       None \<Rightarrow> Q (Inr None) x
     | Some cur \<Rightarrow> if ve_version v \<le> ve_version cur then Q (Inl (NexusError PublishConflictError)) x
                   else Q (Inr (Some (ve_id cur))) (x\<lparr>working := retire_pair t (to_id tool') now (working x)\<rparr>))"
proof (cases "get_published_version t (to_id tool') (versions_of (working x))")
  case None
  then show ?thesis by (simp add: retire_current_version_def wp_rules)
next
  case (Some cur)
  note D = catalog_okD [OF ok]
  note cur = published_version_SomeD [OF Some D(10)]
  obtain b where b: "binding_get_by_tool_version t (ve_id cur) (cd_bindings (working x)) = Some b"
    "bi_status b = BINDING_PUBLISHED" "dict_get (cd_bindings (working x)) (bi_id b) = Some b" "binding_wf b"
    "bi_tenant_id b = t" "bi_tool_version_id b = ve_id cur"
    by (rule published_has_binding [OF ok Some])
  have wf: "version_wf cur" using store_ok_get [OF D(3)] cur by blast
  have g: "version_get t (ve_id cur) (versions_of (working x)) = Some cur"
    using cur by (simp add: version_get_def scoped_get_Some)
  let ?v = "cur\<lparr>ve_status := VERSION_RETIRED, ve_retired_at := Some now\<rparr>"
  let ?b = "b\<lparr>bi_status := BINDING_DISABLED\<rparr>"
  have pair: "on_versions (version_save t ?v) (working x) = Inr (put_version ?v (working x)) \<and>
    on_bindings (binding_save t ?b) (put_version ?v (working x)) = Inr (put_binding ?b (put_version ?v (working x)))"
    using catalog_ok_put_pair [OF ok, of ?v cur ?b b] cur b wf by (auto simp: version_wf_iff binding_wf_iff)
  show ?thesis
    using pair
    by (simp add: retire_current_version_def wp_rules Some g cur b version_retire_wf [OF wf]
        binding_disable_wf [OF b(4,2)] retire_pair_def)
qed

lemma retire_pair_ok:
  assumes ok: "catalog_ok w"
  shows "catalog_ok (retire_pair t k now w) \<and> get_published_version t k (versions_of (retire_pair t k now w)) = None"
proof (cases "get_published_version t k (versions_of w)")
  case None
  then show ?thesis using ok by (simp add: retire_pair_def)
next
  case (Some cur)
  note D = catalog_okD [OF ok]
  note cur = published_version_SomeD [OF Some D(10)]
  obtain b where b: "binding_get_by_tool_version t (ve_id cur) (cd_bindings w) = Some b"
    "bi_status b = BINDING_PUBLISHED" "dict_get (cd_bindings w) (bi_id b) = Some b" "binding_wf b"
    "bi_tenant_id b = t" "bi_tool_version_id b = ve_id cur"
    by (rule published_has_binding [OF ok Some])
  have wf: "version_wf cur" using store_ok_get [OF D(3)] cur by blast
  let ?v = "cur\<lparr>ve_status := VERSION_RETIRED, ve_retired_at := Some now\<rparr>"
  let ?b = "b\<lparr>bi_status := BINDING_DISABLED\<rparr>"
  have ok': "catalog_ok (put_binding ?b (put_version ?v w))"
    using catalog_ok_put_pair [OF ok, of ?v cur ?b b] cur b wf by (auto simp: version_wf_iff binding_wf_iff)
  have "get_published_version t k (dict_set (ve_id cur) ?v (versions_of w)) = None"
  proof (rule ccontr)
    assume "get_published_version t k (dict_set (ve_id cur) ?v (versions_of w)) \<noteq> None"
    then obtain u where "get_published_version t k (dict_set (ve_id cur) ?v (versions_of w)) = Some u" by auto
    from published_version_SomeD [OF this] catalog_okD(10) [OF ok']
    have u: "dict_get (dict_set (ve_id cur) ?v (versions_of w)) (ve_id u) = Some u"
      "ve_tenant_id u = t" "ve_tool_id u = k" "ve_status u = VERSION_PUBLISHED" by simp_all
    show False using u cur D(7) unfolding one_published_def by (auto split: if_splits; metis)
  qed
  then show ?thesis using ok' Some b(1) by (simp add: retire_pair_def)
qed

lemma retire_pair_other:
  assumes ok: "catalog_ok w"
  shows "dict_get (versions_of w) i = Some v \<Longrightarrow> ve_status v \<noteq> VERSION_PUBLISHED \<Longrightarrow>
      dict_get (versions_of (retire_pair t k now w)) i = Some v"
    and "dict_get (cd_bindings w) j = Some b \<Longrightarrow> bi_status b \<noteq> BINDING_PUBLISHED \<Longrightarrow>
      dict_get (cd_bindings (retire_pair t k now w)) j = Some b"
    and "tools_of (retire_pair t k now w) = tools_of w"
    and "cd_upstreams (retire_pair t k now w) = cd_upstreams w"
    and "catalog_db.more (retire_pair t k now w) = catalog_db.more w"
proof -
  note D = catalog_okD [OF ok]
  have cases: "retire_pair t k now w = w \<or> (\<exists>v b. get_published_version t k (versions_of w) = Some v \<and>
      dict_get (cd_bindings w) (bi_id b) = Some b \<and> bi_status b = BINDING_PUBLISHED \<and>
      dict_get (versions_of w) (ve_id v) = Some v \<and> ve_status v = VERSION_PUBLISHED \<and>
      retire_pair t k now w = put_binding (b\<lparr>bi_status := BINDING_DISABLED\<rparr>)
            (put_version (v\<lparr>ve_status := VERSION_RETIRED, ve_retired_at := Some now\<rparr>) w))"
  proof (cases "get_published_version t k (versions_of w)")
    case None
    then show ?thesis by (simp add: retire_pair_def)
  next
    case (Some v)
    obtain b where "binding_get_by_tool_version t (ve_id v) (cd_bindings w) = Some b"
      "bi_status b = BINDING_PUBLISHED" "dict_get (cd_bindings w) (bi_id b) = Some b"
      by (rule published_has_binding [OF ok Some])
    then show ?thesis using Some published_version_SomeD [OF Some D(10)] by (auto simp: retire_pair_def)
  qed
  then show "dict_get (versions_of w) i = Some v \<Longrightarrow> ve_status v \<noteq> VERSION_PUBLISHED \<Longrightarrow>
      dict_get (versions_of (retire_pair t k now w)) i = Some v" by auto
  from cases show "dict_get (cd_bindings w) j = Some b \<Longrightarrow> bi_status b \<noteq> BINDING_PUBLISHED \<Longrightarrow>
      dict_get (cd_bindings (retire_pair t k now w)) j = Some b" by auto
  from cases show "tools_of (retire_pair t k now w) = tools_of w" by auto
  from cases show "cd_upstreams (retire_pair t k now w) = cd_upstreams w" by auto
  from cases show "catalog_db.more (retire_pair t k now w) = catalog_db.more w" by auto
qed

section \<open>Publishing\<close>

text \<open>The five things a publication reads and checks, in one predicate; then the stores it leaves.\<close>

abbreviation found_tool :: "publish_tool_command \<Rightarrow> 'x catalog_db_scheme \<Rightarrow> tool option" where
  "found_tool c w \<equiv> tool_get (cx_tenant_id (pc_context c)) (pc_tool_id c) (tools_of w)"

abbreviation found_version :: "publish_tool_command \<Rightarrow> 'x catalog_db_scheme \<Rightarrow> tool_version option" where
  "found_version c w \<equiv> version_get (cx_tenant_id (pc_context c)) (pc_tool_version_id c) (versions_of w)"

abbreviation found_binding ::
  "publish_tool_command \<Rightarrow> 'x catalog_db_scheme \<Rightarrow> tool_version \<Rightarrow> tool_binding option" where
  "found_binding c w v \<equiv> binding_get_by_tool_version (cx_tenant_id (pc_context c)) (ve_id v) (cd_bindings w)"

abbreviation found_upstream ::
  "publish_tool_command \<Rightarrow> 'x catalog_db_scheme \<Rightarrow> tool_binding \<Rightarrow> upstream_service option" where
  "found_upstream c w b \<equiv> upstream_get (cx_tenant_id (pc_context c)) (bi_upstream_service_id b) (cd_upstreams w)"

abbreviation found_current ::
  "publish_tool_command \<Rightarrow> 'x catalog_db_scheme \<Rightarrow> tool \<Rightarrow> tool_version option" where
  "found_current c w t \<equiv> get_published_version (cx_tenant_id (pc_context c)) (to_id t) (versions_of w)"

definition publish_snapshot ::
  "(string \<Rightarrow> string) \<Rightarrow> publish_tool_command \<Rightarrow> 'x catalog_db_scheme \<Rightarrow>
   tool \<Rightarrow> tool_version \<Rightarrow> tool_binding \<Rightarrow> upstream_service \<Rightarrow> bool" where
  "publish_snapshot sha c w t v b u \<longleftrightarrow>
     found_tool c w = Some t \<and>
     found_version c w = Some v \<and>
     found_binding c w v = Some b \<and>
     found_upstream c w b = Some u \<and>
     validate_publish_snapshot sha c t v b u = Inr () \<and>
     (\<forall>cur. found_current c w t = Some cur \<longrightarrow>
        ve_version cur < ve_version v)"

definition published_stores ::
  "tool \<Rightarrow> tool_version \<Rightarrow> tool_binding \<Rightarrow> datetime \<Rightarrow> 'x catalog_db_scheme \<Rightarrow> 'x catalog_db_scheme" where
  "published_stores t v b now w =
     put_tool (t\<lparr>to_status := TOOL_ACTIVE\<rparr>)
       (put_binding (b\<lparr>bi_status := BINDING_PUBLISHED, bi_published_at := Some now\<rparr>)
         (put_version (v\<lparr>ve_status := VERSION_PUBLISHED, ve_published_at := Some now\<rparr>)
           (retire_pair (to_tenant_id t) (to_id t) now w)))"

lemma validate_publish_snapshot_Inr [check_rules]:
  "validate_publish_snapshot sha c t v b u = Inr r \<longleftrightarrow>
     to_tenant_id t = cx_tenant_id (pc_context c) \<and> ve_tenant_id v = cx_tenant_id (pc_context c) \<and>
     bi_tenant_id b = cx_tenant_id (pc_context c) \<and> us_tenant_id u = cx_tenant_id (pc_context c) \<and>
     ve_tool_id v = to_id t \<and> bi_tool_version_id b = ve_id v \<and> ve_status v = VERSION_REVIEW \<and>
     bi_status b = BINDING_DRAFT \<and> us_status u = UPSTREAM_ACTIVE \<and>
     calculate_schema_digest sha (ve_input_schema v) (ve_output_schema v) = ve_schema_digest v \<and>
     pc_expected_schema_digest c = ve_schema_digest v \<and>
     calculate_binding_digest sha b = bi_binding_digest b \<and> pc_expected_binding_digest c = bi_binding_digest b"
  by (auto simp: validate_publish_snapshot_def)

lemma validate_publish_snapshot_Inl:
  "validate_publish_snapshot sha c t v b u = Inl e \<Longrightarrow> \<exists>ne. e = NexusError ne"
  by (auto simp: validate_publish_snapshot_def split: if_splits)

lemma publish_writes:
  fixes now :: datetime
  assumes ok: "catalog_ok w" and snap: "publish_snapshot sha c w t v b u"
  defines "w1 \<equiv> retire_pair (cx_tenant_id (pc_context c)) (to_id t) now w"
    and "v' \<equiv> v\<lparr>ve_status := VERSION_PUBLISHED, ve_published_at := Some now\<rparr>"
    and "b' \<equiv> b\<lparr>bi_status := BINDING_PUBLISHED, bi_published_at := Some now\<rparr>"
    and "t' \<equiv> t\<lparr>to_status := TOOL_ACTIVE\<rparr>"
  shows "version_publish v now = Inr v'" "binding_publish b now = Inr b'" "tool_activate t = Inr t'"
    "on_versions (version_save (cx_tenant_id (pc_context c)) v') w1 = Inr (put_version v' w1)"
    "on_bindings (binding_save (cx_tenant_id (pc_context c)) b') (put_version v' w1) =
       Inr (put_binding b' (put_version v' w1))"
    "on_tools (tool_save (cx_tenant_id (pc_context c)) t') (put_binding b' (put_version v' w1)) =
       Inr (published_stores t v b now w)"
    "catalog_ok (published_stores t v b now w)"
proof -
  note D = catalog_okD [OF ok]
  note chk = snap [unfolded publish_snapshot_def validate_publish_snapshot_Inr]
  have v: "dict_get (versions_of w) (ve_id v) = Some v" "version_wf v"
    using chk store_ok_get [OF D(3)] by (auto simp: version_get_def scoped_get_Some)
  have t: "dict_get (tools_of w) (to_id t) = Some t" "tool_wf t"
    using chk store_ok_get [OF D(1)] by (auto simp: tool_get_def scoped_get_Some)
  have b: "dict_get (cd_bindings w) (bi_id b) = Some b" "binding_wf b"
    using chk binding_by_version_get [OF _ D(11)] store_ok_get [OF D(5)] by blast+
  have w1: "catalog_ok w1" "get_published_version (cx_tenant_id (pc_context c)) (to_id t) (versions_of w1) = None"
    "dict_get (versions_of w1) (ve_id v) = Some v" "dict_get (cd_bindings w1) (bi_id b) = Some b"
    "dict_get (tools_of w1) (to_id t) = Some t"
    unfolding w1_def using retire_pair_ok [OF ok] retire_pair_other [OF ok] v t b chk by auto
  show "version_publish v now = Inr v'"
    unfolding v'_def by (rule version_publish_wf [OF v(2)]) (use chk in simp)
  show "binding_publish b now = Inr b'"
    unfolding b'_def by (rule binding_publish_wf [OF b(2)]) (use chk in simp)
  show "tool_activate t = Inr t'" unfolding t'_def by (rule tool_activate_wf [OF t(2)])
  have pair: "on_versions (version_save (cx_tenant_id (pc_context c)) v') w1 = Inr (put_version v' w1) \<and>
    on_bindings (binding_save (cx_tenant_id (pc_context c)) b') (put_version v' w1) =
       Inr (put_binding b' (put_version v' w1)) \<and> catalog_ok (put_binding b' (put_version v' w1))"
    using catalog_ok_put_pair [OF w1(1), of v' v b' b] v b w1 chk
    by (simp add: v'_def b'_def version_wf_iff binding_wf_iff)
  then show "on_versions (version_save (cx_tenant_id (pc_context c)) v') w1 = Inr (put_version v' w1)"
    "on_bindings (binding_save (cx_tenant_id (pc_context c)) b') (put_version v' w1) =
       Inr (put_binding b' (put_version v' w1))" by simp_all
  have "on_tools (tool_save (cx_tenant_id (pc_context c)) t') (put_binding b' (put_version v' w1)) =
       Inr (put_tool t' (put_binding b' (put_version v' w1))) \<and>
     catalog_ok (put_tool t' (put_binding b' (put_version v' w1)))"
    using catalog_ok_put_tool [of "put_binding b' (put_version v' w1)" t' t] pair w1(5) t(2) chk
    by (simp add: t'_def tool_wf_status)
  moreover have "put_tool t' (put_binding b' (put_version v' w1)) = published_stores t v b now w"
    using chk by (simp add: published_stores_def t'_def b'_def v'_def w1_def)
  ultimately show "on_tools (tool_save (cx_tenant_id (pc_context c)) t') (put_binding b' (put_version v' w1)) =
       Inr (published_stores t v b now w)" "catalog_ok (published_stores t v b now w)" by simp_all
qed

lemma publish_cases:
  obtains (no_tool) "found_tool c w = None"
    | (no_version) t where
        "found_tool c w = Some t" "found_version c w = None"
    | (no_binding) t v where
        "found_tool c w = Some t" "found_version c w = Some v" "found_binding c w v = None"
    | (no_upstream) t v b where
        "found_tool c w = Some t" "found_version c w = Some v" "found_binding c w v = Some b" "found_upstream c w b = None"
    | (rejected) t v b u e where
        "found_tool c w = Some t" "found_version c w = Some v" "found_binding c w v = Some b"
        "found_upstream c w b = Some u" "validate_publish_snapshot sha c t v b u = Inl e"
    | (stale) t v b u cur where
        "found_tool c w = Some t" "found_version c w = Some v" "found_binding c w v = Some b"
        "found_upstream c w b = Some u" "validate_publish_snapshot sha c t v b u = Inr ()" "found_current c w t = Some cur"
        "ve_version v \<le> ve_version cur"
    | (ok) t v b u where
        "publish_snapshot sha c w t v b u"
proof (cases "found_tool c w")
  case (Some t)
  note t = Some
  show ?thesis
  proof (cases "found_version c w")
    case (Some v)
    note v = Some
    show ?thesis
    proof (cases "found_binding c w v")
      case (Some b)
      note b = Some
      show ?thesis
      proof (cases "found_upstream c w b")
        case (Some u)
        note u = Some
        show ?thesis
        proof (cases "validate_publish_snapshot sha c t v b u")
          case (Inr r)
          then have r: "validate_publish_snapshot sha c t v b u = Inr ()" by simp
          show ?thesis
          proof (cases "\<exists>cur. found_current c w t = Some cur \<and> ve_version v \<le> ve_version cur")
            case True
            then show ?thesis using stale t v b u r by blast
          next
            case False
            then have "publish_snapshot sha c w t v b u"
              unfolding publish_snapshot_def using t v b u r by (auto simp: not_le)
            then show ?thesis by (rule that(7))
          qed
        qed (use rejected t v b u in blast)
      qed (use no_upstream t v b in blast)
    qed (use no_binding t v in blast)
  qed (use no_version t in blast)
qed (use no_tool in blast)

lemma publish_in_transaction_exact:
  assumes ok: "catalog_ok (working x)"
  shows "wp (publish_tool_in_transaction sha c now)
    (\<lambda>r y. case r of
       Inl e \<Rightarrow> db y = db x \<and> (\<exists>ne. e = NexusError ne) \<and>
         \<not> (\<exists>t v b u. publish_snapshot sha c (working x) t v b u)
     | Inr res \<Rightarrow> \<exists>t v b u. publish_snapshot sha c (working x) t v b u \<and>
         y = x\<lparr>working := published_stores t v b now (working x)\<rparr> \<and>
         catalog_ok (working y) \<and>
         res = \<lparr>pres_event = published_event c t v b now,
                pres_retired_tool_version_id = map_option ve_id
                  (found_current c (working x) t)\<rparr>) x"
proof -
  let ?w = "working x" and ?t = "cx_tenant_id (pc_context c)"
  let ?cur = "\<lambda>t. found_current c ?w t"
  show ?thesis
  proof (rule publish_cases [where c = c and w = ?w and sha = sha])
    fix t v b u assume ok: "publish_snapshot sha c ?w t v b u"
    note W = publish_writes [OF assms ok] and chk = ok [unfolded publish_snapshot_def]
    have "wp (retire_current_version ?t t v now) Q x \<longleftrightarrow> Q (Inr (map_option ve_id (?cur t)))
        (x\<lparr>working := retire_pair ?t (to_id t) now ?w\<rparr>)" for Q
      using chk by (auto simp: wp_retire_current_version [OF assms] retire_pair_def split: option.splits)
    then show ?thesis
      using ok W(7) by (auto simp: publish_tool_in_transaction_def Let_def wp_rules chk W(1-6))
  qed (auto simp: publish_tool_in_transaction_def Let_def wp_rules publish_snapshot_def
      wp_retire_current_version [OF assms] dest: validate_publish_snapshot_Inl)
qed

end
