(* ===== verification/Registry_Correct.thy ===== *)
theory Registry_Correct
  imports Registry
begin

text \<open>
  Correctness of the registry. \<open>upstream_sound\<close> is the type invariant of a stored upstream: what the
  constructor and the registration checks accept. \<open>registry_ok\<close> is the invariant of the store, and
  \<open>registry_step\<close> what a transaction may do to it; it is both what the use cases guarantee and all
  they rely on while the endpoint policy runs outside their transaction.
\<close>

section \<open>Checks\<close>

definition upstream_wf :: "upstream_service \<Rightarrow> bool" where
  "upstream_wf u \<longleftrightarrow> upstream_post_init u = Inr u"

lemma upstream_post_init_Inr [check_rules]: "upstream_post_init u = Inr v \<longleftrightarrow> v = u \<and> upstream_wf u"
  by (auto simp: upstream_wf_def upstream_post_init_def validated_Inr_iff)

lemma upstream_wf_iff:
  "upstream_wf u \<longleftrightarrow>
     \<not> blank (us_id u) \<and> \<not> blank (us_tenant_id u) \<and> \<not> blank (us_namespace u) \<and> \<not> blank (us_name u) \<and>
     \<not> blank (us_owner u) \<and> \<not> blank (us_transport_type u) \<and> \<not> blank (us_endpoint u)"
  by (auto simp: upstream_wf_def upstream_post_init_def validated_Inr_iff non_blank_checks_def)

lemma validate_namespace_Inr [check_rules]:
  "validate_namespace ns = Inr u \<longleftrightarrow> namespace_pattern ns \<and> \<not> is_reserved_tool_namespace ns"
  by (auto simp: validate_namespace_def)

lemma validate_http_endpoint_Inr [check_rules]:
  "validate_http_endpoint endpoint = Inr u \<longleftrightarrow>
     (\<exists>parsed. urlsplit endpoint = Inr parsed \<and> url_scheme parsed \<in> {''http'', ''https''} \<and>
        url_netloc parsed \<noteq> [] \<and> url_username parsed = None \<and> url_password parsed = None)"
  by (auto simp: validate_http_endpoint_def result_bind_def split: sum.splits if_splits)

lemma validate_registration_Inr [check_rules]:
  "validate_registration owner endpoint config st = Inr u \<longleftrightarrow>
     \<not> blank owner \<and> \<not> blank endpoint \<and>
     (st = UPSTREAM_HTTP \<longrightarrow> validate_http_endpoint endpoint = Inr ()) \<and> \<not> contains_sensitive_key config"
  by (auto simp: validate_registration_def result_bind_def split: sum.splits)

lemma invalid_arguments_only:
  "validate_registration owner endpoint config st = Inl e \<Longrightarrow>
     e = invalid_arguments \<or> st = UPSTREAM_HTTP \<and> urlsplit endpoint = Inl e"
  by (auto simp: validate_registration_def validate_http_endpoint_def result_bind_def
      split: if_splits sum.splits)

section \<open>Invariant\<close>

definition upstream_sound :: "upstream_service \<Rightarrow> bool" where
  "upstream_sound u \<longleftrightarrow>
     upstream_wf u \<and> validate_namespace (us_namespace u) = Inr () \<and>
     validate_registration (us_owner u) (us_endpoint u) (us_config u) (us_service_type u) = Inr ()"

definition upstream_names_unique :: "upstream_store \<Rightarrow> bool" where
  "upstream_names_unique d \<longleftrightarrow>
     (\<forall>k l a b. dict_get d k = Some a \<longrightarrow> dict_get d l = Some b \<longrightarrow> us_tenant_id a = us_tenant_id b \<longrightarrow>
        us_namespace a = us_namespace b \<longrightarrow> us_name a = us_name b \<longrightarrow> k = l)"

definition registry_ok :: "upstream_store \<Rightarrow> bool" where
  "registry_ok d \<longleftrightarrow> store_ok us_id upstream_sound d \<and> upstream_names_unique d"

definition same_upstream :: "upstream_service \<Rightarrow> upstream_service \<Rightarrow> bool" where
  "same_upstream u v \<longleftrightarrow>
     us_tenant_id v = us_tenant_id u \<and> us_namespace v = us_namespace u \<and> us_name v = us_name u \<and>
     us_service_type v = us_service_type u \<and> us_transport_type v = us_transport_type u \<and>
     (us_status u = UPSTREAM_DISABLED \<longrightarrow> us_status v = UPSTREAM_DISABLED)"

definition registry_step :: "upstream_store \<Rightarrow> upstream_store \<Rightarrow> bool" where
  "registry_step d d' \<longleftrightarrow>
     (registry_ok d \<longrightarrow> registry_ok d') \<and>
     (\<forall>k u. dict_get d k = Some u \<longrightarrow> (\<exists>v. dict_get d' k = Some v \<and> same_upstream u v))"

lemma same_upstream_refl [simp]: "same_upstream u u"
  by (simp add: same_upstream_def)

lemma same_upstream_trans: "same_upstream u v \<Longrightarrow> same_upstream v w \<Longrightarrow> same_upstream u w"
  by (simp add: same_upstream_def)

lemma registry_step_refl [simp]: "registry_step d d"
  by (simp add: registry_step_def)

lemma registry_step_trans: "registry_step d d' \<Longrightarrow> registry_step d' d'' \<Longrightarrow> registry_step d d''"
  unfolding registry_step_def by (blast dest: same_upstream_trans)

lemma upstream_by_name_None:
  "upstream_get_by_name t ns n d = None \<Longrightarrow> dict_get d k = Some u \<Longrightarrow>
     \<not> (us_tenant_id u = t \<and> us_namespace u = ns \<and> us_name u = n)"
  unfolding upstream_get_by_name_def find_None by (auto dest!: dict_get_values)

lemma upstream_get_Some:
  "upstream_get t k d = Some u \<longleftrightarrow> dict_get d k = Some u \<and> us_tenant_id u = t"
  by (simp add: upstream_get_def scoped_get_Some)

lemma registry_step_add:
  assumes "upstream_add t u d = Inr d'" "upstream_sound u"
  shows "registry_step d d'"
proof -
  have d': "d' = dict_set (us_id u) u d" and fresh: "dict_get d (us_id u) = None"
    and free: "upstream_get_by_name (us_tenant_id u) (us_namespace u) (us_name u) d = None"
    using assms(1) by (auto simp: upstream_add_def split: if_splits)
  have "registry_ok d \<Longrightarrow> upstream_names_unique d'"
    unfolding d' registry_ok_def upstream_names_unique_def
    using upstream_by_name_None [OF free] by (auto; metis)
  moreover have "registry_ok d \<Longrightarrow> store_ok us_id upstream_sound d'"
    unfolding d' registry_ok_def by (blast intro: store_ok_set assms(2))
  ultimately show ?thesis using fresh by (auto simp: registry_step_def registry_ok_def d')
qed

lemma registry_step_save:
  assumes "upstream_save t u d = Inr d'" "dict_get d (us_id u) = Some old" "same_upstream old u"
    "upstream_sound u"
  shows "registry_step d d'"
proof -
  have d': "d' = dict_set (us_id u) u d"
    using assms(1) by (auto simp: upstream_save_def split: if_splits option.splits)
  have "registry_ok d \<Longrightarrow> upstream_names_unique d'"
    unfolding d' registry_ok_def upstream_names_unique_def using assms(2,3)
    by (auto simp: same_upstream_def)
  moreover have "registry_ok d \<Longrightarrow> store_ok us_id upstream_sound d'"
    unfolding d' registry_ok_def by (blast intro: store_ok_set assms(4))
  ultimately show ?thesis using assms(2,3) by (auto simp: registry_step_def registry_ok_def d')
qed

section \<open>Use cases\<close>

lemma registered_upstream_sound:
  "validate_namespace (ru_namespace c) = Inr () \<Longrightarrow>
   validate_registration (ru_owner c) (ru_endpoint c) (ru_config c) (ru_service_type c) = Inr () \<Longrightarrow>
   upstream_post_init (registered_upstream c i) = Inr u \<Longrightarrow> upstream_sound u"
  by (simp add: check_rules upstream_sound_def) (simp add: registered_upstream_def)

lemma updated_upstream_sound:
  assumes "upstream_update u desc owner endpoint auth config = Inr v" "upstream_sound u"
    and "validate_registration owner endpoint config (us_service_type u) = Inr ()"
  shows "upstream_sound v \<and> same_upstream u v \<and> us_id v = us_id u"
  using assms by (auto simp: upstream_update_def check_rules upstream_sound_def same_upstream_def)

lemma disabled_upstream_sound:
  assumes "upstream_disable u = Inr v" "upstream_sound u"
  shows "upstream_sound v \<and> same_upstream u v \<and> us_id v = us_id u"
  using assms
  by (auto simp: upstream_disable_def check_rules upstream_sound_def same_upstream_def split: if_splits)

text \<open>The endpoint policy may run while others write: all it has to respect is \<open>registry_step\<close>.\<close>

definition policy_respects :: "('t, upstream_store) endpoint_policy \<Rightarrow> bool" where
  "policy_respects p \<longleftrightarrow> (\<forall>e s. wp (p e) (\<lambda>r t. registry_step (db s) (db t)) s)"

lemma policy_respectsD:
  assumes "policy_respects p" and "\<And>r t. registry_step (db s) (db t) \<Longrightarrow> Q r t"
  shows "wp (p e) Q s"
  by (rule wp_mono [of _ "\<lambda>r t. registry_step (db s) (db t)"]) (use assms in \<open>auto simp: policy_respects_def\<close>)

lemma allow_all_respects: "policy_respects allow_all_endpoints"
  by (simp add: policy_respects_def allow_all_endpoints_def wp_rules)

lemma register_upstream_step:
  assumes "policy_respects p"
  shows "wp (register_upstream p c) (\<lambda>r t. registry_step (db s) (db t)) s"
proof -
  have add: "registry_step (db s) w"
    if "registry_step (db s) (db t)" "validate_namespace (ru_namespace c) = Inr ()"
      "validate_registration (ru_owner c) (ru_endpoint c) (ru_config c) (ru_service_type c) = Inr ()"
      "upstream_post_init (registered_upstream c i) = Inr u"
      "upstream_add (cx_tenant_id (ru_context c)) u (db t) = Inr w" for t :: "('a, upstream_store) sys" and i u w
    using registry_step_trans [OF that(1) registry_step_add [OF that(5)]]
      registered_upstream_sound [OF that(2-4)] by blast
  show ?thesis
    unfolding register_upstream_def
    by (auto simp: wp_rules intro!: policy_respectsD [OF assms] intro: add split: sum.splits)
qed

lemma disable_upstream_step:
  assumes "registry_ok (db s)"
  shows "wp (disable_upstream c) (\<lambda>r t. registry_step (db s) (db t)) s"
proof -
  have "registry_step (db s) w"
    if "upstream_get t k (db s) = Some u" "upstream_disable u = Inr v" "upstream_save t v (db s) = Inr w"
    for t k u v w
  proof -
    from that(1) have u: "dict_get (db s) k = Some u" by (simp add: upstream_get_Some)
    have "upstream_sound u \<and> us_id u = k"
      using assms store_ok_get [OF _ u] unfolding registry_ok_def by blast
    then show ?thesis using disabled_upstream_sound [OF that(2)] registry_step_save [OF that(3)] u by metis
  qed
  then show ?thesis
    by (auto simp: disable_upstream_def Let_def wp_rules split: sum.splits option.splits)
qed

lemma update_upstream_step:
  assumes "policy_respects p" "registry_ok (db s)"
  shows "wp (update_upstream p c) (\<lambda>r t. registry_step (db s) (db t)) s"
proof -
  let ?t = "cx_tenant_id (uu_context c)" and ?k = "uu_upstream_service_id c"
  have save: "registry_step (db s) w"
    if "upstream_get ?t ?k (db s) = Some observed"
      "validate_registration (uu_owner c) (uu_endpoint c) (uu_config c) (us_service_type observed) = Inr ()"
      "registry_step (db s) (db x)" "upstream_get ?t ?k (db x) = Some u"
      "upstream_update u (uu_description c) (uu_owner c) (uu_endpoint c) (uu_auth_scheme c) (uu_config c) = Inr v"
      "upstream_save ?t v (db x) = Inr w" for observed x u v w
  proof -
    have u: "dict_get (db x) ?k = Some u" and o: "dict_get (db s) ?k = Some observed"
      using that(1,4) by (auto simp: upstream_get_Some)
    have ok: "registry_ok (db x)" and "same_upstream observed u"
      using that(3) assms(2) o u by (force simp: registry_step_def)+
    then have st: "us_service_type u = us_service_type observed" by (simp add: same_upstream_def)
    have snd: "upstream_sound u \<and> us_id u = ?k"
      using ok store_ok_get [OF _ u] unfolding registry_ok_def by blast
    with updated_upstream_sound [OF that(5)] that(2) st
    have "upstream_sound v \<and> same_upstream u v \<and> us_id v = ?k" by simp
    then show ?thesis using registry_step_trans [OF that(3) registry_step_save [OF that(6)]] u by metis
  qed
  show ?thesis
    unfolding update_upstream_def Let_def
    by (auto simp: wp_rules intro!: policy_respectsD [OF assms(1)] intro: save split: sum.splits option.splits)
qed

section \<open>Secrets in a configuration\<close>

text \<open>The keys that occur anywhere inside a JSON value.\<close>

inductive key_occurs :: "string \<Rightarrow> json \<Rightarrow> bool" where
  here: "(k, v) \<in> set kvs \<Longrightarrow> key_occurs k (JObj kvs)"
| member: "(l, v) \<in> set kvs \<Longrightarrow> key_occurs k v \<Longrightarrow> key_occurs k (JObj kvs)"
| item: "v \<in> set vs \<Longrightarrow> key_occurs k v \<Longrightarrow> key_occurs k (JList vs)"

inductive_simps key_occurs_simps:
  "key_occurs k JNull" "key_occurs k (JBool b)" "key_occurs k (JInt i)" "key_occurs k (JStr s)"
  "key_occurs k (JList vs)" "key_occurs k (JObj kvs)"

text \<open>A registry in use: registering a service in an empty store.\<close>

definition sample_actor :: actor_context where
  "sample_actor = \<lparr>cx_request_id = ''r'', cx_trace_id = ''t'', cx_tenant_id = ''acme'',
     cx_principal_id = ''admin'', cx_authn_method = ''bearer'', cx_principal_type = ''agent_service''\<rparr>"

definition sample_register :: register_upstream_command where
  "sample_register = \<lparr>ru_context = sample_actor, ru_namespace = ''billing'', ru_name = ''invoices'',
     ru_description = None, ru_owner = ''team'', ru_endpoint = ''https://billing.example/api'',
     ru_auth_scheme = None, ru_config = JObj [(''timeout'', JInt 5)], ru_service_type = UPSTREAM_HTTP,
     ru_transport_type = ''http''\<rparr>"

definition registry_start :: "(int, upstream_store) sys" where
  "registry_start = \<lparr>now_at = (\<lambda>_. 0), ticks = 0, id_at = sample_ids, id_count = 0, db = []\<rparr>"

lemma sample_register_runs:
  "\<not> isl (fst (register_upstream allow_all_endpoints sample_register registry_start))"
  by code_simp

section \<open>Properties\<close>

text \<open>C31: Whatever the registry is asked to do, its store stays well-formed: every stored upstream
  passes the constructor's and the registration's checks, names are unique per tenant and namespace,
  no upstream disappears or changes tenant, name, service type or transport, and a disabled one stays
  disabled. This holds for any endpoint policy, also one during which others write as the registry does.\<close>

theorem registry_stays_well_formed:
  assumes "registry_ok (db s)" and "policy_respects p"
  shows "wp (register_upstream p c1) (\<lambda>r t. registry_ok (db t) \<and> registry_step (db s) (db t)) s \<and>
    wp (update_upstream p c2) (\<lambda>r t. registry_ok (db t) \<and> registry_step (db s) (db t)) s \<and>
    wp (disable_upstream c3) (\<lambda>r t. registry_ok (db t) \<and> registry_step (db s) (db t)) s"
proof -
  have "registry_step (db s) d \<Longrightarrow> registry_ok d \<and> registry_step (db s) d" for d
    using assms(1) by (simp add: registry_step_def)
  then show ?thesis
    using wp_mono [OF register_upstream_step [OF assms(2)]] wp_mono [OF update_upstream_step [OF assms(2,1)]]
      wp_mono [OF disable_upstream_step [OF assms(1)]] by simp
qed

theorem registry_stays_well_formed_witness:
  "\<not> isl (fst (register_upstream allow_all_endpoints sample_register registry_start)) \<and>
   wp (register_upstream allow_all_endpoints sample_register)
     (\<lambda>r t. registry_ok (db t) \<and> registry_step (db registry_start) (db t)) registry_start"
proof -
  have "registry_ok (db registry_start)"
    by (simp add: registry_start_def registry_ok_def upstream_names_unique_def)
  from registry_stays_well_formed [OF this allow_all_respects] sample_register_runs
  show ?thesis by blast
qed

text \<open>The check that keeps secrets out of an upstream's configuration finds a forbidden key at any
  depth, through nested objects and lists, and refuses nothing else.\<close>

theorem sensitive_keys_found_at_any_depth:
  "contains_sensitive_key v \<longleftrightarrow>
     (\<exists>k. key_occurs k v \<and> normalized_config_key k \<in> set SENSITIVE_CONFIG_KEYS)"
proof (induction v)
  case (JList vs)
  have "contains_sensitive_key (JList vs) \<longleftrightarrow> (\<exists>v \<in> set vs. contains_sensitive_key v)"
    by (simp add: list_ex_iff)
  also have "\<dots> \<longleftrightarrow>
      (\<exists>v \<in> set vs. \<exists>k. key_occurs k v \<and> normalized_config_key k \<in> set SENSITIVE_CONFIG_KEYS)"
    by (rule bex_cong [OF refl JList])
  also have "\<dots> \<longleftrightarrow>
      (\<exists>k. key_occurs k (JList vs) \<and> normalized_config_key k \<in> set SENSITIVE_CONFIG_KEYS)"
    unfolding key_occurs_simps by blast
  finally show ?case .
next
  case (JObj kvs)
  have "contains_sensitive_key (JObj kvs) \<longleftrightarrow>
      (\<exists>kv \<in> set kvs. normalized_config_key (fst kv) \<in> set SENSITIVE_CONFIG_KEYS \<or>
         contains_sensitive_key (snd kv))"
    by (simp add: list_ex_iff case_prod_beta)
  also have "\<dots> \<longleftrightarrow>
      (\<exists>kv \<in> set kvs. normalized_config_key (fst kv) \<in> set SENSITIVE_CONFIG_KEYS \<or>
         (\<exists>k. key_occurs k (snd kv) \<and> normalized_config_key k \<in> set SENSITIVE_CONFIG_KEYS))"
    by (rule bex_cong [OF refl]) (simp add: JObj [of _ "snd _"] snds.intros)
  also have "\<dots> \<longleftrightarrow>
      (\<exists>k. key_occurs k (JObj kvs) \<and> normalized_config_key k \<in> set SENSITIVE_CONFIG_KEYS)"
    unfolding key_occurs_simps by force
  finally show ?case .
qed (simp_all add: key_occurs_simps)

text \<open>A malformed bracketed host is not refused like every other invalid registration: the
  parser's \<open>ValueError\<close> leaves the use case instead of \<open>InvalidArgumentsError\<close>, while an endpoint with
  an unknown scheme is refused as the registration promises.\<close>

theorem malformed_endpoint_escapes_validation:
  "fst (register_upstream allow_all_endpoints (sample_register\<lparr>ru_endpoint := ''http://[zz]/''\<rparr>)
     registry_start) = Inl (ValueError ''Invalid IPv6 URL'') \<and>
   fst (register_upstream allow_all_endpoints (sample_register\<lparr>ru_endpoint := ''ftp://host/''\<rparr>)
     registry_start) = Inl (NexusError InvalidArgumentsError)"
  by code_simp

end
