(* ===== verification/Publish_Properties.thy ===== *)
theory Publish_Properties
  imports Publish_Correct Registry_Correct
begin

text \<open>
  What the catalog promises: which version of a tool is live, as an abstract map, and how publishing
  and submitting for review act on it and on the invariant.
\<close>

section \<open>The live map\<close>

type_synonym live_map = "string \<times> string \<Rightarrow> (string \<times> int) option"

definition live :: "'x catalog_db_scheme \<Rightarrow> live_map" where
  "live w = (\<lambda>(t, k). map_option (\<lambda>v. (ve_id v, ve_version v)) (get_published_version t k (versions_of w)))"

text \<open>The abstract operation: a tool's live version may only be replaced by a newer one.\<close>

definition may_go_live :: "live_map \<Rightarrow> string \<times> string \<Rightarrow> int \<Rightarrow> bool" where
  "may_go_live m k n \<longleftrightarrow> (case m k of None \<Rightarrow> True | Some (_, current) \<Rightarrow> current < n)"

lemma live_iff:
  assumes "catalog_ok w"
  shows "live w (t, k) = Some (i, n) \<longleftrightarrow>
    (\<exists>v. dict_get (versions_of w) i = Some v \<and> ve_tenant_id v = t \<and> ve_tool_id v = k \<and>
         ve_status v = VERSION_PUBLISHED \<and> ve_version v = n)"
proof
  note D = catalog_okD [OF assms]
  assume "live w (t, k) = Some (i, n)"
  then obtain v where v: "get_published_version t k (versions_of w) = Some v" "ve_id v = i" "ve_version v = n"
    by (auto simp: live_def)
  show "\<exists>v. dict_get (versions_of w) i = Some v \<and> ve_tenant_id v = t \<and> ve_tool_id v = k \<and>
         ve_status v = VERSION_PUBLISHED \<and> ve_version v = n"
    using published_version_SomeD [OF v(1) D(10)] v(2,3) by blast
next
  note D = catalog_okD [OF assms]
  assume "\<exists>v. dict_get (versions_of w) i = Some v \<and> ve_tenant_id v = t \<and> ve_tool_id v = k \<and>
         ve_status v = VERSION_PUBLISHED \<and> ve_version v = n"
  then obtain v where v: "dict_get (versions_of w) i = Some v" "ve_tenant_id v = t" "ve_tool_id v = k"
    "ve_status v = VERSION_PUBLISHED" "ve_version v = n" by blast
  have "ve_id v = i" using keyed_get [OF D(10) v(1)] .
  then have "get_published_version t k (versions_of w) = Some v"
    using published_version_eq [OF D(10,7)] v by blast
  then show "live w (t, k) = Some (i, n)" using v(5) \<open>ve_id v = i\<close> by (simp add: live_def)
qed

lemma live_eqI:
  assumes "catalog_ok w" "catalog_ok w'"
    and "\<And>i v. dict_get (versions_of w') i = Some v \<and> ve_tenant_id v = t \<and> ve_tool_id v = k \<and>
           ve_status v = VERSION_PUBLISHED \<longleftrightarrow>
         dict_get (versions_of w) i = Some v \<and> ve_tenant_id v = t \<and> ve_tool_id v = k \<and>
           ve_status v = VERSION_PUBLISHED"
  shows "live w' (t, k) = live w (t, k)"
proof -
  have "live w' (t, k) = Some (i, n) \<longleftrightarrow> live w (t, k) = Some (i, n)" for i n
    unfolding live_iff [OF assms(1)] live_iff [OF assms(2)] using assms(3) by blast
  then show ?thesis by (metis not_None_eq surj_pair)
qed

section \<open>What a publication leaves\<close>

lemma published_versions_lookup:
  assumes ok: "catalog_ok w" and snap: "publish_snapshot sha c w t v b u"
  shows "dict_get (versions_of (published_stores t v b now w)) i =
    (if i = ve_id v then Some (v\<lparr>ve_status := VERSION_PUBLISHED, ve_published_at := Some now\<rparr>)
     else case found_current c w t of
       None \<Rightarrow> dict_get (versions_of w) i
     | Some cur \<Rightarrow> if i = ve_id cur then Some (cur\<lparr>ve_status := VERSION_RETIRED, ve_retired_at := Some now\<rparr>)
                   else dict_get (versions_of w) i)"
proof -
  have "to_tenant_id t = cx_tenant_id (pc_context c)"
    using snap by (simp add: publish_snapshot_def check_rules)
  moreover have "\<exists>cb. binding_get_by_tool_version (cx_tenant_id (pc_context c)) (ve_id cur) (cd_bindings w) = Some cb"
    if "found_current c w t = Some cur" for cur
    by (rule published_has_binding [OF ok that]) blast
  ultimately show ?thesis by (auto simp: published_stores_def retire_pair_def split: option.splits)
qed

lemma published_live:
  assumes ok: "catalog_ok w" and snap: "publish_snapshot sha c w t v b u"
  shows "live (published_stores t v b now w) =
    (live w)((to_tenant_id t, to_id t) := Some (ve_id v, ve_version v))"
proof
  fix k
  have ok': "catalog_ok (published_stores t v b now w)" by (rule publish_writes(7) [OF ok snap])
  have chk: "to_tenant_id t = cx_tenant_id (pc_context c)" "ve_tenant_id v = to_tenant_id t" "ve_tool_id v = to_id t"
    "ve_status v = VERSION_REVIEW" "dict_get (versions_of w) (ve_id v) = Some v"
    using snap keyed_get [OF catalog_okD(10) [OF ok]]
    by (auto simp: publish_snapshot_def check_rules version_get_def scoped_get_Some)
  note look = published_versions_lookup [OF ok snap, of now]
  show "live (published_stores t v b now w) k = ((live w)((to_tenant_id t, to_id t) := Some (ve_id v, ve_version v))) k"
  proof (cases "k = (to_tenant_id t, to_id t)")
    case True
    then show ?thesis using live_iff [OF ok'] look chk by auto
  next
    case False
    have cur: "ve_tenant_id cur = to_tenant_id t \<and> ve_tool_id cur = to_id t \<and> dict_get (versions_of w) (ve_id cur) = Some cur"
      if "found_current c w t = Some cur" for cur
      using published_version_SomeD [OF that catalog_okD(10) [OF ok]] chk by simp
    define P where "P x \<longleftrightarrow> ve_tenant_id x = fst k \<and> ve_tool_id x = snd k \<and> ve_status x = VERSION_PUBLISHED"
      for x :: tool_version
    have off: "\<not> P x" if "ve_tenant_id x = to_tenant_id t" "ve_tool_id x = to_id t" for x
      using False that by (auto simp: P_def prod_eq_iff)
    have same: "dict_get (versions_of (published_stores t v b now w)) i = Some x \<and> P x \<longleftrightarrow>
        dict_get (versions_of w) i = Some x \<and> P x" for i x
    proof (cases "i = ve_id v")
      case True
      then show ?thesis using off chk(2,3,5) look [of i] by auto
    next
      case neq: False
      show ?thesis
      proof (cases "found_current c w t")
        case None
        then show ?thesis using look [of i] neq by simp
      next
        case (Some cur)
        then show ?thesis using look [of i] neq cur [OF Some] off by (cases "i = ve_id cur") auto
      qed
    qed
    have "live (published_stores t v b now w) (fst k, snd k) = live w (fst k, snd k)"
      by (rule live_eqI [OF ok ok']) (rule same [unfolded P_def])
    then show ?thesis using False by simp
  qed
qed

lemma publish_tool_exact:
  assumes ok: "catalog_ok (db s)"
  shows "wp (publish_tool sha c)
    (\<lambda>r y. (\<not> is_aware (now_at s (ticks s)) \<longrightarrow> (\<exists>m. r = Inl (ValueError m)) \<and> db y = db s) \<and>
      (is_aware (now_at s (ticks s)) \<longrightarrow> (case r of
       Inl e \<Rightarrow> db y = db s \<and> (\<exists>ne. e = NexusError ne) \<and> \<not> (\<exists>t v b u. publish_snapshot sha c (db s) t v b u)
     | Inr res \<Rightarrow> \<exists>t v b u. publish_snapshot sha c (db s) t v b u \<and>
         db y = published_stores t v b (now_at s (ticks s)) (db s) \<and> catalog_ok (db y) \<and>
         res = \<lparr>pres_event = published_event c t v b (now_at s (ticks s)),
                pres_retired_tool_version_id = map_option ve_id (found_current c (db s) t)\<rparr>))) s"
proof -
  let ?x = "enter_uow (s\<lparr>ticks := Suc (ticks s)\<rparr>)"
  have "catalog_ok (working ?x)" using ok by simp
  note W = publish_in_transaction_exact [OF this, of sha c "now_at s (ticks s)"]
  show ?thesis
    by (simp add: publish_tool_def wp_rules, intro impI, rule wp_mono [OF W])
      (auto simp: wp_rules split: sum.splits; blast)
qed

lemma submit_for_review_ok:
  assumes ok: "catalog_ok w" and v: "version_get tn i (versions_of w) = Some v" "ve_status v = VERSION_DRAFT"
    and r: "submit_for_review v now = Inr v'"
  shows "on_versions (version_save tn v') w = Inr (put_version v' w) \<and> catalog_ok (put_version v' w) \<and>
    live (put_version v' w) = live w"
proof -
  note D = catalog_okD [OF ok]
  have g: "dict_get (versions_of w) i = Some v" "ve_tenant_id v = tn" "ve_id v = i" "version_wf v"
    using v store_ok_get [OF D(3)] by (auto simp: version_get_def scoped_get_Some)
  have v': "v' = v\<lparr>ve_status := VERSION_REVIEW, ve_reviewed_at := Some now\<rparr>"
    using r submit_for_review_wf [OF g(4) v(2)] by simp
  have wf: "version_wf v'" using g(4) by (simp add: v' version_wf_iff)
  have "published_together (dict_set (ve_id v') v' (versions_of w)) (cd_bindings w)"
    using D(8) g(1,3) v(2) unfolding published_together_def v' by (auto; force)
  then have ok': "catalog_ok (put_version v' w)"
    unfolding catalog_ok_def put_simps
    using D(1,2,5,6) store_ok_set [OF D(3) wf refl] version_numbers_set [OF D(4), of v' v]
      one_published_set [OF D(7), of v'] g v'
    by simp
  have "version_save (ve_tenant_id v') v' (versions_of w) = Inr (dict_set (ve_id v') v' (versions_of w))"
    by (rule version_save_ok [OF D(3,4), of v' v]) (use g v' in simp_all)
  moreover have "live (put_version v' w) (t, k) = live w (t, k)" for t k
    using g v(2) by (intro live_eqI [OF ok ok']) (auto simp: v')
  ultimately show ?thesis using ok' g(2) by (auto simp: v' intro: on_versions_Inr)
qed

section \<open>A catalog in use\<close>

text \<open>One tool with a published first version and a second one in review.\<close>

definition sample_tool :: tool where
  "sample_tool = \<lparr>to_id = ''tool'', to_tenant_id = ''acme'', to_namespace = ''crm'',
     to_canonical_name = ''crm.find'', to_owner = ''team'', to_status = TOOL_ACTIVE\<rparr>"

definition sample_schema :: json where
  "sample_schema = JObj [(''type'', JStr ''object'')]"

definition version_one :: tool_version where
  "version_one = \<lparr>ve_id = ''v1'', ve_tenant_id = ''acme'', ve_tool_id = ''tool'', ve_version = 1,
     ve_display_name = ''Find'', ve_description = [], ve_input_schema = sample_schema,
     ve_output_schema = None, ve_schema_digest = calculate_schema_digest sample_sha sample_schema None,
     ve_tags = [], ve_side_effect = READ_ONLY, ve_visibility = VIS_PUBLIC, ve_status = VERSION_PUBLISHED,
     ve_created_by = ''dev'', ve_created_at = Aware 0, ve_reviewed_at = Some (Aware 1),
     ve_published_at = Some (Aware 2), ve_retired_at = None\<rparr>"

definition version_two :: tool_version where
  "version_two = version_one\<lparr>ve_id := ''v2'', ve_version := 2, ve_status := VERSION_REVIEW,
     ve_published_at := None\<rparr>"

definition binding_two :: tool_binding where
  "binding_two = (let b = \<lparr>bi_id = ''b2'', bi_tenant_id = ''acme'', bi_tool_version_id = ''v2'',
       bi_upstream_service_id = ''up'', bi_imported_operation_id = None, bi_binding_type = BINDING_HTTP,
       bi_binding_config = JObj [], bi_binding_digest = ''d'', bi_status = BINDING_DRAFT,
       bi_created_at = Aware 0, bi_published_at = None\<rparr>
     in b\<lparr>bi_binding_digest := calculate_binding_digest sample_sha b\<rparr>)"

definition binding_one :: tool_binding where
  "binding_one = binding_two\<lparr>bi_id := ''b1'', bi_tool_version_id := ''v1'',
     bi_status := BINDING_PUBLISHED, bi_published_at := Some (Aware 2)\<rparr>"

definition sample_upstream :: upstream_service where
  "sample_upstream = registered_upstream sample_register ''up''"

definition sample_catalog :: catalog_db where
  "sample_catalog =
     \<lparr>cd_catalog = \<lparr>ca_tools = [(''tool'', sample_tool)],
        ca_versions = [(''v1'', version_one), (''v2'', version_two)], ca_published = []\<rparr>,
      cd_bindings = [(''b1'', binding_one), (''b2'', binding_two)],
      cd_upstreams = [(''up'', sample_upstream)]\<rparr>"

definition catalog_start :: "(datetime, catalog_db) sys" where
  "catalog_start = \<lparr>now_at = (\<lambda>n. Aware (10 + int n)), ticks = 0, id_at = sample_ids, id_count = 0,
     db = sample_catalog\<rparr>"

definition sample_publish :: publish_tool_command where
  "sample_publish = \<lparr>pc_context = sample_actor, pc_tool_id = ''tool'', pc_tool_version_id = ''v2'',
     pc_expected_schema_digest = ve_schema_digest version_two,
     pc_expected_binding_digest = bi_binding_digest binding_two\<rparr>"

lemma sample_entities:
  "tool_wf sample_tool \<and> version_wf version_one \<and> version_wf version_two \<and>
   binding_wf binding_one \<and> binding_wf binding_two"
  unfolding tool_wf_def version_wf_def binding_wf_def by code_simp

lemma sample_catalog_stores:
  "tools_of sample_catalog = [(''tool'', sample_tool)]"
  "versions_of sample_catalog = [(''v1'', version_one), (''v2'', version_two)]"
  "cd_bindings sample_catalog = [(''b1'', binding_one), (''b2'', binding_two)]"
  by (simp_all add: sample_catalog_def tools_of_def versions_of_def)

lemma sample_fields:
  "to_id sample_tool = ''tool''" "ve_id version_one = ''v1''" "ve_id version_two = ''v2''"
  "bi_id binding_one = ''b1''" "bi_id binding_two = ''b2''"
  "bi_tool_version_id binding_one = ''v1''" "bi_tool_version_id binding_two = ''v2''"
  "ve_status version_one = VERSION_PUBLISHED" "ve_status version_two = VERSION_REVIEW"
  "bi_status binding_one = BINDING_PUBLISHED" "bi_status binding_two = BINDING_DRAFT"
  "ve_version version_one = 1" "ve_version version_two = 2"
  "ve_tenant_id version_one = ''acme''" "bi_tenant_id binding_one = ''acme''"
  by (simp_all add: sample_tool_def version_one_def version_two_def binding_one_def binding_two_def Let_def)

lemma sample_catalog_ok: "catalog_ok (db catalog_start)"
proof -
  have "store_ok to_id tool_wf (tools_of sample_catalog)" "tool_names_unique (tools_of sample_catalog)"
    using sample_entities
    by (auto simp: sample_catalog_stores store_ok_def keyed_def tool_names_unique_def sample_fields split: if_splits)
  moreover have "store_ok ve_id version_wf (versions_of sample_catalog)"
    "version_numbers_unique (versions_of sample_catalog)" "one_published (versions_of sample_catalog)"
    using sample_entities
    by (auto simp: sample_catalog_stores store_ok_def keyed_def version_numbers_unique_def one_published_def
        sample_fields split: if_splits)
  moreover have "store_ok bi_id binding_wf (cd_bindings sample_catalog)"
    "one_binding_per_version (cd_bindings sample_catalog)"
    using sample_entities
    by (auto simp: sample_catalog_stores store_ok_def keyed_def one_binding_per_version_def
        sample_fields split: if_splits)
  moreover have "published_together (versions_of sample_catalog) (cd_bindings sample_catalog)"
    by (auto simp: sample_catalog_stores published_together_def sample_fields split: if_splits
        intro: exI [of _ "''b1''"])
  ultimately show ?thesis by (simp add: catalog_ok_def catalog_start_def)
qed

lemma sample_publish_runs: "\<not> isl (fst (publish_tool sample_sha sample_publish catalog_start))"
  by code_simp

section \<open>Properties\<close>

text \<open>C23: Publishing implements one step of an abstract map from tools to their live version: when it
  succeeds it replaces exactly the named tool's entry by the published version, which is newer than the
  one it replaces, and no other tool's live version moves; when it fails the map is unchanged.\<close>

theorem publish_refines_live_map:
  assumes "catalog_ok (db s)"
  shows "wp (publish_tool sha c)
    (\<lambda>r y. case r of
       Inl e \<Rightarrow> live (db y) = live (db s)
     | Inr res \<Rightarrow>
         let k = (cx_tenant_id (pc_context c), tp_tool_id (pres_event res)); n = tp_version (pres_event res)
         in may_go_live (live (db s)) k n \<and>
            live (db y) = (live (db s))(k := Some (tp_tool_version_id (pres_event res), n))) s"
proof -
  have "may_go_live (live (db s)) (cx_tenant_id (pc_context c), to_id t) (ve_version v) \<and>
      live (published_stores t v b now (db s)) =
        (live (db s))((cx_tenant_id (pc_context c), to_id t) := Some (ve_id v, ve_version v))"
    if snap: "publish_snapshot sha c (db s) t v b u" for t v b u now
    using published_live [OF assms snap, of now] snap
    by (auto simp: publish_snapshot_def check_rules may_go_live_def live_def split: option.splits)
  then show ?thesis
    by (intro wp_mono [OF publish_tool_exact [OF assms]])
      (auto simp: Let_def published_event_def split: sum.splits)
qed

theorem publish_refines_live_map_witness:
  "\<not> isl (fst (publish_tool sample_sha sample_publish catalog_start)) \<and>
   wp (publish_tool sample_sha sample_publish)
    (\<lambda>r y. case r of
       Inl e \<Rightarrow> live (db y) = live (db catalog_start)
     | Inr res \<Rightarrow>
         let k = (cx_tenant_id (pc_context sample_publish), tp_tool_id (pres_event res));
             n = tp_version (pres_event res)
         in may_go_live (live (db catalog_start)) k n \<and>
            live (db y) = (live (db catalog_start))(k := Some (tp_tool_version_id (pres_event res), n)))
    catalog_start"
  using publish_refines_live_map [OF sample_catalog_ok] sample_publish_runs by blast

text \<open>C26: Publishing and submitting for review keep the catalog well-formed: entities valid under their
  own keys, names and version numbers unique, at most one published version of a tool, and a version
  published exactly when its binding is. Submitting for review moves no live version.\<close>

theorem catalog_stays_well_formed:
  assumes "catalog_ok (db s)"
  shows "wp (publish_tool sha c) (\<lambda>r y. catalog_ok (db y)) s \<and>
    wp (submit_tool_version_for_review c') (\<lambda>r y. catalog_ok (db y) \<and> live (db y) = live (db s)) s"
proof
  show "wp (publish_tool sha c) (\<lambda>r y. catalog_ok (db y)) s"
    using assms by (intro wp_mono [OF publish_tool_exact [OF assms]]) (auto split: sum.splits)
  have step: "\<exists>w. on_versions (version_save (cx_tenant_id (sr_context c')) v') (db s) = Inr w \<and>
      catalog_ok w \<and> live w = live (db s)"
    if "version_get (cx_tenant_id (sr_context c')) (sr_tool_version_id c') (versions_of (db s)) = Some v"
      "ve_status v = VERSION_DRAFT" "submit_for_review v now = Inr v'" for v now v'
    using submit_for_review_ok [OF assms that] by blast
  show "wp (submit_tool_version_for_review c') (\<lambda>r y. catalog_ok (db y) \<and> live (db y) = live (db s)) s"
    using assms
    by (auto simp: submit_tool_version_for_review_def Let_def wp_rules split: option.splits sum.splits
        dest!: step)
qed

theorem catalog_stays_well_formed_witness:
  "wp (publish_tool sample_sha sample_publish) (\<lambda>r y. catalog_ok (db y)) catalog_start \<and>
   wp (submit_tool_version_for_review \<lparr>sr_context = sample_actor, sr_tool_version_id = ''v2''\<rparr>)
     (\<lambda>r y. catalog_ok (db y) \<and> live (db y) = live (db catalog_start)) catalog_start"
  by (rule catalog_stays_well_formed [OF sample_catalog_ok])

text \<open>C24: Nothing is published but what was reviewed: the version named by the command was in review and
  its binding a draft, the upstream was active, both digests recompute to the stored ones and are the
  ones the caller expected, and the version is newer than the one it replaces; the replaced version is
  retired and its binding disabled. A failed publication changes nothing.\<close>

theorem publish_only_what_was_reviewed:
  assumes "catalog_ok (db s)"
  shows "wp (publish_tool sha c)
    (\<lambda>r y. case r of
       Inl e \<Rightarrow> db y = db s
     | Inr res \<Rightarrow> \<exists>v b u.
         dict_get (versions_of (db s)) (pc_tool_version_id c) = Some v \<and> ve_status v = VERSION_REVIEW \<and>
         found_binding c (db s) v = Some b \<and> bi_status b = BINDING_DRAFT \<and>
         found_upstream c (db s) b = Some u \<and> us_status u = UPSTREAM_ACTIVE \<and>
         pc_expected_schema_digest c = calculate_schema_digest sha (ve_input_schema v) (ve_output_schema v) \<and>
         pc_expected_binding_digest c = calculate_binding_digest sha b \<and>
         tp_tool_id (pres_event res) = pc_tool_id c \<and> ve_tool_id v = pc_tool_id c \<and>
         dict_get (versions_of (db y)) (pc_tool_version_id c) =
           Some (v\<lparr>ve_status := VERSION_PUBLISHED, ve_published_at := Some (now_at s (ticks s))\<rparr>) \<and>
         (\<forall>old. get_published_version (cx_tenant_id (pc_context c)) (pc_tool_id c) (versions_of (db s)) = Some old \<longrightarrow>
            ve_version old < ve_version v \<and> pres_retired_tool_version_id res = Some (ve_id old) \<and>
            dict_get (versions_of (db y)) (ve_id old) =
              Some (old\<lparr>ve_status := VERSION_RETIRED, ve_retired_at := Some (now_at s (ticks s))\<rparr>))) s"
proof -
  have id: "to_id t = pc_tool_id c \<and> ve_id v = pc_tool_version_id c \<and>
      dict_get (versions_of (db s)) (pc_tool_version_id c) = Some v"
    if "publish_snapshot sha c (db s) t v b u" for t v b u
    using that keyed_get [OF catalog_okD(9) [OF assms]] keyed_get [OF catalog_okD(10) [OF assms]]
    by (simp add: publish_snapshot_def tool_get_def version_get_def scoped_get_Some)
  have old: "ve_id old \<noteq> ve_id v"
    if "publish_snapshot sha c (db s) t v b u" "found_current c (db s) t = Some old" for t v b u old
    using that id [OF that(1)] published_version_SomeD [OF that(2) catalog_okD(10) [OF assms]]
    by (auto simp: publish_snapshot_def check_rules)
  have out: "\<exists>v b u. dict_get (versions_of (db s)) (pc_tool_version_id c) = Some v \<and> ve_status v = VERSION_REVIEW \<and>
         found_binding c (db s) v = Some b \<and> bi_status b = BINDING_DRAFT \<and>
         found_upstream c (db s) b = Some u \<and> us_status u = UPSTREAM_ACTIVE \<and>
         pc_expected_schema_digest c = calculate_schema_digest sha (ve_input_schema v) (ve_output_schema v) \<and>
         pc_expected_binding_digest c = calculate_binding_digest sha b \<and>
         to_id t = pc_tool_id c \<and> ve_tool_id v = pc_tool_id c \<and>
         dict_get (versions_of (published_stores t v' b' now (db s))) (pc_tool_version_id c) =
           Some (v\<lparr>ve_status := VERSION_PUBLISHED, ve_published_at := Some now\<rparr>) \<and>
         (\<forall>old. get_published_version (cx_tenant_id (pc_context c)) (pc_tool_id c) (versions_of (db s)) = Some old \<longrightarrow>
            ve_version old < ve_version v \<and> map_option ve_id (found_current c (db s) t) = Some (ve_id old) \<and>
            dict_get (versions_of (published_stores t v' b' now (db s))) (ve_id old) =
              Some (old\<lparr>ve_status := VERSION_RETIRED, ve_retired_at := Some now\<rparr>))"
    if snap: "publish_snapshot sha c (db s) t v' b' u'" for t v' b' u' now
    using snap id [OF snap] old [OF snap] published_versions_lookup [OF assms snap, of now]
    by (intro exI [of _ v'] exI [of _ b'] exI [of _ u']) (auto simp: publish_snapshot_def check_rules)
  show ?thesis
  proof (rule wp_mono [OF publish_tool_exact [OF assms, of sha c]], goal_cases)
    case (1 r y)
    show ?case
    proof (cases r)
      case (Inl e)
      then show ?thesis using 1 by (cases "is_aware (now_at s (ticks s))") simp_all
    next
      case (Inr res)
      with 1 have "is_aware (now_at s (ticks s))" by auto
      with 1 Inr obtain t v b u where snap: "publish_snapshot sha c (db s) t v b u"
        and y: "db y = published_stores t v b (now_at s (ticks s)) (db s)"
        and res: "res = \<lparr>pres_event = published_event c t v b (now_at s (ticks s)),
                pres_retired_tool_version_id = map_option ve_id (found_current c (db s) t)\<rparr>"
        by auto
      show ?thesis using out [OF snap, of "now_at s (ticks s)"] by (simp add: Inr y res published_event_def)
    qed
  qed
qed

theorem publish_only_what_was_reviewed_witness:
  "\<not> isl (fst (publish_tool sample_sha sample_publish catalog_start)) \<and>
   wp (publish_tool sample_sha sample_publish)
    (\<lambda>r y. \<forall>res. r = Inr res \<longrightarrow>
       dict_get (versions_of (db y)) ''v2'' =
         Some (version_two\<lparr>ve_status := VERSION_PUBLISHED, ve_published_at := Some (Aware 10)\<rparr>)) catalog_start"
proof -
  have look: "dict_get (versions_of (db catalog_start)) (pc_tool_version_id sample_publish) = Some version_two"
    "pc_tool_version_id sample_publish = ''v2''" "now_at catalog_start (ticks catalog_start) = Aware 10"
    by (simp_all add: catalog_start_def sample_catalog_stores sample_publish_def)
  show ?thesis
    by (rule conjI [OF sample_publish_runs],
        rule wp_mono [OF publish_only_what_was_reviewed [OF sample_catalog_ok, of sample_sha sample_publish]])
      (use look in auto)
qed

end
