(* ===== verification/Toolset_Domain.thy ===== *)
theory Toolset_Domain
  imports Publish
begin

text \<open>
  Toolsets (\<open>toolsets/domain.py\<close>): an endpoint with its members and access grants as one aggregate,
  changed under an optimistic revision. Every operation checks the revision the caller saw and
  returns the aggregate unchanged when there is nothing to do; otherwise \<open>dataclasses.replace\<close>
  builds the next one and the constructor validates it again. The SHA-256 of the digests is the
  parameter \<open>sha\<close>.
\<close>

section \<open>Data\<close>

datatype toolset_kind = EXPLICIT | ALL_PUBLISHED

fun toolset_kind_value :: "toolset_kind \<Rightarrow> string" where
  "toolset_kind_value EXPLICIT = ''explicit''"
| "toolset_kind_value ALL_PUBLISHED = ''all_published''"

datatype toolset_discovery_mode = DISCOVERY_DIRECT | DISCOVERY_SEARCH_FIRST

datatype toolset_status = TOOLSET_DRAFT | TOOLSET_ACTIVE | TOOLSET_DISABLED

datatype toolset_health = HEALTHY | DEGRADED | UNAVAILABLE

datatype member_availability = AVAILABLE | MEMBER_TOOL_DISABLED | NO_PUBLISHED_VERSION

record toolset_member =
  me_tenant_id :: string
  me_toolset_id :: string
  me_tool_id :: string
  me_added_by :: string
  me_added_at :: datetime

record toolset_grant =
  gr_tenant_id :: string
  gr_toolset_id :: string
  gr_principal_id :: string
  gr_granted_by :: string
  gr_granted_at :: datetime

record toolset =
  ts_id :: string
  ts_tenant_id :: string
  ts_slug :: string
  ts_name :: string
  ts_description :: "string option"
  ts_kind :: toolset_kind
  ts_discovery_mode :: toolset_discovery_mode
  ts_status :: toolset_status
  ts_revision :: int
  ts_membership_digest :: string
  ts_created_by :: string
  ts_created_at :: datetime
  ts_updated_at :: datetime
  ts_members :: "toolset_member list"
  ts_grants :: "toolset_grant list"

definition ts_tool_ids :: "toolset \<Rightarrow> string list" where
  "ts_tool_ids s = map me_tool_id (ts_members s)"

definition ts_principal_ids :: "toolset \<Rightarrow> string list" where
  "ts_principal_ids s = map gr_principal_id (ts_grants s)"

section \<open>Validation\<close>

definition require_aware :: "string \<Rightarrow> datetime \<Rightarrow> bool \<times> string" where
  "require_aware field_name v = (\<not> is_aware v, field_name @ '' must be timezone-aware'')"

definition member_post_init :: "toolset_member \<Rightarrow> toolset_member result" where
  "member_post_init m = validated
     (non_blank_checks
        [(''member tenant id'', me_tenant_id m), (''member toolset id'', me_toolset_id m),
         (''member tool id'', me_tool_id m), (''member actor id'', me_added_by m)] @
      [require_aware ''member added_at'' (me_added_at m)]) m"

definition grant_post_init :: "toolset_grant \<Rightarrow> toolset_grant result" where
  "grant_post_init g = validated
     (non_blank_checks
        [(''grant tenant id'', gr_tenant_id g), (''grant toolset id'', gr_toolset_id g),
         (''grant principal id'', gr_principal_id g), (''grant actor id'', gr_granted_by g)] @
      [require_aware ''grant granted_at'' (gr_granted_at g)]) g"

text \<open>\<open>re.compile(r"[a-z0-9]+(?:-[a-z0-9]+)*").fullmatch\<close>: non-empty words of lower-case letters and
  digits, joined by single hyphens.\<close>

definition slug_char :: "char \<Rightarrow> bool" where
  "slug_char c \<longleftrightarrow> c \<in> set ''abcdefghijklmnopqrstuvwxyz0123456789''"

definition slug_words :: "string \<Rightarrow> string list" where
  "slug_words s = foldr (\<lambda>c acc. if c = CHR ''-'' then [] # acc else (c # hd acc) # tl acc) s [[]]"

definition is_toolset_slug :: "string \<Rightarrow> bool" where
  "is_toolset_slug s \<longleftrightarrow> list_all (\<lambda>w. w \<noteq> [] \<and> list_all slug_char w) (slug_words s)"

text \<open>\<open>_normalized_ids\<close>: every value non-blank, then the sorted set.\<close>

definition normalized_ids :: "string \<Rightarrow> string list \<Rightarrow> string list result" where
  "normalized_ids field_name vs =
     validated (non_blank_checks (map (\<lambda>v. (field_name, v)) vs)) (sorted_set vs)"

definition all_published_digest :: "(string \<Rightarrow> string) \<Rightarrow> string" where
  "all_published_digest sha =
     canonical_json_digest sha (JObj [(''kind'', JStr ''all_published''), (''rule_version'', JInt 1)])"

definition calculate_membership_digest ::
  "(string \<Rightarrow> string) \<Rightarrow> toolset_kind \<Rightarrow> string list \<Rightarrow> string result" where
  "calculate_membership_digest sha kind tool_ids =
     result_bind (normalized_ids ''tool id'' tool_ids) (\<lambda>normalized.
       if kind = ALL_PUBLISHED
       then (if normalized \<noteq> []
             then Inl (ValueError ''all_published membership digest does not accept tool ids'')
             else Inr (all_published_digest sha))
       else Inr (canonical_json_digest sha
              (JObj [(''kind'', JStr (toolset_kind_value kind)),
                     (''tool_ids'', JList (map JStr normalized))])))"

definition member_checks :: "toolset \<Rightarrow> (bool \<times> string) list" where
  "member_checks s = concat (map (\<lambda>(i, m).
     [(me_tenant_id m \<noteq> ts_tenant_id s \<or> me_toolset_id m \<noteq> ts_id s,
       ''toolset member crossed aggregate tenant or identity boundary''),
      (me_tool_id m \<in> set (take i (ts_tool_ids s)), ''toolset member tool id must be unique'')])
     (enumerate 0 (ts_members s)))"

definition grant_checks :: "toolset \<Rightarrow> (bool \<times> string) list" where
  "grant_checks s = concat (map (\<lambda>(i, g).
     [(gr_tenant_id g \<noteq> ts_tenant_id s \<or> gr_toolset_id g \<noteq> ts_id s,
       ''toolset grant crossed aggregate tenant or identity boundary''),
      (gr_principal_id g \<in> set (take i (ts_principal_ids s)), ''toolset grant principal id must be unique'')])
     (enumerate 0 (ts_grants s)))"

definition toolset_checks :: "toolset \<Rightarrow> (bool \<times> string) list" where
  "toolset_checks s =
     non_blank_checks
       [(''toolset id'', ts_id s), (''toolset tenant id'', ts_tenant_id s), (''toolset name'', ts_name s),
        (''toolset creator'', ts_created_by s)] @
     [(64 < length (ts_slug s) \<or> \<not> is_toolset_slug (ts_slug s), ''toolset slug must use lowercase kebab-case''),
      (128 < length (ts_name s), ''toolset name must not exceed 128 characters''),
      (ts_revision s \<le> 0, ''toolset revision must be positive''),
      (\<not> is_sha256_hex (ts_membership_digest s), ''toolset membership digest must be a lowercase sha256 digest''),
      require_aware ''toolset created_at'' (ts_created_at s),
      require_aware ''toolset updated_at'' (ts_updated_at s),
      (instant_of (ts_updated_at s) < instant_of (ts_created_at s), ''toolset updated_at must not precede created_at''),
      (ts_kind s = ALL_PUBLISHED \<and> ts_slug s \<noteq> ''all-published'',
       ''system all_published toolset must use reserved slug''),
      (ts_kind s = ALL_PUBLISHED \<and> ts_members s \<noteq> [],
       ''all_published toolset must not contain explicit members''),
      (ts_kind s = EXPLICIT \<and> ts_status s = TOOLSET_ACTIVE \<and> ts_members s = [],
       ''active explicit toolset must contain at least one member'')] @
     member_checks s @ grant_checks s"

definition toolset_post_init :: "(string \<Rightarrow> string) \<Rightarrow> toolset \<Rightarrow> toolset result" where
  "toolset_post_init sha s =
     result_bind (validated (toolset_checks s) ()) (\<lambda>_.
     result_bind (calculate_membership_digest sha (ts_kind s) (ts_tool_ids s)) (\<lambda>digest.
       if ts_membership_digest s \<noteq> digest
       then Inl (ValueError ''toolset membership digest did not match members'')
       else Inr s))"

section \<open>Creation\<close>

definition create_explicit ::
  "(string \<Rightarrow> string) \<Rightarrow> string \<Rightarrow> string \<Rightarrow> string \<Rightarrow> string \<Rightarrow> string option \<Rightarrow> string \<Rightarrow> datetime \<Rightarrow>
   toolset_discovery_mode \<Rightarrow> toolset result" where
  "create_explicit sha toolset_id tenant_id slug name description created_by created_at discovery_mode =
     result_bind (calculate_membership_digest sha EXPLICIT []) (\<lambda>digest.
       toolset_post_init sha
         \<lparr>ts_id = toolset_id, ts_tenant_id = tenant_id, ts_slug = slug, ts_name = name,
          ts_description = description, ts_kind = EXPLICIT, ts_discovery_mode = discovery_mode,
          ts_status = TOOLSET_DRAFT, ts_revision = 1, ts_membership_digest = digest,
          ts_created_by = created_by, ts_created_at = created_at, ts_updated_at = created_at,
          ts_members = [], ts_grants = []\<rparr>)"

definition create_all_published ::
  "(string \<Rightarrow> string) \<Rightarrow> string \<Rightarrow> string \<Rightarrow> string \<Rightarrow> datetime \<Rightarrow> toolset result" where
  "create_all_published sha toolset_id tenant_id created_by created_at =
     toolset_post_init sha
       \<lparr>ts_id = toolset_id, ts_tenant_id = tenant_id, ts_slug = ''all-published'',
        ts_name = ''All Published Tools'',
        ts_description = Some ''System-managed view of all current published tools.'',
        ts_kind = ALL_PUBLISHED, ts_discovery_mode = DISCOVERY_SEARCH_FIRST, ts_status = TOOLSET_ACTIVE,
        ts_revision = 1, ts_membership_digest = all_published_digest sha, ts_created_by = created_by,
        ts_created_at = created_at, ts_updated_at = created_at, ts_members = [], ts_grants = []\<rparr>"

section \<open>Operations\<close>

definition require_revision :: "toolset \<Rightarrow> int \<Rightarrow> unit result" where
  "require_revision s expected_revision =
     (if expected_revision \<noteq> ts_revision s then Inl (ToolsetRevisionConflict ''toolset revision conflict'')
      else Inr ())"

definition require_mutation_time :: "toolset \<Rightarrow> datetime \<Rightarrow> unit result" where
  "require_mutation_time s occurred_at = validated
     [require_aware ''toolset mutation time'' occurred_at,
      (instant_of occurred_at < instant_of (ts_updated_at s),
       ''toolset mutation time must not precede updated_at'')] ()"

definition update_profile ::
  "(string \<Rightarrow> string) \<Rightarrow> toolset \<Rightarrow> int \<Rightarrow> string \<Rightarrow> string option \<Rightarrow> toolset_discovery_mode \<Rightarrow> datetime \<Rightarrow>
   toolset result" where
  "update_profile sha s expected_revision name description discovery_mode updated_at =
     result_bind (require_revision s expected_revision) (\<lambda>_.
       if ts_kind s = ALL_PUBLISHED \<and> (ts_name s \<noteq> name \<or> ts_description s \<noteq> description)
       then Inl (SystemToolsetMutationError ''system all_published toolset identity is immutable'')
       else if ts_name s = name \<and> ts_description s = description \<and> ts_discovery_mode s = discovery_mode
       then Inr s
       else result_bind (require_mutation_time s updated_at) (\<lambda>_.
         toolset_post_init sha (s\<lparr>ts_name := name, ts_description := description,
           ts_discovery_mode := discovery_mode, ts_revision := ts_revision s + 1,
           ts_updated_at := updated_at\<rparr>)))"

definition replacement_members ::
  "toolset \<Rightarrow> string list \<Rightarrow> string \<Rightarrow> datetime \<Rightarrow> toolset_member list result" where
  "replacement_members s ids actor_id occurred_at =
     collect_results (\<lambda>tool_id.
       case map_of (map (\<lambda>m. (me_tool_id m, m)) (rev (ts_members s))) tool_id of
         Some m \<Rightarrow> Inr m
       | None \<Rightarrow> member_post_init \<lparr>me_tenant_id = ts_tenant_id s, me_toolset_id = ts_id s,
           me_tool_id = tool_id, me_added_by = actor_id, me_added_at = occurred_at\<rparr>) ids"

definition replace_members ::
  "(string \<Rightarrow> string) \<Rightarrow> toolset \<Rightarrow> int \<Rightarrow> string list \<Rightarrow> string \<Rightarrow> datetime \<Rightarrow> toolset result" where
  "replace_members sha s expected_revision tool_ids actor_id occurred_at =
     result_bind (require_revision s expected_revision) (\<lambda>_.
       if ts_kind s = ALL_PUBLISHED
       then Inl (SystemToolsetMutationError ''all_published toolset does not accept explicit members'')
       else result_bind (normalized_ids ''tool id'' tool_ids) (\<lambda>normalized.
         if ts_status s = TOOLSET_ACTIVE \<and> normalized = []
         then Inl (ValueError ''active explicit toolset must contain at least one member'')
         else if normalized = ts_tool_ids s then Inr s
         else result_bind (require_mutation_time s occurred_at) (\<lambda>_.
              result_bind (replacement_members s normalized actor_id occurred_at) (\<lambda>members.
              result_bind (calculate_membership_digest sha (ts_kind s) normalized) (\<lambda>digest.
                toolset_post_init sha (s\<lparr>ts_members := members, ts_membership_digest := digest,
                  ts_revision := ts_revision s + 1, ts_updated_at := occurred_at\<rparr>))))))"

definition replacement_grants ::
  "toolset \<Rightarrow> string list \<Rightarrow> string \<Rightarrow> datetime \<Rightarrow> toolset_grant list result" where
  "replacement_grants s ids actor_id occurred_at =
     collect_results (\<lambda>principal_id.
       case map_of (map (\<lambda>g. (gr_principal_id g, g)) (rev (ts_grants s))) principal_id of
         Some g \<Rightarrow> Inr g
       | None \<Rightarrow> grant_post_init \<lparr>gr_tenant_id = ts_tenant_id s, gr_toolset_id = ts_id s,
           gr_principal_id = principal_id, gr_granted_by = actor_id, gr_granted_at = occurred_at\<rparr>) ids"

definition replace_grants ::
  "(string \<Rightarrow> string) \<Rightarrow> toolset \<Rightarrow> int \<Rightarrow> string list \<Rightarrow> string \<Rightarrow> datetime \<Rightarrow> toolset result" where
  "replace_grants sha s expected_revision principal_ids actor_id occurred_at =
     result_bind (require_revision s expected_revision) (\<lambda>_.
     result_bind (normalized_ids ''principal id'' principal_ids) (\<lambda>normalized.
       if normalized = ts_principal_ids s then Inr s
       else result_bind (require_mutation_time s occurred_at) (\<lambda>_.
            result_bind (replacement_grants s normalized actor_id occurred_at) (\<lambda>grants.
              toolset_post_init sha (s\<lparr>ts_grants := grants, ts_revision := ts_revision s + 1,
                ts_updated_at := occurred_at\<rparr>)))))"

definition toolset_activate :: "(string \<Rightarrow> string) \<Rightarrow> toolset \<Rightarrow> int \<Rightarrow> datetime \<Rightarrow> toolset result" where
  "toolset_activate sha s expected_revision activated_at =
     result_bind (require_revision s expected_revision) (\<lambda>_.
       if ts_status s = TOOLSET_ACTIVE then Inr s
       else if ts_kind s = EXPLICIT \<and> ts_members s = []
       then Inl (ValueError ''explicit toolset must contain members before activation'')
       else result_bind (require_mutation_time s activated_at) (\<lambda>_.
         toolset_post_init sha (s\<lparr>ts_status := TOOLSET_ACTIVE, ts_revision := ts_revision s + 1,
           ts_updated_at := activated_at\<rparr>)))"

definition toolset_disable :: "(string \<Rightarrow> string) \<Rightarrow> toolset \<Rightarrow> int \<Rightarrow> datetime \<Rightarrow> toolset result" where
  "toolset_disable sha s expected_revision disabled_at =
     result_bind (require_revision s expected_revision) (\<lambda>_.
       if ts_status s = TOOLSET_DISABLED then Inr s
       else if ts_kind s = ALL_PUBLISHED
       then Inl (SystemToolsetMutationError ''system all_published toolset cannot be disabled'')
       else result_bind (require_mutation_time s disabled_at) (\<lambda>_.
         toolset_post_init sha (s\<lparr>ts_status := TOOLSET_DISABLED, ts_revision := ts_revision s + 1,
           ts_updated_at := disabled_at\<rparr>)))"

definition derive_toolset_health :: "(string, member_availability) dict \<Rightarrow> toolset_health" where
  "derive_toolset_health availabilities =
     (if availabilities = [] then UNAVAILABLE
      else let available_count = length (filter (\<lambda>a. a = AVAILABLE) (dict_values availabilities))
        in if available_count = length availabilities then HEALTHY
           else if available_count = 0 then UNAVAILABLE
           else DEGRADED)"

end
