(* ===== verification/Toolset_Store.thy ===== *)
theory Toolset_Store
  imports Toolset_Domain
begin

text \<open>
  The toolset repository (\<open>toolsets/adapters/in_memory.py\<close> with \<open>_repository_rules.py\<close>), the catalog
  snapshots it is read beside (\<open>toolsets/ports.py\<close>) and the unit of work (\<open>in_memory_uow.py\<close>): the
  toolsets are copied and committed, the snapshots are only read.
\<close>

section \<open>Repository\<close>

type_synonym toolset_store = "(string, toolset) dict"

definition toolset_get_by_slug :: "string \<Rightarrow> string \<Rightarrow> toolset_store \<Rightarrow> toolset option" where
  "toolset_get_by_slug tenant_id slug d =
     List.find (\<lambda>s. ts_tenant_id s = tenant_id \<and> ts_slug s = slug) (dict_values d)"

definition toolset_get_all_published :: "string \<Rightarrow> toolset_store \<Rightarrow> toolset option" where
  "toolset_get_all_published tenant_id d =
     List.find (\<lambda>s. ts_tenant_id s = tenant_id \<and> ts_kind s = ALL_PUBLISHED) (dict_values d)"

definition toolset_add :: "string \<Rightarrow> toolset \<Rightarrow> toolset_store \<Rightarrow> toolset_store result" where
  "toolset_add tenant_id s d =
     (if tenant_id \<noteq> ts_tenant_id s then Inl tenant_mismatch
      else if dict_get d (ts_id s) \<noteq> None then Inl (ValueError ''toolset id already exists'')
      else if toolset_get_by_slug tenant_id (ts_slug s) d \<noteq> None
        then Inl (ValueError ''toolset slug already exists in tenant'')
      else if ts_kind s = ALL_PUBLISHED \<and> toolset_get_all_published tenant_id d \<noteq> None
        then Inl (ValueError ''all_published toolset already exists in tenant'')
      else Inr (dict_set (ts_id s) s d))"

definition requires_persistence_update :: "toolset \<Rightarrow> toolset \<Rightarrow> bool result" where
  "requires_persistence_update current replacement =
     (if ts_id current \<noteq> ts_id replacement \<or> ts_tenant_id current \<noteq> ts_tenant_id replacement \<or>
         ts_slug current \<noteq> ts_slug replacement \<or> ts_kind current \<noteq> ts_kind replacement \<or>
         ts_created_by current \<noteq> ts_created_by replacement \<or> ts_created_at current \<noteq> ts_created_at replacement
      then Inl (ValueError ''toolset stable identity fields are immutable'')
      else if replacement = current then Inr False
      else if ts_revision replacement \<noteq> ts_revision current + 1
        then Inl (ToolsetRevisionConflict ''toolset revision transition was invalid'')
      else Inr True)"

definition toolset_save :: "string \<Rightarrow> toolset \<Rightarrow> toolset_store \<Rightarrow> toolset_store result" where
  "toolset_save tenant_id s d =
     (if tenant_id \<noteq> ts_tenant_id s then Inl tenant_mismatch
      else case dict_get d (ts_id s) of
        None \<Rightarrow> Inl (ValueError ''toolset does not exist in tenant'')
      | Some current \<Rightarrow>
          if ts_tenant_id current \<noteq> tenant_id then Inl (ValueError ''toolset does not exist in tenant'')
          else result_bind (requires_persistence_update current s) (\<lambda>needed.
            if \<not> needed then Inr d
            else if (case toolset_get_by_slug tenant_id (ts_slug s) d of
                       None \<Rightarrow> False | Some slug_owner \<Rightarrow> ts_id slug_owner \<noteq> ts_id s)
              then Inl (ValueError ''toolset slug already exists in tenant'')
            else if ts_kind s = ALL_PUBLISHED \<and>
                    (case toolset_get_all_published tenant_id d of
                       None \<Rightarrow> False | Some all_published \<Rightarrow> ts_id all_published \<noteq> ts_id s)
              then Inl (ValueError ''all_published toolset already exists in tenant'')
            else Inr (dict_set (ts_id s) s d)))"

definition toolset_get :: "string \<Rightarrow> string \<Rightarrow> toolset_store \<Rightarrow> toolset option" where
  "toolset_get tenant_id toolset_id d = scoped_get ts_tenant_id tenant_id toolset_id d"

definition toolset_list_by_tenant :: "string \<Rightarrow> toolset_store \<Rightarrow> toolset list" where
  "toolset_list_by_tenant tenant_id d = sort_key ts_slug [s \<leftarrow> dict_values d. ts_tenant_id s = tenant_id]"

definition list_granted_active :: "string \<Rightarrow> string \<Rightarrow> toolset_store \<Rightarrow> toolset list" where
  "list_granted_active tenant_id principal_id d =
     [s \<leftarrow> toolset_list_by_tenant tenant_id d.
        ts_status s = TOOLSET_ACTIVE \<and> principal_id \<in> set (ts_principal_ids s)]"

text \<open>What the constructor re-checks each time a unit of work copies the repository.\<close>

definition toolset_seed_ok :: "toolset_store \<Rightarrow> bool" where
  "toolset_seed_ok d \<longleftrightarrow>
     distinct (map ts_id (dict_values d)) \<and>
     distinct (map (\<lambda>s. (ts_tenant_id s, ts_slug s)) (dict_values d)) \<and>
     distinct (map ts_tenant_id [s \<leftarrow> dict_values d. ts_kind s = ALL_PUBLISHED])"

lemma requires_persistence_True:
  "requires_persistence_update c s = Inr True \<Longrightarrow> ts_revision s = ts_revision c + 1"
  by (auto simp: requires_persistence_update_def split: if_splits)

lemma requires_persistence_False:
  "requires_persistence_update c s = Inr False \<Longrightarrow> s = c"
  by (auto simp: requires_persistence_update_def split: if_splits)

interpretation toolset_repo: keyed_repository ts_id ts_tenant_id toolset_add toolset_save
proof unfold_locales
  fix t s d d'
  show "toolset_add t s d = Inr d' \<Longrightarrow>
      ts_tenant_id s = t \<and> dict_get d (ts_id s) = None \<and> d' = dict_set (ts_id s) s d"
    by (auto simp: toolset_add_def split: if_splits)
  show "toolset_save t s d = Inr d' \<Longrightarrow>
      ts_tenant_id s = t \<and> (\<exists>c. dict_get d (ts_id s) = Some c \<and> ts_tenant_id c = t) \<and>
      (d' = dict_set (ts_id s) s d \<or> d' = d \<and> dict_get d (ts_id s) = Some s)"
    by (auto simp: toolset_save_def result_bind_Inr_iff split: if_splits option.splits
        dest: requires_persistence_False)
qed

section \<open>Catalog snapshots\<close>

record catalog_snapshot =
  sn_tool_id :: string
  sn_tenant_id :: string
  sn_availability :: member_availability
  sn_published_tool_version_id :: "string option"
  sn_canonical_name :: "string option"
  sn_description :: "string option"
  sn_serialized_schema_size :: int

definition snapshot_post_init :: "catalog_snapshot \<Rightarrow> catalog_snapshot result" where
  "snapshot_post_init s = validated
     [(blank (sn_tool_id s) \<or> blank (sn_tenant_id s), ''catalog snapshot ids must not be blank''),
      (sn_availability s = AVAILABLE \<and>
         (sn_published_tool_version_id s = None \<or> sn_published_tool_version_id s = Some []),
       ''available catalog snapshot requires published version id''),
      (sn_availability s \<noteq> AVAILABLE \<and> sn_published_tool_version_id s \<noteq> None,
       ''unavailable catalog snapshot must not expose published version id''),
      (sn_serialized_schema_size s < 0, ''catalog snapshot schema size must not be negative'')] s"

type_synonym snapshot_store = "(string \<times> string, catalog_snapshot) dict"

definition list_member_snapshots :: "string \<Rightarrow> string list \<Rightarrow> snapshot_store \<Rightarrow> catalog_snapshot list" where
  "list_member_snapshots tenant_id tool_ids d =
     List.map_filter (\<lambda>tool_id. dict_get d (tenant_id, tool_id)) tool_ids"

definition list_published_snapshots :: "string \<Rightarrow> snapshot_store \<Rightarrow> catalog_snapshot list" where
  "list_published_snapshots tenant_id d =
     sort_key (\<lambda>s. (case sn_canonical_name s of None \<Rightarrow> [] | Some n \<Rightarrow> n, sn_tool_id s))
       [s \<leftarrow> dict_values d. sn_tenant_id s = tenant_id \<and> sn_availability s = AVAILABLE]"

section \<open>Unit of work\<close>

record toolset_db =
  td_toolsets :: toolset_store
  td_snapshots :: snapshot_store

definition on_toolsets :: "(toolset_store \<Rightarrow> toolset_store result) \<Rightarrow> toolset_db \<Rightarrow> toolset_db result" where
  "on_toolsets = on_field td_toolsets td_toolsets_update"

end
