(* ===== verification/Toolset_Use_Cases.thy ===== *)
theory Toolset_Use_Cases
  imports Toolset_Store
begin

text \<open>
  The admin use cases over toolsets (\<open>toolsets/use_cases.py\<close>). Each runs in one unit of work: lock the
  aggregate, apply the domain operation, save, build the profile, commit. Domain refusals are
  \<open>ValueError\<close>s that the \<open>except\<close> clauses turn into application errors.
\<close>

section \<open>Commands and profiles\<close>

record create_toolset_command =
  ct_context :: actor_context
  ct_slug :: string
  ct_name :: string
  ct_description :: "string option"
  ct_discovery_mode :: toolset_discovery_mode

record update_toolset_command =
  ut_context :: actor_context
  ut_toolset_id :: string
  ut_expected_revision :: int
  ut_name :: string
  ut_description :: "string option"
  ut_discovery_mode :: toolset_discovery_mode

record replace_members_command =
  rm_context :: actor_context
  rm_toolset_id :: string
  rm_expected_revision :: int
  rm_tool_ids :: "string list"

record replace_grants_command =
  rg_context :: actor_context
  rg_toolset_id :: string
  rg_expected_revision :: int
  rg_principal_ids :: "string list"

record change_status_command =
  cs_context :: actor_context
  cs_toolset_id :: string
  cs_expected_revision :: int

record list_toolsets_query =
  lq_context :: actor_context
  lq_offset :: nat
  lq_limit :: nat
  lq_text :: "string option"
  lq_status :: "toolset_status option"
  lq_kind :: "toolset_kind option"
  lq_discovery_mode :: "toolset_discovery_mode option"

record member_profile =
  mp_tool_id :: string
  mp_canonical_name :: "string option"
  mp_description :: "string option"
  mp_availability :: member_availability
  mp_published_tool_version_id :: "string option"
  mp_serialized_schema_size :: int

record toolset_profile =
  pf_id :: string
  pf_tenant_id :: string
  pf_slug :: string
  pf_name :: string
  pf_description :: "string option"
  pf_kind :: toolset_kind
  pf_discovery_mode :: toolset_discovery_mode
  pf_status :: toolset_status
  pf_revision :: int
  pf_membership_digest :: string
  pf_endpoint_path :: string
  pf_health :: toolset_health
  pf_tool_count :: nat
  pf_available_tool_count :: nat
  pf_serialized_schema_size :: int
  pf_principal_ids :: "string list"
  pf_members :: "member_profile list"
  pf_created_by :: string
  pf_created_at :: datetime
  pf_updated_at :: datetime

record 'a page =
  pg_items :: "'a list"
  pg_offset :: nat
  pg_limit :: nat
  pg_total :: nat

section \<open>Helpers\<close>

definition member_profile_of :: "catalog_snapshot \<Rightarrow> member_profile" where
  "member_profile_of s =
     \<lparr>mp_tool_id = sn_tool_id s, mp_canonical_name = sn_canonical_name s, mp_description = sn_description s,
      mp_availability = sn_availability s, mp_published_tool_version_id = sn_published_tool_version_id s,
      mp_serialized_schema_size = sn_serialized_schema_size s\<rparr>"

definition profile_health :: "nat \<Rightarrow> nat \<Rightarrow> toolset_health" where
  "profile_health expected_count available_count =
     (if expected_count = 0 \<or> available_count = 0 then UNAVAILABLE
      else if available_count = expected_count then HEALTHY
      else DEGRADED)"

definition profile_of :: "toolset \<Rightarrow> toolset_db \<Rightarrow> toolset_profile" where
  "profile_of s w =
     (let snapshots = (if ts_kind s = ALL_PUBLISHED
            then list_published_snapshots (ts_tenant_id s) (td_snapshots w)
            else list_member_snapshots (ts_tenant_id s) (ts_tool_ids s) (td_snapshots w));
          profiles = map member_profile_of snapshots;
          available_count = length (filter (\<lambda>p. mp_availability p = AVAILABLE) profiles);
          expected_count = (if ts_kind s = ALL_PUBLISHED then length profiles else length (ts_members s))
      in \<lparr>pf_id = ts_id s, pf_tenant_id = ts_tenant_id s, pf_slug = ts_slug s, pf_name = ts_name s,
          pf_description = ts_description s, pf_kind = ts_kind s, pf_discovery_mode = ts_discovery_mode s,
          pf_status = ts_status s, pf_revision = ts_revision s, pf_membership_digest = ts_membership_digest s,
          pf_endpoint_path = ''/mcp/toolsets/'' @ ts_slug s,
          pf_health = profile_health expected_count available_count, pf_tool_count = expected_count,
          pf_available_tool_count = available_count,
          pf_serialized_schema_size = sum_list (map mp_serialized_schema_size profiles),
          pf_principal_ids = ts_principal_ids s, pf_members = profiles, pf_created_by = ts_created_by s,
          pf_created_at = ts_created_at s, pf_updated_at = ts_updated_at s\<rparr>)"

definition get_locked :: "actor_context \<Rightarrow> string \<Rightarrow> (('t, toolset_db) tx, toolset) prog" where
  "get_locked context' toolset_id =
     bind (query (\<lambda>w. toolset_get (cx_tenant_id context') toolset_id (td_toolsets w))) (\<lambda>found.
       require_some found (NexusError ToolsetNotFoundError))"

definition require_available :: "catalog_snapshot list \<Rightarrow> nat option \<Rightarrow> unit result" where
  "require_available snapshots expected_count =
     (if expected_count \<noteq> None \<and> Some (length snapshots) \<noteq> expected_count
      then Inl (NexusError InvalidToolsetMembersError)
      else if list_ex (\<lambda>s. sn_availability s \<noteq> AVAILABLE) snapshots
        then Inl (NexusError ToolsetMemberUnavailableError)
      else Inr ())"

definition require_expected_revision :: "toolset \<Rightarrow> int \<Rightarrow> unit result" where
  "require_expected_revision s expected_revision =
     (if ts_revision s \<noteq> expected_revision then Inl (NexusError ToolsetRevisionConflictError) else Inr ())"

fun map_mutation_error :: "exn \<Rightarrow> exn" where
  "map_mutation_error (ToolsetRevisionConflict _) = NexusError ToolsetRevisionConflictError"
| "map_mutation_error (SystemToolsetMutationError _) = NexusError SystemToolsetImmutableError"
| "map_mutation_error _ = invalid_arguments"

text \<open>\<open>try: \<dots> except ValueError as error: raise f(error)\<close>\<close>

definition mapping_value_error :: "(exn \<Rightarrow> exn) \<Rightarrow> ('s, 'a) prog \<Rightarrow> ('s, 'a) prog" where
  "mapping_value_error f m = catch m (\<lambda>e. raise (if is_value_error e then f e else e))"

text \<open>The common end of the mutations: apply and save inside the \<open>try\<close>, then profile and commit.\<close>

definition save_mutation ::
  "string \<Rightarrow> (datetime \<Rightarrow> toolset result) \<Rightarrow> ((datetime, toolset_db) tx, toolset_profile) prog" where
  "save_mutation tenant_id operation =
     bind (mapping_value_error map_mutation_error
            (bind clock_now (\<lambda>now.
             bind (lift (operation now)) (\<lambda>updated.
             seq (update (on_toolsets (toolset_save tenant_id updated)))
               (ret updated))))) (\<lambda>updated.
     bind (query (profile_of updated)) (\<lambda>profile.
     seq commit
       (ret profile)))"

section \<open>Use cases\<close>

definition get_toolset :: "actor_context \<Rightarrow> string \<Rightarrow> (('t, toolset_db) sys, toolset_profile) prog" where
  "get_toolset context' toolset_id =
     with_uow
       (bind (query (\<lambda>w. toolset_get (cx_tenant_id context') toolset_id (td_toolsets w))) (\<lambda>found.
        bind (require_some found (NexusError ToolsetNotFoundError)) (\<lambda>s.
          query (profile_of s))))"

definition create_toolset ::
  "(string \<Rightarrow> string) \<Rightarrow> create_toolset_command \<Rightarrow> ((datetime, toolset_db) sys, toolset_profile) prog" where
  "create_toolset sha command =
     bind clock_now (\<lambda>now.
     bind (mapping_value_error (\<lambda>_. invalid_arguments)
            (bind new_id (\<lambda>fresh.
              lift (create_explicit sha fresh (cx_tenant_id (ct_context command)) (ct_slug command)
                     (ct_name command) (ct_description command) (cx_principal_id (ct_context command))
                     now (ct_discovery_mode command))))) (\<lambda>s.
     seq (with_uow
            (bind (query (\<lambda>w. toolset_get_by_slug (ts_tenant_id s) (ts_slug s) (td_toolsets w))) (\<lambda>existing.
             seq (raise_if (existing \<noteq> None) (NexusError ToolsetConflictError))
               (mapping_value_error (\<lambda>_. NexusError ToolsetConflictError)
                 (seq (update (on_toolsets (toolset_add (ts_tenant_id s) s))) commit)))))
       (get_toolset (ct_context command) (ts_id s))))"

definition new_system_toolset ::
  "(string \<Rightarrow> string) \<Rightarrow> string \<Rightarrow> string list \<Rightarrow> ((datetime, toolset_db) tx, toolset) prog" where
  "new_system_toolset sha tenant_id principal_ids =
     bind new_id (\<lambda>fresh.
     bind clock_now (\<lambda>now.
     bind (lift (create_all_published sha fresh tenant_id ''system'' now)) (\<lambda>s.
       if principal_ids \<noteq> []
       then bind clock_now (\<lambda>later.
              lift (replace_grants sha s (ts_revision s) principal_ids ''system'' later))
       else ret s)))"

text \<open>The first block: \<open>Some\<close> when it returned from the function, \<open>None\<close> when it fell through.\<close>

definition bootstrap_toolset ::
  "(string \<Rightarrow> string) \<Rightarrow> string \<Rightarrow> string list \<Rightarrow> ((datetime, toolset_db) tx, toolset option) prog" where
  "bootstrap_toolset sha tenant_id principal_ids =
     bind (query (\<lambda>w. toolset_get_all_published tenant_id (td_toolsets w))) (\<lambda>found. case found of
       Some _ \<Rightarrow> ret None
     | None \<Rightarrow>
         bind (new_system_toolset sha tenant_id principal_ids) (\<lambda>s.
           catch (seq (update (on_toolsets (toolset_add tenant_id s)))
                 (seq commit
                   (ret (Some s))))
             (\<lambda>e. if is_value_error e then seq rollback (ret None) else raise e)))"

definition merge_system_grants ::
  "(string \<Rightarrow> string) \<Rightarrow> string \<Rightarrow> string list \<Rightarrow> ((datetime, toolset_db) tx, toolset) prog" where
  "merge_system_grants sha tenant_id principal_ids =
     bind (query (\<lambda>w. toolset_get_all_published tenant_id (td_toolsets w))) (\<lambda>found.
     bind (require_some found (NexusError ToolsetConflictError)) (\<lambda>s.
     bind clock_now (\<lambda>now.
     bind (lift (replace_grants sha s (ts_revision s) (sorted_set (ts_principal_ids s @ principal_ids))
                   ''system'' now)) (\<lambda>updated.
     seq (update (on_toolsets (toolset_save tenant_id updated)))
    (seq commit
       (ret updated))))))"

definition ensure_all_published ::
  "(string \<Rightarrow> string) \<Rightarrow> string \<Rightarrow> string list \<Rightarrow> ((datetime, toolset_db) sys, toolset) prog" where
  "ensure_all_published sha tenant_id principal_ids =
     bind (with_uow (bootstrap_toolset sha tenant_id principal_ids)) (\<lambda>returned. case returned of
       Some s \<Rightarrow> ret s
     | None \<Rightarrow> with_uow (merge_system_grants sha tenant_id principal_ids))"

definition update_toolset ::
  "(string \<Rightarrow> string) \<Rightarrow> update_toolset_command \<Rightarrow> ((datetime, toolset_db) sys, toolset_profile) prog" where
  "update_toolset sha command =
     with_uow
       (bind (get_locked (ut_context command) (ut_toolset_id command)) (\<lambda>s.
          save_mutation (cx_tenant_id (ut_context command))
            (update_profile sha s (ut_expected_revision command) (ut_name command)
               (ut_description command) (ut_discovery_mode command))))"

definition replace_toolset_members ::
  "(string \<Rightarrow> string) \<Rightarrow> replace_members_command \<Rightarrow> ((datetime, toolset_db) sys, toolset_profile) prog" where
  "replace_toolset_members sha command =
    (let tenant_id = cx_tenant_id (rm_context command); requested = sorted_set (rm_tool_ids command) in
     with_uow
       (bind (get_locked (rm_context command) (rm_toolset_id command)) (\<lambda>s.
        seq (lift (require_expected_revision s (rm_expected_revision command)))
       (bind (query (\<lambda>w. list_member_snapshots tenant_id requested (td_snapshots w))) (\<lambda>snapshots.
        seq (raise_if (set (map sn_tool_id snapshots) \<noteq> set requested) (NexusError InvalidToolsetMembersError))
       (seq (if ts_status s = TOOLSET_ACTIVE then lift (require_available snapshots None) else ret ())
         (save_mutation tenant_id
           (replace_members sha s (rm_expected_revision command) requested
              (cx_principal_id (rm_context command))))))))))"

definition replace_toolset_grants ::
  "(string \<Rightarrow> string) \<Rightarrow> replace_grants_command \<Rightarrow> ((datetime, toolset_db) sys, toolset_profile) prog" where
  "replace_toolset_grants sha command =
     with_uow
       (bind (get_locked (rg_context command) (rg_toolset_id command)) (\<lambda>s.
          save_mutation (cx_tenant_id (rg_context command))
            (replace_grants sha s (rg_expected_revision command) (rg_principal_ids command)
               (cx_principal_id (rg_context command)))))"

definition activate_toolset ::
  "(string \<Rightarrow> string) \<Rightarrow> change_status_command \<Rightarrow> ((datetime, toolset_db) sys, toolset_profile) prog" where
  "activate_toolset sha command =
    (let tenant_id = cx_tenant_id (cs_context command) in
     with_uow
       (bind (get_locked (cs_context command) (cs_toolset_id command)) (\<lambda>s.
        seq (lift (require_expected_revision s (cs_expected_revision command)))
       (bind (query (\<lambda>w. list_member_snapshots tenant_id (ts_tool_ids s) (td_snapshots w))) (\<lambda>snapshots.
        seq (lift (require_available snapshots (Some (length (ts_tool_ids s)))))
          (save_mutation tenant_id (toolset_activate sha s (cs_expected_revision command))))))))"

definition disable_toolset ::
  "(string \<Rightarrow> string) \<Rightarrow> change_status_command \<Rightarrow> ((datetime, toolset_db) sys, toolset_profile) prog" where
  "disable_toolset sha command =
     with_uow
       (bind (get_locked (cs_context command) (cs_toolset_id command)) (\<lambda>s.
          save_mutation (cx_tenant_id (cs_context command))
            (toolset_disable sha s (cs_expected_revision command))))"

text \<open>
  \<open>str.casefold\<close> on Latin-1: lower case, and the sharp s becomes \<open>ss\<close>. The micro sign folds to a
  Greek mu outside Latin-1; no other Latin-1 string contains that letter, so for comparing two folded
  strings it can stand for itself.
\<close>

definition py_casefold :: "string \<Rightarrow> string" where
  "py_casefold s =
     concat (map (\<lambda>c. if (of_char c :: nat) = 223 then ''ss'' else [py_lower_char c]) s)"

definition toolset_selected :: "list_toolsets_query \<Rightarrow> toolset \<Rightarrow> bool" where
  "toolset_selected q s \<longleftrightarrow>
     (case lq_text q of
        None \<Rightarrow> True
      | Some t \<Rightarrow> t = [] \<or> occurs_in (py_strip (py_casefold t)) (py_casefold (ts_name s @ '' '' @ ts_slug s))) \<and>
     (case lq_status q of None \<Rightarrow> True | Some st \<Rightarrow> ts_status s = st) \<and>
     (case lq_kind q of None \<Rightarrow> True | Some k \<Rightarrow> ts_kind s = k) \<and>
     (case lq_discovery_mode q of None \<Rightarrow> True | Some m \<Rightarrow> ts_discovery_mode s = m)"

definition list_toolsets :: "list_toolsets_query \<Rightarrow> (('t, toolset_db) sys, toolset_profile page) prog" where
  "list_toolsets q =
     with_uow
       (bind (query (\<lambda>w. toolset_list_by_tenant (cx_tenant_id (lq_context q)) (td_toolsets w))) (\<lambda>candidates.
        let selected = filter (toolset_selected q) candidates;
            window = take (lq_limit q) (drop (lq_offset q) selected)
        in query (\<lambda>w. \<lparr>pg_items = map (\<lambda>s. profile_of s w) window, pg_offset = lq_offset q,
             pg_limit = lq_limit q, pg_total = length selected\<rparr>)))"

end
