(* ===== verification/Toolset_Runtime.thy ===== *)
theory Toolset_Runtime
  imports Toolset_Use_Cases
begin

text \<open>
  Which tools an MCP endpoint offers to a principal (\<open>toolsets/runtime.py\<close>): the endpoint's scope is
  resolved to toolsets, the toolsets to member snapshots, and these against the published
  projections, which come from the catalog's reader after the toolset transaction is over.
\<close>

datatype endpoint_scope_type = SCOPE_ROOT | SCOPE_TOOLSET

record endpoint_scope =
  es_type :: endpoint_scope_type
  es_toolset_slug :: "string option"

definition endpoint_scope_post_init :: "endpoint_scope \<Rightarrow> endpoint_scope result" where
  "endpoint_scope_post_init e = validated
     [(es_type e = SCOPE_ROOT \<and> es_toolset_slug e \<noteq> None,
       ''root endpoint scope must not contain toolset slug''),
      (es_type e = SCOPE_TOOLSET \<and> (es_toolset_slug e = None \<or> es_toolset_slug e = Some []),
       ''toolset endpoint scope requires slug'')] e"

definition root_scope :: "endpoint_scope result" where
  "root_scope = endpoint_scope_post_init \<lparr>es_type = SCOPE_ROOT, es_toolset_slug = None\<rparr>"

definition toolset_scope :: "string \<Rightarrow> endpoint_scope result" where
  "toolset_scope slug = endpoint_scope_post_init \<lparr>es_type = SCOPE_TOOLSET, es_toolset_slug = Some slug\<rparr>"

record resolved_access =
  ra_endpoint_scope :: endpoint_scope
  ra_tools :: "published_tool list"
  ra_unavailable_tool_names :: "string list"
  ra_discovery_mode :: "toolset_discovery_mode option"
  ra_toolset_id :: "string option"
  ra_toolset_revision :: "int option"

definition available_tool_ids :: "resolved_access \<Rightarrow> string list" where
  "available_tool_ids a = map pt_tool_id (ra_tools a)"

definition require_business_tool :: "resolved_access \<Rightarrow> string \<Rightarrow> unit result" where
  "require_business_tool a canonical_name =
     (if list_ex (\<lambda>p. pt_canonical_name p = canonical_name) (ra_tools a) then Inr ()
      else if canonical_name \<in> set (ra_unavailable_tool_names a)
        then Inl (NexusError ToolsetMemberUnavailableError)
      else Inl (NexusError ToolsetAccessDeniedError))"

definition require_scoped_access :: "toolset option \<Rightarrow> string \<Rightarrow> toolset result" where
  "require_scoped_access found principal_id =
     (case found of
        None \<Rightarrow> Inl (NexusError ToolsetNotFoundError)
      | Some s \<Rightarrow>
          if ts_status s \<noteq> TOOLSET_ACTIVE then Inl (NexusError ToolsetNotActiveError)
          else if principal_id \<notin> set (ts_principal_ids s) then Inl (NexusError ToolsetAccessDeniedError)
          else Inr s)"

definition member_snapshots :: "string \<Rightarrow> toolset list \<Rightarrow> snapshot_store \<Rightarrow> catalog_snapshot list" where
  "member_snapshots tenant_id toolsets d =
     list_member_snapshots tenant_id
       (sorted_set (concat (map ts_tool_ids (filter (\<lambda>s. ts_kind s = EXPLICIT) toolsets)))) d"

definition eligible_tools :: "string \<Rightarrow> bool \<Rightarrow> string list \<Rightarrow> published_tool list \<Rightarrow> published_tool list" where
  "eligible_tools principal_id allowed_all_published allowed_ids published =
     sort_key pt_canonical_name
       [p \<leftarrow> published. (allowed_all_published \<or> pt_tool_id p \<in> set allowed_ids) \<and> is_visible_to p principal_id]"

definition unavailable_names :: "catalog_snapshot list \<Rightarrow> published_tool list \<Rightarrow> string list" where
  "unavailable_names snapshots published =
     List.map_filter sn_canonical_name
       [s \<leftarrow> snapshots. sn_availability s \<noteq> AVAILABLE \<or> sn_tool_id s \<notin> set (map pt_tool_id published)]"

definition scope_toolsets ::
  "request_context \<Rightarrow> endpoint_scope \<Rightarrow> ((datetime, toolset_db) tx, toolset list) prog" where
  "scope_toolsets context' scope =
     (if es_type scope = SCOPE_TOOLSET
      then bind (require_some (es_toolset_slug scope) AssertionError) (\<lambda>slug.
           bind (query (\<lambda>w. toolset_get_by_slug (cx_tenant_id context') slug (td_toolsets w))) (\<lambda>found.
           bind (lift (require_scoped_access found (cx_principal_id context'))) (\<lambda>s.
             ret [s])))
      else query (\<lambda>w. list_granted_active (cx_tenant_id context') (cx_principal_id context') (td_toolsets w)))"

definition resolve_toolset_access ::
  "(string \<Rightarrow> published_tool list) \<Rightarrow> request_context \<Rightarrow> endpoint_scope \<Rightarrow>
   ((datetime, toolset_db) sys, resolved_access) prog" where
  "resolve_toolset_access list_published context' scope =
     bind (with_uow
             (bind (scope_toolsets context' scope) (\<lambda>toolsets.
              bind (query (\<lambda>w. member_snapshots (cx_tenant_id context') toolsets (td_snapshots w))) (\<lambda>snapshots.
                ret (toolsets, snapshots))))) (\<lambda>(toolsets, snapshots).
       let published = list_published (cx_tenant_id context');
           scoped = (if es_type scope = SCOPE_TOOLSET then Some (hd toolsets) else None)
       in ret
         \<lparr>ra_endpoint_scope = scope,
          ra_tools = eligible_tools (cx_principal_id context')
            (list_ex (\<lambda>s. ts_kind s = ALL_PUBLISHED) toolsets) (map sn_tool_id snapshots) published,
          ra_unavailable_tool_names = unavailable_names snapshots published,
          ra_discovery_mode = map_option ts_discovery_mode scoped,
          ra_toolset_id = map_option ts_id scoped,
          ra_toolset_revision = map_option ts_revision scoped\<rparr>)"

end
