(* ===== verification/Toolset_Correct.thy ===== *)
theory Toolset_Correct
  imports Toolset_Runtime
begin

text \<open>
  Correctness of the toolset aggregate and its store. \<open>toolset_step\<close> is what one domain operation may
  do to an aggregate; \<open>toolsets_ok\<close> is the invariant of the store, and \<open>toolsets_change\<close> what a use case
  may do to the store.
\<close>

section \<open>Aggregates\<close>

definition toolset_wf :: "(string \<Rightarrow> string) \<Rightarrow> toolset \<Rightarrow> bool" where
  "toolset_wf sha s \<longleftrightarrow> toolset_post_init sha s = Inr s"

lemma toolset_post_init_Inr [check_rules]: "toolset_post_init sha s = Inr r \<longleftrightarrow> r = s \<and> toolset_wf sha s"
  by (auto simp: toolset_wf_def toolset_post_init_def result_bind_Inr_iff split: if_splits)

lemma normalized_ids_Inr [check_rules]:
  "normalized_ids f vs = Inr ns \<longleftrightarrow> ns = sorted_set vs \<and> (\<forall>v \<in> set vs. \<not> blank v)"
  by (auto simp: normalized_ids_def check_rules)

lemma normalized_ids_Inl: "normalized_ids f vs = Inl e \<Longrightarrow> \<exists>m. e = ValueError m"
  by (auto simp: normalized_ids_def dest: validated_Inl)

lemma membership_digest_Inl: "calculate_membership_digest sha k ids = Inl e \<Longrightarrow> \<exists>m. e = ValueError m"
  by (auto simp: calculate_membership_digest_def result_bind_def dest: normalized_ids_Inl
      split: sum.splits if_splits)

lemma toolset_post_init_Inl: "toolset_post_init sha s = Inl e \<Longrightarrow> \<exists>m. e = ValueError m"
  by (auto simp: toolset_post_init_def result_bind_def dest: validated_Inl membership_digest_Inl
      split: sum.splits if_splits)

lemma require_revision_Inr [check_rules]: "require_revision s n = Inr u \<longleftrightarrow> n = ts_revision s"
  by (auto simp: require_revision_def)

lemma require_mutation_time_Inr [check_rules]:
  "require_mutation_time s now = Inr u \<longleftrightarrow> is_aware now \<and> instant_of (ts_updated_at s) \<le> instant_of now"
  by (auto simp: require_mutation_time_def check_rules require_aware_def)

text \<open>Identifiers are kept sorted: creation starts with none and every replacement sorts.\<close>

definition canonical_order :: "toolset \<Rightarrow> bool" where
  "canonical_order s \<longleftrightarrow> sorted (ts_tool_ids s) \<and> sorted (ts_principal_ids s)"

definition toolset_sound :: "(string \<Rightarrow> string) \<Rightarrow> toolset \<Rightarrow> bool" where
  "toolset_sound sha s \<longleftrightarrow> toolset_wf sha s \<and> canonical_order s"

definition same_toolset :: "toolset \<Rightarrow> toolset \<Rightarrow> bool" where
  "same_toolset s r \<longleftrightarrow>
     ts_id r = ts_id s \<and> ts_tenant_id r = ts_tenant_id s \<and> ts_slug r = ts_slug s \<and> ts_kind r = ts_kind s \<and>
     ts_created_by r = ts_created_by s \<and> ts_created_at r = ts_created_at s"

definition toolset_step :: "(string \<Rightarrow> string) \<Rightarrow> toolset \<Rightarrow> toolset \<Rightarrow> bool" where
  "toolset_step sha s r \<longleftrightarrow>
     r = s \<or>
     same_toolset s r \<and> ts_revision r = ts_revision s + 1 \<and>
       instant_of (ts_updated_at s) \<le> instant_of (ts_updated_at r) \<and>
       toolset_wf sha r \<and> (canonical_order s \<longrightarrow> canonical_order r)"

lemma collect_results_list_all2:
  "collect_results f ids = Inr xs \<Longrightarrow> (\<And>i x. i \<in> set ids \<Longrightarrow> f i = Inr x \<Longrightarrow> P i x) \<Longrightarrow> list_all2 P ids xs"
  unfolding collect_results_all2 by (erule list.rel_mono_strong) blast

lemma list_all2_map_id: "list_all2 (\<lambda>i x. g x = i \<and> R i x) ids xs \<Longrightarrow> map g xs = ids \<and> (\<forall>x \<in> set xs. R (g x) x)"
  by (induction rule: list_all2_induct) auto

lemma distinct_take_iff: "distinct xs \<longleftrightarrow> (\<forall>i < length xs. xs ! i \<notin> set (take i xs))"
proof (induction xs rule: rev_induct)
  case (snoc x xs)
  have "(\<forall>i < length (xs @ [x]). (xs @ [x]) ! i \<notin> set (take i (xs @ [x]))) \<longleftrightarrow>
      (\<forall>i < length xs. xs ! i \<notin> set (take i xs)) \<and> x \<notin> set xs"
    by (auto simp: All_less_Suc nth_append)
  then show ?case using snoc by auto
qed simp

text \<open>The loops of the two validators: every element passes, and no key repeats.\<close>

lemma pairwise_checks_iff:
  "(\<forall>c \<in> set (concat (map (\<lambda>(i, m). [(A m, a), (K m \<in> set (take i (map K ms)), b)]) (enumerate 0 ms))). \<not> fst c)
     \<longleftrightarrow> (\<forall>m \<in> set ms. \<not> A m) \<and> distinct (map K ms)"
proof -
  have "(\<forall>c \<in> set (concat (map (\<lambda>(i, m). [(A m, a), (K m \<in> set (take i (map K ms)), b)]) (enumerate 0 ms))). \<not> fst c)
     \<longleftrightarrow> (\<forall>(i, m) \<in> set (enumerate 0 ms). \<not> A m \<and> K m \<notin> set (take i (map K ms)))"
    by force
  also have "\<dots> \<longleftrightarrow> (\<forall>i < length ms. \<not> A (ms ! i) \<and> K (ms ! i) \<notin> set (take i (map K ms)))"
    by (force simp: in_set_enumerate_eq)
  also have "\<dots> \<longleftrightarrow> (\<forall>m \<in> set ms. \<not> A m) \<and> distinct (map K ms)"
    by (auto simp: distinct_take_iff [of "map K ms"] all_set_conv_all_nth)
  finally show ?thesis .
qed

lemma member_checks_ok [check_rules]:
  "(\<forall>c \<in> set (member_checks s). \<not> fst c) \<longleftrightarrow>
     (\<forall>m \<in> set (ts_members s). me_tenant_id m = ts_tenant_id s \<and> me_toolset_id m = ts_id s) \<and>
     distinct (ts_tool_ids s)"
  unfolding member_checks_def ts_tool_ids_def by (subst pairwise_checks_iff) auto

lemma grant_checks_ok [check_rules]:
  "(\<forall>c \<in> set (grant_checks s). \<not> fst c) \<longleftrightarrow>
     (\<forall>g \<in> set (ts_grants s). gr_tenant_id g = ts_tenant_id s \<and> gr_toolset_id g = ts_id s) \<and>
     distinct (ts_principal_ids s)"
  unfolding grant_checks_def ts_principal_ids_def by (subst pairwise_checks_iff) auto

lemma toolset_wf_checks:
  "toolset_wf sha s \<longleftrightarrow> (\<forall>c \<in> set (toolset_checks s). \<not> fst c) \<and>
     calculate_membership_digest sha (ts_kind s) (ts_tool_ids s) = Inr (ts_membership_digest s)"
  by (auto simp: toolset_wf_def toolset_post_init_def result_bind_Inr_iff validated_Inr_iff split: if_splits)

lemma toolset_wf_unique:
  assumes "toolset_wf sha s"
  shows "distinct (ts_tool_ids s)" "distinct (ts_principal_ids s)"
  using assms member_checks_ok [of s] grant_checks_ok [of s]
  unfolding toolset_wf_checks toolset_checks_def set_append ball_Un by blast+

section \<open>Operations step\<close>

lemma replacement_members_Inr:
  assumes "replacement_members s ids actor now = Inr ms"
  shows "map me_tool_id ms = ids" "\<forall>m \<in> set ms. me_tool_id m \<in> set (ts_tool_ids s) \<longrightarrow> m \<in> set (ts_members s)"
proof -
  have old: "map_of (map (\<lambda>m. (me_tool_id m, m)) (rev (ts_members s))) i = Some m \<Longrightarrow>
      m \<in> set (ts_members s) \<and> me_tool_id m = i" for i m
    by (auto dest!: map_of_SomeD)
  have new: "map_of (map (\<lambda>m. (me_tool_id m, m)) (rev (ts_members s))) i = None \<Longrightarrow> i \<notin> set (ts_tool_ids s)" for i
    by (force simp: ts_tool_ids_def map_of_eq_None_iff)
  have "list_all2 (\<lambda>i m. me_tool_id m = i \<and> (i \<in> set (ts_tool_ids s) \<longrightarrow> m \<in> set (ts_members s))) ids ms"
    using assms unfolding replacement_members_def
    by (rule collect_results_list_all2)
      (auto simp: member_post_init_def check_rules split: option.splits dest: old new)
  from list_all2_map_id [OF this] show "map me_tool_id ms = ids"
    "\<forall>m \<in> set ms. me_tool_id m \<in> set (ts_tool_ids s) \<longrightarrow> m \<in> set (ts_members s)" by auto
qed

lemma replacement_grants_Inr:
  assumes "replacement_grants s ids actor now = Inr gs"
  shows "map gr_principal_id gs = ids"
proof -
  have old: "map_of (map (\<lambda>g. (gr_principal_id g, g)) (rev (ts_grants s))) i = Some g \<Longrightarrow>
      gr_principal_id g = i" for i g
    by (auto dest!: map_of_SomeD)
  have "list_all2 (\<lambda>i g. gr_principal_id g = i \<and> True) ids gs"
    using assms unfolding replacement_grants_def
    by (rule collect_results_list_all2)
      (auto simp: grant_post_init_def check_rules split: option.splits dest: old)
  from list_all2_map_id [OF this] show ?thesis by simp
qed

lemmas toolset_op_rules = result_bind_Inr_iff check_rules toolset_step_def same_toolset_def canonical_order_def

lemma update_profile_step:
  "update_profile sha s n name desc mode now = Inr r \<Longrightarrow> toolset_step sha s r \<and> n = ts_revision s"
  by (auto simp: update_profile_def toolset_op_rules ts_tool_ids_def ts_principal_ids_def split: if_splits)

lemma toolset_activate_step:
  "toolset_activate sha s n now = Inr r \<Longrightarrow> toolset_step sha s r \<and> n = ts_revision s"
  by (auto simp: toolset_activate_def toolset_op_rules ts_tool_ids_def ts_principal_ids_def split: if_splits)

lemma toolset_disable_step:
  "toolset_disable sha s n now = Inr r \<Longrightarrow> toolset_step sha s r \<and> n = ts_revision s"
  by (auto simp: toolset_disable_def toolset_op_rules ts_tool_ids_def ts_principal_ids_def split: if_splits)

lemma replace_members_step:
  assumes "replace_members sha s n ids actor now = Inr r"
  shows "toolset_step sha s r" "n = ts_revision s" "ts_tool_ids r = sorted_set ids"
    "\<forall>m \<in> set (ts_members r). me_tool_id m \<in> set (ts_tool_ids s) \<longrightarrow> m \<in> set (ts_members s)"
  using assms
  by (auto simp: replace_members_def toolset_op_rules ts_tool_ids_def ts_principal_ids_def
      dest: replacement_members_Inr split: if_splits)

lemma replace_grants_step:
  assumes "replace_grants sha s n ids actor now = Inr r"
  shows "toolset_step sha s r" "n = ts_revision s" "ts_principal_ids r = sorted_set ids"
  using assms
  by (auto simp: replace_grants_def toolset_op_rules ts_tool_ids_def ts_principal_ids_def
      dest!: replacement_grants_Inr split: if_splits)

end
