(* ===== verification/Toolset_Transactions.thy ===== *)
theory Toolset_Transactions
  imports Toolset_Correct
begin

text \<open>
  The toolset store under the use cases: its invariant, what a save does to it, and the one
  transaction shape (\<open>save_mutation\<close>) that all mutations share.
\<close>

section \<open>Store invariant\<close>

definition slugs_unique :: "toolset_store \<Rightarrow> bool" where
  "slugs_unique d \<longleftrightarrow>
     (\<forall>k l a b. dict_get d k = Some a \<longrightarrow> dict_get d l = Some b \<longrightarrow> ts_tenant_id a = ts_tenant_id b \<longrightarrow>
        ts_slug a = ts_slug b \<longrightarrow> k = l)"

definition toolsets_ok :: "(string \<Rightarrow> string) \<Rightarrow> toolset_store \<Rightarrow> bool" where
  "toolsets_ok sha d \<longleftrightarrow> store_ok ts_id (toolset_sound sha) d \<and> slugs_unique d"

definition toolsets_change :: "(string \<Rightarrow> string) \<Rightarrow> toolset_store \<Rightarrow> toolset_store \<Rightarrow> bool" where
  "toolsets_change sha d d' \<longleftrightarrow>
     toolsets_ok sha d' \<and>
     (\<forall>k s. dict_get d k = Some s \<longrightarrow> (\<exists>r. dict_get d' k = Some r \<and> toolset_step sha s r))"

lemma toolset_step_refl [simp]: "toolset_step sha s s"
  by (simp add: toolset_step_def)

lemma toolsets_change_refl [simp]: "toolsets_ok sha d \<Longrightarrow> toolsets_change sha d d"
  by (auto simp: toolsets_change_def)

lemma toolsets_okD:
  assumes "toolsets_ok sha d"
  shows "keyed ts_id d" "slugs_unique d" "store_ok ts_id (toolset_sound sha) d"
  using assms by (auto simp: toolsets_ok_def store_ok_def)

lemma toolset_step_same: "toolset_step sha s r \<Longrightarrow> same_toolset s r"
  by (auto simp: toolset_step_def same_toolset_def)

lemma toolset_step_sound: "toolset_step sha s r \<Longrightarrow> toolset_sound sha s \<Longrightarrow> toolset_sound sha r"
  by (auto simp: toolset_step_def toolset_sound_def)

lemma dict_set_same: "dict_get d k = Some v \<Longrightarrow> dict_set k v d = d"
  by (induction d) (auto split: if_splits)

lemma toolset_by_slug_SomeD:
  assumes "toolset_get_by_slug t slug d = Some s" "keyed ts_id d"
  shows "dict_get d (ts_id s) = Some s \<and> ts_tenant_id s = t \<and> ts_slug s = slug"
  using find_Some_sat [OF assms(1) [unfolded toolset_get_by_slug_def]] keyed_value_get [OF assms(2)] by auto

lemma toolset_by_slug_NoneD:
  "toolset_get_by_slug t slug d = None \<Longrightarrow> dict_get d k = Some s \<Longrightarrow> \<not> (ts_tenant_id s = t \<and> ts_slug s = slug)"
  unfolding toolset_get_by_slug_def find_None by (drule dict_get_values) blast

lemma toolset_all_published_SomeD:
  assumes "toolset_get_all_published t d = Some s" "keyed ts_id d"
  shows "dict_get d (ts_id s) = Some s \<and> ts_tenant_id s = t \<and> ts_kind s = ALL_PUBLISHED"
  using find_Some_sat [OF assms(1) [unfolded toolset_get_all_published_def]] keyed_value_get [OF assms(2)]
  by auto

lemma toolset_all_published_NoneD:
  "toolset_get_all_published t d = None \<Longrightarrow> dict_get d k = Some s \<Longrightarrow>
     \<not> (ts_tenant_id s = t \<and> ts_kind s = ALL_PUBLISHED)"
  unfolding toolset_get_all_published_def find_None by (drule dict_get_values) blast

text \<open>The system toolset has a fixed slug, so unique slugs make it unique in its tenant.\<close>

lemma system_slug: "toolset_wf sha s \<Longrightarrow> ts_kind s = ALL_PUBLISHED \<Longrightarrow> ts_slug s = ''all-published''"
  by (auto simp: toolset_wf_checks toolset_checks_def)

lemma one_system_toolset:
  assumes "toolsets_ok sha d" "dict_get d k = Some a" "dict_get d l = Some b"
    "ts_kind a = ALL_PUBLISHED" "ts_kind b = ALL_PUBLISHED" "ts_tenant_id a = ts_tenant_id b"
  shows "k = l"
proof -
  have "toolset_wf sha a" "toolset_wf sha b"
    using store_ok_get [OF toolsets_okD(3) [OF assms(1)] assms(2)]
      store_ok_get [OF toolsets_okD(3) [OF assms(1)] assms(3)] by (auto simp: toolset_sound_def)
  then have "ts_slug a = ts_slug b" using assms(4,5) system_slug by simp
  then show ?thesis using toolsets_okD(2) [OF assms(1)] assms(2,3,6) unfolding slugs_unique_def by blast
qed

lemma toolset_all_published_eq:
  assumes "toolsets_ok sha d" "dict_get d k = Some s" "ts_kind s = ALL_PUBLISHED"
  shows "toolset_get_all_published (ts_tenant_id s) d = Some s"
proof (cases "toolset_get_all_published (ts_tenant_id s) d")
  case None
  then show ?thesis using toolset_all_published_NoneD [OF None assms(2)] assms(3) by simp
next
  case (Some r)
  note r = toolset_all_published_SomeD [OF Some toolsets_okD(1) [OF assms(1)]]
  have "ts_id r = k" using one_system_toolset [OF assms(1) conjunct1 [OF r] assms(2)] r assms(3) by blast
  then have "r = s" using r assms(2) by (metis option.inject)
  then show ?thesis using Some by (simp only:)
qed

section \<open>Saving and adding\<close>

lemma toolset_save_step:
  assumes ok: "toolsets_ok sha d" and s: "dict_get d k = Some s" and st: "toolset_step sha s r"
  shows "toolset_save (ts_tenant_id s) r d = Inr (dict_set k r d)" and "toolsets_change sha d (dict_set k r d)"
proof -
  note D = toolsets_okD [OF ok]
  have k: "ts_id s = k" using keyed_get [OF D(1) s] .
  have same: "ts_id r = k" "ts_tenant_id r = ts_tenant_id s" "ts_slug r = ts_slug s" "ts_kind r = ts_kind s"
    "ts_created_by r = ts_created_by s" "ts_created_at r = ts_created_at s"
    using toolset_step_same [OF st] k by (auto simp: same_toolset_def)
  have slug: "ts_id c = k" if "toolset_get_by_slug (ts_tenant_id s) (ts_slug s) d = Some c" for c
    using toolset_by_slug_SomeD [OF that D(1)] D(2) s unfolding slugs_unique_def by blast
  have sys: "ts_id c = k" if "toolset_get_all_published (ts_tenant_id s) d = Some c" "ts_kind s = ALL_PUBLISHED" for c
    using toolset_all_published_eq [OF ok s that(2)] that(1) k by simp
  show "toolset_save (ts_tenant_id s) r d = Inr (dict_set k r d)"
  proof (cases "r = s")
    case True
    then show ?thesis
      using s k by (simp add: toolset_save_def requires_persistence_update_def dict_set_same)
  next
    case False
    then have rev: "ts_revision r = ts_revision s + 1" using st by (simp add: toolset_step_def)
    have "requires_persistence_update s r = Inr True"
      using False same k rev by (simp add: requires_persistence_update_def)
    then show ?thesis
      using s same slug sys by (auto simp: toolset_save_def split: option.splits)
  qed
  have snd: "toolset_sound sha r"
    using toolset_step_sound [OF st] store_ok_get [OF D(3) s] by blast
  have "slugs_unique (dict_set k r d)"
    using D(2) s same(2,3) unfolding slugs_unique_def by (auto; metis)
  then show "toolsets_change sha d (dict_set k r d)"
    unfolding toolsets_change_def toolsets_ok_def
    using store_ok_set [OF D(3) snd same(1)] s st by auto
qed

lemma toolset_add_change:
  assumes ok: "toolsets_ok sha d" and add: "toolset_add t s d = Inr d'" and snd: "toolset_sound sha s"
  shows "d' = dict_set (ts_id s) s d" "toolsets_change sha d d'"
proof -
  note D = toolsets_okD [OF ok]
  have d': "d' = dict_set (ts_id s) s d" "dict_get d (ts_id s) = None"
    and free: "toolset_get_by_slug (ts_tenant_id s) (ts_slug s) d = None"
    using add by (auto simp: toolset_add_def split: if_splits)
  have "slugs_unique d'"
    using D(2) toolset_by_slug_NoneD [OF free] unfolding d'(1) slugs_unique_def by (auto; metis)
  then show "toolsets_change sha d d'"
    unfolding toolsets_change_def toolsets_ok_def using store_ok_set [OF D(3) snd refl] d' by auto
  show "d' = dict_set (ts_id s) s d" by (rule d'(1))
qed

section \<open>The shared transaction\<close>

definition put_toolset :: "toolset \<Rightarrow> toolset_db \<Rightarrow> toolset_db" where
  "put_toolset r w = td_toolsets_update (dict_set (ts_id r) r) w"

lemma put_toolset_simps [simp]:
  "td_toolsets (put_toolset r w) = dict_set (ts_id r) r (td_toolsets w)"
  "td_snapshots (put_toolset r w) = td_snapshots w"
  by (simp_all add: put_toolset_def)

lemma toolset_get_Some: "toolset_get t k d = Some s \<longleftrightarrow> dict_get d k = Some s \<and> ts_tenant_id s = t"
  by (simp add: toolset_get_def scoped_get_Some)

lemma wp_get_locked [wp_rules]:
  "wp (get_locked cx k) Q x \<longleftrightarrow>
     (case toolset_get (cx_tenant_id cx) k (td_toolsets (working x)) of
        None \<Rightarrow> Q (Inl (NexusError ToolsetNotFoundError)) x | Some s \<Rightarrow> Q (Inr s) x)"
  by (simp add: get_locked_def wp_rules)

lemma wp_mapping_value_error [wp_rules]:
  "wp (mapping_value_error f m) Q x \<longleftrightarrow>
     wp m (\<lambda>r y. case r of Inl e \<Rightarrow> Q (Inl (if is_value_error e then f e else e)) y | Inr v \<Rightarrow> Q (Inr v) y) x"
  unfolding mapping_value_error_def wp_catch wp_raise by (rule refl)

text \<open>All that may come out of a use case that applies one domain operation to one aggregate.\<close>

lemma wp_save_mutation:
  assumes ok: "toolsets_ok sha (td_toolsets (working x))" and s: "toolset_get t k (td_toolsets (working x)) = Some s"
    and st: "\<And>r. operation (now_at x (ticks x)) = Inr r \<Longrightarrow> toolset_step sha s r"
  shows "wp (save_mutation t operation) Q x \<longleftrightarrow>
    (case operation (now_at x (ticks x)) of
       Inl e \<Rightarrow> Q (Inl (if is_value_error e then map_mutation_error e else e)) (x\<lparr>ticks := Suc (ticks x)\<rparr>)
     | Inr r \<Rightarrow> Q (Inr (profile_of r (put_toolset r (working x))))
         (x\<lparr>ticks := Suc (ticks x), working := put_toolset r (working x), db := put_toolset r (working x)\<rparr>))"
proof (cases "operation (now_at x (ticks x))")
  case (Inl e)
  then show ?thesis by (simp add: save_mutation_def wp_rules)
next
  case (Inr r)
  from s have g: "dict_get (td_toolsets (working x)) k = Some s" and t: "ts_tenant_id s = t"
    by (auto simp: toolset_get_Some)
  have "ts_id r = k"
    using toolset_step_same [OF st [OF Inr]] keyed_get [OF toolsets_okD(1) [OF ok] g]
    by (simp add: same_toolset_def)
  then have "on_toolsets (toolset_save t r) (working x) = Inr (put_toolset r (working x))"
    using toolset_save_step(1) [OF ok g st [OF Inr]] t
    by (cases "working x") (simp add: on_toolsets_def on_field_def put_toolset_def)
  then show ?thesis
    by (simp add: save_mutation_def wp_rules Inr sys.defs)
qed

end
