(* ===== verification/Toolset_Properties.thy ===== *)
theory Toolset_Properties
  imports Toolset_Transactions
begin

text \<open>
  What the toolset use cases promise. \<open>applied\<close> is the outcome they share: either nothing happened, or
  one domain operation was applied to the stored aggregate whose revision the caller named.
\<close>

section \<open>One operation applied\<close>

definition applied ::
  "(toolset \<Rightarrow> toolset result) \<Rightarrow> int \<Rightarrow> string \<Rightarrow> string \<Rightarrow> toolset_db \<Rightarrow> toolset_profile result \<Rightarrow>
   toolset_db \<Rightarrow> bool" where
  "applied operation n t k w r w' \<longleftrightarrow>
     (case r of
        Inl e \<Rightarrow> w' = w
      | Inr p \<Rightarrow> \<exists>s s'. toolset_get t k (td_toolsets w) = Some s \<and> ts_revision s = n \<and>
          operation s = Inr s' \<and> w' = put_toolset s' w \<and> p = profile_of s' w')"

lemma applied_change:
  assumes "toolsets_ok sha (td_toolsets w)" "applied operation n t k w r w'"
    and "\<And>s s'. operation s = Inr s' \<Longrightarrow> toolset_step sha s s'"
  shows "toolsets_change sha (td_toolsets w) (td_toolsets w')"
proof (cases r)
  case (Inl e)
  then show ?thesis using assms(1,2) by (simp add: applied_def)
next
  case (Inr p)
  then obtain s s' where s: "dict_get (td_toolsets w) k = Some s" "operation s = Inr s'" "w' = put_toolset s' w"
    using assms(2) by (auto simp: applied_def toolset_get_Some)
  have "ts_id s' = k"
    using toolset_step_same [OF assms(3) [OF s(2)]] keyed_get [OF toolsets_okD(1) [OF assms(1)] s(1)]
    by (simp add: same_toolset_def)
  then show ?thesis using toolset_save_step(2) [OF assms(1) s(1) assms(3) [OF s(2)]] s(3) by simp
qed

lemma applied_locked:
  assumes ok: "toolsets_ok sha (td_toolsets (db x))"
    and st: "\<And>s r. operation s (now_at x (ticks x)) = Inr r \<Longrightarrow> toolset_step sha s r \<and> n = ts_revision s"
  shows "wp (with_uow (bind (get_locked cx k) (\<lambda>s. save_mutation (cx_tenant_id cx) (operation s))))
    (\<lambda>r y. applied (\<lambda>s. operation s (now_at x (ticks x))) n (cx_tenant_id cx) k (db x) r (db y)) x"
proof (cases "toolset_get (cx_tenant_id cx) k (td_toolsets (db x))")
  case None
  then show ?thesis by (simp add: wp_rules applied_def)
next
  case (Some s)
  have "wp (save_mutation (cx_tenant_id cx) (operation s))
      (\<lambda>r y. applied (\<lambda>s. operation s (now_at x (ticks x))) n (cx_tenant_id cx) k (db x) r (db (exit_uow y)))
      (enter_uow x)"
    by (subst wp_save_mutation [of sha _ _ k s]) (use ok Some st in \<open>auto simp: applied_def split: sum.splits\<close>)
  then show ?thesis using Some by (simp add: wp_rules)
qed

text \<open>The five mutations, each as one applied operation.\<close>

lemma update_toolset_applied:
  "toolsets_ok sha (td_toolsets (db x)) \<Longrightarrow>
   wp (update_toolset sha c) (\<lambda>r y. applied (\<lambda>s. update_profile sha s (ut_expected_revision c) (ut_name c)
       (ut_description c) (ut_discovery_mode c) (now_at x (ticks x))) (ut_expected_revision c)
       (cx_tenant_id (ut_context c)) (ut_toolset_id c) (db x) r (db y)) x"
  unfolding update_toolset_def by (rule applied_locked) (auto dest: update_profile_step)

lemma replace_toolset_grants_applied:
  "toolsets_ok sha (td_toolsets (db x)) \<Longrightarrow>
   wp (replace_toolset_grants sha c) (\<lambda>r y. applied (\<lambda>s. replace_grants sha s (rg_expected_revision c)
       (rg_principal_ids c) (cx_principal_id (rg_context c)) (now_at x (ticks x))) (rg_expected_revision c)
       (cx_tenant_id (rg_context c)) (rg_toolset_id c) (db x) r (db y)) x"
  unfolding replace_toolset_grants_def by (rule applied_locked) (auto dest: replace_grants_step)

lemma disable_toolset_applied:
  "toolsets_ok sha (td_toolsets (db x)) \<Longrightarrow>
   wp (disable_toolset sha c) (\<lambda>r y. applied (\<lambda>s. toolset_disable sha s (cs_expected_revision c)
       (now_at x (ticks x))) (cs_expected_revision c)
       (cx_tenant_id (cs_context c)) (cs_toolset_id c) (db x) r (db y)) x"
  unfolding disable_toolset_def by (rule applied_locked) (auto dest: toolset_disable_step)

lemma applied_checked:
  assumes ok: "toolsets_ok sha (td_toolsets (db x))"
    and st: "\<And>s r. operation s (now_at x (ticks x)) = Inr r \<Longrightarrow> toolset_step sha s r \<and> n = ts_revision s"
    and s: "toolset_get t k (td_toolsets (db x)) = Some s"
  shows "wp (save_mutation t (operation s))
    (\<lambda>r y. applied (\<lambda>s. operation s (now_at x (ticks x))) n t k (db x) r (db (exit_uow y))) (enter_uow x)"
  by (subst wp_save_mutation [of sha _ _ k s]) (use ok s st in \<open>auto simp: applied_def split: sum.splits\<close>)

lemma activate_toolset_applied:
  assumes "toolsets_ok sha (td_toolsets (db x))"
  shows "wp (activate_toolset sha c) (\<lambda>r y. applied (\<lambda>s. toolset_activate sha s (cs_expected_revision c)
       (now_at x (ticks x))) (cs_expected_revision c)
       (cx_tenant_id (cs_context c)) (cs_toolset_id c) (db x) r (db y) \<and>
     (\<forall>p. r = Inr p \<longrightarrow> (\<exists>s. toolset_get (cx_tenant_id (cs_context c)) (cs_toolset_id c) (td_toolsets (db x)) = Some s \<and>
        require_available (list_member_snapshots (cx_tenant_id (cs_context c)) (ts_tool_ids s) (td_snapshots (db x)))
          (Some (length (ts_tool_ids s))) = Inr ()))) x"
proof -
  have "wp (save_mutation (cx_tenant_id (cs_context c)) (toolset_activate sha s (cs_expected_revision c)))
      (\<lambda>r y. applied (\<lambda>s. toolset_activate sha s (cs_expected_revision c) (now_at x (ticks x)))
        (cs_expected_revision c) (cx_tenant_id (cs_context c)) (cs_toolset_id c) (db x) r (db y)) (enter_uow x)"
    if "toolset_get (cx_tenant_id (cs_context c)) (cs_toolset_id c) (td_toolsets (db x)) = Some s" for s
    using applied_checked [OF assms _ that, of "\<lambda>s. toolset_activate sha s (cs_expected_revision c)"]
    by (auto dest: toolset_activate_step)
  then show ?thesis
    by (auto simp: activate_toolset_def Let_def wp_rules applied_def split: option.splits sum.splits
        elim!: wp_mono)
qed

lemma replace_toolset_members_applied:
  assumes "toolsets_ok sha (td_toolsets (db x))"
  shows "wp (replace_toolset_members sha c) (\<lambda>r y. applied (\<lambda>s. replace_members sha s (rm_expected_revision c)
       (sorted_set (rm_tool_ids c)) (cx_principal_id (rm_context c)) (now_at x (ticks x))) (rm_expected_revision c)
       (cx_tenant_id (rm_context c)) (rm_toolset_id c) (db x) r (db y) \<and>
     (\<forall>p. r = Inr p \<longrightarrow> set (map sn_tool_id (list_member_snapshots (cx_tenant_id (rm_context c))
          (sorted_set (rm_tool_ids c)) (td_snapshots (db x)))) = set (rm_tool_ids c))) x"
proof -
  have "wp (save_mutation (cx_tenant_id (rm_context c)) (replace_members sha s (rm_expected_revision c)
       (sorted_set (rm_tool_ids c)) (cx_principal_id (rm_context c))))
      (\<lambda>r y. applied (\<lambda>s. replace_members sha s (rm_expected_revision c)
       (sorted_set (rm_tool_ids c)) (cx_principal_id (rm_context c)) (now_at x (ticks x)))
        (rm_expected_revision c) (cx_tenant_id (rm_context c)) (rm_toolset_id c) (db x) r (db y)) (enter_uow x)"
    if "toolset_get (cx_tenant_id (rm_context c)) (rm_toolset_id c) (td_toolsets (db x)) = Some s" for s
    using applied_checked [OF assms _ that, of "\<lambda>s. replace_members sha s (rm_expected_revision c)
       (sorted_set (rm_tool_ids c)) (cx_principal_id (rm_context c))"]
    by (auto dest: replace_members_step)
  then show ?thesis
    by (auto simp: replace_toolset_members_def Let_def wp_rules applied_def split: option.splits sum.splits
        elim!: wp_mono)
qed

section \<open>Creation\<close>

lemma create_explicit_sound:
  "create_explicit sha i t slug name desc by' now mode = Inr s \<Longrightarrow>
     toolset_sound sha s \<and> ts_tenant_id s = t \<and> ts_slug s = slug \<and> ts_kind s = EXPLICIT \<and> ts_revision s = 1"
  by (auto simp: create_explicit_def result_bind_Inr_iff check_rules toolset_sound_def canonical_order_def
      ts_tool_ids_def ts_principal_ids_def)

lemma create_all_published_sound:
  "create_all_published sha i t by' now = Inr s \<Longrightarrow>
     toolset_sound sha s \<and> ts_tenant_id s = t \<and> ts_kind s = ALL_PUBLISHED \<and> ts_principal_ids s = []"
  by (auto simp: create_all_published_def check_rules toolset_sound_def canonical_order_def
      ts_tool_ids_def ts_principal_ids_def)

lemma on_toolsets_add:
  assumes "toolsets_ok sha (td_toolsets w)" "on_toolsets (toolset_add t s) w = Inr w'" "toolset_sound sha s"
  shows "w' = put_toolset s w" "toolsets_change sha (td_toolsets w) (td_toolsets w')" "ts_tenant_id s = t"
proof -
  obtain d where d: "toolset_add t s (td_toolsets w) = Inr d" "w' = td_toolsets_update (\<lambda>_. d) w"
    using assms(2) by (auto simp: on_toolsets_def on_field_Inr)
  note c = toolset_add_change [OF assms(1) d(1) assms(3)]
  show "w' = put_toolset s w" "toolsets_change sha (td_toolsets w) (td_toolsets w')"
    using c d(2) by (cases w; simp add: put_toolset_def)+
  show "ts_tenant_id s = t" using d(1) by (auto simp: toolset_add_def split: if_splits)
qed

lemma get_toolset_reads: "wp (get_toolset cx k) (\<lambda>r y. db y = db x) x"
  by (auto simp: get_toolset_def wp_rules split: option.splits)

lemma create_toolset_change:
  assumes ok: "toolsets_ok sha (td_toolsets (db x))"
  shows "wp (create_toolset sha c) (\<lambda>r y. toolsets_change sha (td_toolsets (db x)) (td_toolsets (db y))) x"
proof -
  have read: "wp (get_toolset cx k) (\<lambda>r y. toolsets_change sha (td_toolsets (db x)) (td_toolsets (db y))) z"
    if "toolsets_change sha (td_toolsets (db x)) (td_toolsets (db z))" for cx k and z :: "(datetime, toolset_db) sys"
    by (rule wp_mono [OF get_toolset_reads]) (use that in simp)
  show ?thesis
    unfolding create_toolset_def
    by (auto simp: wp_rules ok split: sum.splits option.splits intro!: read
        dest: create_explicit_sound on_toolsets_add(2) [OF ok])
qed

section \<open>The system toolset\<close>

lemma bootstrap_outcome:
  assumes ok: "toolsets_ok sha (td_toolsets (db x))" and w: "working x = db x"
  shows "wp (bootstrap_toolset sha t ps)
    (\<lambda>r y. case r of
       Inl e \<Rightarrow> db y = db x
     | Inr None \<Rightarrow> db y = db x
     | Inr (Some s) \<Rightarrow> toolset_get_all_published t (td_toolsets (db x)) = None \<and> db y = put_toolset s (db x) \<and>
         toolsets_change sha (td_toolsets (db x)) (td_toolsets (db y)) \<and> ts_tenant_id s = t \<and>
         ts_kind s = ALL_PUBLISHED \<and> ts_principal_ids s = sorted_set ps \<and> (\<forall>p \<in> set ps. \<not> blank p)) x"
proof -
  have made: "wp (new_system_toolset sha t ps)
      (\<lambda>r y. (\<forall>s. r = Inr s \<longrightarrow> toolset_sound sha s \<and> ts_tenant_id s = t \<and> ts_kind s = ALL_PUBLISHED \<and>
         ts_principal_ids s = sorted_set ps \<and> (\<forall>p \<in> set ps. \<not> blank p)) \<and>
       db y = db x \<and> working y = working x) x"
  proof -
    have grown: "toolset_sound sha s' \<and> ts_tenant_id s' = t \<and> ts_kind s' = ALL_PUBLISHED \<and>
         ts_principal_ids s' = sorted_set ps \<and> (\<forall>p \<in> set ps. \<not> blank p)"
      if "create_all_published sha i t by' now = Inr s" "replace_grants sha s n ps who later = Inr s'"
      for i by' now s n who later s'
    proof -
      note g = replace_grants_step [OF that(2)] and c = create_all_published_sound [OF that(1)]
      have "\<forall>p \<in> set ps. \<not> blank p"
        using that(2) by (auto simp: replace_grants_def result_bind_Inr_iff check_rules)
      then show ?thesis
        using g c toolset_step_sound [OF g(1)] toolset_step_same [OF g(1)] by (auto simp: same_toolset_def)
    qed
    show ?thesis
      unfolding new_system_toolset_def
      by (auto simp: wp_rules sorted_set_def split: sum.splits dest: grown create_all_published_sound)
  qed
  show ?thesis
    unfolding bootstrap_toolset_def
    using on_toolsets_add [OF ok] w
    by (auto simp: wp_rules split: option.splits sum.splits intro!: wp_mono [OF made])
qed

lemma merge_outcome:
  assumes ok: "toolsets_ok sha (td_toolsets (working x))"
  shows "wp (merge_system_grants sha t ps)
    (\<lambda>r y. case r of
       Inl e \<Rightarrow> db y = db x
     | Inr s \<Rightarrow> \<exists>s0. toolset_get_all_published t (td_toolsets (working x)) = Some s0 \<and>
         replace_grants sha s0 (ts_revision s0) (sorted_set (ts_principal_ids s0 @ ps)) ''system''
           (now_at x (ticks x)) = Inr s \<and>
         db y = put_toolset s (working x) \<and>
         toolsets_change sha (td_toolsets (working x)) (td_toolsets (db y))) x"
proof (cases "toolset_get_all_published t (td_toolsets (working x))")
  case None
  then show ?thesis by (simp add: merge_system_grants_def wp_rules)
next
  case (Some s0)
  note s0 = toolset_all_published_SomeD [OF Some toolsets_okD(1) [OF ok]]
  have "on_toolsets (toolset_save t s) (working x) = Inr (put_toolset s (working x)) \<and>
      toolsets_change sha (td_toolsets (working x)) (td_toolsets (put_toolset s (working x)))"
    if "replace_grants sha s0 (ts_revision s0) (sorted_set (ts_principal_ids s0 @ ps)) ''system''
           (now_at x (ticks x)) = Inr s" for s
  proof -
    note st = replace_grants_step(1) [OF that]
    have "ts_id s = ts_id s0" using toolset_step_same [OF st] by (simp add: same_toolset_def)
    then show ?thesis
      using toolset_save_step [OF ok conjunct1 [OF s0] st] s0
      by (cases "working x") (simp add: on_toolsets_def on_field_def put_toolset_def)
  qed
  then show ?thesis
    by (auto simp: merge_system_grants_def wp_rules Some split: sum.splits)
qed

definition ensured ::
  "(string \<Rightarrow> string) \<Rightarrow> string \<Rightarrow> string list \<Rightarrow> toolset_db \<Rightarrow> toolset result \<Rightarrow> toolset_db \<Rightarrow> bool" where
  "ensured sha t ps w r w' \<longleftrightarrow>
     (case r of
        Inl e \<Rightarrow> w' = w
      | Inr s \<Rightarrow> w' = put_toolset s w \<and> toolsets_change sha (td_toolsets w) (td_toolsets w') \<and>
          ts_tenant_id s = t \<and> ts_kind s = ALL_PUBLISHED \<and> (\<forall>p \<in> set (ts_principal_ids s). \<not> blank p) \<and>
          ts_principal_ids s = sorted_set ((case toolset_get_all_published t (td_toolsets w) of
            None \<Rightarrow> [] | Some s0 \<Rightarrow> ts_principal_ids s0) @ ps))"

lemma ensure_outcome:
  assumes ok: "toolsets_ok sha (td_toolsets (db x))"
  shows "wp (ensure_all_published sha t ps)
    (\<lambda>r y. ensured sha t ps (db x) r (db y)) x"
proof -
  have merged: "ts_tenant_id s = t \<and> ts_kind s = ALL_PUBLISHED \<and> (\<forall>p \<in> set (ts_principal_ids s). \<not> blank p) \<and>
      ts_principal_ids s = sorted_set (ts_principal_ids s0 @ ps)"
    if "toolset_get_all_published t (td_toolsets (db x)) = Some s0"
      "replace_grants sha s0 n (sorted_set (ts_principal_ids s0 @ ps)) who now = Inr s" for s0 s n who now
  proof -
    note g = replace_grants_step [OF that(2)]
    have "\<forall>p \<in> set (ts_principal_ids s0 @ ps). \<not> blank p"
      using that(2) by (simp add: replace_grants_def result_bind_Inr_iff check_rules)
    then show ?thesis
      using g toolset_step_same [OF g(1)] toolset_all_published_SomeD [OF that(1) toolsets_okD(1) [OF ok]]
      by (simp add: same_toolset_def)
  qed
  have merge: "wp (with_uow (merge_system_grants sha t ps))
    (\<lambda>r y. ensured sha t ps (db x) r (db y)) z"
    if "db z = db x" for z :: "(datetime, toolset_db) sys"
  proof -
    have "toolsets_ok sha (td_toolsets (working (enter_uow z)))" using ok that by simp
    from merge_outcome [OF this] show ?thesis
      unfolding wp_with_uow by (rule wp_mono) (auto simp: that ensured_def split: sum.splits dest: merged)
  qed
  have "toolsets_ok sha (td_toolsets (db (enter_uow x)))" "working (enter_uow x) = db (enter_uow x)"
    using ok by simp_all
  note B = bootstrap_outcome [OF this, of t ps]
  show ?thesis
    unfolding ensure_all_published_def wp_bind wp_with_uow wp_case_option
  proof (rule wp_mono [OF B])
    fix r :: "toolset option result" and y :: "(datetime, toolset_db) tx"
    assume 1: "case r of
       Inl e \<Rightarrow> db y = db (enter_uow x)
     | Inr None \<Rightarrow> db y = db (enter_uow x)
     | Inr (Some s) \<Rightarrow> toolset_get_all_published t (td_toolsets (db (enter_uow x))) = None \<and>
         db y = put_toolset s (db (enter_uow x)) \<and>
         toolsets_change sha (td_toolsets (db (enter_uow x))) (td_toolsets (db y)) \<and> ts_tenant_id s = t \<and>
         ts_kind s = ALL_PUBLISHED \<and> ts_principal_ids s = sorted_set ps \<and> (\<forall>p \<in> set ps. \<not> blank p)"
    show "case r of Inl e \<Rightarrow> ensured sha t ps (db x) (Inl e) (db (exit_uow y))
      | Inr made \<Rightarrow> (case made of
          None \<Rightarrow> wp (merge_system_grants sha t ps) (\<lambda>r z. ensured sha t ps (db x) r (db (exit_uow z)))
                    (enter_uow (exit_uow y))
        | Some s \<Rightarrow> wp (ret s) (\<lambda>r z. ensured sha t ps (db x) r (db z)) (exit_uow y))"
    proof (cases r)
      case (Inl e)
      then show ?thesis using 1 by (simp add: ensured_def)
    next
      case (Inr made)
      show ?thesis
      proof (cases made)
        case None
        then have "db (exit_uow y) = db x" using 1 Inr by simp
        from merge [OF this] show ?thesis using Inr None by (simp add: wp_with_uow)
      next
        case (Some s)
        then show ?thesis using 1 Inr by (auto simp: ensured_def wp_ret)
      qed
    qed
  qed
qed

end
