(* ===== verification/Toolset_Claims.thy ===== *)
theory Toolset_Claims
  imports Toolset_Properties Registry_Correct
begin

text \<open>The promises of the toolset module, over the transactions of \<open>Toolset_Properties\<close>.\<close>

section \<open>Membership\<close>

lemma membership_digest_set:
  "set xs = set ys \<Longrightarrow> calculate_membership_digest sha k xs = calculate_membership_digest sha k ys"
proof -
  assume h: "set xs = set ys"
  have "normalized_ids f xs = normalized_ids f ys" for f
  proof (cases "\<forall>v \<in> set xs. \<not> blank v")
    case True
    then have "normalized_ids f xs = Inr (sorted_set xs)" "normalized_ids f ys = Inr (sorted_set ys)"
      using h by (simp_all add: normalized_ids_Inr)
    then show ?thesis using sorted_set_cong [OF h] by simp
  next
    case False
    have err: "normalized_ids f vs = Inl (ValueError (f @ '' must not be blank''))" if "\<exists>v \<in> set vs. blank v" for vs
    proof -
      have "first_error (map (\<lambda>v. (blank v, f @ '' must not be blank'')) vs) = Some (f @ '' must not be blank'')"
        using that by (induction vs) auto
      then show ?thesis by (simp add: normalized_ids_def validated_def non_blank_checks_def o_def)
    qed
    show ?thesis using err [of xs] err [of ys] False h by auto
  qed
  then show ?thesis by (simp add: calculate_membership_digest_def)
qed

lemma replace_members_digest:
  assumes "replace_members sha s n ids actor now = Inr r" "toolset_wf sha s"
  shows "calculate_membership_digest sha EXPLICIT ids = Inr (ts_membership_digest r)" "ts_kind r = EXPLICIT"
proof -
  have k: "ts_kind r = EXPLICIT"
    using assms(1) toolset_step_same [OF replace_members_step(1) [OF assms(1)]]
    by (cases "ts_kind s") (auto simp: replace_members_def result_bind_Inr_iff same_toolset_def)
  have "toolset_wf sha r"
    using replace_members_step(1) [OF assms(1)] assms(2) by (auto simp: toolset_step_def)
  then have "calculate_membership_digest sha EXPLICIT (ts_tool_ids r) = Inr (ts_membership_digest r)"
    using k by (simp add: toolset_wf_checks)
  then show "calculate_membership_digest sha EXPLICIT ids = Inr (ts_membership_digest r)"
    using membership_digest_set [of ids "ts_tool_ids r" sha EXPLICIT] replace_members_step(3) [OF assms(1)] by simp
  show "ts_kind r = EXPLICIT" by (rule k)
qed

lemma replace_members_again:
  assumes "replace_members sha s n (ts_tool_ids s) actor now = Inr r" "sorted (ts_tool_ids s)" "distinct (ts_tool_ids s)"
  shows "r = s"
  using assms by (auto simp: replace_members_def result_bind_Inr_iff check_rules sorted_set_id split: if_splits)

lemma put_toolset_same: "dict_get (td_toolsets w) (ts_id s) = Some s \<Longrightarrow> put_toolset s w = w"
  by (cases w) (simp add: put_toolset_def dict_set_same)

section \<open>Access\<close>

lemma find_by_slug_iff:
  assumes "toolsets_ok sha d"
  shows "toolset_get_by_slug t slug d = Some s \<longleftrightarrow>
    s \<in> set (dict_values d) \<and> ts_tenant_id s = t \<and> ts_slug s = slug"
proof
  assume "toolset_get_by_slug t slug d = Some s"
  then show "s \<in> set (dict_values d) \<and> ts_tenant_id s = t \<and> ts_slug s = slug"
    unfolding toolset_get_by_slug_def by (auto dest!: find_Some_sat)
next
  note D = toolsets_okD [OF assms]
  assume s: "s \<in> set (dict_values d) \<and> ts_tenant_id s = t \<and> ts_slug s = slug"
  then have g: "dict_get d (ts_id s) = Some s" using keyed_value_get [OF D(1)] by blast
  show "toolset_get_by_slug t slug d = Some s"
  proof (cases "toolset_get_by_slug t slug d")
    case None
    then show ?thesis using toolset_by_slug_NoneD [OF None g] s by blast
  next
    case (Some r)
    note r = toolset_by_slug_SomeD [OF Some D(1)]
    have "ts_id r = ts_id s" using D(2) g r s unfolding slugs_unique_def by metis
    then have "r = s" using r g by (metis option.inject)
    then show ?thesis using Some by (simp only:)
  qed
qed

text \<open>The toolsets an endpoint opens to a principal: the one of its slug, or all in the tenant.\<close>

definition opens :: "toolset_store \<Rightarrow> request_context \<Rightarrow> endpoint_scope \<Rightarrow> toolset \<Rightarrow> bool" where
  "opens d cx scope s \<longleftrightarrow>
     s \<in> set (dict_values d) \<and> ts_tenant_id s = cx_tenant_id cx \<and> ts_status s = TOOLSET_ACTIVE \<and>
     cx_principal_id cx \<in> set (ts_principal_ids s) \<and>
     (es_type scope = SCOPE_TOOLSET \<longrightarrow> es_toolset_slug scope = Some (ts_slug s))"

definition grants_tool :: "snapshot_store \<Rightarrow> toolset \<Rightarrow> string \<Rightarrow> bool" where
  "grants_tool snaps s tool_id \<longleftrightarrow>
     ts_kind s = ALL_PUBLISHED \<or>
     ts_kind s = EXPLICIT \<and> tool_id \<in> set (ts_tool_ids s) \<and> dict_get snaps (ts_tenant_id s, tool_id) \<noteq> None"

lemma scope_toolsets_opens:
  assumes "toolsets_ok sha (td_toolsets (working x))"
  shows "wp (scope_toolsets cx scope)
    (\<lambda>r y. y = x \<and> (\<forall>ss. r = Inr ss \<longrightarrow> set ss = {s. opens (td_toolsets (working x)) cx scope s} \<and>
       (es_type scope = SCOPE_TOOLSET \<longrightarrow> ss \<noteq> []))) x"
proof (cases "es_type scope")
  case SCOPE_ROOT
  then show ?thesis
    by (auto simp: scope_toolsets_def wp_rules opens_def list_granted_active_def toolset_list_by_tenant_def)
next
  case SCOPE_TOOLSET
  show ?thesis
  proof (cases "es_toolset_slug scope")
    case None
    then show ?thesis using SCOPE_TOOLSET by (simp add: scope_toolsets_def wp_rules)
  next
    case (Some slug)
    let ?found = "toolset_get_by_slug (cx_tenant_id cx) slug (td_toolsets (working x))"
    have only: "{s. opens (td_toolsets (working x)) cx scope s} = {s}"
      if "?found = Some s" "ts_status s = TOOLSET_ACTIVE" "cx_principal_id cx \<in> set (ts_principal_ids s)" for s
    proof -
      have "opens (td_toolsets (working x)) cx scope r \<longleftrightarrow> ?found = Some r \<and> ts_status r = TOOLSET_ACTIVE \<and>
          cx_principal_id cx \<in> set (ts_principal_ids r)" for r
        unfolding find_by_slug_iff [OF assms] opens_def using SCOPE_TOOLSET Some by auto
      then show ?thesis using that by auto
    qed
    show ?thesis
    proof (cases ?found)
      case None
      then show ?thesis using SCOPE_TOOLSET Some
        by (simp add: scope_toolsets_def require_scoped_access_def wp_rules)
    next
      case (Some s)
      then show ?thesis using SCOPE_TOOLSET \<open>es_toolset_slug scope = Some slug\<close> only [OF Some]
        by (simp add: scope_toolsets_def require_scoped_access_def wp_rules)
    qed
  qed
qed

lemma member_snapshot_ids:
  assumes "keyed (\<lambda>s. (sn_tenant_id s, sn_tool_id s)) snaps"
  shows "i \<in> set (map sn_tool_id (member_snapshots t ss snaps)) \<longleftrightarrow>
    (\<exists>s \<in> set ss. ts_kind s = EXPLICIT \<and> i \<in> set (ts_tool_ids s)) \<and> dict_get snaps (t, i) \<noteq> None"
  using keyed_get [OF assms]
  by (auto simp: member_snapshots_def list_member_snapshots_def List.map_filter_def)

section \<open>Toolsets in use\<close>

text \<open>One toolset with no members yet, and one published tool to put into it.\<close>

definition sample_toolset :: toolset where
  "sample_toolset = \<lparr>ts_id = ''ts'', ts_tenant_id = ''acme'', ts_slug = ''sales'', ts_name = ''Sales'',
     ts_description = None, ts_kind = EXPLICIT, ts_discovery_mode = DISCOVERY_DIRECT,
     ts_status = TOOLSET_DRAFT, ts_revision = 1, ts_membership_digest = sample_sha [],
     ts_created_by = ''admin'', ts_created_at = Aware 0, ts_updated_at = Aware 0,
     ts_members = [], ts_grants = []\<rparr>"

definition sample_snapshot :: catalog_snapshot where
  "sample_snapshot = \<lparr>sn_tool_id = ''tool'', sn_tenant_id = ''acme'', sn_availability = AVAILABLE,
     sn_published_tool_version_id = Some ''v1'', sn_canonical_name = Some ''crm.find'',
     sn_description = None, sn_serialized_schema_size = 10\<rparr>"

definition toolsets_start :: "(datetime, toolset_db) sys" where
  "toolsets_start = \<lparr>now_at = (\<lambda>n. Aware (10 + int n)), ticks = 0, id_at = sample_ids, id_count = 0,
     db = \<lparr>td_toolsets = [(''ts'', sample_toolset)], td_snapshots = [((''acme'', ''tool''), sample_snapshot)]\<rparr>\<rparr>"

definition no_toolsets :: "(datetime, toolset_db) sys" where
  "no_toolsets = toolsets_start\<lparr>db := \<lparr>td_toolsets = [], td_snapshots = []\<rparr>\<rparr>"

definition sample_members :: replace_members_command where
  "sample_members = \<lparr>rm_context = sample_actor, rm_toolset_id = ''ts'', rm_expected_revision = 1,
     rm_tool_ids = [''tool'', ''tool'']\<rparr>"

lemma sample_toolset_sound: "toolset_sound sample_sha sample_toolset"
proof -
  have "toolset_wf sample_sha sample_toolset" unfolding toolset_wf_def by code_simp
  then show ?thesis
    by (simp add: toolset_sound_def canonical_order_def ts_tool_ids_def ts_principal_ids_def sample_toolset_def)
qed

lemma toolsets_start_ok: "toolsets_ok sample_sha (td_toolsets (db toolsets_start))"
  using sample_toolset_sound
  by (auto simp: toolsets_start_def toolsets_ok_def store_ok_def keyed_def slugs_unique_def sample_toolset_def
      split: if_splits)

lemma no_toolsets_ok: "toolsets_ok sample_sha (td_toolsets (db no_toolsets))"
  by (simp add: no_toolsets_def toolsets_ok_def slugs_unique_def)

lemma sample_members_run: "\<not> isl (fst (replace_toolset_members sample_sha sample_members toolsets_start))"
  by code_simp

section \<open>Properties\<close>

text \<open>C32: Every toolset use case keeps the store well-formed: each aggregate satisfies the constructor's
  validation with its identifiers in canonical order, slugs are unique in their tenant (so there is one
  system toolset at most), and an existing aggregate keeps its identity, kind and creation and moves by
  one revision at most.\<close>

theorem toolsets_stay_well_formed:
  assumes "toolsets_ok sha (td_toolsets (db x))"
  shows "wp (create_toolset sha c1) (\<lambda>r y. toolsets_change sha (td_toolsets (db x)) (td_toolsets (db y))) x \<and>
    wp (update_toolset sha c2) (\<lambda>r y. toolsets_change sha (td_toolsets (db x)) (td_toolsets (db y))) x \<and>
    wp (replace_toolset_members sha c3) (\<lambda>r y. toolsets_change sha (td_toolsets (db x)) (td_toolsets (db y))) x \<and>
    wp (replace_toolset_grants sha c4) (\<lambda>r y. toolsets_change sha (td_toolsets (db x)) (td_toolsets (db y))) x \<and>
    wp (activate_toolset sha c5) (\<lambda>r y. toolsets_change sha (td_toolsets (db x)) (td_toolsets (db y))) x \<and>
    wp (disable_toolset sha c6) (\<lambda>r y. toolsets_change sha (td_toolsets (db x)) (td_toolsets (db y))) x \<and>
    wp (ensure_all_published sha t ps) (\<lambda>r y. toolsets_change sha (td_toolsets (db x)) (td_toolsets (db y))) x"
proof (intro conjI)
  note ch = applied_change [OF assms]
  show "wp (create_toolset sha c1) (\<lambda>r y. toolsets_change sha (td_toolsets (db x)) (td_toolsets (db y))) x"
    by (rule create_toolset_change [OF assms])
  show "wp (update_toolset sha c2) (\<lambda>r y. toolsets_change sha (td_toolsets (db x)) (td_toolsets (db y))) x"
    by (rule wp_mono [OF update_toolset_applied [OF assms]], erule ch) (auto dest: update_profile_step)
  show "wp (replace_toolset_members sha c3) (\<lambda>r y. toolsets_change sha (td_toolsets (db x)) (td_toolsets (db y))) x"
    by (rule wp_mono [OF replace_toolset_members_applied [OF assms]], erule conjE, erule ch)
      (auto dest: replace_members_step)
  show "wp (replace_toolset_grants sha c4) (\<lambda>r y. toolsets_change sha (td_toolsets (db x)) (td_toolsets (db y))) x"
    by (rule wp_mono [OF replace_toolset_grants_applied [OF assms]], erule ch) (auto dest: replace_grants_step)
  show "wp (activate_toolset sha c5) (\<lambda>r y. toolsets_change sha (td_toolsets (db x)) (td_toolsets (db y))) x"
    by (rule wp_mono [OF activate_toolset_applied [OF assms]], erule conjE, erule ch)
      (auto dest: toolset_activate_step)
  show "wp (disable_toolset sha c6) (\<lambda>r y. toolsets_change sha (td_toolsets (db x)) (td_toolsets (db y))) x"
    by (rule wp_mono [OF disable_toolset_applied [OF assms]], erule ch) (auto dest: toolset_disable_step)
  show "wp (ensure_all_published sha t ps) (\<lambda>r y. toolsets_change sha (td_toolsets (db x)) (td_toolsets (db y))) x"
    by (rule wp_mono [OF ensure_outcome [OF assms]]) (use assms in \<open>auto simp: ensured_def split: sum.splits\<close>)
qed

theorem toolsets_stay_well_formed_witness:
  "\<not> isl (fst (replace_toolset_members sample_sha sample_members toolsets_start)) \<and>
   wp (replace_toolset_members sample_sha sample_members)
     (\<lambda>r y. toolsets_change sample_sha (td_toolsets (db toolsets_start)) (td_toolsets (db y))) toolsets_start"
  using toolsets_stay_well_formed [OF toolsets_start_ok] sample_members_run by blast

text \<open>C33: Writes to a toolset are compare-and-set on its revision: a mutation succeeds only on the
  stored revision its caller named, its result is the domain operation applied to that aggregate, and
  a mutation that fails, in particular one with a stale revision, changes nothing.\<close>

theorem toolset_writes_compare_revision:
  assumes "toolsets_ok sha (td_toolsets (db x))"
  shows "wp (update_toolset sha c2) (\<lambda>r y. applied (\<lambda>s. update_profile sha s (ut_expected_revision c2)
        (ut_name c2) (ut_description c2) (ut_discovery_mode c2) (now_at x (ticks x)))
      (ut_expected_revision c2) (cx_tenant_id (ut_context c2)) (ut_toolset_id c2) (db x) r (db y)) x \<and>
    wp (replace_toolset_members sha c3) (\<lambda>r y. applied (\<lambda>s. replace_members sha s (rm_expected_revision c3)
        (sorted_set (rm_tool_ids c3)) (cx_principal_id (rm_context c3)) (now_at x (ticks x)))
      (rm_expected_revision c3) (cx_tenant_id (rm_context c3)) (rm_toolset_id c3) (db x) r (db y)) x \<and>
    wp (replace_toolset_grants sha c4) (\<lambda>r y. applied (\<lambda>s. replace_grants sha s (rg_expected_revision c4)
        (rg_principal_ids c4) (cx_principal_id (rg_context c4)) (now_at x (ticks x)))
      (rg_expected_revision c4) (cx_tenant_id (rg_context c4)) (rg_toolset_id c4) (db x) r (db y)) x \<and>
    wp (activate_toolset sha c5) (\<lambda>r y. applied (\<lambda>s. toolset_activate sha s (cs_expected_revision c5)
        (now_at x (ticks x)))
      (cs_expected_revision c5) (cx_tenant_id (cs_context c5)) (cs_toolset_id c5) (db x) r (db y)) x \<and>
    wp (disable_toolset sha c6) (\<lambda>r y. applied (\<lambda>s. toolset_disable sha s (cs_expected_revision c6)
        (now_at x (ticks x)))
      (cs_expected_revision c6) (cx_tenant_id (cs_context c6)) (cs_toolset_id c6) (db x) r (db y)) x"
  by (intro conjI update_toolset_applied [OF assms] replace_toolset_grants_applied [OF assms]
      disable_toolset_applied [OF assms] wp_mono [OF activate_toolset_applied [OF assms]]
      wp_mono [OF replace_toolset_members_applied [OF assms]]; erule conjunct1)

theorem toolset_writes_compare_revision_witness:
  "wp (replace_toolset_members sample_sha (sample_members\<lparr>rm_expected_revision := 7\<rparr>))
     (\<lambda>r y. isl r \<and> db y = db toolsets_start) toolsets_start"
proof -
  have "wp (replace_toolset_members sample_sha (sample_members\<lparr>rm_expected_revision := 7\<rparr>))
      (\<lambda>r y. applied (\<lambda>s. replace_members sample_sha s 7 (sorted_set (rm_tool_ids sample_members))
          (cx_principal_id sample_actor) (now_at toolsets_start (ticks toolsets_start)))
        7 ''acme'' ''ts'' (db toolsets_start) r (db y)) toolsets_start"
    using conjunct1 [OF conjunct2 [OF toolset_writes_compare_revision [OF toolsets_start_ok,
          where ?c3.0 = "sample_members\<lparr>rm_expected_revision := 7\<rparr>"]]]
    by (simp add: sample_members_def sample_actor_def)
  then show ?thesis
    by (rule wp_mono)
      (auto simp: applied_def toolset_get_Some toolsets_start_def sample_toolset_def split: sum.splits)
qed

text \<open>Replacing the members of a toolset reads back exactly: the stored aggregate lists the sorted
  set of the requested tools, all of which the tenant has, its digest is the digest of that set in
  whatever order it was given, members it already had keep who added them and when, and sending the same
  request again at the new revision changes nothing.\<close>

theorem replace_members_round_trip:
  assumes "toolsets_ok sha (td_toolsets (db x))"
  shows "wp (replace_toolset_members sha c)
    (\<lambda>r y. \<forall>p. r = Inr p \<longrightarrow>
      (\<exists>s0 s. toolset_get (cx_tenant_id (rm_context c)) (rm_toolset_id c) (td_toolsets (db x)) = Some s0 \<and>
         toolset_get (cx_tenant_id (rm_context c)) (rm_toolset_id c) (td_toolsets (db y)) = Some s \<and>
         ts_tool_ids s = sorted_set (rm_tool_ids c) \<and> set (map mp_tool_id (pf_members p)) = set (rm_tool_ids c) \<and>
         calculate_membership_digest sha EXPLICIT (rm_tool_ids c) = Inr (ts_membership_digest s) \<and>
         (\<forall>m \<in> set (ts_members s). me_tool_id m \<in> set (ts_tool_ids s0) \<longrightarrow> m \<in> set (ts_members s0)) \<and>
         wp (replace_toolset_members sha (c\<lparr>rm_expected_revision := ts_revision s\<rparr>)) (\<lambda>r z. db z = db y) y)) x"
proof (rule wp_mono [OF replace_toolset_members_applied [OF assms]], intro allI impI, elim conjE)
  fix r and y :: "(datetime, toolset_db) sys" and p
  let ?t = "cx_tenant_id (rm_context c)" and ?k = "rm_toolset_id c" and ?ids = "sorted_set (rm_tool_ids c)"
  let ?op = "\<lambda>s. replace_members sha s (rm_expected_revision c) ?ids (cx_principal_id (rm_context c))
       (now_at x (ticks x))"
  assume ap: "applied ?op (rm_expected_revision c) ?t ?k (db x) r (db y)" and r: "r = Inr p"
    and found: "\<forall>p. r = Inr p \<longrightarrow> set (map sn_tool_id (list_member_snapshots ?t ?ids (td_snapshots (db x))))
          = set (rm_tool_ids c)"
  then obtain s0 s where s0: "toolset_get ?t ?k (td_toolsets (db x)) = Some s0" and op: "?op s0 = Inr s"
    and y: "db y = put_toolset s (db x)" and p: "p = profile_of s (db y)"
    by (auto simp: applied_def)
  note st = replace_members_step [OF op]
  have snd0: "toolset_sound sha s0" and k0: "ts_id s0 = ?k" and t0: "ts_tenant_id s0 = ?t"
    using s0 store_ok_get [OF toolsets_okD(3) [OF assms]] by (auto simp: toolset_get_Some)
  have same: "ts_id s = ?k" "ts_tenant_id s = ?t" using toolset_step_same [OF st(1)] k0 t0 by (auto simp: same_toolset_def)
  have ok: "toolsets_ok sha (td_toolsets (db y))"
    using applied_change [OF assms ap] replace_members_step(1) by (auto simp: toolsets_change_def)
  have g: "toolset_get ?t ?k (td_toolsets (db y)) = Some s" using same y by (simp add: toolset_get_Some)
  have snd: "toolset_sound sha s" by (rule toolset_step_sound [OF st(1) snd0])
  have dig: "calculate_membership_digest sha EXPLICIT (rm_tool_ids c) = Inr (ts_membership_digest s)" "ts_kind s = EXPLICIT"
    using replace_members_digest [OF op] snd0 membership_digest_set [of "rm_tool_ids c" ?ids sha EXPLICIT]
    by (simp_all add: toolset_sound_def)
  have mem: "set (map mp_tool_id (pf_members p)) = set (rm_tool_ids c)"
    using found r y st(3) same dig(2) by (simp add: p profile_of_def Let_def member_profile_of_def image_image)
  have again: "wp (replace_toolset_members sha (c\<lparr>rm_expected_revision := ts_revision s\<rparr>)) (\<lambda>r z. db z = db y) y"
  proof (rule wp_mono [OF replace_toolset_members_applied [OF ok]], elim conjE)
    fix r' and z :: "(datetime, toolset_db) sys"
    assume again: "applied (\<lambda>s'. replace_members sha s' (rm_expected_revision (c\<lparr>rm_expected_revision := ts_revision s\<rparr>))
        (sorted_set (rm_tool_ids (c\<lparr>rm_expected_revision := ts_revision s\<rparr>)))
        (cx_principal_id (rm_context (c\<lparr>rm_expected_revision := ts_revision s\<rparr>))) (now_at y (ticks y)))
        (rm_expected_revision (c\<lparr>rm_expected_revision := ts_revision s\<rparr>))
        (cx_tenant_id (rm_context (c\<lparr>rm_expected_revision := ts_revision s\<rparr>)))
        (rm_toolset_id (c\<lparr>rm_expected_revision := ts_revision s\<rparr>)) (db y) r' (db z)"
    show "db z = db y"
    proof (cases r')
      case (Inl e)
      then show ?thesis using again by (simp add: applied_def)
    next
      case (Inr p')
      with again g obtain s2 where s2: "replace_members sha s (ts_revision s) (ts_tool_ids s)
          (cx_principal_id (rm_context c)) (now_at y (ticks y)) = Inr s2" "db z = put_toolset s2 (db y)"
        by (auto simp: applied_def st(3))
      have "s2 = s"
        by (rule replace_members_again [OF s2(1)])
          (use snd toolset_wf_unique [of sha s] in \<open>auto simp: toolset_sound_def canonical_order_def\<close>)
      then show ?thesis using s2(2) put_toolset_same [of "db y" s] g same by (simp add: toolset_get_Some)
    qed
  qed
  show "\<exists>s0 s. toolset_get ?t ?k (td_toolsets (db x)) = Some s0 \<and>
         toolset_get ?t ?k (td_toolsets (db y)) = Some s \<and>
         ts_tool_ids s = ?ids \<and> set (map mp_tool_id (pf_members p)) = set (rm_tool_ids c) \<and>
         calculate_membership_digest sha EXPLICIT (rm_tool_ids c) = Inr (ts_membership_digest s) \<and>
         (\<forall>m \<in> set (ts_members s). me_tool_id m \<in> set (ts_tool_ids s0) \<longrightarrow> m \<in> set (ts_members s0)) \<and>
         wp (replace_toolset_members sha (c\<lparr>rm_expected_revision := ts_revision s\<rparr>)) (\<lambda>r z. db z = db y) y"
    using s0 g st(3,4) mem dig(1) again by simp
qed

theorem replace_members_round_trip_witness:
  "\<not> isl (fst (replace_toolset_members sample_sha sample_members toolsets_start)) \<and>
   wp (replace_toolset_members sample_sha sample_members)
    (\<lambda>r y. \<forall>p. r = Inr p \<longrightarrow>
      (\<exists>s. toolset_get ''acme'' ''ts'' (td_toolsets (db y)) = Some s \<and> ts_tool_ids s = [''tool''])) toolsets_start"
proof -
  have ids: "sorted_set (rm_tool_ids sample_members) = [''tool'']" by code_simp
  have key: "cx_tenant_id (rm_context sample_members) = ''acme''" "rm_toolset_id sample_members = ''ts''"
    by (simp_all add: sample_members_def sample_actor_def)
  show ?thesis
    by (rule conjI [OF sample_members_run],
        rule wp_mono [OF replace_members_round_trip [OF toolsets_start_ok, of sample_members]])
      (use ids key in auto)
qed

end
