(* ===== verification/Toolset_Endpoints.thy ===== *)
theory Toolset_Endpoints
  imports Toolset_Claims
begin

text \<open>
  Promises about the endpoints toolsets stand for: the system toolset every tenant gets, the tools an
  endpoint opens to a principal, and the health a profile reports.
\<close>

section \<open>Health\<close>

lemma member_snapshots_complete:
  assumes "length (list_member_snapshots t ids snaps) = length ids"
  shows "map (\<lambda>i. dict_get snaps (t, i)) ids = map Some (list_member_snapshots t ids snaps)"
proof -
  have len: "length (List.map_filter f xs) = length xs \<Longrightarrow> map f xs = map Some (List.map_filter f xs)"
    for f :: "string \<Rightarrow> catalog_snapshot option" and xs
  proof (induction xs)
    case (Cons x xs)
    have "length (List.map_filter f xs) \<le> length xs" by (simp add: List.map_filter_def)
    then show ?case using Cons by (cases "f x") (auto simp: map_filter_simps)
  qed (simp add: map_filter_simps)
  show ?thesis using len [of "\<lambda>i. dict_get snaps (t, i)" ids] assms by (simp add: list_member_snapshots_def)
qed

section \<open>An endpoint in use\<close>

text \<open>An active toolset with one member, granted to one agent, and the tool's published projection.\<close>

definition open_toolset :: toolset where
  "open_toolset = sample_toolset\<lparr>ts_status := TOOLSET_ACTIVE,
     ts_members := [\<lparr>me_tenant_id = ''acme'', me_toolset_id = ''ts'', me_tool_id = ''tool'',
        me_added_by = ''admin'', me_added_at = Aware 0\<rparr>],
     ts_grants := [\<lparr>gr_tenant_id = ''acme'', gr_toolset_id = ''ts'', gr_principal_id = ''agent'',
        gr_granted_by = ''admin'', gr_granted_at = Aware 0\<rparr>]\<rparr>"

definition endpoint_start :: "(datetime, toolset_db) sys" where
  "endpoint_start = toolsets_start\<lparr>db := (db toolsets_start)\<lparr>td_toolsets := [(''ts'', open_toolset)]\<rparr>\<rparr>"

definition sample_agent :: request_context where
  "sample_agent = actor_context.extend (sample_actor\<lparr>cx_principal_id := ''agent''\<rparr>)
     \<lparr>cx_protocol_version = [], cx_protocol_era = MODERN, cx_policy_snapshot = None\<rparr>"

definition sample_published :: published_tool where
  "sample_published = \<lparr>pt_tool_id = ''tool'', pt_tool_version_id = ''v1'', pt_tenant_id = ''acme'',
     pt_canonical_name = ''crm.find'', pt_display_name = ''Find'', pt_description = [],
     pt_input_schema = JObj [(''type'', JStr ''object'')], pt_output_schema = None, pt_version = 1,
     pt_visibility = VIS_PUBLIC, pt_side_effect = READ_ONLY, pt_schema_digest = ''d'', pt_owner = None,
     pt_tags = []\<rparr>"

lemma endpoint_start_ok: "toolsets_ok sample_sha (td_toolsets (db endpoint_start))"
proof -
  have "toolset_wf sample_sha open_toolset" unfolding toolset_wf_def by code_simp
  then have "toolset_sound sample_sha open_toolset"
    by (simp add: toolset_sound_def canonical_order_def ts_tool_ids_def ts_principal_ids_def
        open_toolset_def sample_toolset_def)
  then show ?thesis
    by (auto simp: endpoint_start_def toolsets_ok_def store_ok_def keyed_def slugs_unique_def
        open_toolset_def sample_toolset_def split: if_splits)
qed

section \<open>Properties\<close>

text \<open>Ensuring the system toolset is idempotent: on success the tenant has exactly one, the one
  returned, whose grants are those it had plus the requested ones; running it again returns the same
  aggregate and changes nothing. When it fails nothing was changed.\<close>

theorem ensure_all_published_idempotent:
  assumes "toolsets_ok sha (td_toolsets (db x))"
  shows "wp (ensure_all_published sha t ps)
    (\<lambda>r y. case r of
       Inl e \<Rightarrow> db y = db x
     | Inr s \<Rightarrow> toolset_get_all_published t (td_toolsets (db y)) = Some s \<and>
         set (ts_principal_ids s) = set ps \<union> (case toolset_get_all_published t (td_toolsets (db x)) of
           None \<Rightarrow> {} | Some s0 \<Rightarrow> set (ts_principal_ids s0)) \<and>
         wp (ensure_all_published sha t ps) (\<lambda>r' z. r' = Inr s \<and> db z = db y) y) x"
proof (rule wp_mono [OF ensure_outcome [OF assms]])
  fix r and y :: "(datetime, toolset_db) sys"
  assume e: "ensured sha t ps (db x) r (db y)"
  show "case r of
       Inl e \<Rightarrow> db y = db x
     | Inr s \<Rightarrow> toolset_get_all_published t (td_toolsets (db y)) = Some s \<and>
         set (ts_principal_ids s) = set ps \<union> (case toolset_get_all_published t (td_toolsets (db x)) of
           None \<Rightarrow> {} | Some s0 \<Rightarrow> set (ts_principal_ids s0)) \<and>
         wp (ensure_all_published sha t ps) (\<lambda>r' z. r' = Inr s \<and> db z = db y) y"
  proof (cases r)
    case (Inl e')
    then show ?thesis using e by (simp add: ensured_def)
  next
    case (Inr s)
    with e have y: "db y = put_toolset s (db x)" and ok: "toolsets_ok sha (td_toolsets (db y))"
      and t: "ts_tenant_id s = t" "ts_kind s = ALL_PUBLISHED" and nb: "\<forall>p \<in> set (ts_principal_ids s). \<not> blank p"
      and ids: "ts_principal_ids s = sorted_set ((case toolset_get_all_published t (td_toolsets (db x)) of
            None \<Rightarrow> [] | Some s0 \<Rightarrow> ts_principal_ids s0) @ ps)"
      by (auto simp: ensured_def toolsets_change_def)
    have g: "dict_get (td_toolsets (db y)) (ts_id s) = Some s" using y by simp
    have all: "toolset_get_all_published t (td_toolsets (db y)) = Some s"
      using toolset_all_published_eq [OF ok g t(2)] t(1) by simp
    have same: "sorted_set (ts_principal_ids s @ ps) = ts_principal_ids s"
      by (rule sorted_set_unique) (auto simp: ids)
    have noop: "replace_grants sha s (ts_revision s) (ts_principal_ids s) who now = Inr s" for who now
      using nb same ids
      by (simp add: replace_grants_def require_revision_def result_bind_def normalized_ids_Inr [THEN iffD2]
          sorted_set_id)
    have "on_toolsets (toolset_save t s) (db y) = Inr (db y)"
      using toolset_save_step(1) [OF ok g toolset_step_refl] t(1) put_toolset_same [OF g]
      by (simp add: on_toolsets_def on_field_def put_toolset_def)
        (metis (no_types, lifting) dict_set_same g toolset_db.surjective toolset_db.update_convs(1))
    then have "wp (ensure_all_published sha t ps) (\<lambda>r' z. r' = Inr s \<and> db z = db y) y"
      by (simp add: ensure_all_published_def bootstrap_toolset_def merge_system_grants_def wp_rules all same noop)
    then show ?thesis using Inr all ids by (auto split: option.splits)
  qed
qed

theorem ensure_all_published_idempotent_witness:
  "wp (ensure_all_published sample_sha ''acme'' [''agent''])
    (\<lambda>r y. \<not> isl r \<longrightarrow> toolset_get_all_published ''acme'' (td_toolsets (db y)) = Some (projr r) \<and>
      set (ts_principal_ids (projr r)) = {''agent''} \<and>
      wp (ensure_all_published sample_sha ''acme'' [''agent'']) (\<lambda>r' z. r' = r \<and> db z = db y) y) no_toolsets \<and>
   \<not> isl (fst (ensure_all_published sample_sha ''acme'' [''agent''] no_toolsets))"
proof (rule conjI)
  have none: "toolset_get_all_published ''acme'' (td_toolsets (db no_toolsets)) = None" by code_simp
  show "wp (ensure_all_published sample_sha ''acme'' [''agent''])
    (\<lambda>r y. \<not> isl r \<longrightarrow> toolset_get_all_published ''acme'' (td_toolsets (db y)) = Some (projr r) \<and>
      set (ts_principal_ids (projr r)) = {''agent''} \<and>
      wp (ensure_all_published sample_sha ''acme'' [''agent'']) (\<lambda>r' z. r' = r \<and> db z = db y) y) no_toolsets"
    by (rule wp_mono [OF ensure_all_published_idempotent [OF no_toolsets_ok]])
      (auto simp: none isl_def split: sum.splits)
  show "\<not> isl (fst (ensure_all_published sample_sha ''acme'' [''agent''] no_toolsets))" by code_simp
qed

text \<open>C22: What an endpoint offers is exactly what its toolsets grant: a published tool is offered to a
  principal iff it is visible to that principal and some active toolset of the tenant, granted to the
  principal and reached by the endpoint's scope, contains it or is the system toolset; and a business
  tool may be called through the endpoint iff it is offered. Resolving changes nothing.\<close>

theorem endpoint_offers_what_is_granted:
  assumes "toolsets_ok sha (td_toolsets (db x))"
    and "keyed (\<lambda>s. (sn_tenant_id s, sn_tool_id s)) (td_snapshots (db x))"
  shows "wp (resolve_toolset_access published cx scope)
    (\<lambda>r y. db y = db x \<and> (\<forall>a. r = Inr a \<longrightarrow>
      (\<forall>p. p \<in> set (ra_tools a) \<longleftrightarrow>
         p \<in> set (published (cx_tenant_id cx)) \<and> is_visible_to p (cx_principal_id cx) \<and>
         (\<exists>s. opens (td_toolsets (db x)) cx scope s \<and> grants_tool (td_snapshots (db x)) s (pt_tool_id p))) \<and>
      (\<forall>name. require_business_tool a name = Inr () \<longleftrightarrow> (\<exists>p \<in> set (ra_tools a). pt_canonical_name p = name)))) x"
proof -
  have "toolsets_ok sha (td_toolsets (working (enter_uow x)))" using assms(1) by simp
  note S = scope_toolsets_opens [OF this, of cx scope]
  have grant: "(list_ex (\<lambda>s. ts_kind s = ALL_PUBLISHED) ss \<or>
        i \<in> set (map sn_tool_id (member_snapshots (cx_tenant_id cx) ss (td_snapshots (db x))))) \<longleftrightarrow>
      (\<exists>s. opens (td_toolsets (db x)) cx scope s \<and> grants_tool (td_snapshots (db x)) s i)"
    if "set ss = {s. opens (td_toolsets (db x)) cx scope s}" for ss i
    unfolding member_snapshot_ids [OF assms(2)] using that
    by (auto simp: list_ex_iff grants_tool_def opens_def)
  have gate: "require_business_tool a name = Inr () \<longleftrightarrow> (\<exists>p \<in> set (ra_tools a). pt_canonical_name p = name)"
    for a name by (auto simp: require_business_tool_def list_ex_iff)
  show ?thesis
    unfolding resolve_toolset_access_def wp_bind wp_with_uow
    by (rule wp_mono [OF S])
      (auto simp: wp_rules Let_def gate eligible_tools_def grant [simplified] split: sum.splits)
qed

theorem endpoint_offers_what_is_granted_witness:
  "wp (resolve_toolset_access (\<lambda>_. [sample_published]) sample_agent
       \<lparr>es_type = SCOPE_TOOLSET, es_toolset_slug = Some ''sales''\<rparr>)
    (\<lambda>r y. \<forall>a. r = Inr a \<longrightarrow> set (ra_tools a) = {sample_published} \<and>
       require_business_tool a ''crm.find'' = Inr ()) endpoint_start \<and>
   \<not> isl (fst (resolve_toolset_access (\<lambda>_. [sample_published]) sample_agent
       \<lparr>es_type = SCOPE_TOOLSET, es_toolset_slug = Some ''sales''\<rparr> endpoint_start))"
proof (rule conjI)
  have k: "keyed (\<lambda>s. (sn_tenant_id s, sn_tool_id s)) (td_snapshots (db endpoint_start))"
    by (simp add: endpoint_start_def toolsets_start_def keyed_def sample_snapshot_def)
  note W = endpoint_offers_what_is_granted [OF endpoint_start_ok k, of "\<lambda>_. [sample_published]" sample_agent
      "\<lparr>es_type = SCOPE_TOOLSET, es_toolset_slug = Some ''sales''\<rparr>"]
  have o: "opens (td_toolsets (db endpoint_start)) sample_agent
      \<lparr>es_type = SCOPE_TOOLSET, es_toolset_slug = Some ''sales''\<rparr> open_toolset"
    "grants_tool (td_snapshots (db endpoint_start)) open_toolset (pt_tool_id sample_published)"
    by (simp_all add: opens_def grants_tool_def endpoint_start_def toolsets_start_def open_toolset_def
        sample_toolset_def sample_agent_def sample_actor_def actor_context.defs ts_tool_ids_def
        ts_principal_ids_def sample_published_def)
  have v: "is_visible_to sample_published (cx_principal_id sample_agent)"
    "pt_canonical_name sample_published = ''crm.find''"
    by (simp_all add: sample_published_def is_visible_to_def)
  show "wp (resolve_toolset_access (\<lambda>_. [sample_published]) sample_agent
       \<lparr>es_type = SCOPE_TOOLSET, es_toolset_slug = Some ''sales''\<rparr>)
    (\<lambda>r y. \<forall>a. r = Inr a \<longrightarrow> set (ra_tools a) = {sample_published} \<and>
       require_business_tool a ''crm.find'' = Inr ()) endpoint_start"
    by (rule wp_mono [OF W]) (use o v in auto)
  show "\<not> isl (fst (resolve_toolset_access (\<lambda>_. [sample_published]) sample_agent
       \<lparr>es_type = SCOPE_TOOLSET, es_toolset_slug = Some ''sales''\<rparr> endpoint_start))" by code_simp
qed

text \<open>The slug of the system toolset is not reserved: an explicit toolset may take it, and from then
  on the tenant's system toolset can never be created.\<close>

theorem system_slug_can_be_taken:
  "\<not> isl (fst (create_toolset sample_sha
      \<lparr>ct_context = sample_actor, ct_slug = ''all-published'', ct_name = ''Mine'', ct_description = None,
       ct_discovery_mode = DISCOVERY_DIRECT\<rparr> no_toolsets)) \<and>
   fst (ensure_all_published sample_sha ''acme'' [] (snd (create_toolset sample_sha
      \<lparr>ct_context = sample_actor, ct_slug = ''all-published'', ct_name = ''Mine'', ct_description = None,
       ct_discovery_mode = DISCOVERY_DIRECT\<rparr> no_toolsets))) = Inl (NexusError ToolsetConflictError)"
  by code_simp

text \<open>The health a profile reports agrees with the domain's own rule: when every member of an explicit
  toolset has a snapshot, it is the health derived from the members' availabilities.\<close>

lemma profile_health_is_derived:
  assumes "ts_kind s = EXPLICIT" and "distinct (ts_tool_ids s)"
    and "length (list_member_snapshots (ts_tenant_id s) (ts_tool_ids s) (td_snapshots w)) = length (ts_tool_ids s)"
  shows "pf_health (profile_of s w) =
    derive_toolset_health (map (\<lambda>i. (i, sn_availability (the (dict_get (td_snapshots w) (ts_tenant_id s, i)))))
      (ts_tool_ids s))"
proof -
  let ?sn = "list_member_snapshots (ts_tenant_id s) (ts_tool_ids s) (td_snapshots w)"
  have "map (\<lambda>i. sn_availability (the (dict_get (td_snapshots w) (ts_tenant_id s, i)))) (ts_tool_ids s)
      = map (sn_availability \<circ> the) (map (\<lambda>i. dict_get (td_snapshots w) (ts_tenant_id s, i)) (ts_tool_ids s))"
    by simp
  also have "\<dots> = map sn_availability ?sn" by (simp only: member_snapshots_complete [OF assms(3)]) simp
  finally have avs: "map (\<lambda>i. sn_availability (the (dict_get (td_snapshots w) (ts_tenant_id s, i)))) (ts_tool_ids s)
      = map sn_availability ?sn" .
  have n: "length (ts_members s) = length (ts_tool_ids s)" by (simp add: ts_tool_ids_def)
  have empty: "ts_tool_ids s = [] \<longleftrightarrow> length (ts_members s) = 0" by (simp add: ts_tool_ids_def)
  show ?thesis
    unfolding derive_toolset_health_def Let_def
    using assms(1) empty n
    by (simp add: profile_of_def Let_def profile_health_def o_def avs filter_map member_profile_of_def)
qed

end
