(* ===== verification/Egress.thy ===== *)
theory Egress
  imports Registry
begin

text \<open>
  The egress policy (\<open>infrastructure/networking/egress.py\<close>): which upstream endpoints the gateway may
  connect to. The host is matched against an allowlist of names, ports and networks, and every
  address it stands for (its literal, or all answers of the name resolver) is checked.

  The properties \<open>is_loopback\<close>, \<open>is_reserved\<close>, \<dots> of an IPv4-mapped IPv6 address changed within
  Python 3.12, from the IPv6 ranges to those of the mapped address, so they take an \<open>ip_runtime\<close> that
  says which of the two the interpreter does. The IDNA codec is a parameter for non-ASCII names.
\<close>

section \<open>Properties of IP addresses\<close>

record ip_runtime =
  mapped_loopback :: bool
  mapped_ranges :: bool

definition ipv4_mapped :: "ip_address \<Rightarrow> ip_address option" where
  "ipv4_mapped a =
     (case a of
        IPv4 n \<Rightarrow> None
      | IPv6 n \<Rightarrow> if n div 2 ^ 32 = 65535 then Some (IPv4 (n mod 2 ^ 32)) else None)"

definition seen_as :: "bool \<Rightarrow> ip_address \<Rightarrow> ip_address" where
  "seen_as mapping a = (if mapping then (case ipv4_mapped a of None \<Rightarrow> a | Some b \<Rightarrow> b) else a)"

definition in_ranges :: "ip_network list \<Rightarrow> ip_address \<Rightarrow> bool" where
  "in_ranges nets a \<longleftrightarrow> list_ex (in_network a) nets"

definition is_loopback :: "ip_runtime \<Rightarrow> ip_address \<Rightarrow> bool" where
  "is_loopback rt a = in_ranges [(IPv4 (127 * 2 ^ 24), 8), (IPv6 1, 128)] (seen_as (mapped_loopback rt) a)"

definition is_link_local :: "ip_runtime \<Rightarrow> ip_address \<Rightarrow> bool" where
  "is_link_local rt a =
     in_ranges [(IPv4 (43518 * 2 ^ 16), 16), (IPv6 (65152 * 2 ^ 112), 10)] (seen_as (mapped_ranges rt) a)"

definition is_unspecified :: "ip_runtime \<Rightarrow> ip_address \<Rightarrow> bool" where
  "is_unspecified rt a = in_ranges [(IPv4 0, 32), (IPv6 0, 128)] (seen_as (mapped_ranges rt) a)"

definition is_multicast :: "ip_runtime \<Rightarrow> ip_address \<Rightarrow> bool" where
  "is_multicast rt a =
     in_ranges [(IPv4 (224 * 2 ^ 24), 4), (IPv6 (65280 * 2 ^ 112), 8)] (seen_as (mapped_ranges rt) a)"

text \<open>The reserved IPv6 ranges are everything but \<open>2000::/3\<close>, \<open>fc00::/7\<close>, \<open>fe80::/9\<close> and \<open>ff00::/8\<close>.\<close>

definition reserved_networks :: "ip_network list" where
  "reserved_networks =
     (IPv4 (240 * 2 ^ 24), 4) #
     map (\<lambda>(hextet, bits). (IPv6 (hextet * 2 ^ 112), bits))
       [(0, 8), (256, 8), (512, 7), (1024, 6), (2048, 5), (4096, 4), (16384, 3), (24576, 3), (32768, 3),
        (40960, 3), (49152, 3), (57344, 4), (61440, 5), (63488, 6), (65024, 9)]"

definition is_reserved :: "ip_runtime \<Rightarrow> ip_address \<Rightarrow> bool" where
  "is_reserved rt a = in_ranges reserved_networks (seen_as (mapped_ranges rt) a)"

text \<open>
  \<open>ip_network(text, strict=False)\<close>. A mask is a prefix length or, for IPv4, a dotted netmask or
  hostmask.
\<close>

definition prefix_of_string :: "nat \<Rightarrow> string \<Rightarrow> nat option" where
  "prefix_of_string bits s =
     (if s \<noteq> [] \<and> list_all ascii_digit s \<and> int_base 10 s \<le> int bits then Some (nat (int_base 10 s)) else None)"

definition prefix_of_netmask :: "int \<Rightarrow> nat option" where
  "prefix_of_netmask n = List.find (\<lambda>k. n = 2 ^ 32 - 2 ^ (32 - k)) [0 ..< 33]"

definition ipv4_prefix :: "string \<Rightarrow> nat option" where
  "ipv4_prefix m =
     (case prefix_of_string 32 m of
        Some k \<Rightarrow> Some k
      | None \<Rightarrow>
          (case parse_ipv4 m of
             None \<Rightarrow> None
           | Some n \<Rightarrow>
               (case prefix_of_netmask n of
                  Some k \<Rightarrow> Some k
                | None \<Rightarrow> prefix_of_netmask (2 ^ 32 - 1 - n))))"

definition parse_network_as ::
  "(string \<Rightarrow> int option) \<Rightarrow> (int \<Rightarrow> ip_address) \<Rightarrow> (string \<Rightarrow> nat option) \<Rightarrow> nat \<Rightarrow> string \<Rightarrow> ip_network option" where
  "parse_network_as parse mk prefix bits s =
     (case split_on (CHR ''/'') s of
        [addr] \<Rightarrow> map_option (\<lambda>n. (mk n, bits)) (parse addr)
      | [addr, m] \<Rightarrow>
          (case (parse addr, prefix m) of (Some n, Some k) \<Rightarrow> Some (mk n, k) | _ \<Rightarrow> None)
      | _ \<Rightarrow> None)"

definition parse_network :: "string \<Rightarrow> ip_network option" where
  "parse_network s =
     (case parse_network_as parse_ipv4 IPv4 ipv4_prefix 32 s of
        Some net \<Rightarrow> Some net
      | None \<Rightarrow> parse_network_as parse_ipv6 IPv6 (prefix_of_string 128) 128 s)"

section \<open>Hosts\<close>

definition unsafe :: exn where
  "unsafe = NexusError UnsafeUpstreamEndpointError"

definition METADATA_ADDRESSES :: "ip_address list" where
  "METADATA_ADDRESSES = [IPv4 (100 * 2 ^ 24 + 100 * 2 ^ 16 + 100 * 2 ^ 8 + 200),
                         IPv4 (169 * 2 ^ 24 + 254 * 2 ^ 16 + 169 * 2 ^ 8 + 254)]"

definition METADATA_HOSTS :: "string list" where
  "METADATA_HOSTS = [''metadata.google.internal'', ''metadata.google.internal.'']"

definition LOCAL_DEMO_HOSTS :: "string list" where
  "LOCAL_DEMO_HOSTS = [''localhost'', ''127.0.0.1'', ''::1'']"

text \<open>\<open>str.encode("idna")\<close>: on ASCII it only checks the length of the labels.\<close>

definition idna_encode :: "(string \<Rightarrow> string option) \<Rightarrow> string \<Rightarrow> string option" where
  "idna_encode idna host =
     (if list_all (\<lambda>c. (of_char c :: nat) < 128) host
      then (let labels = split_on (CHR ''.'') host
            in if list_all (\<lambda>l. l \<noteq> [] \<and> length l < 64) (butlast labels) \<and> length (last labels) < 64
               then Some host else None)
      else idna host)"

definition py_rstrip_dots :: "string \<Rightarrow> string" where
  "py_rstrip_dots s = rev (dropWhile (\<lambda>c. c = CHR ''.'') (rev s))"

definition normalize_host :: "(string \<Rightarrow> string option) \<Rightarrow> string \<Rightarrow> string result" where
  "normalize_host idna value =
     (let host = py_lower (py_rstrip_dots (py_strip value))
      in if host = [] then Inl (ValueError ''egress allowed host must not be blank'')
         else if CHR ''%'' \<in> set host
           then Inl (ValueError ''IPv6 zone identifiers are not allowed in egress hosts'')
         else if parse_ip host = None \<and> list_ex (\<lambda>c. py_isspace c \<or> c \<in> {CHR ''/'', CHR 0x5C, CHR ''@'', CHR '':''}) host
           then Inl (ValueError ''egress allowed host was invalid'')
         else case idna_encode idna host of
           None \<Rightarrow> Inl (ValueError ''egress allowed host was invalid'')
         | Some ascii \<Rightarrow> Inr ascii)"

section \<open>The policy\<close>

record egress_policy =
  eg_allowed_hosts :: "string list"
  eg_allowed_networks :: "ip_network list"
  eg_allowed_ports :: "int list"
  eg_allow_local_demo :: bool

definition egress_policy_init ::
  "(string \<Rightarrow> string option) \<Rightarrow> string list \<Rightarrow> string list \<Rightarrow> int list \<Rightarrow> bool \<Rightarrow> egress_policy result" where
  "egress_policy_init idna allowed_hosts allowed_cidrs allowed_ports allow_local_demo =
     result_bind (collect_results (normalize_host idna) allowed_hosts) (\<lambda>hosts.
       if None \<in> set (map parse_network allowed_cidrs)
       then Inl (ValueError ''egress allowed CIDR was invalid'')
       else if allowed_ports = [] \<or> list_ex (\<lambda>port. \<not> (1 \<le> port \<and> port \<le> 65535)) allowed_ports
       then Inl (ValueError ''egress allowed ports were invalid'')
       else Inr \<lparr>eg_allowed_hosts = hosts, eg_allowed_networks = map (the \<circ> parse_network) allowed_cidrs,
                 eg_allowed_ports = allowed_ports, eg_allow_local_demo = allow_local_demo\<rparr>)"

definition validate_address :: "ip_runtime \<Rightarrow> egress_policy \<Rightarrow> string \<Rightarrow> ip_address \<Rightarrow> unit result" where
  "validate_address rt pol host a =
     (if is_loopback rt a
      then if eg_allow_local_demo pol \<and> host \<in> set LOCAL_DEMO_HOSTS then Inr () else Inl unsafe
      else if a \<in> set METADATA_ADDRESSES \<or> is_link_local rt a \<or> is_unspecified rt a \<or> is_multicast rt a
              \<or> is_reserved rt a
        then Inl unsafe
      else if host \<in> set (eg_allowed_hosts pol) then Inr ()
      else if \<not> list_ex (in_network a) (eg_allowed_networks pol) then Inl unsafe
      else Inr ())"

type_synonym ('t, 'st) host_resolver = "string \<Rightarrow> int \<Rightarrow> (('t, 'st) sys, ip_address list) prog"

text \<open>\<open>parsed.port or (443 if https else 80)\<close>: port 0 counts as absent.\<close>

definition endpoint_port :: "split_url \<Rightarrow> int result" where
  "endpoint_port parsed =
     (case url_port parsed of
        Inl _ \<Rightarrow> Inl unsafe
      | Inr p \<Rightarrow>
          Inr (if p = None \<or> p = Some 0 then (if url_scheme parsed = ''https'' then 443 else 80) else the p))"

definition endpoint_host :: "(string \<Rightarrow> string option) \<Rightarrow> string \<Rightarrow> string result" where
  "endpoint_host idna hostname = (case normalize_host idna hostname of Inl _ \<Rightarrow> Inl unsafe | Inr h \<Rightarrow> Inr h)"

definition egress_validate ::
  "ip_runtime \<Rightarrow> (string \<Rightarrow> string option) \<Rightarrow> ('t, 'st) host_resolver \<Rightarrow> egress_policy \<Rightarrow> ('t, 'st) endpoint_policy" where
  "egress_validate rt idna resolve pol endpoint =
     bind (lift (urlsplit endpoint)) (\<lambda>parsed.
     seq (raise_if (url_scheme parsed \<notin> {''http'', ''https''} \<or> url_hostname parsed = None) unsafe)
    (seq (raise_if (url_username parsed \<noteq> None \<or> url_password parsed \<noteq> None) unsafe)
    (seq (raise_if (url_fragment parsed \<noteq> []) unsafe)
    (bind (lift (endpoint_port parsed)) (\<lambda>port.
     seq (raise_if (port \<notin> set (eg_allowed_ports pol)) unsafe)
    (bind (lift (endpoint_host idna (the (url_hostname parsed)))) (\<lambda>host.
     seq (raise_if (host \<in> set METADATA_HOSTS) unsafe)
     (case parse_ip host of
        Some a \<Rightarrow> lift (validate_address rt pol host a)
      | None \<Rightarrow>
          seq (raise_if (host \<notin> set (eg_allowed_hosts pol)) unsafe)
         (bind (resolve host port) (\<lambda>addresses.
          bind (lift (collect_results (validate_address rt pol host) addresses)) (\<lambda>_. ret ())))))))))))"

text \<open>
  \<open>SystemHostResolver\<close> over \<open>getaddrinfo\<close>, which answers the address texts of the sockets or fails
  with an \<open>OSError\<close> (\<open>OtherException\<close> here).
\<close>

definition system_resolve ::
  "(string \<Rightarrow> int \<Rightarrow> (('t, 'st) sys, string list) prog) \<Rightarrow> ('t, 'st) host_resolver" where
  "system_resolve getaddrinfo host port =
     bind (catch (getaddrinfo host port) (\<lambda>e. case e of OtherException _ \<Rightarrow> raise unsafe | _ \<Rightarrow> raise e)) (\<lambda>texts.
     bind (lift (collect_results
       (\<lambda>t. case parse_ip t of None \<Rightarrow> Inl (ValueError ''not an IP address'') | Some a \<Rightarrow> Inr a) texts)) (\<lambda>found.
     seq (raise_if (found = []) unsafe)
       (ret (sort_key (\<lambda>a. (ip_version a, ip_int a)) (remdups found)))))"

end
