(* ===== verification/Egress_Correct.thy ===== *)
theory Egress_Correct
  imports Egress Registry_Correct
begin

text \<open>
  What the egress policy lets through, as intervals of address values, and what that means for the
  endpoints in the registry.
\<close>

section \<open>Ranges as intervals\<close>

lemma in_network_IPv4 [simp]:
  "in_network (IPv4 n) (IPv4 m, k) \<longleftrightarrow> n div 2 ^ (32 - k) = m div 2 ^ (32 - k)"
  "\<not> in_network (IPv4 n) (IPv6 m, k)" "\<not> in_network (IPv6 n) (IPv4 m, k)"
  "in_network (IPv6 n) (IPv6 m, k) \<longleftrightarrow> n div 2 ^ (128 - k) = m div 2 ^ (128 - k)"
  by (simp_all add: in_network_def)

definition valid_ip :: "ip_address \<Rightarrow> bool" where
  "valid_ip a \<longleftrightarrow> 0 \<le> ip_int a \<and> ip_int a < 2 ^ ip_bits a"

lemma div_interval:
  fixes q d m :: int
  assumes "0 < d"
  shows "q div d = m \<longleftrightarrow> m * d \<le> q \<and> q < (m + 1) * d"
proof
  assume "q div d = m"
  then have "q = m * d + q mod d" by (metis div_mult_mod_eq)
  then show "m * d \<le> q \<and> q < (m + 1) * d"
    using pos_mod_sign [OF assms, of q] pos_mod_bound [OF assms, of q] by (simp add: algebra_simps)
next
  assume "m * d \<le> q \<and> q < (m + 1) * d"
  then show "q div d = m"
    by (intro int_div_pos_eq [of q d m "q - m * d"]) (simp_all add: algebra_simps)
qed

lemma div_numeral_interval:
  "(q::int) div numeral d = m \<longleftrightarrow> m * numeral d \<le> q \<and> q < (m + 1) * numeral d"
  by (rule div_interval) simp

lemma merge_intervals:
  fixes a b c n :: int
  shows "a \<le> b \<Longrightarrow> b \<le> c \<Longrightarrow> (a \<le> n \<and> n < b \<or> b \<le> n \<and> n < c \<or> R) \<longleftrightarrow> (a \<le> n \<and> n < c \<or> R)"
    "a \<le> b \<Longrightarrow> b \<le> c \<Longrightarrow> (a \<le> n \<and> n < b \<or> b \<le> n \<and> n < c) \<longleftrightarrow> a \<le> n \<and> n < c"
  by auto

lemma reserved_IPv4: "in_ranges reserved_networks (IPv4 n) \<longleftrightarrow> 240 * 2 ^ 24 \<le> n \<and> n < 256 * 2 ^ 24"
  by (simp add: in_ranges_def reserved_networks_def div_numeral_interval)

lemma reserved_IPv6:
  "in_ranges reserved_networks (IPv6 n) \<longleftrightarrow>
     0 \<le> n \<and> n < 8192 * 2 ^ 112 \<or> 16384 * 2 ^ 112 \<le> n \<and> n < 64512 * 2 ^ 112 \<or>
     65024 * 2 ^ 112 \<le> n \<and> n < 65152 * 2 ^ 112"
  by (simp add: in_ranges_def reserved_networks_def div_numeral_interval merge_intervals)

section \<open>Admitted addresses\<close>

text \<open>Loopback, and the addresses outside every denied range, as intervals.\<close>

fun local_range :: "ip_address \<Rightarrow> bool" where
  "local_range (IPv4 n) \<longleftrightarrow> 127 * 2 ^ 24 \<le> n \<and> n < 128 * 2 ^ 24"
| "local_range (IPv6 n) \<longleftrightarrow> n = 1"

fun routable_range :: "ip_address \<Rightarrow> bool" where
  "routable_range (IPv4 n) \<longleftrightarrow> 0 < n \<and> n < 224 * 2 ^ 24 \<and> \<not> (43518 * 2 ^ 16 \<le> n \<and> n < 43519 * 2 ^ 16)"
| "routable_range (IPv6 n) \<longleftrightarrow>
     8192 * 2 ^ 112 \<le> n \<and> n < 16384 * 2 ^ 112 \<or> 64512 * 2 ^ 112 \<le> n \<and> n < 65024 * 2 ^ 112 \<or>
     65216 * 2 ^ 112 \<le> n \<and> n < 65280 * 2 ^ 112"

lemma is_loopback_iff: "is_loopback rt a \<longleftrightarrow> local_range (seen_as (mapped_loopback rt) a)"
  by (cases "seen_as (mapped_loopback rt) a") (auto simp: is_loopback_def in_ranges_def div_numeral_interval)

lemma valid_seen_as: "valid_ip a \<Longrightarrow> valid_ip (seen_as b a)"
  by (cases a) (auto simp: seen_as_def ipv4_mapped_def valid_ip_def)

lemma denied_ranges_iff:
  assumes "valid_ip a"
  shows "is_link_local rt a \<or> is_unspecified rt a \<or> is_multicast rt a \<or> is_reserved rt a \<longleftrightarrow>
    \<not> routable_range (seen_as (mapped_ranges rt) a)"
  using valid_seen_as [OF assms, of "mapped_ranges rt"]
  unfolding is_link_local_def is_unspecified_def is_multicast_def is_reserved_def
  by (cases "seen_as (mapped_ranges rt) a")
    (simp_all only: reserved_IPv4 reserved_IPv6, auto simp: in_ranges_def div_numeral_interval valid_ip_def)

definition address_admitted :: "ip_runtime \<Rightarrow> egress_policy \<Rightarrow> string \<Rightarrow> ip_address \<Rightarrow> bool" where
  "address_admitted rt pol host a \<longleftrightarrow>
     (if local_range (seen_as (mapped_loopback rt) a)
      then eg_allow_local_demo pol \<and> host \<in> set LOCAL_DEMO_HOSTS
      else a \<notin> set METADATA_ADDRESSES \<and> routable_range (seen_as (mapped_ranges rt) a) \<and>
        (host \<in> set (eg_allowed_hosts pol) \<or> (\<exists>net \<in> set (eg_allowed_networks pol). in_network a net)))"

lemma validate_address_Inr [check_rules]:
  assumes "valid_ip a"
  shows "validate_address rt pol host a = Inr u \<longleftrightarrow> address_admitted rt pol host a"
  using denied_ranges_iff [OF assms, of rt]
  by (auto simp: validate_address_def address_admitted_def is_loopback_iff list_ex_iff)

section \<open>Admitted endpoints\<close>

text \<open>
  An endpoint the policy accepts: a plain HTTP URL on an allowed port, whose host is an IP literal or
  an allowlisted name, with every address it stands for admitted.
\<close>

definition endpoint_admitted ::
  "ip_runtime \<Rightarrow> (string \<Rightarrow> string option) \<Rightarrow> ('t, 'st) host_resolver \<Rightarrow> egress_policy \<Rightarrow> ('t, 'st) sys \<Rightarrow>
   string \<Rightarrow> ip_address list \<Rightarrow> bool" where
  "endpoint_admitted rt idna resolve pol s endpoint addresses \<longleftrightarrow>
     (\<exists>u port host.
        urlsplit endpoint = Inr u \<and> url_scheme u \<in> {''http'', ''https''} \<and> url_username u = None \<and>
        url_password u = None \<and> url_fragment u = [] \<and>
        endpoint_port u = Inr port \<and> port \<in> set (eg_allowed_ports pol) \<and>
        endpoint_host idna (the (url_hostname u)) = Inr host \<and> host \<notin> set METADATA_HOSTS \<and>
        (case parse_ip host of
           Some a \<Rightarrow> addresses = [a]
         | None \<Rightarrow> host \<in> set (eg_allowed_hosts pol) \<and> fst (resolve host port s) = Inr addresses) \<and>
        (\<forall>a \<in> set addresses. valid_ip a \<longrightarrow> address_admitted rt pol host a))"

lemma egress_validate_admits:
  assumes "egress_validate rt idna resolve pol endpoint s = (Inr x, t)"
  shows "\<exists>addresses. endpoint_admitted rt idna resolve pol s endpoint addresses"
proof -
  obtain u port host where u: "urlsplit endpoint = Inr u" "url_scheme u \<in> {''http'', ''https''}"
      "url_username u = None" "url_password u = None" "url_fragment u = []"
      "endpoint_port u = Inr port" "port \<in> set (eg_allowed_ports pol)"
      "endpoint_host idna (the (url_hostname u)) = Inr host" "host \<notin> set METADATA_HOSTS"
    and rest: "(case parse_ip host of
        Some a \<Rightarrow> lift (validate_address rt pol host a)
      | None \<Rightarrow>
          seq (raise_if (host \<notin> set (eg_allowed_hosts pol)) unsafe)
         (bind (resolve host port) (\<lambda>addresses.
          bind (lift (collect_results (validate_address rt pol host) addresses)) (\<lambda>_. ret ())))) s = (Inr x, t)"
    using assms unfolding egress_validate_def run_Inr by blast
  show ?thesis
  proof (cases "parse_ip host")
    case (Some a)
    with rest have "validate_address rt pol host a = Inr x" by (simp add: run_Inr)
    then have "endpoint_admitted rt idna resolve pol s endpoint [a]"
      unfolding endpoint_admitted_def using u Some validate_address_Inr by fastforce
    then show ?thesis ..
  next
    case None
    with rest obtain addresses v r where "host \<in> set (eg_allowed_hosts pol)"
        "resolve host port s = (Inr addresses, v)" "collect_results (validate_address rt pol host) addresses = Inr r"
      by (auto simp: run_Inr)
    moreover from this(3) have "\<forall>a \<in> set addresses. valid_ip a \<longrightarrow> address_admitted rt pol host a"
      using collect_results_Inr validate_address_Inr by metis
    ultimately have "endpoint_admitted rt idna resolve pol s endpoint addresses"
      unfolding endpoint_admitted_def using u None by (intro exI [of _ u] exI [of _ port] exI [of _ host]) simp
    then show ?thesis ..
  qed
qed

section \<open>In front of the registry\<close>

lemma upstream_update_endpoint:
  "upstream_update u d owner endpoint auth config = Inr v \<Longrightarrow> us_endpoint v = endpoint"
  by (auto simp: upstream_update_def check_rules split: if_splits)

lemma register_upstream_checked:
  assumes "register_upstream p c s = (Inr u, t)"
  shows "us_endpoint u = ru_endpoint c \<and> (\<exists>x s'. p (ru_endpoint c) s = (Inr x, s'))"
proof -
  obtain x s' i where "p (ru_endpoint c) s = (Inr x, s')"
      "upstream_post_init (registered_upstream c i) = Inr u"
    using assms unfolding register_upstream_def run_Inr with_uow_Inr query_Inr by blast
  then show ?thesis by (auto simp: check_rules registered_upstream_def)
qed

lemma update_upstream_checked:
  assumes "update_upstream p c s = (Inr u, t)"
  shows "us_endpoint u = uu_endpoint c \<and> (\<exists>x s'. p (uu_endpoint c) s = (Inr x, s'))"
proof -
  obtain x s' old where "p (uu_endpoint c) s = (Inr x, s')"
      "upstream_update old (uu_description c) (uu_owner c) (uu_endpoint c) (uu_auth_scheme c) (uu_config c) = Inr u"
    using assms unfolding update_upstream_def Let_def run_Inr with_uow_Inr query_Inr require_some_Inr
    by (metis enter_exit)
  then show ?thesis using upstream_update_endpoint by blast
qed

section \<open>Properties\<close>

text \<open>A policy for one name with private addresses, in front of the sample registration.\<close>

definition sample_egress :: egress_policy where
  "sample_egress = \<lparr>eg_allowed_hosts = [''billing.example''], eg_allowed_networks = [(IPv4 (10 * 2 ^ 24), 8)],
     eg_allowed_ports = [80, 443], eg_allow_local_demo = False\<rparr>"

definition sample_runtime :: "bool \<Rightarrow> ip_runtime" where
  "sample_runtime mapping = \<lparr>mapped_loopback = mapping, mapped_ranges = mapping\<rparr>"

definition sample_policy :: "bool \<Rightarrow> ip_address list \<Rightarrow> (int, upstream_store) endpoint_policy" where
  "sample_policy mapping answers =
     egress_validate (sample_runtime mapping) (\<lambda>_. None) (\<lambda>host port. ret answers) sample_egress"

definition sample_update :: "string \<Rightarrow> update_upstream_command" where
  "sample_update i = \<lparr>uu_context = sample_actor, uu_upstream_service_id = i, uu_description = None,
     uu_owner = ''team'', uu_endpoint = ''http://10.1.2.3:80/v2'', uu_auth_scheme = None, uu_config = JObj []\<rparr>"

definition sample_registered :: "upstream_service result \<times> (int, upstream_store) sys" where
  "sample_registered = register_upstream (sample_policy True [IPv4 (10 * 2 ^ 24 + 7)]) sample_register registry_start"

text \<open>C20: With the egress policy in place, an endpoint gets into the registry, at registration or by an
  update, only as a plain HTTP(S) URL without credentials or fragment, on an allowed port, whose host
  is an IP literal or an allowlisted name other than the metadata host; and the literal, or every
  answer of the resolver, is either a loopback address of a demo host in demo mode, or lies outside
  the metadata, link-local, unspecified, multicast and reserved ranges and, for a host that is not
  allowlisted, inside an allowed network.\<close>

theorem registered_endpoints_are_admitted:
  "(\<forall>u t. register_upstream (egress_validate rt idna resolve pol) c1 s = (Inr u, t) \<longrightarrow>
      us_endpoint u = ru_endpoint c1 \<and>
      (\<exists>addresses. endpoint_admitted rt idna resolve pol s (us_endpoint u) addresses)) \<and>
   (\<forall>u t. update_upstream (egress_validate rt idna resolve pol) c2 s = (Inr u, t) \<longrightarrow>
      us_endpoint u = uu_endpoint c2 \<and>
      (\<exists>addresses. endpoint_admitted rt idna resolve pol s (us_endpoint u) addresses))"
  using register_upstream_checked update_upstream_checked egress_validate_admits by metis

theorem registered_endpoints_are_admitted_witness:
  "\<exists>u v addresses1 addresses2 t.
     register_upstream (sample_policy True [IPv4 (10 * 2 ^ 24 + 7)]) sample_register registry_start = (Inr u, t) \<and>
     fst (update_upstream (sample_policy True []) (sample_update (us_id u)) t) = Inr v \<and>
     endpoint_admitted (sample_runtime True) (\<lambda>_. None) (\<lambda>host port. ret [IPv4 (10 * 2 ^ 24 + 7)])
       sample_egress registry_start (us_endpoint u) addresses1 \<and>
     endpoint_admitted (sample_runtime True) (\<lambda>_. None) (\<lambda>host port. ret []) sample_egress t
       (us_endpoint v) addresses2"
proof -
  have "case sample_registered of (r, t) \<Rightarrow> (case r of
      Inl e \<Rightarrow> False | Inr u \<Rightarrow> \<not> isl (fst (update_upstream (sample_policy True []) (sample_update (us_id u)) t)))"
    by code_simp
  then obtain u t where u: "sample_registered = (Inr u, t)"
    and up: "\<not> isl (fst (update_upstream (sample_policy True []) (sample_update (us_id u)) t))"
    by (auto split: prod.splits sum.splits)
  from up obtain v where "fst (update_upstream (sample_policy True []) (sample_update (us_id u)) t) = Inr v"
    by (cases "fst (update_upstream (sample_policy True []) (sample_update (us_id u)) t)") auto
  then obtain t' where v: "update_upstream (sample_policy True []) (sample_update (us_id u)) t = (Inr v, t')"
    by (metis prod.collapse)
  show ?thesis
    using u v registered_endpoints_are_admitted
    unfolding sample_registered_def sample_policy_def by (metis fst_conv)
qed

text \<open>The metadata addresses are denied only in their IPv4 form. On an interpreter that decides
  the ranges of an IPv4-mapped address on the mapped one, an allowlisted name whose resolver answers
  with the mapped form of a metadata address is let through, though the same address in IPv4 form is
  refused; on the other interpreters the mapped form lies in a reserved range and is refused too.\<close>

theorem mapped_metadata_address_passes:
  "fst (sample_policy True [IPv6 (65535 * 2 ^ 32 + ip_int (hd METADATA_ADDRESSES))] ''https://billing.example/''
     registry_start) = Inr () \<and>
   fst (sample_policy True [hd METADATA_ADDRESSES] ''https://billing.example/'' registry_start) = Inl unsafe \<and>
   fst (sample_policy False [IPv6 (65535 * 2 ^ 32 + ip_int (hd METADATA_ADDRESSES))] ''https://billing.example/''
     registry_start) = Inl unsafe"
  by code_simp

end
