(* ===== verification/OpenApi_Parser.thy ===== *)
theory OpenApi_Parser
  imports Registry
begin

text \<open>
  The OpenAPI parser (\<open>openapi_import/parser.py\<close>) with the parsed operations of
  \<open>openapi_import/domain.py\<close>. A document is the value \<open>json.loads\<close> made of it (the only reader is
  the JSON one), so mappings are \<open>JObj\<close>s with distinct keys, sequences that are not texts are
  \<open>JList\<close>s, and \<open>str(key)\<close> of a key is the key. Values that Python keeps as \<open>None\<close> are \<open>JNull\<close>
  where they are part of a document and \<open>option\<close>s elsewhere.

  \<open>_resolve_node\<close> recurses through references, lists and objects with a depth that every call
  raises; its termination is a measure on that depth.
\<close>

text \<open>Evaluation runs the continuation of a \<open>result_bind\<close> only on its value.\<close>

declare result_bind_def [code_unfold]

section \<open>Domain\<close>

datatype operation_conflict_status =
    CONFLICT_NONE | NAME_COLLISION | MISSING_OPERATION_ID | CONFLICT_UNSUPPORTED

record parsed_operation =
  pp_operation_key :: string
  pp_operation_id :: "string option"
  pp_method :: string
  pp_path :: string
  pp_normalized_operation :: json
  pp_generated_tool_name :: "string option"
  pp_conflict_status :: operation_conflict_status

record parsed_document =
  pd_openapi_version :: string
  pd_operations :: "parsed_operation list"

section \<open>Values\<close>

definition invalid_document :: exn where
  "invalid_document = NexusError OpenApiDocumentInvalidError"

definition unsupported_feature :: exn where
  "unsupported_feature = NexusError OpenApiFeatureUnsupportedError"

type_synonym json_object = "(string \<times> json) list"

text \<open>\<open>value.get(key)\<close> and \<open>value.get(key, default)\<close>: an absent key gives the default.\<close>

definition obj_get :: "json_object \<Rightarrow> string \<Rightarrow> json" where
  "obj_get d k = (case dict_get d k of None \<Rightarrow> JNull | Some v \<Rightarrow> v)"

definition obj_get_or :: "json_object \<Rightarrow> string \<Rightarrow> json \<Rightarrow> json" where
  "obj_get_or d k v0 = (case dict_get d k of None \<Rightarrow> v0 | Some v \<Rightarrow> v)"

fun require_mapping :: "json \<Rightarrow> json_object result" where
  "require_mapping (JObj kvs) = Inr kvs"
| "require_mapping _ = Inl invalid_document"

fun require_sequence :: "json \<Rightarrow> json list result" where
  "require_sequence (JList vs) = Inr vs"
| "require_sequence _ = Inl invalid_document"

fun optional_text :: "json \<Rightarrow> json" where
  "optional_text (JStr s) = (if blank s then JNull else JStr s)"
| "optional_text _ = JNull"

fun as_string :: "json \<Rightarrow> string option" where
  "as_string (JStr s) = Some s"
| "as_string _ = None"

definition string_list :: "json \<Rightarrow> string list result" where
  "string_list v =
     result_bind (require_sequence v) (\<lambda>items.
       if list_ex (\<lambda>i. as_string i = None) items then Inl invalid_document
       else Inr (map (the \<circ> as_string) items))"

definition json_strings :: "string list \<Rightarrow> json" where
  "json_strings xs = JList (map JStr xs)"

definition json_option :: "json option \<Rightarrow> json" where
  "json_option v = (case v of None \<Rightarrow> JNull | Some x \<Rightarrow> x)"

definition string_option :: "string option \<Rightarrow> json" where
  "string_option v = (case v of None \<Rightarrow> JNull | Some s \<Rightarrow> JStr s)"

section \<open>Names\<close>

definition ascii_lower_or_digit :: "char \<Rightarrow> bool" where
  "ascii_lower_or_digit c \<longleftrightarrow> (let n = of_char c :: int in (97 \<le> n \<and> n \<le> 122) \<or> (48 \<le> n \<and> n \<le> 57))"

definition ascii_upper :: "char \<Rightarrow> bool" where
  "ascii_upper c \<longleftrightarrow> (let n = of_char c :: int in 65 \<le> n \<and> n \<le> 90)"

definition ascii_alnum :: "char \<Rightarrow> bool" where
  "ascii_alnum c \<longleftrightarrow> ascii_lower_or_digit c \<or> ascii_upper c"

text \<open>\<open>re.compile(r"([a-z0-9])([A-Z])").sub(r"\1_\2", s)\<close>\<close>

fun split_camel :: "string \<Rightarrow> string" where
  "split_camel (x # y # zs) =
     (if ascii_lower_or_digit x \<and> ascii_upper y then x # CHR ''_'' # split_camel (y # zs)
      else x # split_camel (y # zs))"
| "split_camel xs = xs"

text \<open>\<open>re.compile(r"[^a-zA-Z0-9]+").sub("_", s)\<close>\<close>

function collapse_non_identifier :: "string \<Rightarrow> string" where
  "collapse_non_identifier [] = []"
| "collapse_non_identifier (x # xs) =
     (if ascii_alnum x then x # collapse_non_identifier xs
      else CHR ''_'' # collapse_non_identifier (dropWhile (\<lambda>c. \<not> ascii_alnum c) xs))"
  by pat_completeness auto

termination collapse_non_identifier
  by (relation "measure length") (auto simp: le_imp_less_Suc length_dropWhile_le)

definition strip_underscores :: "string \<Rightarrow> string" where
  "strip_underscores s =
     rev (dropWhile (\<lambda>c. c = CHR ''_'') (rev (dropWhile (\<lambda>c. c = CHR ''_'') s)))"

definition argument_name :: "string \<Rightarrow> string" where
  "argument_name name = py_lower (strip_underscores (collapse_non_identifier name))"

definition generated_tool_name :: "string \<Rightarrow> string option \<Rightarrow> string \<Rightarrow> string \<Rightarrow> string" where
  "generated_tool_name namespace operation_id meth path =
     (let candidate = (case operation_id of
            Some i \<Rightarrow> if i = [] then meth @ ''_'' @ path else i
          | None \<Rightarrow> meth @ ''_'' @ path)
      in namespace @ ''.'' @ argument_name (split_camel candidate))"

definition SIDE_EFFECTS :: "string list" where
  "SIDE_EFFECTS = [''read_only'', ''idempotent_write'', ''non_idempotent_write'', ''unknown'']"

definition operation_side_effect :: "json_object \<Rightarrow> string \<Rightarrow> string" where
  "operation_side_effect operation meth =
     (let by_method =
            (if meth = ''get'' then ''read_only''
             else if meth = ''put'' \<or> meth = ''delete'' then ''idempotent_write''
             else if meth = ''post'' then ''non_idempotent_write''
             else ''unknown'')
      in case as_string (obj_get operation ''x-nexusmcp-side-effect'') of
           Some declared \<Rightarrow> if declared \<in> set SIDE_EFFECTS then declared else by_method
         | None \<Rightarrow> by_method)"

section \<open>References\<close>

definition MAX_REF_DEPTH :: nat where
  "MAX_REF_DEPTH = 32"

text \<open>\<open>s.replace(ab, r)\<close> for a two-character pattern\<close>

fun replace_pair :: "char \<Rightarrow> char \<Rightarrow> char \<Rightarrow> string \<Rightarrow> string" where
  "replace_pair a b r (x # y # zs) =
     (if x = a \<and> y = b then r # replace_pair a b r zs else x # replace_pair a b r (y # zs))"
| "replace_pair a b r xs = xs"

definition unescape_pointer :: "string \<Rightarrow> string" where
  "unescape_pointer raw_part =
     replace_pair (CHR ''~'') (CHR ''0'') (CHR ''~'') (replace_pair (CHR ''~'') (CHR ''1'') (CHR ''/'') raw_part)"

fun follow_pointer :: "string list \<Rightarrow> json \<Rightarrow> json result" where
  "follow_pointer [] current = Inr current"
| "follow_pointer (part # parts) current =
     (case json_get current part of
        None \<Rightarrow> Inl invalid_document
      | Some inner \<Rightarrow> follow_pointer parts inner)"

definition resolve_pointer :: "json_object \<Rightarrow> string \<Rightarrow> json result" where
  "resolve_pointer document reference =
     follow_pointer (map unescape_pointer (split_on (CHR ''/'') (drop 2 reference))) (JObj document)"

definition keep_key :: "string \<times> json \<Rightarrow> bool" where
  "keep_key kv \<longleftrightarrow> fst kv \<notin> {''example'', ''examples''}"

text \<open>\<open>{**resolved, **overrides}\<close>\<close>

definition merge_objects :: "json_object \<Rightarrow> json_object \<Rightarrow> json_object" where
  "merge_objects resolved overrides = foldl (\<lambda>d (k, v). dict_set k v d) resolved overrides"

definition local_reference :: "json \<Rightarrow> string list \<Rightarrow> string result" where
  "local_reference reference stack =
     (case as_string reference of
        None \<Rightarrow> Inl unsupported_feature
      | Some r \<Rightarrow>
          if \<not> starts_with r ''#/'' then Inl unsupported_feature
          else if r \<in> set stack then Inl unsupported_feature
          else Inr r)"

function resolve_node :: "json_object \<Rightarrow> string list \<Rightarrow> nat \<Rightarrow> json \<Rightarrow> json result" where
  "resolve_node document stack depth value =
     (if MAX_REF_DEPTH < depth then Inl unsupported_feature
      else case value of
        JList items \<Rightarrow>
          result_bind (collect_results (resolve_node document stack (depth + 1)) items) (\<lambda>vs. Inr (JList vs))
      | JObj kvs \<Rightarrow>
          if obj_get kvs ''$ref'' \<noteq> JNull then
            result_bind (local_reference (obj_get kvs ''$ref'') stack) (\<lambda>reference.
            result_bind (resolve_pointer document reference) (\<lambda>target.
            result_bind (resolve_node document (stack @ [reference]) (depth + 1) target) (\<lambda>resolved.
            result_bind (require_mapping resolved) (\<lambda>fields.
            result_bind (resolve_node document stack (depth + 1)
                           (JObj (filter (\<lambda>kv. fst kv \<noteq> ''$ref'') kvs))) (\<lambda>siblings.
            result_bind (require_mapping siblings) (\<lambda>overrides.
              Inr (JObj (merge_objects fields overrides))))))))
          else
            result_bind (collect_results
                (\<lambda>kv. result_bind (resolve_node document stack (depth + 1) (snd kv)) (\<lambda>v. Inr (fst kv, v)))
                (filter keep_key kvs)) (\<lambda>fields. Inr (JObj fields))
      | _ \<Rightarrow> Inr value)"
  by pat_completeness auto

termination resolve_node
  by (relation "measure (\<lambda>(_, _, depth, _). Suc MAX_REF_DEPTH - depth)") auto

declare resolve_node.simps [simp del]

section \<open>Parts of an operation\<close>

text \<open>
  \<open>(parameter.get("name"), parameter.get("in"))\<close> as a dictionary key: lists and objects are not
  hashable, and Python's \<open>True\<close> and \<open>1\<close> are the same key.
\<close>

fun hashable :: "json \<Rightarrow> bool" where
  "hashable (JList _) = False"
| "hashable (JObj _) = False"
| "hashable _ = True"

fun hash_key :: "json \<Rightarrow> json" where
  "hash_key (JBool b) = JInt (if b then 1 else 0)"
| "hash_key v = v"

fun merge_parameters_into ::
  "json_object \<Rightarrow> (json \<times> json, json_object) dict \<Rightarrow> json list \<Rightarrow> (json \<times> json, json_object) dict result" where
  "merge_parameters_into document merged [] = Inr merged"
| "merge_parameters_into document merged (raw # rest) =
     result_bind (resolve_node document [] 0 raw) (\<lambda>resolved.
     result_bind (require_mapping resolved) (\<lambda>parameter.
       if \<not> (hashable (obj_get parameter ''name'') \<and> hashable (obj_get parameter ''in''))
       then Inl (TypeError ''unhashable type'')
       else merge_parameters_into document
         (dict_set (hash_key (obj_get parameter ''name''), hash_key (obj_get parameter ''in'')) parameter merged)
         rest))"

definition merge_parameters :: "json list \<Rightarrow> json list \<Rightarrow> json_object \<Rightarrow> json_object list result" where
  "merge_parameters path_parameters operation_parameters document =
     result_bind (merge_parameters_into document [] (path_parameters @ operation_parameters)) (\<lambda>merged.
       Inr (dict_values merged))"

definition PARAMETER_LOCATIONS :: "string list" where
  "PARAMETER_LOCATIONS = [''path'', ''query'', ''header'']"

record parameters_state =
  ps_conflict :: operation_conflict_status
  ps_normalized :: "json list"
  ps_properties :: json_object
  ps_required :: "string list"

text \<open>One round of the loop over the parameters.\<close>

definition parameter_argument :: "string \<Rightarrow> string \<Rightarrow> json_object \<Rightarrow> string" where
  "parameter_argument location name properties =
     (let argument = argument_name name
      in if dict_get properties argument \<noteq> None then location @ ''_'' @ argument else argument)"

definition add_parameter :: "json_object \<Rightarrow> parameters_state \<Rightarrow> json_object \<Rightarrow> parameters_state result" where
  "add_parameter document st parameter =
     (case (as_string (obj_get parameter ''in''), as_string (obj_get parameter ''name'')) of
        (Some location, Some name) \<Rightarrow>
          if location \<notin> set PARAMETER_LOCATIONS \<or> name = []
          then Inr (st\<lparr>ps_conflict := CONFLICT_UNSUPPORTED\<rparr>)
          else
            (let argument = parameter_argument location name (ps_properties st);
                 required = (location = ''path'' \<or> obj_get parameter ''required'' = JBool True)
             in result_bind (require_mapping (obj_get_or parameter ''schema'' (JObj []))) (\<lambda>schema.
                result_bind (resolve_node document [] 0 (JObj schema)) (\<lambda>resolved_schema.
                  Inr (st\<lparr>ps_normalized := ps_normalized st @
                            [JObj [(''argument_name'', JStr argument), (''upstream_name'', JStr name),
                                   (''location'', JStr location), (''required'', JBool required),
                                   (''schema'', resolved_schema)]],
                          ps_properties := dict_set argument resolved_schema (ps_properties st),
                          ps_required := ps_required st @ (if required then [argument] else [])\<rparr>))))
      | _ \<Rightarrow> Inr (st\<lparr>ps_conflict := CONFLICT_UNSUPPORTED\<rparr>))"

fun add_parameters :: "json_object \<Rightarrow> parameters_state \<Rightarrow> json_object list \<Rightarrow> parameters_state result" where
  "add_parameters document st [] = Inr st"
| "add_parameters document st (p # ps) =
     result_bind (add_parameter document st p) (\<lambda>st'. add_parameters document st' ps)"

definition normalize_request_body :: "json \<Rightarrow> json_object \<Rightarrow> (json_object option \<times> bool) result" where
  "normalize_request_body raw_request_body document =
     (if raw_request_body = JNull then Inr (None, False)
      else
        result_bind (resolve_node document [] 0 raw_request_body) (\<lambda>resolved.
        result_bind (require_mapping resolved) (\<lambda>request_body.
        result_bind (require_mapping (obj_get request_body ''content'')) (\<lambda>content.
          if obj_get content ''application/json'' = JNull then Inr (None, True)
          else
            result_bind (require_mapping (obj_get content ''application/json'')) (\<lambda>media.
            result_bind (require_mapping (obj_get_or media ''schema'' (JObj []))) (\<lambda>schema.
            result_bind (resolve_node document [] 0 (JObj schema)) (\<lambda>resolved_schema.
              Inr (Some [(''argument_name'', JStr ''body''),
                         (''required'', JBool (obj_get request_body ''required'' = JBool True)),
                         (''content_type'', JStr ''application/json''),
                         (''schema'', resolved_schema)], False))))))))"

record responses_state =
  rs_normalized :: "json list"
  rs_output_schema :: "json option"
  rs_unsupported :: bool

definition response_schema :: "json_object \<Rightarrow> json_object \<Rightarrow> json option result" where
  "response_schema document content =
     (if obj_get content ''application/json'' = JNull then Inr None
      else
        result_bind (require_mapping (obj_get content ''application/json'')) (\<lambda>media.
        result_bind (require_mapping (obj_get_or media ''schema'' (JObj []))) (\<lambda>schema.
        result_bind (resolve_node document [] 0 (JObj schema)) (\<lambda>resolved. Inr (Some resolved)))))"

definition add_response ::
  "json_object \<Rightarrow> json_object \<Rightarrow> responses_state \<Rightarrow> string \<Rightarrow> responses_state result" where
  "add_response document responses st status_code =
     result_bind (resolve_node document [] 0 (obj_get responses status_code)) (\<lambda>resolved.
     result_bind (require_mapping resolved) (\<lambda>response.
     result_bind (require_mapping (obj_get_or response ''content'' (JObj []))) (\<lambda>content.
     result_bind (response_schema document content) (\<lambda>schema.
       Inr \<lparr>rs_normalized = rs_normalized st @
              [JObj [(''status_code'', JStr status_code),
                     (''description'', optional_text (obj_get response ''description'')),
                     (''content_types'', json_strings (sort (map fst content))),
                     (''schema'', json_option schema)]],
            rs_output_schema =
              (if schema \<noteq> None \<and> starts_with status_code ''2'' \<and> rs_output_schema st = None
               then schema else rs_output_schema st),
            rs_unsupported =
              (rs_unsupported st \<or> obj_get content ''application/json'' = JNull \<and> content \<noteq> [])\<rparr>))))"

fun add_responses ::
  "json_object \<Rightarrow> json_object \<Rightarrow> responses_state \<Rightarrow> string list \<Rightarrow> responses_state result" where
  "add_responses document responses st [] = Inr st"
| "add_responses document responses st (c # cs) =
     result_bind (add_response document responses st c) (\<lambda>st'. add_responses document responses st' cs)"

definition normalize_responses :: "json \<Rightarrow> json_object \<Rightarrow> responses_state result" where
  "normalize_responses raw_responses document =
     result_bind (require_mapping raw_responses) (\<lambda>responses.
       add_responses document responses \<lparr>rs_normalized = [], rs_output_schema = None, rs_unsupported = False\<rparr>
         (sort (map fst responses)))"

definition normalize_security :: "json \<Rightarrow> json result" where
  "normalize_security value =
     (if value = JNull then Inr (JList [])
      else
        result_bind (require_sequence value) (\<lambda>requirements.
        result_bind (collect_results (\<lambda>requirement.
            result_bind (require_mapping requirement) (\<lambda>mapping.
            result_bind (collect_results (\<lambda>kv. result_bind (string_list (snd kv)) (\<lambda>scopes.
                Inr (fst kv, json_strings scopes))) mapping) (\<lambda>fields. Inr (JObj fields)))) requirements)
          (\<lambda>normalized. Inr (JList normalized))))"

section \<open>Operations\<close>

definition method_upper :: "string \<Rightarrow> string" where
  "method_upper meth =
     map (\<lambda>c. if 97 \<le> (of_char c :: int) \<and> (of_char c :: int) \<le> 122 then char_of ((of_char c :: int) - 32) else c) meth"

definition tool_input_schema :: "json_object \<Rightarrow> string list \<Rightarrow> json" where
  "tool_input_schema properties required =
     JObj [(''type'', JStr ''object''), (''properties'', JObj properties),
           (''required'', json_strings required), (''additionalProperties'', JBool False)]"

definition normalized_operation ::
  "json_object \<Rightarrow> string option \<Rightarrow> string \<Rightarrow> string \<Rightarrow> string list \<Rightarrow> parameters_state \<Rightarrow>
   json_object option \<Rightarrow> responses_state \<Rightarrow> json \<Rightarrow> json" where
  "normalized_operation operation operation_id meth path tags st request_body rs security =
     (let (properties, required) =
        (case request_body of
           None \<Rightarrow> (ps_properties st, ps_required st)
         | Some body \<Rightarrow>
             (dict_set ''body'' (obj_get body ''schema'') (ps_properties st),
              ps_required st @ (if obj_get body ''required'' = JBool True then [''body''] else [])))
      in JObj
        [(''operation_id'', string_option operation_id),
         (''summary'', optional_text (obj_get operation ''summary'')),
         (''description'', optional_text (obj_get operation ''description'')),
         (''method'', JStr (method_upper meth)), (''path'', JStr path), (''tags'', json_strings tags),
         (''parameters'', JList (ps_normalized st)),
         (''request_body'', json_option (map_option JObj request_body)),
         (''responses'', JList (rs_normalized rs)), (''security'', security),
         (''side_effect'', JStr (operation_side_effect operation meth)),
         (''tool_input_schema'', tool_input_schema properties required),
         (''tool_output_schema'', json_option (rs_output_schema rs))])"

definition parse_operation ::
  "json_object \<Rightarrow> string \<Rightarrow> string \<Rightarrow> string \<Rightarrow> string \<Rightarrow> string option \<Rightarrow> json_object \<Rightarrow> json list \<Rightarrow>
   parsed_operation result" where
  "parse_operation document namespace meth path operation_key operation_id operation path_parameters =
     result_bind (require_sequence (obj_get_or operation ''parameters'' (JList []))) (\<lambda>own_parameters.
     result_bind (merge_parameters path_parameters own_parameters document) (\<lambda>combined.
     result_bind (add_parameters document
        \<lparr>ps_conflict = (if operation_id = None then MISSING_OPERATION_ID else CONFLICT_NONE),
         ps_normalized = [], ps_properties = [], ps_required = []\<rparr> combined) (\<lambda>st.
     result_bind (normalize_request_body (obj_get operation ''requestBody'') document)
       (\<lambda>(request_body, body_unsupported).
     result_bind (normalize_responses (obj_get operation ''responses'') document) (\<lambda>rs.
     result_bind (string_list (obj_get_or operation ''tags'' (JList []))) (\<lambda>tags.
     result_bind (normalize_security (obj_get_or operation ''security'' (JList []))) (\<lambda>security.
       Inr \<lparr>pp_operation_key = operation_key, pp_operation_id = operation_id, pp_method = method_upper meth,
            pp_path = path,
            pp_normalized_operation =
              normalized_operation operation operation_id meth path tags st request_body rs security,
            pp_generated_tool_name = Some (generated_tool_name namespace operation_id meth path),
            pp_conflict_status =
              (if body_unsupported \<or> rs_unsupported rs then CONFLICT_UNSUPPORTED else ps_conflict st)\<rparr>)))))))"

section \<open>Documents\<close>

definition HTTP_METHODS :: "string list" where
  "HTTP_METHODS = [''get'', ''post'', ''put'', ''patch'', ''delete'']"

definition stripped_operation_id :: "json_object \<Rightarrow> string option" where
  "stripped_operation_id operation =
     (case as_string (obj_get operation ''operationId'') of
        Some i \<Rightarrow> if blank i then None else Some (py_strip i)
      | None \<Rightarrow> None)"

definition operation_key_of :: "string \<Rightarrow> string \<Rightarrow> string" where
  "operation_key_of meth path = method_upper meth @ '' '' @ path"

definition operation_selected :: "string list \<Rightarrow> string \<Rightarrow> string option \<Rightarrow> bool" where
  "operation_selected allowlist key operation_id \<longleftrightarrow>
     \<not> (allowlist \<noteq> [] \<and> key \<notin> set allowlist \<and> (case operation_id of None \<Rightarrow> True | Some i \<Rightarrow> i \<notin> set allowlist))"

text \<open>One round of the inner loop: nothing for a method the path lacks or the allowlist leaves out.\<close>

definition parse_method ::
  "json_object \<Rightarrow> string \<Rightarrow> string list \<Rightarrow> string \<Rightarrow> json_object \<Rightarrow> json list \<Rightarrow> string \<Rightarrow>
   parsed_operation list result" where
  "parse_method document namespace allowlist path path_item path_parameters meth =
     (if obj_get path_item meth = JNull then Inr []
      else
        result_bind (require_mapping (obj_get path_item meth)) (\<lambda>operation.
          let operation_id = stripped_operation_id operation; key = operation_key_of meth path
          in if \<not> operation_selected allowlist key operation_id then Inr []
             else result_bind (parse_operation document namespace meth path key operation_id operation
                                 path_parameters) (\<lambda>parsed. Inr [parsed])))"

definition parse_path ::
  "json_object \<Rightarrow> string \<Rightarrow> string list \<Rightarrow> json_object \<Rightarrow> string \<Rightarrow> parsed_operation list result" where
  "parse_path document namespace allowlist paths path =
     (if \<not> starts_with path ''/'' then Inl invalid_document
      else
        result_bind (require_mapping (obj_get paths path)) (\<lambda>path_item.
        result_bind (require_sequence (obj_get_or path_item ''parameters'' (JList []))) (\<lambda>path_parameters.
        result_bind (collect_results (parse_method document namespace allowlist path path_item path_parameters)
                       HTTP_METHODS) (\<lambda>found. Inr (concat found)))))"

definition mark_collision :: "parsed_operation list \<Rightarrow> parsed_operation \<Rightarrow> parsed_operation" where
  "mark_collision operations p =
     (if pp_generated_tool_name p \<noteq> None \<and>
         1 < length (filter (\<lambda>q. pp_generated_tool_name q = pp_generated_tool_name p) operations) \<and>
         pp_conflict_status p = CONFLICT_NONE
      then p\<lparr>pp_conflict_status := NAME_COLLISION\<rparr> else p)"

definition parse_document ::
  "json_object \<Rightarrow> string \<Rightarrow> string list \<Rightarrow> parsed_document result" where
  "parse_document document namespace operation_allowlist =
     (if \<not> namespace_pattern namespace then Inl invalid_document
      else case as_string (obj_get document ''openapi'') of
        None \<Rightarrow> Inl unsupported_feature
      | Some openapi_version \<Rightarrow>
          if \<not> (starts_with openapi_version ''3.0.'' \<or> starts_with openapi_version ''3.1.'')
          then Inl unsupported_feature
          else
            result_bind (require_mapping (obj_get document ''paths'')) (\<lambda>paths.
            result_bind (collect_results (parse_path document namespace operation_allowlist paths)
                           (sort (map fst paths))) (\<lambda>found.
              let operations = concat found
              in if operations = [] then Inl invalid_document
                 else Inr \<lparr>pd_openapi_version = openapi_version,
                           pd_operations = map (mark_collision operations) operations\<rparr>)))"

end
