(* ===== verification/OpenApi_Store.thy ===== *)
theory OpenApi_Store
  imports OpenApi_Parser Publish
begin

text \<open>
  Import jobs and imported operations (\<open>openapi_import/domain.py\<close>), their repository
  (\<open>openapi_import/adapters/in_memory.py\<close>), and the stores of the import and review units of work,
  which extend the catalog's. The import unit of work holds the jobs, operations and upstreams only;
  its transactions touch nothing else, so the wider stores serve both.
\<close>

section \<open>Domain\<close>

datatype openapi_source_type = SOURCE_UPLOAD | SOURCE_LOCAL_FIXTURE | SOURCE_URL

datatype import_job_status = JOB_PENDING | JOB_VALIDATING | JOB_PARSING | JOB_COMPLETED | JOB_FAILED

datatype operation_review_status = REVIEW_PENDING | REVIEW_ACCEPTED | REVIEW_REJECTED | REVIEW_NEEDS_CHANGE

record import_job =
  ij_id :: string
  ij_tenant_id :: string
  ij_upstream_service_id :: string
  ij_source_type :: openapi_source_type
  ij_source_ref :: string
  ij_source_digest :: string
  ij_openapi_version :: "string option"
  ij_operation_allowlist :: "string list"
  ij_allowlist_snapshot :: json
  ij_status :: import_job_status
  ij_error_summary :: "string option"
  ij_created_by :: string
  ij_created_at :: datetime
  ij_started_at :: "datetime option"
  ij_completed_at :: "datetime option"

record imported_operation =
  io_id :: string
  io_tenant_id :: string
  io_import_job_id :: string
  io_upstream_service_id :: string
  io_operation_key :: string
  io_operation_id :: "string option"
  io_method :: string
  io_path :: string
  io_normalized_operation :: json
  io_generated_tool_name :: "string option"
  io_conflict_status :: operation_conflict_status
  io_review_status :: operation_review_status
  io_review_notes :: "string option"
  io_draft_tool_version_id :: "string option"
  io_draft_tool_binding_id :: "string option"

record openapi_document =
  od_source_ref :: string
  od_source_digest :: string
  od_content :: json_object

definition job_start_validation :: "import_job \<Rightarrow> datetime \<Rightarrow> import_job result" where
  "job_start_validation j started_at =
     (if ij_status j \<noteq> JOB_PENDING then Inl (ValueError ''only pending import job can start validation'')
      else Inr (j\<lparr>ij_status := JOB_VALIDATING, ij_started_at := Some started_at\<rparr>))"

definition job_start_parsing :: "import_job \<Rightarrow> import_job result" where
  "job_start_parsing j =
     (if ij_status j \<noteq> JOB_VALIDATING then Inl (ValueError ''only validating import job can start parsing'')
      else Inr (j\<lparr>ij_status := JOB_PARSING\<rparr>))"

definition job_complete :: "import_job \<Rightarrow> string \<Rightarrow> datetime \<Rightarrow> import_job result" where
  "job_complete j openapi_version completed_at =
     (if ij_status j \<noteq> JOB_PARSING then Inl (ValueError ''only parsing import job can complete'')
      else Inr (j\<lparr>ij_status := JOB_COMPLETED, ij_openapi_version := Some openapi_version,
                  ij_completed_at := Some completed_at, ij_error_summary := None\<rparr>))"

definition job_fail :: "import_job \<Rightarrow> string \<Rightarrow> datetime \<Rightarrow> import_job result" where
  "job_fail j error_summary completed_at =
     (if ij_status j \<in> {JOB_COMPLETED, JOB_FAILED} then Inl (ValueError ''terminal import job cannot fail again'')
      else Inr (j\<lparr>ij_status := JOB_FAILED, ij_error_summary := Some error_summary,
                  ij_completed_at := Some completed_at\<rparr>))"

definition operation_accept ::
  "imported_operation \<Rightarrow> string \<Rightarrow> string \<Rightarrow> string option \<Rightarrow> imported_operation result" where
  "operation_accept o' draft_tool_version_id draft_tool_binding_id review_notes =
     (if io_conflict_status o' \<noteq> CONFLICT_NONE
        then Inl (ValueError ''operation with conflict cannot be accepted'')
      else if io_review_status o' \<notin> {REVIEW_PENDING, REVIEW_NEEDS_CHANGE}
        then Inl (ValueError ''operation cannot be accepted from current review state'')
      else Inr (o'\<lparr>io_review_status := REVIEW_ACCEPTED, io_review_notes := review_notes,
                   io_draft_tool_version_id := Some draft_tool_version_id,
                   io_draft_tool_binding_id := Some draft_tool_binding_id\<rparr>))"

section \<open>Repository\<close>

type_synonym job_store = "(string, import_job) dict"

type_synonym operation_store = "(string, imported_operation) dict"

definition job_add :: "string \<Rightarrow> import_job \<Rightarrow> job_store \<Rightarrow> job_store result" where
  "job_add tenant_id j d =
     (if tenant_id \<noteq> ij_tenant_id j then Inl tenant_mismatch
      else if dict_get d (ij_id j) \<noteq> None then Inl (ValueError ''OpenAPI import job id already exists'')
      else Inr (dict_set (ij_id j) j d))"

definition job_save :: "string \<Rightarrow> import_job \<Rightarrow> job_store \<Rightarrow> job_store result" where
  "job_save tenant_id j d =
     (if tenant_id \<noteq> ij_tenant_id j then Inl tenant_mismatch
      else case dict_get d (ij_id j) of
        None \<Rightarrow> Inl (ValueError ''OpenAPI import job does not exist in tenant'')
      | Some current \<Rightarrow>
          if ij_tenant_id current \<noteq> tenant_id
          then Inl (ValueError ''OpenAPI import job does not exist in tenant'')
          else Inr (dict_set (ij_id j) j d))"

definition job_get :: "string \<Rightarrow> string \<Rightarrow> job_store \<Rightarrow> import_job option" where
  "job_get tenant_id import_job_id d = scoped_get ij_tenant_id tenant_id import_job_id d"

interpretation job_repo: keyed_repository ij_id ij_tenant_id job_add job_save
  by unfold_locales (auto simp: job_add_def job_save_def split: if_splits option.splits)

text \<open>\<open>add_operations\<close> keeps the keys in use beside the store it fills.\<close>

definition operation_identity :: "imported_operation \<Rightarrow> string \<times> string" where
  "operation_identity o' = (io_import_job_id o', io_operation_key o')"

fun add_operations_into ::
  "string \<Rightarrow> (string \<times> string) list \<Rightarrow> imported_operation list \<Rightarrow> operation_store \<Rightarrow> operation_store result" where
  "add_operations_into tenant_id existing_keys [] d = Inr d"
| "add_operations_into tenant_id existing_keys (o' # rest) d =
     (if tenant_id \<noteq> io_tenant_id o' then Inl tenant_mismatch
      else if dict_get d (io_id o') \<noteq> None then Inl (ValueError ''imported operation id already exists'')
      else if operation_identity o' \<in> set existing_keys
        then Inl (ValueError ''operation key already exists in import job'')
      else add_operations_into tenant_id (operation_identity o' # existing_keys) rest (dict_set (io_id o') o' d))"

definition add_operations :: "string \<Rightarrow> imported_operation list \<Rightarrow> operation_store \<Rightarrow> operation_store result" where
  "add_operations tenant_id operations d =
     add_operations_into tenant_id (map operation_identity (dict_values d)) operations d"

definition list_operations :: "string \<Rightarrow> string \<Rightarrow> operation_store \<Rightarrow> imported_operation list" where
  "list_operations tenant_id import_job_id d =
     sort_key io_operation_key
       [o' \<leftarrow> dict_values d. io_tenant_id o' = tenant_id \<and> io_import_job_id o' = import_job_id]"

definition operation_get :: "string \<Rightarrow> string \<Rightarrow> operation_store \<Rightarrow> imported_operation option" where
  "operation_get tenant_id operation_id d = scoped_get io_tenant_id tenant_id operation_id d"

definition operation_save :: "string \<Rightarrow> imported_operation \<Rightarrow> operation_store \<Rightarrow> operation_store result" where
  "operation_save tenant_id o' d =
     (if tenant_id \<noteq> io_tenant_id o' then Inl tenant_mismatch
      else case dict_get d (io_id o') of
        None \<Rightarrow> Inl (ValueError ''imported operation does not exist in tenant'')
      | Some current \<Rightarrow>
          if io_tenant_id current \<noteq> tenant_id
          then Inl (ValueError ''imported operation does not exist in tenant'')
          else Inr (dict_set (io_id o') o' d))"

section \<open>Units of work\<close>

record import_db = catalog_db +
  id_jobs :: job_store
  id_operations :: operation_store

definition on_jobs :: "(job_store \<Rightarrow> job_store result) \<Rightarrow> import_db \<Rightarrow> import_db result" where
  "on_jobs = on_field id_jobs id_jobs_update"

definition on_operations :: "(operation_store \<Rightarrow> operation_store result) \<Rightarrow> import_db \<Rightarrow> import_db result" where
  "on_operations = on_field id_operations id_operations_update"

end
