(* ===== verification/OpenApi_Review.thy ===== *)
theory OpenApi_Review
  imports OpenApi_Store
begin

text \<open>
  Reviewing an imported operation (\<open>openapi_import/review.py\<close>), which turns it into a draft version with
  its binding, and publishing it directly (\<open>openapi_import/direct_publish.py\<close>): the review, the
  submission and the catalog's publication in one unit of work.
\<close>

record review_operation_command =
  rv_context :: actor_context
  rv_operation_id :: string
  rv_owner :: string
  rv_visibility :: tool_visibility
  rv_review_notes :: "string option"

record review_operation_result =
  rr_operation_id :: string
  rr_tool_id :: string
  rr_tool_version_id :: string
  rr_tool_binding_id :: string
  rr_canonical_name :: string
  rr_version :: int
  rr_schema_digest :: string
  rr_binding_digest :: string

section \<open>Values of a normalized operation\<close>

definition invalid_review :: exn where
  "invalid_review = NexusError InvalidReviewStateError"

fun review_mapping :: "json \<Rightarrow> json_object result" where
  "review_mapping (JObj kvs) = Inr kvs"
| "review_mapping _ = Inl invalid_review"

text \<open>\<open>_list_of_mappings\<close>; the default of an absent key is a tuple and therefore refused too.\<close>

fun list_of_mappings :: "json \<Rightarrow> json_object list result" where
  "list_of_mappings (JList vs) = collect_results review_mapping vs"
| "list_of_mappings _ = Inl invalid_review"

fun review_string_list :: "json \<Rightarrow> string list result" where
  "review_string_list (JList vs) =
     (if list_ex (\<lambda>i. as_string i = None) vs then Inl invalid_review else Inr (map (the \<circ> as_string) vs))"
| "review_string_list _ = Inl invalid_review"

fun review_text :: "json \<Rightarrow> string option" where
  "review_text (JStr s) = (if blank s then None else Some s)"
| "review_text _ = None"

fun operation_fields :: "imported_operation \<Rightarrow> json_object" where
  "operation_fields o' = (case io_normalized_operation o' of JObj kvs \<Rightarrow> kvs | _ \<Rightarrow> [])"

text \<open>\<open>ToolSideEffect(str(value))\<close>, with its \<open>ValueError\<close> caught; only texts are side effects.\<close>

definition side_effect_of_value :: "json \<Rightarrow> tool_side_effect" where
  "side_effect_of_value v =
     (case as_string v of
        Some s \<Rightarrow>
          if s = ''read_only'' then READ_ONLY
          else if s = ''idempotent_write'' then IDEMPOTENT_WRITE
          else if s = ''non_idempotent_write'' then NON_IDEMPOTENT_WRITE
          else SIDE_EFFECT_UNKNOWN
      | None \<Rightarrow> SIDE_EFFECT_UNKNOWN)"

definition review_output_schema :: "json_object \<Rightarrow> json_object option result" where
  "review_output_schema normalized =
     (if obj_get normalized ''tool_output_schema'' = JNull then Inr None
      else result_bind (review_mapping (obj_get normalized ''tool_output_schema'')) (\<lambda>m. Inr (Some m)))"

definition review_summary :: "imported_operation \<Rightarrow> json_object \<Rightarrow> tool \<Rightarrow> string" where
  "review_summary o' normalized t =
     (case review_text (obj_get normalized ''summary'') of
        Some s \<Rightarrow> s
      | None \<Rightarrow> (case io_operation_id o' of
            Some i \<Rightarrow> if i = [] then to_canonical_name t else i
          | None \<Rightarrow> to_canonical_name t))"

section \<open>Drafts\<close>

definition build_version ::
  "(string \<Rightarrow> string) \<Rightarrow> review_operation_command \<Rightarrow> imported_operation \<Rightarrow> tool \<Rightarrow> int \<Rightarrow>
   ((datetime, 'st, 'x) sys_scheme, tool_version) prog" where
  "build_version sha command o' t version_number =
    (let normalized = operation_fields o' in
     bind (lift (review_mapping (obj_get normalized ''tool_input_schema''))) (\<lambda>input_schema.
     bind (lift (review_output_schema normalized)) (\<lambda>output_schema.
     bind (lift (review_string_list (obj_get_or normalized ''tags'' (JList [])))) (\<lambda>tags.
     bind new_id (\<lambda>fresh.
     bind clock_now (\<lambda>now.
       let summary = review_summary o' normalized t in
       lift (version_post_init
         \<lparr>ve_id = fresh, ve_tenant_id = cx_tenant_id (rv_context command), ve_tool_id = to_id t,
          ve_version = version_number, ve_display_name = summary,
          ve_description =
            (case review_text (obj_get normalized ''description'') of Some s \<Rightarrow> s | None \<Rightarrow> summary),
          ve_input_schema = JObj input_schema, ve_output_schema = map_option JObj output_schema,
          ve_schema_digest = calculate_schema_digest sha (JObj input_schema) (map_option JObj output_schema),
          ve_tags = tags,
          ve_side_effect = side_effect_of_value (obj_get_or normalized ''side_effect'' (JStr ''unknown'')),
          ve_visibility = rv_visibility command, ve_status = VERSION_DRAFT,
          ve_created_by = cx_principal_id (rv_context command), ve_created_at = now, ve_reviewed_at = None,
          ve_published_at = None, ve_retired_at = None\<rparr>)))))))"

definition binding_config_of :: "imported_operation \<Rightarrow> json_object list \<Rightarrow> json_object option \<Rightarrow> json" where
  "binding_config_of o' parameters request_body =
     JObj
       [(''method'', JStr (io_method o')), (''path_template'', JStr (io_path o')),
        (''parameters'', JList (map (\<lambda>p. JObj
           [(''argument_name'', obj_get p ''argument_name''), (''upstream_name'', obj_get p ''upstream_name''),
            (''location'', obj_get p ''location''), (''required'', JBool (obj_get p ''required'' = JBool True))])
           parameters)),
        (''request_body'', (case request_body of
             None \<Rightarrow> JNull
           | Some b \<Rightarrow> JObj
               [(''argument_name'', obj_get b ''argument_name''), (''content_type'', obj_get b ''content_type''),
                (''required'', JBool (obj_get b ''required'' = JBool True))]))]"

definition build_binding ::
  "(string \<Rightarrow> string) \<Rightarrow> imported_operation \<Rightarrow> tool_version \<Rightarrow> ((datetime, 'st, 'x) sys_scheme, tool_binding) prog" where
  "build_binding sha o' v =
    (let normalized = operation_fields o' in
     bind (lift (list_of_mappings (obj_get normalized ''parameters''))) (\<lambda>parameters.
     bind (lift (if obj_get normalized ''request_body'' = JNull then Inr None
                 else result_bind (review_mapping (obj_get normalized ''request_body'')) (\<lambda>m. Inr (Some m))))
       (\<lambda>request_body.
     bind new_id (\<lambda>fresh.
     bind clock_now (\<lambda>now.
     bind (lift (binding_post_init
         \<lparr>bi_id = fresh, bi_tenant_id = io_tenant_id o', bi_tool_version_id = ve_id v,
          bi_upstream_service_id = io_upstream_service_id o', bi_imported_operation_id = Some (io_id o'),
          bi_binding_type = BINDING_HTTP, bi_binding_config = binding_config_of o' parameters request_body,
          bi_binding_digest = ''pending'', bi_status = BINDING_DRAFT, bi_created_at = now,
          bi_published_at = None\<rparr>)) (\<lambda>b.
       lift (binding_post_init (b\<lparr>bi_binding_digest := calculate_binding_digest sha b\<rparr>))))))))"

section \<open>Review\<close>

definition review_result ::
  "imported_operation \<Rightarrow> tool \<Rightarrow> tool_version \<Rightarrow> tool_binding \<Rightarrow> review_operation_result" where
  "review_result o' t v b =
     \<lparr>rr_operation_id = io_id o', rr_tool_id = to_id t, rr_tool_version_id = ve_id v, rr_tool_binding_id = bi_id b,
      rr_canonical_name = to_canonical_name t, rr_version = ve_version v, rr_schema_digest = ve_schema_digest v,
      rr_binding_digest = bi_binding_digest b\<rparr>"

definition existing_result ::
  "string \<Rightarrow> imported_operation \<Rightarrow> ((datetime, import_db) tx, review_operation_result) prog" where
  "existing_result tenant_id o' =
     (case (io_draft_tool_version_id o', io_draft_tool_binding_id o') of
        (Some version_id, Some binding_id) \<Rightarrow>
          bind (query (\<lambda>w. version_get tenant_id version_id (versions_of w))) (\<lambda>found_version.
          bind (query (\<lambda>w. binding_get tenant_id binding_id (cd_bindings w))) (\<lambda>found_binding.
          bind (require_some found_version invalid_review) (\<lambda>v.
          bind (require_some found_binding invalid_review) (\<lambda>b.
          bind (query (\<lambda>w. tool_get tenant_id (ve_tool_id v) (tools_of w))) (\<lambda>found_tool.
          bind (require_some found_tool invalid_review) (\<lambda>t.
            ret (review_result o' t v b)))))))
      | _ \<Rightarrow> raise invalid_review)"

text \<open>The tool of the proposed name, created as disabled when the tenant has none.\<close>

definition tool_for_operation ::
  "review_operation_command \<Rightarrow> upstream_service \<Rightarrow> string \<Rightarrow> ((datetime, import_db) tx, tool) prog" where
  "tool_for_operation command upstream tool_name =
    (let tenant_id = cx_tenant_id (rv_context command) in
     bind (query (\<lambda>w. tool_get_by_name tenant_id tool_name (tools_of w))) (\<lambda>found. case found of
       Some t \<Rightarrow> ret t
     | None \<Rightarrow>
         bind new_id (\<lambda>fresh.
         bind (lift (tool_post_init
           \<lparr>to_id = fresh, to_tenant_id = tenant_id, to_namespace = us_namespace upstream,
            to_canonical_name = tool_name, to_owner = rv_owner command, to_status = TOOL_DISABLED\<rparr>)) (\<lambda>t.
         seq (update (on_tools (tool_add tenant_id t)))
           (ret t)))))"

definition draft_operation ::
  "(string \<Rightarrow> string) \<Rightarrow> review_operation_command \<Rightarrow> imported_operation \<Rightarrow> upstream_service \<Rightarrow> string \<Rightarrow>
   ((datetime, import_db) tx, review_operation_result) prog" where
  "draft_operation sha command o' upstream tool_name =
    (let tenant_id = cx_tenant_id (rv_context command) in
     bind (tool_for_operation command upstream tool_name) (\<lambda>t.
     bind (query (\<lambda>w. next_version_number tenant_id (to_id t) (versions_of w))) (\<lambda>version_number.
     bind (build_version sha command o' t version_number) (\<lambda>v.
     bind (build_binding sha o' v) (\<lambda>b.
     bind (lift (operation_accept o' (ve_id v) (bi_id b) (rv_review_notes command))) (\<lambda>accepted.
     seq (update (on_versions (version_add tenant_id v)))
    (seq (update (on_bindings (binding_add tenant_id b)))
    (seq (update (on_operations (operation_save tenant_id accepted)))
      (ret (review_result o' t v b))))))))))"

definition review_in_transaction ::
  "(string \<Rightarrow> string) \<Rightarrow> review_operation_command \<Rightarrow> ((datetime, import_db) tx, review_operation_result) prog" where
  "review_in_transaction sha command =
    (let tenant_id = cx_tenant_id (rv_context command) in
     bind (query (\<lambda>w. operation_get tenant_id (rv_operation_id command) (id_operations w))) (\<lambda>found.
     bind (require_some found (NexusError ImportedOperationNotFoundError)) (\<lambda>o'.
       if io_review_status o' = REVIEW_ACCEPTED then existing_result tenant_id o'
       else
         seq (raise_if (io_conflict_status o' \<noteq> CONFLICT_NONE) invalid_review)
        (bind (require_some (io_generated_tool_name o') invalid_review) (\<lambda>tool_name.
         bind (query (\<lambda>w. upstream_get tenant_id (io_upstream_service_id o') (cd_upstreams w))) (\<lambda>found_upstream.
         bind (require_some found_upstream (NexusError TenantBoundaryViolationError)) (\<lambda>upstream.
         seq (raise_if (us_status upstream \<noteq> UPSTREAM_ACTIVE) (NexusError UpstreamNotActiveError))
           (draft_operation sha command o' upstream tool_name))))))))"

definition review_imported_operation ::
  "(string \<Rightarrow> string) \<Rightarrow> review_operation_command \<Rightarrow> ((datetime, import_db) sys, review_operation_result) prog" where
  "review_imported_operation sha command =
     with_uow
       (bind (review_in_transaction sha command) (\<lambda>result.
        seq commit (ret result)))"

section \<open>Direct publication\<close>

record direct_publish_command =
  dc_context :: actor_context
  dc_operation_id :: string
  dc_owner :: string
  dc_visibility :: tool_visibility
  dc_review_notes :: "string option"

record direct_publish_result =
  dr_reviewed :: review_operation_result
  dr_retired_tool_version_id :: "string option"
  dr_published_at :: datetime
  dr_already_published :: bool

definition direct_review_command :: "direct_publish_command \<Rightarrow> review_operation_command" where
  "direct_review_command command =
     \<lparr>rv_context = dc_context command, rv_operation_id = dc_operation_id command, rv_owner = dc_owner command,
      rv_visibility = dc_visibility command, rv_review_notes = dc_review_notes command\<rparr>"

definition direct_publish_command_of :: "direct_publish_command \<Rightarrow> review_operation_result \<Rightarrow> publish_tool_command" where
  "direct_publish_command_of command reviewed =
     \<lparr>pc_context = dc_context command, pc_tool_id = rr_tool_id reviewed,
      pc_tool_version_id = rr_tool_version_id reviewed, pc_expected_schema_digest = rr_schema_digest reviewed,
      pc_expected_binding_digest = rr_binding_digest reviewed\<rparr>"

definition already_published_result ::
  "review_operation_result \<Rightarrow> tool_version \<Rightarrow> tool_binding \<Rightarrow> tool \<Rightarrow> direct_publish_result result" where
  "already_published_result reviewed v b t =
     (case ve_published_at v of
        None \<Rightarrow> Inl (NexusError InvalidToolStateError)
      | Some published_at \<Rightarrow>
          if bi_status b \<noteq> BINDING_PUBLISHED \<or> to_status t \<noteq> TOOL_ACTIVE
          then Inl (NexusError InvalidToolStateError)
          else Inr \<lparr>dr_reviewed = reviewed, dr_retired_tool_version_id = None,
                    dr_published_at = published_at, dr_already_published = True\<rparr>)"

definition submit_draft :: "string \<Rightarrow> tool_version \<Rightarrow> datetime \<Rightarrow> ((datetime, import_db) tx, unit) prog" where
  "submit_draft tenant_id v published_at =
     (if ve_status v = VERSION_DRAFT
      then bind (lift (submit_for_review v published_at)) (\<lambda>submitted.
             update (on_versions (version_save tenant_id submitted)))
      else raise_if (ve_status v \<noteq> VERSION_REVIEW) (NexusError InvalidToolStateError))"

definition publish_reviewed ::
  "(string \<Rightarrow> string) \<Rightarrow> direct_publish_command \<Rightarrow> datetime \<Rightarrow> review_operation_result \<Rightarrow> tool_version \<Rightarrow>
   ((datetime, import_db) tx, direct_publish_result) prog" where
  "publish_reviewed sha command published_at reviewed v =
     seq (submit_draft (cx_tenant_id (dc_context command)) v published_at)
    (bind (publish_tool_in_transaction sha (direct_publish_command_of command reviewed) published_at) (\<lambda>publication.
     seq commit
       (ret \<lparr>dr_reviewed = reviewed, dr_retired_tool_version_id = pres_retired_tool_version_id publication,
             dr_published_at = tp_occurred_at (pres_event publication), dr_already_published = False\<rparr>)))"

definition direct_publish ::
  "(string \<Rightarrow> string) \<Rightarrow> direct_publish_command \<Rightarrow> ((datetime, import_db) sys, direct_publish_result) prog" where
  "direct_publish sha command =
    (let tenant_id = cx_tenant_id (dc_context command) in
     bind clock_now (\<lambda>published_at.
     seq (raise_if (\<not> is_aware published_at)
            (ValueError ''publish clock must return a timezone-aware datetime''))
       (with_uow
         (bind (review_in_transaction sha (direct_review_command command)) (\<lambda>reviewed.
          bind (query (\<lambda>w. version_get tenant_id (rr_tool_version_id reviewed) (versions_of w))) (\<lambda>found_version.
          bind (query (\<lambda>w. binding_get_by_tool_version tenant_id (rr_tool_version_id reviewed) (cd_bindings w))) (\<lambda>found_binding.
          bind (query (\<lambda>w. tool_get tenant_id (rr_tool_id reviewed) (tools_of w))) (\<lambda>found_tool.
          bind (require_some found_version invalid_review) (\<lambda>v.
          bind (require_some found_binding invalid_review) (\<lambda>b.
          bind (require_some found_tool invalid_review) (\<lambda>t.
            if ve_status v = VERSION_PUBLISHED
            then lift (already_published_result reviewed v b t)
            else publish_reviewed sha command published_at reviewed v)))))))))))"

end
