(* ===== verification/OpenApi_Import.thy ===== *)
theory OpenApi_Import
  imports OpenApi_Store
begin

text \<open>
  Importing an OpenAPI document (\<open>openapi_import/import_openapi.py\<close>) and reading an import back
  (\<open>openapi_import/queries.py\<close>). The document is read first, by a port; the job then moves through
  its states in short transactions, with the parsing between two of them, and whatever goes wrong
  after it was stored ends it as failed.
\<close>

record import_openapi_command =
  ic_context :: actor_context
  ic_upstream_service_id :: string
  ic_source_ref :: string
  ic_operation_allowlist :: "string list"

record import_openapi_result =
  ir_import_job_id :: string
  ir_operation_ids :: "string list"
  ir_conflict_count :: nat

type_synonym ('t, 'st) document_reader = "string \<Rightarrow> (('t, 'st) sys, openapi_document) prog"

definition new_import_job ::
  "import_openapi_command \<Rightarrow> string \<Rightarrow> upstream_service \<Rightarrow> openapi_document \<Rightarrow> datetime \<Rightarrow> import_job" where
  "new_import_job command job_id upstream document created_at =
     \<lparr>ij_id = job_id, ij_tenant_id = cx_tenant_id (ic_context command), ij_upstream_service_id = us_id upstream,
      ij_source_type = SOURCE_LOCAL_FIXTURE, ij_source_ref = od_source_ref document,
      ij_source_digest = od_source_digest document, ij_openapi_version = None,
      ij_operation_allowlist = ic_operation_allowlist command,
      ij_allowlist_snapshot =
        JObj [(''network_access'', JBool False), (''source_type'', JStr ''local_fixture'')],
      ij_status = JOB_PENDING, ij_error_summary = None, ij_created_by = cx_principal_id (ic_context command),
      ij_created_at = created_at, ij_started_at = None, ij_completed_at = None\<rparr>"

definition start_job ::
  "import_openapi_command \<Rightarrow> string \<Rightarrow> openapi_document \<Rightarrow> datetime \<Rightarrow>
   ((datetime, import_db) sys, upstream_service \<times> import_job) prog" where
  "start_job command job_id document created_at =
    (let tenant_id = cx_tenant_id (ic_context command) in
     with_uow
       (bind (query (\<lambda>w. upstream_get tenant_id (ic_upstream_service_id command) (cd_upstreams w))) (\<lambda>found.
        bind (require_some found (NexusError TenantBoundaryViolationError)) (\<lambda>upstream.
        seq (raise_if (us_status upstream \<noteq> UPSTREAM_ACTIVE) (NexusError UpstreamNotActiveError))
       (bind (lift (job_start_validation (new_import_job command job_id upstream document created_at) created_at)) (\<lambda>job.
        seq (update (on_jobs (job_add tenant_id job)))
       (seq commit
         (ret (upstream, job)))))))))"

definition mark_parsing :: "string \<Rightarrow> string \<Rightarrow> ((datetime, import_db) sys, unit) prog" where
  "mark_parsing tenant_id job_id =
     with_uow
       (bind (query (\<lambda>w. job_get tenant_id job_id (id_jobs w))) (\<lambda>found.
        bind (require_some found invalid_document) (\<lambda>job.
        bind (lift (job_start_parsing job)) (\<lambda>parsing.
        seq (update (on_jobs (job_save tenant_id parsing)))
          commit))))"

definition imported_from :: "string \<Rightarrow> import_job \<Rightarrow> string \<Rightarrow> parsed_operation \<Rightarrow> imported_operation" where
  "imported_from tenant_id job fresh p =
     \<lparr>io_id = fresh, io_tenant_id = tenant_id, io_import_job_id = ij_id job,
      io_upstream_service_id = ij_upstream_service_id job, io_operation_key = pp_operation_key p,
      io_operation_id = pp_operation_id p, io_method = pp_method p, io_path = pp_path p,
      io_normalized_operation = pp_normalized_operation p, io_generated_tool_name = pp_generated_tool_name p,
      io_conflict_status = pp_conflict_status p, io_review_status = REVIEW_PENDING, io_review_notes = None,
      io_draft_tool_version_id = None, io_draft_tool_binding_id = None\<rparr>"

primrec build_operations ::
  "string \<Rightarrow> import_job \<Rightarrow> parsed_operation list \<Rightarrow> (('t, 'st) sys, imported_operation list) prog" where
  "build_operations tenant_id job [] = ret []"
| "build_operations tenant_id job (p # ps) =
     bind new_id (\<lambda>fresh.
     bind (build_operations tenant_id job ps) (\<lambda>rest.
       ret (imported_from tenant_id job fresh p # rest)))"

definition complete_job ::
  "string \<Rightarrow> string \<Rightarrow> parsed_document \<Rightarrow> imported_operation list \<Rightarrow> ((datetime, import_db) sys, unit) prog" where
  "complete_job tenant_id job_id parsed operations =
     with_uow
       (bind (query (\<lambda>w. job_get tenant_id job_id (id_jobs w))) (\<lambda>found.
        bind (require_some found invalid_document) (\<lambda>job.
        seq (update (on_operations (add_operations tenant_id operations)))
       (bind clock_now (\<lambda>now.
        bind (lift (job_complete job (pd_openapi_version parsed) now)) (\<lambda>completed.
        seq (update (on_jobs (job_save tenant_id completed)))
          commit))))))"

definition fail_job :: "string \<Rightarrow> string \<Rightarrow> string \<Rightarrow> ((datetime, import_db) sys, unit) prog" where
  "fail_job tenant_id job_id safe_summary =
     with_uow
       (bind (query (\<lambda>w. job_get tenant_id job_id (id_jobs w))) (\<lambda>found. case found of
          None \<Rightarrow> ret ()
        | Some job \<Rightarrow>
            if ij_status job \<in> {JOB_COMPLETED, JOB_FAILED} then ret ()
            else
              bind clock_now (\<lambda>now.
              bind (lift (job_fail job safe_summary now)) (\<lambda>failed.
              seq (update (on_jobs (job_save tenant_id failed)))
                commit))))"

definition parse_and_complete ::
  "import_openapi_command \<Rightarrow> openapi_document \<Rightarrow> upstream_service \<Rightarrow> import_job \<Rightarrow>
   ((datetime, import_db) sys, imported_operation list) prog" where
  "parse_and_complete command document upstream job =
    (let tenant_id = cx_tenant_id (ic_context command) in
     seq (mark_parsing tenant_id (ij_id job))
    (bind (lift (parse_document (od_content document) (us_namespace upstream) (ic_operation_allowlist command))) (\<lambda>parsed.
     bind (build_operations tenant_id job (pd_operations parsed)) (\<lambda>operations.
     seq (complete_job tenant_id (ij_id job) parsed operations)
       (ret operations)))))"

definition import_openapi ::
  "(datetime, import_db) document_reader \<Rightarrow> import_openapi_command \<Rightarrow>
   ((datetime, import_db) sys, import_openapi_result) prog" where
  "import_openapi read_document command =
    (let tenant_id = cx_tenant_id (ic_context command) in
     bind (read_document (ic_source_ref command)) (\<lambda>document.
     bind new_id (\<lambda>job_id.
     bind clock_now (\<lambda>created_at.
     bind (start_job command job_id document created_at) (\<lambda>(upstream, job).
     bind (catch (parse_and_complete command document upstream job) (\<lambda>e. case e of
            NexusError ne \<Rightarrow> seq (fail_job tenant_id job_id (safe_message ne)) (raise e)
          | CancelledError \<Rightarrow> raise e
          | _ \<Rightarrow> seq (fail_job tenant_id job_id (safe_message OpenApiDocumentInvalidError))
                   (raise invalid_document))) (\<lambda>operations.
       ret \<lparr>ir_import_job_id = job_id, ir_operation_ids = map io_id operations,
            ir_conflict_count = length (filter (\<lambda>o'. io_conflict_status o' \<noteq> CONFLICT_NONE) operations)\<rparr>))))))"

section \<open>Reading an import\<close>

definition get_openapi_import ::
  "actor_context \<Rightarrow> string \<Rightarrow> (('t, import_db) sys, import_job \<times> imported_operation list) prog" where
  "get_openapi_import context' import_job_id =
     with_uow
       (bind (query (\<lambda>w. job_get (cx_tenant_id context') import_job_id (id_jobs w))) (\<lambda>found.
        bind (require_some found (NexusError OpenApiImportJobNotFoundError)) (\<lambda>job.
        bind (query (\<lambda>w. list_operations (cx_tenant_id context') import_job_id (id_operations w))) (\<lambda>operations.
          ret (job, operations)))))"

end
