(* ===== verification/OpenApi_Parser_Correct.thy ===== *)
theory OpenApi_Parser_Correct
  imports OpenApi_Parser
begin

text \<open>
  What the parser guarantees of a document it accepts: references are resolved to a bounded depth and
  leave nothing to resolve, and the operations it returns are unambiguous. The last section shows on
  concrete documents where the normalized operation says something else than the document.
\<close>

section \<open>Resolved values\<close>

text \<open>How deep a value nests, and that it holds neither references nor examples.\<close>

primrec json_nesting :: "json \<Rightarrow> nat" where
  "json_nesting JNull = 0"
| "json_nesting (JBool b) = 0"
| "json_nesting (JInt i) = 0"
| "json_nesting (JStr s) = 0"
| "json_nesting (JList vs) = Suc (foldr max (map json_nesting vs) 0)"
| "json_nesting (JObj kvs) = Suc (foldr max (map snd (map (map_prod id json_nesting) kvs)) 0)"

primrec self_contained :: "json \<Rightarrow> bool" where
  "self_contained JNull = True"
| "self_contained (JBool b) = True"
| "self_contained (JInt i) = True"
| "self_contained (JStr s) = True"
| "self_contained (JList vs) = list_all id (map self_contained vs)"
| "self_contained (JObj kvs) =
     (obj_get kvs ''$ref'' = JNull \<and> list_all keep_key kvs \<and>
      list_all snd (map (map_prod id self_contained) kvs))"

lemma self_contained_nested:
  "self_contained (JList vs) \<longleftrightarrow> (\<forall>v \<in> set vs. self_contained v)"
  "self_contained (JObj kvs) \<longleftrightarrow>
     obj_get kvs ''$ref'' = JNull \<and> (\<forall>kv \<in> set kvs. keep_key kv \<and> self_contained (snd kv))"
  by (auto simp: list_all_iff image_iff)

lemma nesting_list: "json_nesting (JList vs) \<le> Suc n \<longleftrightarrow> (\<forall>v \<in> set vs. json_nesting v \<le> n)"
  by (induction vs) auto

lemma nesting_obj: "json_nesting (JObj kvs) \<le> Suc n \<longleftrightarrow> (\<forall>kv \<in> set kvs. json_nesting (snd kv) \<le> n)"
  by (induction kvs) auto

lemma merge_objects_Cons: "merge_objects d ((k, v) # rest) = merge_objects (dict_set k v d) rest"
  by (simp add: merge_objects_def)

lemma dict_set_subset: "set (dict_set k v d) \<subseteq> insert (k, v) (set d)"
  by (induction d) auto

lemma merge_objects_subset: "set (merge_objects d overrides) \<subseteq> set d \<union> set overrides"
proof (induction overrides arbitrary: d)
  case Nil
  then show ?case by (simp add: merge_objects_def)
next
  case (Cons kv rest)
  obtain k v where "kv = (k, v)" by (cases kv)
  then show ?case using Cons [of "dict_set k v d"] dict_set_subset [of k v d]
    by (auto simp: merge_objects_Cons)
qed

lemma merge_objects_get: "k \<notin> fst ` set overrides \<Longrightarrow> dict_get (merge_objects d overrides) k = dict_get d k"
proof (induction overrides arbitrary: d)
  case Nil
  then show ?case by (simp add: merge_objects_def)
next
  case (Cons kv rest)
  obtain l v where "kv = (l, v)" by (cases kv)
  then show ?case using Cons by (auto simp: merge_objects_Cons)
qed

lemma resolve_node_obj_keys:
  assumes "resolve_node document stack depth (JObj kvs) = Inr (JObj members)" "obj_get kvs ''$ref'' = JNull"
  shows "map fst members = map fst (filter keep_key kvs)"
proof -
  from assms have "collect_results
      (\<lambda>kv. result_bind (resolve_node document stack (depth + 1) (snd kv)) (\<lambda>v. Inr (fst kv, v)))
      (filter keep_key kvs) = Inr members"
    by (subst (asm) resolve_node.simps) (auto simp: result_bind_Inr_iff split: if_splits)
  then have "list_all2 (\<lambda>kv r. fst kv = fst r) (filter keep_key kvs) members"
    unfolding collect_results_all2 by (rule list_all2_mono) (auto simp: result_bind_Inr_iff)
  then have "list_all2 (=) (map fst (filter keep_key kvs)) (map fst members)"
    by (simp add: list.rel_map)
  then show ?thesis by (simp add: list.rel_eq)
qed

text \<open>The shape of a successful resolution.\<close>

lemma resolve_node_cases:
  assumes "resolve_node document stack depth node = Inr v"
  obtains (scalar) "depth \<le> MAX_REF_DEPTH" "v = node" "\<nexists>vs. node = JList vs" "\<nexists>kvs. node = JObj kvs"
  | (items) vs rs where "depth \<le> MAX_REF_DEPTH" "node = JList vs" "v = JList rs"
      "list_all2 (\<lambda>x y. resolve_node document stack (depth + 1) x = Inr y) vs rs"
  | (reference) kvs r target members overrides where "depth \<le> MAX_REF_DEPTH" "node = JObj kvs"
      "obj_get kvs ''$ref'' = JStr r" "starts_with r ''#/''" "r \<notin> set stack"
      "resolve_pointer document r = Inr target"
      "resolve_node document (stack @ [r]) (depth + 1) target = Inr (JObj members)"
      "resolve_node document stack (depth + 1) (JObj (filter (\<lambda>kv. fst kv \<noteq> ''$ref'') kvs)) = Inr (JObj overrides)"
      "v = JObj (merge_objects members overrides)"
  | (object) kvs members where "depth \<le> MAX_REF_DEPTH" "node = JObj kvs" "obj_get kvs ''$ref'' = JNull"
      "v = JObj members"
      "list_all2 (\<lambda>x y. resolve_node document stack (depth + 1) (snd x) = Inr (snd y) \<and> fst y = fst x)
         (filter keep_key kvs) members"
proof -
  have d: "depth \<le> MAX_REF_DEPTH"
    using assms by (subst (asm) resolve_node.simps) (simp split: if_splits)
  have mapping: "require_mapping x = Inr y \<longleftrightarrow> x = JObj y" for x y by (cases x) auto
  show thesis
  proof (cases node)
    case (JList vs)
    with assms d show ?thesis
      by (subst (asm) resolve_node.simps) (auto simp: result_bind_Inr_iff collect_results_all2 intro: items)
  next
    case (JObj kvs)
    show ?thesis
    proof (cases "obj_get kvs ''$ref'' = JNull")
      case True
      from assms d JObj True obtain fs where v: "v = JObj fs" and l: "list_all2 (\<lambda>x y.
          result_bind (resolve_node document stack (depth + 1) (snd x)) (\<lambda>v. Inr (fst x, v)) = Inr y)
          (filter keep_key kvs) fs"
        by (subst (asm) resolve_node.simps) (auto simp: result_bind_Inr_iff collect_results_all2)
      from l have "list_all2 (\<lambda>x y. resolve_node document stack (depth + 1) (snd x) = Inr (snd y) \<and> fst y = fst x)
          (filter keep_key kvs) fs"
        by (rule list_all2_mono) (auto simp: result_bind_Inr_iff)
      then show ?thesis by (rule object [OF d JObj True v])
    next
      case False
      from assms d JObj False obtain r target fs os where
          "local_reference (obj_get kvs ''$ref'') stack = Inr r" "resolve_pointer document r = Inr target"
          "resolve_node document (stack @ [r]) (depth + 1) target = Inr (JObj fs)"
          "resolve_node document stack (depth + 1) (JObj (filter (\<lambda>kv. fst kv \<noteq> ''$ref'') kvs)) = Inr (JObj os)"
          "v = JObj (merge_objects fs os)"
        by (subst (asm) resolve_node.simps) (auto simp: result_bind_Inr_iff mapping)
      moreover from this(1) have "obj_get kvs ''$ref'' = JStr r" "starts_with r ''#/''" "r \<notin> set stack"
        by (cases "obj_get kvs ''$ref''"; auto simp: local_reference_def split: if_splits)+
      ultimately show ?thesis using reference [OF d JObj] by blast
    qed
  qed (use assms d in \<open>(subst (asm) resolve_node.simps, auto intro: scalar)+\<close>)
qed

lemma filtered_no_ref: "obj_get (filter (\<lambda>kv. fst kv \<noteq> ''$ref'') kvs) ''$ref'' = JNull"
  by (induction kvs) (auto simp: obj_get_def)

lemma list_all2_right: "list_all2 P xs ys \<Longrightarrow> y \<in> set ys \<Longrightarrow> \<exists>x \<in> set xs. P x y"
  by (induction rule: list_all2_induct) auto

lemma self_contained_merge:
  assumes a: "self_contained (JObj kvs)" and b: "self_contained (JObj overrides)"
    and n: "''$ref'' \<notin> fst ` set overrides"
  shows "self_contained (JObj (merge_objects kvs overrides))"
proof -
  have "obj_get (merge_objects kvs overrides) ''$ref'' = obj_get kvs ''$ref''"
    by (simp add: obj_get_def merge_objects_get [OF n])
  moreover have "x \<in> set kvs \<or> x \<in> set overrides" if "x \<in> set (merge_objects kvs overrides)" for x
    using that merge_objects_subset by blast
  ultimately show ?thesis using a b unfolding self_contained_nested by metis
qed

lemma nesting_merge:
  assumes "json_nesting (JObj kvs) \<le> n" "json_nesting (JObj overrides) \<le> n"
  shows "json_nesting (JObj (merge_objects kvs overrides)) \<le> n"
proof (cases n)
  case (Suc k)
  with assms show ?thesis using merge_objects_subset [of kvs overrides] unfolding Suc nesting_obj by blast
qed (use assms in simp)

lemma kept_ref: "obj_get (filter keep_key kvs) ''$ref'' = obj_get kvs ''$ref''"
  by (induction kvs) (auto simp: obj_get_def keep_key_def)

lemma resolve_JNull: "resolve_node document stack depth JNull = Inr v \<Longrightarrow> v = JNull"
  by (subst (asm) resolve_node.simps) (simp split: if_splits)

lemma resolved_no_ref:
  assumes "list_all2 (\<lambda>x y. resolve_node document stack d (snd x) = Inr (snd y) \<and> fst y = fst x) xs ys"
    and "obj_get xs ''$ref'' = JNull"
  shows "obj_get ys ''$ref'' = JNull"
  using assms
proof (induction rule: list_all2_induct)
  case (Cons x xs y ys)
  then show ?case
    by (cases x; cases y) (auto simp: obj_get_def dest: resolve_JNull split: if_splits)
qed simp

lemma resolve_node_bounded:
  "resolve_node document stack depth node = Inr v \<Longrightarrow>
     self_contained v \<and> depth + json_nesting v \<le> Suc MAX_REF_DEPTH"
proof (induction "MAX_REF_DEPTH - depth" arbitrary: stack depth node v rule: less_induct)
  case less
  have IH: "self_contained y \<and> json_nesting y \<le> MAX_REF_DEPTH - depth"
    if "depth \<le> MAX_REF_DEPTH" "resolve_node document st (depth + 1) x = Inr y" for st x y
  proof (cases "depth = MAX_REF_DEPTH")
    case True
    then show ?thesis using that(2) by (subst (asm) resolve_node.simps) simp
  next
    case False
    then have "self_contained y \<and> depth + 1 + json_nesting y \<le> Suc MAX_REF_DEPTH"
      using that by (intro less.hyps) auto
    then show ?thesis by arith
  qed
  from less.prems show ?case
  proof (cases rule: resolve_node_cases)
    case scalar
    then show ?thesis by (cases node) auto
  next
    case (items vs rs)
    have "self_contained y \<and> json_nesting y \<le> MAX_REF_DEPTH - depth" if "y \<in> set rs" for y
      using list_all2_right [OF items(4) that] IH [OF items(1)] by blast
    then have "self_contained (JList rs) \<and> json_nesting (JList rs) \<le> Suc (MAX_REF_DEPTH - depth)"
      unfolding self_contained_nested nesting_list by blast
    then show ?thesis using items(1,3) by (simp add: le_diff_conv2 add.commute)
  next
    case (reference kvs r target members overrides)
    have "map fst overrides = map fst (filter keep_key (filter (\<lambda>kv. fst kv \<noteq> ''$ref'') kvs))"
      by (rule resolve_node_obj_keys [OF reference(8) filtered_no_ref])
    then have "fst ` set overrides = fst ` set (filter keep_key (filter (\<lambda>kv. fst kv \<noteq> ''$ref'') kvs))"
      by (metis list.set_map)
    then have n: "''$ref'' \<notin> fst ` set overrides" by auto
    note a = IH [OF reference(1,7)] and b = IH [OF reference(1,8)]
    have "self_contained v" using self_contained_merge [OF _ _ n] a b reference(9) by blast
    moreover have "json_nesting v \<le> MAX_REF_DEPTH - depth"
      using nesting_merge a b reference(9) by blast
    ultimately show ?thesis using reference(1) by (simp add: le_diff_conv2 add.commute)
  next
    case (object kvs members)
    have m: "self_contained (snd y) \<and> json_nesting (snd y) \<le> MAX_REF_DEPTH - depth \<and> keep_key y"
      if y: "y \<in> set members" for y
    proof -
      obtain x where "x \<in> set (filter keep_key kvs)" "fst y = fst x"
          "resolve_node document stack (depth + 1) (snd x) = Inr (snd y)"
        using list_all2_right [OF object(5) y] by blast
      then show ?thesis using IH [OF object(1)] by (auto simp: keep_key_def)
    qed
    have "obj_get members ''$ref'' = JNull"
      by (rule resolved_no_ref [OF object(5)]) (use object(3) in \<open>simp add: kept_ref\<close>)
    with m have "self_contained (JObj members) \<and> json_nesting (JObj members) \<le> Suc (MAX_REF_DEPTH - depth)"
      unfolding self_contained_nested nesting_obj by blast
    then show ?thesis using object(1,4) by (simp add: le_diff_conv2 add.commute)
  qed
qed

text \<open>References outside the document, and references that lead back to themselves, are refused.\<close>

lemma refused_reference:
  assumes "depth \<le> MAX_REF_DEPTH" "obj_get kvs ''$ref'' = JStr r" "\<not> starts_with r ''#/'' \<or> r \<in> set stack"
  shows "resolve_node document stack depth (JObj kvs) = Inl unsupported_feature"
  using assms by (subst resolve_node.simps) (auto simp: local_reference_def)

section \<open>Operations of a document\<close>

lemma distinct_concat_keys:
  assumes "list_all2 (\<lambda>x ys. f x = Inr ys) xs yss" "distinct (map k xs)"
    and "\<And>x ys. x \<in> set xs \<Longrightarrow> f x = Inr ys \<Longrightarrow> distinct (map g ys) \<and> (\<forall>y \<in> set ys. h (g y) = k x)"
  shows "distinct (map g (concat yss)) \<and> (\<forall>y \<in> set (concat yss). \<exists>x \<in> set xs. h (g y) = k x)"
  using assms
proof (induction rule: list_all2_induct)
  case (Cons x xs ys yss)
  have IH: "distinct (map g (concat yss)) \<and> (\<forall>y \<in> set (concat yss). \<exists>x \<in> set xs. h (g y) = k x)"
    using Cons.prems by (intro Cons.IH) auto
  have ys: "distinct (map g ys) \<and> (\<forall>y \<in> set ys. h (g y) = k x)" using Cons.prems(2) [of x ys] Cons.hyps(1) by simp
  have "g ` set ys \<inter> g ` set (concat yss) = {}"
  proof (rule ccontr)
    assume "\<not> ?thesis"
    then obtain a b where ab: "a \<in> set ys" "b \<in> set (concat yss)" "g a = g b" by blast
    then obtain x' where "x' \<in> set xs" "h (g b) = k x'" using IH by blast
    then have "k x = k x'" using ys ab by metis
    then show False using Cons.prems(1) \<open>x' \<in> set xs\<close> by auto
  qed
  then show ?case using IH ys by auto
qed simp

definition normalized_as :: "parsed_operation \<Rightarrow> string \<Rightarrow> bool" where
  "normalized_as p meth \<longleftrightarrow>
     (\<exists>operation tags st body rs security. pp_normalized_operation p =
        normalized_operation operation (pp_operation_id p) meth (pp_path p) tags st body rs security)"

lemma parse_operation_fields:
  assumes "parse_operation document ns meth path key i operation pps = Inr p"
  shows "pp_operation_key p = key \<and> pp_operation_id p = i \<and> pp_method p = method_upper meth \<and> pp_path p = path \<and>
    pp_generated_tool_name p = Some (generated_tool_name ns i meth path) \<and> normalized_as p meth"
  using assms by (auto simp: parse_operation_def result_bind_Inr_iff normalized_as_def split: prod.splits) blast

lemma parse_method_ops:
  assumes "parse_method document ns allowlist path path_item pps meth = Inr ops" "p \<in> set ops"
  shows "ops = [p] \<and> pp_operation_key p = operation_key_of meth path \<and> pp_method p = method_upper meth \<and>
    pp_path p = path \<and> operation_selected allowlist (pp_operation_key p) (pp_operation_id p) \<and>
    pp_generated_tool_name p = Some (generated_tool_name ns (pp_operation_id p) meth path) \<and> normalized_as p meth"
  using assms
  by (auto simp: parse_method_def result_bind_Inr_iff Let_def split: if_splits dest!: parse_operation_fields)

text \<open>What holds of every operation the loops find, before collisions are marked.\<close>

definition operation_sound :: "string \<Rightarrow> string list \<Rightarrow> parsed_operation \<Rightarrow> bool" where
  "operation_sound ns allowlist p \<longleftrightarrow>
     (\<exists>meth \<in> set HTTP_METHODS. pp_method p = method_upper meth \<and>
        pp_operation_key p = operation_key_of meth (pp_path p) \<and>
        pp_generated_tool_name p = Some (generated_tool_name ns (pp_operation_id p) meth (pp_path p)) \<and>
        normalized_as p meth) \<and>
     starts_with (pp_path p) ''/'' \<and>
     operation_selected allowlist (pp_operation_key p) (pp_operation_id p)"

lemma parse_path_ops:
  assumes "parse_path document ns allowlist paths path = Inr ops"
  shows "distinct (map (\<lambda>p. (pp_path p, pp_method p)) ops) \<and>
    (\<forall>p \<in> set ops. pp_path p = path \<and> operation_sound ns allowlist p)"
proof -
  obtain path_item pps found where slash: "starts_with path ''/''" and ops: "ops = concat found"
    and l: "list_all2 (\<lambda>m ys. parse_method document ns allowlist path path_item pps m = Inr ys) HTTP_METHODS found"
    using assms by (auto simp: parse_path_def result_bind_Inr_iff collect_results_all2 split: if_splits)
  have "distinct (map (\<lambda>p. (pp_path p, pp_method p)) (concat found)) \<and>
    (\<forall>p \<in> set (concat found). \<exists>m \<in> set HTTP_METHODS. snd (pp_path p, pp_method p) = method_upper m)"
  proof (rule distinct_concat_keys [OF l])
    show "distinct (map method_upper HTTP_METHODS)" by code_simp
    fix m ys assume "parse_method document ns allowlist path path_item pps m = Inr ys"
    note ops = parse_method_ops [OF this]
    show "distinct (map (\<lambda>p. (pp_path p, pp_method p)) ys) \<and> (\<forall>p \<in> set ys. snd (pp_path p, pp_method p) = method_upper m)"
    proof (cases ys)
      case (Cons a as)
      then have "ys = [a] \<and> pp_method a = method_upper m" using ops [of a] by simp
      then show ?thesis by simp
    qed simp
  qed
  moreover have "pp_path p = path \<and> operation_sound ns allowlist p" if p: "p \<in> set (concat found)" for p
  proof -
    obtain ys where "ys \<in> set found" and py: "p \<in> set ys" using p by auto
    then obtain m where "m \<in> set HTTP_METHODS" "parse_method document ns allowlist path path_item pps m = Inr ys"
      using list_all2_right [OF l] by blast
    then show ?thesis using parse_method_ops [OF _ py] slash unfolding operation_sound_def by blast
  qed
  ultimately show ?thesis using ops by simp
qed

lemma parse_document_ops:
  assumes "parse_document document ns allowlist = Inr d"
    and keys: "\<forall>paths. obj_get document ''paths'' = JObj paths \<longrightarrow> distinct (map fst paths)"
  obtains ops where "pd_operations d = map (mark_collision ops) ops" "ops \<noteq> []" "namespace_pattern ns"
    "distinct (map (\<lambda>p. (pp_path p, pp_method p)) ops)" "\<forall>p \<in> set ops. operation_sound ns allowlist p"
proof -
  have mapping: "require_mapping x = Inr y \<longleftrightarrow> x = JObj y" for x y by (cases x) auto
  obtain paths found where p: "obj_get document ''paths'' = JObj paths" and ne: "concat found \<noteq> []"
    and d: "pd_operations d = map (mark_collision (concat found)) (concat found)" and ns: "namespace_pattern ns"
    and l: "list_all2 (\<lambda>x ys. parse_path document ns allowlist paths x = Inr ys) (sort (map fst paths)) found"
    using assms(1)
    by (auto simp: parse_document_def result_bind_Inr_iff collect_results_all2 Let_def mapping
        simp del: concat_eq_Nil_conv split: if_splits option.splits)
  have "distinct (map (\<lambda>p. (pp_path p, pp_method p)) (concat found)) \<and>
    (\<forall>p \<in> set (concat found). \<exists>x \<in> set (sort (map fst paths)). fst (pp_path p, pp_method p) = id x)"
    by (rule distinct_concat_keys [OF l]) (use keys p in \<open>auto dest!: parse_path_ops\<close>)
  moreover have "operation_sound ns allowlist p" if q: "p \<in> set (concat found)" for p
  proof -
    obtain ys where "ys \<in> set found" and py: "p \<in> set ys" using q by auto
    then obtain x where "parse_path document ns allowlist paths x = Inr ys"
      using list_all2_right [OF l] by blast
    then show ?thesis using parse_path_ops py by blast
  qed
  ultimately show thesis using that d ne ns by blast
qed

lemma mark_collision_fields [simp]:
  "pp_operation_key (mark_collision ops p) = pp_operation_key p" "pp_operation_id (mark_collision ops p) = pp_operation_id p"
  "pp_method (mark_collision ops p) = pp_method p" "pp_path (mark_collision ops p) = pp_path p"
  "pp_normalized_operation (mark_collision ops p) = pp_normalized_operation p"
  "pp_generated_tool_name (mark_collision ops p) = pp_generated_tool_name p"
  by (simp_all add: mark_collision_def)

lemma mark_collision_sound [simp]: "operation_sound ns allowlist (mark_collision ops p) = operation_sound ns allowlist p"
  by (simp add: operation_sound_def normalized_as_def)

lemma unmarked_name:
  assumes "pp_conflict_status (mark_collision ops p) = CONFLICT_NONE" "pp_generated_tool_name p = Some n"
    and "p \<in> set ops" "q \<in> set ops" "pp_generated_tool_name q = Some n"
  shows "q = p"
proof (rule ccontr)
  assume "q \<noteq> p"
  have "length (filter (\<lambda>r. pp_generated_tool_name r = Some n) ops) \<le> 1"
    using assms(1,2) by (auto simp: mark_collision_def split: if_splits)
  then have "card (set (filter (\<lambda>r. pp_generated_tool_name r = Some n) ops)) \<le> 1"
    using card_length le_trans by blast
  moreover have "{p, q} \<subseteq> set (filter (\<lambda>r. pp_generated_tool_name r = Some n) ops)" using assms by auto
  ultimately have "card {p, q} \<le> 1" using card_mono [OF finite_set] le_trans by blast
  then show False using \<open>q \<noteq> p\<close> by simp
qed

section \<open>Names\<close>

definition identifier_char :: "char \<Rightarrow> bool" where
  "identifier_char c \<longleftrightarrow> ascii_lower_or_digit c \<or> c = CHR ''_''"

lemma collapse_chars: "c \<in> set (collapse_non_identifier s) \<Longrightarrow> ascii_alnum c \<or> c = CHR ''_''"
  by (induction s rule: collapse_non_identifier.induct) (auto split: if_splits)

lemma lower_alnum: "ascii_alnum c \<Longrightarrow> ascii_lower_or_digit (py_lower_char c)"
proof -
  have i: "(of_char d :: int) = int (of_char d)" for d
    by (rule of_nat_of_char [symmetric])
  show "ascii_alnum c \<Longrightarrow> ascii_lower_or_digit (py_lower_char c)"
    unfolding ascii_alnum_def ascii_lower_or_digit_def ascii_upper_def py_lower_char_def Let_def i by auto
qed

lemma argument_name_chars: "c \<in> set (argument_name s) \<Longrightarrow> identifier_char c"
proof -
  assume "c \<in> set (argument_name s)"
  then obtain x where x: "x \<in> set (collapse_non_identifier s)" "c = py_lower_char x"
    unfolding argument_name_def py_lower_def strip_underscores_def by (auto dest!: set_dropWhileD)
  have "py_lower_char (CHR ''_'') = CHR ''_''" by code_simp
  then show ?thesis using collapse_chars [OF x(1)] lower_alnum [of x] x(2) by (auto simp: identifier_char_def)
qed

lemma generated_tool_name_form:
  "\<exists>n. generated_tool_name ns i meth path = ns @ ''.'' @ n \<and> (\<forall>c \<in> set n. identifier_char c)"
  unfolding generated_tool_name_def Let_def using argument_name_chars by blast

lemma split_at_space: "a @ CHR '' '' # b = c @ CHR '' '' # d \<Longrightarrow> CHR '' '' \<notin> set a \<Longrightarrow> CHR '' '' \<notin> set c \<Longrightarrow> a = c \<and> b = d"
proof (induction a arbitrary: c)
  case Nil
  then show ?case by (cases c) auto
next
  case (Cons x xs)
  then show ?case by (cases c) auto
qed

lemma methods_no_space: "m \<in> set HTTP_METHODS \<Longrightarrow> CHR '' '' \<notin> set (method_upper m)"
proof -
  have "\<forall>m \<in> set HTTP_METHODS. CHR '' '' \<notin> set (method_upper m)" by code_simp
  then show "m \<in> set HTTP_METHODS \<Longrightarrow> CHR '' '' \<notin> set (method_upper m)" by blast
qed

lemma operation_key_inj:
  assumes "operation_key_of m p = operation_key_of m' p'" "m \<in> set HTTP_METHODS" "m' \<in> set HTTP_METHODS"
  shows "method_upper m = method_upper m' \<and> p = p'"
  using split_at_space [of "method_upper m" p "method_upper m'" p'] methods_no_space assms
  by (simp add: operation_key_of_def)

lemma normalized_input_schema:
  assumes "normalized_as p meth"
  shows "\<exists>sch. json_get (pp_normalized_operation p) ''tool_input_schema'' = Some sch \<and> \<not> input_schema_bad sch"
proof -
  have "\<exists>ps rq. json_get (normalized_operation operation i m path tags st body rs security) ''tool_input_schema'' =
      Some (tool_input_schema ps rq)" for operation i m path tags st body rs security
    by (cases body) (simp_all add: normalized_operation_def json_get_def; blast)+
  then show ?thesis using assms
    unfolding normalized_as_def by (fastforce simp: input_schema_bad_def tool_input_schema_def json_get_def)
qed

section \<open>Properties\<close>

text \<open>Two paths, one of whose operations refers to a component.\<close>

definition sample_paths :: json_object where
  "sample_paths =
     [(''/users/{id}'', JObj [(''get'', JObj
         [(''operationId'', JStr ''getUser''),
          (''parameters'', JList [JObj [(''$ref'', JStr ''#/components/parameters/Id'')]]),
          (''responses'', JObj [(''200'', JObj [(''description'', JStr ''ok'')])])])]),
      (''/users'', JObj [(''post'', JObj
         [(''operationId'', JStr ''get_user''), (''responses'', JObj [])])])]"

definition sample_components :: json where
  "sample_components = JObj [(''parameters'', JObj [(''Id'', JObj
     [(''name'', JStr ''id''), (''in'', JStr ''path''), (''schema'', JObj [(''type'', JStr ''string'')])])])]"

definition sample_document :: json_object where
  "sample_document = [(''openapi'', JStr ''3.1.0''), (''paths'', JObj sample_paths), (''components'', sample_components)]"

text \<open>C37: Resolving the references of any value ends. What it returns nests at most 33 levels less the
  depth it started from and is self-contained: no reference and no example is left in it; and a
  reference that leaves the document or leads back to one being resolved is refused.\<close>

theorem resolution_terminates:
  "resolve_node_dom (document, stack, depth, node) \<and>
   (\<forall>v. resolve_node document stack depth node = Inr v \<longrightarrow>
      self_contained v \<and> depth + json_nesting v \<le> Suc MAX_REF_DEPTH) \<and>
   (\<forall>kvs r. depth \<le> MAX_REF_DEPTH \<and> node = JObj kvs \<and> obj_get kvs ''$ref'' = JStr r \<and>
      (\<not> starts_with r ''#/'' \<or> r \<in> set stack) \<longrightarrow>
      resolve_node document stack depth node = Inl unsupported_feature)"
proof -
  have "resolve_node_dom (document, stack, depth, node)"
    by (rule "resolve_node.termination" [of "measure (\<lambda>(_, _, depth, _). Suc MAX_REF_DEPTH - depth)", THEN spec]) auto
  then show ?thesis using resolve_node_bounded refused_reference by blast
qed

theorem resolution_terminates_witness:
  "(\<exists>v. resolve_node sample_document [] 0 (JObj [(''$ref'', JStr ''#/components/parameters/Id'')]) = Inr v \<and>
      self_contained v \<and> json_nesting v \<le> 33) \<and>
   resolve_node sample_document [''#/components''] 1 (JObj [(''$ref'', JStr ''#/components'')]) = Inl unsupported_feature"
proof -
  have "\<not> isl (resolve_node sample_document [] 0 (JObj [(''$ref'', JStr ''#/components/parameters/Id'')]))"
    by code_simp
  then obtain v where "resolve_node sample_document [] 0 (JObj [(''$ref'', JStr ''#/components/parameters/Id'')]) = Inr v"
    by (cases "resolve_node sample_document [] 0 (JObj [(''$ref'', JStr ''#/components/parameters/Id'')])") auto
  then show ?thesis
    using resolution_terminates [of sample_document "[]" 0 "JObj [(''$ref'', JStr ''#/components/parameters/Id'')]"]
      resolution_terminates [of sample_document "[''#/components'']" 1 "JObj [(''$ref'', JStr ''#/components'')]"]
    by (simp add: MAX_REF_DEPTH_def obj_get_def)
qed

text \<open>The operations of an accepted document are unambiguous. There is at least one; their keys
  (method and path) are distinct; each was selected by the allowlist; the tool it proposes is named in
  the upstream's namespace by an identifier of lower-case letters, digits and underscores, and has an
  object as input schema; and an operation without a conflict shares its name with no other.\<close>

theorem parsed_operations_unambiguous:
  assumes "parse_document document ns allowlist = Inr d"
    and "\<forall>paths. obj_get document ''paths'' = JObj paths \<longrightarrow> distinct (map fst paths)"
  shows "pd_operations d \<noteq> [] \<and> distinct (map pp_operation_key (pd_operations d)) \<and>
    (\<forall>p \<in> set (pd_operations d).
       operation_selected allowlist (pp_operation_key p) (pp_operation_id p) \<and>
       (\<exists>n. pp_generated_tool_name p = Some (ns @ ''.'' @ n) \<and> (\<forall>c \<in> set n. identifier_char c)) \<and>
       (\<exists>sch. json_get (pp_normalized_operation p) ''tool_input_schema'' = Some sch \<and> \<not> input_schema_bad sch) \<and>
       (pp_conflict_status p = CONFLICT_NONE \<longrightarrow>
          (\<forall>q \<in> set (pd_operations d). pp_generated_tool_name q = pp_generated_tool_name p \<longrightarrow> q = p)))"
proof -
  obtain ops where d: "pd_operations d = map (mark_collision ops) ops" and ne: "ops \<noteq> []"
    and dist: "distinct (map (\<lambda>p. (pp_path p, pp_method p)) ops)" and ok: "\<forall>p \<in> set ops. operation_sound ns allowlist p"
    by (rule parse_document_ops [OF assms])
  have "inj_on pp_operation_key (set ops)"
  proof (rule inj_onI)
    fix p q assume pq: "p \<in> set ops" "q \<in> set ops" "pp_operation_key p = pp_operation_key q"
    then have "(pp_path p, pp_method p) = (pp_path q, pp_method q)"
      using ok operation_key_inj unfolding operation_sound_def by (metis (no_types, lifting))
    then show "p = q" using dist pq by (auto simp: distinct_map dest: inj_onD)
  qed
  then have "distinct (map pp_operation_key (pd_operations d))"
    using dist by (simp add: d distinct_map comp_def)
  moreover have sound: "(\<exists>n. pp_generated_tool_name p = Some (ns @ ''.'' @ n) \<and> (\<forall>c \<in> set n. identifier_char c)) \<and>
      (\<exists>sch. json_get (pp_normalized_operation p) ''tool_input_schema'' = Some sch \<and> \<not> input_schema_bad sch) \<and>
      operation_selected allowlist (pp_operation_key p) (pp_operation_id p)" if "p \<in> set ops" for p
    using ok that generated_tool_name_form normalized_input_schema unfolding operation_sound_def by metis
  moreover have unique: "mark_collision ops q = mark_collision ops p"
    if "p \<in> set ops" "q \<in> set ops" "pp_conflict_status (mark_collision ops p) = CONFLICT_NONE"
      "pp_generated_tool_name q = pp_generated_tool_name p" for p q
    using ok that unmarked_name unfolding operation_sound_def by metis
  moreover have "(\<exists>n. pp_generated_tool_name p = Some (ns @ ''.'' @ n) \<and> (\<forall>c \<in> set n. identifier_char c)) \<and>
      (\<exists>sch. json_get (pp_normalized_operation p) ''tool_input_schema'' = Some sch \<and> \<not> input_schema_bad sch) \<and>
      operation_selected allowlist (pp_operation_key p) (pp_operation_id p) \<and>
      (pp_conflict_status p = CONFLICT_NONE \<longrightarrow>
          (\<forall>q \<in> set (pd_operations d). pp_generated_tool_name q = pp_generated_tool_name p \<longrightarrow> q = p))"
    if p: "p \<in> set (pd_operations d)" for p
  proof -
    obtain p0 where p0: "p0 \<in> set ops" "p = mark_collision ops p0" using p unfolding d by auto
    have "q = p" if "pp_conflict_status p = CONFLICT_NONE" "q \<in> set (pd_operations d)"
      "pp_generated_tool_name q = pp_generated_tool_name p" for q
    proof -
      obtain q0 where "q0 \<in> set ops" "q = mark_collision ops q0" using \<open>q \<in> set (pd_operations d)\<close> unfolding d by auto
      then show ?thesis using unique [OF p0(1)] that p0(2) by simp
    qed
    then show ?thesis using sound [OF p0(1)] p0(2) by simp
  qed
  moreover have "pd_operations d \<noteq> []" using ne by (simp add: d)
  ultimately show ?thesis by blast
qed

theorem parsed_operations_unambiguous_witness:
  "\<exists>d. parse_document sample_document ''crm'' [] = Inr d \<and> distinct (map pp_operation_key (pd_operations d)) \<and>
     map pp_conflict_status (pd_operations d) = [NAME_COLLISION, NAME_COLLISION]"
proof -
  have "case parse_document sample_document ''crm'' [] of
      Inl _ \<Rightarrow> False | Inr d \<Rightarrow> map pp_conflict_status (pd_operations d) = [NAME_COLLISION, NAME_COLLISION]"
    by code_simp
  then obtain d where d: "parse_document sample_document ''crm'' [] = Inr d"
      "map pp_conflict_status (pd_operations d) = [NAME_COLLISION, NAME_COLLISION]"
    by (auto split: sum.splits)
  have "\<forall>paths. obj_get sample_document ''paths'' = JObj paths \<longrightarrow> distinct (map fst paths)"
    by (auto simp: sample_document_def obj_get_def sample_paths_def)
  from conjunct1 [OF conjunct2 [OF parsed_operations_unambiguous [OF d(1) this]]] d
  show ?thesis by (intro exI [of _ d]) simp
qed

section \<open>Where the normalized operation differs from the document\<close>

definition one_operation :: "json_object \<Rightarrow> json_object" where
  "one_operation operation =
     [(''openapi'', JStr ''3.1.0''), (''paths'', JObj [(''/items'', JObj [(''post'', JObj
        ([(''operationId'', JStr ''addItem''), (''responses'', JObj [])] @ operation))])])]"

definition normalized_of :: "json_object \<Rightarrow> json_object" where
  "normalized_of document =
     (case parse_document document ''crm'' [] of
        Inl _ \<Rightarrow> []
      | Inr d \<Rightarrow> (case pp_normalized_operation (hd (pd_operations d)) of JObj kvs \<Rightarrow> kvs | _ \<Rightarrow> []))"

definition input_schema_of :: "json_object \<Rightarrow> json_object" where
  "input_schema_of document =
     (case obj_get (normalized_of document) ''tool_input_schema'' of JObj kvs \<Rightarrow> kvs | _ \<Rightarrow> [])"

text \<open>A body with a required property called \<open>example\<close>, and parameters of similar names.\<close>

definition example_body :: json where
  "example_body = JObj
     [(''required'', JBool True), (''content'', JObj [(''application/json'', JObj [(''schema'', JObj
        [(''type'', JStr ''object''),
         (''properties'', JObj [(''example'', JObj [(''type'', JStr ''string'')])]),
         (''required'', JList [JStr ''example''])])])])]"

definition plain_body :: json where
  "plain_body = JObj [(''content'', JObj [(''application/json'', JObj [])])]"

definition query_parameters :: "string list \<Rightarrow> json" where
  "query_parameters names = JList (map (\<lambda>n. JObj [(''name'', JStr n), (''in'', JStr ''query'')]) names)"

definition argument_names :: "json_object \<Rightarrow> json list" where
  "argument_names document =
     (case obj_get (normalized_of document) ''parameters'' of
        JList ps \<Rightarrow> map (\<lambda>p. case json_get p ''argument_name'' of None \<Rightarrow> JNull | Some n \<Rightarrow> n) ps
      | _ \<Rightarrow> [])"

primrec nested_schema :: "nat \<Rightarrow> json" where
  "nested_schema 0 = JObj [(''type'', JStr ''string'')]"
| "nested_schema (Suc n) = JObj [(''properties'', JObj [(''p'', nested_schema n)])]"

text \<open>Three ways in which an accepted or refused document and its normalized operation disagree.
  \<open>example\<close> is dropped wherever it is a key, also where it names a property: the property is gone, but
  the schema goes on requiring it. Argument names are made distinct by the location only once: a third
  parameter of the same shape shares its argument with the second, and a parameter called \<open>body\<close>
  shares it with the request body. The limit on references counts every nested list and object, so a
  schema without any reference is refused from a nesting on.\<close>

theorem normalized_operation_contradicts_document:
  "obj_get (input_schema_of (one_operation [(''requestBody'', example_body)])) ''properties'' =
     JObj [(''body'', JObj
       [(''type'', JStr ''object''), (''properties'', JObj []), (''required'', JList [JStr ''example''])])] \<and>
   argument_names (one_operation [(''parameters'', query_parameters [''x-a'', ''x.a'', ''x a''])]) =
     [JStr ''x_a'', JStr ''query_x_a'', JStr ''query_x_a''] \<and>
   argument_names (one_operation [(''parameters'', query_parameters [''body'']), (''requestBody'', plain_body)]) =
     [JStr ''body''] \<and>
   obj_get (input_schema_of (one_operation
     [(''parameters'', query_parameters [''body'']), (''requestBody'', plain_body)])) ''properties'' =
     JObj [(''body'', JObj [])] \<and>
   self_contained (nested_schema 16) \<and> resolve_node [] [] 0 (nested_schema 16) = Inl unsupported_feature"
  by code_simp

end
