(* ===== verification/OpenApi_Import_Correct.thy ===== *)
theory OpenApi_Import_Correct
  imports OpenApi_Import OpenApi_Parser_Correct Egress_Correct Publish_Properties
begin

text \<open>
  Correctness of the import. Whatever happens after the job was stored, the job ends: completed with
  exactly the operations of the document, or failed with the error's public text and no operation.
  Each transaction has an exact equation (what it stores, what it returns); the import is their
  composition. \<open>import_ok\<close> is the invariant of the import's stores.
\<close>

section \<open>The parser's errors are exceptions\<close>

text \<open>So that the handler around the parser catches all of them: none is a cancellation.\<close>

definition exceptional :: "'a result \<Rightarrow> bool" where
  "exceptional r \<longleftrightarrow> (\<forall>e. r = Inl e \<longrightarrow> is_exception e)"

named_theorems exceptional_rules

lemma exceptional_Inr [exceptional_rules, simp]: "exceptional (Inr x)"
  by (simp add: exceptional_def)

lemma exceptional_Inl [exceptional_rules, simp]: "exceptional (Inl e) \<longleftrightarrow> is_exception e"
  by (simp add: exceptional_def)

lemma parser_exns [exceptional_rules, simp]:
  "is_exception invalid_document" "is_exception unsupported_feature" "is_exception (TypeError m)"
  "is_exception (ValueError m)"
  by (simp_all add: is_exception_def invalid_document_def unsupported_feature_def)

lemma exceptional_bind [intro!]:
  "exceptional r \<Longrightarrow> (\<And>x. r = Inr x \<Longrightarrow> exceptional (f x)) \<Longrightarrow> exceptional (result_bind r f)"
  by (cases r) simp_all

lemma exceptional_collect [intro!]:
  "(\<And>x. x \<in> set xs \<Longrightarrow> exceptional (f x)) \<Longrightarrow> exceptional (collect_results f xs)"
  by (induction xs) auto

lemma exceptional_require [intro!]: "exceptional (require_mapping v)" "exceptional (require_sequence v)"
  by (cases v; simp)+

lemma exceptional_string_list [intro!]: "exceptional (string_list v)"
  by (auto simp: string_list_def)

lemma exceptional_pointer [intro!]: "exceptional (resolve_pointer document r)"
proof -
  have "exceptional (follow_pointer ps v)" for ps v
    by (induction ps v rule: follow_pointer.induct) (auto split: option.splits)
  then show ?thesis by (simp add: resolve_pointer_def)
qed

lemma exceptional_reference [intro!]: "exceptional (local_reference v stack)"
  by (auto simp: local_reference_def split: option.splits)

lemma exceptional_resolve [intro!]: "exceptional (resolve_node document stack depth v)"
proof (induction document stack depth v rule: resolve_node.induct)
  case (1 document stack depth v)
  show ?case
  proof (cases "MAX_REF_DEPTH < depth")
    case True
    then show ?thesis by (simp add: resolve_node.simps [of document stack depth v])
  next
    case False
    then show ?thesis
      using 1 by (cases v) (auto simp: resolve_node.simps [of document stack depth] split: if_splits)
  qed
qed

lemma exceptional_parameters [intro!]:
  "exceptional (merge_parameters ps qs document)" "exceptional (add_parameters document st parameters)"
proof -
  have "exceptional (merge_parameters_into document merged xs)" for merged xs
    by (induction document merged xs rule: merge_parameters_into.induct) auto
  then show "exceptional (merge_parameters ps qs document)" by (auto simp: merge_parameters_def)
  have "exceptional (add_parameter document st' p)" for st' p
    by (auto simp: add_parameter_def Let_def split: option.splits)
  then show "exceptional (add_parameters document st parameters)"
    by (induction document st parameters rule: add_parameters.induct) auto
qed

lemma exceptional_responses [intro!]: "exceptional (normalize_responses v document)"
proof -
  have "exceptional (response_schema document content)" for content
    by (auto simp: response_schema_def)
  then have "exceptional (add_response document responses st c)" for responses st c
    by (auto simp: add_response_def)
  then have "exceptional (add_responses document responses st cs)" for responses st cs
    by (induction document responses st cs rule: add_responses.induct) auto
  then show ?thesis by (auto simp: normalize_responses_def)
qed

lemma exceptional_document: "exceptional (parse_document document ns allowlist)"
proof -
  have "exceptional (normalize_request_body v document)" for v
    by (auto simp: normalize_request_body_def)
  moreover have "exceptional (normalize_security v)" for v
    by (auto simp: normalize_security_def)
  ultimately have "exceptional (parse_operation document ns meth path key i operation pps)" for meth path key i operation pps
    unfolding parse_operation_def by (auto split: prod.splits)
  then have "exceptional (parse_method document ns allowlist path path_item pps meth)" for path path_item pps meth
    unfolding parse_method_def Let_def by auto
  then have "exceptional (parse_path document ns allowlist paths path)" for paths path
    unfolding parse_path_def by auto
  then show ?thesis unfolding parse_document_def Let_def by (auto split: option.splits)
qed

section \<open>The stores\<close>

definition import_ok :: "import_db \<Rightarrow> bool" where
  "import_ok w \<longleftrightarrow>
     keyed ij_id (id_jobs w) \<and> keyed io_id (id_operations w) \<and>
     distinct (map operation_identity (dict_values (id_operations w))) \<and>
     (\<forall>o' \<in> set (dict_values (id_operations w)).
        (\<exists>j. dict_get (id_jobs w) (io_import_job_id o') = Some j \<and> ij_tenant_id j = io_tenant_id o'))"

definition put_job :: "import_job \<Rightarrow> import_db \<Rightarrow> import_db" where
  "put_job j = id_jobs_update (dict_set (ij_id j) j)"

lemma put_job_simps [simp]:
  "id_jobs (put_job j w) = dict_set (ij_id j) j (id_jobs w)" "id_operations (put_job j w) = id_operations w"
  "cd_catalog (put_job j w) = cd_catalog w" "cd_bindings (put_job j w) = cd_bindings w"
  "cd_upstreams (put_job j w) = cd_upstreams w"
  by (simp_all add: put_job_def)

lemma put_job_twice [simp]: "ij_id j' = ij_id j \<Longrightarrow> put_job j' (put_job j w) = put_job j' w"
  by (cases w) (simp add: put_job_def)

lemma job_get_tenant: "job_get tn k d = Some j \<Longrightarrow> ij_tenant_id j = tn"
  by (simp add: job_get_def scoped_get_Some)

lemma on_jobs_save:
  "job_get tn (ij_id j) (id_jobs w) \<noteq> None \<Longrightarrow> ij_tenant_id j = tn \<Longrightarrow>
    on_jobs (job_save tn j) w = Inr (put_job j w)"
  by (cases w) (auto simp: on_jobs_def on_field_def put_job_def job_save_def job_get_def scoped_get_Some)

lemma on_jobs_add:
  "ij_tenant_id j = tn \<Longrightarrow> on_jobs (job_add tn j) w =
    (if dict_get (id_jobs w) (ij_id j) = None then Inr (put_job j w)
     else Inl (ValueError ''OpenAPI import job id already exists''))"
  by (cases w) (simp add: on_jobs_def on_field_def put_job_def job_add_def)

lemma on_operations_add:
  "on_operations (add_operations tn ops) w =
    (case add_operations tn ops (id_operations w) of Inl e \<Rightarrow> Inl e | Inr d \<Rightarrow> Inr (w\<lparr>id_operations := d\<rparr>))"
  by (simp add: on_operations_def on_field_def split: sum.splits)

text \<open>Adding operations appends exactly them; the only errors are value errors.\<close>

lemma add_operations_Inr:
  assumes "add_operations tn ops d = Inr d'" "keyed io_id d" "distinct (map operation_identity (dict_values d))"
  shows "dict_values d' = dict_values d @ ops \<and> keyed io_id d' \<and>
    distinct (map operation_identity (dict_values d'))"
proof -
  have "dict_values d' = dict_values d @ ops \<and> keyed io_id d' \<and>
    distinct (map operation_identity (dict_values d'))"
    if "add_operations_into tn ks ops d = Inr d'" "keyed io_id d" "set ks = operation_identity ` set (dict_values d)"
      "distinct (map operation_identity (dict_values d))" for ks
    using that
  proof (induction ops arbitrary: ks d)
    case (Cons o' ops)
    note prems = Cons.prems
    let ?d = "dict_set (io_id o') o' d"
    have step: "dict_get d (io_id o') = None" "operation_identity o' \<notin> set ks"
      "add_operations_into tn (operation_identity o' # ks) ops ?d = Inr d'"
      using prems(1) by (auto split: if_splits)
    have vals: "dict_values ?d = dict_values d @ [o']" using step(1) by (rule dict_values_set_fresh)
    have keyed: "keyed io_id ?d" using prems(2) by simp
    have keys: "set (operation_identity o' # ks) = operation_identity ` set (dict_values ?d)"
      unfolding vals using prems(3) by simp
    have dist: "distinct (map operation_identity (dict_values ?d))"
      unfolding vals using prems(3,4) step(2) by auto
    show ?case using Cons.IH [OF step(3) keyed keys dist] unfolding vals append_assoc append.simps by blast
  qed simp
  from this [OF assms(1) [unfolded add_operations_def] assms(2) set_map assms(3)] show ?thesis .
qed

lemma add_operations_Inl: "add_operations tn ops d = Inl e \<Longrightarrow> \<exists>m. e = ValueError m"
proof -
  have "add_operations_into tn ks ops d = Inl e \<Longrightarrow> \<exists>m. e = ValueError m" for ks
    by (induction tn ks ops d rule: add_operations_into.induct) (auto simp: tenant_mismatch_def split: if_splits)
  then show "add_operations tn ops d = Inl e \<Longrightarrow> \<exists>m. e = ValueError m" by (simp add: add_operations_def)
qed

section \<open>Its transactions\<close>

lemma exit_uow_updates [simp]:
  "exit_uow (t\<lparr>working := w\<rparr>) = exit_uow t" "exit_uow (t\<lparr>db := w\<rparr>) = (exit_uow t)\<lparr>db := w\<rparr>"
  "exit_uow (t\<lparr>ticks := n\<rparr>) = (exit_uow t)\<lparr>ticks := n\<rparr>"
  "exit_uow (t\<lparr>id_count := n\<rparr>) = (exit_uow t)\<lparr>id_count := n\<rparr>"
  by (simp_all add: exit_uow_def sys.defs)

definition started_job ::
  "import_openapi_command \<Rightarrow> string \<Rightarrow> upstream_service \<Rightarrow> openapi_document \<Rightarrow> datetime \<Rightarrow> import_job" where
  "started_job c job_id u document at =
     (new_import_job c job_id u document at)\<lparr>ij_status := JOB_VALIDATING, ij_started_at := Some at\<rparr>"

lemma started_job_simps [simp]:
  "ij_id (started_job c job_id u document at) = job_id"
  "ij_tenant_id (started_job c job_id u document at) = cx_tenant_id (ic_context c)"
  "ij_status (started_job c job_id u document at) = JOB_VALIDATING"
  by (simp_all add: started_job_def new_import_job_def)

lemma wp_start_job:
  "wp (start_job c job_id document at) Q s \<longleftrightarrow>
    (case upstream_get (cx_tenant_id (ic_context c)) (ic_upstream_service_id c) (cd_upstreams (db s)) of
       None \<Rightarrow> Q (Inl (NexusError TenantBoundaryViolationError)) s
     | Some u \<Rightarrow>
         if us_status u \<noteq> UPSTREAM_ACTIVE then Q (Inl (NexusError UpstreamNotActiveError)) s
         else if dict_get (id_jobs (db s)) job_id \<noteq> None
           then Q (Inl (ValueError ''OpenAPI import job id already exists'')) s
         else Q (Inr (u, started_job c job_id u document at))
                (s\<lparr>db := put_job (started_job c job_id u document at) (db s)\<rparr>))"
proof -
  have start: "job_start_validation (new_import_job c job_id u document at) at = Inr (started_job c job_id u document at)" for u
    by (simp add: job_start_validation_def started_job_def new_import_job_def)
  show ?thesis
    by (auto simp: start_job_def Let_def wp_rules start on_jobs_add split: option.splits)
qed

lemma wp_mark_parsing:
  assumes "job_get tn job_id (id_jobs (db s)) = Some j" "ij_id j = job_id" "ij_status j = JOB_VALIDATING"
  shows "wp (mark_parsing tn job_id) Q s \<longleftrightarrow> Q (Inr ()) (s\<lparr>db := put_job (j\<lparr>ij_status := JOB_PARSING\<rparr>) (db s)\<rparr>)"
  using assms job_get_tenant [OF assms(1)] by (simp add: mark_parsing_def wp_rules job_start_parsing_def on_jobs_save)

abbreviation imported_list ::
  "string \<Rightarrow> import_job \<Rightarrow> string list \<Rightarrow> parsed_operation list \<Rightarrow> imported_operation list" where
  "imported_list tn j ids ps \<equiv> map2 (imported_from tn j) ids ps"

lemma wp_build_operations:
  "wp (build_operations tn j ps) Q s \<longleftrightarrow>
     Q (Inr (imported_list tn j (map (id_at s) [id_count s ..< id_count s + length ps]) ps))
       (s\<lparr>id_count := id_count s + length ps\<rparr>)"
  by (induction ps arbitrary: Q s) (simp_all add: wp_rules upt_conv_Cons del: upt_Suc)

lemma wp_complete_job:
  assumes "job_get tn job_id (id_jobs (db s)) = Some j" "ij_id j = job_id" "ij_status j = JOB_PARSING"
  shows "wp (complete_job tn job_id parsed ops) Q s \<longleftrightarrow>
    (case add_operations tn ops (id_operations (db s)) of
       Inl e \<Rightarrow> Q (Inl e) s
     | Inr d \<Rightarrow> Q (Inr ()) (s\<lparr>ticks := Suc (ticks s),
         db := put_job (j\<lparr>ij_status := JOB_COMPLETED, ij_openapi_version := Some (pd_openapi_version parsed),
                         ij_completed_at := Some (now_at s (ticks s)), ij_error_summary := None\<rparr>)
                 ((db s)\<lparr>id_operations := d\<rparr>)\<rparr>))"
  using assms job_get_tenant [OF assms(1)]
  by (simp add: complete_job_def wp_rules job_complete_def on_operations_add on_jobs_save split: sum.splits)

lemma wp_fail_job:
  assumes "job_get tn job_id (id_jobs (db s)) = Some j" "ij_id j = job_id" "ij_status j = JOB_PARSING"
  shows "wp (fail_job tn job_id summary) Q s \<longleftrightarrow> Q (Inr ()) (s\<lparr>ticks := Suc (ticks s),
      db := put_job (j\<lparr>ij_status := JOB_FAILED, ij_error_summary := Some summary,
                      ij_completed_at := Some (now_at s (ticks s))\<rparr>) (db s)\<rparr>)"
  using assms job_get_tenant [OF assms(1)] by (simp add: fail_job_def wp_rules job_fail_def on_jobs_save)

lemma put_job_operations [simp]:
  "id_operations_update f (put_job j w) = put_job j (id_operations_update f w)"
  by (cases w) (simp add: put_job_def)

lemma wp_parse_and_complete:
  fixes s :: "(datetime, import_db) sys" and j :: import_job
  assumes "job_get (cx_tenant_id (ic_context c)) (ij_id j) (id_jobs (db s)) = Some j" "ij_status j = JOB_VALIDATING"
  defines "tn \<equiv> cx_tenant_id (ic_context c)"
    and "parsing \<equiv> j\<lparr>ij_status := JOB_PARSING\<rparr>"
    and "ops \<equiv> \<lambda>parsed. imported_list (cx_tenant_id (ic_context c)) j
      (map (id_at s) [id_count s ..< id_count s + length (pd_operations parsed)]) (pd_operations parsed)"
  shows "wp (parse_and_complete c document u j) Q s \<longleftrightarrow>
    (case parse_document (od_content document) (us_namespace u) (ic_operation_allowlist c) of
       Inl e \<Rightarrow> Q (Inl e) (s\<lparr>db := put_job parsing (db s)\<rparr>)
     | Inr parsed \<Rightarrow>
         (case add_operations tn (ops parsed) (id_operations (db s)) of
            Inl e \<Rightarrow> Q (Inl e) (s\<lparr>db := put_job parsing (db s), id_count := id_count s + length (pd_operations parsed)\<rparr>)
          | Inr d \<Rightarrow> Q (Inr (ops parsed))
              (s\<lparr>id_count := id_count s + length (pd_operations parsed), ticks := Suc (ticks s),
                db := put_job (j\<lparr>ij_status := JOB_COMPLETED, ij_openapi_version := Some (pd_openapi_version parsed),
                                ij_completed_at := Some (now_at s (ticks s)), ij_error_summary := None\<rparr>)
                        ((db s)\<lparr>id_operations := d\<rparr>)\<rparr>)))"
proof -
  have get: "job_get tn (ij_id j) (dict_set (ij_id j) parsing d) = Some parsing" for d
    using job_get_tenant [OF assms(1)] by (simp add: job_get_def scoped_get_Some tn_def parsing_def)
  have simps: "ij_id parsing = ij_id j" "ij_status parsing = JOB_PARSING" by (simp_all add: parsing_def)
  have mark: "wp (mark_parsing tn (ij_id j)) P s \<longleftrightarrow> P (Inr ()) (s\<lparr>db := put_job parsing (db s)\<rparr>)" for P
    unfolding parsing_def tn_def by (rule wp_mark_parsing) (use assms in simp_all)
  have complete: "wp (complete_job tn (ij_id j) parsed os) P x \<longleftrightarrow>
    (case add_operations tn os (id_operations (db s)) of
       Inl e \<Rightarrow> P (Inl e) x
     | Inr d \<Rightarrow> P (Inr ()) (x\<lparr>ticks := Suc (ticks x),
         db := put_job (j\<lparr>ij_status := JOB_COMPLETED, ij_openapi_version := Some (pd_openapi_version parsed),
                         ij_completed_at := Some (now_at x (ticks x)), ij_error_summary := None\<rparr>)
                 ((db s)\<lparr>id_operations := d\<rparr>)\<rparr>))"
    if "db x = put_job parsing (db s)" for parsed os P and x :: "(datetime, import_db) sys"
    using that by (subst wp_complete_job [where j = parsing])
      (simp_all add: get simps split: sum.splits, simp_all add: parsing_def)
  show ?thesis
    unfolding parse_and_complete_def Let_def tn_def [symmetric]
    by (simp add: wp_rules mark wp_build_operations ops_def tn_def [symmetric] complete split: sum.splits)
qed

lemma fail_job_ends:
  assumes "db x = put_job (j\<lparr>ij_status := JOB_PARSING\<rparr>) w" "ij_tenant_id j = tn"
  shows "wp (fail_job tn (ij_id j) summary) (\<lambda>r y. r = Inr () \<and> db y = put_job (j\<lparr>ij_status := JOB_FAILED,
    ij_error_summary := Some summary, ij_completed_at := Some (now_at x (ticks x))\<rparr>) w) x"
  by (subst wp_fail_job [where j = "j\<lparr>ij_status := JOB_PARSING\<rparr>"])
    (use assms in \<open>auto simp: job_get_def scoped_get_Some\<close>)

lemma list_all2_imported:
  "length ids = length ps \<Longrightarrow>
     list_all2 (\<lambda>p o'. o' = imported_from tn j (io_id o') p) ps (imported_list tn j ids ps)"
  by (simp add: list_all2_conv_all_nth) (simp add: imported_from_def)

text \<open>What a completed import leaves, and what reading it back gives.\<close>

lemma import_ok_put_job:
  assumes "import_ok w" "dict_get (id_jobs w) (ij_id j) = None"
  shows "import_ok (put_job j w)"
  using assms unfolding import_ok_def put_job_simps by (metis dict_get_set keyed_set option.distinct(1))

lemma completed_import:
  fixes w :: import_db
  assumes ok: "import_ok w" and fresh: "dict_get (id_jobs w) (ij_id j) = None" and tn: "ij_tenant_id j = tn"
    and add: "add_operations tn ops (id_operations w) = Inr d"
    and ops: "list_all2 (\<lambda>p o'. o' = imported_from tn j (io_id o') p) ps ops"
  defines "w' \<equiv> put_job j (w\<lparr>id_operations := d\<rparr>)"
  shows "import_ok w' \<and> dict_values (id_operations w') = dict_values (id_operations w) @ ops \<and>
    job_get tn (ij_id j) (id_jobs w') = Some j \<and>
    list_operations tn (ij_id j) (id_operations w') = sort_key io_operation_key ops"
proof -
  note D = ok [unfolded import_ok_def]
  have d: "dict_values d = dict_values (id_operations w) @ ops" "keyed io_id d"
    "distinct (map operation_identity (dict_values d))"
    using add_operations_Inr [OF add] D by blast+
  have new: "io_tenant_id o' = tn \<and> io_import_job_id o' = ij_id j" if "o' \<in> set ops" for o'
    using list_all2_right [OF ops that] by (auto simp: imported_from_def) (metis imported_operation.select_convs)+
  have old: "io_import_job_id o' \<noteq> ij_id j" if "o' \<in> set (dict_values (id_operations w))" for o'
    using D that fresh by (metis option.distinct(1))
  have "\<exists>i. dict_get (id_jobs w') (io_import_job_id o') = Some i \<and> ij_tenant_id i = io_tenant_id o'"
    if "o' \<in> set (dict_values d)" for o'
    using that D new old tn unfolding d w'_def by auto
  then have "import_ok w'"
    using D d by (simp add: import_ok_def w'_def)
  moreover have "filter (\<lambda>o'. io_tenant_id o' = tn \<and> io_import_job_id o' = ij_id j) (dict_values d) = ops"
    unfolding d using old new by (auto simp: filter_empty_conv filter_id_conv)
  ultimately show ?thesis
    using d tn by (simp add: w'_def list_operations_def job_get_def scoped_get_Some)
qed

text \<open>The handler around the parsing, from the state in which the job is stored as validating.\<close>

abbreviation failing_job :: "string \<Rightarrow> string \<Rightarrow> exn \<Rightarrow> ((datetime, import_db) sys, 'a) prog" where
  "failing_job tn job_id e \<equiv> (case e of
     NexusError ne \<Rightarrow> seq (fail_job tn job_id (safe_message ne)) (raise e)
   | CancelledError \<Rightarrow> raise e
   | _ \<Rightarrow> seq (fail_job tn job_id (safe_message OpenApiDocumentInvalidError)) (raise invalid_document))"

definition failed_import :: "string \<Rightarrow> string \<Rightarrow> import_db \<Rightarrow> exn \<Rightarrow> import_db \<Rightarrow> bool" where
  "failed_import tn job_id w e w' \<longleftrightarrow>
     (\<exists>j ne. e = NexusError ne \<and> w' = put_job j w \<and> ij_id j = job_id \<and> ij_tenant_id j = tn \<and>
        ij_status j = JOB_FAILED \<and> ij_error_summary j = Some (safe_message ne))"

lemma wp_failing_job:
  assumes x: "db x = put_job (j\<lparr>ij_status := JOB_PARSING\<rparr>) w" and tn: "ij_tenant_id j = tn" and e: "is_exception e"
  shows "wp (failing_job tn (ij_id j) e) (\<lambda>r y. \<exists>e'. r = Inl e' \<and> failed_import tn (ij_id j) w e' (db y)) x"
proof -
  have "wp (seq (fail_job tn (ij_id j) (safe_message ne)) (raise (NexusError ne)))
      (\<lambda>r y. \<exists>e'. r = Inl e' \<and> failed_import tn (ij_id j) w e' (db y)) x" for ne
    unfolding wp_seq by (rule wp_mono [OF fail_job_ends [OF x tn]]) (auto simp: wp_rules failed_import_def tn)
  then show ?thesis using e by (cases e) (simp_all add: is_exception_def invalid_document_def del: safe_message.simps)
qed

definition completed_as ::
  "import_openapi_command \<Rightarrow> openapi_document \<Rightarrow> upstream_service \<Rightarrow> string \<Rightarrow> import_db \<Rightarrow>
   imported_operation list \<Rightarrow> import_db \<Rightarrow> bool" where
  "completed_as c document u job_id w ops w' \<longleftrightarrow>
     (\<exists>parsed j d. parse_document (od_content document) (us_namespace u) (ic_operation_allowlist c) = Inr parsed \<and>
        list_all2 (\<lambda>p o'. o' = imported_from (cx_tenant_id (ic_context c)) j (io_id o') p) (pd_operations parsed) ops \<and>
        add_operations (cx_tenant_id (ic_context c)) ops (id_operations w) = Inr d \<and>
        w' = put_job j (w\<lparr>id_operations := d\<rparr>) \<and> ij_id j = job_id \<and>
        ij_tenant_id j = cx_tenant_id (ic_context c) \<and> ij_status j = JOB_COMPLETED \<and>
        ij_openapi_version j = Some (pd_openapi_version parsed))"

lemma import_body_ends:
  assumes x: "db x = put_job j w" and j: "ij_tenant_id j = cx_tenant_id (ic_context c)" "ij_status j = JOB_VALIDATING"
  shows "wp (catch (parse_and_complete c document u j) (failing_job (cx_tenant_id (ic_context c)) (ij_id j)))
    (\<lambda>r y. case r of Inl e \<Rightarrow> failed_import (cx_tenant_id (ic_context c)) (ij_id j) w e (db y)
                 | Inr ops \<Rightarrow> completed_as c document u (ij_id j) w ops (db y)) x"
proof -
  let ?tn = "cx_tenant_id (ic_context c)"
  have get: "job_get ?tn (ij_id j) (id_jobs (db x)) = Some j" using x j by (simp add: job_get_def scoped_get_Some)
  have fails: "wp (failing_job ?tn (ij_id j) e) (\<lambda>r y. case r of Inl e \<Rightarrow> failed_import ?tn (ij_id j) w e (db y)
      | Inr ops \<Rightarrow> completed_as c document u (ij_id j) w ops (db y)) y"
    if "db y = put_job (j\<lparr>ij_status := JOB_PARSING\<rparr>) w" "is_exception e" for e y
    by (rule wp_mono [OF wp_failing_job [OF that(1) j(1) that(2)]]) auto
  have add: "is_exception e" if "add_operations tn ops d = Inl e" for tn ops d e
    using add_operations_Inl [OF that] by auto
  have completed: "completed_as c document u (ij_id j) w (imported_list ?tn j ids (pd_operations parsed)) (put_job
        (j\<lparr>ij_status := JOB_COMPLETED, ij_openapi_version := Some (pd_openapi_version parsed),
           ij_completed_at := Some now, ij_error_summary := None\<rparr>) (w\<lparr>id_operations := d\<rparr>))"
    if "parse_document (od_content document) (us_namespace u) (ic_operation_allowlist c) = Inr parsed"
      "length ids = length (pd_operations parsed)"
      "add_operations ?tn (imported_list ?tn j ids (pd_operations parsed)) (id_operations w) = Inr d" for parsed ids d now
  proof -
    let ?j = "j\<lparr>ij_status := JOB_COMPLETED, ij_openapi_version := Some (pd_openapi_version parsed),
           ij_completed_at := Some now, ij_error_summary := None\<rparr>"
    have "imported_from ?tn ?j = imported_from ?tn j" by (simp add: imported_from_def fun_eq_iff)
    then show ?thesis
      unfolding completed_as_def using that list_all2_imported [OF that(2), of ?tn j] j(1)
      by (intro exI [of _ parsed] exI [of _ ?j] exI [of _ d]) simp
  qed
  show ?thesis
    unfolding wp_catch wp_parse_and_complete [OF get j(2)]
    using exceptional_document [of "od_content document" "us_namespace u" "ic_operation_allowlist c"]
    by (auto simp: exceptional_def x fails add completed split: sum.splits)
qed

section \<open>Properties\<close>

definition sample_import_db :: import_db where
  "sample_import_db = catalog_db.extend sample_catalog (import_db.fields [] [])"

definition import_start :: "(datetime, import_db) sys" where
  "import_start = \<lparr>now_at = (\<lambda>n. Aware (10 + int n)), ticks = 0, id_at = sample_ids, id_count = 0,
     db = sample_import_db\<rparr>"

definition sample_reader :: "(datetime, import_db) document_reader" where
  "sample_reader source =
     ret \<lparr>od_source_ref = source, od_source_digest = sample_sha source, od_content = sample_document\<rparr>"

definition sample_import :: "string list \<Rightarrow> import_openapi_command" where
  "sample_import allowlist = \<lparr>ic_context = sample_actor, ic_upstream_service_id = ''up'', ic_source_ref = ''crm.json'',
     ic_operation_allowlist = allowlist\<rparr>"

text \<open>C36: An import ends its job, and all or nothing. When it returns, the job is completed and reading it
  reads gives exactly the operations of the document, one for one, pending review, sorted by key, with
  the identifiers and the number of conflicts the result reports; no other job or operation changes. When
  it raises, either nothing was stored or the job is failed with the error's public text and no operation.\<close>

theorem import_ends_its_job:
  assumes reader: "\<And>source x. db (snd (read_document source x)) = db x"
    and ok: "import_ok (db s)" and run: "import_openapi read_document c s = (r, t)"
  shows "import_ok (db t) \<and> (case r of
      Inl e \<Rightarrow> db t = db s \<or>
        (\<exists>j ne. e = NexusError ne \<and> db t = put_job j (db s) \<and> dict_get (id_jobs (db s)) (ij_id j) = None \<and>
           ij_tenant_id j = cx_tenant_id (ic_context c) \<and> ij_status j = JOB_FAILED \<and>
           ij_error_summary j = Some (safe_message ne))
    | Inr res \<Rightarrow> \<exists>document u parsed j ops.
        fst (read_document (ic_source_ref c) s) = Inr document \<and>
        upstream_get (cx_tenant_id (ic_context c)) (ic_upstream_service_id c) (cd_upstreams (db s)) = Some u \<and>
        us_status u = UPSTREAM_ACTIVE \<and>
        parse_document (od_content document) (us_namespace u) (ic_operation_allowlist c) = Inr parsed \<and>
        list_all2 (\<lambda>p o'. o' = imported_from (cx_tenant_id (ic_context c)) j (io_id o') p) (pd_operations parsed) ops \<and>
        res = \<lparr>ir_import_job_id = ij_id j, ir_operation_ids = map io_id ops,
               ir_conflict_count = length (filter (\<lambda>o'. io_conflict_status o' \<noteq> CONFLICT_NONE) ops)\<rparr> \<and>
        ij_status j = JOB_COMPLETED \<and> ij_openapi_version j = Some (pd_openapi_version parsed) \<and>
        dict_get (id_jobs (db s)) (ij_id j) = None \<and>
        db t = put_job j ((db s)\<lparr>id_operations := id_operations (db t)\<rparr>) \<and>
        dict_values (id_operations (db t)) = dict_values (id_operations (db s)) @ ops \<and>
        fst (get_openapi_import (ic_context c) (ij_id j) t) = Inr (j, sort_key io_operation_key ops))"
    (is "?P r t")
proof -
  define P where "P r t = ?P r t" for r t
  let ?tn = "cx_tenant_id (ic_context c)"
  obtain r0 s0 where read: "read_document (ic_source_ref c) s = (r0, s0)" by fastforce
  have db0: "db s0 = db s" using reader [of "ic_source_ref c" s] read by simp
  have reads: "fst (get_openapi_import (ic_context c) k x) = Inr (j, ops)"
    if "job_get ?tn k (id_jobs (db x)) = Some j" "list_operations ?tn k (id_operations (db x)) = ops"
    for k j ops and x :: "(datetime, import_db) sys"
    using that by (simp add: get_openapi_import_def with_uow_def bind_def query_def require_some_def ret_def)
  have ended: "P (Inl e) y" if "failed_import ?tn k (db s) e (db y)" "dict_get (id_jobs (db s)) k = None" for k e y
    using that import_ok_put_job [OF ok] by (auto simp: P_def failed_import_def)
  have kept: "P (Inl e) y" if "db y = db s" for e y
    using that ok by (simp add: P_def)
  have "wp (import_openapi read_document c) P s"
  proof (cases r0)
    case (Inl e)
    then show ?thesis using kept db0 by (simp add: import_openapi_def Let_def wp_rules wp_def [of "read_document _"] read)
  next
    case (Inr document)
    have returned: "P (Inr \<lparr>ir_import_job_id = k, ir_operation_ids = map io_id ops,
        ir_conflict_count = length (filter (\<lambda>o'. io_conflict_status o' \<noteq> CONFLICT_NONE) ops)\<rparr>) y"
      if u: "upstream_get ?tn (ic_upstream_service_id c) (cd_upstreams (db s)) = Some u" "us_status u = UPSTREAM_ACTIVE"
        and comp: "completed_as c document u k (db s) ops (db y)" and fresh: "dict_get (id_jobs (db s)) k = None" for u k ops y
    proof -
      obtain parsed j d where p: "parse_document (od_content document) (us_namespace u) (ic_operation_allowlist c) = Inr parsed"
        and all: "list_all2 (\<lambda>p o'. o' = imported_from ?tn j (io_id o') p) (pd_operations parsed) ops"
        and d: "add_operations ?tn ops (id_operations (db s)) = Inr d" "db y = put_job j (db s\<lparr>id_operations := d\<rparr>)"
        and j: "ij_id j = k" "ij_tenant_id j = ?tn" "ij_status j = JOB_COMPLETED"
          "ij_openapi_version j = Some (pd_openapi_version parsed)"
        using comp unfolding completed_as_def by blast
      have W: "import_ok (db y) \<and> dict_values (id_operations (db y)) = dict_values (id_operations (db s)) @ ops \<and>
          job_get ?tn k (id_jobs (db y)) = Some j \<and> list_operations ?tn k (id_operations (db y)) = sort_key io_operation_key ops"
        using completed_import [OF ok _ j(2) d(1) all] fresh j(1) d(2) by simp
      have "db y = put_job j (db s\<lparr>id_operations := id_operations (db y)\<rparr>)" using d(2) by simp
      then show ?thesis
        unfolding P_def sum.case
        using W u p all j fresh Inr read reads [of k y j "sort_key io_operation_key ops"]
        by (intro conjI exI [of _ document] exI [of _ u] exI [of _ parsed] exI [of _ j] exI [of _ ops]) simp_all
    qed
    have body: "wp (catch (parse_and_complete c document u j) (failing_job ?tn k))
        (\<lambda>r y. case r of Inl e \<Rightarrow> P (Inl e) y | Inr ops \<Rightarrow> wp (ret \<lparr>ir_import_job_id = k, ir_operation_ids = map io_id ops,
          ir_conflict_count = length (filter (\<lambda>o'. io_conflict_status o' \<noteq> CONFLICT_NONE) ops)\<rparr>) P y) x"
      if "upstream_get ?tn (ic_upstream_service_id c) (cd_upstreams (db s)) = Some u" "us_status u = UPSTREAM_ACTIVE"
        "dict_get (id_jobs (db s)) k = None" "j = started_job c k u document now" "db x = put_job j (db s)" for u k j now x
    proof -
      have j: "ij_id j = k" "ij_tenant_id j = ?tn" "ij_status j = JOB_VALIDATING" using that(4) by simp_all
      show ?thesis
        by (rule wp_mono [OF import_body_ends [OF that(5) j(2,3), of document u, unfolded j(1)]])
          (use that(1-3) ended returned in \<open>simp add: wp_ret split: sum.splits\<close>)
    qed
    show ?thesis
      unfolding import_openapi_def Let_def wp_bind wp_new_id wp_clock_now wp_start_job
      using kept db0
      by (simp add: wp_def [of "read_document _"] read Inr wp_start_job wp_bind body split: option.splits)
  qed
  then have "P r t" using run by (rule wpD)
  then show ?thesis unfolding P_def .
qed

lemma sample_import_ok: "import_ok (db import_start)"
  by (simp add: import_start_def sample_import_db_def import_ok_def catalog_db.defs import_db.defs)

theorem import_ends_its_job_witness:
  "\<exists>res t j. import_openapi sample_reader (sample_import []) import_start = (Inr res, t) \<and> import_ok (db t) \<and>
     fst (get_openapi_import sample_actor (ir_import_job_id res) t) =
       Inr (j, sort_key io_operation_key (dict_values (id_operations (db t)))) \<and>
     ij_status j = JOB_COMPLETED \<and> length (ir_operation_ids res) = 2 \<and> ir_conflict_count res = 2"
proof -
  have "case fst (import_openapi sample_reader (sample_import []) import_start) of Inl _ \<Rightarrow> False
      | Inr res \<Rightarrow> length (ir_operation_ids res) = 2 \<and> ir_conflict_count res = 2"
    by code_simp
  then obtain res t where run: "import_openapi sample_reader (sample_import []) import_start = (Inr res, t)"
    and two: "length (ir_operation_ids res) = 2 \<and> ir_conflict_count res = 2"
    by (cases "import_openapi sample_reader (sample_import []) import_start") (auto split: sum.splits)
  have "\<And>source x. db (snd (sample_reader source x)) = db x" by (simp add: sample_reader_def ret_def)
  note W = import_ends_its_job [OF this sample_import_ok run]
  have "dict_values (id_operations (db import_start)) = []" "ic_context (sample_import []) = sample_actor"
    by (simp_all add: import_start_def sample_import_db_def catalog_db.defs import_db.defs sample_import_def)
  with W run two show ?thesis by auto
qed

end
