(* ===== verification/OpenApi_Review_Correct.thy ===== *)
theory OpenApi_Review_Correct
  imports OpenApi_Review OpenApi_Import_Correct
begin

text \<open>
  Correctness of reviewing and directly publishing an imported operation. Both are one transaction:
  an error leaves every store as it was (\<open>atomic\<close>). A review that returns has put the operation, its
  draft version and the draft's binding in place without moving any tool's live version, and
  repeating it returns the same drafts; a direct publication is one update of the live map.
\<close>

section \<open>Atomic transactions\<close>

definition no_commit :: "(('t, 'st) tx, 'a) prog \<Rightarrow> bool" where
  "no_commit m \<longleftrightarrow> (\<forall>x. db (snd (m x)) = db x)"

definition atomic :: "(('t, 'st) tx, 'a) prog \<Rightarrow> bool" where
  "atomic m \<longleftrightarrow> (\<forall>x e. fst (m x) = Inl e \<longrightarrow> db (snd (m x)) = db x)"

lemma no_commit_basic [intro!]:
  "no_commit (ret v)" "no_commit (raise e)" "no_commit (lift r)" "no_commit (raise_if b e)"
  "no_commit (require_some f e)" "no_commit (query q)" "no_commit (update u)" "no_commit new_id" "no_commit clock_now"
  by (auto simp: no_commit_def ret_def raise_def lift_def raise_if_def require_some_def query_def update_def
      new_id_def clock_now_def split: option.splits sum.splits)

lemma no_commit_bind [intro!]: "no_commit m \<Longrightarrow> (\<And>v. no_commit (f v)) \<Longrightarrow> no_commit (bind m f)"
  unfolding no_commit_def bind_def by (auto split: prod.splits sum.splits) (metis snd_conv)+

lemma no_commit_seq [intro!]: "no_commit m \<Longrightarrow> no_commit n \<Longrightarrow> no_commit (seq m n)"
  by (auto simp: seq_def)

lemma no_commit_cases [intro!]:
  "(b \<Longrightarrow> no_commit m) \<Longrightarrow> (\<not> b \<Longrightarrow> no_commit n) \<Longrightarrow> no_commit (if b then m else n)"
  "no_commit m0 \<Longrightarrow> (\<And>v. no_commit (f v)) \<Longrightarrow> no_commit (case c of None \<Rightarrow> m0 | Some v \<Rightarrow> f v)"
  by (auto split: option.splits)

lemma atomicI: "no_commit m \<Longrightarrow> atomic m"
  by (simp add: no_commit_def atomic_def)

lemma atomic_bind: "no_commit m \<Longrightarrow> (\<And>v. atomic (f v)) \<Longrightarrow> atomic (bind m f)"
  unfolding no_commit_def atomic_def bind_def by (auto split: prod.splits sum.splits) (metis fst_conv snd_conv)+

lemma atomic_seq: "no_commit m \<Longrightarrow> atomic n \<Longrightarrow> atomic (seq m n)"
  by (simp add: seq_def atomic_bind)

lemma atomic_commit: "atomic (seq commit (ret v))"
  by (simp add: atomic_def seq_def bind_def commit_def ret_def)

lemma atomic_with_uow: "atomic m \<Longrightarrow> with_uow m s = (Inl e, t) \<Longrightarrow> db t = db s"
  unfolding atomic_def with_uow_def by (auto split: prod.splits) (metis enter_uow_fields(5) fst_conv snd_conv)

lemma wp_atomic: "atomic m \<Longrightarrow> wp (with_uow m) (\<lambda>r y. \<forall>e. r = Inl e \<longrightarrow> db y = db s) s"
  by (rule wpI) (auto dest: atomic_with_uow)

section \<open>Writes of drafts\<close>

text \<open>A relation that only holds of an entity and itself stays so when one unrelated entity is added.\<close>

lemma unique_set:
  assumes "\<forall>k l a b. dict_get d k = Some a \<longrightarrow> dict_get d l = Some b \<longrightarrow> R a b \<longrightarrow> k = l"
    and "\<And>k a. dict_get d k = Some a \<Longrightarrow> \<not> R a v \<and> \<not> R v a"
  shows "\<forall>k l a b. dict_get (dict_set i v d) k = Some a \<longrightarrow> dict_get (dict_set i v d) l = Some b \<longrightarrow> R a b \<longrightarrow> k = l"
  using assms by (auto split: if_splits)

lemma fresh_version_unbound:
  assumes "catalog_ok w" "dict_get (versions_of w) k = None" "dict_get (cd_bindings w) j = Some b" "bi_tool_version_id b = k"
  shows "bi_status b \<noteq> BINDING_PUBLISHED"
  using catalog_okD(8) [OF assms(1)] assms(2-4) unfolding published_together_def by (metis option.distinct(1))

lemma add_draft_version:
  assumes ok: "catalog_ok w" and v: "version_wf v" "ve_status v = VERSION_DRAFT"
    and add: "on_versions (version_add tn v) w = Inr w'"
  shows "w' = put_version v w \<and> catalog_ok w' \<and> live w' = live w \<and> dict_get (versions_of w) (ve_id v) = None"
proof -
  note D = catalog_okD [OF ok]
  have a: "dict_get (versions_of w) (ve_id v) = None" "\<not> version_number_exists v (versions_of w)"
    "version_add tn v (versions_of w) = Inr (dict_set (ve_id v) v (versions_of w))"
    using add by (auto simp: on_versions_def on_field_def version_add_def versions_of_def split: if_splits sum.splits)
  have w': "w' = put_version v w" using add on_versions_Inr [of "version_add tn v", OF a(3)] by simp
  have "version_numbers_unique (dict_set (ve_id v) v (versions_of w))"
  proof -
    have none: "\<not> (ve_tool_id c = ve_tool_id v \<and> ve_version c = ve_version v)" if "dict_get (versions_of w) k = Some c" for k c
      using a(2) dict_get_values [OF that] by (auto simp: version_number_exists_def list_ex_iff)
    have "\<forall>k l a b. dict_get (dict_set (ve_id v) v (versions_of w)) k = Some a \<longrightarrow>
        dict_get (dict_set (ve_id v) v (versions_of w)) l = Some b \<longrightarrow>
        ve_tool_id a = ve_tool_id b \<and> ve_version a = ve_version b \<longrightarrow> k = l"
    proof (rule unique_set)
      show "\<not> (ve_tool_id a = ve_tool_id v \<and> ve_version a = ve_version v) \<and>
          \<not> (ve_tool_id v = ve_tool_id a \<and> ve_version v = ve_version a)" if "dict_get (versions_of w) k = Some a" for k a
        using none [OF that] by metis
    qed (use D(4) in \<open>unfold version_numbers_unique_def, blast\<close>)
    then show ?thesis unfolding version_numbers_unique_def by blast
  qed
  moreover have "one_published (dict_set (ve_id v) v (versions_of w))"
    by (rule one_published_set [OF D(7)]) (use v in simp)
  moreover have "published_together (dict_set (ve_id v) v (versions_of w)) (cd_bindings w)"
    using D(8) a(1) v(2) unfolding published_together_def by (auto; force)
  ultimately have ok': "catalog_ok (put_version v w)"
    unfolding catalog_ok_def put_simps using D(1,2,5,6) store_ok_set [OF D(3) v(1) refl] by simp
  have "live (put_version v w) (t, k) = live w (t, k)" for t k
    by (rule live_eqI [OF ok ok']) (use a(1) v(2) in auto)
  then show ?thesis using w' ok' a(1) by auto
qed

lemma live_same_versions: "versions_of w' = versions_of w \<Longrightarrow> live w' = live w"
  by (simp add: live_def)

lemma add_draft_binding:
  assumes ok: "catalog_ok w" and b: "binding_wf b" "bi_status b = BINDING_DRAFT"
    and add: "on_bindings (binding_add tn b) w = Inr w'"
  shows "w' = put_binding b w \<and> catalog_ok w' \<and> live w' = live w"
proof -
  note D = catalog_okD [OF ok]
  have a: "dict_get (cd_bindings w) (bi_id b) = None"
    "binding_add tn b (cd_bindings w) = Inr (dict_set (bi_id b) b (cd_bindings w))"
    using add by (auto simp: on_bindings_def on_field_def binding_add_def split: if_splits sum.splits)
  have w': "w' = put_binding b w" using add on_bindings_Inr [of "binding_add tn b", OF a(2)] by simp
  have "published_together (versions_of w) (dict_set (bi_id b) b (cd_bindings w))"
    unfolding published_together_def
  proof (intro conjI allI impI)
    fix k v assume "dict_get (versions_of w) k = Some v" "ve_status v = VERSION_PUBLISHED"
    then obtain j c where "dict_get (cd_bindings w) j = Some c" "bi_tenant_id c = ve_tenant_id v"
      "bi_tool_version_id c = k" "bi_status c = BINDING_PUBLISHED"
      using D(8) unfolding published_together_def by blast
    then show "\<exists>j c. dict_get (dict_set (bi_id b) b (cd_bindings w)) j = Some c \<and> bi_tenant_id c = ve_tenant_id v \<and>
        bi_tool_version_id c = k \<and> bi_status c = BINDING_PUBLISHED"
      using a(1) by (intro exI [of _ j] exI [of _ c]) auto
  next
    fix j c assume "dict_get (dict_set (bi_id b) b (cd_bindings w)) j = Some c" "bi_status c = BINDING_PUBLISHED"
    then have "dict_get (cd_bindings w) j = Some c \<and> bi_status c = BINDING_PUBLISHED"
      using b(2) by (auto split: if_splits)
    then show "\<exists>v. dict_get (versions_of w) (bi_tool_version_id c) = Some v \<and> ve_tenant_id v = bi_tenant_id c \<and>
        ve_status v = VERSION_PUBLISHED"
      using D(8) unfolding published_together_def by blast
  qed
  then have "catalog_ok (put_binding b w)"
    unfolding catalog_ok_def put_simps
    using D(1-4,7) store_ok_set [OF D(5) b(1) refl] binding_add_unique [OF D(6) a(2)] by simp
  then show ?thesis using w' live_same_versions [of w' w] by simp
qed

lemma add_new_tool:
  assumes ok: "catalog_ok w" and t: "tool_wf t" and add: "on_tools (tool_add tn t) w = Inr w'"
  shows "w' = put_tool t w \<and> catalog_ok w' \<and> live w' = live w"
proof -
  note D = catalog_okD [OF ok]
  have a: "tn = to_tenant_id t" "dict_get (tools_of w) (to_id t) = None"
    "tool_get_by_name tn (to_canonical_name t) (tools_of w) = None"
    "tool_add tn t (tools_of w) = Inr (dict_set (to_id t) t (tools_of w))"
    using add by (auto simp: on_tools_def on_field_def tool_add_def tools_of_def split: if_splits sum.splits)
  have w': "w' = put_tool t w" using add on_tools_Inr [of "tool_add tn t", OF a(4)] by simp
  have "tool_names_unique (dict_set (to_id t) t (tools_of w))"
  proof -
    have none: "\<not> (to_tenant_id c = to_tenant_id t \<and> to_canonical_name c = to_canonical_name t)"
      if "dict_get (tools_of w) k = Some c" for k c
      using a(1,3) dict_get_values [OF that] by (auto simp: tool_get_by_name_def find_None)
    have "\<forall>k l a b. dict_get (dict_set (to_id t) t (tools_of w)) k = Some a \<longrightarrow>
        dict_get (dict_set (to_id t) t (tools_of w)) l = Some b \<longrightarrow>
        to_tenant_id a = to_tenant_id b \<and> to_canonical_name a = to_canonical_name b \<longrightarrow> k = l"
    proof (rule unique_set)
      show "\<not> (to_tenant_id a = to_tenant_id t \<and> to_canonical_name a = to_canonical_name t) \<and>
          \<not> (to_tenant_id t = to_tenant_id a \<and> to_canonical_name t = to_canonical_name a)"
        if "dict_get (tools_of w) k = Some a" for k a
        using none [OF that] by metis
    qed (use D(2) in \<open>unfold tool_names_unique_def, blast\<close>)
    then show ?thesis unfolding tool_names_unique_def by blast
  qed
  then have "catalog_ok (put_tool t w)"
    unfolding catalog_ok_def put_simps using D(3-8) store_ok_set [OF D(1) t refl] by simp
  then show ?thesis using w' live_same_versions [of w' w] by simp
qed

section \<open>What a review leaves\<close>

lemma build_version_Inr:
  fixes y :: "(datetime, 'st, 'x) sys_scheme"
  assumes "build_version sha c o' t n y = (Inr v, z)"
  shows "(\<exists>i k. z = y\<lparr>id_count := i, ticks := k\<rparr>) \<and> version_wf v \<and> ve_tenant_id v = cx_tenant_id (rv_context c) \<and>
    ve_tool_id v = to_id t \<and> ve_version v = n \<and> ve_status v = VERSION_DRAFT"
  using assms by (auto simp: build_version_def Let_def steps_Inr version_post_init_Inr)

lemma build_binding_Inr:
  fixes y :: "(datetime, 'st, 'x) sys_scheme"
  assumes "build_binding sha o' v y = (Inr b, z)"
  shows "(\<exists>i k. z = y\<lparr>id_count := i, ticks := k\<rparr>) \<and> binding_wf b \<and> bi_tenant_id b = io_tenant_id o' \<and>
    bi_tool_version_id b = ve_id v \<and> bi_status b = BINDING_DRAFT"
  using assms by (auto simp: build_binding_def Let_def steps_Inr binding_post_init_Inr)

text \<open>The stores that the import adds are not the catalog's.\<close>

lemma put_import_simps [simp]:
  "id_jobs (put_version v w) = id_jobs w" "id_jobs (put_binding b w) = id_jobs w" "id_jobs (put_tool t w) = id_jobs w"
  "id_operations (put_version v w) = id_operations w" "id_operations (put_binding b w) = id_operations w"
  "id_operations (put_tool t w) = id_operations w"
  by (cases w; simp add: put_version_def put_binding_def put_tool_def)+

definition put_operation :: "imported_operation \<Rightarrow> import_db \<Rightarrow> import_db" where
  "put_operation o' = id_operations_update (dict_set (io_id o') o')"

lemma put_operation_simps [simp]:
  "id_operations (put_operation o' w) = dict_set (io_id o') o' (id_operations w)" "id_jobs (put_operation o' w) = id_jobs w"
  "versions_of (put_operation o' w) = versions_of w" "tools_of (put_operation o' w) = tools_of w"
  "cd_bindings (put_operation o' w) = cd_bindings w" "cd_upstreams (put_operation o' w) = cd_upstreams w"
  by (cases w; simp add: put_operation_def versions_of_def tools_of_def)+

lemma catalog_ok_same:
  "tools_of w' = tools_of w \<Longrightarrow> versions_of w' = versions_of w \<Longrightarrow> cd_bindings w' = cd_bindings w \<Longrightarrow>
     catalog_ok w' = catalog_ok w"
  by (simp add: catalog_ok_def)

lemma on_operations_save_Inr:
  "on_operations (operation_save tn o') w = Inr w' \<Longrightarrow> w' = put_operation o' w"
  by (cases w) (auto simp: on_operations_def on_field_def operation_save_def put_operation_def split: if_splits option.splits sum.splits)

lemma tool_for_operation_Inr:
  assumes ok: "catalog_ok (working x)" and run: "tool_for_operation c u n x = (Inr t, y)"
  shows "db y = db x \<and> catalog_ok (working y) \<and> live (working y) = live (working x) \<and>
    tool_get (cx_tenant_id (rv_context c)) (to_id t) (tools_of (working y)) = Some t \<and>
    (working y = working x \<or> working y = put_tool t (working x))"
proof (cases "tool_get_by_name (cx_tenant_id (rv_context c)) n (tools_of (working x))")
  case (Some t')
  then have "t = t' \<and> y = x" using run by (auto simp: tool_for_operation_def Let_def steps_Inr)
  moreover have "dict_get (tools_of (working x)) (to_id t') = Some t' \<and> to_tenant_id t' = cx_tenant_id (rv_context c)"
    using find_Some_sat [OF Some [unfolded tool_get_by_name_def]] keyed_value_get [OF catalog_okD(9) [OF ok]] by blast
  ultimately show ?thesis using ok by (simp add: tool_get_def scoped_get_Some)
next
  case None
  define z where "z = x\<lparr>id_count := Suc (id_count x)\<rparr>"
  obtain w where w: "on_tools (tool_add (cx_tenant_id (rv_context c)) t) (working x) = Inr w" "y = z\<lparr>working := w\<rparr>"
    and t: "tool_wf t" "to_tenant_id t = cx_tenant_id (rv_context c)"
    using run None by (auto simp: tool_for_operation_def Let_def steps_Inr tool_post_init_Inr z_def)
  show ?thesis using add_new_tool [OF ok t(1) w(1)] w(2) t(2) by (auto simp: tool_get_def scoped_get_Some z_def)
qed

definition review_left ::
  "string \<Rightarrow> string \<Rightarrow> import_db \<Rightarrow> review_operation_result \<Rightarrow> import_db \<Rightarrow> bool" where
  "review_left tn operation_id w res w' \<longleftrightarrow>
     catalog_ok w' \<and> live w' = live w \<and> id_jobs w' = id_jobs w \<and> cd_upstreams w' = cd_upstreams w \<and>
     keyed io_id (id_operations w') \<and>
     (\<forall>k. k \<noteq> operation_id \<longrightarrow> dict_get (id_operations w') k = dict_get (id_operations w) k) \<and>
     (\<exists>o' v b t. operation_get tn operation_id (id_operations w') = Some o' \<and> io_review_status o' = REVIEW_ACCEPTED \<and>
        io_draft_tool_version_id o' = Some (ve_id v) \<and> io_draft_tool_binding_id o' = Some (bi_id b) \<and>
        version_get tn (ve_id v) (versions_of w') = Some v \<and> binding_get tn (bi_id b) (cd_bindings w') = Some b \<and>
        tool_get tn (to_id t) (tools_of w') = Some t \<and> ve_tool_id v = to_id t \<and> res = review_result o' t v b \<and>
        (w' = w \<or> ve_status v = VERSION_DRAFT))"

lemma review_result_accept:
  "operation_accept o' i j notes = Inr o'' \<Longrightarrow> review_result o'' t v b = review_result o' t v b"
  by (auto simp: operation_accept_def review_result_def split: if_splits)

lemma draft_operation_Inr:
  assumes ok: "catalog_ok (working x)" "keyed io_id (id_operations (working x))"
    and o': "operation_get (cx_tenant_id (rv_context c)) (rv_operation_id c) (id_operations (working x)) = Some o'"
    and run: "draft_operation sha c o' u n x = (Inr res, y)"
  shows "db y = db x \<and> review_left (cx_tenant_id (rv_context c)) (rv_operation_id c) (working x) res (working y)"
proof -
  let ?tn = "cx_tenant_id (rv_context c)"
  obtain t x1 v x2 b x3 acc w1 w2 w3 where
    tool: "tool_for_operation c u n x = (Inr t, x1)"
    and version: "build_version sha c o' t (next_version_number ?tn (to_id t) (versions_of (working x1))) x1 = (Inr v, x2)"
    and binding: "build_binding sha o' v x2 = (Inr b, x3)"
    and acc: "operation_accept o' (ve_id v) (bi_id b) (rv_review_notes c) = Inr acc"
    and writes: "on_versions (version_add ?tn v) (working x3) = Inr w1" "on_bindings (binding_add ?tn b) w1 = Inr w2"
      "on_operations (operation_save ?tn acc) w2 = Inr w3"
    and y: "y = x3\<lparr>working := w3\<rparr>" and res: "res = review_result o' t v b"
    using run by (auto simp: draft_operation_def Let_def steps_Inr)
  note T = tool_for_operation_Inr [OF ok(1) tool] and V = build_version_Inr [OF version] and B = build_binding_Inr [OF binding]
  have same: "working x3 = working x1" "db x3 = db x" using T V B by auto
  have tn: "io_tenant_id o' = ?tn" "io_id o' = rv_operation_id c"
    using o' keyed_get [OF ok(2)] by (auto simp: operation_get_def scoped_get_Some)
  have a: "io_id acc = io_id o'" "io_tenant_id acc = io_tenant_id o'" "io_review_status acc = REVIEW_ACCEPTED"
    "io_draft_tool_version_id acc = Some (ve_id v)" "io_draft_tool_binding_id acc = Some (bi_id b)"
    using acc by (auto simp: operation_accept_def split: if_splits)
  have W1: "w1 = put_version v (working x1)" "catalog_ok w1" "live w1 = live (working x)"
    using add_draft_version [OF _ _ _ writes(1)] T V same by auto
  have W2: "w2 = put_binding b w1" "catalog_ok w2" "live w2 = live (working x)"
    using add_draft_binding [OF W1(2) _ _ writes(2)] W1(3) B by auto
  have W3: "w3 = put_operation acc w2" using on_operations_save_Inr [OF writes(3)] .
  have "catalog_ok w3" "live w3 = live (working x)"
    using W2 catalog_ok_same [of w3 w2] live_same_versions [of w3 w2] by (simp_all add: W3)
  moreover have "keyed io_id (id_operations w3)" "id_jobs w3 = id_jobs (working x)"
      "cd_upstreams w3 = cd_upstreams (working x)"
      "\<forall>k. k \<noteq> rv_operation_id c \<longrightarrow> dict_get (id_operations w3) k = dict_get (id_operations (working x)) k"
      "operation_get ?tn (rv_operation_id c) (id_operations w3) = Some acc"
    using T ok(2) a tn by (auto simp: W3 W2(1) W1(1) operation_get_def scoped_get_Some)
  moreover have "version_get ?tn (ve_id v) (versions_of w3) = Some v" "binding_get ?tn (bi_id b) (cd_bindings w3) = Some b"
      "tool_get ?tn (to_id t) (tools_of w3) = Some t" "ve_tool_id v = to_id t"
    using T V B tn by (simp_all add: W3 W2(1) W1(1) version_get_def binding_get_def scoped_get_Some)
  moreover have "res = review_result acc t v b" using res review_result_accept [OF acc] by simp
  ultimately show ?thesis
    unfolding review_left_def using y same a V by (auto intro!: exI [of _ acc] exI [of _ v] exI [of _ b] exI [of _ t])
qed

lemma existing_result_Inr:
  assumes ok: "catalog_ok (working x)" and run: "existing_result tn o' x = (Inr res, y)"
  obtains v b t where "y = x" "io_draft_tool_version_id o' = Some (ve_id v)" "io_draft_tool_binding_id o' = Some (bi_id b)"
    "version_get tn (ve_id v) (versions_of (working x)) = Some v" "binding_get tn (bi_id b) (cd_bindings (working x)) = Some b"
    "tool_get tn (to_id t) (tools_of (working x)) = Some t" "ve_tool_id v = to_id t" "res = review_result o' t v b"
proof -
  note D = catalog_okD [OF ok]
  have ids: "version_get tn i (versions_of (working x)) = Some v \<Longrightarrow> ve_id v = i"
    "binding_get tn i (cd_bindings (working x)) = Some b \<Longrightarrow> bi_id b = i"
    "tool_get tn i (tools_of (working x)) = Some t \<Longrightarrow> to_id t = i" for i v b t
    using keyed_get [OF D(9)] keyed_get [OF D(10)] keyed_get [OF D(11)]
    by (auto simp: version_get_def binding_get_def tool_get_def scoped_get_Some)
  obtain i j v b t where "io_draft_tool_version_id o' = Some i" "io_draft_tool_binding_id o' = Some j"
    "version_get tn i (versions_of (working x)) = Some v" "binding_get tn j (cd_bindings (working x)) = Some b"
    "tool_get tn (ve_tool_id v) (tools_of (working x)) = Some t" "res = review_result o' t v b" "y = x"
    using run by (auto simp: existing_result_def steps_Inr raise_def split: option.splits)
  then show thesis using that [of v b t] ids by metis
qed

lemma review_in_transaction_Inr:
  assumes ok: "catalog_ok (working x)" "keyed io_id (id_operations (working x))"
    and run: "review_in_transaction sha c x = (Inr res, y)"
  shows "db y = db x \<and> review_left (cx_tenant_id (rv_context c)) (rv_operation_id c) (working x) res (working y)"
proof -
  let ?tn = "cx_tenant_id (rv_context c)"
  obtain o' where o': "operation_get ?tn (rv_operation_id c) (id_operations (working x)) = Some o'"
    using run by (auto simp: review_in_transaction_def Let_def steps_Inr)
  show ?thesis
  proof (cases "io_review_status o' = REVIEW_ACCEPTED")
    case True
    then have "existing_result ?tn o' x = (Inr res, y)"
      using run o' by (simp add: review_in_transaction_def Let_def steps_Inr)
    then show ?thesis
      by (rule existing_result_Inr [OF ok(1)])
        (use ok o' True in \<open>auto simp: review_left_def intro!: exI\<close>)
  next
    case False
    then obtain u n where "draft_operation sha c o' u n x = (Inr res, y)"
      using run o' by (auto simp: review_in_transaction_def Let_def steps_Inr)
    then show ?thesis by (rule draft_operation_Inr [OF ok o'])
  qed
qed

text \<open>Repeating a review finds the drafts it left.\<close>

lemma review_again:
  assumes "review_left (cx_tenant_id (rv_context c)) (rv_operation_id c) w res (working x)"
  shows "review_in_transaction sha c x = (Inr res, x)"
  using assms
  by (auto simp: review_left_def review_in_transaction_def Let_def existing_result_def steps_Inr)

section \<open>Direct publication\<close>

lemma retire_pair_import [simp]:
  "id_jobs (retire_pair tn k now w) = id_jobs w" "id_operations (retire_pair tn k now w) = id_operations w"
  "cd_upstreams (retire_pair tn k now w) = cd_upstreams w"
  by (simp_all add: retire_pair_def split: option.splits)

lemma published_stores_import [simp]:
  "id_jobs (published_stores t v b now w) = id_jobs w" "id_operations (published_stores t v b now w) = id_operations w"
  "cd_upstreams (published_stores t v b now w) = cd_upstreams w"
  by (simp_all add: published_stores_def)

lemma submit_draft_Inr:
  assumes ok: "catalog_ok (working x)" and v: "version_get tn i (versions_of (working x)) = Some v"
    and run: "submit_draft tn v now x = (Inr u, y)"
  shows "(\<exists>w. y = x\<lparr>working := w\<rparr>) \<and> catalog_ok (working y) \<and> live (working y) = live (working x) \<and>
    id_jobs (working y) = id_jobs (working x) \<and> id_operations (working y) = id_operations (working x) \<and>
    cd_upstreams (working y) = cd_upstreams (working x) \<and>
    (\<exists>v'. version_get tn i (versions_of (working y)) = Some v' \<and> ve_version v' = ve_version v)"
proof (cases "ve_status v = VERSION_DRAFT")
  case True
  then obtain v' w where v': "submit_for_review v now = Inr v'" "on_versions (version_save tn v') (working x) = Inr w"
    "y = x\<lparr>working := w\<rparr>"
    using run by (auto simp: submit_draft_def steps_Inr)
  note W = submit_for_review_ok [OF ok v True v'(1)]
  have "w = put_version v' (working x)" using W v'(2) by simp
  moreover have "ve_id v' = i \<and> ve_tenant_id v' = tn \<and> ve_version v' = ve_version v"
    using v'(1) v keyed_get [OF catalog_okD(10) [OF ok]]
    by (auto simp: submit_for_review_def version_post_init_Inr version_get_def scoped_get_Some split: if_splits)
  ultimately show ?thesis using W v'(3) by (auto simp: version_get_def scoped_get_Some)
next
  case False
  then have "y = x" using run by (auto simp: submit_draft_def steps_Inr)
  then show ?thesis using ok v by (auto intro: exI [of _ "working x"])
qed

lemma publish_in_transaction_Inr:
  assumes ok: "catalog_ok (working x)" and run: "publish_tool_in_transaction sha c now x = (Inr res, y)"
  obtains t v b u where "publish_snapshot sha c (working x) t v b u"
    "y = x\<lparr>working := published_stores t v b now (working x)\<rparr>" "catalog_ok (working y)"
    "pres_event res = published_event c t v b now"
    "pres_retired_tool_version_id res = map_option ve_id (found_current c (working x) t)"
  using wpD [OF publish_in_transaction_exact [OF ok] run] by auto

text \<open>A review's drafts, as a published pair: one step of the live map.\<close>

lemma publish_reviewed_Inr:
  assumes ok: "catalog_ok (working x)" and v: "version_get tn (rr_tool_version_id rv) (versions_of (working x)) = Some v"
      "ve_version v = rr_version rv" "tn = cx_tenant_id (dc_context c)"
    and run: "publish_reviewed sha c now rv v x = (Inr res, y)"
  defines "k \<equiv> (tn, rr_tool_id rv)"
  shows "db y = working y \<and> catalog_ok (working y) \<and>
    live (working y) = (live (working x))(k := Some (rr_tool_version_id rv, rr_version rv)) \<and>
    may_go_live (live (working x)) k (rr_version rv) \<and> id_jobs (working y) = id_jobs (working x) \<and>
    id_operations (working y) = id_operations (working x) \<and> cd_upstreams (working y) = cd_upstreams (working x) \<and>
    res = \<lparr>dr_reviewed = rv, dr_retired_tool_version_id = map_option fst (live (working x) k),
           dr_published_at = now, dr_already_published = False\<rparr>"
proof -
  obtain x1 p x2 where sub: "submit_draft tn v now x = (Inr (), x1)"
    and pub: "publish_tool_in_transaction sha (direct_publish_command_of c rv) now x1 = (Inr p, x2)"
    and y: "y = x2\<lparr>db := working x2\<rparr>"
    and res: "res = \<lparr>dr_reviewed = rv, dr_retired_tool_version_id = pres_retired_tool_version_id p,
           dr_published_at = tp_occurred_at (pres_event p), dr_already_published = False\<rparr>"
    using run v(3) by (auto simp: publish_reviewed_def steps_Inr commit_def)
  note S = submit_draft_Inr [OF ok v(1) sub]
  obtain v' where v': "version_get tn (rr_tool_version_id rv) (versions_of (working x1)) = Some v'" "ve_version v' = rr_version rv"
    using S v(2) by auto
  show ?thesis
  proof (rule publish_in_transaction_Inr [OF conjunct1 [OF conjunct2 [OF S]] pub])
    fix t w b u assume snap: "publish_snapshot sha (direct_publish_command_of c rv) (working x1) t w b u"
      and x2: "x2 = x1\<lparr>working := published_stores t w b now (working x1)\<rparr>" "catalog_ok (working x2)"
      and p: "pres_event p = published_event (direct_publish_command_of c rv) t w b now"
        "pres_retired_tool_version_id p = map_option ve_id (found_current (direct_publish_command_of c rv) (working x1) t)"
    have c: "pc_context (direct_publish_command_of c rv) = dc_context c" "pc_tool_id (direct_publish_command_of c rv) = rr_tool_id rv"
      "pc_tool_version_id (direct_publish_command_of c rv) = rr_tool_version_id rv"
      by (simp_all add: direct_publish_command_of_def)
    have ids: "to_tenant_id t = tn" "to_id t = rr_tool_id rv" "ve_id w = rr_tool_version_id rv" "ve_version w = rr_version rv"
      using snap v' v(3) keyed_get [OF catalog_okD(9) [of "working x1"]] keyed_get [OF catalog_okD(10) [of "working x1"]] S
      by (auto simp: publish_snapshot_def c tool_get_def version_get_def scoped_get_Some)
    have cur: "map_option ve_id (found_current (direct_publish_command_of c rv) (working x1) t) = map_option fst (live (working x1) k)"
      by (simp add: c ids k_def v(3) [symmetric] live_def option.map_comp comp_def)
    have "may_go_live (live (working x1)) k (rr_version rv)"
      using snap by (auto simp: publish_snapshot_def c ids k_def v(3) [symmetric] may_go_live_def live_def split: option.splits)
    moreover have "live (working x2) = (live (working x1))(k := Some (rr_tool_version_id rv, rr_version rv))"
      using published_live [OF _ snap, of now] S by (simp add: x2(1) ids k_def)
    ultimately show ?thesis
      using S x2 p cur by (auto simp: y res published_event_def)
  qed
qed

lemma review_left_stores:
  assumes "review_left tn i w res w'"
  obtains o' v b t where "operation_get tn i (id_operations w') = Some o'" "io_review_status o' = REVIEW_ACCEPTED"
    "io_draft_tool_version_id o' = Some (rr_tool_version_id res)" "io_draft_tool_binding_id o' = Some (rr_tool_binding_id res)"
    "version_get tn (rr_tool_version_id res) (versions_of w') = Some v" "ve_version v = rr_version res"
    "ve_tool_id v = rr_tool_id res" "ve_tenant_id v = tn" "ve_id v = rr_tool_version_id res"
    "w' = w \<or> ve_status v = VERSION_DRAFT"
proof -
  obtain o' v b t where *: "operation_get tn i (id_operations w') = Some o'" "io_review_status o' = REVIEW_ACCEPTED"
    "io_draft_tool_version_id o' = Some (ve_id v)" "io_draft_tool_binding_id o' = Some (bi_id b)"
    "version_get tn (ve_id v) (versions_of w') = Some v" "ve_tool_id v = to_id t" "res = review_result o' t v b"
    "w' = w \<or> ve_status v = VERSION_DRAFT"
    using assms unfolding review_left_def by blast
  show thesis
    by (rule that [of o' v]) (use * in \<open>simp_all add: review_result_def version_get_def scoped_get_Some\<close>)
qed

definition directly_published ::
  "direct_publish_command \<Rightarrow> import_db \<Rightarrow> direct_publish_result \<Rightarrow> import_db \<Rightarrow> bool" where
  "directly_published c w res w' \<longleftrightarrow>
     (let tn = cx_tenant_id (dc_context c); rv = dr_reviewed res; k = (tn, rr_tool_id rv);
          entry = Some (rr_tool_version_id rv, rr_version rv) in
      catalog_ok w' \<and> id_jobs w' = id_jobs w \<and> cd_upstreams w' = cd_upstreams w \<and> live w' = (live w)(k := entry) \<and>
      (if dr_already_published res then w' = w \<and> dr_retired_tool_version_id res = None
       else may_go_live (live w) k (rr_version rv) \<and> is_aware (dr_published_at res) \<and>
            dr_retired_tool_version_id res = map_option fst (live w k)) \<and>
      (\<exists>o'. operation_get tn (dc_operation_id c) (id_operations w') = Some o' \<and> io_review_status o' = REVIEW_ACCEPTED \<and>
         io_draft_tool_version_id o' = Some (rr_tool_version_id rv) \<and> io_draft_tool_binding_id o' = Some (rr_tool_binding_id rv)) \<and>
      (\<forall>i. i \<noteq> dc_operation_id c \<longrightarrow> dict_get (id_operations w') i = dict_get (id_operations w) i))"

lemma direct_publish_Inr:
  assumes ok: "catalog_ok (db s)" "keyed io_id (id_operations (db s))" and run: "direct_publish sha c s = (Inr res, y)"
  shows "directly_published c (db s) res (db y)"
proof -
  let ?tn = "cx_tenant_id (dc_context c)"
  define x where "x = enter_uow (s\<lparr>ticks := Suc (ticks s)\<rparr>)"
  let ?now = "now_at s (ticks s)"
  obtain rv x1 v b t z where aware: "is_aware ?now"
    and review: "review_in_transaction sha (direct_review_command c) x = (Inr rv, x1)"
    and v: "version_get ?tn (rr_tool_version_id rv) (versions_of (working x1)) = Some v"
    and rest: "(if ve_status v = VERSION_PUBLISHED then lift (already_published_result rv v b t)
        else publish_reviewed sha c ?now rv v) x1 = (Inr res, z)"
    and y: "y = exit_uow z"
    using run by (auto simp: direct_publish_def Let_def steps_Inr with_uow_Inr x_def)
  have cmd: "cx_tenant_id (rv_context (direct_review_command c)) = ?tn" "rv_operation_id (direct_review_command c) = dc_operation_id c"
    by (simp_all add: direct_review_command_def)
  have R: "db x1 = db s \<and> review_left ?tn (dc_operation_id c) (db s) rv (working x1)"
    using review_in_transaction_Inr [OF _ _ review] ok by (simp add: cmd x_def)
  have W: "catalog_ok (working x1)" "live (working x1) = live (db s)" "id_jobs (working x1) = id_jobs (db s)"
    "cd_upstreams (working x1) = cd_upstreams (db s)"
    "\<forall>i. i \<noteq> dc_operation_id c \<longrightarrow> dict_get (id_operations (working x1)) i = dict_get (id_operations (db s)) i"
    using R by (simp_all add: review_left_def)
  show ?thesis
  proof (rule review_left_stores [OF conjunct2 [OF R]])
    fix o' v0
    assume o': "operation_get ?tn (dc_operation_id c) (id_operations (working x1)) = Some o'" "io_review_status o' = REVIEW_ACCEPTED"
        "io_draft_tool_version_id o' = Some (rr_tool_version_id rv)" "io_draft_tool_binding_id o' = Some (rr_tool_binding_id rv)"
      and "version_get ?tn (rr_tool_version_id rv) (versions_of (working x1)) = Some v0"
      and v0: "ve_version v0 = rr_version rv" "ve_tool_id v0 = rr_tool_id rv" "ve_tenant_id v0 = ?tn"
        "ve_id v0 = rr_tool_version_id rv" "working x1 = db s \<or> ve_status v0 = VERSION_DRAFT"
    then have eq: "v0 = v" using v by simp
    show ?thesis
    proof (cases "ve_status v = VERSION_PUBLISHED")
      case True
      have same: "working x1 = db s" using v0(5) True eq by simp
      have "z = x1" "dr_reviewed res = rv" "dr_retired_tool_version_id res = None" "dr_already_published res"
        using rest True by (auto simp: lift_Inr already_published_result_def split: option.splits if_splits)
      moreover have "live (db s) (?tn, rr_tool_id rv) = Some (rr_tool_version_id rv, rr_version rv)"
        using live_iff [OF ok(1)] v v0 True eq same by (auto simp: version_get_def scoped_get_Some)
      ultimately show ?thesis
        using R ok o' same by (auto simp: directly_published_def Let_def y fun_upd_idem)
    next
      case False
      then have pub: "publish_reviewed sha c ?now rv v x1 = (Inr res, z)" using rest by simp
      note P = publish_reviewed_Inr [OF W(1) v _ refl pub]
      show ?thesis using P v0(1) eq W o' aware by (simp add: directly_published_def Let_def y)
    qed
  qed
qed

lemma review_no_commit: "no_commit (review_in_transaction sha c)"
proof -
  have existing: "no_commit (existing_result tn o')" for tn o'
    unfolding existing_result_def by (auto split: option.splits)
  show ?thesis
    unfolding review_in_transaction_def draft_operation_def tool_for_operation_def build_version_def build_binding_def Let_def
    by (auto intro: existing)
qed

lemma direct_publish_Inl:
  assumes "direct_publish sha c s = (Inl e, y)"
  shows "db y = db s"
proof -
  have "no_commit (publish_tool_in_transaction sha c' now)" for c' and now :: datetime
    unfolding publish_tool_in_transaction_def retire_current_version_def Let_def by auto
  then have publish: "atomic (publish_reviewed sha c now rv v)" for now rv v
    unfolding publish_reviewed_def submit_draft_def
    by (intro atomic_seq atomic_bind atomic_commit) (auto intro!: atomicI)
  have "wp (direct_publish sha c) (\<lambda>r y. \<forall>e. r = Inl e \<longrightarrow> db y = db s) s"
    unfolding direct_publish_def Let_def wp_bind wp_clock_now sum.case wp_seq wp_raise_if
  proof (simp, intro impI wp_atomic [of _ "s\<lparr>ticks := Suc (ticks s)\<rparr>", simplified] atomic_bind review_no_commit)
  qed (auto intro: publish atomicI)
  then show ?thesis using assms by (auto dest: wpD)
qed

section \<open>Properties\<close>

text \<open>An operation for the tool of the sample catalog, which has a published and a reviewed version.\<close>

definition sample_operation :: imported_operation where
  "sample_operation =
     \<lparr>io_id = ''op'', io_tenant_id = ''acme'', io_import_job_id = ''job'', io_upstream_service_id = ''up'',
      io_operation_key = ''GET /contacts'', io_operation_id = Some ''find'', io_method = ''GET'', io_path = ''/contacts'',
      io_normalized_operation = JObj [(''tool_input_schema'', sample_schema), (''parameters'', JList [])],
      io_generated_tool_name = Some ''crm.find'', io_conflict_status = CONFLICT_NONE, io_review_status = REVIEW_PENDING,
      io_review_notes = None, io_draft_tool_version_id = None, io_draft_tool_binding_id = None\<rparr>"

definition review_start :: "(datetime, import_db) sys" where
  "review_start = import_start\<lparr>db := sample_import_db\<lparr>id_operations := [(''op'', sample_operation)]\<rparr>\<rparr>"

definition sample_review :: review_operation_command where
  "sample_review = \<lparr>rv_context = sample_actor, rv_operation_id = ''op'', rv_owner = ''team'',
     rv_visibility = VIS_PUBLIC, rv_review_notes = None\<rparr>"

definition sample_direct :: direct_publish_command where
  "sample_direct = \<lparr>dc_context = sample_actor, dc_operation_id = ''op'', dc_owner = ''team'',
     dc_visibility = VIS_PUBLIC, dc_review_notes = None\<rparr>"

lemma review_start_ok: "catalog_ok (db review_start)" "keyed io_id (id_operations (db review_start))"
proof -
  have "tools_of (db review_start) = tools_of (db catalog_start) \<and> versions_of (db review_start) = versions_of (db catalog_start) \<and>
      cd_bindings (db review_start) = cd_bindings (db catalog_start)"
    by (simp add: review_start_def catalog_start_def sample_import_db_def catalog_db.defs import_db.defs
        tools_of_def versions_of_def)
  then show "catalog_ok (db review_start)" using sample_catalog_ok unfolding catalog_ok_def by simp
  show "keyed io_id (id_operations (db review_start))"
    by (simp add: review_start_def keyed_def sample_operation_def)
qed

text \<open>C35: A review is all or nothing and happens once. An error leaves the stores as they were. A review
  that returns has accepted the operation with references to the draft version and the draft binding it
  reports, keeps the catalog well-formed, moves no tool's live version and touches no other operation or
  job; and reviewing the operation again, by whoever and with whatever arguments, reports the same drafts
  and changes nothing.\<close>

theorem review_creates_drafts_once:
  assumes "catalog_ok (db s)" "keyed io_id (id_operations (db s))" "review_imported_operation sha c s = (r, y)"
  shows "case r of
      Inl e \<Rightarrow> db y = db s
    | Inr res \<Rightarrow> review_left (cx_tenant_id (rv_context c)) (rv_operation_id c) (db s) res (db y) \<and>
        (\<forall>sha' c' s'. db s' = db y \<and> cx_tenant_id (rv_context c') = cx_tenant_id (rv_context c) \<and>
           rv_operation_id c' = rv_operation_id c \<longrightarrow>
           review_imported_operation sha' c' s' = (Inr res, s'))"
proof (cases r)
  case (Inl e)
  have "atomic (bind (review_in_transaction sha c) (\<lambda>result. seq commit (ret result)))"
    by (intro atomic_bind atomic_commit review_no_commit)
  then show ?thesis using assms(3) Inl atomic_with_uow by (simp add: review_imported_operation_def)
next
  case (Inr res)
  obtain x where x: "review_in_transaction sha c (enter_uow s) = (Inr res, x)" "y = exit_uow (x\<lparr>db := working x\<rparr>)"
    using assms(3) Inr by (auto simp: review_imported_operation_def with_uow_Inr steps_Inr commit_def)
  have left: "review_left (cx_tenant_id (rv_context c)) (rv_operation_id c) (db s) res (db y)"
    using review_in_transaction_Inr [OF _ _ x(1)] assms(1,2) x(2) by simp
  have "review_imported_operation sha' c' s' = (Inr res, s')"
    if "db s' = db y" "cx_tenant_id (rv_context c') = cx_tenant_id (rv_context c)" "rv_operation_id c' = rv_operation_id c" for sha' c' s'
  proof -
    have "review_in_transaction sha' c' (enter_uow s') = (Inr res, enter_uow s')"
      by (rule review_again [of _ "db s"]) (use left that in simp)
    moreover have "exit_uow ((enter_uow s')\<lparr>db := working (enter_uow s')\<rparr>) = s'" by simp
    ultimately show ?thesis by (simp add: review_imported_operation_def with_uow_Inr steps_Inr commit_def)
  qed
  then show ?thesis using left Inr by simp
qed

theorem review_creates_drafts_once_witness:
  "\<exists>res y. review_imported_operation sample_sha sample_review review_start = (Inr res, y) \<and> rr_version res = 3 \<and>
     review_left ''acme'' ''op'' (db review_start) res (db y) \<and>
     review_imported_operation sample_sha sample_review y = (Inr res, y)"
proof -
  have "case fst (review_imported_operation sample_sha sample_review review_start) of Inl _ \<Rightarrow> False | Inr res \<Rightarrow> rr_version res = 3"
    by code_simp
  then obtain res y where run: "review_imported_operation sample_sha sample_review review_start = (Inr res, y)" "rr_version res = 3"
    by (cases "review_imported_operation sample_sha sample_review review_start") (auto split: sum.splits)
  have "cx_tenant_id (rv_context sample_review) = ''acme''" "rv_operation_id sample_review = ''op''"
    by (simp_all add: sample_review_def sample_actor_def)
  then show ?thesis using review_creates_drafts_once [OF review_start_ok run(1)] run by auto
qed

text \<open>C27: A direct publication is all or nothing and one step of the live map. An error, wherever it
  strikes, leaves every store as it was: no draft, no accepted operation. When it returns, the operation
  is accepted with references to the version and binding it reports, that version is the tool's live one
  and newer than the one it reports as retired, no other tool's live version and no other operation or
  job changed, and the catalog is well-formed; an operation already published is reported as such and
  nothing changes.\<close>

theorem direct_publish_all_or_nothing:
  assumes "catalog_ok (db s)" "keyed io_id (id_operations (db s))" "direct_publish sha c s = (r, y)"
  shows "case r of Inl e \<Rightarrow> db y = db s | Inr res \<Rightarrow> directly_published c (db s) res (db y)"
  using direct_publish_Inl direct_publish_Inr [OF assms(1,2)] assms(3) by (auto split: sum.splits)

theorem direct_publish_all_or_nothing_witness:
  "\<exists>res y. direct_publish sample_sha sample_direct review_start = (Inr res, y) \<and>
     dr_retired_tool_version_id res = Some ''v1'' \<and> directly_published sample_direct (db review_start) res (db y)"
proof -
  have "case fst (direct_publish sample_sha sample_direct review_start) of Inl _ \<Rightarrow> False
      | Inr res \<Rightarrow> dr_retired_tool_version_id res = Some ''v1''"
    by code_simp
  then obtain res y where run: "direct_publish sample_sha sample_direct review_start = (Inr res, y)"
    "dr_retired_tool_version_id res = Some ''v1''"
    by (cases "direct_publish sample_sha sample_direct review_start") (auto split: sum.splits)
  then show ?thesis using direct_publish_all_or_nothing [OF review_start_ok run(1)] by auto
qed

end
