(* ===== verification/Search_Documents.thy ===== *)
theory Search_Documents
  imports Complex_Main Catalog_Store
begin

text \<open>
  What tool search indexes: the text of a published tool (\<open>tool_search/document_builder.py\<close>) and the
  values of \<open>tool_search/domain.py\<close>, documents, embedding vectors and stored embeddings.

  A finite \<open>float\<close> is a rational and is kept as one; infinities and NaN, which the constructors
  refuse, are \<open>Not_Finite\<close>. Two methods of Python's \<open>str\<close> on arbitrary JSON values are needed for the
  declared type of a field: \<open>py_str\<close> and \<open>py_repr\<close>.
\<close>

section \<open>Domain\<close>

datatype retrieval_mode = LEXICAL | HYBRID

record search_document =
  sd_tenant_id :: string
  sd_tool_id :: string
  sd_tool_version_id :: string
  sd_canonical_name :: string
  sd_content :: string
  sd_source_digest :: string

definition document_post_init :: "search_document \<Rightarrow> search_document result" where
  "document_post_init d = validated
     (non_blank_checks
        [(''tenant id'', sd_tenant_id d), (''tool id'', sd_tool_id d), (''tool version id'', sd_tool_version_id d),
         (''canonical name'', sd_canonical_name d), (''tool search document'', sd_content d)] @
      [(length (sd_source_digest d) \<noteq> 64, ''tool search source digest must be a SHA-256 hex digest'')]) d"

datatype py_float = Finite rat | Not_Finite

record embedding_vector =
  ev_model :: string
  ev_dimensions :: int
  ev_values :: "py_float list"

definition vector_post_init :: "embedding_vector \<Rightarrow> embedding_vector result" where
  "vector_post_init v = validated
     [(blank (ev_model v), ''embedding model must not be blank''),
      (ev_dimensions v \<le> 0 \<or> int (length (ev_values v)) \<noteq> ev_dimensions v,
       ''embedding vector dimensions did not match values''),
      (Not_Finite \<in> set (ev_values v), ''embedding vector values must be finite'')] v"

record search_embedding =
  se_id :: string
  se_tenant_id :: string
  se_tool_version_id :: string
  se_embedding_model :: string
  se_embedding_dimensions :: int
  se_source_digest :: string
  se_vector :: embedding_vector
  se_indexed_at :: datetime

definition embedding_post_init :: "search_embedding \<Rightarrow> search_embedding result" where
  "embedding_post_init e = validated
     (non_blank_checks
        [(''embedding id'', se_id e), (''tenant id'', se_tenant_id e),
         (''tool version id'', se_tool_version_id e), (''embedding model'', se_embedding_model e)] @
      [(length (se_source_digest e) \<noteq> 64, ''embedding source digest must be a SHA-256 hex digest''),
       (ev_model (se_vector e) \<noteq> se_embedding_model e, ''embedding vector model did not match projection''),
       (ev_dimensions (se_vector e) \<noteq> se_embedding_dimensions e,
        ''embedding vector dimensions did not match projection'')]) e"

text \<open>A hit of any retrieval strategy; the ranks of the keyword search are integers.\<close>

record scored_hit =
  sh_tool :: published_tool
  sh_rank :: rat

definition scored_of :: "search_hit \<Rightarrow> scored_hit" where
  "scored_of h = \<lparr>sh_tool = hit_tool h, sh_rank = of_int (hit_rank h)\<rparr>"

record vector_search_result =
  vr_hits :: "scored_hit list"
  vr_eligible_count :: int
  vr_indexed_count :: int

definition vector_result_post_init :: "vector_search_result \<Rightarrow> vector_search_result result" where
  "vector_result_post_init r = validated
     [(vr_eligible_count r < 0 \<or> vr_indexed_count r < 0, ''vector search coverage counts must not be negative''),
      (vr_indexed_count r > vr_eligible_count r, ''indexed tool count must not exceed eligible tool count''),
      (int (length (vr_hits r)) > vr_indexed_count r, ''vector search hits must not exceed indexed tool count'')] r"

section \<open>Python's text of a value\<close>

definition repr_char :: "char \<Rightarrow> char \<Rightarrow> string" where
  "repr_char quote c =
     (let n = of_char c :: nat
      in if c = quote \<or> c = CHR 0x5C then [CHR 0x5C, c]
         else if n = 10 then [CHR 0x5C, CHR ''n'']
         else if n = 13 then [CHR 0x5C, CHR ''r'']
         else if n = 9 then [CHR 0x5C, CHR ''t'']
         else if n < 32 \<or> (127 \<le> n \<and> n \<le> 160) \<or> n = 173
           then [CHR 0x5C, CHR ''x'', hex_digit (n div 16), hex_digit (n mod 16)]
         else [c])"

definition repr_string :: "string \<Rightarrow> string" where
  "repr_string s =
     (let quote = (if CHR 0x27 \<in> set s \<and> CHR 0x22 \<notin> set s then CHR 0x22 else CHR 0x27)
      in [quote] @ concat (map (repr_char quote) s) @ [quote])"

primrec py_repr :: "json \<Rightarrow> string" where
  "py_repr JNull = ''None''"
| "py_repr (JBool b) = (if b then ''True'' else ''False'')"
| "py_repr (JInt i) = show_int i"
| "py_repr (JStr s) = repr_string s"
| "py_repr (JList vs) = ''['' @ join_with '', '' (map py_repr vs) @ '']''"
| "py_repr (JObj kvs) =
     ''{'' @ join_with '', '' (map (\<lambda>kv. repr_string (fst kv) @ '': '' @ snd kv) (map (map_prod id py_repr) kvs)) @ ''}''"

fun py_str :: "json \<Rightarrow> string" where
  "py_str (JStr s) = s"
| "py_str v = py_repr v"

section \<open>The document of a tool\<close>

type_synonym schema_object = "(string \<times> json) list"

definition schema_get :: "schema_object \<Rightarrow> string \<Rightarrow> json" where
  "schema_get sch k = (case dict_get sch k of None \<Rightarrow> JNull | Some v \<Rightarrow> v)"

definition normalize_text :: "string \<Rightarrow> string" where
  "normalize_text s = join_spaces (py_split s)"

text \<open>\<open>{str(n) for n in schema.get("required", ()) if isinstance(n, str)}\<close>; iterating over a text gives
  its characters, over an object its keys, and over anything else a \<open>TypeError\<close>.\<close>

definition required_names :: "schema_object \<Rightarrow> string list result" where
  "required_names sch =
     (case dict_get sch ''required'' of
        None \<Rightarrow> Inr []
      | Some (JList vs) \<Rightarrow> Inr (concat (map (\<lambda>v. case v of JStr s \<Rightarrow> [s] | _ \<Rightarrow> []) vs))
      | Some (JStr s) \<Rightarrow> Inr (map (\<lambda>c. [c]) s)
      | Some (JObj kvs) \<Rightarrow> Inr (map fst kvs)
      | Some _ \<Rightarrow> Inl (TypeError ''object is not iterable''))"

definition field_type_text :: "schema_object \<Rightarrow> string" where
  "field_type_text sch =
     (case dict_get sch ''type'' of
        None \<Rightarrow> ''unknown''
      | Some (JList vs) \<Rightarrow> join_with ''|'' (sort (map py_str vs))
      | Some v \<Rightarrow> py_str v)"

definition field_summary :: "string \<Rightarrow> schema_object \<Rightarrow> bool \<Rightarrow> string" where
  "field_summary path sch required =
     path @ '' ('' @ field_type_text sch @ '', '' @ (if required then ''required'' else ''optional'') @ '')'' @
     (case schema_get sch ''description'' of
        JStr d \<Rightarrow> (if blank d then [] else '': '' @ normalize_text d)
      | _ \<Rightarrow> [])"

function collect_field :: "nat \<Rightarrow> string \<Rightarrow> schema_object \<Rightarrow> bool \<Rightarrow> string list result" where
  "collect_field depth path sch required =
     (case schema_get sch ''properties'' of
        JObj nested \<Rightarrow>
          if nested \<noteq> [] \<and> depth < 3 then
            result_bind (required_names sch) (\<lambda>nested_required.
            result_bind (collect_results (\<lambda>name.
                case schema_get nested name of
                  JObj v \<Rightarrow> collect_field (Suc depth) (path @ ''.'' @ name) v (name \<in> set nested_required)
                | _ \<Rightarrow> Inr []) (sort (map fst nested))) (\<lambda>fields. Inr (concat fields)))
          else Inr [field_summary path sch required]
      | _ \<Rightarrow> Inr [field_summary path sch required])"
  by pat_completeness auto

termination collect_field
  by (relation "measure (\<lambda>(depth, _). 3 - depth)") auto

declare collect_field.simps [simp del]

definition input_field_summaries :: "json \<Rightarrow> string list result" where
  "input_field_summaries sch =
     (case sch of
        JObj kvs \<Rightarrow>
          result_bind (required_names kvs) (\<lambda>required.
            case schema_get kvs ''properties'' of
              JObj properties \<Rightarrow>
                result_bind (collect_results (\<lambda>name.
                    case schema_get properties name of
                      JObj v \<Rightarrow> collect_field 0 name v (name \<in> set required)
                    | _ \<Rightarrow> Inr []) (sort (map fst properties))) (\<lambda>fields. Inr (concat fields))
            | _ \<Rightarrow> Inr [])
      | _ \<Rightarrow> Inl (OtherException ''AttributeError''))"

definition or_default :: "string \<Rightarrow> string \<Rightarrow> string" where
  "or_default s d = (if s = [] then d else s)"

definition document_content :: "published_tool \<Rightarrow> string list \<Rightarrow> string" where
  "document_content p inputs = join_with [CHR 0x0A]
     [''Canonical Name: '' @ pt_canonical_name p,
      ''Display Name: '' @ normalize_text (pt_display_name p),
      ''Namespace: '' @ published_namespace p,
      ''Description: '' @ normalize_text (pt_description p),
      ''Tags: '' @ or_default (join_with '', '' (sort (pt_tags p))) ''none'',
      ''Side Effect: '' @ side_effect_value (pt_side_effect p),
      ''Inputs: '' @ or_default (join_with '', '' inputs) ''none'',
      ''Owner: '' @ normalize_text (case pt_owner p of None \<Rightarrow> ''unknown'' | Some ow \<Rightarrow> or_default ow ''unknown'')]"

definition build_document :: "(string \<Rightarrow> string) \<Rightarrow> published_tool \<Rightarrow> search_document result" where
  "build_document sha p =
     result_bind (input_field_summaries (pt_input_schema p)) (\<lambda>inputs.
       let content = document_content p inputs
       in document_post_init
         \<lparr>sd_tenant_id = pt_tenant_id p, sd_tool_id = pt_tool_id p, sd_tool_version_id = pt_tool_version_id p,
          sd_canonical_name = pt_canonical_name p, sd_content = content,
          sd_source_digest = sha (utf8_encode content)\<rparr>)"

lemma build_document_fields:
  assumes "build_document sha p = Inr d"
  shows "sd_tenant_id d = pt_tenant_id p \<and> sd_tool_id d = pt_tool_id p \<and> sd_tool_version_id d = pt_tool_version_id p \<and>
    sd_canonical_name d = pt_canonical_name p \<and> length (sd_source_digest d) = 64 \<and> \<not> blank (sd_tenant_id d) \<and>
    \<not> blank (sd_tool_version_id d)"
  using assms
  by (auto simp: build_document_def result_bind_Inr_iff Let_def document_post_init_def validated_Inr_iff non_blank_checks_ok)

end
