(* ===== verification/Search_Fusion.thy ===== *)
theory Search_Fusion
  imports Search_Documents
begin

text \<open>
  Reciprocal rank fusion (\<open>tool_search/rank_fusion.py\<close>). The source adds \<open>float\<close> quotients; the model
  adds the rationals they approximate. For the two rankings of at most 50 hits that the hybrid search
  fuses, two different sums differ by far more than a rounding error (\<open>fractions_apart\<close>), and equal
  ones are the same sum of at most two quotients, so the order is the same.
\<close>

definition rank_fusion_init :: "int \<Rightarrow> int result" where
  "rank_fusion_init rank_constant =
     (if rank_constant \<le> 0 then Inl (ValueError ''RRF rank constant must be positive'') else Inr rank_constant)"

record fusion_state =
  fu_scores :: "(string, rat) dict"
  fu_tools :: "(string, scored_hit) dict"

definition hit_identity :: "scored_hit \<Rightarrow> string" where
  "hit_identity h = pt_tool_version_id (sh_tool h)"

definition dict_setdefault :: "'k \<Rightarrow> 'v \<Rightarrow> ('k, 'v) dict \<Rightarrow> ('k, 'v) dict" where
  "dict_setdefault k v d = (if dict_get d k = None then dict_set k v d else d)"

text \<open>One ranking, from a position on; repeated rows of a ranking do not count twice.\<close>

fun fuse_ranking :: "int \<Rightarrow> int \<Rightarrow> string list \<Rightarrow> scored_hit list \<Rightarrow> fusion_state \<Rightarrow> fusion_state" where
  "fuse_ranking k position seen [] st = st"
| "fuse_ranking k position seen (h # hs) st =
     (if hit_identity h \<in> set seen then fuse_ranking k (position + 1) seen hs st
      else fuse_ranking k (position + 1) (hit_identity h # seen) hs
        \<lparr>fu_scores = dict_set (hit_identity h)
           ((case dict_get (fu_scores st) (hit_identity h) of None \<Rightarrow> 0 | Some s \<Rightarrow> s) + 1 / of_int (k + position))
           (fu_scores st),
         fu_tools = dict_setdefault (hit_identity h) h (fu_tools st)\<rparr>)"

definition fuse_rankings :: "int \<Rightarrow> scored_hit list list \<Rightarrow> fusion_state" where
  "fuse_rankings k rankings =
     foldl (\<lambda>st ranking. fuse_ranking k 1 [] ranking st) \<lparr>fu_scores = [], fu_tools = []\<rparr> rankings"

definition fusion_key :: "fusion_state \<Rightarrow> string \<Rightarrow> rat \<times> string \<times> string" where
  "fusion_key st i =
     (- the (dict_get (fu_scores st) i), pt_canonical_name (sh_tool (the (dict_get (fu_tools st) i))), i)"

definition fuse :: "int \<Rightarrow> scored_hit list list \<Rightarrow> int \<Rightarrow> scored_hit list result" where
  "fuse k rankings limit =
     (if limit \<le> 0 then Inl (ValueError ''RRF result limit must be positive'')
      else
        let st = fuse_rankings k rankings;
            ordered = sort_key (fusion_key st) (map fst (fu_scores st))
        in Inr (map (\<lambda>i. \<lparr>sh_tool = sh_tool (the (dict_get (fu_tools st) i)), sh_rank = the (dict_get (fu_scores st) i)\<rparr>)
             (take (nat limit) ordered)))"

end
