(* ===== verification/Search_Query.thy ===== *)
theory Search_Query
  imports Search_Fusion Policy
begin

text \<open>
  Searching for tools: by embedding vector (\<open>tool_search/vector_search.py\<close>), by keyword and vector
  together (\<open>hybrid_search.py\<close>), and the search behind the built-in meta tool, which drops what the
  caller may not call (\<open>search_tools.py\<close>). The embedding service, the vector index, the resolver of
  the principal and the policy evaluator are ports: arbitrary programs on an arbitrary state.
\<close>

section \<open>Vector search\<close>

record 's embedding_provider =
  em_model :: string
  em_dimensions :: int
  em_embed :: "string list \<Rightarrow> ('s, embedding_vector list) prog"

type_synonym 's vector_tool_search =
  "string \<Rightarrow> embedding_vector \<Rightarrow> search_filter \<Rightarrow> int \<Rightarrow> ('s, vector_search_result) prog"

text \<open>The candidate searches: keyword, vector and hybrid.\<close>

type_synonym 's candidate_search = "search_tools_query \<Rightarrow> ('s, scored_hit list) prog"

definition index_version :: "'s embedding_provider \<Rightarrow> string" where
  "index_version p = em_model p @ ''@'' @ show_int (em_dimensions p)"

definition validate_vector_query :: "search_tools_query \<Rightarrow> string result" where
  "validate_vector_query q =
     (let query_text = py_strip (sq_text q)
      in if query_text = [] then Inl invalid_arguments
         else if 200 < length query_text then Inl invalid_arguments
         else if \<not> (1 \<le> sq_limit q \<and> sq_limit q \<le> 50) then Inl invalid_arguments
         else if (case sq_namespace q of None \<Rightarrow> False | Some ns \<Rightarrow> py_strip ns = []) then Inl invalid_arguments
         else Inr query_text)"

definition single_vector :: "'s embedding_provider \<Rightarrow> embedding_vector list \<Rightarrow> embedding_vector result" where
  "single_vector p vectors =
     (case vectors of
        [v] \<Rightarrow>
          if ev_model v \<noteq> em_model p \<or> ev_dimensions v \<noteq> em_dimensions p
          then Inl (NexusError EmbeddingResponseError) else Inr v
      | _ \<Rightarrow> Inl (NexusError EmbeddingResponseError))"

definition search_vector_tools ::
  "'s embedding_provider \<Rightarrow> 's vector_tool_search \<Rightarrow> search_tools_query \<Rightarrow> ('s, vector_search_result) prog" where
  "search_vector_tools p vector_search q =
     bind (lift (validate_vector_query q)) (\<lambda>query_text.
       if sq_eligible_tool_ids q = Some []
       then lift (vector_result_post_init \<lparr>vr_hits = [], vr_eligible_count = 0, vr_indexed_count = 0\<rparr>)
       else
         bind (em_embed p [query_text]) (\<lambda>vectors.
         bind (lift (single_vector p vectors)) (\<lambda>query_vector.
         bind (vector_search (cx_tenant_id (sq_context q)) query_vector
             \<lparr>sf_visibilities = search_visibilities (cx_principal_id (sq_context q)),
              sf_eligible_tool_ids = sq_eligible_tool_ids q, sf_namespace = sq_namespace q,
              sf_side_effect = sq_side_effect q\<rparr> (sq_limit q)) (\<lambda>found.
         seq (raise_if (vr_eligible_count found > 0 \<and> vr_indexed_count found = 0)
               (NexusError ToolSearchModeUnavailableError))
           (ret found)))))"

section \<open>Hybrid search\<close>

text \<open>\<open>asyncio.gather\<close> of the two searches: both are run. The first to fail decides the error; here the
  keyword search, which comes first in the call.\<close>

definition gather :: "('s, 'a) prog \<Rightarrow> ('s, 'b) prog \<Rightarrow> ('s, 'a \<times> 'b) prog" where
  "gather m n =
     bind (attempt_run m) (\<lambda>first. bind (attempt_run n) (\<lambda>second.
       case first of Inl e \<Rightarrow> raise e | Inr x \<Rightarrow> (case second of Inl e \<Rightarrow> raise e | Inr y \<Rightarrow> ret (x, y))))"

record hybrid_hit_diagnostics =
  hd_rrf_score :: rat
  hd_lexical_rank :: "nat option"
  hd_lexical_score :: "rat option"
  hd_vector_rank :: "nat option"
  hd_vector_cosine_similarity :: "rat option"

record hybrid_search_result =
  hr_hits :: "scored_hit list"
  hr_diagnostics :: "(string, hybrid_hit_diagnostics) dict"

text \<open>\<open>{key(x): value(x) for x in xs}\<close>\<close>

definition dict_from :: "('a \<Rightarrow> 'k) \<Rightarrow> ('a \<Rightarrow> 'v) \<Rightarrow> 'a list \<Rightarrow> ('k, 'v) dict" where
  "dict_from key val xs = foldl (\<lambda>d x. dict_set (key x) (val x) d) [] xs"

definition ranked_hits :: "scored_hit list \<Rightarrow> (string, nat \<times> rat) dict" where
  "ranked_hits hits =
     foldl (\<lambda>d (position, h). dict_setdefault (hit_identity h) (position, sh_rank h) d) [] (enumerate 1 hits)"

definition hybrid_diagnostics ::
  "(string, nat \<times> rat) dict \<Rightarrow> (string, nat \<times> rat) dict \<Rightarrow> scored_hit \<Rightarrow> hybrid_hit_diagnostics" where
  "hybrid_diagnostics lexical vector h =
     \<lparr>hd_rrf_score = sh_rank h,
      hd_lexical_rank = map_option fst (dict_get lexical (hit_identity h)),
      hd_lexical_score = map_option snd (dict_get lexical (hit_identity h)),
      hd_vector_rank = map_option fst (dict_get vector (hit_identity h)),
      hd_vector_cosine_similarity = map_option snd (dict_get vector (hit_identity h))\<rparr>"

definition search_hybrid_detailed ::
  "'s candidate_search \<Rightarrow> (search_tools_query \<Rightarrow> ('s, vector_search_result) prog) \<Rightarrow> int \<Rightarrow>
   search_tools_query \<Rightarrow> ('s, hybrid_search_result) prog" where
  "search_hybrid_detailed lexical_search vector_search rank_constant q =
     bind (gather (lexical_search q) (vector_search q)) (\<lambda>(lexical_hits, vector_result).
     bind (lift (fuse rank_constant [lexical_hits, vr_hits vector_result] (sq_limit q))) (\<lambda>fused.
       ret \<lparr>hr_hits = fused,
            hr_diagnostics = dict_from hit_identity
              (hybrid_diagnostics (ranked_hits lexical_hits) (ranked_hits (vr_hits vector_result))) fused\<rparr>))"

definition search_hybrid ::
  "'s candidate_search \<Rightarrow> (search_tools_query \<Rightarrow> ('s, vector_search_result) prog) \<Rightarrow> int \<Rightarrow> 's candidate_search" where
  "search_hybrid lexical_search vector_search rank_constant q =
     bind (search_hybrid_detailed lexical_search vector_search rank_constant q) (\<lambda>r. ret (hr_hits r))"

section \<open>The search of the meta tool\<close>

record meta_search_query =
  mq_context :: actor_context
  mq_text :: string
  mq_retrieval_mode :: retrieval_mode
  mq_limit :: int
  mq_namespace :: "string option"
  mq_side_effect :: "tool_side_effect option"
  mq_eligible_tool_ids :: "string list option"

datatype score_kind = FTS | RRF

record hit_diagnostics =
  hx_score_kind :: score_kind
  hx_lexical_rank :: "nat option"
  hx_lexical_score :: "rat option"
  hx_vector_rank :: "nat option"
  hx_vector_cosine_similarity :: "rat option"
  hx_rrf_score :: "rat option"

record meta_search_result =
  mr_hits :: "scored_hit list"
  mr_retrieval_mode :: retrieval_mode
  mr_index_version :: "string option"
  mr_diagnostics :: "(string, hit_diagnostics) dict option"

record 's search_tools_ports =
  st_lexical_search :: "'s candidate_search"
  st_resolve_principal :: "actor_context \<Rightarrow> ('s, internal_principal) prog"
  st_evaluate_policy :: "policy_input \<Rightarrow> ('s, policy_decision) prog"
  st_hybrid_search :: "'s candidate_search option"
  st_hybrid_diagnostic_search :: "(search_tools_query \<Rightarrow> ('s, hybrid_search_result) prog) option"
  st_hybrid_index_version :: "string option"
  st_overfetch_factor :: int

definition search_tools_init :: "'s search_tools_ports \<Rightarrow> 's search_tools_ports result" where
  "search_tools_init p = validated
     [(st_overfetch_factor p \<le> 0, ''tool search overfetch factor must be positive''),
      (st_hybrid_search p \<noteq> None \<and> blank (case st_hybrid_index_version p of None \<Rightarrow> [] | Some v \<Rightarrow> v),
       ''hybrid tool search must declare an index version'')] p"

definition published_query :: "'s search_tools_ports \<Rightarrow> meta_search_query \<Rightarrow> search_tools_query" where
  "published_query p q =
     \<lparr>sq_context = mq_context q, sq_text = mq_text q,
      sq_limit = min (mq_limit q * st_overfetch_factor p) 50, sq_namespace = mq_namespace q,
      sq_side_effect = mq_side_effect q, sq_eligible_tool_ids = mq_eligible_tool_ids q\<rparr>"

definition rrf_diagnostics :: "hybrid_hit_diagnostics \<Rightarrow> hit_diagnostics" where
  "rrf_diagnostics d =
     \<lparr>hx_score_kind = RRF, hx_lexical_rank = hd_lexical_rank d, hx_lexical_score = hd_lexical_score d,
      hx_vector_rank = hd_vector_rank d, hx_vector_cosine_similarity = hd_vector_cosine_similarity d,
      hx_rrf_score = Some (hd_rrf_score d)\<rparr>"

definition rrf_score_only :: "scored_hit \<Rightarrow> hit_diagnostics" where
  "rrf_score_only h =
     \<lparr>hx_score_kind = RRF, hx_lexical_rank = None, hx_lexical_score = None, hx_vector_rank = None,
      hx_vector_cosine_similarity = None, hx_rrf_score = Some (sh_rank h)\<rparr>"

definition fts_diagnostics :: "nat \<times> scored_hit \<Rightarrow> hit_diagnostics" where
  "fts_diagnostics ph =
     \<lparr>hx_score_kind = FTS, hx_lexical_rank = Some (fst ph), hx_lexical_score = Some (sh_rank (snd ph)),
      hx_vector_rank = None, hx_vector_cosine_similarity = None, hx_rrf_score = None\<rparr>"

text \<open>The candidates with their diagnostics, by retrieval mode.\<close>

definition search_candidates ::
  "'s search_tools_ports \<Rightarrow> retrieval_mode \<Rightarrow> search_tools_query \<Rightarrow>
   ('s, scored_hit list \<times> (string, hit_diagnostics) dict) prog" where
  "search_candidates p mode sq =
     (if mode = HYBRID then
        (case st_hybrid_search p of
           None \<Rightarrow> raise (NexusError ToolSearchModeUnavailableError)
         | Some hybrid \<Rightarrow>
             (case st_hybrid_diagnostic_search p of
                Some detailed_search \<Rightarrow>
                  bind (detailed_search sq) (\<lambda>detailed.
                    ret (hr_hits detailed, map (map_prod id rrf_diagnostics) (hr_diagnostics detailed)))
              | None \<Rightarrow> bind (hybrid sq) (\<lambda>hits. ret (hits, dict_from hit_identity rrf_score_only hits))))
      else
        bind (st_lexical_search p sq) (\<lambda>hits.
          ret (hits, dict_from (hit_identity \<circ> snd) fts_diagnostics (enumerate 1 hits))))"

definition search_policy_input ::
  "string \<Rightarrow> internal_principal \<Rightarrow> string \<Rightarrow> scored_hit \<Rightarrow> policy_input" where
  "search_policy_input tenant_id caller empty_arguments_digest h =
     \<lparr>pi_tenant_id = tenant_id, pi_principal = caller, pi_tool_id = pt_tool_id (sh_tool h),
      pi_tool_version_id = pt_tool_version_id (sh_tool h), pi_action = CALL,
      pi_side_effect = pt_side_effect (sh_tool h), pi_arguments_digest = empty_arguments_digest\<rparr>"

text \<open>The loop over the candidates: it stops at the limit and asks no policy beyond it.\<close>

fun collect_visible ::
  "'s search_tools_ports \<Rightarrow> (scored_hit \<Rightarrow> policy_input) \<Rightarrow> int \<Rightarrow> scored_hit list \<Rightarrow> scored_hit list \<Rightarrow>
   ('s, scored_hit list) prog" where
  "collect_visible p input_of limit [] visible = ret visible"
| "collect_visible p input_of limit (h # hs) visible =
     bind (lift (policy_input_post_init (input_of h))) (\<lambda>i.
     bind (st_evaluate_policy p i) (\<lambda>decision.
       let visible' = (if pd_effect decision \<noteq> DENY then visible @ [h] else visible)
       in if int (length visible') = limit then ret visible'
          else collect_visible p input_of limit hs visible'))"

text \<open>\<open>{hit.tool.tool_version_id: raw_diagnostics[...] for hit in visible}\<close>, with its \<open>KeyError\<close>.\<close>

definition visible_diagnostics ::
  "(string, hit_diagnostics) dict \<Rightarrow> scored_hit list \<Rightarrow> (string, hit_diagnostics) dict result" where
  "visible_diagnostics raw visible =
     (if list_all (\<lambda>h. dict_get raw (hit_identity h) \<noteq> None) visible
      then Inr (dict_from hit_identity (\<lambda>h. the (dict_get raw (hit_identity h))) visible)
      else Inl (OtherException ''KeyError''))"

definition search_tools ::
  "(string \<Rightarrow> string) \<Rightarrow> 's search_tools_ports \<Rightarrow> meta_search_query \<Rightarrow> ('s, meta_search_result) prog" where
  "search_tools sha p q =
     seq (raise_if (\<not> (1 \<le> mq_limit q \<and> mq_limit q \<le> 10)) invalid_arguments)
    (bind (search_candidates p (mq_retrieval_mode q) (published_query p q)) (\<lambda>(raw_hits, raw_diagnostics).
     bind (st_resolve_principal p (mq_context q)) (\<lambda>caller.
     bind (collect_visible p
         (search_policy_input (cx_tenant_id (mq_context q)) caller (canonical_json_digest sha (JObj [])))
         (mq_limit q) raw_hits []) (\<lambda>visible.
     bind (lift (visible_diagnostics raw_diagnostics visible)) (\<lambda>diagnostics.
       ret \<lparr>mr_hits = visible, mr_retrieval_mode = mq_retrieval_mode q,
            mr_index_version = (if mq_retrieval_mode q = HYBRID then st_hybrid_index_version p else None),
            mr_diagnostics = Some diagnostics\<rparr>)))))"

text \<open>\<open>SearchPublishedTools\<close> over a reader of the catalog that a state holds.\<close>

definition published_search_of :: "('s \<Rightarrow> catalog_repository) \<Rightarrow> 's candidate_search" where
  "published_search_of catalog q =
     bind (gets catalog) (\<lambda>c. bind (lift (search_published_tools q c)) (\<lambda>hits. ret (map scored_of hits)))"

end
