(* ===== verification/Search_Index.thy ===== *)
theory Search_Index
  imports Search_Query
begin

text \<open>
  The index of embeddings: its repository and unit of work (\<open>tool_search/adapters/in_memory.py\<close>),
  bringing it up to date (\<open>reindex_tools.py\<close>) and inspecting it (\<open>index_management.py\<close>). The stores are
  any extension of \<open>search_db\<close>; the catalog is read as committed, as its reader does.
\<close>

section \<open>Embeddings\<close>

type_synonym embedding_scope = "string \<times> string \<times> string \<times> int"

type_synonym embedding_store = "(embedding_scope, search_embedding) dict"

record search_db =
  sx_catalog :: catalog_repository
  sx_embeddings :: embedding_store

definition on_embeddings :: "(embedding_store \<Rightarrow> embedding_store result) \<Rightarrow> 'x search_db_scheme \<Rightarrow> 'x search_db_scheme result" where
  "on_embeddings = on_field sx_embeddings sx_embeddings_update"

definition list_by_tool_versions ::
  "string \<Rightarrow> string list \<Rightarrow> string \<Rightarrow> int \<Rightarrow> embedding_store \<Rightarrow> search_embedding list" where
  "list_by_tool_versions tenant_id version_ids model dimensions store =
     map snd [((t, v, m, n), e) \<leftarrow> store. t = tenant_id \<and> v \<in> set version_ids \<and> m = model \<and> n = dimensions]"

definition scope_of :: "string \<Rightarrow> search_embedding \<Rightarrow> embedding_scope" where
  "scope_of tenant_id e = (tenant_id, se_tool_version_id e, se_embedding_model e, se_embedding_dimensions e)"

text \<open>One embedding is stored under its scope; it keeps the id of the one it replaces.\<close>

definition upsert_embedding :: "string \<Rightarrow> search_embedding \<Rightarrow> embedding_store \<Rightarrow> embedding_store result" where
  "upsert_embedding tenant_id e store =
     (if se_tenant_id e \<noteq> tenant_id then Inl (NexusError TenantBoundaryViolationError)
      else case dict_get store (scope_of tenant_id e) of
        None \<Rightarrow> Inr (dict_set (scope_of tenant_id e) e store)
      | Some current \<Rightarrow>
          result_bind (embedding_post_init (e\<lparr>se_id := se_id current\<rparr>)) (\<lambda>persisted.
            Inr (dict_set (scope_of tenant_id e) persisted store)))"

fun upsert_many :: "string \<Rightarrow> search_embedding list \<Rightarrow> embedding_store \<Rightarrow> embedding_store result" where
  "upsert_many tenant_id [] store = Inr store"
| "upsert_many tenant_id (e # es) store = result_bind (upsert_embedding tenant_id e store) (upsert_many tenant_id es)"

section \<open>Reindexing\<close>

record 'x reindex_ports =
  rx_provider :: "(datetime, 'x search_db_scheme) sys embedding_provider option"
  rx_model :: string
  rx_dimensions :: int

record reindex_command =
  rc_context :: actor_context
  rc_batch_size :: int
  rc_force :: bool
  rc_dry_run :: bool

record reindex_result =
  rr_published_count :: nat
  rr_current_count :: nat
  rr_pending_count :: nat
  rr_embedded_count :: nat
  rr_batch_count :: nat
  rr_model :: string
  rr_dimensions :: int
  rr_dry_run :: bool

definition reindex_init :: "'x reindex_ports \<Rightarrow> 'x reindex_ports result" where
  "reindex_init p = validated
     [(blank (rx_model p) \<or> rx_dimensions p \<le> 0, ''reindex embedding configuration was invalid''),
      (case rx_provider p of None \<Rightarrow> False | Some e \<Rightarrow> em_model e \<noteq> rx_model p \<or> em_dimensions e \<noteq> rx_dimensions p,
       ''embedding provider did not match reindex configuration'')] p"

text \<open>The documents of the published tools of a tenant, by name.\<close>

definition published_documents ::
  "(string \<Rightarrow> string) \<Rightarrow> string \<Rightarrow> 'x search_db_scheme \<Rightarrow> search_document list result" where
  "published_documents sha tenant_id w =
     collect_results (build_document sha) (sort_key pt_canonical_name (list_published_by_tenant tenant_id (sx_catalog w)))"

definition load_existing ::
  "'x reindex_ports \<Rightarrow> string \<Rightarrow> search_document list \<Rightarrow>
   ((datetime, 'x search_db_scheme) sys, (string, search_embedding) dict) prog" where
  "load_existing p tenant_id documents =
     with_uow
       (bind (query (\<lambda>w. list_by_tool_versions tenant_id (map sd_tool_version_id documents) (rx_model p) (rx_dimensions p)
           (sx_embeddings w))) (\<lambda>embeddings.
         ret (dict_from se_tool_version_id id embeddings)))"

definition document_pending :: "bool \<Rightarrow> (string, search_embedding) dict \<Rightarrow> search_document \<Rightarrow> bool" where
  "document_pending force existing d \<longleftrightarrow>
     force \<or>
     (case dict_get existing (sd_tool_version_id d) of
        None \<Rightarrow> True
      | Some e \<Rightarrow> se_source_digest e \<noteq> sd_source_digest d)"

definition embedding_id ::
  "(string, search_embedding) dict \<Rightarrow> search_document \<Rightarrow> (('t, 'st) sys, string) prog" where
  "embedding_id existing d =
     (case dict_get existing (sd_tool_version_id d) of None \<Rightarrow> new_id | Some e \<Rightarrow> ret (se_id e))"

definition projection ::
  "'x reindex_ports \<Rightarrow> search_document \<Rightarrow> embedding_vector \<Rightarrow> string \<Rightarrow> datetime \<Rightarrow> search_embedding" where
  "projection p d v i now =
     \<lparr>se_id = i, se_tenant_id = sd_tenant_id d, se_tool_version_id = sd_tool_version_id d,
      se_embedding_model = rx_model p, se_embedding_dimensions = rx_dimensions p,
      se_source_digest = sd_source_digest d, se_vector = v, se_indexed_at = now\<rparr>"

primrec build_projections ::
  "'x reindex_ports \<Rightarrow> (string, search_embedding) dict \<Rightarrow> (search_document \<times> embedding_vector) list \<Rightarrow>
   ((datetime, 'x search_db_scheme) sys, search_embedding list) prog" where
  "build_projections p existing [] = ret []"
| "build_projections p existing (dv # rest) =
     bind (embedding_id existing (fst dv)) (\<lambda>i.
     bind clock_now (\<lambda>now.
     bind (lift (embedding_post_init (projection p (fst dv) (snd dv) i now))) (\<lambda>e.
     bind (build_projections p existing rest) (\<lambda>es. ret (e # es)))))"

text \<open>\<open>range(0, len(pending), batch_size)\<close> and the slices of it.\<close>

definition batches_of :: "nat \<Rightarrow> 'a list \<Rightarrow> 'a list list" where
  "batches_of n xs = map (\<lambda>i. take n (drop (i * n) xs)) [0 ..< (length xs + n - 1) div n]"

definition index_batch ::
  "'x reindex_ports \<Rightarrow> (datetime, 'x search_db_scheme) sys embedding_provider \<Rightarrow> string \<Rightarrow>
   (string, search_embedding) dict \<Rightarrow> search_document list \<Rightarrow> ((datetime, 'x search_db_scheme) sys, unit) prog" where
  "index_batch p provider tenant_id existing batch =
     bind (em_embed provider (map sd_content batch)) (\<lambda>vectors.
     seq (raise_if (length vectors \<noteq> length batch) (NexusError EmbeddingResponseError))
    (bind (build_projections p existing (zip batch vectors)) (\<lambda>projections.
     with_uow
       (seq (update (on_embeddings (upsert_many tenant_id projections)))
          commit))))"

text \<open>The loop over the batches, with its two counters.\<close>

fun index_batches ::
  "'x reindex_ports \<Rightarrow> (datetime, 'x search_db_scheme) sys embedding_provider \<Rightarrow> string \<Rightarrow>
   (string, search_embedding) dict \<Rightarrow> search_document list list \<Rightarrow> nat \<times> nat \<Rightarrow>
   ((datetime, 'x search_db_scheme) sys, nat \<times> nat) prog" where
  "index_batches p provider tenant_id existing [] counts = ret counts"
| "index_batches p provider tenant_id existing (b # bs) (batch_count, embedded_count) =
     seq (index_batch p provider tenant_id existing b)
       (index_batches p provider tenant_id existing bs (batch_count + 1, embedded_count + length b))"

definition reindex_tools ::
  "(string \<Rightarrow> string) \<Rightarrow> 'x reindex_ports \<Rightarrow> reindex_command \<Rightarrow> ((datetime, 'x search_db_scheme) sys, reindex_result) prog" where
  "reindex_tools sha p command =
    (let tenant_id = cx_tenant_id (rc_context command) in
     seq (raise_if (\<not> (1 \<le> rc_batch_size command \<and> rc_batch_size command \<le> 64))
           (ValueError ''reindex batch size must be between 1 and 64''))
    (bind (gets (\<lambda>s. published_documents sha tenant_id (db s))) (\<lambda>built.
     bind (lift built) (\<lambda>documents.
     bind (load_existing p tenant_id documents) (\<lambda>existing.
     let pending = filter (document_pending (rc_force command) existing) documents;
         result = (\<lambda>batch_count embedded_count dry_run.
           \<lparr>rr_published_count = length documents, rr_current_count = length documents - length pending,
            rr_pending_count = length pending, rr_embedded_count = embedded_count, rr_batch_count = batch_count,
            rr_model = rx_model p, rr_dimensions = rx_dimensions p, rr_dry_run = dry_run\<rparr>)
     in if rc_dry_run command \<or> pending = [] then ret (result 0 0 (rc_dry_run command))
        else
          bind (require_some (rx_provider p) (NexusError EmbeddingUnavailableError)) (\<lambda>provider.
          bind (index_batches p provider tenant_id existing (batches_of (nat (rc_batch_size command)) pending) (0, 0))
            (\<lambda>(batch_count, embedded_count).
          ret (result batch_count embedded_count False))))))))"

section \<open>Inspecting the index\<close>

datatype index_state = INDEX_MISSING | INDEX_STALE | INDEX_CURRENT

record index_item =
  xi_tool_id :: string
  xi_tool_version_id :: string
  xi_canonical_name :: string
  xi_state :: index_state
  xi_indexed_at :: "datetime option"

record index_snapshot =
  xs_published_count :: nat
  xs_current_count :: nat
  xs_missing_count :: nat
  xs_stale_count :: nat
  xs_embedding_model :: string
  xs_embedding_dimensions :: int
  xs_embedding_available :: bool
  xs_items :: "index_item list"

definition inspect_item :: "(string, search_embedding) dict \<Rightarrow> published_tool \<Rightarrow> search_document \<Rightarrow> index_item" where
  "inspect_item by_version t d =
     \<lparr>xi_tool_id = pt_tool_id t, xi_tool_version_id = pt_tool_version_id t, xi_canonical_name = pt_canonical_name t,
      xi_state =
        (case dict_get by_version (sd_tool_version_id d) of
           None \<Rightarrow> INDEX_MISSING
         | Some e \<Rightarrow> if se_source_digest e = sd_source_digest d then INDEX_CURRENT else INDEX_STALE),
      xi_indexed_at = map_option se_indexed_at (dict_get by_version (sd_tool_version_id d))\<rparr>"

definition count_state :: "index_state \<Rightarrow> index_item list \<Rightarrow> nat" where
  "count_state st items = length (filter (\<lambda>i. xi_state i = st) items)"

definition inspect_index ::
  "(string \<Rightarrow> string) \<Rightarrow> 'x reindex_ports \<Rightarrow> bool \<Rightarrow> string \<Rightarrow> ((datetime, 'x search_db_scheme) sys, index_snapshot) prog" where
  "inspect_index sha p available tenant_id =
     bind (gets (\<lambda>s. sort_key pt_canonical_name (list_published_by_tenant tenant_id (sx_catalog (db s))))) (\<lambda>tools.
     bind (lift (collect_results (build_document sha) tools)) (\<lambda>documents.
     bind (load_existing p tenant_id documents) (\<lambda>by_version.
     let items = map (\<lambda>(t, d). inspect_item by_version t d) (zip tools documents)
     in ret \<lparr>xs_published_count = length items, xs_current_count = count_state INDEX_CURRENT items,
             xs_missing_count = count_state INDEX_MISSING items, xs_stale_count = count_state INDEX_STALE items,
             xs_embedding_model = rx_model p, xs_embedding_dimensions = rx_dimensions p,
             xs_embedding_available = available, xs_items = items\<rparr>)))"

end
