(* ===== verification/Embedding_Provider.thy ===== *)
theory Embedding_Provider
  imports Search_Index
begin

text \<open>
  The embedding provider over HTTP (\<open>tool_search/adapters/siliconflow.py\<close>). The HTTP client is a port;
  the payload of a response is a JSON value with floats. \<open>float(n)\<close> of an integer is the nearest double,
  ties to even, and overflows beyond the largest one.
\<close>

datatype payload =
    P_Null
  | P_Bool bool
  | P_Int int
  | P_Float py_float
  | P_Str string
  | P_List "payload list"
  | P_Obj "(string \<times> payload) list"

definition payload_get :: "(string \<times> payload) list \<Rightarrow> string \<Rightarrow> payload" where
  "payload_get kvs k = (case dict_get kvs k of None \<Rightarrow> P_Null | Some v \<Rightarrow> v)"

record embedding_post =
  ep_url :: string
  ep_authorization :: string
  ep_model :: string
  ep_input :: "string list"
  ep_dimensions :: int
  ep_timeout :: rat

record embedding_response =
  ey_status_code :: int
  ey_payload :: "payload option"

datatype embedding_outcome = Embedded embedding_response | Embedding_Timed_Out | Embedding_Network_Failed

type_synonym 's embedding_client = "embedding_post \<Rightarrow> ('s, embedding_outcome) prog"

record embedding_config =
  ec_api_url :: string
  ec_api_key :: secret_value
  ec_model :: string
  ec_dimensions :: int
  ec_timeout_seconds :: rat
  ec_max_batch_size :: int

definition embedding_config_init :: "embedding_config \<Rightarrow> embedding_config result" where
  "embedding_config_init c = validated
     [(\<not> (starts_with (ec_api_url c) ''https://'' \<or> starts_with (ec_api_url c) ''http://''),
       ''embedding API URL must use http or https''),
      (blank (ec_model c), ''embedding model must not be blank''),
      (ec_dimensions c \<le> 0, ''embedding dimensions must be positive''),
      (ec_timeout_seconds c \<le> 0, ''embedding timeout must be positive''),
      (ec_max_batch_size c \<le> 0, ''embedding max batch size must be positive'')] c"

section \<open>Numbers\<close>

text \<open>A double has 53 bits; \<open>excess_bits\<close> is how many more the integer has, up to the exponent's range.\<close>

definition excess_bits :: "int \<Rightarrow> nat" where
  "excess_bits n = length (takeWhile (\<lambda>e. 2 ^ (53 + e) \<le> n) [0 ..< 972])"

definition round_half_even :: "int \<Rightarrow> nat \<Rightarrow> int" where
  "round_half_even n e =
     (let q = n div 2 ^ e; r = n mod 2 ^ e
      in (if 2 * r > 2 ^ e \<or> 2 * r = 2 ^ e \<and> odd q then q + 1 else q) * 2 ^ e)"

definition float_of_int :: "int \<Rightarrow> py_float result" where
  "float_of_int i =
     (let m = round_half_even \<bar>i\<bar> (excess_bits \<bar>i\<bar>)
      in if m \<ge> 2 ^ 1024 then Inl (OtherException ''OverflowError'')
         else Inr (Finite (of_int (if i < 0 then - m else m))))"

definition float_value :: "payload \<Rightarrow> py_float result" where
  "float_value v =
     (case v of
        P_Int i \<Rightarrow> float_of_int i
      | P_Float f \<Rightarrow> Inr f
      | _ \<Rightarrow> Inl (NexusError EmbeddingResponseError))"

section \<open>Parsing\<close>

definition parse_vector :: "embedding_config \<Rightarrow> payload list \<Rightarrow> embedding_vector result" where
  "parse_vector c raw_vector =
     result_bind (collect_results float_value raw_vector) (\<lambda>floats.
       case vector_post_init \<lparr>ev_model = ec_model c, ev_dimensions = ec_dimensions c, ev_values = floats\<rparr> of
         Inl _ \<Rightarrow> Inl (NexusError EmbeddingResponseError)
       | Inr v \<Rightarrow> Inr v)"

definition parse_item ::
  "embedding_config \<Rightarrow> payload \<Rightarrow> (int, embedding_vector) dict \<Rightarrow> (int, embedding_vector) dict result" where
  "parse_item c raw_item by_index =
     (case raw_item of
        P_Obj kvs \<Rightarrow>
          (case payload_get kvs ''index'' of
             P_Int index \<Rightarrow>
               (case payload_get kvs ''embedding'' of
                  P_List raw_vector \<Rightarrow>
                    result_bind (parse_vector c raw_vector) (\<lambda>vector.
                      if dict_get by_index index \<noteq> None then Inl (NexusError EmbeddingResponseError)
                      else Inr (dict_set index vector by_index))
                | _ \<Rightarrow> Inl (NexusError EmbeddingResponseError))
           | _ \<Rightarrow> Inl (NexusError EmbeddingResponseError))
      | _ \<Rightarrow> Inl (NexusError EmbeddingResponseError))"

fun parse_items ::
  "embedding_config \<Rightarrow> payload list \<Rightarrow> (int, embedding_vector) dict \<Rightarrow> (int, embedding_vector) dict result" where
  "parse_items c [] by_index = Inr by_index"
| "parse_items c (x # xs) by_index = result_bind (parse_item c x by_index) (parse_items c xs)"

definition parse_vectors :: "embedding_config \<Rightarrow> nat \<Rightarrow> payload \<Rightarrow> embedding_vector list result" where
  "parse_vectors c expected_count p =
     (case p of
        P_Obj kvs \<Rightarrow>
          (case payload_get kvs ''data'' of
             P_List raw_data \<Rightarrow>
               if length raw_data \<noteq> expected_count then Inl (NexusError EmbeddingResponseError)
               else
                 result_bind (parse_items c raw_data []) (\<lambda>by_index.
                   if set (map fst by_index) \<noteq> set (map int [0 ..< expected_count])
                   then Inl (NexusError EmbeddingResponseError)
                   else Inr (map (\<lambda>i. the (dict_get by_index (int i))) [0 ..< expected_count]))
           | _ \<Rightarrow> Inl (NexusError EmbeddingResponseError))
      | _ \<Rightarrow> Inl (NexusError EmbeddingResponseError))"

section \<open>Embedding\<close>

definition read_embeddings :: "embedding_config \<Rightarrow> nat \<Rightarrow> embedding_outcome \<Rightarrow> embedding_vector list result" where
  "read_embeddings c expected_count outcome =
     (case outcome of
        Embedding_Timed_Out \<Rightarrow> Inl (NexusError EmbeddingUnavailableError)
      | Embedding_Network_Failed \<Rightarrow> Inl (NexusError EmbeddingUnavailableError)
      | Embedded r \<Rightarrow>
          if ey_status_code r = 401 \<or> ey_status_code r = 403 then Inl (NexusError EmbeddingAuthenticationError)
          else if ey_status_code r = 429 then Inl (NexusError EmbeddingRateLimitError)
          else if ey_status_code r \<ge> 500 then Inl (NexusError EmbeddingUnavailableError)
          else if ey_status_code r \<noteq> 200 then Inl (NexusError EmbeddingResponseError)
          else case ey_payload r of
            None \<Rightarrow> Inl (NexusError EmbeddingResponseError)
          | Some p \<Rightarrow> parse_vectors c expected_count p)"

definition embedding_request :: "embedding_config \<Rightarrow> string list \<Rightarrow> embedding_post" where
  "embedding_request c texts =
     \<lparr>ep_url = ec_api_url c, ep_authorization = ''Bearer '' @ reveal (ec_api_key c), ep_model = ec_model c,
      ep_input = texts, ep_dimensions = ec_dimensions c, ep_timeout = ec_timeout_seconds c\<rparr>"

definition siliconflow_embed ::
  "'s embedding_client \<Rightarrow> embedding_config \<Rightarrow> string list \<Rightarrow> ('s, embedding_vector list) prog" where
  "siliconflow_embed client c texts =
     seq (raise_if (texts = [] \<or> int (length texts) > ec_max_batch_size c)
           (ValueError ''embedding batch size was invalid''))
    (seq (raise_if (list_ex blank texts) (ValueError ''embedding text must not be blank''))
    (bind (client (embedding_request c texts)) (\<lambda>outcome.
      lift (read_embeddings c (length texts) outcome))))"

definition siliconflow_provider :: "'s embedding_client \<Rightarrow> embedding_config \<Rightarrow> 's embedding_provider" where
  "siliconflow_provider client c =
     \<lparr>em_model = ec_model c, em_dimensions = ec_dimensions c, em_embed = siliconflow_embed client c\<rparr>"

end
