(* ===== verification/Python_Text.thy ===== *)
theory Python_Text
  imports Digests Errors
begin

text \<open>
  Python's text functions on the Latin-1 strings of the model that more than one component uses:
  \<open>str.replace\<close>, \<open>str\<close> and \<open>repr\<close> of JSON values (floats apart, which the JSON values of the model do not
  have), and \<open>urllib.parse.quote(text, safe="")\<close>.

  \<open>as_uuid\<close> (\<open>infrastructure/persistence/identifiers.py\<close>): the texts that \<open>uuid.UUID\<close> accepts and the
  canonical text of the identifier they stand for.
\<close>

section \<open>Replacing\<close>

function py_replace :: "string \<Rightarrow> string \<Rightarrow> string \<Rightarrow> string" where
  "py_replace old new s =
     (if old = [] then new @ concat (map (\<lambda>c. c # new) s)
      else case s of
        [] \<Rightarrow> []
      | c # cs \<Rightarrow>
          if starts_with s old then new @ py_replace old new (drop (length old) s) else c # py_replace old new cs)"
  by pat_completeness auto

termination py_replace
  by (relation "measure (\<lambda>(old, new, s). length s)") auto

declare py_replace.simps [simp del]

text \<open>Case changes that leave Latin-1 or the length (\<open>\<mu>\<close>, sharp s, y with diaeresis) are left out.\<close>

definition py_upper_char :: "char \<Rightarrow> char" where
  "py_upper_char c =
     (let n = of_char c :: nat
      in if (97 \<le> n \<and> n \<le> 122) \<or> (224 \<le> n \<and> n \<le> 254 \<and> n \<noteq> 247) then char_of (n - 32) else c)"

definition py_upper :: "string \<Rightarrow> string" where
  "py_upper s = map py_upper_char s"

definition py_rstrip :: "char \<Rightarrow> string \<Rightarrow> string" where
  "py_rstrip c s = rev (dropWhile (\<lambda>x. x = c) (rev s))"

section \<open>Quoting\<close>

definition is_unreserved :: "char \<Rightarrow> bool" where
  "is_unreserved c \<longleftrightarrow>
     (let n = of_char c :: nat
      in (48 \<le> n \<and> n \<le> 57) \<or> (65 \<le> n \<and> n \<le> 90) \<or> (97 \<le> n \<and> n \<le> 122) \<or> c \<in> set ''_.-~'')"

definition quote_char :: "char \<Rightarrow> string" where
  "quote_char c =
     (if is_unreserved c then [c]
      else (let n = of_char c :: nat
            in CHR ''%'' # map py_upper_char [hex_digit (n div 16), hex_digit (n mod 16)]))"

definition py_quote :: "string \<Rightarrow> string" where
  "py_quote s = concat (map quote_char (utf8_encode s))"

section \<open>Texts of values\<close>

text \<open>\<open>repr\<close> of a string: single quotes unless only those occur in it; what is not printable is escaped.\<close>

definition repr_char :: "char \<Rightarrow> char \<Rightarrow> string" where
  "repr_char delimiter c =
     (let n = of_char c :: nat
      in if c = delimiter \<or> c = CHR 0x5C then [CHR 0x5C, c]
         else if n = 10 then [CHR 0x5C, CHR ''n'']
         else if n = 13 then [CHR 0x5C, CHR ''r'']
         else if n = 9 then [CHR 0x5C, CHR ''t'']
         else if n < 32 \<or> (127 \<le> n \<and> n \<le> 160) \<or> n = 173
           then [CHR 0x5C, CHR ''x'', hex_digit (n div 16), hex_digit (n mod 16)]
         else [c])"

definition py_repr_string :: "string \<Rightarrow> string" where
  "py_repr_string s =
     (let delimiter = (if CHR 0x27 \<in> set s \<and> CHR 0x22 \<notin> set s then CHR 0x22 else CHR 0x27)
      in delimiter # concat (map (repr_char delimiter) s) @ [delimiter])"

primrec py_repr :: "json \<Rightarrow> string" where
  "py_repr JNull = ''None''"
| "py_repr (JBool b) = (if b then ''True'' else ''False'')"
| "py_repr (JInt i) = show_int i"
| "py_repr (JStr s) = py_repr_string s"
| "py_repr (JList vs) = ''['' @ join_with '', '' (map py_repr vs) @ '']''"
| "py_repr (JObj kvs) =
     ''{'' @ join_with '', '' (map (\<lambda>kv. py_repr_string (fst kv) @ '': '' @ snd kv) (map (map_prod id py_repr) kvs)) @ ''}''"

definition py_str :: "json \<Rightarrow> string" where
  "py_str v = (case v of JStr s \<Rightarrow> s | _ \<Rightarrow> py_repr v)"

section \<open>Lemmas\<close>

text \<open>A quoted text consists of unreserved characters and percent signs.\<close>

lemma upper_hex_unreserved:
  assumes "n < 16" shows "is_unreserved (py_upper_char (hex_digit n))"
proof -
  have digits: "list_all is_unreserved ''0123456789ABCDEF''" by code_simp
  have "py_upper_char (hex_digit n) = ''0123456789ABCDEF'' ! n"
  proof -
    have "n \<in> {0, 1, 2, 3, 4, 5, 6, 7, 8, 9, 10, 11, 12, 13, 14, 15}" using assms by (simp only: insert_iff empty_iff) presburger
    then show ?thesis
      by (elim insertE emptyE) (simp_all add: hex_digit_def py_upper_char_def char_of_def bit_0)
  qed
  moreover have "''0123456789ABCDEF'' ! n \<in> set ''0123456789ABCDEF''" using assms by (intro nth_mem) simp
  ultimately show ?thesis using digits unfolding list_all_iff by (simp only:)
qed

lemma quote_char_set: "c \<in> set (quote_char d) \<Longrightarrow> is_unreserved c \<or> c = CHR ''%''"
proof -
  have "(of_char d :: nat) < 256" by (rule nat_of_char_less_256)
  then have "(of_char d :: nat) div 16 < 16" by presburger
  then show "c \<in> set (quote_char d) \<Longrightarrow> ?thesis"
    by (auto simp: quote_char_def Let_def upper_hex_unreserved split: if_splits)
qed

lemma py_quote_set: "c \<in> set (py_quote s) \<Longrightarrow> is_unreserved c \<or> c = CHR ''%''"
  unfolding py_quote_def using quote_char_set by auto

text \<open>Replacing keeps a projection of the text that neither side of the replacement shows up in.\<close>

lemma starts_with_split: "starts_with s old \<Longrightarrow> s = old @ drop (length old) s"
  by (metis append_take_drop_id starts_with_def)

lemma py_replace_filter:
  assumes "filter P old = []" "filter P new = []"
  shows "filter P (py_replace old new s) = filter P s"
proof (induction s rule: length_induct)
  case (1 s)
  have new: "filter P (concat (map (\<lambda>c. c # new) xs)) = filter P xs" for xs
    by (induction xs) (auto simp: assms(2))
  show ?case
  proof (cases "old = []")
    case True
    then show ?thesis by (subst py_replace.simps) (simp add: new assms(2))
  next
    case nonempty: False
    show ?thesis
    proof (cases s)
      case Nil
      then show ?thesis using nonempty by (subst py_replace.simps) simp
    next
      case (Cons c cs)
      have rest: "filter P (py_replace old new (drop (length old) s)) = filter P (drop (length old) s)"
        using 1 nonempty Cons by simp
      have tail: "filter P (py_replace old new cs) = filter P cs" using 1 Cons by simp
      have split: "filter P s = filter P (drop (length old) s)" if "starts_with s old"
        using starts_with_split [OF that] assms(1) by (metis append_Nil filter_append)
      have step: "py_replace old new s =
          (if starts_with s old then new @ py_replace old new (drop (length old) s) else c # py_replace old new cs)"
        using nonempty Cons by (subst py_replace.simps) simp
      show ?thesis
        unfolding step using rest tail split Cons by (cases "starts_with s old") (simp_all add: assms(2))
    qed
  qed
qed

lemma py_replace_head:
  assumes "old \<noteq> []" "hd old \<noteq> c" "s \<noteq> []" "hd s = c"
  shows "py_replace old new s \<noteq> [] \<and> hd (py_replace old new s) = c"
proof -
  obtain cs where s: "s = c # cs" using assms(3,4) by (cases s) auto
  obtain d ds where old: "old = d # ds" using assms(1) by (cases old) auto
  show ?thesis using assms(2) by (subst (1 2) py_replace.simps) (simp add: s old starts_with_def)
qed

section \<open>UUIDs\<close>

definition hex_value :: "char \<Rightarrow> int option" where
  "hex_value c =
     (let n = of_char c :: int
      in if 48 \<le> n \<and> n \<le> 57 then Some (n - 48)
         else if 97 \<le> n \<and> n \<le> 102 then Some (n - 87)
         else if 65 \<le> n \<and> n \<le> 70 then Some (n - 55)
         else None)"

text \<open>The digits of \<open>int(s, 16)\<close>: single underscores may stand between them.\<close>

fun hex_digits :: "int \<Rightarrow> string \<Rightarrow> int option" where
  "hex_digits acc [] = None"
| "hex_digits acc (c # cs) =
     (case hex_value c of
        None \<Rightarrow> None
      | Some d \<Rightarrow>
          (case cs of
             [] \<Rightarrow> Some (16 * acc + d)
           | x # xs \<Rightarrow> if x = CHR ''_'' then hex_digits (16 * acc + d) xs else hex_digits (16 * acc + d) cs))"

text \<open>\<open>int(s, 16)\<close>; a minus sign cannot occur here, the hyphens having been removed.\<close>

definition int16 :: "string \<Rightarrow> int option" where
  "int16 s =
     (let t = py_strip s;
          u = (if starts_with t ''+'' then tl t else t);
          v = (if starts_with u ''0x'' \<or> starts_with u ''0X''
               then (let w = drop 2 u in if starts_with w ''_'' then tl w else w) else u)
      in hex_digits 0 v)"

fun hex_text :: "nat \<Rightarrow> int \<Rightarrow> string" where
  "hex_text 0 n = []"
| "hex_text (Suc width) n = hex_text width (n div 16) @ [Digests.hex_digit (nat (n mod 16))]"

definition uuid_text :: "int \<Rightarrow> string" where
  "uuid_text n =
     (let h = hex_text 32 n
      in take 8 h @ ''-'' @ take 4 (drop 8 h) @ ''-'' @ take 4 (drop 12 h) @ ''-'' @ take 4 (drop 16 h) @ ''-'' @ drop 20 h)"

definition strip_braces :: "string \<Rightarrow> string" where
  "strip_braces s =
     (let brace = (\<lambda>c. c = CHR ''{'' \<or> c = CHR ''}'')
      in rev (dropWhile brace (rev (dropWhile brace s))))"

text \<open>\<open>uuid.UUID(value)\<close>, or \<open>None\<close> where it raises \<open>ValueError\<close>.\<close>

definition uuid_of :: "string \<Rightarrow> string option" where
  "uuid_of s =
     (let hex = py_replace ''-'' [] (strip_braces (py_replace ''uuid:'' [] (py_replace ''urn:'' [] s)))
      in if length hex \<noteq> 32 then None
         else case int16 hex of None \<Rightarrow> None | Some n \<Rightarrow> Some (uuid_text n))"

definition as_uuid :: "string \<Rightarrow> string \<Rightarrow> string result" where
  "as_uuid field_name s =
     (case uuid_of s of
        None \<Rightarrow> Inl (ValueError (field_name @ '' must be a valid UUID''))
      | Some u \<Rightarrow> Inr u)"

lemma as_uuid_Inr: "as_uuid field_name s = Inr u \<longleftrightarrow> uuid_of s = Some u"
  by (simp add: as_uuid_def split: option.splits)

end
