(* ===== verification/Search_Jobs.thy ===== *)
theory Search_Jobs
  imports Search_Index Python_Text
begin

text \<open>
  Reindex jobs: their use cases (\<open>tool_search/index_management.py\<close>) over the store that keeps them in
  the database (\<open>tool_search/adapters/sqlalchemy_job_store.py\<close>, with the table's constraints from
  \<open>sqlalchemy_models.py\<close>). The table is a dictionary by primary key; every method of the store is one
  transaction, which locks the row it changes. Identifiers pass through \<open>uuid.UUID\<close>, so a row carries
  their canonical texts.
\<close>

section \<open>Jobs\<close>

datatype reindex_job_status = REINDEX_PENDING | REINDEX_RUNNING | REINDEX_SUCCEEDED | REINDEX_FAILED

record reindex_job =
  rj_id :: string
  rj_tenant_id :: string
  rj_requested_by :: string
  rj_status :: reindex_job_status
  rj_force :: bool
  rj_batch_size :: int
  rj_embedding_model :: string
  rj_embedding_dimensions :: int
  rj_published_count :: nat
  rj_current_count :: nat
  rj_pending_count :: nat
  rj_embedded_count :: nat
  rj_batch_count :: nat
  rj_error_code :: "string option"
  rj_created_at :: datetime
  rj_started_at :: "datetime option"
  rj_finished_at :: "datetime option"

type_synonym job_table = "(string, reindex_job) dict"

record jobs_db = search_db +
  sj_jobs :: job_table
  sj_tenants :: "string list"

definition job_active :: "reindex_job \<Rightarrow> bool" where
  "job_active j \<longleftrightarrow> rj_status j = REINDEX_PENDING \<or> rj_status j = REINDEX_RUNNING"

text \<open>\<open>INSERT\<close> with the constraints of the table: the check on the batch size, the primary key and the
  unique index over the active jobs of a tenant (both reported as a unique violation), and the foreign
  key of the tenant.\<close>

definition insert_job :: "reindex_job \<Rightarrow> 'x jobs_db_scheme \<Rightarrow> 'x jobs_db_scheme result" where
  "insert_job j w =
     (if \<not> (1 \<le> rj_batch_size j \<and> rj_batch_size j \<le> 64) then Inl (OtherException ''IntegrityError'')
      else if dict_get (sj_jobs w) (rj_id j) \<noteq> None \<or>
              job_active j \<and> list_ex (\<lambda>k. rj_tenant_id k = rj_tenant_id j \<and> job_active k) (dict_values (sj_jobs w))
        then Inl (NexusError ToolSearchReindexJobConflictError)
      else if rj_tenant_id j \<notin> set (sj_tenants w) then Inl (OtherException ''IntegrityError'')
      else Inr (w\<lparr>sj_jobs := dict_set (rj_id j) j (sj_jobs w)\<rparr>))"

definition find_job :: "string \<Rightarrow> string \<Rightarrow> job_table \<Rightarrow> reindex_job option" where
  "find_job tenant_id job_id d =
     (case dict_get d job_id of None \<Rightarrow> None | Some j \<Rightarrow> if rj_tenant_id j = tenant_id then Some j else None)"

definition save_job :: "reindex_job \<Rightarrow> 'x jobs_db_scheme \<Rightarrow> 'x jobs_db_scheme result" where
  "save_job j w = Inr (w\<lparr>sj_jobs := dict_set (rj_id j) j (sj_jobs w)\<rparr>)"

definition store_create :: "reindex_job \<Rightarrow> ((datetime, 'x jobs_db_scheme) sys, unit) prog" where
  "store_create j =
     bind (lift (as_uuid ''reindex job id'' (rj_id j))) (\<lambda>job_uuid.
     bind (lift (as_uuid ''tenant id'' (rj_tenant_id j))) (\<lambda>tenant_uuid.
     with_uow
       (seq (update (insert_job (j\<lparr>rj_id := job_uuid, rj_tenant_id := tenant_uuid\<rparr>)))
          commit)))"

definition store_get :: "string \<Rightarrow> string \<Rightarrow> ((datetime, 'x jobs_db_scheme) sys, reindex_job option) prog" where
  "store_get tenant_id job_id =
     bind (lift (as_uuid ''tenant id'' tenant_id)) (\<lambda>tenant_uuid.
     bind (lift (as_uuid ''reindex job id'' job_id)) (\<lambda>job_uuid.
     with_uow (query (\<lambda>w. find_job tenant_uuid job_uuid (sj_jobs w)))))"

definition store_list_recent ::
  "string \<Rightarrow> int \<Rightarrow> int \<Rightarrow> ((datetime, 'x jobs_db_scheme) sys, reindex_job list \<times> nat) prog" where
  "store_list_recent tenant_id offset limit =
     bind (lift (as_uuid ''tenant id'' tenant_id)) (\<lambda>tenant_uuid.
     with_uow
       (bind (query (\<lambda>w. filter (\<lambda>j. rj_tenant_id j = tenant_uuid) (dict_values (sj_jobs w)))) (\<lambda>rows.
        seq (raise_if (offset < 0 \<or> limit < 0) (OtherException ''DBAPIError''))
          (ret (take (nat limit) (drop (nat offset)
                  (rev (sort_key (\<lambda>j. (instant_of (rj_created_at j), rj_id j)) rows))), length rows)))))"

text \<open>A change of one locked row; a missing row is no error.\<close>

definition change_job ::
  "string \<Rightarrow> string \<Rightarrow> (reindex_job \<Rightarrow> reindex_job) \<Rightarrow> ((datetime, 'x jobs_db_scheme) sys, unit) prog" where
  "change_job tenant_id job_id change =
     bind (lift (as_uuid ''tenant id'' tenant_id)) (\<lambda>tenant_uuid.
     bind (lift (as_uuid ''reindex job id'' job_id)) (\<lambda>job_uuid.
     with_uow
       (bind (query (\<lambda>w. find_job tenant_uuid job_uuid (sj_jobs w))) (\<lambda>found. case found of
          None \<Rightarrow> ret ()
        | Some j \<Rightarrow> seq (update (save_job (change j))) commit))))"

definition store_claim ::
  "string \<Rightarrow> string \<Rightarrow> datetime \<Rightarrow> ((datetime, 'x jobs_db_scheme) sys, reindex_job option) prog" where
  "store_claim tenant_id job_id started_at =
     bind (lift (as_uuid ''tenant id'' tenant_id)) (\<lambda>tenant_uuid.
     bind (lift (as_uuid ''reindex job id'' job_id)) (\<lambda>job_uuid.
     with_uow
       (bind (query (\<lambda>w. find_job tenant_uuid job_uuid (sj_jobs w))) (\<lambda>found. case found of
          None \<Rightarrow> ret None
        | Some j \<Rightarrow>
            if rj_status j \<noteq> REINDEX_PENDING then ret None
            else
              let claimed = j\<lparr>rj_status := REINDEX_RUNNING, rj_started_at := Some started_at\<rparr>
              in seq (update (save_job claimed))
                (seq commit
                  (ret (Some claimed)))))))"

definition succeeded_job :: "reindex_result \<Rightarrow> datetime \<Rightarrow> reindex_job \<Rightarrow> reindex_job" where
  "succeeded_job r finished_at j =
     j\<lparr>rj_status := REINDEX_SUCCEEDED, rj_published_count := rr_published_count r,
       rj_current_count := rr_current_count r, rj_pending_count := rr_pending_count r,
       rj_embedded_count := rr_embedded_count r, rj_batch_count := rr_batch_count r,
       rj_error_code := None, rj_finished_at := Some finished_at\<rparr>"

definition failed_job :: "string \<Rightarrow> datetime \<Rightarrow> reindex_job \<Rightarrow> reindex_job" where
  "failed_job code finished_at j =
     j\<lparr>rj_status := REINDEX_FAILED, rj_error_code := Some code, rj_finished_at := Some finished_at\<rparr>"

definition store_succeed ::
  "string \<Rightarrow> string \<Rightarrow> reindex_result \<Rightarrow> datetime \<Rightarrow> ((datetime, 'x jobs_db_scheme) sys, unit) prog" where
  "store_succeed tenant_id job_id r finished_at = change_job tenant_id job_id (succeeded_job r finished_at)"

definition store_fail ::
  "string \<Rightarrow> string \<Rightarrow> string \<Rightarrow> datetime \<Rightarrow> ((datetime, 'x jobs_db_scheme) sys, unit) prog" where
  "store_fail tenant_id job_id code finished_at = change_job tenant_id job_id (failed_job code finished_at)"

text \<open>At start-up: whatever a previous process left active has failed.\<close>

definition interrupt_jobs :: "string \<Rightarrow> datetime \<Rightarrow> job_table \<Rightarrow> job_table" where
  "interrupt_jobs tenant_uuid finished_at =
     map (\<lambda>(k, j). (k, if rj_tenant_id j = tenant_uuid \<and> job_active j
                      then failed_job ''reindex_job_interrupted'' finished_at j else j))"

definition store_recover_interrupted :: "string \<Rightarrow> datetime \<Rightarrow> ((datetime, 'x jobs_db_scheme) sys, nat) prog" where
  "store_recover_interrupted tenant_id finished_at =
     bind (lift (as_uuid ''tenant id'' tenant_id)) (\<lambda>tenant_uuid.
     with_uow
       (bind (query (\<lambda>w. length (filter (\<lambda>j. rj_tenant_id j = tenant_uuid \<and> job_active j) (dict_values (sj_jobs w)))))
         (\<lambda>recovered_count.
        seq (update (\<lambda>w. Inr (w\<lparr>sj_jobs := interrupt_jobs tenant_uuid finished_at (sj_jobs w)\<rparr>)))
       (seq commit
         (ret recovered_count)))))"

section \<open>Use cases\<close>

definition new_reindex_job ::
  "'x reindex_ports \<Rightarrow> actor_context \<Rightarrow> bool \<Rightarrow> int \<Rightarrow> string \<Rightarrow> datetime \<Rightarrow> reindex_job" where
  "new_reindex_job p context' force batch_size job_id created_at =
     \<lparr>rj_id = job_id, rj_tenant_id = cx_tenant_id context', rj_requested_by = cx_principal_id context',
      rj_status = REINDEX_PENDING, rj_force = force, rj_batch_size = batch_size,
      rj_embedding_model = rx_model p, rj_embedding_dimensions = rx_dimensions p, rj_published_count = 0,
      rj_current_count = 0, rj_pending_count = 0, rj_embedded_count = 0, rj_batch_count = 0,
      rj_error_code = None, rj_created_at = created_at, rj_started_at = None, rj_finished_at = None\<rparr>"

definition create_reindex_job ::
  "'x jobs_db_ext reindex_ports \<Rightarrow> bool \<Rightarrow> actor_context \<Rightarrow> bool \<Rightarrow> int \<Rightarrow>
   ((datetime, 'x jobs_db_scheme) sys, reindex_job) prog" where
  "create_reindex_job p available context' force batch_size =
     seq (raise_if (\<not> available) (NexusError EmbeddingUnavailableError))
    (seq (raise_if (\<not> (1 \<le> batch_size \<and> batch_size \<le> 64))
           (ValueError ''reindex job batch size must be between 1 and 64''))
    (bind new_id (\<lambda>job_id.
     bind clock_now (\<lambda>created_at.
     let j = new_reindex_job p context' force batch_size job_id created_at
     in seq (store_create j) (ret j)))))"

definition job_command :: "reindex_job \<Rightarrow> reindex_command" where
  "job_command j =
     \<lparr>rc_context = \<lparr>cx_request_id = rj_id j, cx_trace_id = filter (\<lambda>c. c \<noteq> CHR ''-'') (rj_id j),
        cx_tenant_id = rj_tenant_id j, cx_principal_id = rj_requested_by j,
        cx_authn_method = ''admin_background_job'', cx_principal_type = ''agent_service''\<rparr>,
      rc_batch_size = rj_batch_size j, rc_force = rj_force j, rc_dry_run = False\<rparr>"

definition run_reindex_job ::
  "(string \<Rightarrow> string) \<Rightarrow> 'x jobs_db_ext reindex_ports \<Rightarrow> string \<Rightarrow> string \<Rightarrow>
   ((datetime, 'x jobs_db_scheme) sys, unit) prog" where
  "run_reindex_job sha p tenant_id job_id =
     bind clock_now (\<lambda>started_at.
     bind (store_claim tenant_id job_id started_at) (\<lambda>claimed. case claimed of
       None \<Rightarrow> ret ()
     | Some j \<Rightarrow>
         bind (attempt_run (reindex_tools sha p (job_command j))) (\<lambda>outcome. case outcome of
           Inl (NexusError e) \<Rightarrow> bind clock_now (store_fail tenant_id job_id (error_code e))
         | Inl CancelledError \<Rightarrow> raise CancelledError
         | Inl _ \<Rightarrow> bind clock_now (store_fail tenant_id job_id ''internal_error'')
         | Inr r \<Rightarrow> bind clock_now (store_succeed tenant_id job_id r))))"

definition get_reindex_job :: "string \<Rightarrow> string \<Rightarrow> ((datetime, 'x jobs_db_scheme) sys, reindex_job) prog" where
  "get_reindex_job tenant_id job_id =
     bind (store_get tenant_id job_id) (\<lambda>found.
       require_some found (NexusError ToolSearchReindexJobNotFoundError))"

definition list_reindex_jobs ::
  "string \<Rightarrow> int \<Rightarrow> int \<Rightarrow> ((datetime, 'x jobs_db_scheme) sys, reindex_job list \<times> nat) prog" where
  "list_reindex_jobs tenant_id offset limit = store_list_recent tenant_id offset limit"

end
