(* ===== verification/Search_Fusion_Correct.thy ===== *)
theory Search_Fusion_Correct
  imports Search_Fusion
begin

text \<open>
  The fused ranking against its definition: the score of a tool version is the sum, over the rankings,
  of the reciprocal of its first place in each, and the result is the best of these scores.
\<close>

section \<open>The reference score\<close>

definition ids_of :: "scored_hit list \<Rightarrow> string set" where
  "ids_of hs = hit_identity ` set hs"

text \<open>What one ranking contributes when its first place counts as \<open>k + position\<close>.\<close>

definition share_from :: "int \<Rightarrow> scored_hit list \<Rightarrow> string \<Rightarrow> rat" where
  "share_from n hs i =
     (if i \<in> ids_of hs then 1 / of_int (n + int (length (takeWhile (\<lambda>h. hit_identity h \<noteq> i) hs))) else 0)"

definition rrf_score :: "int \<Rightarrow> scored_hit list list \<Rightarrow> string \<Rightarrow> rat" where
  "rrf_score k rankings i = sum_list (map (\<lambda>hs. share_from (k + 1) hs i) rankings)"

definition first_hit :: "scored_hit list list \<Rightarrow> string \<Rightarrow> scored_hit option" where
  "first_hit rankings i = List.find (\<lambda>h. hit_identity h = i) (concat rankings)"

lemma ids_of_simps [simp]: "ids_of [] = {}" "ids_of (h # hs) = insert (hit_identity h) (ids_of hs)"
  "ids_of (hs @ hs') = ids_of hs \<union> ids_of hs'"
  by (auto simp: ids_of_def)

lemma share_from_Cons:
  "share_from n (h # hs) i = (if hit_identity h = i then 1 / of_int n else share_from (n + 1) hs i)"
  by (auto simp: share_from_def algebra_simps)

lemma first_hit_Some: "i \<in> ids_of (concat rankings) \<longleftrightarrow> (\<exists>h. first_hit rankings i = Some h)"
proof -
  have "first_hit rankings i = None \<longleftrightarrow> i \<notin> ids_of (concat rankings)"
    by (auto simp: first_hit_def ids_of_def find_None)
  then show ?thesis by auto
qed

section \<open>One ranking\<close>

definition score_or_0 :: "fusion_state \<Rightarrow> string \<Rightarrow> rat" where
  "score_or_0 st i = (case dict_get (fu_scores st) i of None \<Rightarrow> 0 | Some s \<Rightarrow> s)"

lemma fuse_ranking_scores:
  "dict_get (fu_scores (fuse_ranking k p seen hs st)) i =
     (if i \<in> set seen \<or> i \<notin> ids_of hs then dict_get (fu_scores st) i
      else Some (score_or_0 st i + share_from (k + p) hs i))"
proof (induction hs arbitrary: p seen st)
  case (Cons h hs)
  then show ?case
    by (cases "i = hit_identity h")
      (auto simp: share_from_Cons score_or_0_def add.assoc split: option.splits)
qed simp

lemma fuse_ranking_tools:
  "dict_get (fu_tools (fuse_ranking k p seen hs st)) i =
     (case dict_get (fu_tools st) i of Some h \<Rightarrow> Some h
      | None \<Rightarrow> if i \<in> set seen then None else List.find (\<lambda>h. hit_identity h = i) hs)"
proof (induction hs arbitrary: p seen st)
  case (Cons h hs)
  then show ?case
    by (cases "i = hit_identity h") (auto simp: dict_setdefault_def split: option.splits)
qed (simp split: option.splits)

lemma fuse_ranking_wf: "dict_wf (fu_scores st) \<Longrightarrow> dict_wf (fu_scores (fuse_ranking k p seen hs st))"
  by (induction hs arbitrary: p seen st) auto

section \<open>All rankings\<close>

lemma find_append_case: "List.find P (xs @ ys) = (case List.find P xs of Some x \<Rightarrow> Some x | None \<Rightarrow> List.find P ys)"
  by (induction xs) auto

lemma fuse_rankings_spec:
  "dict_wf (fu_scores (fuse_rankings k rankings)) \<and>
   dict_get (fu_scores (fuse_rankings k rankings)) i =
     (if i \<in> ids_of (concat rankings) then Some (rrf_score k rankings i) else None) \<and>
   dict_get (fu_tools (fuse_rankings k rankings)) i = first_hit rankings i"
proof (induction rankings rule: rev_induct)
  case Nil
  then show ?case by (simp add: fuse_rankings_def first_hit_def)
next
  case (snoc hs rankings)
  let ?st = "fuse_rankings k rankings"
  have step: "fuse_rankings k (rankings @ [hs]) = fuse_ranking k 1 [] hs ?st"
    by (simp add: fuse_rankings_def)
  have out: "rrf_score k rankings i = 0" if "i \<notin> ids_of (concat rankings)"
  proof -
    have "share_from (k + 1) hs i = 0" if "hs \<in> set rankings" for hs
      using \<open>i \<notin> ids_of (concat rankings)\<close> that by (auto simp: share_from_def ids_of_def)
    then show ?thesis by (simp add: rrf_score_def cong: map_cong)
  qed
  show ?case
    using snoc out
    by (auto simp: step fuse_ranking_scores fuse_ranking_tools fuse_ranking_wf score_or_0_def first_hit_def
        rrf_score_def find_append_case share_from_def split: option.splits)
qed

section \<open>Scores as floats\<close>

text \<open>Two different sums of quotients with denominators up to \<open>N\<close> are at least \<open>1 / N\<^sup>2\<close> apart: for the
  products of two denominators up to 110 (places up to 50 after the constant 60) more than
  \<open>6 \<cdot> 10\<^sup>-\<^sup>9\<close>, where a rounding error is below \<open>10\<^sup>-\<^sup>1\<^sup>7\<close>.\<close>

lemma fractions_apart:
  fixes x y :: rat
  assumes x: "x = of_int m / of_int b" "0 < b" "b \<le> N" and y: "y = of_int n / of_int d" "0 < d" "d \<le> N"
    and neq: "x \<noteq> y"
  shows "1 / (of_int N * of_int N) \<le> \<bar>x - y\<bar>"
proof -
  have eq: "x - y = of_int (m * d - n * b) / of_int (b * d)" using x(2) y(2) by (simp add: x(1) y(1) diff_frac_eq algebra_simps)
  have "m * d - n * b \<noteq> 0"
  proof
    assume "m * d - n * b = 0"
    then have "x - y = 0" by (simp only: eq of_int_0 div_0)
    then show False using neq by simp
  qed
  then have one: "(1 :: rat) \<le> of_int \<bar>m * d - n * b\<bar>" by (simp only: of_int_1_le_iff)
  have pos: "0 < b * d" "b * d \<le> N * N" using x y by (auto intro: mult_mono)
  have "1 / (of_int N * of_int N) \<le> (1 :: rat) / of_int (b * d)"
    using pos by (intro divide_left_mono) (auto simp flip: of_int_mult)
  also have "\<dots> \<le> of_int \<bar>m * d - n * b\<bar> / of_int (b * d)"
    using one pos(1) by (intro divide_right_mono) (auto simp flip: of_int_mult)
  also have "\<dots> = \<bar>x - y\<bar>"
    unfolding eq abs_divide of_int_abs [symmetric] using pos(1) by (simp only: abs_of_pos)
  finally show ?thesis .
qed

section \<open>The result\<close>

definition hit_order :: "scored_hit \<Rightarrow> rat \<times> string \<times> string" where
  "hit_order h = (- sh_rank h, pt_canonical_name (sh_tool h), hit_identity h)"

text \<open>The hit a fusion returns for a tool version.\<close>

definition fused_hit :: "int \<Rightarrow> scored_hit list list \<Rightarrow> string \<Rightarrow> scored_hit" where
  "fused_hit k rankings i = \<lparr>sh_tool = sh_tool (the (first_hit rankings i)), sh_rank = rrf_score k rankings i\<rparr>"

lemma fused_hit_identity:
  assumes "i \<in> ids_of (concat rankings)"
  shows "hit_identity (fused_hit k rankings i) = i"
proof -
  obtain h where h: "first_hit rankings i = Some h" using assms first_hit_Some by blast
  have "hit_identity h = i" using find_Some_sat [OF h [unfolded first_hit_def]] by simp
  then show ?thesis using h by (simp add: fused_hit_def hit_identity_def)
qed

text \<open>C38: Fusion ranks by reciprocal places. It refuses a limit that is not positive; otherwise it returns
  the distinct tool versions of the rankings with the highest scores, as many as there are up to the
  limit, where the score is the sum over the rankings of the reciprocal of the constant plus the version's
  first place, each hit carries its score and the tool of its first appearance, and ties are broken by
  name and version.\<close>

theorem fusion_ranks_by_reciprocal_place:
  "(limit \<le> 0 \<longrightarrow> fuse k rankings limit = Inl (ValueError ''RRF result limit must be positive'')) \<and>
   (0 < limit \<longrightarrow> (\<exists>hits. fuse k rankings limit = Inr hits \<and>
      length hits = min (nat limit) (card (ids_of (concat rankings))) \<and>
      distinct (map hit_identity hits) \<and> ids_of hits \<subseteq> ids_of (concat rankings) \<and>
      (\<forall>h \<in> set hits. h = fused_hit k rankings (hit_identity h)) \<and>
      sorted (map hit_order hits) \<and>
      (\<forall>h \<in> set hits. \<forall>i \<in> ids_of (concat rankings) - ids_of hits.
         hit_order h < hit_order (fused_hit k rankings i))))"
proof -
  let ?st = "fuse_rankings k rankings" and ?all = "ids_of (concat rankings)"
  define ids where "ids = map fst (fu_scores ?st)"
  define ordered where "ordered = sort_key (fusion_key ?st) ids"
  define hits where "hits = map (fused_hit k rankings) (take (nat limit) ordered)"
  have ids: "distinct ids" "set ids = ?all"
  proof -
    show "distinct ids" using fuse_rankings_spec [of k rankings] by (simp add: ids_def)
    have "dom (map_of (fu_scores ?st)) = ?all"
      using fuse_rankings_spec [of k rankings] by (auto simp: dom_def split: if_splits)
    then show "set ids = ?all" by (simp add: ids_def dom_map_of_conv_image_fst)
  qed
  have ord: "distinct ordered" "set ordered = ?all" "length ordered = card ?all"
    using ids distinct_card [of ids] by (simp_all add: ordered_def)
  have key: "fusion_key ?st i = hit_order (fused_hit k rankings i)" if "i \<in> ?all" for i
    using that fuse_rankings_spec [of k rankings i] fused_hit_identity [OF that, of k]
    by (simp add: fusion_key_def hit_order_def) (simp add: fused_hit_def)
  have run: "fuse k rankings limit = Inr hits" if "0 < limit"
  proof -
    have "\<lparr>sh_tool = sh_tool (the (dict_get (fu_tools ?st) i)), sh_rank = the (dict_get (fu_scores ?st) i)\<rparr> =
        fused_hit k rankings i" if "i \<in> set (take (nat limit) ordered)" for i
      using fuse_rankings_spec [of k rankings i] in_set_takeD [OF that] ord(2) by (simp add: fused_hit_def)
    then show ?thesis using that by (simp add: fuse_def Let_def hits_def ordered_def ids_def)
  qed
  have id: "hit_identity (fused_hit k rankings i) = i" if "i \<in> set (take (nat limit) ordered)" for i
    using fused_hit_identity in_set_takeD [OF that] ord(2) by blast
  have names: "map hit_identity hits = take (nat limit) ordered"
    using id by (simp add: hits_def map_idI)
  then have shown: "ids_of hits = set (take (nat limit) ordered)"
    by (metis ids_of_def list.set_map)
  have sorted: "sorted (map (\<lambda>i. hit_order (fused_hit k rankings i)) ordered)"
  proof -
    have "map (fusion_key ?st) ordered = map (\<lambda>i. hit_order (fused_hit k rankings i)) ordered"
      using key ord(2) by simp
    moreover have "sorted (map (fusion_key ?st) ordered)"
      unfolding ordered_def by (rule sorted_sort_key)
    ultimately show ?thesis by (simp only:)
  qed
  have last: "hit_order h < hit_order (fused_hit k rankings i)" if "h \<in> set hits" "i \<in> ?all - ids_of hits" for h i
  proof -
    note in_hits = that(1) and left_out = that(2)
    obtain j where j: "j \<in> set (take (nat limit) ordered)" "h = fused_hit k rankings j"
      using in_hits unfolding hits_def list.set_map by blast
    have "i \<in> set (drop (nat limit) ordered)"
      using left_out ord(2) shown by (metis DiffE Un_iff append_take_drop_id set_append)
    moreover have "sorted (map (\<lambda>i. hit_order (fused_hit k rankings i)) (take (nat limit) ordered @ drop (nat limit) ordered))"
      using sorted by simp
    ultimately have "hit_order h \<le> hit_order (fused_hit k rankings i)"
      using j unfolding map_append sorted_append by simp
    moreover have "hit_identity h \<noteq> hit_identity (fused_hit k rankings i)"
      using j id [OF j(1)] left_out fused_hit_identity shown by auto
    ultimately show ?thesis by (auto simp: hit_order_def less_le)
  qed
  have first: "sorted (map hit_order hits)"
    using sorted_wrt_take [OF sorted] by (simp add: hits_def take_map o_def)
  have shape: "h = fused_hit k rankings (hit_identity h)" if "h \<in> set hits" for h
    using that id unfolding hits_def list.set_map by force
  have number: "length hits = min (nat limit) (card ?all)"
    using ord(3) by (simp add: hits_def min.commute)
  have different: "distinct (map hit_identity hits)"
    using names ord(1) by simp
  have part: "ids_of hits \<subseteq> ?all"
    using shown ord(2) set_take_subset by metis
  show ?thesis
    using run first shape number different part last by (simp add: fuse_def)
qed

definition sample_hit :: "string \<Rightarrow> scored_hit" where
  "sample_hit v =
     \<lparr>sh_tool =
        \<lparr>pt_tool_id = ''tool'', pt_tool_version_id = v, pt_tenant_id = ''t'', pt_canonical_name = ''crm.find'',
         pt_display_name = ''F'', pt_description = ''Find'', pt_input_schema = JObj [],
         pt_output_schema = None, pt_version = 1, pt_visibility = VIS_PUBLIC, pt_side_effect = READ_ONLY,
         pt_schema_digest = [], pt_owner = None, pt_tags = []\<rparr>,
      sh_rank = 1\<rparr>"

text \<open>Found by both searches, the second hit of the first ranking overtakes the first one.\<close>

lemma fusion_ranks_by_reciprocal_place_witness:
  "\<exists>h. fuse 60 [[sample_hit ''v1'', sample_hit ''v2''], [sample_hit ''v2'']] 1 = Inr [h] \<and> hit_identity h = ''v2''"
proof -
  let ?rankings = "[[sample_hit ''v1'', sample_hit ''v2''], [sample_hit ''v2'']]"
  have ids: "ids_of (concat ?rankings) = {''v1'', ''v2''}"
    by (auto simp: hit_identity_def sample_hit_def)
  obtain hits where run: "fuse 60 ?rankings 1 = Inr hits" and number: "length hits = 1"
      and part: "ids_of hits \<subseteq> {''v1'', ''v2''}" and shape: "\<forall>h \<in> set hits. h = fused_hit 60 ?rankings (hit_identity h)"
      and best: "\<forall>h \<in> set hits. \<forall>i \<in> {''v1'', ''v2''} - ids_of hits. hit_order h < hit_order (fused_hit 60 ?rankings i)"
    using fusion_ranks_by_reciprocal_place [of 1 60 ?rankings] unfolding ids by auto
  obtain h where h: "hits = [h]" using number by (auto simp: length_Suc_conv)
  have "hit_identity h \<noteq> ''v1''"
  proof
    assume v1: "hit_identity h = ''v1''"
    then have "hit_order (fused_hit 60 ?rankings ''v1'') < hit_order (fused_hit 60 ?rankings ''v2'')"
      using h shape best by auto
    then show False
      by (simp add: hit_order_def fused_hit_def rrf_score_def share_from_def hit_identity_def sample_hit_def)
  qed
  then have "hit_identity h = ''v2''" using h part by auto
  then show ?thesis using run h by blast
qed

end
