(* ===== verification/Search_Query_Correct.thy ===== *)
theory Search_Query_Correct
  imports Search_Query Search_Fusion_Correct
begin

text \<open>
  What the search of the meta tool returns: the first permitted candidates, in the order of the
  candidate search, with the diagnostics of exactly those; and where the candidates come from.
\<close>

section \<open>Dictionaries built from lists\<close>

lemma dict_from_get:
  "dict_get (dict_from key val xs) k = map_option val (List.find (\<lambda>x. key x = k) (rev xs))"
  by (induction xs rule: rev_induct) (auto simp: dict_from_def)

lemma find_rev_distinct:
  assumes "distinct (map key xs)" "x \<in> set xs"
  shows "List.find (\<lambda>y. key y = key x) (rev xs) = Some x"
proof (cases "List.find (\<lambda>y. key y = key x) (rev xs)")
  case None
  then show ?thesis using assms(2) by (auto simp: find_None)
next
  case (Some y)
  then have "y \<in> set xs" "key y = key x" using find_Some_sat [OF Some] by auto
  then show ?thesis using Some assms by (auto simp: distinct_map inj_on_def)
qed

lemma dict_from_key: "x \<in> set xs \<Longrightarrow> dict_get (dict_from key val xs) (key x) \<noteq> None"
  by (auto simp: dict_from_get find_None)

section \<open>The filter\<close>

definition permitted :: "tool_policy list \<Rightarrow> (scored_hit \<Rightarrow> policy_input) \<Rightarrow> scored_hit \<Rightarrow> bool" where
  "permitted policies input_of h \<longleftrightarrow> pd_effect (rule_based_evaluate policies (input_of h)) \<noteq> DENY"

lemma collect_visible_Inr:
  assumes "st_evaluate_policy p = (\<lambda>i. ret (rule_based_evaluate policies i))"
    and "collect_visible p input_of limit hs visible s = (Inr r, t)" "int (length visible) < limit"
  shows "t = s \<and> r = take (nat limit) (visible @ filter (permitted policies input_of) hs)"
  using assms(2,3)
proof (induction hs arbitrary: visible)
  case Nil
  then show ?case by (simp add: run_Inr)
next
  case (Cons h hs)
  define visible' where "visible' = (if permitted policies input_of h then visible @ [h] else visible)"
  have next_step: "(if int (length visible') = limit then ret visible' else collect_visible p input_of limit hs visible') s = (Inr r, t)"
    using Cons.prems(1)
    by (auto simp: run_Inr Let_def assms(1) policy_input_post_init_def validated_Inr_iff visible'_def permitted_def)
  show ?case
  proof (cases "int (length visible') = limit")
    case True
    then have "permitted policies input_of h" using Cons.prems(2) by (auto simp: visible'_def split: if_splits)
    then show ?thesis using True next_step by (auto simp: run_Inr visible'_def nat_add_distrib)
  next
    case False
    have "int (length visible') < limit" using False Cons.prems(2) by (auto simp: visible'_def split: if_splits)
    moreover have "visible' @ filter (permitted policies input_of) hs = visible @ filter (permitted policies input_of) (h # hs)"
      by (simp add: visible'_def)
    ultimately show ?thesis using Cons.IH [of visible'] next_step False by (simp only: if_False)
  qed
qed

section \<open>Where candidates come from\<close>

lemma fused_from_rankings:
  assumes "fuse k rankings limit = Inr hits" "h \<in> set hits"
  shows "\<exists>g \<in> set (concat rankings). sh_tool h = sh_tool g"
proof -
  have "set (take n (sort_key (fusion_key (fuse_rankings k rankings)) (map fst (fu_scores (fuse_rankings k rankings)))))
      \<subseteq> dom (dict_get (fu_scores (fuse_rankings k rankings)))" for n
    by (rule order_trans [OF set_take_subset]) (simp add: dom_map_of_conv_image_fst)
  then obtain i where i: "i \<in> dom (dict_get (fu_scores (fuse_rankings k rankings)))"
      "sh_tool h = sh_tool (the (dict_get (fu_tools (fuse_rankings k rankings)) i))"
    using assms by (fastforce simp: fuse_def Let_def split: if_splits)
  then have "i \<in> ids_of (concat rankings)"
    using fuse_rankings_spec [of k rankings i] by (auto split: if_splits)
  then obtain g where g: "first_hit rankings i = Some g" using first_hit_Some by blast
  then show ?thesis
    using i(2) fuse_rankings_spec [of k rankings i] find_Some_sat [OF g [unfolded first_hit_def]] by auto
qed

text \<open>A published tool of the tenant that the caller may see and the query asks for.\<close>

definition searchable :: "catalog_repository \<Rightarrow> meta_search_query \<Rightarrow> published_tool \<Rightarrow> bool" where
  "searchable c q tool \<longleftrightarrow>
     tool \<in> set (dict_values (ca_published c)) \<and> pt_tenant_id tool = cx_tenant_id (mq_context q) \<and>
     pt_visibility tool \<in> set (search_visibilities (cx_principal_id (mq_context q))) \<and>
     (case mq_eligible_tool_ids q of None \<Rightarrow> True | Some ids \<Rightarrow> pt_tool_id tool \<in> set ids) \<and>
     (case mq_namespace q of None \<Rightarrow> True | Some ns \<Rightarrow> published_namespace tool = py_strip ns) \<and>
     (case mq_side_effect q of None \<Rightarrow> True | Some e \<Rightarrow> pt_side_effect tool = e) \<and>
     search_matches (py_split (py_lower (py_strip (mq_text q)))) tool"

lemma search_published_hits:
  assumes "g \<in> set (search_published tenant text f n c)"
  shows "hit_tool g \<in> set (dict_values (ca_published c)) \<and> search_eligible tenant f (hit_tool g) \<and>
    search_matches (py_split (py_lower text)) (hit_tool g)"
  using in_set_takeD [OF assms [unfolded search_published_def Let_def]] by (auto intro: rev_image_eqI)

lemma search_published_tools_hits:
  assumes "search_published_tools q c = Inr hits" "g \<in> set hits"
  shows "g \<in> set (search_published (cx_tenant_id (sq_context q)) (py_strip (sq_text q))
    \<lparr>sf_visibilities = search_visibilities (cx_principal_id (sq_context q)),
     sf_eligible_tool_ids = sq_eligible_tool_ids q, sf_namespace = map_option py_strip (sq_namespace q),
     sf_side_effect = sq_side_effect q\<rparr> (nat (sq_limit q)) c)"
  using assms unfolding search_published_tools_def Let_def by (simp split: if_splits)

lemma published_search_searchable:
  assumes "published_search_of catalog (published_query p q) s = (Inr hits, t)" "h \<in> set hits"
  shows "searchable (catalog s) q (sh_tool h)"
proof -
  obtain found g where "search_published_tools (published_query p q) (catalog s) = Inr found" "g \<in> set found"
      "sh_tool h = hit_tool g"
    using assms by (auto simp: published_search_of_def steps_Inr scored_of_def)
  then have "search_eligible (cx_tenant_id (mq_context q))
      \<lparr>sf_visibilities = search_visibilities (cx_principal_id (mq_context q)),
       sf_eligible_tool_ids = mq_eligible_tool_ids q, sf_namespace = map_option py_strip (mq_namespace q),
       sf_side_effect = mq_side_effect q\<rparr> (sh_tool h) \<and>
      sh_tool h \<in> set (dict_values (ca_published (catalog s))) \<and>
      search_matches (py_split (py_lower (py_strip (mq_text q)))) (sh_tool h)"
    using search_published_hits [OF search_published_tools_hits, of "published_query p q" "catalog s" found g]
    by (simp add: published_query_def)
  then show ?thesis
    unfolding searchable_def search_eligible_def by (cases "mq_namespace q") simp_all
qed

section \<open>The search\<close>

definition caller_input :: "(string \<Rightarrow> string) \<Rightarrow> meta_search_query \<Rightarrow> internal_principal \<Rightarrow> scored_hit \<Rightarrow> policy_input" where
  "caller_input sha q who =
     search_policy_input (cx_tenant_id (mq_context q)) who (canonical_json_digest sha (JObj []))"

lemma visible_diagnostics_Inr:
  "visible_diagnostics raw hits = Inr d \<longleftrightarrow>
     (\<forall>h \<in> set hits. dict_get raw (hit_identity h) \<noteq> None) \<and>
     d = dict_from hit_identity (\<lambda>h. the (dict_get raw (hit_identity h))) hits"
  by (auto simp: visible_diagnostics_def list_all_iff)

lemma visible_diagnostics_get:
  assumes "visible_diagnostics raw hits = Inr d"
  shows "dict_get d i = (if i \<in> ids_of hits then dict_get raw i else None)"
proof (cases "List.find (\<lambda>h. hit_identity h = i) (rev hits)")
  case None
  then show ?thesis using assms by (auto simp: visible_diagnostics_Inr dict_from_get find_None ids_of_def)
next
  case (Some h)
  then have "h \<in> set hits" "hit_identity h = i" using find_Some_sat [OF Some] by auto
  then show ?thesis using assms Some by (auto simp: visible_diagnostics_Inr dict_from_get ids_of_def)
qed

lemma hybrid_hits_from:
  assumes "search_hybrid_detailed lexical vector k sq s = (Inr r, t)" "h \<in> set (hr_hits r)"
  shows "\<exists>hits u found w. lexical sq s = (Inr hits, u) \<and> vector sq u = (Inr found, w) \<and>
    (\<exists>g \<in> set hits \<union> set (vr_hits found). sh_tool h = sh_tool g)"
proof -
  obtain hits u found where run: "lexical sq s = (Inr hits, u)" "vector sq u = (Inr found, t)"
      "fuse k [hits, vr_hits found] (sq_limit sq) = Inr (hr_hits r)"
    using assms(1)
    by (auto simp: search_hybrid_detailed_def gather_def steps_Inr attempt_run_def raise_def ret_def lift_def
        split: prod.splits sum.splits)
  then show ?thesis using fused_from_rankings [OF run(3) assms(2)] by auto
qed

text \<open>C21: What the search of the meta tool returns. With the rule-based evaluator, the principal of the
  context and a keyword search of the catalog, a search that returns gives the first permitted candidates
  of its mode's candidate search, in their order, up to the limit, each with the diagnostics of its
  candidate and no others. A candidate the policies deny is never among them. A keyword hit, or one the
  hybrid search did not take from the vector index, is a published tool of the caller's tenant that is
  visible to it, lies within the eligible tools, namespace and side effect of the query and contains every
  word of it.\<close>

theorem search_offers_permitted_tools:
  assumes "st_evaluate_policy p = (\<lambda>i. ret (rule_based_evaluate policies i))"
    and "st_resolve_principal p = (\<lambda>cx. lift (context_resolve cx))"
    and "st_lexical_search p = published_search_of catalog"
    and "st_hybrid_diagnostic_search p = Some (search_hybrid_detailed (published_search_of catalog) vector k)"
    and "search_tools sha p q s = (Inr r, t)"
  shows "\<exists>raw diagnostics who. 1 \<le> mq_limit q \<and> mq_limit q \<le> 10 \<and> context_resolve (mq_context q) = Inr who \<and>
    search_candidates p (mq_retrieval_mode q) (published_query p q) s = (Inr (raw, diagnostics), t) \<and>
    mr_hits r = take (nat (mq_limit q)) (filter (permitted policies (caller_input sha q who)) raw) \<and>
    (\<exists>d. mr_diagnostics r = Some d \<and>
       (\<forall>i. dict_get d i = (if i \<in> ids_of (mr_hits r) then dict_get diagnostics i else None))) \<and>
    (\<forall>h \<in> set (mr_hits r). dict_get diagnostics (hit_identity h) \<noteq> None) \<and>
    (\<forall>h \<in> set (mr_hits r). searchable (catalog s) q (sh_tool h) \<or>
       mq_retrieval_mode q = HYBRID \<and>
       (\<exists>found u v. vector (published_query p q) u = (Inr found, v) \<and> sh_tool h \<in> sh_tool ` set (vr_hits found)))"
proof -
  obtain raw diagnostics u who visible d where limit: "1 \<le> mq_limit q" "mq_limit q \<le> 10"
      and cand: "search_candidates p (mq_retrieval_mode q) (published_query p q) s = (Inr (raw, diagnostics), u)"
      and who: "context_resolve (mq_context q) = Inr who"
      and vis: "collect_visible p (caller_input sha q who) (mq_limit q) raw [] u = (Inr visible, t)"
      and d: "visible_diagnostics diagnostics visible = Inr d"
      and r: "mr_hits r = visible" "mr_diagnostics r = Some d"
    using assms(5) by (auto simp: search_tools_def run_Inr assms(2) caller_input_def)
  have visible: "t = u" "visible = take (nat (mq_limit q)) (filter (permitted policies (caller_input sha q who)) raw)"
    using collect_visible_Inr [OF assms(1) vis] limit by auto
  have origin: "searchable (catalog s) q (sh_tool h) \<or> mq_retrieval_mode q = HYBRID \<and>
      (\<exists>found x y. vector (published_query p q) x = (Inr found, y) \<and> sh_tool h \<in> sh_tool ` set (vr_hits found))"
    if "h \<in> set raw" for h
  proof (cases "mq_retrieval_mode q")
    case LEXICAL
    then show ?thesis
      using cand that by (auto simp: search_candidates_def assms(3) run_Inr dest: published_search_searchable)
  next
    case HYBRID
    then obtain detailed where run: "search_hybrid_detailed (published_search_of catalog) vector k (published_query p q) s = (Inr detailed, u)"
        "raw = hr_hits detailed"
      using cand by (auto simp: search_candidates_def assms(4) run_Inr raise_def split: option.splits)
    show ?thesis
      using hybrid_hits_from [OF run(1), of h] that run(2) HYBRID published_search_searchable by fastforce
  qed
  have subset: "set visible \<subseteq> set raw" using visible(2) by (auto dest!: in_set_takeD)
  have origins: "\<forall>h \<in> set visible. searchable (catalog s) q (sh_tool h) \<or> mq_retrieval_mode q = HYBRID \<and>
      (\<exists>found x y. vector (published_query p q) x = (Inr found, y) \<and> sh_tool h \<in> sh_tool ` set (vr_hits found))"
    using origin subset by blast
  have shown: "\<forall>h \<in> set visible. dict_get diagnostics (hit_identity h) \<noteq> None"
    using d by (simp add: visible_diagnostics_Inr)
  show ?thesis
    unfolding r(1) using limit who cand [folded visible(1)] visible(2) r(2) visible_diagnostics_get [OF d] shown origins
    by blast
qed

text \<open>A search over a catalog with two tools of which a policy denies one.\<close>

definition sample_find :: published_tool where
  "sample_find = sh_tool (sample_hit ''v1'')\<lparr>pt_tenant_id := ''acme''\<rparr>"

definition sample_lock :: published_tool where
  "sample_lock =
     sh_tool (sample_hit ''v2'')\<lparr>pt_tenant_id := ''acme'', pt_tool_id := ''lock'', pt_canonical_name := ''crm.lock''\<rparr>"

definition sample_catalog :: catalog_repository where
  "sample_catalog =
     \<lparr>ca_tools = [], ca_versions = [],
      ca_published = [((''acme'', ''crm.find''), sample_find), ((''acme'', ''crm.lock''), sample_lock)]\<rparr>"

definition sample_policies :: "tool_policy list" where
  "sample_policies = [sample_policy ALLOW ''a'', (sample_policy DENY ''b'')\<lparr>po_tool_id := Some ''lock''\<rparr>]"

definition sample_search_ports :: "catalog_repository search_tools_ports" where
  "sample_search_ports =
     \<lparr>st_lexical_search = published_search_of id, st_resolve_principal = (\<lambda>cx. lift (context_resolve cx)),
      st_evaluate_policy = (\<lambda>i. ret (rule_based_evaluate sample_policies i)),
      st_hybrid_search = None,
      st_hybrid_diagnostic_search =
        Some (search_hybrid_detailed (published_search_of id) (\<lambda>_. raise CancelledError) 60),
      st_hybrid_index_version = None, st_overfetch_factor = 4\<rparr>"

definition sample_search :: meta_search_query where
  "sample_search =
     \<lparr>mq_context = \<lparr>cx_request_id = ''r'', cx_trace_id = ''x'', cx_tenant_id = ''acme'', cx_principal_id = ''agent'',
        cx_authn_method = ''bearer'', cx_principal_type = ''agent_service''\<rparr>,
      mq_text = ''f'', mq_retrieval_mode = LEXICAL, mq_limit = 5, mq_namespace = None,
      mq_side_effect = None, mq_eligible_tool_ids = None\<rparr>"

lemma sample_matches:
  "search_matches [''f''] sample_find" "search_matches [''f''] sample_lock"
  "search_rank ''f'' [''f''] sample_find = 5" "search_rank ''f'' [''f''] sample_lock = 5"
  by code_simp+

lemma sample_words: "py_split (py_lower ''f'') = [''f'']" "py_strip ''f'' = ''f''"
  by code_simp+

lemma sample_found:
  "search_published_tools (published_query sample_search_ports sample_search) sample_catalog =
     Inr [\<lparr>hit_tool = sample_find, hit_rank = 5\<rparr>, \<lparr>hit_tool = sample_lock, hit_rank = 5\<rparr>]"
proof -
  have "search_eligible ''acme'' \<lparr>sf_visibilities = [VIS_PUBLIC, VIS_AUTHENTICATED], sf_eligible_tool_ids = None,
      sf_namespace = None, sf_side_effect = None\<rparr> t" if "t \<in> {sample_find, sample_lock}" for t
    using that by (auto simp: search_eligible_def sample_find_def sample_lock_def sample_hit_def)
  moreover have "pt_canonical_name sample_find = ''crm.find''" "pt_canonical_name sample_lock = ''crm.lock''"
    by (simp_all add: sample_find_def sample_lock_def sample_hit_def)
  ultimately show ?thesis
    by (simp add: search_published_tools_def published_query_def sample_search_def sample_search_ports_def
        sample_words search_published_def sample_catalog_def sample_matches search_visibilities_def
        ANONYMOUS_PRINCIPAL_ID_def)
qed

lemma sample_decisions:
  "pd_effect (rule_based_evaluate sample_policies
     \<lparr>pi_tenant_id = ''acme'', pi_principal = who, pi_tool_id = ''tool'', pi_tool_version_id = v,
      pi_action = CALL, pi_side_effect = e, pi_arguments_digest = d\<rparr>) = ALLOW"
  "pd_effect (rule_based_evaluate sample_policies
     \<lparr>pi_tenant_id = ''acme'', pi_principal = who, pi_tool_id = ''lock'', pi_tool_version_id = v,
      pi_action = CALL, pi_side_effect = e, pi_arguments_digest = d\<rparr>) = DENY"
  by code_simp+

lemma sample_search_names:
  "map_option (map (\<lambda>h. pt_canonical_name (sh_tool h))) (case fst (search_tools sample_sha sample_search_ports sample_search sample_catalog) of
     Inr r \<Rightarrow> Some (mr_hits r) | Inl _ \<Rightarrow> None) = Some [''crm.find'']"
proof -
  have "context_resolve (mq_context sample_search) = Inr \<lparr>pr_id = ''agent'', pr_tenant_id = ''acme'', pr_principal_type = AGENT_SERVICE, pr_authn_method = ''bearer''\<rparr>"
    by code_simp
  moreover have "pt_tool_id sample_find = ''tool''" "pt_tool_id sample_lock = ''lock''"
      "pt_canonical_name sample_find = ''crm.find''" "hit_identity \<lparr>sh_tool = sample_find, sh_rank = 5\<rparr> = ''v1''"
      "hit_identity \<lparr>sh_tool = sample_lock, sh_rank = 5\<rparr> = ''v2''"
    by (simp_all add: sample_find_def sample_lock_def sample_hit_def hit_identity_def)
  ultimately show ?thesis
    using sample_found
    by (simp add: search_tools_def search_candidates_def published_search_of_def sample_search_ports_def
        sample_search_def bind_def seq_def raise_if_def ret_def lift_def gets_def scored_of_def
        search_policy_input_def policy_input_post_init_def validated_def sample_decisions
        visible_diagnostics_def dict_from_def Let_def)
qed

theorem search_offers_permitted_tools_witness:
  "\<exists>r t. search_tools sample_sha sample_search_ports sample_search sample_catalog = (Inr r, t) \<and>
     map (\<lambda>h. pt_canonical_name (sh_tool h)) (mr_hits r) = [''crm.find''] \<and>
     (\<forall>h \<in> set (mr_hits r). searchable sample_catalog sample_search (sh_tool h))"
proof -
  obtain r t where run: "search_tools sample_sha sample_search_ports sample_search sample_catalog = (Inr r, t)"
      and names: "map (\<lambda>h. pt_canonical_name (sh_tool h)) (mr_hits r) = [''crm.find'']"
    using sample_search_names by (cases "search_tools sample_sha sample_search_ports sample_search sample_catalog")
      (auto split: sum.splits)
  have "\<forall>h \<in> set (mr_hits r). searchable sample_catalog sample_search (sh_tool h)"
    using search_offers_permitted_tools [OF _ _ _ _ run,
        of sample_policies id
          "\<lambda>_. raise CancelledError" 60]
    by (auto simp: sample_search_ports_def sample_search_def)
  then show ?thesis using names by (intro exI [of _ r] exI [of _ t] conjI) (rule run)
qed

end
