(* ===== verification/Search_Index_Correct.thy ===== *)
theory Search_Index_Correct
  imports Search_Index Search_Query_Correct
begin

text \<open>
  A reindex makes progress only: whatever happens, each stored embedding is the old one or one of a
  published document of the tenant (\<open>progress\<close>). One that returns leaves every document of the tenant
  indexed, so that repeating it finds nothing to do.
\<close>

section \<open>The store\<close>

definition embedding_wf :: "search_embedding \<Rightarrow> bool" where
  "embedding_wf e \<longleftrightarrow> embedding_post_init e = Inr e"

abbreviation embedding_key :: "search_embedding \<Rightarrow> embedding_scope" where
  "embedding_key e \<equiv> scope_of (se_tenant_id e) e"

definition embeddings_ok :: "embedding_store \<Rightarrow> bool" where
  "embeddings_ok = store_ok embedding_key embedding_wf"

lemma embedding_post_init_same: "embedding_post_init e = Inr e' \<Longrightarrow> e' = e \<and> embedding_wf e"
  by (auto simp: embedding_post_init_def embedding_wf_def validated_Inr_iff)

lemma upsert_embedding_Inr:
  assumes "upsert_embedding tenant e store = Inr store'" "embeddings_ok store" "embedding_wf e"
  shows "se_tenant_id e = tenant \<and>
    (\<exists>i. store' = dict_set (embedding_key e) (e\<lparr>se_id := i\<rparr>) store \<and> embedding_wf (e\<lparr>se_id := i\<rparr>)) \<and>
    embeddings_ok store'"
proof -
  have tenant: "se_tenant_id e = tenant" using assms(1) by (auto simp: upsert_embedding_def split: if_splits)
  have "\<exists>i. store' = dict_set (embedding_key e) (e\<lparr>se_id := i\<rparr>) store \<and> embedding_wf (e\<lparr>se_id := i\<rparr>)"
  proof (cases "dict_get store (embedding_key e)")
    case None
    then show ?thesis using assms(1,3) tenant by (intro exI [of _ "se_id e"]) (auto simp: upsert_embedding_def)
  next
    case (Some current)
    then show ?thesis
      using assms(1) tenant
      by (auto simp: upsert_embedding_def result_bind_Inr_iff dest: embedding_post_init_same)
  qed
  then show ?thesis using tenant assms(2) by (auto simp: embeddings_ok_def scope_of_def intro!: store_ok_set)
qed

text \<open>What an upsert of several embeddings leaves under a scope.\<close>

lemma upsert_many_Inr:
  assumes "upsert_many tenant es store = Inr store'" "embeddings_ok store" "\<forall>e \<in> set es. embedding_wf e"
  shows "embeddings_ok store' \<and> (\<forall>e \<in> set es. se_tenant_id e = tenant) \<and>
    (\<forall>k. k \<notin> embedding_key ` set es \<longrightarrow> dict_get store' k = dict_get store k) \<and>
    (\<forall>k \<in> embedding_key ` set es. \<exists>e i. e \<in> set es \<and> embedding_key e = k \<and> dict_get store' k = Some (e\<lparr>se_id := i\<rparr>))"
  using assms
proof (induction es arbitrary: store)
  case (Cons e es)
  obtain mid where mid: "upsert_embedding tenant e store = Inr mid" "upsert_many tenant es mid = Inr store'"
    using Cons.prems(1) by (auto simp: result_bind_Inr_iff)
  obtain i where e: "se_tenant_id e = tenant" "mid = dict_set (embedding_key e) (e\<lparr>se_id := i\<rparr>) store" "embeddings_ok mid"
    using upsert_embedding_Inr [OF mid(1) Cons.prems(2)] Cons.prems(3) by auto
  have rest: "embeddings_ok store'" "\<forall>f \<in> set es. se_tenant_id f = tenant"
      "\<forall>k. k \<notin> embedding_key ` set es \<longrightarrow> dict_get store' k = dict_get mid k"
      "\<forall>k \<in> embedding_key ` set es. \<exists>f i. f \<in> set es \<and> embedding_key f = k \<and> dict_get store' k = Some (f\<lparr>se_id := i\<rparr>)"
    using Cons.IH [OF mid(2) e(3)] Cons.prems(3) by auto
  have here: "dict_get mid k = (if k = embedding_key e then Some (e\<lparr>se_id := i\<rparr>) else dict_get store k)" for k
    by (simp add: e(2))
  have "\<exists>f i. f \<in> set (e # es) \<and> embedding_key f = k \<and> dict_get store' k = Some (f\<lparr>se_id := i\<rparr>)"
    if "k \<in> embedding_key ` set (e # es)" for k
  proof (cases "k \<in> embedding_key ` set es")
    case True
    then obtain f j where "f \<in> set es" "embedding_key f = k" "dict_get store' k = Some (f\<lparr>se_id := j\<rparr>)"
      using bspec [OF rest(4)] by blast
    then show ?thesis by (intro exI [of _ f] exI [of _ j]) simp
  next
    case False
    then have "k = embedding_key e" using that by simp
    then show ?thesis using rest(3) [rule_format, OF False] here [of k] by (intro exI [of _ e] exI [of _ i]) simp
  qed
  then show ?case using rest(1,2,3) e(1) here by simp
qed simp

section \<open>Indexed documents\<close>

definition document_scope :: "'x reindex_ports \<Rightarrow> search_document \<Rightarrow> embedding_scope" where
  "document_scope p d = (sd_tenant_id d, sd_tool_version_id d, rx_model p, rx_dimensions p)"

definition indexed :: "'x reindex_ports \<Rightarrow> embedding_store \<Rightarrow> search_document \<Rightarrow> bool" where
  "indexed p store d \<longleftrightarrow>
     (\<exists>e. dict_get store (document_scope p d) = Some e \<and> se_source_digest e = sd_source_digest d)"

text \<open>A change of the stores that only brings embeddings of the given documents.\<close>

definition progress ::
  "'x reindex_ports \<Rightarrow> search_document set \<Rightarrow> 'x search_db_scheme \<Rightarrow> 'x search_db_scheme \<Rightarrow> bool" where
  "progress p docs v w \<longleftrightarrow>
     w = v\<lparr>sx_embeddings := sx_embeddings w\<rparr> \<and> embeddings_ok (sx_embeddings w) \<and>
     (\<forall>k. dict_get (sx_embeddings w) k = dict_get (sx_embeddings v) k \<or>
        (\<exists>d \<in> docs. k = document_scope p d \<and> indexed p (sx_embeddings w) d))"

lemma progress_refl: "embeddings_ok (sx_embeddings v) \<Longrightarrow> progress p docs v v"
  by (simp add: progress_def)

lemma progress_trans:
  assumes "progress p docs u v" "progress p docs v w"
  shows "progress p docs u w"
proof -
  have "w = u\<lparr>sx_embeddings := sx_embeddings w\<rparr>"
    using assms by (metis (no_types, lifting) progress_def search_db.surjective search_db.update_convs(2))
  moreover have "dict_get (sx_embeddings w) k = dict_get (sx_embeddings u) k \<or>
      (\<exists>d \<in> docs. k = document_scope p d \<and> indexed p (sx_embeddings w) d)" for k
    using assms unfolding progress_def indexed_def by (metis (no_types, lifting))
  ultimately show ?thesis using assms(2) by (simp add: progress_def)
qed

text \<open>With one document per version, a document once indexed stays indexed.\<close>

definition one_per_version :: "search_document set \<Rightarrow> bool" where
  "one_per_version docs \<longleftrightarrow> inj_on sd_tool_version_id docs"

lemma progress_indexed:
  assumes "progress p docs v w" "one_per_version docs" "d \<in> docs" "indexed p (sx_embeddings v) d"
  shows "indexed p (sx_embeddings w) d"
proof (cases "dict_get (sx_embeddings w) (document_scope p d) = dict_get (sx_embeddings v) (document_scope p d)")
  case True
  then show ?thesis using assms(4) by (simp add: indexed_def)
next
  case False
  then obtain d' where "d' \<in> docs" "document_scope p d' = document_scope p d" "indexed p (sx_embeddings w) d'"
    using assms(1) unfolding progress_def by metis
  then show ?thesis using assms(2,3) by (auto simp: one_per_version_def document_scope_def inj_on_def)
qed

section \<open>One batch\<close>

text \<open>A program that leaves the stores alone; the embedding service is assumed to be one.\<close>

definition keeps_db :: "(('t, 'st) sys, 'a) prog \<Rightarrow> bool" where
  "keeps_db m \<longleftrightarrow> (\<forall>s. db (snd (m s)) = db s)"

lemma keeps_db_basic [simp, intro]:
  "keeps_db (ret x)" "keeps_db (raise e)" "keeps_db (lift r)" "keeps_db clock_now" "keeps_db new_id" "keeps_db (gets f)"
  by (simp_all add: keeps_db_def ret_def raise_def lift_def clock_now_def new_id_def gets_def)

lemma keeps_db_bind [intro]: "keeps_db m \<Longrightarrow> (\<And>x. keeps_db (f x)) \<Longrightarrow> keeps_db (bind m f)"
  unfolding keeps_db_def bind_def by (auto split: prod.splits sum.splits) (metis snd_conv)+

lemma keeps_dbD: "keeps_db m \<Longrightarrow> m s = (r, t) \<Longrightarrow> db t = db s"
  unfolding keeps_db_def by (metis snd_conv)

lemma build_projections_keeps: "keeps_db (build_projections p existing dvs)"
  by (induction dvs) (auto simp: embedding_id_def split: option.splits intro!: keeps_db_bind)

lemma build_projections_Inr:
  assumes "build_projections p existing dvs s = (Inr es, t)"
  shows "list_all2 (\<lambda>dv e. embedding_wf e \<and> embedding_key e = document_scope p (fst dv) \<and>
    se_source_digest e = sd_source_digest (fst dv)) dvs es"
  using assms
proof (induction dvs arbitrary: s es)
  case (Cons dv dvs)
  then show ?case
    by (auto simp: steps_Inr list_all2_Cons1 projection_def scope_of_def document_scope_def
        dest!: embedding_post_init_same)
qed (simp add: steps_Inr)

definition keeps_stores :: "('t, 'st) sys embedding_provider \<Rightarrow> bool" where
  "keeps_stores provider \<longleftrightarrow> (\<forall>texts. keeps_db (em_embed provider texts))"

lemma index_batch_progress:
  assumes "keeps_stores provider" "embeddings_ok (sx_embeddings (db s))" "set batch \<subseteq> docs" "one_per_version docs"
    and "index_batch p provider tenant existing batch s = (r, t)"
  shows "progress p docs (db s) (db t) \<and> (r = Inr () \<longrightarrow> (\<forall>d \<in> set batch. indexed p (sx_embeddings (db t)) d))"
proof -
  have embed_keeps: "em_embed provider texts s = (a, u) \<Longrightarrow> db u = db s" for texts a u
    using assms(1) keeps_dbD [of "em_embed provider texts"] by (simp add: keeps_stores_def)
  show ?thesis
proof (cases "\<exists>vectors u es v store'. em_embed provider (map sd_content batch) s = (Inr vectors, u) \<and>
    length vectors = length batch \<and> build_projections p existing (zip batch vectors) u = (Inr es, v) \<and>
    upsert_many tenant es (sx_embeddings (db v)) = Inr store'")
  case True
  then obtain vectors u es v store' where run: "em_embed provider (map sd_content batch) s = (Inr vectors, u)"
      "length vectors = length batch" "build_projections p existing (zip batch vectors) u = (Inr es, v)"
      "upsert_many tenant es (sx_embeddings (db v)) = Inr store'" by blast
  have same: "db v = db s"
    using embed_keeps [OF run(1)] keeps_dbD [of "build_projections p existing (zip batch vectors)", OF build_projections_keeps run(3)]
    by simp
  have t: "r = Inr ()" "db t = (db s)\<lparr>sx_embeddings := store'\<rparr>"
    using assms(5) run same
    by (auto simp: index_batch_def bind_def seq_def raise_if_def ret_def with_uow_def update_def on_embeddings_def
        on_field_def commit_def)
  have es: "list_all2 (\<lambda>d e. embedding_wf e \<and> embedding_key e = document_scope p d \<and>
      se_source_digest e = sd_source_digest d) batch es"
    using build_projections_Inr [OF run(3)] run(2) by (simp add: list_all2_conv_all_nth)
  have of_doc: "\<exists>d \<in> set batch. embedding_wf e \<and> embedding_key e = document_scope p d \<and>
      se_source_digest e = sd_source_digest d" if "e \<in> set es" for e
    using es that by (induction rule: list_all2_induct) auto
  have up: "embeddings_ok store'" "\<forall>k. k \<notin> embedding_key ` set es \<longrightarrow> dict_get store' k = dict_get (sx_embeddings (db s)) k"
      "\<forall>k \<in> embedding_key ` set es. \<exists>e i. e \<in> set es \<and> embedding_key e = k \<and> dict_get store' k = Some (e\<lparr>se_id := i\<rparr>)"
    using upsert_many_Inr [OF run(4)] assms(2) of_doc same by auto
  have changed: "\<exists>d \<in> set batch. k = document_scope p d \<and> indexed p store' d" if k: "k \<in> embedding_key ` set es" for k
  proof -
    obtain e i where e: "e \<in> set es" "embedding_key e = k" "dict_get store' k = Some (e\<lparr>se_id := i\<rparr>)"
      using up(3) k by blast
    then obtain d where "d \<in> set batch" "embedding_key e = document_scope p d" "se_source_digest e = sd_source_digest d"
      using of_doc by blast
    then show ?thesis using e by (intro bexI [of _ d]) (auto simp: indexed_def)
  qed
  have all: "indexed p store' d" if d: "d \<in> set batch" for d
  proof -
    obtain e where "e \<in> set es" "embedding_key e = document_scope p d"
      using es d by (induction rule: list_all2_induct) auto
    then obtain d' where "d' \<in> set batch" "document_scope p d = document_scope p d'" "indexed p store' d'"
      using changed [OF image_eqI [of _ embedding_key e "set es"]] by auto
    then show ?thesis
      using assms(3,4) d by (auto simp: one_per_version_def document_scope_def inj_on_def)
  qed
  have "dict_get store' k = dict_get (sx_embeddings (db s)) k \<or>
      (\<exists>d \<in> docs. k = document_scope p d \<and> indexed p store' d)" for k
    using up(2) [rule_format, of k] changed [of k] assms(3) by blast
  then have "progress p docs (db s) (db t)" using t(2) up(1) by (simp only: progress_def) simp
  then show ?thesis using t all by simp
next
  case False
  obtain first u where first: "em_embed provider (map sd_content batch) s = (first, u)" by fastforce
  have "db t = db s \<and> r \<noteq> Inr ()"
  proof (cases "\<exists>vectors. first = Inr vectors \<and> length vectors = length batch")
    case True
    then obtain vectors where vectors: "first = Inr vectors" "length vectors = length batch" by blast
    obtain second v where second: "build_projections p existing (zip batch vectors) u = (second, v)" by fastforce
    have "db v = db s"
      using embed_keeps [OF first] keeps_dbD [of "build_projections p existing (zip batch vectors)", OF build_projections_keeps second]
      by simp
    then show ?thesis
      using False assms(5) first second vectors
      by (cases second)
        (auto simp: index_batch_def bind_def seq_def raise_if_def ret_def with_uow_def update_def on_embeddings_def
          on_field_def commit_def split: sum.splits)
  next
    case False
    then show ?thesis
      using assms(5) first embed_keeps [OF first]
      by (cases first) (auto simp: index_batch_def bind_def seq_def raise_if_def raise_def)
  qed
  then show ?thesis using progress_refl [OF assms(2)] by simp
qed
qed

section \<open>All batches\<close>

lemma index_batches_progress:
  assumes "keeps_stores provider" "embeddings_ok (sx_embeddings (db s))" "set (concat batches) \<subseteq> docs"
    and "one_per_version docs" "index_batches p provider tenant existing batches counts s = (r, t)"
  shows "progress p docs (db s) (db t) \<and>
    (\<forall>c. r = Inr c \<longrightarrow> c = (fst counts + length batches, snd counts + length (concat batches)) \<and>
       (\<forall>d \<in> set (concat batches). indexed p (sx_embeddings (db t)) d))"
  using assms(2,3,5)
proof (induction batches arbitrary: s counts)
  case Nil
  then show ?case by (cases counts) (auto simp: ret_def progress_refl)
next
  case (Cons b bs)
  obtain first u where first: "index_batch p provider tenant existing b s = (first, u)" by fastforce
  have here: "progress p docs (db s) (db u)" "first = Inr () \<longrightarrow> (\<forall>d \<in> set b. indexed p (sx_embeddings (db u)) d)"
    using index_batch_progress [OF assms(1) Cons.prems(1) _ assms(4) first] Cons.prems(2) by auto
  have counts: "index_batches p provider tenant existing (b # bs) counts =
      seq (index_batch p provider tenant existing b)
        (index_batches p provider tenant existing bs (fst counts + 1, snd counts + length b))"
    by (cases counts) simp
  show ?case
  proof (cases first)
    case (Inl e)
    then show ?thesis using Cons.prems(3) first here(1) by (auto simp: counts seq_def bind_def)
  next
    case (Inr x)
    then have run: "index_batches p provider tenant existing bs (fst counts + 1, snd counts + length b) u = (r, t)"
      using Cons.prems(3) first by (simp add: counts seq_def bind_def)
    have rest: "progress p docs (db u) (db t)"
        "\<forall>c. r = Inr c \<longrightarrow> c = (fst counts + 1 + length bs, snd counts + length b + length (concat bs)) \<and>
           (\<forall>d \<in> set (concat bs). indexed p (sx_embeddings (db t)) d)"
      using Cons.IH [OF _ _ run] here(1) Cons.prems(2) by (auto simp: progress_def)
    have "indexed p (sx_embeddings (db t)) d" if "d \<in> set b" for d
      using progress_indexed [OF rest(1) assms(4)] here(2) Inr that Cons.prems(2) by auto
    then show ?thesis using progress_trans [OF here(1) rest(1)] rest(2) by auto
  qed
qed

lemma concat_slices: "concat (map (\<lambda>i. take n (drop (i * n) xs)) [0 ..< k]) = take (k * n) xs"
proof (induction k)
  case (Suc k)
  have "take (Suc k * n) xs = take (k * n) xs @ take n (drop (k * n) xs)"
    using take_add [of "k * n" n xs] by (simp add: add.commute)
  then show ?case using Suc.IH by simp
qed simp

lemma concat_batches [simp]: "0 < n \<Longrightarrow> concat (batches_of n xs) = xs"
proof -
  assume n: "0 < n"
  have "length xs + n - 1 < (length xs + n - 1) div n * n + n"
    using div_mult_mod_eq [of "length xs + n - 1" n] mod_less_divisor [OF n, of "length xs + n - 1"] by linarith
  then have "length xs \<le> (length xs + n - 1) div n * n" using n by linarith
  then show ?thesis by (simp add: batches_of_def concat_slices)
qed

lemma length_batches [simp]: "length (batches_of n xs) = (length xs + n - 1) div n"
  by (simp add: batches_of_def)

section \<open>What is already indexed\<close>

lemma load_existing_runs:
  "load_existing p tenant docs s =
     (Inr (dict_from se_tool_version_id id (list_by_tool_versions tenant (map sd_tool_version_id docs) (rx_model p)
        (rx_dimensions p) (sx_embeddings (db s)))), s)"
  by (simp add: load_existing_def with_uow_def query_def bind_def ret_def)

lemma existing_get:
  assumes "embeddings_ok store"
  shows "dict_get (dict_from se_tool_version_id id (list_by_tool_versions tenant versions m n store)) v =
    (if v \<in> set versions then dict_get store (tenant, v, m, n) else None)"
proof -
  let ?found = "list_by_tool_versions tenant versions m n store"
  have keyed: "keyed embedding_key store" using assms by (simp add: embeddings_ok_def store_ok_def)
  have "(k, e) \<in> set store \<longleftrightarrow> dict_get store k = Some e" for k e
    using keyed_wf [OF keyed] by simp
  then have members: "e \<in> set ?found \<longleftrightarrow>
      (\<exists>w \<in> set versions. dict_get store (tenant, w, m, n) = Some e)" for e
    unfolding list_by_tool_versions_def by (auto simp: image_iff)
  have versions: "dict_get store (tenant, w, m, n) = Some e \<Longrightarrow> se_tool_version_id e = w" for w e
    using keyed_get [OF keyed] by (fastforce simp: scope_of_def)
  show ?thesis
  proof (cases "List.find (\<lambda>e. se_tool_version_id e = v) (rev ?found)")
    case None
    then have "\<forall>e \<in> set ?found. se_tool_version_id e \<noteq> v" by (simp add: find_None)
    then have "v \<in> set versions \<Longrightarrow> dict_get store (tenant, v, m, n) = None"
      using members versions by (metis option.exhaust)
    then show ?thesis using None by (simp add: dict_from_get)
  next
    case (Some e)
    then have "e \<in> set ?found" "se_tool_version_id e = v" using find_Some_sat [OF Some] by auto
    then show ?thesis using Some members versions by (auto simp: dict_from_get)
  qed
qed

lemma not_pending_iff:
  assumes "embeddings_ok store" "d \<in> set docs" "sd_tenant_id d = tenant"
  shows "document_pending False (dict_from se_tool_version_id id
      (list_by_tool_versions tenant (map sd_tool_version_id docs) (rx_model p) (rx_dimensions p) store)) d \<longleftrightarrow>
    \<not> indexed p store d"
  using assms(2,3) existing_get [OF assms(1)]
  by (auto simp: document_pending_def indexed_def document_scope_def split: option.splits)

lemma document_pending_False: "\<not> document_pending force existing d \<Longrightarrow> \<not> document_pending False existing d"
  by (auto simp: document_pending_def split: option.splits)

section \<open>A reindex\<close>

definition published_versions :: "string \<Rightarrow> 'x search_db_scheme \<Rightarrow> string list" where
  "published_versions tenant w = map pt_tool_version_id (list_published_by_tenant tenant (sx_catalog w))"

lemma published_documents_Inr:
  assumes "published_documents sha tenant w = Inr docs" "distinct (published_versions tenant w)"
  shows "(\<forall>d \<in> set docs. sd_tenant_id d = tenant) \<and> one_per_version (set docs)"
proof -
  let ?tools = "sort_key pt_canonical_name (list_published_by_tenant tenant (sx_catalog w))"
  have built: "list_all2 (\<lambda>t d. build_document sha t = Inr d) ?tools docs"
    using assms(1) by (simp add: published_documents_def collect_results_all2)
  have versions: "map sd_tool_version_id docs = map pt_tool_version_id ?tools"
    using built by (induction rule: list_all2_induct) (auto dest: build_document_fields)
  have "list_all2 (\<lambda>t d. sd_tenant_id d = pt_tenant_id t) ?tools docs"
    using built by (rule list_all2_mono) (auto dest: build_document_fields)
  moreover have "\<forall>t \<in> set ?tools. pt_tenant_id t = tenant"
    by (auto simp: list_published_by_tenant_def)
  ultimately have "\<forall>d \<in> set docs. sd_tenant_id d = tenant"
    by (induction rule: list_all2_induct) auto
  moreover have "distinct (map sd_tool_version_id docs)"
    unfolding versions using assms(2) by (simp add: published_versions_def distinct_map)
  ultimately show ?thesis by (simp add: one_per_version_def distinct_map)
qed

lemma progress_documents: "progress p docs v w \<Longrightarrow> published_documents sha tenant w = published_documents sha tenant v"
  by (metis progress_def published_documents_def search_db.select_convs(1) search_db.surjective search_db.update_convs(2))

lemma indexed_inspection:
  assumes "embeddings_ok (sx_embeddings (db s))" "distinct (published_versions tenant (db s))"
    and "published_documents sha tenant (db s) = Inr docs" "\<forall>d \<in> set docs. indexed p (sx_embeddings (db s)) d"
  shows "\<exists>snapshot. inspect_index sha p available tenant s = (Inr snapshot, s) \<and>
    xs_published_count snapshot = length docs \<and> xs_current_count snapshot = length docs"
proof -
  let ?tools = "sort_key pt_canonical_name (list_published_by_tenant tenant (sx_catalog (db s)))"
  let ?existing = "dict_from se_tool_version_id id (list_by_tool_versions tenant (map sd_tool_version_id docs)
      (rx_model p) (rx_dimensions p) (sx_embeddings (db s)))"
  have len: "length ?tools = length docs"
    using assms(3) by (auto simp: published_documents_def collect_results_all2 dest: list_all2_lengthD)
  have "xi_state (inspect_item ?existing t d) = INDEX_CURRENT" if "(t, d) \<in> set (zip ?tools docs)" for t d
  proof -
    have d: "d \<in> set docs" using that by (rule set_zip_rightD)
    then have "sd_tenant_id d = tenant" using published_documents_Inr [OF assms(3,2)] by blast
    then show ?thesis
      using assms(4) d existing_get [OF assms(1)]
      by (force simp: inspect_item_def indexed_def document_scope_def)
  qed
  then have "filter (\<lambda>i. xi_state i = INDEX_CURRENT) (map (\<lambda>(t, d). inspect_item ?existing t d) (zip ?tools docs)) =
      map (\<lambda>(t, d). inspect_item ?existing t d) (zip ?tools docs)"
    by (intro filter_True) auto
  then have count: "count_state INDEX_CURRENT (map (\<lambda>(t, d). inspect_item ?existing t d) (zip ?tools docs)) = length docs"
    unfolding count_state_def using len by simp
  then show ?thesis
    using assms(3) len count
    by (simp add: inspect_index_def published_documents_def bind_def gets_def lift_def ret_def load_existing_runs
        Let_def)
qed

definition fresh_report :: "'x reindex_ports \<Rightarrow> nat \<Rightarrow> bool \<Rightarrow> reindex_result" where
  "fresh_report p n dry_run =
     \<lparr>rr_published_count = n, rr_current_count = n, rr_pending_count = 0, rr_embedded_count = 0, rr_batch_count = 0,
      rr_model = rx_model p, rr_dimensions = rx_dimensions p, rr_dry_run = dry_run\<rparr>"

lemma indexed_reindex:
  assumes "embeddings_ok (sx_embeddings (db s))" "distinct (published_versions (cx_tenant_id (rc_context c)) (db s))"
    and "published_documents sha (cx_tenant_id (rc_context c)) (db s) = Inr docs"
    and "\<forall>d \<in> set docs. indexed p (sx_embeddings (db s)) d"
    and "1 \<le> rc_batch_size c" "rc_batch_size c \<le> 64" "\<not> rc_force c"
  shows "reindex_tools sha p c s = (Inr (fresh_report p (length docs) (rc_dry_run c)), s)"
proof -
  have none: "filter (document_pending False (dict_from se_tool_version_id id (list_by_tool_versions
      (cx_tenant_id (rc_context c)) (map sd_tool_version_id docs) (rx_model p) (rx_dimensions p)
      (sx_embeddings (db s))))) docs = []"
    using not_pending_iff [OF assms(1), of _ docs "cx_tenant_id (rc_context c)" p] published_documents_Inr [OF assms(3,2)]
      assms(4) by (auto simp: filter_empty_conv)
  show ?thesis
    using assms(3,5-7) none
    by (simp add: reindex_tools_def Let_def seq_def bind_def raise_if_def ret_def gets_def lift_def load_existing_runs
        fresh_report_def)
qed

lemma bind_known: "m s = (Inr x, u) \<Longrightarrow> bind m f s = f x u"
  by (simp add: bind_def)

lemma run_pure:
  "seq (raise_if False e) n = n" "bind (gets f) g s = g (f s) s" "bind (lift (Inr x)) g = g x"
  by (simp_all add: seq_def bind_def raise_if_def ret_def gets_def lift_def)

lemma reindex_run:
  assumes ok: "embeddings_ok (sx_embeddings (db s))"
    and distinct: "distinct (published_versions (cx_tenant_id (rc_context c)) (db s))"
    and keeps: "\<forall>provider. rx_provider p = Some provider \<longrightarrow> keeps_stores provider"
    and run: "reindex_tools sha p c s = (r, t)"
    and docs: "published_documents sha (cx_tenant_id (rc_context c)) (db s) = Inr docs"
  shows "progress p (set docs) (db s) (db t) \<and>
    (\<forall>result. r = Inr result \<longrightarrow>
       1 \<le> rc_batch_size c \<and> rc_batch_size c \<le> 64 \<and>
       rr_published_count result = length docs \<and> rr_current_count result + rr_pending_count result = length docs \<and>
       (if rc_dry_run c then db t = db s \<and> rr_embedded_count result = 0 \<and> rr_batch_count result = 0
        else rr_embedded_count result = rr_pending_count result \<and>
          rr_batch_count result = (rr_pending_count result + nat (rc_batch_size c) - 1) div nat (rc_batch_size c) \<and>
          (\<forall>d \<in> set docs. indexed p (sx_embeddings (db t)) d)))"
proof (cases "1 \<le> rc_batch_size c \<and> rc_batch_size c \<le> 64")
  case False
  then have "r = Inl (ValueError ''reindex batch size must be between 1 and 64'') \<and> t = s"
    using run by (auto simp: reindex_tools_def Let_def seq_def bind_def raise_if_def raise_def)
  then show ?thesis using progress_refl [OF ok] by auto
next
  case True
  let ?tenant = "cx_tenant_id (rc_context c)"
  define existing where "existing = dict_from se_tool_version_id id (list_by_tool_versions ?tenant
      (map sd_tool_version_id docs) (rx_model p) (rx_dimensions p) (sx_embeddings (db s)))"
  define pending where "pending = filter (document_pending (rc_force c) existing) docs"
  have one: "one_per_version (set docs)" "\<forall>d \<in> set docs. sd_tenant_id d = ?tenant"
    using published_documents_Inr [OF docs distinct] by auto
  have rest: "indexed p (sx_embeddings (db s)) d" if "d \<in> set docs" "d \<notin> set pending" for d
    using that not_pending_iff [OF ok that(1)] one(2) document_pending_False [of "rc_force c" existing d]
    by (auto simp: pending_def existing_def)
  have short: "length pending \<le> length docs" by (simp add: pending_def)
  have step: "reindex_tools sha p c s =
      (if rc_dry_run c \<or> pending = []
       then (Inr \<lparr>rr_published_count = length docs, rr_current_count = length docs - length pending,
              rr_pending_count = length pending, rr_embedded_count = 0, rr_batch_count = 0, rr_model = rx_model p,
              rr_dimensions = rx_dimensions p, rr_dry_run = rc_dry_run c\<rparr>, s)
       else bind (require_some (rx_provider p) (NexusError EmbeddingUnavailableError)) (\<lambda>provider.
          bind (index_batches p provider ?tenant existing (batches_of (nat (rc_batch_size c)) pending) (0, 0))
            (\<lambda>(n, m). ret \<lparr>rr_published_count = length docs, rr_current_count = length docs - length pending,
              rr_pending_count = length pending, rr_embedded_count = m, rr_batch_count = n, rr_model = rx_model p,
              rr_dimensions = rx_dimensions p, rr_dry_run = False\<rparr>)) s)"
    using True docs
    by (simp add: reindex_tools_def Let_def run_pure bind_known [OF load_existing_runs] ret_def existing_def pending_def)
  show ?thesis
  proof (cases "rc_dry_run c \<or> pending = []")
    case True
    then show ?thesis using run step progress_refl [OF ok] short rest \<open>1 \<le> rc_batch_size c \<and> rc_batch_size c \<le> 64\<close> by auto
  next
    case False
    show ?thesis
    proof (cases "rx_provider p")
      case None
      then show ?thesis
        using run step False progress_refl [OF ok] by (auto simp: require_some_def bind_def raise_def)
    next
      case (Some provider)
      obtain counts u where batches: "index_batches p provider ?tenant existing (batches_of (nat (rc_batch_size c)) pending) (0, 0) s = (counts, u)"
        by fastforce
      have through: "progress p (set docs) (db s) (db u) \<and>
          (\<forall>x. counts = Inr x \<longrightarrow> x = ((length pending + nat (rc_batch_size c) - 1) div nat (rc_batch_size c), length pending) \<and>
            (\<forall>d \<in> set pending. indexed p (sx_embeddings (db u)) d))"
        using index_batches_progress [OF _ ok _ one(1) batches] keeps Some True by (auto simp: pending_def)
      have all: "indexed p (sx_embeddings (db u)) d" if "counts = Inr x" "d \<in> set docs" for x d
        using that through rest [of d] progress_indexed [of p "set docs" "db s" "db u" d] one(1) by blast
      show ?thesis
        using run step False Some batches True through all short
        by (cases counts) (auto simp: require_some_def bind_def ret_def)
    qed
  qed
qed


text \<open>The sample catalog, not indexed yet, with a service that embeds every text alike.\<close>

definition sample_provider :: "(datetime, search_db) sys embedding_provider" where
  "sample_provider =
     \<lparr>em_model = ''m'', em_dimensions = 1,
      em_embed = (\<lambda>texts. ret (map (\<lambda>_. \<lparr>ev_model = ''m'', ev_dimensions = 1, ev_values = [Finite 1]\<rparr>) texts))\<rparr>"

definition sample_reindex_ports :: "unit reindex_ports" where
  "sample_reindex_ports = \<lparr>rx_provider = Some sample_provider, rx_model = ''m'', rx_dimensions = 1\<rparr>"

definition sample_index_start :: "(datetime, search_db) sys" where
  "sample_index_start =
     \<lparr>now_at = (\<lambda>n. Aware (int n)), ticks = 0, id_at = sample_ids, id_count = 0,
      db = \<lparr>sx_catalog = sample_catalog, sx_embeddings = []\<rparr>\<rparr>"

definition sample_reindex :: reindex_command where
  "sample_reindex =
     \<lparr>rc_context = mq_context sample_search, rc_batch_size = 1, rc_force = False, rc_dry_run = False\<rparr>"

lemma sample_reindex_runs:
  "case fst (reindex_tools sample_sha sample_reindex_ports sample_reindex sample_index_start) of
     Inr r \<Rightarrow> rr_embedded_count r = 2 \<and> rr_batch_count r = 2
   | Inl _ \<Rightarrow> False"
  by code_simp

lemma sample_documents:
  "\<exists>docs. published_documents sample_sha ''acme'' (db sample_index_start) = Inr docs \<and> length docs = 2"
proof -
  have "case published_documents sample_sha ''acme'' (db sample_index_start) of Inr docs \<Rightarrow> length docs = 2 | Inl _ \<Rightarrow> False"
    by code_simp
  then show ?thesis by (auto split: sum.splits)
qed


end
