(* ===== verification/Search_Jobs_Correct.thy ===== *)
theory Search_Jobs_Correct
  imports Search_Jobs Search_Index_Correct
begin

text \<open>
  Reindex jobs: a tenant never has two active ones, and running a pending one ends it. Both are about
  what a program does to the stores; \<open>steps_by R\<close> says that it takes them from any state to one related
  by \<open>R\<close>, which composes when \<open>R\<close> is reflexive and transitive.
\<close>

section \<open>Programs that respect a relation on the stores\<close>

definition steps_by :: "('st \<Rightarrow> 'st \<Rightarrow> bool) \<Rightarrow> (('t, 'st) sys, 'a) prog \<Rightarrow> bool" where
  "steps_by R m \<longleftrightarrow> (\<forall>s. R (db s) (db (snd (m s))))"

locale store_relation =
  fixes R :: "'x search_db_scheme \<Rightarrow> 'x search_db_scheme \<Rightarrow> bool"
  assumes refl: "R v v"
    and trans: "R u v \<Longrightarrow> R v w \<Longrightarrow> R u w"
    and embeddings: "R v (v\<lparr>sx_embeddings := es\<rparr>)"
begin

lemma stable_keeps: "keeps_db m \<Longrightarrow> steps_by R m"
  by (simp add: steps_by_def keeps_db_def refl)

lemma stable_bind: "steps_by R m \<Longrightarrow> (\<And>x. steps_by R (f x)) \<Longrightarrow> steps_by R (bind m f)"
  unfolding steps_by_def bind_def by (auto split: prod.splits sum.splits) (metis snd_conv trans)+

lemma stable_seq: "steps_by R m \<Longrightarrow> steps_by R n \<Longrightarrow> steps_by R (seq m n)"
  unfolding seq_def by (rule stable_bind)

lemma stable_pure: "steps_by R (ret x)" "steps_by R (raise e)" "steps_by R (lift r)" "steps_by R (gets f)"
    "steps_by R (raise_if b e)" "steps_by R (require_some v e)" "steps_by R clock_now" "steps_by R new_id"
    "steps_by R (load_existing p tenant docs)"
  by (auto simp: steps_by_def ret_def raise_def lift_def gets_def raise_if_def require_some_def clock_now_def new_id_def
      load_existing_runs refl split: option.splits)

lemma stable_cases:
  "steps_by R m \<Longrightarrow> steps_by R n \<Longrightarrow> steps_by R (if b then m else n)"
  "(\<And>a b. steps_by R (g a b)) \<Longrightarrow> steps_by R (case x of (a, b) \<Rightarrow> g a b)"
  by (simp_all split: prod.splits)

lemma stable_index_batch:
  assumes "\<And>texts. steps_by R (em_embed provider texts)"
  shows "steps_by R (index_batch p provider tenant existing batch)"
proof -
  have "steps_by R (with_uow (seq (update (on_embeddings (upsert_many tenant es))) commit))" for es
    by (auto simp: steps_by_def with_uow_def seq_def bind_def update_def on_embeddings_def on_field_def commit_def
        refl embeddings split: sum.splits)
  then show ?thesis
    unfolding index_batch_def
    by (intro stable_bind stable_seq stable_pure assms stable_keeps [OF build_projections_keeps])
qed

lemma stable_index_batches:
  assumes "\<And>texts. steps_by R (em_embed provider texts)"
  shows "steps_by R (index_batches p provider tenant existing batches counts)"
proof (induction batches arbitrary: counts)
  case Nil
  then show ?case by (cases counts) (simp add: stable_pure)
next
  case (Cons b bs)
  then show ?case by (cases counts) (simp add: stable_seq stable_index_batch assms)
qed

lemma stable_reindex:
  assumes "\<And>provider texts. rx_provider p = Some provider \<Longrightarrow> steps_by R (em_embed provider texts)"
  shows "steps_by R (reindex_tools sha p c)"
proof -
  have batches: "steps_by R (bind (require_some (rx_provider p) e) (\<lambda>provider.
      bind (index_batches p provider tenant existing batches counts) f))" if "\<And>x. steps_by R (f x)"
    for e tenant existing batches counts f
  proof (cases "rx_provider p")
    case None
    then show ?thesis by (simp add: require_some_def steps_by_def bind_def raise_def refl)
  next
    case (Some provider)
    then have some: "bind (require_some (rx_provider p) e) g = g provider" for g :: "_ \<Rightarrow> (_, 'b) prog"
      by (simp add: require_some_def bind_def ret_def)
    show ?thesis unfolding some by (intro stable_bind stable_index_batches assms [OF Some] that)
  qed
  then show ?thesis
    unfolding reindex_tools_def Let_def
    by (intro batches stable_cases stable_seq stable_bind stable_pure)
qed

end

section \<open>At most one active job\<close>

definition jobs_ok :: "'x jobs_db_scheme \<Rightarrow> bool" where
  "jobs_ok w \<longleftrightarrow>
     keyed rj_id (sj_jobs w) \<and>
     (\<forall>j \<in> set (dict_values (sj_jobs w)). \<forall>k \<in> set (dict_values (sj_jobs w)).
        job_active j \<and> job_active k \<and> rj_tenant_id j = rj_tenant_id k \<longrightarrow> rj_id j = rj_id k)"

lemma jobs_ok_embeddings: "jobs_ok (w\<lparr>sx_embeddings := es\<rparr>) = jobs_ok w"
  by (simp add: jobs_ok_def)

interpretation jobs_kept: store_relation "\<lambda>v w :: 'x jobs_db_scheme. jobs_ok v \<longrightarrow> jobs_ok w"
  by unfold_locales (simp_all add: jobs_ok_embeddings)

interpretation jobs_untouched: store_relation "\<lambda>v w :: 'x jobs_db_scheme. sj_jobs w = sj_jobs v"
  by unfold_locales auto

text \<open>Changes after which every active job is one that was active before.\<close>

lemma jobs_ok_covered:
  assumes "jobs_ok w" "keyed rj_id (sj_jobs w')"
    and covered: "\<And>k. k \<in> set (dict_values (sj_jobs w')) \<Longrightarrow> job_active k \<Longrightarrow>
      \<exists>k' \<in> set (dict_values (sj_jobs w)). job_active k' \<and> rj_tenant_id k' = rj_tenant_id k \<and> rj_id k' = rj_id k"
  shows "jobs_ok w'"
  unfolding jobs_ok_def
proof (intro conjI ballI impI)
  fix j k
  assume j: "j \<in> set (dict_values (sj_jobs w'))" and k: "k \<in> set (dict_values (sj_jobs w'))"
    and active: "job_active j \<and> job_active k \<and> rj_tenant_id j = rj_tenant_id k"
  obtain j' where j': "j' \<in> set (dict_values (sj_jobs w))" "job_active j'" "rj_tenant_id j' = rj_tenant_id j" "rj_id j' = rj_id j"
    using covered [OF j] active by blast
  obtain k' where k': "k' \<in> set (dict_values (sj_jobs w))" "job_active k'" "rj_tenant_id k' = rj_tenant_id k" "rj_id k' = rj_id k"
    using covered [OF k] active by blast
  have "rj_id j' = rj_id k'"
    using assms(1) [unfolded jobs_ok_def, THEN conjunct2, rule_format, OF j'(1) k'(1)] j' k' active by simp
  then show "rj_id j = rj_id k" using j'(4) k'(4) by simp
qed (rule assms(2))

lemma jobs_ok_replace:
  assumes "jobs_ok w" "dict_get (sj_jobs w) (rj_id j) = Some old" "rj_tenant_id j = rj_tenant_id old"
    "job_active j \<longrightarrow> job_active old"
  shows "jobs_ok (w\<lparr>sj_jobs := dict_set (rj_id j) j (sj_jobs w)\<rparr>)"
proof (rule jobs_ok_covered [OF assms(1)])
  have keyed: "keyed rj_id (sj_jobs w)" using assms(1) by (simp add: jobs_ok_def)
  then show "keyed rj_id (sj_jobs (w\<lparr>sj_jobs := dict_set (rj_id j) j (sj_jobs w)\<rparr>))" by simp
  have old: "old \<in> set (dict_values (sj_jobs w))" "rj_id old = rj_id j"
    using dict_get_values [OF assms(2)] keyed_get [OF keyed assms(2)] by auto
  fix k
  assume k: "k \<in> set (dict_values (sj_jobs (w\<lparr>sj_jobs := dict_set (rj_id j) j (sj_jobs w)\<rparr>)))" "job_active k"
  then have "k = j \<or> k \<in> set (dict_values (sj_jobs w))"
    using dict_values_set_subset [of "rj_id j" j "sj_jobs w"] by auto
  then show "\<exists>k' \<in> set (dict_values (sj_jobs w)). job_active k' \<and> rj_tenant_id k' = rj_tenant_id k \<and> rj_id k' = rj_id k"
    using k(2) old assms(3,4) by metis
qed

lemma jobs_ok_interrupt:
  assumes "jobs_ok w"
  shows "jobs_ok (w\<lparr>sj_jobs := interrupt_jobs tenant now (sj_jobs w)\<rparr>)"
proof (rule jobs_ok_covered [OF assms])
  define cancel where "cancel j =
      (if rj_tenant_id j = tenant \<and> job_active j then failed_job ''reindex_job_interrupted'' now j else j)" for j
  have same: "rj_id (cancel j) = rj_id j" "rj_tenant_id (cancel j) = rj_tenant_id j" "job_active (cancel j) \<Longrightarrow> job_active j" for j
    by (auto simp: cancel_def failed_job_def job_active_def split: if_splits)
  have table: "interrupt_jobs tenant now (sj_jobs w) = map (map_prod id cancel) (sj_jobs w)"
    by (auto simp: interrupt_jobs_def cancel_def)
  have keyed: "keyed rj_id (sj_jobs w)" using assms by (simp add: jobs_ok_def)
  then show "keyed rj_id (sj_jobs (w\<lparr>sj_jobs := interrupt_jobs tenant now (sj_jobs w)\<rparr>))"
    by (force simp: keyed_def table same(1))
  fix k
  assume k: "k \<in> set (dict_values (sj_jobs (w\<lparr>sj_jobs := interrupt_jobs tenant now (sj_jobs w)\<rparr>)))" "job_active k"
  then obtain j where "j \<in> set (dict_values (sj_jobs w))" "k = cancel j" by (auto simp: table)
  then show "\<exists>k' \<in> set (dict_values (sj_jobs w)). job_active k' \<and> rj_tenant_id k' = rj_tenant_id k \<and> rj_id k' = rj_id k"
    using k(2) same by metis
qed

lemma jobs_ok_insert:
  assumes "insert_job j w = Inr w'" "jobs_ok w"
  shows "jobs_ok w'"
proof -
  have w': "w' = w\<lparr>sj_jobs := dict_set (rj_id j) j (sj_jobs w)\<rparr>" "dict_get (sj_jobs w) (rj_id j) = None"
      "job_active j \<longrightarrow> (\<forall>k \<in> set (dict_values (sj_jobs w)). rj_tenant_id k = rj_tenant_id j \<longrightarrow> \<not> job_active k)"
    using assms(1) by (auto simp: insert_job_def list_ex_iff split: if_splits)
  have rows: "dict_values (sj_jobs w') = dict_values (sj_jobs w) @ [j]"
    using w'(1,2) dict_values_set_fresh [of "sj_jobs w" "rj_id j" j] by simp
  have "rj_id k = rj_id l"
    if "k \<in> set (dict_values (sj_jobs w'))" "l \<in> set (dict_values (sj_jobs w'))"
      "job_active k \<and> job_active l \<and> rj_tenant_id k = rj_tenant_id l" for k l
  proof (cases "k = j \<or> l = j")
    case True
    have clash: False if "x \<in> set (dict_values (sj_jobs w))" "job_active x" "job_active j" "rj_tenant_id x = rj_tenant_id j" for x
      using that w'(3) by blast
    have "x = j \<or> x \<in> set (dict_values (sj_jobs w))" if "x \<in> set (dict_values (sj_jobs w'))" for x
      using that unfolding rows by (simp only: set_append) auto
    note k = this [OF that(1)] and l = this [OF that(2)]
    show ?thesis
    proof (cases "k = j")
      case True
      then show ?thesis using l clash [of l] that(3) by (simp only:) blast
    next
      case False
      then have same: "l = j" "k \<in> set (dict_values (sj_jobs w))" using \<open>k = j \<or> l = j\<close> k by blast+
      show ?thesis using clash [OF same(2)] that(3) unfolding same(1) by blast
    qed
  next
    case False
    then have "k \<in> set (dict_values (sj_jobs w))" "l \<in> set (dict_values (sj_jobs w))"
      using that(1,2) unfolding rows by auto
    then show ?thesis
      using assms(2) [unfolded jobs_ok_def, THEN conjunct2, rule_format] that(3) by blast
  qed
  moreover have "keyed rj_id (sj_jobs w')" using assms(2) w'(1) by (simp add: jobs_ok_def)
  ultimately show ?thesis unfolding jobs_ok_def by blast
qed

section \<open>The store and the use cases\<close>

lemma find_job_Some:
  "find_job tenant i d = Some j \<longleftrightarrow> dict_get d i = Some j \<and> rj_tenant_id j = tenant"
  by (auto simp: find_job_def split: option.splits)

lemma find_job_id: "find_job tenant i (sj_jobs w) = Some j \<Longrightarrow> jobs_ok w \<Longrightarrow> rj_id j = i"
  unfolding find_job_Some jobs_ok_def by (blast intro: keyed_get)

text \<open>One transaction on the table: it changes the table or, when it raises, nothing.\<close>

lemma exit_working:
  "exit_uow ((enter_uow s)\<lparr>working := w, db := v\<rparr>) = s\<lparr>db := v\<rparr>"
  by (cases s) (simp add: enter_uow_def exit_uow_def sys.defs tx.defs)

lemma with_uow_query: "with_uow (query f) s = (Inr (f (db s)), s)"
  by (simp add: with_uow_def query_def)

lemma change_job_runs:
  assumes "as_uuid ''tenant id'' tenant = Inr t'" "as_uuid ''reindex job id'' i = Inr i'"
  shows "change_job tenant i f s =
    (Inr (), case find_job t' i' (sj_jobs (db s)) of
       None \<Rightarrow> s
     | Some j \<Rightarrow> s\<lparr>db := (db s)\<lparr>sj_jobs := dict_set (rj_id (f j)) (f j) (sj_jobs (db s))\<rparr>\<rparr>)"
  using assms
  by (simp add: change_job_def lift_def with_uow_def bind_def query_def ret_def seq_def update_def save_job_def
      commit_def exit_working split: option.splits)

lemma store_claim_runs:
  assumes "as_uuid ''tenant id'' tenant = Inr t'" "as_uuid ''reindex job id'' i = Inr i'"
  shows "store_claim tenant i now s =
    (case find_job t' i' (sj_jobs (db s)) of
       None \<Rightarrow> (Inr None, s)
     | Some j \<Rightarrow>
         if rj_status j \<noteq> REINDEX_PENDING then (Inr None, s)
         else let c = j\<lparr>rj_status := REINDEX_RUNNING, rj_started_at := Some now\<rparr>
              in (Inr (Some c), s\<lparr>db := (db s)\<lparr>sj_jobs := dict_set (rj_id j) c (sj_jobs (db s))\<rparr>\<rparr>))"
  using assms
  by (simp add: store_claim_def lift_def with_uow_def bind_def query_def ret_def seq_def update_def save_job_def
      commit_def exit_working Let_def split: option.splits)

lemma as_uuid_cases:
  "(\<And>e. as_uuid ''tenant id'' tenant = Inl e \<Longrightarrow> P) \<Longrightarrow> (\<And>e. as_uuid ''reindex job id'' i = Inl e \<Longrightarrow> P) \<Longrightarrow>
   (\<And>t' i'. as_uuid ''tenant id'' tenant = Inr t' \<Longrightarrow> as_uuid ''reindex job id'' i = Inr i' \<Longrightarrow> P) \<Longrightarrow> P"
  by (cases "as_uuid ''tenant id'' tenant"; cases "as_uuid ''reindex job id'' i") auto

abbreviation keeps_jobs_ok :: "((datetime, 'x jobs_db_scheme) sys, 'a) prog \<Rightarrow> bool" where
  "keeps_jobs_ok \<equiv> steps_by (\<lambda>v w. jobs_ok v \<longrightarrow> jobs_ok w)"

lemma change_job_keeps:
  assumes "\<And>j. rj_id (f j) = rj_id j \<and> rj_tenant_id (f j) = rj_tenant_id j \<and> \<not> job_active (f j)"
  shows "keeps_jobs_ok (change_job tenant i f)"
  unfolding steps_by_def
proof
  fix s :: "(datetime, 'x jobs_db_scheme) sys"
  show "jobs_ok (db s) \<longrightarrow> jobs_ok (db (snd (change_job tenant i f s)))"
  proof (rule as_uuid_cases [of tenant _ i])
    fix t' i'
    assume uuids: "as_uuid ''tenant id'' tenant = Inr t'" "as_uuid ''reindex job id'' i = Inr i'"
    show ?thesis
    proof (cases "find_job t' i' (sj_jobs (db s))")
      case (Some j)
      have "jobs_ok (db s) \<Longrightarrow> rj_id j = i'" using Some by (rule find_job_id)
      moreover have "dict_get (sj_jobs (db s)) i' = Some j" using Some by (simp add: find_job_Some)
      ultimately show ?thesis
        using Some jobs_ok_replace [of "db s" "f j" j] assms [of j] by (simp add: change_job_runs [OF uuids])
    qed (simp add: change_job_runs [OF uuids])
  qed (simp_all add: change_job_def bind_def lift_def split: sum.splits)
qed

lemma store_claim_keeps: "keeps_jobs_ok (store_claim tenant i now)"
  unfolding steps_by_def
proof
  fix s :: "(datetime, 'x jobs_db_scheme) sys"
  show "jobs_ok (db s) \<longrightarrow> jobs_ok (db (snd (store_claim tenant i now s)))"
  proof (rule as_uuid_cases [of tenant _ i])
    fix t' i'
    assume uuids: "as_uuid ''tenant id'' tenant = Inr t'" "as_uuid ''reindex job id'' i = Inr i'"
    show ?thesis
    proof (cases "find_job t' i' (sj_jobs (db s))")
      case (Some j)
      have "jobs_ok (db s) \<Longrightarrow> rj_id j = i'" using Some by (rule find_job_id)
      moreover have "dict_get (sj_jobs (db s)) i' = Some j" using Some by (simp add: find_job_Some)
      ultimately show ?thesis
        using Some jobs_ok_replace [of "db s" "j\<lparr>rj_status := REINDEX_RUNNING, rj_started_at := Some now\<rparr>" j]
        by (simp add: store_claim_runs [OF uuids] job_active_def Let_def)
    qed (simp add: store_claim_runs [OF uuids])
  qed (simp_all add: store_claim_def bind_def lift_def split: sum.splits)
qed

lemma store_create_keeps: "keeps_jobs_ok (store_create j)"
  by (auto simp: steps_by_def store_create_def bind_def lift_def with_uow_def seq_def update_def commit_def
      split: sum.splits dest: jobs_ok_insert)

lemma store_recover_keeps: "keeps_jobs_ok (store_recover_interrupted tenant now)"
  by (auto simp: steps_by_def store_recover_interrupted_def bind_def lift_def with_uow_def seq_def update_def
      commit_def query_def ret_def split: sum.splits intro: jobs_ok_interrupt)

lemma handlers_keep:
  "keeps_jobs_ok (store_fail tenant i code now)" "keeps_jobs_ok (store_succeed tenant i r now)"
  unfolding store_fail_def store_succeed_def
  by (rule change_job_keeps; simp add: failed_job_def succeeded_job_def job_active_def)+

lemma run_job_keeps:
  assumes "\<And>provider texts. rx_provider p = Some provider \<Longrightarrow> keeps_jobs_ok (em_embed provider texts)"
  shows "keeps_jobs_ok (run_reindex_job sha p tenant i)"
proof -
  have outcome: "keeps_jobs_ok (attempt_run m)" if "keeps_jobs_ok m" for m :: "((datetime, 'x jobs_db_scheme) sys, 'b) prog"
    using that by (auto simp: steps_by_def attempt_run_def split: prod.splits)
  have reindex: "keeps_jobs_ok (reindex_tools sha p c)" for c
    by (rule jobs_kept.stable_reindex [OF assms])
  show ?thesis
    unfolding run_reindex_job_def
    by (intro jobs_kept.stable_bind jobs_kept.stable_pure store_claim_keeps)
      (auto split: option.split sum.split exn.split
        intro!: jobs_kept.stable_bind jobs_kept.stable_pure outcome reindex handlers_keep)
qed

text \<open>C29: A tenant never has two active reindex jobs. Creating a job, running one, recovering interrupted ones
  and reading jobs keep that, whatever they return and whatever else happens while the embedding service
  works, as long as that keeps it, too: a second active job is refused by the table.\<close>

theorem one_active_reindex_job:
  assumes "jobs_ok (db s)"
    and "\<forall>provider texts. rx_provider p = Some provider \<longrightarrow> keeps_jobs_ok (em_embed provider texts)"
  shows "jobs_ok (db (snd (create_reindex_job p available cx force n s))) \<and>
    jobs_ok (db (snd (run_reindex_job sha p tenant i s))) \<and>
    jobs_ok (db (snd (store_recover_interrupted tenant now s))) \<and>
    jobs_ok (db (snd (get_reindex_job tenant i s))) \<and> jobs_ok (db (snd (list_reindex_jobs tenant offset limit s)))"
proof -
  have "keeps_jobs_ok (create_reindex_job p available cx force n)"
    unfolding create_reindex_job_def Let_def
    by (intro jobs_kept.stable_seq jobs_kept.stable_bind jobs_kept.stable_pure store_create_keeps)
  moreover have "keeps_jobs_ok (run_reindex_job sha p tenant i)"
    using run_job_keeps assms(2) by blast
  moreover have "db (snd (get_reindex_job tenant i s)) = db s" "db (snd (list_reindex_jobs tenant offset limit s)) = db s"
    by (auto simp: get_reindex_job_def store_get_def list_reindex_jobs_def store_list_recent_def bind_def lift_def
        with_uow_def query_def seq_def raise_if_def raise_def ret_def require_some_def split: sum.splits option.splits)
  ultimately show ?thesis
    using assms(1) store_recover_keeps [of tenant now] unfolding steps_by_def by metis
qed

section \<open>A run ends its job\<close>

lemma reindex_keeps_jobs:
  assumes "\<And>provider. rx_provider p = Some provider \<Longrightarrow> keeps_stores provider"
  shows "sj_jobs (db (snd (reindex_tools sha p c s))) = sj_jobs (db s)"
proof -
  have "steps_by (\<lambda>v w. sj_jobs w = sj_jobs v) (reindex_tools sha p c)"
    using jobs_untouched.stable_reindex jobs_untouched.stable_keeps assms unfolding keeps_stores_def by blast
  then show ?thesis by (simp add: steps_by_def)
qed

text \<open>How a job looks after a reindex ended in some way.\<close>

definition ended_job :: "reindex_result result \<Rightarrow> datetime \<Rightarrow> reindex_job \<Rightarrow> reindex_job" where
  "ended_job outcome now j =
     (case outcome of
        Inr r \<Rightarrow> succeeded_job r now j
      | Inl (NexusError e) \<Rightarrow> failed_job (error_code e) now j
      | Inl _ \<Rightarrow> failed_job ''internal_error'' now j)"


section \<open>A pending job of an empty tenant\<close>

definition sample_job_provider :: "(datetime, jobs_db) sys embedding_provider" where
  "sample_job_provider = \<lparr>em_model = ''m'', em_dimensions = 1, em_embed = (\<lambda>texts. raise CancelledError)\<rparr>"

definition sample_job_ports :: "unit jobs_db_ext reindex_ports" where
  "sample_job_ports = \<lparr>rx_provider = Some sample_job_provider, rx_model = ''m'', rx_dimensions = 1\<rparr>"

definition sample_tenant :: string where
  "sample_tenant = ''aaaaaaaa-aaaa-4aaa-8aaa-aaaaaaaaaaaa''"

definition sample_job_id :: string where
  "sample_job_id = ''11111111-2222-4333-8444-555555555555''"

definition sample_job :: reindex_job where
  "sample_job =
     new_reindex_job sample_job_ports ((mq_context sample_search)\<lparr>cx_tenant_id := sample_tenant\<rparr>) False 16 sample_job_id (Aware 0)"

definition sample_jobs_start :: "(datetime, jobs_db) sys" where
  "sample_jobs_start =
     \<lparr>now_at = (\<lambda>n. Aware (int n)), ticks = 0, id_at = (\<lambda>_. ''11111111-2222-4333-8444-666666666666''), id_count = 0,
      db = \<lparr>sx_catalog = \<lparr>ca_tools = [], ca_versions = [], ca_published = []\<rparr>, sx_embeddings = [],
            sj_jobs = [(sample_job_id, sample_job)], sj_tenants = [sample_tenant]\<rparr>\<rparr>"

lemma sample_jobs_ok: "jobs_ok (db sample_jobs_start)"
  by (simp add: jobs_ok_def keyed_def sample_jobs_start_def sample_job_def new_reindex_job_def)

lemma sample_job_provider_keeps: "keeps_db (em_embed sample_job_provider texts)"
  by (simp add: sample_job_provider_def)

lemma sample_create_refused:
  "fst (create_reindex_job sample_job_ports True ((mq_context sample_search)\<lparr>cx_tenant_id := sample_tenant\<rparr>) False 1
     sample_jobs_start) = Inl (NexusError ToolSearchReindexJobConflictError)"
  by code_simp

text \<open>A second active job is refused.\<close>

theorem one_active_reindex_job_witness:
  "fst (create_reindex_job sample_job_ports True ((mq_context sample_search)\<lparr>cx_tenant_id := sample_tenant\<rparr>) False 1
     sample_jobs_start) = Inl (NexusError ToolSearchReindexJobConflictError) \<and>
   jobs_ok (db (snd (run_reindex_job sample_sha sample_job_ports sample_tenant sample_job_id sample_jobs_start)))"
proof -
  have "\<forall>provider texts. rx_provider sample_job_ports = Some provider \<longrightarrow> keeps_jobs_ok (em_embed provider texts)"
    using jobs_kept.stable_keeps [OF sample_job_provider_keeps] by (simp add: sample_job_ports_def)
  from one_active_reindex_job [OF sample_jobs_ok this] sample_create_refused show ?thesis by blast
qed

lemma sample_uuids: "as_uuid ''tenant id'' sample_tenant = Inr sample_tenant" "as_uuid ''reindex job id'' sample_job_id = Inr sample_job_id"
  by code_simp+

lemma empty_reindex:
  assumes "published_documents sha (cx_tenant_id (rc_context c)) (db u) = Inr []"
    and "1 \<le> rc_batch_size c" "rc_batch_size c \<le> 64"
  shows "\<exists>r. reindex_tools sha p c u = (Inr r, u)"
  using assms by (simp add: reindex_tools_def Let_def run_pure bind_known [OF load_existing_runs] ret_def)


end
