(* ===== verification/Embedding_Provider_Correct.thy ===== *)
theory Embedding_Provider_Correct
  imports Embedding_Provider Search_Jobs_Correct
begin

text \<open>
  The contract of an embedding provider, what the vector search and the reindex make of it, and that the
  provider over HTTP keeps it, in whatever order its service answers.
\<close>

section \<open>The contract\<close>

definition vector_ok :: "string \<Rightarrow> int \<Rightarrow> embedding_vector \<Rightarrow> bool" where
  "vector_ok model dimensions v \<longleftrightarrow>
     ev_model v = model \<and> ev_dimensions v = dimensions \<and> vector_post_init v = Inr v"

locale embedding_contract =
  fixes provider :: "'s embedding_provider"
  assumes embeds: "em_embed provider texts s = (Inr vs, t) \<Longrightarrow>
    length vs = length texts \<and> (\<forall>v \<in> set vs. vector_ok (em_model provider) (em_dimensions provider) v)"
begin

text \<open>A query gets its one vector, and the checks of the count and the model never fail.\<close>

lemma query_vector: "em_embed provider [text] s = (Inr vs, t) \<Longrightarrow> \<exists>v. vs = [v] \<and> single_vector provider vs = Inr v"
  using embeds [of "[text]" s vs t] by (auto simp: length_Suc_conv single_vector_def vector_ok_def)

lemma batch_complete:
  assumes "em_embed provider (map sd_content batch) s = (Inr vs, t)"
  shows "length vs = length batch"
  using embeds [OF assms] by simp

end

section \<open>Parsing\<close>

lemma parse_vector_ok: "parse_vector c raw = Inr v \<Longrightarrow> vector_ok (ec_model c) (ec_dimensions c) v"
  by (auto simp: parse_vector_def result_bind_def vector_ok_def vector_post_init_def validated_Inr_iff split: sum.splits)

lemma parse_item_ok:
  assumes "parse_item c x d = Inr d'" "\<forall>v \<in> set (dict_values d). vector_ok (ec_model c) (ec_dimensions c) v"
  shows "\<forall>v \<in> set (dict_values d'). vector_ok (ec_model c) (ec_dimensions c) v"
proof -
  obtain index vector raw where "parse_vector c raw = Inr vector" "d' = dict_set index vector d"
    using assms(1) by (auto simp: parse_item_def result_bind_def split: payload.splits sum.splits if_splits)
  note new = this
  have "\<forall>v \<in> insert vector (set (dict_values d)). vector_ok (ec_model c) (ec_dimensions c) v"
    using assms(2) parse_vector_ok [OF new(1)] by simp
  moreover have "set (dict_values d') \<subseteq> insert vector (set (dict_values d))"
    unfolding new(2) by (rule dict_values_set_subset)
  ultimately show ?thesis by (meson subsetD)
qed

lemma parse_items_ok:
  "parse_items c xs d = Inr d' \<Longrightarrow> \<forall>v \<in> set (dict_values d). vector_ok (ec_model c) (ec_dimensions c) v \<Longrightarrow>
   \<forall>v \<in> set (dict_values d'). vector_ok (ec_model c) (ec_dimensions c) v"
proof (induction xs arbitrary: d)
  case (Cons x xs)
  then obtain e where "parse_item c x d = Inr e" "parse_items c xs e = Inr d'"
    by (auto simp: result_bind_def split: sum.splits)
  then show ?case using Cons.IH parse_item_ok Cons.prems(2) by blast
qed simp

lemma parse_vectors_ok:
  assumes "parse_vectors c n p = Inr vs"
  shows "length vs = n \<and> (\<forall>v \<in> set vs. vector_ok (ec_model c) (ec_dimensions c) v)"
proof -
  obtain kvs raw_data d where d: "parse_items c raw_data [] = Inr d" "set (map fst d) = set (map int [0 ..< n])"
      and vs: "vs = map (\<lambda>i. the (dict_get d (int i))) [0 ..< n]"
    using assms by (auto simp: parse_vectors_def result_bind_def split: payload.splits sum.splits if_splits)
  have "vector_ok (ec_model c) (ec_dimensions c) (the (dict_get d (int i)))" if "i < n" for i
  proof -
    have "int i \<in> set (map fst d)" using that d(2) by auto
    then obtain v where "dict_get d (int i) = Some v" by (cases "dict_get d (int i)") (auto simp: map_of_eq_None_iff)
    then show ?thesis using parse_items_ok [OF d(1)] dict_get_values by fastforce
  qed
  then show ?thesis by (auto simp: vs)
qed

interpretation siliconflow: embedding_contract "siliconflow_provider client c" for client c
proof (rule embedding_contract.intro)
  fix texts s vs t
  assume "em_embed (siliconflow_provider client c) texts s = (Inr vs, t)"
  then obtain outcome where "read_embeddings c (length texts) outcome = Inr vs"
    by (auto simp: siliconflow_provider_def siliconflow_embed_def run_Inr)
  then have "\<exists>p. parse_vectors c (length texts) p = Inr vs"
    by (auto simp: read_embeddings_def split: embedding_outcome.splits if_splits option.splits)
  then show "length vs = length texts \<and>
      (\<forall>v \<in> set vs. vector_ok (em_model (siliconflow_provider client c)) (em_dimensions (siliconflow_provider client c)) v)"
    using parse_vectors_ok by (auto simp: siliconflow_provider_def)
qed

section \<open>Order\<close>

text \<open>One item of an answer.\<close>

definition answer_item :: "int \<times> embedding_vector \<Rightarrow> payload" where
  "answer_item iv = P_Obj [(''object'', P_Str ''embedding''), (''index'', P_Int (fst iv)),
     (''embedding'', P_List (map P_Float (ev_values (snd iv))))]"

lemma floats_parse: "collect_results float_value (map P_Float fs) = Inr fs"
  by (induction fs) (simp_all add: float_value_def result_bind_def)

lemma parse_answer_item:
  assumes "vector_ok (ec_model c) (ec_dimensions c) v" "dict_get d i = None"
  shows "parse_item c (answer_item (i, v)) d = Inr (d @ [(i, v)])"
proof -
  have same: "\<lparr>ev_model = ec_model c, ev_dimensions = ec_dimensions c, ev_values = ev_values v\<rparr> = v"
    using assms(1) by (cases v) (simp add: vector_ok_def)
  have "parse_vector c (map P_Float (ev_values v)) = Inr v"
    unfolding parse_vector_def floats_parse result_bind_def sum.case same using assms(1) by (simp add: vector_ok_def)
  then show ?thesis
    using assms(2) by (simp add: parse_item_def answer_item_def payload_get_def result_bind_def dict_set_fresh)
qed

lemma parse_answer:
  assumes "\<forall>iv \<in> set ps. vector_ok (ec_model c) (ec_dimensions c) (snd iv)" "distinct (map fst (d @ ps))"
  shows "parse_items c (map answer_item ps) d = Inr (d @ ps)"
  using assms
proof (induction ps arbitrary: d)
  case (Cons iv ps)
  obtain i v where iv: "iv = (i, v)" by fastforce
  have "dict_get d i = None" using Cons.prems(2) by (auto simp: iv map_of_eq_None_iff)
  then have "parse_item c (answer_item iv) d = Inr (d @ [iv])"
    using Cons.prems(1) by (simp add: iv parse_answer_item)
  then show ?case using Cons.IH [of "d @ [iv]"] Cons.prems by (simp add: result_bind_def)
qed simp

text \<open>The answer for a list of vectors, in some order.\<close>

definition answers :: "embedding_vector list \<Rightarrow> (int \<times> embedding_vector) list \<Rightarrow> bool" where
  "answers vs ps \<longleftrightarrow> mset ps = mset (zip (map int [0 ..< length vs]) vs)"

definition answer_payload :: "(int \<times> embedding_vector) list \<Rightarrow> payload" where
  "answer_payload ps = P_Obj [(''object'', P_Str ''list''), (''data'', P_List (map answer_item ps))]"

lemma answers_parse:
  assumes "answers vs ps" "\<forall>v \<in> set vs. vector_ok (ec_model c) (ec_dimensions c) v"
  shows "parse_vectors c (length vs) (answer_payload ps) = Inr vs"
proof -
  let ?zs = "zip (map int [0 ..< length vs]) vs"
  have zs: "map fst ?zs = map int [0 ..< length vs]" by simp
  have len: "length ps = length vs" using assms(1) by (metis answers_def length_map length_upt length_zip min.idem minus_nat.diff_0 size_mset)
  have set: "set ps = set ?zs" using assms(1) by (metis answers_def set_mset_mset)
  have "mset (map fst ps) = mset (map int [0 ..< length vs])"
    using assms(1) zs by (metis answers_def mset_map)
  then have "distinct (map fst ps) \<longleftrightarrow> distinct (map int [0 ..< length vs])"
      "set (map fst ps) = set (map int [0 ..< length vs])"
    by (rule mset_eq_imp_distinct_iff, rule mset_eq_setD)
  then have keys: "distinct (map fst ps)" "set (map fst ps) = set (map int [0 ..< length vs])"
    by (simp_all add: distinct_map inj_on_def)
  have "\<forall>iv \<in> set ps. vector_ok (ec_model c) (ec_dimensions c) (snd iv)"
    using assms(2) by (auto simp: set dest: set_zip_rightD)
  then have parsed: "parse_items c (map answer_item ps) [] = Inr ps" using keys(1) by (simp add: parse_answer)
  have "dict_get ps (int i) = Some (vs ! i)" if "i < length vs" for i
  proof -
    have "(int i, vs ! i) \<in> set ?zs" using that by (auto simp: set_zip intro!: exI [of _ i])
    then show ?thesis using keys(1) by (simp add: set)
  qed
  then have "map (\<lambda>i. the (dict_get ps (int i))) [0 ..< length vs] = vs" by (intro nth_equalityI) simp_all
  then show ?thesis
    using parsed len keys(2) by (simp add: parse_vectors_def answer_payload_def payload_get_def result_bind_def)
qed

text \<open>C39: The provider gives each text its vector. When the service answers a batch with the vectors of its texts,
  in any order but each under the index of its text, the provider returns them in the order of the texts.
  And whatever the service answers, a batch that succeeds has one vector per text, each of the configured
  model and dimensions with finite values.\<close>

theorem embed_restores_order:
  assumes "texts \<noteq> []" "int (length texts) \<le> ec_max_batch_size c" "\<forall>text \<in> set texts. \<not> blank text"
    and "length vs = length texts" "\<forall>v \<in> set vs. vector_ok (ec_model c) (ec_dimensions c) v" "answers vs ps"
    and "client (embedding_request c texts) s =
      (Inr (Embedded \<lparr>ey_status_code = 200, ey_payload = Some (answer_payload ps)\<rparr>), t)"
  shows "siliconflow_embed client c texts s = (Inr vs, t) \<and>
    (\<forall>client' s' ws t'. siliconflow_embed client' c texts s' = (Inr ws, t') \<longrightarrow>
       length ws = length texts \<and> (\<forall>w \<in> set ws. vector_ok (ec_model c) (ec_dimensions c) w))"
proof
  have "\<not> list_ex blank texts" using assms(3) by (simp add: list_ex_iff)
  moreover have "parse_vectors c (length texts) (answer_payload ps) = Inr vs"
    using answers_parse [OF assms(6,5)] assms(4) by simp
  ultimately show "siliconflow_embed client c texts s = (Inr vs, t)"
    using assms(1,2,7)
    by (simp add: siliconflow_embed_def seq_def bind_def raise_if_def ret_def lift_def read_embeddings_def)
  show "\<forall>client' s' ws t'. siliconflow_embed client' c texts s' = (Inr ws, t') \<longrightarrow>
      length ws = length texts \<and> (\<forall>w \<in> set ws. vector_ok (ec_model c) (ec_dimensions c) w)"
  proof (intro allI impI)
    fix client' s' ws t'
    assume "siliconflow_embed client' c texts s' = (Inr ws, t')"
    then show "length ws = length texts \<and> (\<forall>w \<in> set ws. vector_ok (ec_model c) (ec_dimensions c) w)"
      using siliconflow.embeds [of client' c texts s' ws t'] by (simp add: siliconflow_provider_def)
  qed
qed

definition small_config :: embedding_config where
  "small_config = \<lparr>ec_api_url = ''https://embed'', ec_api_key = SecretValue ''k'', ec_model = ''m'', ec_dimensions = 2,
     ec_timeout_seconds = 60, ec_max_batch_size = 2\<rparr>"

definition small_vector :: "rat \<Rightarrow> embedding_vector" where
  "small_vector x = \<lparr>ev_model = ''m'', ev_dimensions = 2, ev_values = [Finite x, Finite 1]\<rparr>"

text \<open>Two texts, answered in the opposite order.\<close>

theorem embed_restores_order_witness:
  "siliconflow_embed (\<lambda>_. ret (Embedded \<lparr>ey_status_code = 200, ey_payload =
      Some (answer_payload [(1, small_vector 7), (0, small_vector 5)])\<rparr>)) small_config [''a'', ''b''] () =
   (Inr [small_vector 5, small_vector 7], ())"
proof -
  have texts: "\<forall>text \<in> set [''a'', ''b'']. \<not> blank text" by code_simp
  have "vector_ok ''m'' 2 (small_vector x)" for x
    by (simp add: vector_ok_def small_vector_def vector_post_init_def validated_Inr_iff blank_iff)
      (simp add: py_isspace_def)
  then have vectors: "\<forall>v \<in> set [small_vector 5, small_vector 7].
      vector_ok (ec_model small_config) (ec_dimensions small_config) v"
    by (simp add: small_config_def)
  have order: "answers [small_vector 5, small_vector 7] [(1, small_vector 7), (0, small_vector 5)]"
    by (simp add: answers_def upt_rec)
  have sizes: "[''a'', ''b''] \<noteq> []" "int (length [''a'', ''b'']) \<le> ec_max_batch_size small_config"
      "length [small_vector 5, small_vector 7] = length [''a'', ''b'']"
    by (simp_all add: small_config_def)
  show ?thesis
    by (rule embed_restores_order [OF sizes(1,2) texts sizes(3) vectors order, THEN conjunct1]) (simp add: ret_def)
qed

section \<open>Batches that the provider refuses\<close>

text \<open>A reindex accepts batches of up to 64 texts whatever the provider was configured with: a batch beyond the
  provider's own limit fails with a plain \<open>ValueError\<close> before anything is sent or stored.\<close>

lemma oversized_batch_refused:
  assumes "int (length b) > ec_max_batch_size c"
  shows "index_batches p (siliconflow_provider client c) tenant existing (b # bs) (m, n) s =
    (Inl (ValueError ''embedding batch size was invalid''), s)"
  using assms
  by (simp add: index_batch_def siliconflow_provider_def siliconflow_embed_def seq_def bind_def raise_if_def raise_def)

end
