(* ===== verification/Mcp_Interface.thy ===== *)
theory Mcp_Interface
  imports Toolset_Runtime Search_Query
begin

text \<open>
  What an MCP request becomes and what comes back: the request context and the endpoint scope
  (\<open>interfaces/mcp/context.py\<close>), tool errors (\<open>errors.py\<close>) and the built-in search tool
  (\<open>meta_tools.py\<close>). Of the SDK's request context \<open>raw_context\<close> keeps what the code reads; path
  parameters and headers are \<open>None\<close> where the request has no mapping of them. The scores of the search
  are fractions and JSON values have none, so a candidate keeps its rank beside its other fields, and
  the text of a search result, which repeats its structured content, is left out.
\<close>

section \<open>Request context\<close>

record raw_context =
  rw_protocol_version :: string
  rw_request_id :: "string option"
  rw_headers :: "(string \<times> string) list option"
  rw_path_params :: "(string \<times> json) list option"

definition MODERN_PROTOCOL_VERSION :: string where
  "MODERN_PROTOCOL_VERSION = ''2026-07-28''"

definition request_headers :: "raw_context \<Rightarrow> (string, string) dict" where
  "request_headers raw =
     (case rw_headers raw of None \<Rightarrow> [] | Some hs \<Rightarrow> dict_from (\<lambda>h. py_lower (fst h)) snd hs)"

definition resolve_endpoint_scope :: "raw_context \<Rightarrow> endpoint_scope result" where
  "resolve_endpoint_scope raw =
     (case rw_path_params raw of
        None \<Rightarrow> root_scope
      | Some params \<Rightarrow>
          (case dict_get params ''toolset_slug'' of
             None \<Rightarrow> root_scope
           | Some JNull \<Rightarrow> root_scope
           | Some (JStr slug) \<Rightarrow>
               if slug = [] then Inl (ValueError ''toolset endpoint path contained an invalid slug'')
               else toolset_scope slug
           | Some _ \<Rightarrow> Inl (ValueError ''toolset endpoint path contained an invalid slug'')))"

definition is_hex :: "char \<Rightarrow> bool" where
  "is_hex c \<longleftrightarrow> c \<in> set ''0123456789abcdefABCDEF''"

text \<open>The pattern of \<open>traceparent\<close>: hexadecimal groups of 2, 32, 16 and 2 characters.\<close>

definition traceparent_match :: "string \<Rightarrow> string option" where
  "traceparent_match s =
     (if length s = 55 \<and> s ! 2 = CHR ''-'' \<and> s ! 35 = CHR ''-'' \<and> s ! 52 = CHR ''-'' \<and>
         list_all is_hex (take 2 s) \<and> list_all is_hex (take 32 (drop 3 s)) \<and>
         list_all is_hex (take 16 (drop 36 s)) \<and> list_all is_hex (drop 53 s)
      then Some (take 32 (drop 3 s)) else None)"

text \<open>The texts \<open>uuid.uuid4()\<close> would give are arguments.\<close>

definition trace_id :: "string \<Rightarrow> (string, string) dict \<Rightarrow> string" where
  "trace_id fresh_hex headers =
     (case traceparent_match (case dict_get headers ''traceparent'' of None \<Rightarrow> [] | Some t \<Rightarrow> t) of
        Some t \<Rightarrow> py_lower t
      | None \<Rightarrow> fresh_hex)"

definition principal_type_value :: "principal_type \<Rightarrow> string" where
  "principal_type_value t = (case t of AGENT_SERVICE \<Rightarrow> ''agent_service'' | ANONYMOUS \<Rightarrow> ''anonymous'')"

definition resolve_request_context ::
  "string \<Rightarrow> string \<Rightarrow> raw_context \<Rightarrow> string \<Rightarrow> internal_principal option \<Rightarrow> request_context result" where
  "resolve_request_context fresh_uuid fresh_hex raw tenant_id caller =
     result_bind
       (case caller of
          Some p \<Rightarrow> Inr p
        | None \<Rightarrow> principal_post_init
            \<lparr>pr_id = ANONYMOUS_PRINCIPAL_ID, pr_tenant_id = tenant_id, pr_principal_type = ANONYMOUS,
             pr_authn_method = ''anonymous''\<rparr>) (\<lambda>p.
     Inr
       \<lparr>cx_request_id = (case rw_request_id raw of None \<Rightarrow> fresh_uuid | Some i \<Rightarrow> i),
        cx_trace_id = trace_id fresh_hex (request_headers raw), cx_tenant_id = tenant_id, cx_principal_id = pr_id p,
        cx_authn_method = pr_authn_method p, cx_principal_type = principal_type_value (pr_principal_type p),
        cx_protocol_version = rw_protocol_version raw,
        cx_protocol_era = (if rw_protocol_version raw = MODERN_PROTOCOL_VERSION then MODERN else LEGACY),
        cx_policy_snapshot = None\<rparr>)"

text \<open>The resolver the application installs (\<open>bootstrap/app.py\<close>): the bearer token, when agents must
  authenticate, decides the principal.\<close>

definition app_context_resolver ::
  "(string \<Rightarrow> string) \<Rightarrow> string \<Rightarrow> string \<Rightarrow> bearer_mapping list option \<Rightarrow> internal_principal option \<Rightarrow> string \<Rightarrow>
   raw_context \<Rightarrow> request_context result" where
  "app_context_resolver sha fresh_uuid fresh_hex identities static_principal tenant_id raw =
     result_bind
       (case identities of
          None \<Rightarrow> Inr static_principal
        | Some ids \<Rightarrow>
            result_bind (bearer_authenticate sha ids (dict_get (request_headers raw) ''authorization'') tenant_id)
              (\<lambda>p. Inr (Some p))) (\<lambda>caller.
     resolve_request_context fresh_uuid fresh_hex raw tenant_id caller)"

section \<open>Results\<close>

record tool_result =
  tr_text :: string
  tr_structured_content :: json
  tr_is_error :: bool
  tr_meta :: "(string \<times> json) list"

fun existing_execution_id :: "nexus_error \<Rightarrow> string option" where
  "existing_execution_id (IdempotencyConflictError i) = Some i"
| "existing_execution_id (IdempotencyInProgressError i) = Some i"
| "existing_execution_id (IdempotencyAlreadyCompletedError i) = Some i"
| "existing_execution_id (IdempotencyOutcomeUnknownError i) = Some i"
| "existing_execution_id (IdempotencyPreviousFailedError i) = Some i"
| "existing_execution_id _ = None"

definition error_result :: "string \<Rightarrow> string \<Rightarrow> string option \<Rightarrow> tool_result" where
  "error_result code message execution_id =
     \<lparr>tr_text = message, tr_structured_content = JNull, tr_is_error = True,
      tr_meta = (''com.nexusmcp/errorCode'', JStr code) #
        (case execution_id of None \<Rightarrow> [] | Some i \<Rightarrow> [(''com.nexusmcp/existingExecutionId'', JStr i)])\<rparr>"

definition call_tool_error :: "nexus_error \<Rightarrow> tool_result" where
  "call_tool_error e = error_result (error_code e) (safe_message e) (existing_execution_id e)"

text \<open>The result for a plain \<open>NexusMcpError\<close>, which stands for whatever must not be shown.\<close>

definition plain_error :: tool_result where
  "plain_error = error_result ''nexusmcp_error'' ''The request could not be completed.'' None"

text \<open>What a rejected request that has no tool result raises: \<open>MCPError\<close> with its code, message and data.\<close>

record mcp_error =
  me_code :: int
  me_message :: string
  me_error_code :: string

definition INVALID_REQUEST :: int where
  "INVALID_REQUEST = - 32600"

definition to_mcp_error :: "nexus_error \<Rightarrow> mcp_error" where
  "to_mcp_error e = \<lparr>me_code = INVALID_REQUEST, me_message = safe_message e, me_error_code = error_code e\<rparr>"

section \<open>The search tool\<close>

definition NEXUS_SEARCH_TOOLS_NAME :: string where
  "NEXUS_SEARCH_TOOLS_NAME = ''nexus.search_tools''"

record protocol_tool =
  pl_name :: string
  pl_title :: string
  pl_description :: string
  pl_input_schema :: json
  pl_output_schema :: "json option"
  pl_meta :: "(string \<times> json) list"

definition search_tools_definition :: protocol_tool where
  "search_tools_definition =
     \<lparr>pl_name = NEXUS_SEARCH_TOOLS_NAME, pl_title = ''Search enterprise tools'',
      pl_description =
        ''Search the visible enterprise Tool Catalog. Use lexical for explicit names, namespaces, tags, abbreviations, or domain keywords. Use hybrid for fuzzy, synonymous, or cross-language intent, and when lexical candidates are insufficient.'',
      pl_input_schema = JObj
        [(''type'', JStr ''object''),
         (''properties'', JObj
            [(''query'', JObj [(''type'', JStr ''string''), (''minLength'', JInt 1), (''maxLength'', JInt 200)]),
             (''retrieval_mode'', JObj [(''type'', JStr ''string''), (''enum'', JList [JStr ''lexical'', JStr ''hybrid''])]),
             (''limit'', JObj [(''type'', JStr ''integer''), (''minimum'', JInt 1), (''maximum'', JInt 10), (''default'', JInt 5)]),
             (''namespace'', JObj [(''type'', JList [JStr ''string'', JStr ''null''])]),
             (''side_effect'', JObj
                [(''type'', JList [JStr ''string'', JStr ''null'']),
                 (''enum'', JList
                    [JStr ''read_only'', JStr ''idempotent_write'', JStr ''non_idempotent_write'', JStr ''unknown'', JNull])])]),
         (''required'', JList [JStr ''query'', JStr ''retrieval_mode'']),
         (''additionalProperties'', JBool False)],
      pl_output_schema = Some (JObj
        [(''type'', JStr ''object''),
         (''properties'', JObj
            [(''retrievalMode'', JObj [(''type'', JStr ''string'')]),
             (''tools'', JObj [(''type'', JStr ''array''), (''items'', JObj [(''type'', JStr ''object'')])])]),
         (''required'', JList [JStr ''retrievalMode'', JStr ''tools''])]),
      pl_meta = [(''com.nexusmcp/builtIn'', JBool True)]\<rparr>"

definition retrieval_mode_value :: "retrieval_mode \<Rightarrow> string" where
  "retrieval_mode_value m = (case m of LEXICAL \<Rightarrow> ''lexical'' | HYBRID \<Rightarrow> ''hybrid'')"

definition parse_retrieval_mode :: "json option \<Rightarrow> retrieval_mode result" where
  "parse_retrieval_mode v =
     (if v = Some (JStr ''lexical'') then Inr LEXICAL
      else if v = Some (JStr ''hybrid'') then Inr HYBRID
      else Inl invalid_arguments)"

definition parse_side_effect :: "json option \<Rightarrow> tool_side_effect option result" where
  "parse_side_effect v =
     (case v of
        None \<Rightarrow> Inr None
      | Some JNull \<Rightarrow> Inr None
      | Some (JStr s) \<Rightarrow>
          (case List.find (\<lambda>e. side_effect_value e = s) [READ_ONLY, IDEMPOTENT_WRITE, NON_IDEMPOTENT_WRITE, SIDE_EFFECT_UNKNOWN] of
             None \<Rightarrow> Inl invalid_arguments
           | Some e \<Rightarrow> Inr (Some e))
      | Some _ \<Rightarrow> Inl invalid_arguments)"

definition parse_search_tools_query ::
  "actor_context \<Rightarrow> (string \<times> json) list \<Rightarrow> meta_search_query result" where
  "parse_search_tools_query context' arguments =
     (if \<not> set (map fst arguments) \<subseteq> {''query'', ''retrieval_mode'', ''limit'', ''namespace'', ''side_effect''}
      then Inl invalid_arguments
      else case dict_get arguments ''query'' of
        Some (JStr text) \<Rightarrow>
          if py_strip text = [] then Inl invalid_arguments
          else
            result_bind (parse_retrieval_mode (dict_get arguments ''retrieval_mode'')) (\<lambda>mode.
            result_bind
              (case dict_get arguments ''limit'' of
                 None \<Rightarrow> Inr 5
               | Some (JInt n) \<Rightarrow> Inr n
               | Some _ \<Rightarrow> Inl invalid_arguments) (\<lambda>limit.
            result_bind
              (case dict_get arguments ''namespace'' of
                 None \<Rightarrow> Inr None
               | Some JNull \<Rightarrow> Inr None
               | Some (JStr ns) \<Rightarrow> Inr (Some ns)
               | Some _ \<Rightarrow> Inl invalid_arguments) (\<lambda>namespace.
            result_bind (parse_side_effect (dict_get arguments ''side_effect'')) (\<lambda>side_effect.
              Inr \<lparr>mq_context = context', mq_text = text, mq_retrieval_mode = mode, mq_limit = limit,
                   mq_namespace = namespace, mq_side_effect = side_effect, mq_eligible_tool_ids = None\<rparr>))))
      | _ \<Rightarrow> Inl invalid_arguments)"

record search_candidate =
  sc_fields :: "(string \<times> json) list"
  sc_rank :: rat

record search_tool_result =
  sr_retrieval_mode :: string
  sr_tools :: "search_candidate list"
  sr_meta :: "(string \<times> json) list"

definition json_option :: "string option \<Rightarrow> json" where
  "json_option v = (case v of None \<Rightarrow> JNull | Some s \<Rightarrow> JStr s)"

definition candidate :: "scored_hit \<Rightarrow> search_candidate" where
  "candidate h =
     (let t = sh_tool h in
      \<lparr>sc_fields =
         [(''name'', JStr (pt_canonical_name t)), (''title'', JStr (pt_display_name t)),
          (''description'', JStr (pt_description t)), (''namespace'', JStr (published_namespace t)),
          (''owner'', json_option (pt_owner t)), (''tags'', JList (map JStr (pt_tags t))),
          (''version'', JInt (pt_version t)), (''sideEffect'', JStr (side_effect_value (pt_side_effect t))),
          (''inputSchema'', pt_input_schema t),
          (''outputSchema'', (case pt_output_schema t of None \<Rightarrow> JNull | Some s \<Rightarrow> s)),
          (''toolId'', JStr (pt_tool_id t)), (''toolVersionId'', JStr (pt_tool_version_id t))],
       sc_rank = sh_rank h\<rparr>)"

definition search_tools_result :: "meta_search_result \<Rightarrow> search_tool_result" where
  "search_tools_result r =
     \<lparr>sr_retrieval_mode = retrieval_mode_value (mr_retrieval_mode r), sr_tools = map candidate (mr_hits r),
      sr_meta =
        [(''com.nexusmcp/searchStrategyUsed'', JStr (retrieval_mode_value (mr_retrieval_mode r))),
         (''com.nexusmcp/candidateCount'', JInt (int (length (mr_hits r))))] @
        (case mr_index_version r of None \<Rightarrow> [] | Some v \<Rightarrow> [(''com.nexusmcp/indexVersion'', JStr v)])\<rparr>"

end
