(* ===== verification/Bootstrap.thy ===== *)
theory Bootstrap
  imports Egress Identity Python_Text Mcp_Interface
begin

text \<open>
  What the process is started with: the validated settings (\<open>bootstrap/config.py\<close>) and the choices of
  \<open>create_app\<close> (\<open>bootstrap/app.py\<close>) that decide who the caller is and where the gateway may connect to.
  Floating-point settings are rationals; \<open>uuid.UUID\<close> and \<open>ip_network\<close> are those of the other components.
\<close>

section \<open>Settings\<close>

datatype environment = ENV_DEVELOPMENT | ENV_TEST | ENV_PRODUCTION

datatype telemetry_exporter = EXPORTER_NONE | EXPORTER_CONSOLE | EXPORTER_OTLP_HTTP

datatype catalog_backend = BACKEND_MEMORY | BACKEND_POSTGRESQL

datatype discovery_setting = EAGER | SEARCH_FIRST

datatype mcp_identity_mode = STATIC_SERVICE | SERVICE_IDENTITY

datatype admin_identity_mode = ADMIN_LOCAL | ADMIN_PUBLIC_DEMO

record settings =
  cf_app_name :: string
  cf_service_name :: string
  cf_environment :: environment
  cf_debug :: bool
  cf_log_level :: string
  cf_log_format :: string
  cf_telemetry_enabled :: bool
  cf_telemetry_exporter :: telemetry_exporter
  cf_telemetry_otlp_endpoint :: "string option"
  cf_telemetry_export_interval_ms :: int
  cf_telemetry_export_timeout_seconds :: rat
  cf_upstream_egress_policy_enabled :: bool
  cf_upstream_allowed_hosts :: "string list"
  cf_upstream_allowed_cidrs :: "string list"
  cf_upstream_allowed_ports :: "int list"
  cf_upstream_allow_local_demo :: bool
  cf_catalog_backend :: catalog_backend
  cf_tool_discovery_mode :: discovery_setting
  cf_embedding_model :: string
  cf_embedding_dimensions :: int
  cf_embedding_api_url :: string
  cf_embedding_api_key :: "secret_value option"
  cf_embedding_timeout_seconds :: rat
  cf_embedding_batch_size :: int
  cf_local_tenant_id :: string
  cf_mcp_identity_mode :: mcp_identity_mode
  cf_static_agent_principal_id :: string
  cf_database_url :: "secret_value option"
  cf_database_echo :: bool
  cf_database_readiness_timeout_seconds :: rat
  cf_control_plane_enabled :: bool
  cf_tool_execution_enabled :: bool
  cf_tool_call_timeout_seconds :: rat
  cf_tool_retry_max_attempts :: int
  cf_tool_retry_initial_backoff_seconds :: rat
  cf_approval_ttl_seconds :: rat
  cf_request_state_key :: "secret_value option"
  cf_admin_identity_mode :: admin_identity_mode
  cf_local_admin_principal_id :: string
  cf_demo_admin_principal_id :: string
  cf_openapi_fixture_root :: string
  cf_transport_allowed_hosts :: "string list"
  cf_transport_allowed_origins :: "string list"

definition default_settings :: settings where
  "default_settings =
     \<lparr>cf_app_name = ''NexusMCP'', cf_service_name = ''nexusmcp'', cf_environment = ENV_DEVELOPMENT, cf_debug = False,
      cf_log_level = ''INFO'', cf_log_format = ''console'', cf_telemetry_enabled = False,
      cf_telemetry_exporter = EXPORTER_NONE, cf_telemetry_otlp_endpoint = None,
      cf_telemetry_export_interval_ms = 60000, cf_telemetry_export_timeout_seconds = 10,
      cf_upstream_egress_policy_enabled = False, cf_upstream_allowed_hosts = [], cf_upstream_allowed_cidrs = [],
      cf_upstream_allowed_ports = [80, 443], cf_upstream_allow_local_demo = False,
      cf_catalog_backend = BACKEND_MEMORY, cf_tool_discovery_mode = EAGER,
      cf_embedding_model = ''Qwen/Qwen3-Embedding-8B'', cf_embedding_dimensions = 2048,
      cf_embedding_api_url = ''https://api.siliconflow.cn/v1/embeddings'', cf_embedding_api_key = None,
      cf_embedding_timeout_seconds = 60, cf_embedding_batch_size = 16, cf_local_tenant_id = ''local'',
      cf_mcp_identity_mode = STATIC_SERVICE, cf_static_agent_principal_id = ''local-agent-service'',
      cf_database_url = None, cf_database_echo = False, cf_database_readiness_timeout_seconds = 1,
      cf_control_plane_enabled = False, cf_tool_execution_enabled = False, cf_tool_call_timeout_seconds = 5,
      cf_tool_retry_max_attempts = 3, cf_tool_retry_initial_backoff_seconds = 1 / 20, cf_approval_ttl_seconds = 600,
      cf_request_state_key = None, cf_admin_identity_mode = ADMIN_LOCAL, cf_local_admin_principal_id = ''local-admin'',
      cf_demo_admin_principal_id = ''public-demo-admin'', cf_openapi_fixture_root = ''examples/upstream_apis'',
      cf_transport_allowed_hosts =
        [''127.0.0.1'', ''127.0.0.1:*'', ''localhost'', ''localhost:*'', ''testserver'', ''testserver:*''],
      cf_transport_allowed_origins = []\<rparr>"

definition normalize_empty_embedding_api_key :: "string option \<Rightarrow> string option" where
  "normalize_empty_embedding_api_key v = (if v = Some [] then None else v)"

definition http_scheme :: "string \<Rightarrow> bool" where
  "http_scheme s \<longleftrightarrow> starts_with s ''https://'' \<or> starts_with s ''http://''"

definition validate_runtime_mode :: "settings \<Rightarrow> settings result" where
  "validate_runtime_mode s = validated
     [(cf_catalog_backend s = BACKEND_POSTGRESQL \<and> cf_database_url s = None,
       ''database_url is required when catalog_backend is postgresql''),
      (cf_environment s = ENV_PRODUCTION \<and> cf_catalog_backend s \<noteq> BACKEND_POSTGRESQL,
       ''production environment requires postgresql catalog_backend''),
      (cf_environment s = ENV_PRODUCTION \<and> cf_control_plane_enabled s \<and> cf_admin_identity_mode s \<noteq> ADMIN_PUBLIC_DEMO,
       ''production Control Plane requires an explicit production Admin identity mode''),
      (cf_control_plane_enabled s \<and> cf_catalog_backend s \<noteq> BACKEND_POSTGRESQL,
       ''control_plane_enabled requires postgresql catalog_backend''),
      (cf_tool_execution_enabled s \<and> cf_catalog_backend s \<noteq> BACKEND_POSTGRESQL,
       ''tool_execution_enabled requires postgresql catalog_backend''),
      (cf_control_plane_enabled s \<and> uuid_of (cf_local_tenant_id s) = None,
       ''control_plane_enabled requires UUID local_tenant_id''),
      (cf_admin_identity_mode s = ADMIN_PUBLIC_DEMO \<and> \<not> cf_control_plane_enabled s,
       ''public_demo Admin identity requires control_plane_enabled''),
      (cf_admin_identity_mode s = ADMIN_PUBLIC_DEMO \<and> cf_environment s = ENV_DEVELOPMENT,
       ''public_demo Admin identity requires test or production environment''),
      (cf_admin_identity_mode s = ADMIN_LOCAL \<and> blank (cf_local_admin_principal_id s),
       ''local Admin identity requires local_admin_principal_id''),
      (cf_admin_identity_mode s = ADMIN_PUBLIC_DEMO \<and> blank (cf_demo_admin_principal_id s),
       ''public_demo Admin identity requires demo_admin_principal_id''),
      (cf_mcp_identity_mode s = STATIC_SERVICE \<and> blank (cf_static_agent_principal_id s),
       ''static_service requires static_agent_principal_id''),
      (cf_database_readiness_timeout_seconds s \<le> 0, ''database_readiness_timeout_seconds must be positive''),
      (cf_telemetry_export_interval_ms s \<le> 0, ''telemetry_export_interval_ms must be positive''),
      (cf_telemetry_export_timeout_seconds s \<le> 0, ''telemetry_export_timeout_seconds must be positive''),
      (cf_telemetry_exporter s = EXPORTER_OTLP_HTTP \<and>
         (cf_telemetry_otlp_endpoint s = None \<or> cf_telemetry_otlp_endpoint s = Some []),
       ''otlp_http telemetry exporter requires telemetry_otlp_endpoint''),
      ((case cf_telemetry_otlp_endpoint s of None \<Rightarrow> False | Some e \<Rightarrow> \<not> http_scheme e),
       ''telemetry_otlp_endpoint must use http or https''),
      (list_ex blank (cf_upstream_allowed_hosts s), ''upstream_allowed_hosts must not contain blank values''),
      (None \<in> set (map parse_network (cf_upstream_allowed_cidrs s)),
       ''upstream_allowed_cidrs contained an invalid network''),
      (cf_upstream_allowed_ports s = [] \<or> list_ex (\<lambda>p. \<not> (1 \<le> p \<and> p \<le> 65535)) (cf_upstream_allowed_ports s),
       ''upstream_allowed_ports must contain valid ports''),
      (blank (cf_embedding_model s), ''embedding_model must not be blank''),
      (\<not> (64 \<le> cf_embedding_dimensions s \<and> cf_embedding_dimensions s \<le> 8192),
       ''embedding_dimensions must be between 64 and 8192''),
      (\<not> http_scheme (cf_embedding_api_url s), ''embedding_api_url must use http or https''),
      (cf_embedding_timeout_seconds s \<le> 0, ''embedding_timeout_seconds must be positive''),
      (\<not> (1 \<le> cf_embedding_batch_size s \<and> cf_embedding_batch_size s \<le> 64),
       ''embedding_batch_size must be between 1 and 64''),
      (cf_tool_call_timeout_seconds s \<le> 0, ''tool_call_timeout_seconds must be positive''),
      (\<not> (1 \<le> cf_tool_retry_max_attempts s \<and> cf_tool_retry_max_attempts s \<le> 10),
       ''tool_retry_max_attempts must be between 1 and 10''),
      (cf_tool_retry_initial_backoff_seconds s < 0, ''tool_retry_initial_backoff_seconds must not be negative''),
      (cf_approval_ttl_seconds s \<le> 0, ''approval_ttl_seconds must be positive''),
      ((case cf_request_state_key s of None \<Rightarrow> False | Some k \<Rightarrow> length (utf8_encode (reveal k)) < 32),
       ''request_state_key must contain at least 32 bytes''),
      (cf_environment s = ENV_PRODUCTION \<and> cf_tool_execution_enabled s \<and> cf_request_state_key s = None,
       ''production tool execution requires request_state_key''),
      (cf_environment s = ENV_PRODUCTION \<and> \<not> cf_upstream_egress_policy_enabled s,
       ''production requires upstream egress policy''),
      (cf_environment s = ENV_PRODUCTION \<and> cf_upstream_allow_local_demo s,
       ''production cannot allow local demo upstreams''),
      (cf_upstream_egress_policy_enabled s \<and> \<not> cf_upstream_allow_local_demo s \<and>
         cf_upstream_allowed_hosts s = [] \<and> cf_upstream_allowed_cidrs s = [],
       ''enabled upstream egress policy requires an allowlist'')] s"

section \<open>Composition\<close>

text \<open>The principal of a deployment without agent authentication; an authenticator is given exactly when the
  identity mode asks for one.\<close>

definition static_agent_principal :: "settings \<Rightarrow> bool \<Rightarrow> internal_principal option result" where
  "static_agent_principal s authenticator_given =
     (case cf_mcp_identity_mode s of
        SERVICE_IDENTITY \<Rightarrow>
          if \<not> authenticator_given then Inl (RuntimeError ''service_identity requires AgentServiceAuthenticator'')
          else Inr None
      | STATIC_SERVICE \<Rightarrow>
          if authenticator_given then Inl (RuntimeError ''static_service does not accept AgentServiceAuthenticator'')
          else result_bind (principal_post_init
              \<lparr>pr_id = cf_static_agent_principal_id s, pr_tenant_id = cf_local_tenant_id s,
               pr_principal_type = AGENT_SERVICE, pr_authn_method = ''static_service''\<rparr>) (\<lambda>p. Inr (Some p)))"

definition resolved_endpoint_policy ::
  "ip_runtime \<Rightarrow> (string \<Rightarrow> string option) \<Rightarrow> ('t, 'st) host_resolver \<Rightarrow> settings \<Rightarrow>
   ('t, 'st) endpoint_policy option \<Rightarrow> ('t, 'st) endpoint_policy result" where
  "resolved_endpoint_policy rt idna resolve s given =
     (case given of
        Some p \<Rightarrow> Inr p
      | None \<Rightarrow>
          if cf_upstream_egress_policy_enabled s
          then result_bind (egress_policy_init idna (cf_upstream_allowed_hosts s) (cf_upstream_allowed_cidrs s)
                 (cf_upstream_allowed_ports s) (cf_upstream_allow_local_demo s))
                 (\<lambda>pol. Inr (egress_validate rt idna resolve pol))
          else Inr allow_all_endpoints)"

definition search_first_of :: "settings \<Rightarrow> bool" where
  "search_first_of s \<longleftrightarrow> cf_tool_discovery_mode s = SEARCH_FIRST"

text \<open>Where the request context of an MCP request comes from: the bearer token under service identity, the
  configured principal otherwise.\<close>

definition create_context_resolver ::
  "(string \<Rightarrow> string) \<Rightarrow> settings \<Rightarrow> bearer_mapping list option \<Rightarrow>
   (string \<Rightarrow> string \<Rightarrow> raw_context \<Rightarrow> request_context result) result" where
  "create_context_resolver sha s identities =
     result_bind (static_agent_principal s (identities \<noteq> None)) (\<lambda>caller.
       Inr (\<lambda>fresh_uuid fresh_hex raw.
         app_context_resolver sha fresh_uuid fresh_hex identities caller (cf_local_tenant_id s) raw))"

end
