(* ===== verification/Http_Executor.thy ===== *)
theory Http_Executor
  imports Retrying_Executor Python_Text "HOL-Library.Sublist"
begin

text \<open>
  The executor of HTTP bindings (\<open>execution/adapters/httpx_executor.py\<close>): the guards on the binding, the
  second check of the endpoint, the mapping of arguments to path, query, headers and body, the injection
  of the idempotency key and the credential, and the classification of what comes back. The endpoint
  policy and the HTTP client (\<open>httpx.AsyncClient.request\<close>) are ports; \<open>json=None\<close> is no body.
\<close>

record http_request =
  hq_method :: string
  hq_url :: string
  hq_params :: "(string, string) dict"
  hq_headers :: "(string, string) dict"
  hq_json :: json
  hq_timeout :: rat

text \<open>Of a response: its status, the number of bytes of its content, the header \<open>content-type\<close>, its text
  and what \<open>json()\<close> returns, unless that raises \<open>ValueError\<close>.\<close>

record http_response =
  hp_status_code :: int
  hp_content_length :: nat
  hp_content_type :: "string option"
  hp_text :: string
  hp_json :: "json option"

datatype http_outcome = Responded http_response | Timed_Out | Network_Failed

type_synonym 's http_client = "http_request \<Rightarrow> ('s, http_outcome) prog"

definition httpx_executor_init :: "int \<Rightarrow> int result" where
  "httpx_executor_init max_response_bytes =
     validated [(max_response_bytes \<le> 0, ''max response bytes must be positive'')] max_response_bytes"

definition executor_failed :: "string \<Rightarrow> execution_error_category \<Rightarrow> bool \<Rightarrow> int option \<Rightarrow> exn" where
  "executor_failed code category outcome_unknown upstream_status =
     ExecutorFailure \<lparr>ef_code = code, ef_category = category, ef_outcome_unknown = outcome_unknown,
       ef_upstream_status = upstream_status\<rparr>"

definition refused :: "string \<Rightarrow> execution_error_category \<Rightarrow> exn" where
  "refused code category = executor_failed code category False None"

text \<open>\<open>str(mapping.get(key, ""))\<close>\<close>

definition text_field :: "json \<Rightarrow> string \<Rightarrow> string" where
  "text_field m key = (case json_get m key of None \<Rightarrow> [] | Some v \<Rightarrow> py_str v)"

section \<open>Guards\<close>

definition check_binding :: "executor_request \<Rightarrow> string result" where
  "check_binding request =
    (let tool = er_tool request;
         config = rt_binding_config tool;
         http_method = py_upper (text_field config ''method'')
     in if rt_binding_type tool \<noteq> BINDING_HTTP then Inl (refused ''unsupported_binding_type'' VALIDATION)
        else if http_method \<noteq> ''GET'' \<and> http_method \<noteq> ''PUT''
          then Inl (refused ''write_execution_not_enabled'' AUTHORIZATION)
        else if http_method = ''PUT'' \<and> rt_side_effect tool \<noteq> IDEMPOTENT_WRITE
          then Inl (refused ''put_tool_must_be_idempotent_write'' AUTHORIZATION)
        else if http_method = ''PUT'' \<and> er_idempotency_key request = None
          then Inl (refused ''idempotency_key_required'' VALIDATION)
        else if http_method = ''GET'' \<and> json_get config ''request_body'' \<noteq> None \<and>
                json_get config ''request_body'' \<noteq> Some JNull
          then Inl (refused ''get_binding_must_not_have_request_body'' VALIDATION)
        else Inr http_method)"

text \<open>The check right before connecting; its refusal is a failure of this execution.\<close>

definition recheck_endpoint :: "(string \<Rightarrow> ('s, unit) prog) \<Rightarrow> string \<Rightarrow> ('s, unit) prog" where
  "recheck_endpoint endpoint_policy endpoint =
     catch (endpoint_policy endpoint)
       (\<lambda>e. if e = NexusError UnsafeUpstreamEndpointError
            then raise (refused ''unsafe_upstream_endpoint'' AUTHORIZATION) else raise e)"

section \<open>Mapping the arguments\<close>

type_synonym mapped_arguments = "string \<times> (string, string) dict \<times> (string, string) dict"

definition map_parameter :: "json \<Rightarrow> json \<Rightarrow> mapped_arguments \<Rightarrow> mapped_arguments result" where
  "map_parameter arguments p st =
    (case st of (path, params, headers) \<Rightarrow>
     (case p of
        JObj _ \<Rightarrow>
          (case json_get arguments (text_field p ''argument_name'') of
             None \<Rightarrow>
               if json_get p ''required'' = Some (JBool True)
               then Inl (refused ''required_argument_missing_after_validation'' VALIDATION)
               else Inr (path, params, headers)
           | Some v \<Rightarrow>
               let upstream_name = text_field p ''upstream_name'';
                   location = text_field p ''location'';
                   placeholder = ''{'' @ upstream_name @ ''}''
               in if location = ''path'' then
                    (if \<not> sublist placeholder path
                     then Inl (refused ''path_parameter_placeholder_missing'' VALIDATION)
                     else Inr (py_replace placeholder (py_quote (py_str v)) path, params, headers))
                  else if location = ''query'' then Inr (path, dict_set upstream_name (py_str v) params, headers)
                  else if location = ''header'' then Inr (path, params, dict_set upstream_name (py_str v) headers)
                  else Inl (refused ''unsupported_parameter_location'' VALIDATION))
      | _ \<Rightarrow> Inl (refused ''invalid_parameter_mapping'' VALIDATION)))"

fun map_parameters :: "json \<Rightarrow> json list \<Rightarrow> mapped_arguments \<Rightarrow> mapped_arguments result" where
  "map_parameters arguments [] st = Inr st"
| "map_parameters arguments (p # ps) st = result_bind (map_parameter arguments p st) (map_parameters arguments ps)"

text \<open>The default of a missing \<open>parameters\<close> is an empty tuple, which is not a list.\<close>

definition map_arguments :: "string \<Rightarrow> json option \<Rightarrow> json \<Rightarrow> mapped_arguments result" where
  "map_arguments path_template raw_parameters arguments =
     (case raw_parameters of
        Some (JList ps) \<Rightarrow> map_parameters arguments ps (path_template, [], [])
      | _ \<Rightarrow> Inl (refused ''invalid_parameter_mapping'' VALIDATION))"

definition map_request_body :: "string \<Rightarrow> json option \<Rightarrow> json \<Rightarrow> json result" where
  "map_request_body http_method raw_request_body arguments =
     (if http_method = ''GET'' then Inr JNull
      else case raw_request_body of
        Some (JObj kvs) \<Rightarrow>
          let body = JObj kvs
          in if json_get body ''content_type'' \<noteq> Some (JStr ''application/json'')
             then Inl (refused ''unsupported_request_body_content_type'' VALIDATION)
             else (case json_get arguments (text_field body ''argument_name'') of
                None \<Rightarrow>
                  if json_get body ''required'' = Some (JBool True)
                  then Inl (refused ''required_request_body_missing_after_validation'' VALIDATION)
                  else Inr JNull
              | Some v \<Rightarrow> Inr v)
      | _ \<Rightarrow> Inl (refused ''put_binding_requires_json_body'' VALIDATION))"

section \<open>Trusted headers\<close>

definition set_trusted_header :: "string \<Rightarrow> string \<Rightarrow> (string, string) dict \<Rightarrow> (string, string) dict" where
  "set_trusted_header name v headers =
     dict_set name v (filter (\<lambda>kv. py_lower (fst kv) \<noteq> py_lower name) headers)"

definition credential_text :: "resolved_credential \<Rightarrow> string" where
  "credential_text c =
     (if rc_value_format c = FORMAT_BEARER then ''Bearer '' @ reveal (rc_value c) else reveal (rc_value c))"

definition inject_credential ::
  "resolved_credential option \<Rightarrow> (string, string) dict \<times> (string, string) dict \<Rightarrow>
   (string, string) dict \<times> (string, string) dict" where
  "inject_credential credential qh =
     (case qh of (params, headers) \<Rightarrow>
     (case credential of
        None \<Rightarrow> (params, headers)
      | Some c \<Rightarrow>
          (case rc_injection_location c of
             INJECT_HEADER \<Rightarrow> (params, set_trusted_header (rc_injection_name c) (credential_text c) headers)
           | INJECT_QUERY \<Rightarrow> (dict_set (rc_injection_name c) (credential_text c) params, headers))))"

section \<open>The request and its outcome\<close>

definition build_request :: "string \<Rightarrow> executor_request \<Rightarrow> resolved_credential option \<Rightarrow> http_request result" where
  "build_request http_method request credential =
    (let tool = er_tool request;
         config = rt_binding_config tool;
         path_template = text_field config ''path_template''
     in if \<not> starts_with path_template ''/'' then Inl (refused ''invalid_path_template'' VALIDATION)
        else
          result_bind (map_arguments path_template (json_get config ''parameters'') (er_arguments request))
            (\<lambda>(path, params, headers).
          result_bind (map_request_body http_method (json_get config ''request_body'') (er_arguments request)) (\<lambda>body.
          let keyed = (case er_idempotency_key request of
                 None \<Rightarrow> headers
               | Some k \<Rightarrow> set_trusted_header ''Idempotency-Key'' k headers);
              injected = inject_credential credential (params, keyed)
          in Inr \<lparr>hq_method = http_method, hq_url = py_rstrip (CHR ''/'') (rt_upstream_endpoint tool) @ path,
                 hq_params = fst injected, hq_headers = snd injected, hq_json = body,
                 hq_timeout = er_timeout_seconds request\<rparr>)))"

definition media_type :: "http_response \<Rightarrow> string" where
  "media_type r = takeWhile (\<lambda>c. c \<noteq> CHR '';'') (case hp_content_type r of None \<Rightarrow> [] | Some t \<Rightarrow> t)"

definition upstream_code :: "int \<Rightarrow> string" where
  "upstream_code status = ''upstream_'' @ show_int status"

definition read_response :: "int \<Rightarrow> http_response \<Rightarrow> executor_result result" where
  "read_response max_response_bytes r =
    (let status = hp_status_code r;
         failed = (\<lambda>category. Inl (executor_failed (upstream_code status) category False (Some status)))
     in if 400 \<le> status \<and> status < 500 then failed UPSTREAM_4XX
        else if status \<ge> 500 then failed UPSTREAM_5XX
        else if \<not> (200 \<le> status \<and> status < 300) then failed CATEGORY_UNKNOWN
        else if int (hp_content_length r) > max_response_bytes
          then Inl (refused ''upstream_response_too_large'' CATEGORY_UNKNOWN)
        else
          result_bind
            (if media_type r = ''application/json''
             then (case hp_json r of
                 None \<Rightarrow> Inl (refused ''upstream_invalid_json'' CATEGORY_UNKNOWN)
               | Some v \<Rightarrow> Inr v)
             else Inr (JStr (hp_text r))) (\<lambda>data.
          Inr \<lparr>es_data = data, es_content_type = (if media_type r = [] then None else Some (media_type r)),
               es_upstream_status = Some status\<rparr>))"

definition read_outcome :: "int \<Rightarrow> http_outcome \<Rightarrow> executor_result result" where
  "read_outcome max_response_bytes outcome =
     (case outcome of
        Timed_Out \<Rightarrow> Inl (executor_failed ''upstream_timeout'' TIMEOUT_AFTER_SEND True None)
      | Network_Failed \<Rightarrow> Inl (refused ''upstream_network_error'' NETWORK)
      | Responded r \<Rightarrow> read_response max_response_bytes r)"

definition httpx_execute ::
  "(string \<Rightarrow> ('s, unit) prog) \<Rightarrow> 's http_client \<Rightarrow> int \<Rightarrow> executor_request \<Rightarrow> resolved_credential option \<Rightarrow>
   ('s, executor_result) prog" where
  "httpx_execute endpoint_policy client max_response_bytes request credential =
     bind (lift (check_binding request)) (\<lambda>http_method.
     seq (recheck_endpoint endpoint_policy (rt_upstream_endpoint (er_tool request)))
    (bind (lift (build_request http_method request credential)) (\<lambda>hq.
     bind (client hq) (\<lambda>outcome.
       lift (read_outcome max_response_bytes outcome)))))"

end
