(* ===== verification/Http_Executor_Correct.thy ===== *)
theory Http_Executor_Correct
  imports Http_Executor Call_Properties
begin

text \<open>
  What reaches an upstream over HTTP, and how the executor fits the retry loop it is wrapped in
  (\<open>bootstrap/app.py\<close> builds \<open>ExecuteWithRetry(HttpxToolExecutor(...))\<close>).
\<close>

section \<open>Paths\<close>

text \<open>The characters that separate the parts of a URL behind its authority.\<close>

definition is_delimiter :: "char \<Rightarrow> bool" where
  "is_delimiter c \<longleftrightarrow> c \<in> set ''/?#''"

lemma quote_no_delimiter: "filter is_delimiter (py_quote s) = []"
proof -
  have "\<not> is_unreserved c \<and> c \<noteq> CHR ''%''" if "is_delimiter c" for c
  proof -
    have "list_all (\<lambda>c. \<not> is_unreserved c \<and> c \<noteq> CHR ''%'') ''/?#''" by code_simp
    then show ?thesis using that by (auto simp: is_delimiter_def list_all_iff)
  qed
  then show ?thesis using py_quote_set by (fastforce simp: filter_empty_conv)
qed

text \<open>The names of path parameters hold no delimiter themselves.\<close>

definition plain_path_names :: "json list \<Rightarrow> bool" where
  "plain_path_names ps \<longleftrightarrow>
     (\<forall>p \<in> set ps. text_field p ''location'' = ''path'' \<longrightarrow> filter is_delimiter (text_field p ''upstream_name'') = [])"

lemma placeholder_plain:
  "filter is_delimiter name = [] \<Longrightarrow> filter is_delimiter (''{'' @ name @ ''}'') = []"
  by (simp add: is_delimiter_def)

lemma map_parameter_path:
  assumes "map_parameter arguments p (path, params, headers) = Inr (path', params', headers')"
    and "text_field p ''location'' = ''path'' \<longrightarrow> filter is_delimiter (text_field p ''upstream_name'') = []"
    and "starts_with path ''/''"
  shows "filter is_delimiter path' = filter is_delimiter path \<and> starts_with path' ''/''"
proof (cases "text_field p ''location'' = ''path'' \<and> json_get arguments (text_field p ''argument_name'') \<noteq> None")
  case True
  then obtain v where v: "json_get arguments (text_field p ''argument_name'') = Some v" by auto
  let ?old = "''{'' @ text_field p ''upstream_name'' @ ''}''"
  have path': "path' = py_replace ?old (py_quote (py_str v)) path"
    using assms(1) True v by (auto simp: map_parameter_def Let_def split: json.splits if_splits)
  obtain cs where path: "path = CHR ''/'' # cs" using assms(3) by (cases path) (auto simp: starts_with_def)
  have "py_replace ?old (py_quote (py_str v)) path \<noteq> [] \<and> hd (py_replace ?old (py_quote (py_str v)) path) = CHR ''/''"
    by (rule py_replace_head) (simp_all add: path)
  moreover have "filter is_delimiter (py_replace ?old (py_quote (py_str v)) path) = filter is_delimiter path"
    using True assms(2) by (intro py_replace_filter placeholder_plain quote_no_delimiter) blast
  ultimately show ?thesis by (auto simp: path' starts_with_def take_Suc)
next
  case False
  then have "path' = path"
    using assms(1) by (auto simp: map_parameter_def Let_def split: json.splits if_splits option.splits)
  then show ?thesis using assms(3) by simp
qed

lemma map_parameters_path:
  assumes "map_parameters arguments ps (path, params, headers) = Inr (path', params', headers')"
    and "plain_path_names ps" "starts_with path ''/''"
  shows "filter is_delimiter path' = filter is_delimiter path \<and> starts_with path' ''/''"
  using assms
proof (induction ps arbitrary: path params headers)
  case (Cons p ps)
  obtain st where st: "map_parameter arguments p (path, params, headers) = Inr st"
    using Cons.prems(1) by (cases "map_parameter arguments p (path, params, headers)") (auto simp: result_bind_def)
  obtain path1 params1 headers1 where parts: "st = (path1, params1, headers1)" by (cases st) auto
  have "filter is_delimiter path1 = filter is_delimiter path \<and> starts_with path1 ''/''"
    using Cons.prems(2,3) by (intro map_parameter_path [OF st [unfolded parts]]) (auto simp: plain_path_names_def)
  moreover have "filter is_delimiter path' = filter is_delimiter path1 \<and> starts_with path' ''/''"
    using Cons.prems(1,2) st calculation
    by (intro Cons.IH [of path1 params1 headers1]) (auto simp: parts result_bind_def plain_path_names_def)
  ultimately show ?case by simp
qed simp

section \<open>Headers\<close>

text \<open>A header has one value, whatever the case of its name.\<close>

definition only_header :: "string \<Rightarrow> string \<Rightarrow> (string, string) dict \<Rightarrow> bool" where
  "only_header name v headers \<longleftrightarrow> filter (\<lambda>kv. py_lower (fst kv) = py_lower name) headers = [(name, v)]"

lemma set_trusted_append:
  "set_trusted_header name v headers = filter (\<lambda>kv. py_lower (fst kv) \<noteq> py_lower name) headers @ [(name, v)]"
proof -
  have "dict_get (filter (\<lambda>kv. py_lower (fst kv) \<noteq> py_lower name) headers) name = None"
    by (auto simp: map_of_eq_None_iff)
  then show ?thesis by (simp add: set_trusted_header_def dict_set_fresh)
qed

lemma set_trusted_only: "only_header name v (set_trusted_header name v headers)"
  by (simp add: only_header_def set_trusted_append filter_empty_conv)

lemma set_trusted_other:
  assumes "only_header name v headers" "py_lower other \<noteq> py_lower name"
  shows "only_header name v (set_trusted_header other w headers)"
proof -
  have "filter (\<lambda>kv. py_lower (fst kv) = py_lower name) (filter (\<lambda>kv. py_lower (fst kv) \<noteq> py_lower other) headers) =
      filter (\<lambda>kv. py_lower (fst kv) = py_lower name) headers"
    using assms(2) by (induction headers) auto
  then show ?thesis using assms by (simp add: only_header_def set_trusted_append)
qed

section \<open>What is sent\<close>

text \<open>A request that a binding allows: a read without a body, or an idempotent write with its key; below the
  upstream's endpoint, with the delimiters of the template only; and with the key and the credential the
  gateway put in, not what an argument supplied under these names.\<close>

definition allowed_request :: "executor_request \<Rightarrow> resolved_credential option \<Rightarrow> http_request \<Rightarrow> bool" where
  "allowed_request rq credential hq \<longleftrightarrow>
     (hq_method hq = ''GET'' \<and> hq_json hq = JNull \<or>
      hq_method hq = ''PUT'' \<and> rt_side_effect (er_tool rq) = IDEMPOTENT_WRITE \<and> er_idempotency_key rq \<noteq> None) \<and>
     (\<exists>path. hq_url hq = py_rstrip (CHR ''/'') (rt_upstream_endpoint (er_tool rq)) @ path \<and> starts_with path ''/'' \<and>
        filter is_delimiter path = filter is_delimiter (text_field (rt_binding_config (er_tool rq)) ''path_template'')) \<and>
     (\<forall>k. er_idempotency_key rq = Some k \<longrightarrow>
        (\<forall>c. credential = Some c \<longrightarrow> rc_injection_location c = INJECT_HEADER \<longrightarrow>
           py_lower (rc_injection_name c) \<noteq> ''idempotency-key'') \<longrightarrow>
        only_header ''Idempotency-Key'' k (hq_headers hq)) \<and>
     (\<forall>c. credential = Some c \<longrightarrow>
        (case rc_injection_location c of
           INJECT_HEADER \<Rightarrow> only_header (rc_injection_name c) (credential_text c) (hq_headers hq)
         | INJECT_QUERY \<Rightarrow> dict_get (hq_params hq) (rc_injection_name c) = Some (credential_text c)))"

definition parameters_of :: "executor_request \<Rightarrow> json list" where
  "parameters_of rq =
     (case json_get (rt_binding_config (er_tool rq)) ''parameters'' of Some (JList ps) \<Rightarrow> ps | _ \<Rightarrow> [])"

lemma build_request_allowed:
  assumes m: "check_binding rq = Inr m" and hq: "build_request m rq credential = Inr hq"
    and plain: "plain_path_names (parameters_of rq)"
  shows "allowed_request rq credential hq"
proof -
  let ?config = "rt_binding_config (er_tool rq)"
  let ?template = "text_field ?config ''path_template''"
  let ?endpoint = "rt_upstream_endpoint (er_tool rq)"
  have start: "starts_with ?template ''/''" using hq by (auto simp: build_request_def Let_def split: if_splits)
  obtain path params headers body where
      mapped: "map_arguments ?template (json_get ?config ''parameters'') (er_arguments rq) = Inr (path, params, headers)"
      and body: "map_request_body m (json_get ?config ''request_body'') (er_arguments rq) = Inr body"
    using hq start by (auto simp: build_request_def Let_def result_bind_def split: sum.splits)
  define keyed where "keyed = (case er_idempotency_key rq of None \<Rightarrow> headers
      | Some k \<Rightarrow> set_trusted_header ''Idempotency-Key'' k headers)"
  have hq': "hq = \<lparr>hq_method = m, hq_url = py_rstrip (CHR ''/'') ?endpoint @ path,
      hq_params = fst (inject_credential credential (params, keyed)),
      hq_headers = snd (inject_credential credential (params, keyed)), hq_json = body,
      hq_timeout = er_timeout_seconds rq\<rparr>"
    using hq start mapped body by (simp add: build_request_def Let_def result_bind_def keyed_def)
  have "parameters_of rq = ps \<Longrightarrow> json_get ?config ''parameters'' = Some (JList ps)" if "json_get ?config ''parameters'' = Some (JList qs)" for ps qs
    using that by (simp add: parameters_of_def)
  then have "map_parameters (er_arguments rq) (parameters_of rq) (?template, [], []) = Inr (path, params, headers)"
    using mapped by (auto simp: map_arguments_def parameters_of_def split: option.splits json.splits)
  then have p: "filter is_delimiter path = filter is_delimiter ?template \<and> starts_with path ''/''"
    using plain start by (rule map_parameters_path)
  have key: "only_header ''Idempotency-Key'' k keyed" if "er_idempotency_key rq = Some k" for k
    by (simp add: keyed_def that set_trusted_only)
  have lower: "py_lower ''Idempotency-Key'' = ''idempotency-key''" by code_simp
  have guards: "m = ''GET'' \<and> body = JNull \<or> m = ''PUT'' \<and> rt_side_effect (er_tool rq) = IDEMPOTENT_WRITE \<and> er_idempotency_key rq \<noteq> None"
    using m body by (auto simp: check_binding_def Let_def map_request_body_def split: if_splits)
  have injected: "only_header ''Idempotency-Key'' k (snd (inject_credential credential (params, keyed)))"
    if "er_idempotency_key rq = Some k" "\<And>c. credential = Some c \<Longrightarrow> rc_injection_location c = INJECT_HEADER \<Longrightarrow>
      py_lower (rc_injection_name c) \<noteq> ''idempotency-key''" for k
    using that(2) key [OF that(1)] lower
    by (auto simp: inject_credential_def intro!: set_trusted_other split: option.split credential_injection_location.split)
  have credentialed: "case rc_injection_location c of
      INJECT_HEADER \<Rightarrow> only_header (rc_injection_name c) (credential_text c) (snd (inject_credential credential (params, keyed)))
    | INJECT_QUERY \<Rightarrow> dict_get (fst (inject_credential credential (params, keyed))) (rc_injection_name c) = Some (credential_text c)"
    if "credential = Some c" for c
    by (simp add: that inject_credential_def set_trusted_only split: credential_injection_location.split)
  have fields: "hq_method hq = m" "hq_url hq = py_rstrip (CHR ''/'') ?endpoint @ path" "hq_json hq = body"
      "hq_params hq = fst (inject_credential credential (params, keyed))"
      "hq_headers hq = snd (inject_credential credential (params, keyed))"
    by (simp_all add: hq')
  show ?thesis
    unfolding allowed_request_def fields
    using guards p injected credentialed by (intro conjI allI impI exI [of _ path]) auto
qed

text \<open>The executor sends at most one request and only one the binding allows. Either it ends without its
  client being run at all, or the endpoint policy has just admitted the upstream's endpoint and the client
  is run once, with an allowed request, and its outcome read. An argument can neither leave the path's
  shape, nor replace the idempotency key or the credential.\<close>

lemma httpx_request_cases:
  assumes "plain_path_names (parameters_of rq)"
  shows "(\<exists>r t. \<forall>client. httpx_execute policy client limit rq credential s = (r, t)) \<or>
    (\<exists>hq u. policy (rt_upstream_endpoint (er_tool rq)) s = (Inr (), u) \<and> allowed_request rq credential hq \<and>
       (\<forall>client. httpx_execute policy client limit rq credential s =
          bind (client hq) (\<lambda>outcome. lift (read_outcome limit outcome)) u))"
proof (cases "check_binding rq")
  case (Inl e)
  then show ?thesis by (auto simp: httpx_execute_def bind_def lift_def)
next
  case m: (Inr m)
  obtain r u where run: "recheck_endpoint policy (rt_upstream_endpoint (er_tool rq)) s = (r, u)" by fastforce
  show ?thesis
  proof (cases r)
    case (Inl e)
    then show ?thesis using m run by (auto simp: httpx_execute_def bind_def seq_def lift_def)
  next
    case admitted: (Inr x)
    then have policy: "policy (rt_upstream_endpoint (er_tool rq)) s = (Inr (), u)"
      using run by (auto simp: recheck_endpoint_def catch_def raise_def split: prod.splits sum.splits if_splits)
    show ?thesis
    proof (cases "build_request m rq credential")
      case (Inl e)
      then show ?thesis using m run admitted by (auto simp: httpx_execute_def bind_def seq_def lift_def)
    next
      case (Inr hq)
      have "httpx_execute policy client limit rq credential s =
          bind (client hq) (\<lambda>outcome. lift (read_outcome limit outcome)) u" for client
        using m run admitted Inr by (simp add: httpx_execute_def bind_def seq_def lift_def)
      then show ?thesis using policy build_request_allowed [OF m Inr assms] by blast
    qed
  qed
qed

section \<open>A concrete binding\<close>

text \<open>A customer is read by its id; a further argument is mapped to the header of the credential.\<close>

definition crm_binding :: json where
  "crm_binding = JObj
     [(''method'', JStr ''get''), (''path_template'', JStr ''/customers/{id}/orders''),
      (''parameters'', JList
         [JObj [(''argument_name'', JStr ''id''), (''upstream_name'', JStr ''id''), (''location'', JStr ''path''),
                (''required'', JBool True)],
          JObj [(''argument_name'', JStr ''auth''), (''upstream_name'', JStr ''authorization''), (''location'', JStr ''header'')]])]"

definition crm_request :: "string \<Rightarrow> executor_request" where
  "crm_request i = sample_executor_request
     \<lparr>er_tool := sample_tool\<lparr>rt_binding_config := crm_binding\<rparr>,
      er_arguments := JObj [(''id'', JStr i), (''auth'', JStr ''Bearer mine'')]\<rparr>"

definition crm_key :: resolved_credential where
  "crm_key = \<lparr>rc_credential_binding_id = ''c1'', rc_injection_location = INJECT_HEADER,
     rc_injection_name = ''Authorization'', rc_value_format = FORMAT_BEARER, rc_value = SecretValue ''k''\<rparr>"

lemma crm_sends:
  "check_binding (crm_request ''../admin?x'') = Inr ''GET''"
  "map_option hq_url (case build_request ''GET'' (crm_request ''../admin?x'') (Some crm_key) of Inr hq \<Rightarrow> Some hq | _ \<Rightarrow> None) =
     Some ''https://crm/customers/..%2Fadmin%3Fx/orders''"
  "map_option hq_headers (case build_request ''GET'' (crm_request ''../admin?x'') (Some crm_key) of Inr hq \<Rightarrow> Some hq | _ \<Rightarrow> None) =
     Some [(''Authorization'', ''Bearer k'')]"
  by code_simp+

lemma crm_plain: "plain_path_names (parameters_of (crm_request ''../admin?x''))"
  unfolding plain_path_names_def by code_simp

text \<open>What quoting leaves alone: the dots. A path argument may be a dot segment, which RFC 3986 has clients
  resolve: a request for the customer \<open>..\<close> is one for \<open>/orders\<close>. And a binding that omits its parameters
  is refused, although the code names an empty default for them.\<close>

lemma dot_segment_is_sent:
  "map_option hq_url (case build_request ''GET'' (crm_request ''..'') None of Inr hq \<Rightarrow> Some hq | _ \<Rightarrow> None) =
     Some ''https://crm/customers/../orders''"
  by code_simp

lemma parameters_are_required:
  "json_get (rt_binding_config (er_tool rq)) ''parameters'' = None \<Longrightarrow> \<not> (\<exists>hq. build_request m rq credential = Inr hq)"
  by (auto simp: build_request_def map_arguments_def result_bind_def Let_def split: if_splits)

section \<open>The retry loop around it\<close>

text \<open>The executor meets what the retry loop asks of its statuses if its client does.\<close>

definition client_statuses_ok :: "'s http_client \<Rightarrow> bool" where
  "client_statuses_ok client \<longleftrightarrow>
     (\<forall>hq s r t. client hq s = (Inr (Responded r), t) \<longrightarrow> 100 \<le> hp_status_code r \<and> hp_status_code r \<le> 599)"

definition no_executor_failure :: "('s, 'a) prog \<Rightarrow> bool" where
  "no_executor_failure m \<longleftrightarrow> (\<forall>s f t. m s \<noteq> (Inl (ExecutorFailure f), t))"

lemma read_outcome_status:
  assumes "\<forall>r. o' = Responded r \<longrightarrow> 100 \<le> hp_status_code r \<and> hp_status_code r \<le> 599"
  shows "case read_outcome limit o' of
      Inr res \<Rightarrow> status_ok (es_upstream_status res)
    | Inl e \<Rightarrow> \<forall>f. e = ExecutorFailure f \<longrightarrow> status_ok (ef_upstream_status f)"
  using assms
  by (cases o')
    (auto simp: read_outcome_def read_response_def Let_def executor_failed_def refused_def status_ok_def result_bind_def
      split: sum.splits option.splits)

lemma refusals:
  "check_binding rq = Inl (ExecutorFailure f) \<Longrightarrow> ef_upstream_status f = None"
  "build_request m rq credential = Inl (ExecutorFailure f) \<Longrightarrow> ef_upstream_status f = None"
proof -
  show "check_binding rq = Inl (ExecutorFailure f) \<Longrightarrow> ef_upstream_status f = None"
    by (auto simp: check_binding_def Let_def refused_def executor_failed_def split: if_splits)
  have one: "map_parameter arguments p st = Inl (ExecutorFailure f) \<Longrightarrow> ef_upstream_status f = None" for arguments p st
    by (cases st)
      (auto simp: map_parameter_def Let_def refused_def executor_failed_def split: json.splits option.splits if_splits)
  have all: "map_parameters arguments ps st = Inl (ExecutorFailure f) \<Longrightarrow> ef_upstream_status f = None" for arguments ps st
    by (induction ps arbitrary: st) (auto simp: result_bind_def dest: one split: sum.splits)
  have mapped: "map_arguments t ps arguments = Inl (ExecutorFailure f) \<Longrightarrow> ef_upstream_status f = None" for t ps arguments
    by (auto simp: map_arguments_def refused_def executor_failed_def dest: all split: option.splits json.splits)
  have body: "map_request_body m b arguments = Inl (ExecutorFailure f) \<Longrightarrow> ef_upstream_status f = None" for b arguments
    by (auto simp: map_request_body_def Let_def refused_def executor_failed_def split: option.splits json.splits if_splits)
  show "build_request m rq credential = Inl (ExecutorFailure f) \<Longrightarrow> ef_upstream_status f = None"
    by (auto simp: build_request_def Let_def result_bind_def refused_def executor_failed_def dest: mapped body
        split: if_splits sum.splits)
qed

lemma recheck_refusal:
  assumes "recheck_endpoint policy endpoint s = (Inl (ExecutorFailure f), t)" "no_executor_failure (policy endpoint)"
  shows "ef_upstream_status f = None"
  using assms
  by (auto simp: recheck_endpoint_def catch_def raise_def refused_def executor_failed_def no_executor_failure_def
      split: prod.splits sum.splits if_splits)

lemma httpx_statuses_ok:
  assumes client: "client_statuses_ok client" and raised: "\<And>hq. no_executor_failure (client hq)"
    and policy: "\<And>e. no_executor_failure (policy e)"
  shows "statuses_ok (httpx_execute policy client limit rq credential)"
proof -
  have "case r of
      Inr res \<Rightarrow> status_ok (es_upstream_status res)
    | Inl e \<Rightarrow> \<forall>f. e = ExecutorFailure f \<longrightarrow> status_ok (ef_upstream_status f)"
    if run: "httpx_execute policy client limit rq credential s = (r, t)" for s r t
  proof (cases "check_binding rq")
    case (Inl e)
    then show ?thesis using run refusals(1) by (auto simp: httpx_execute_def bind_def lift_def status_ok_def)
  next
    case m: (Inr m)
    obtain a u where recheck: "recheck_endpoint policy (rt_upstream_endpoint (er_tool rq)) s = (a, u)" by fastforce
    show ?thesis
    proof (cases a)
      case (Inl e)
      then show ?thesis
        using run m recheck recheck_refusal [OF _ policy]
        by (auto simp: httpx_execute_def bind_def seq_def lift_def status_ok_def)
    next
      case admitted: (Inr x)
      show ?thesis
      proof (cases "build_request m rq credential")
        case (Inl e)
        then show ?thesis
          using run m recheck admitted refusals(2)
          by (auto simp: httpx_execute_def bind_def seq_def lift_def status_ok_def)
      next
        case hq: (Inr hq)
        obtain b v where sent: "client hq u = (b, v)" by fastforce
        show ?thesis
        proof (cases b)
          case (Inl e)
          then show ?thesis
            using run m recheck admitted hq sent raised [of hq]
            by (auto simp: httpx_execute_def bind_def seq_def lift_def no_executor_failure_def)
        next
          case (Inr outcome)
          then have "r = read_outcome limit outcome"
            using run m recheck admitted hq sent by (simp add: httpx_execute_def bind_def seq_def lift_def)
          moreover have "\<forall>resp. outcome = Responded resp \<longrightarrow> 100 \<le> hp_status_code resp \<and> hp_status_code resp \<le> 599"
            using client sent Inr by (auto simp: client_statuses_ok_def)
          ultimately show ?thesis using read_outcome_status by blast
        qed
      qed
    qed
  qed
  then show ?thesis by (simp add: statuses_ok_def wp_def split: prod.split)
qed

text \<open>Without that: a client whose upstream answers with the status 999, which HTTP libraries let through.\<close>

definition odd_client :: "unit gateway http_client" where
  "odd_client hq = ret (Responded \<lparr>hp_status_code = 999, hp_content_length = 0, hp_content_type = None,
     hp_text = [], hp_json = None\<rparr>)"

definition odd_ports :: "unit call_ports" where
  "odd_ports = (sample_ports ALLOW)
     \<lparr>resolve_tool := (\<lambda>_ _. ret (Some (sample_tool\<lparr>rt_binding_config := crm_binding\<rparr>))),
      execute_tool := execute_with_retry (httpx_execute (\<lambda>_. ret ()) odd_client 1000) (\<lambda>_. ret ())
        \<lparr>max_attempts = 3, initial_backoff_seconds = 1\<rparr>\<rparr>"

definition odd_call :: "call_tool_result result \<times> unit gateway" where
  "odd_call =
     call_tool sample_sha odd_ports (sample_call\<lparr>ca_arguments := JObj [(''id'', JStr ''7'')]\<rparr>) sample_start"

text \<open>The executor passes a status of 600 or more on as the failure's upstream status, but an attempt only
  records statuses up to 599. A read whose upstream answers 999 is therefore neither retried nor reported as
  an upstream failure: closing its attempt raises, so the execution ends with an unknown outcome while its
  only attempt stays running for ever.\<close>

theorem odd_status_strands_attempt:
  "case odd_call of (r, t) \<Rightarrow>
     r = Inl (NexusError UnknownExecutionOutcomeError) \<and>
     map (\<lambda>(_, e). (ex_id e, ex_side_effect e, ex_status e)) (executions (db t)) = [(''id-'', READ_ONLY, EX_UNKNOWN)] \<and>
     map (\<lambda>(_, a). (at_execution_id a, at_status a, at_upstream_status a)) (attempts (db t)) =
       [(''id-'', AT_RUNNING, None)]"
  by code_simp

end
