(* ===== verification/Mcp_Server.thy ===== *)
theory Mcp_Server
  imports Mcp_Interface Call_Tool
begin

text \<open>
  The MCP adapter (\<open>interfaces/mcp/server.py\<close>): \<open>tools/list\<close> and \<open>tools/call\<close> over the use cases. Each
  collaborator of \<open>create_mcp_server\<close> is a field of \<open>mcp_ports\<close>, an arbitrary program on an arbitrary
  state, or \<open>None\<close> when it was not given. Telemetry and logging are left out but for the trace id that
  the telemetry may supply.
\<close>

record 's mcp_ports =
  mp_resolve_context :: "raw_context \<Rightarrow> ('s, request_context) prog"
  mp_observed_trace_id :: "('s, string option) prog"
  mp_list_visible_tools :: "request_context \<Rightarrow> ('s, published_tool list) prog"
  mp_call_tool :: "(call_tool_command \<Rightarrow> ('s, call_tool_result) prog) option"
  mp_search_tools :: "(meta_search_query \<Rightarrow> ('s, meta_search_result) prog) option"
  mp_search_first :: bool
  mp_decide_approval :: "(decide_approval_command \<Rightarrow> ('s, approval_request) prog) option"
  mp_resolve_access :: "(request_context \<Rightarrow> endpoint_scope \<Rightarrow> ('s, resolved_access) prog) option"
  mp_scope_audit :: "(record_scope_denial_command \<Rightarrow> ('s, unit) prog) option"

section \<open>The request\<close>

datatype input_response =
    Elicit_Result (er_action: string) (er_content: "(string \<times> json) list option")
  | Other_Response

record call_params =
  cp_name :: string
  cp_arguments :: "(string \<times> json) list option"
  cp_meta :: "(string \<times> json) list option"
  cp_request_state :: "string option"
  cp_input_responses :: "(string \<times> input_response) list option"

definition arguments_of :: "call_params \<Rightarrow> (string \<times> json) list" where
  "arguments_of params = (case cp_arguments params of None \<Rightarrow> [] | Some a \<Rightarrow> a)"

record input_required =
  iq_message :: string
  iq_requested_schema :: json
  iq_request_state :: string
  iq_approval_id :: string
  iq_approval_expires_at :: "instant option"

datatype call_outcome =
    Tool_Result tool_result
  | Search_Result search_tool_result
  | Input_Required input_required

datatype list_outcome =
    Listed "protocol_tool list"
  | List_Rejected mcp_error

definition actor_of :: "request_context \<Rightarrow> actor_context" where
  "actor_of cx = actor_context.truncate cx"

section \<open>Scopes\<close>

definition resolve_access ::
  "'s mcp_ports \<Rightarrow> endpoint_scope \<Rightarrow> request_context \<Rightarrow> ('s, resolved_access option) prog" where
  "resolve_access p scope cx =
     (case mp_resolve_access p of
        None \<Rightarrow> ret None
      | Some resolver \<Rightarrow> bind (resolver cx scope) (\<lambda>a. ret (Some a)))"

definition scope_type_of :: "endpoint_scope \<Rightarrow> mcp_scope_type" where
  "scope_type_of scope =
     (if es_type scope = Toolset_Runtime.SCOPE_TOOLSET then Execution_Domain.SCOPE_TOOLSET
      else Execution_Domain.SCOPE_ROOT)"

definition execution_scope_type :: "resolved_access option \<Rightarrow> mcp_scope_type" where
  "execution_scope_type access =
     (case access of
        Some a \<Rightarrow>
          if es_type (ra_endpoint_scope a) = Toolset_Runtime.SCOPE_TOOLSET then Execution_Domain.SCOPE_TOOLSET
          else Execution_Domain.SCOPE_ROOT
      | None \<Rightarrow> Execution_Domain.SCOPE_ROOT)"

definition effective_search_first :: "resolved_access option \<Rightarrow> bool \<Rightarrow> bool" where
  "effective_search_first access root_search_first =
     (case access of
        None \<Rightarrow> root_search_first
      | Some a \<Rightarrow>
          if es_type (ra_endpoint_scope a) = Toolset_Runtime.SCOPE_ROOT then root_search_first
          else ra_discovery_mode a = Some DISCOVERY_SEARCH_FIRST)"

definition meta_search_visible :: "resolved_access option \<Rightarrow> bool \<Rightarrow> bool" where
  "meta_search_visible access root_search_first =
     (case access of
        None \<Rightarrow> True
      | Some a \<Rightarrow>
          if es_type (ra_endpoint_scope a) = Toolset_Runtime.SCOPE_ROOT then True
          else effective_search_first access root_search_first)"

text \<open>A refusal by the endpoint's scope is audited; a failing audit does not change the refusal.\<close>

definition scope_denial_command ::
  "(string \<Rightarrow> string) \<Rightarrow> nexus_error \<Rightarrow> request_context \<Rightarrow> endpoint_scope \<Rightarrow> call_params \<Rightarrow>
   resolved_access option \<Rightarrow> record_scope_denial_command" where
  "scope_denial_command sha e cx scope params access =
     \<lparr>sd_context = actor_of cx, sd_tool_name = cp_name params,
      sd_arguments_digest = canonical_json_digest sha (JObj (arguments_of params)),
      sd_reason_code = error_code e, sd_mcp_scope_type = scope_type_of scope,
      sd_toolset_slug = es_toolset_slug scope,
      sd_toolset_id = Option.bind access ra_toolset_id,
      sd_toolset_revision = Option.bind access ra_toolset_revision\<rparr>"

definition audit_scope_denial ::
  "(string \<Rightarrow> string) \<Rightarrow> 's mcp_ports \<Rightarrow> nexus_error \<Rightarrow> request_context \<Rightarrow> endpoint_scope \<Rightarrow> call_params \<Rightarrow>
   resolved_access option \<Rightarrow> ('s, unit) prog" where
  "audit_scope_denial sha p e cx scope params access =
     (case mp_scope_audit p of
        None \<Rightarrow> ret ()
      | Some record_denial \<Rightarrow>
          if \<not> is_toolset_scope_error e then ret ()
          else catch (record_denial (scope_denial_command sha e cx scope params access))
                 (\<lambda>failure. if failure = CancelledError then raise failure else ret ()))"

section \<open>Listing\<close>

definition protocol_output_schema :: "json option \<Rightarrow> request_context \<Rightarrow> json option" where
  "protocol_output_schema sch cx =
     (case sch of
        None \<Rightarrow> None
      | Some s \<Rightarrow> if cx_protocol_era cx = LEGACY \<and> json_get s ''type'' \<noteq> Some (JStr ''object'') then None else Some s)"

definition protocol_tool_of :: "request_context \<Rightarrow> published_tool \<Rightarrow> protocol_tool" where
  "protocol_tool_of cx t =
     \<lparr>pl_name = pt_canonical_name t, pl_title = pt_display_name t, pl_description = pt_description t,
      pl_input_schema = pt_input_schema t, pl_output_schema = protocol_output_schema (pt_output_schema t) cx,
      pl_meta =
        [(''com.nexusmcp/toolId'', JStr (pt_tool_id t)), (''com.nexusmcp/toolVersionId'', JStr (pt_tool_version_id t)),
         (''com.nexusmcp/toolVersion'', JInt (pt_version t))]\<rparr>"

definition with_trace_id :: "'s mcp_ports \<Rightarrow> request_context \<Rightarrow> ('s, request_context) prog" where
  "with_trace_id p cx =
     bind (mp_observed_trace_id p) (\<lambda>t.
       ret (case t of None \<Rightarrow> cx | Some i \<Rightarrow> if i = [] then cx else cx\<lparr>cx_trace_id := i\<rparr>))"

definition listed_tools :: "'s mcp_ports \<Rightarrow> raw_context \<Rightarrow> request_context \<Rightarrow> ('s, protocol_tool list) prog" where
  "listed_tools p raw cx =
     bind (lift (resolve_endpoint_scope raw)) (\<lambda>scope.
     bind (resolve_access p scope cx) (\<lambda>access.
     bind (if effective_search_first access (mp_search_first p) then ret []
           else case access of Some a \<Rightarrow> ret (ra_tools a) | None \<Rightarrow> mp_list_visible_tools p cx) (\<lambda>tools.
       ret ((if mp_search_tools p \<noteq> None \<and> meta_search_visible access (mp_search_first p)
             then [search_tools_definition] else []) @ map (protocol_tool_of cx) tools))))"

definition on_list_tools :: "'s mcp_ports \<Rightarrow> raw_context \<Rightarrow> ('s, list_outcome) prog" where
  "on_list_tools p raw =
     bind (mp_resolve_context p raw) (\<lambda>cx0.
     bind (with_trace_id p cx0) (\<lambda>cx.
       catch (bind (listed_tools p raw cx) (\<lambda>tools. ret (Listed tools)))
         (\<lambda>e. case e of NexusError ne \<Rightarrow> ret (List_Rejected (to_mcp_error ne)) | _ \<Rightarrow> raise e)))"

section \<open>Searching\<close>

definition filter_search_result :: "meta_search_result \<Rightarrow> resolved_access \<Rightarrow> meta_search_result" where
  "filter_search_result r a =
     (let hits = [h \<leftarrow> mr_hits r. pt_tool_id (sh_tool h) \<in> set (available_tool_ids a)]
      in \<lparr>mr_hits = hits, mr_retrieval_mode = mr_retrieval_mode r, mr_index_version = mr_index_version r,
          mr_diagnostics = map_option (\<lambda>d. dict_from hit_identity (\<lambda>h. the (dict_get d (hit_identity h)))
            [h \<leftarrow> hits. dict_get d (hit_identity h) \<noteq> None]) (mr_diagnostics r)\<rparr>)"

definition scoped_query :: "resolved_access option \<Rightarrow> meta_search_query \<Rightarrow> meta_search_query" where
  "scoped_query access q =
     (case access of
        None \<Rightarrow> q
      | Some a \<Rightarrow> q\<lparr>mq_eligible_tool_ids := Some (sorted_set (available_tool_ids a))\<rparr>)"

definition meta_search ::
  "'s mcp_ports \<Rightarrow> (meta_search_query \<Rightarrow> ('s, meta_search_result) prog) \<Rightarrow> request_context \<Rightarrow>
   resolved_access option \<Rightarrow> call_params \<Rightarrow> ('s, meta_search_result) prog" where
  "meta_search p search cx access params =
     seq (raise_if (\<not> meta_search_visible access (mp_search_first p)) (NexusError ToolsetAccessDeniedError))
    (bind (lift (parse_search_tools_query (actor_of cx) (arguments_of params))) (\<lambda>q.
     bind (search (scoped_query access q)) (\<lambda>r.
       ret (case access of None \<Rightarrow> r | Some a \<Rightarrow> filter_search_result r a))))"

definition call_search ::
  "(string \<Rightarrow> string) \<Rightarrow> 's mcp_ports \<Rightarrow> request_context \<Rightarrow> endpoint_scope \<Rightarrow> resolved_access option \<Rightarrow>
   call_params \<Rightarrow> ('s, call_outcome) prog" where
  "call_search sha p cx scope access params =
     (case mp_search_tools p of
        None \<Rightarrow> ret (Tool_Result plain_error)
      | Some search \<Rightarrow>
          catch (bind (meta_search p search cx access params) (\<lambda>r. ret (Search_Result (search_tools_result r))))
            (\<lambda>e. case e of
               NexusError ne \<Rightarrow>
                 seq (audit_scope_denial sha p ne cx scope params access) (ret (Tool_Result (call_tool_error ne)))
             | CancelledError \<Rightarrow> raise e
             | _ \<Rightarrow> ret (Tool_Result plain_error)))"

section \<open>Calling\<close>

definition approval_answer :: "(string \<times> input_response) list \<Rightarrow> bool result" where
  "approval_answer responses =
     (if set (map fst responses) \<noteq> {''approval''} then Inl (NexusError ApprovalMismatchError)
      else case dict_get responses ''approval'' of
        Some (Elicit_Result action content) \<Rightarrow>
          if action = ''accept'' then
            (case content of
               None \<Rightarrow> Inl (NexusError ApprovalMismatchError)
             | Some c \<Rightarrow>
                 if dict_get c ''approved'' = Some (JBool True) then Inr True
                 else Inl (NexusError ApprovalMismatchError))
          else Inr False
      | _ \<Rightarrow> Inl (NexusError ApprovalMismatchError))"

definition resolve_interactive_approval ::
  "'s mcp_ports \<Rightarrow> request_context \<Rightarrow> call_params \<Rightarrow> ('s, unit) prog" where
  "resolve_interactive_approval p cx params =
     (case cp_input_responses params of
        None \<Rightarrow> ret ()
      | Some responses \<Rightarrow>
          (case (cp_request_state params, mp_decide_approval p) of
             (Some approval_id, Some decide) \<Rightarrow>
               bind (lift (approval_answer responses)) (\<lambda>approved.
               bind (decide \<lparr>dc_context = actor_of cx, dc_approval_id = approval_id, dc_approved = approved\<rparr>) (\<lambda>_.
                 ret ()))
           | _ \<Rightarrow> raise (NexusError ApprovalMismatchError)))"

definition idempotency_key :: "call_params \<Rightarrow> string option result" where
  "idempotency_key params =
     (case dict_get (case cp_meta params of None \<Rightarrow> [] | Some m \<Rightarrow> m) ''com.nexusmcp/idempotencyKey'' of
        None \<Rightarrow> Inr None
      | Some JNull \<Rightarrow> Inr None
      | Some (JStr v) \<Rightarrow> if is_valid_idempotency_key v then Inr (Some v) else Inl invalid_arguments
      | Some _ \<Rightarrow> Inl invalid_arguments)"

definition call_command ::
  "request_context \<Rightarrow> resolved_access option \<Rightarrow> call_params \<Rightarrow> string option \<Rightarrow> call_tool_command" where
  "call_command cx access params key =
     \<lparr>ca_context = actor_of cx, ca_tool_name = cp_name params, ca_arguments = JObj (arguments_of params),
      ca_idempotency_key = key, ca_approval_id = cp_request_state params,
      ca_mcp_scope_type = execution_scope_type access,
      ca_toolset_id = Option.bind access ra_toolset_id,
      ca_toolset_revision = Option.bind access ra_toolset_revision\<rparr>"

definition approval_input_required :: "string \<Rightarrow> string \<Rightarrow> instant option \<Rightarrow> input_required" where
  "approval_input_required tool_name approval_id expires_at =
     \<lparr>iq_message = ''Approve one call to '' @ tool_name @ ''?'',
      iq_requested_schema = JObj
        [(''type'', JStr ''object''),
         (''properties'', JObj [(''approved'', JObj [(''type'', JStr ''boolean''), (''title'', JStr ''Approve this tool call'')])]),
         (''required'', JList [JStr ''approved'']),
         (''additionalProperties'', JBool False)],
      iq_request_state = approval_id, iq_approval_id = approval_id, iq_approval_expires_at = expires_at\<rparr>"

definition business_call ::
  "'s mcp_ports \<Rightarrow> (call_tool_command \<Rightarrow> ('s, call_tool_result) prog) \<Rightarrow> request_context \<Rightarrow>
   resolved_access option \<Rightarrow> call_params \<Rightarrow> ('s, call_tool_result) prog" where
  "business_call p call cx access params =
     seq (lift (case access of None \<Rightarrow> Inr () | Some a \<Rightarrow> require_business_tool a (cp_name params)))
    (seq (resolve_interactive_approval p cx params)
    (bind (lift (idempotency_key params)) (\<lambda>key.
     bind (lift (call_command_post_init (call_command cx access params key))) (\<lambda>command.
       call command))))"

text \<open>\<open>json.dumps(data, ensure_ascii=False, separators=(",", ":"))\<close>, in the order of the data.\<close>

primrec json_text :: "json \<Rightarrow> string" where
  "json_text JNull = ''null''"
| "json_text (JBool b) = (if b then ''true'' else ''false'')"
| "json_text (JInt i) = show_int i"
| "json_text (JStr s) = json_string s"
| "json_text (JList vs) = ''['' @ join_with '','' (map json_text vs) @ '']''"
| "json_text (JObj kvs) = ''{'' @ join_with '','' (map json_member (map (map_prod id json_text) kvs)) @ ''}''"

definition protocol_structured_content :: "json \<Rightarrow> request_context \<Rightarrow> json" where
  "protocol_structured_content data cx =
     (case data of
        JObj kvs \<Rightarrow> data
      | _ \<Rightarrow> if cx_protocol_era cx = LEGACY then JNull else data)"

definition success_result :: "call_tool_result \<Rightarrow> request_context \<Rightarrow> tool_result" where
  "success_result r cx =
     \<lparr>tr_text = (case cr_data r of JStr s \<Rightarrow> s | d \<Rightarrow> json_text d),
      tr_structured_content = protocol_structured_content (cr_data r) cx, tr_is_error = False,
      tr_meta =
        [(''com.nexusmcp/executionId'', JStr (cr_execution_id r)),
         (''com.nexusmcp/upstreamStatus'', (case cr_upstream_status r of None \<Rightarrow> JNull | Some n \<Rightarrow> JInt n)),
         (''com.nexusmcp/attemptCount'', JInt (cr_attempt_count r))]\<rparr>"

definition call_business ::
  "(string \<Rightarrow> string) \<Rightarrow> 's mcp_ports \<Rightarrow> request_context \<Rightarrow> endpoint_scope \<Rightarrow> resolved_access option \<Rightarrow>
   call_params \<Rightarrow> ('s, call_outcome) prog" where
  "call_business sha p cx scope access params =
     (case mp_call_tool p of
        None \<Rightarrow> ret (Tool_Result plain_error)
      | Some call \<Rightarrow>
          catch (bind (business_call p call cx access params) (\<lambda>r. ret (Tool_Result (success_result r cx))))
            (\<lambda>e. case e of
               NexusError (ApprovalRequiredError approval_id expires_at) \<Rightarrow>
                 (case approval_id of
                    Some i \<Rightarrow>
                      if cx_protocol_era cx = MODERN
                      then ret (Input_Required (approval_input_required (cp_name params) i expires_at))
                      else ret (Tool_Result (call_tool_error (ApprovalRequiredError approval_id expires_at)))
                  | None \<Rightarrow> ret (Tool_Result (call_tool_error (ApprovalRequiredError approval_id expires_at))))
             | NexusError ne \<Rightarrow>
                 seq (audit_scope_denial sha p ne cx scope params access) (ret (Tool_Result (call_tool_error ne)))
             | CancelledError \<Rightarrow> raise e
             | _ \<Rightarrow> ret (Tool_Result plain_error)))"

definition on_call_tool ::
  "(string \<Rightarrow> string) \<Rightarrow> 's mcp_ports \<Rightarrow> raw_context \<Rightarrow> call_params \<Rightarrow> ('s, call_outcome) prog" where
  "on_call_tool sha p raw params =
     bind (attempt_run (mp_resolve_context p raw)) (\<lambda>resolved. case resolved of
       Inl (NexusError ne) \<Rightarrow> ret (Tool_Result (call_tool_error ne))
     | Inl e \<Rightarrow> raise e
     | Inr cx0 \<Rightarrow>
         bind (with_trace_id p cx0) (\<lambda>cx.
         bind (lift (resolve_endpoint_scope raw)) (\<lambda>scope.
         bind (attempt_run (resolve_access p scope cx)) (\<lambda>found. case found of
           Inl (NexusError ne) \<Rightarrow>
             seq (audit_scope_denial sha p ne cx scope params None) (ret (Tool_Result (call_tool_error ne)))
         | Inl e \<Rightarrow> raise e
         | Inr access \<Rightarrow>
             if cp_name params = NEXUS_SEARCH_TOOLS_NAME then call_search sha p cx scope access params
             else call_business sha p cx scope access params))))"

end
