(* ===== verification/Mcp_Correct.thy ===== *)
theory Mcp_Correct
  imports Mcp_Server
begin

text \<open>
  The MCP adapter keeps a request within its endpoint: what lies outside the resolved access reaches no
  use case and is audited as denied. The collaborators are arbitrary, so an equation for a run that does
  not mention one of them says that it was not run.
\<close>

section \<open>Runs of a call\<close>

lemma attempt_run_known: "m s = (r, t) \<Longrightarrow> bind (attempt_run m) f s = f r t"
  by (simp add: bind_def attempt_run_def)

lemma bind_run: "m s = (Inr x, t) \<Longrightarrow> bind m f s = f x t"
  by (simp add: bind_def)

text \<open>How a request got to its endpoint: the state and the access after context and scope were resolved.\<close>

definition admitted ::
  "'s mcp_ports \<Rightarrow> raw_context \<Rightarrow> 's \<Rightarrow> request_context \<Rightarrow> endpoint_scope \<Rightarrow> resolved_access option \<Rightarrow> 's \<Rightarrow> bool" where
  "admitted p raw s cx scope access u \<longleftrightarrow>
     (\<exists>cx0 s1 s2. mp_resolve_context p raw s = (Inr cx0, s1) \<and> with_trace_id p cx0 s1 = (Inr cx, s2) \<and>
        resolve_endpoint_scope raw = Inr scope \<and> resolve_access p scope cx s2 = (Inr access, u))"

lemma on_call_tool_admitted:
  assumes "admitted p raw s cx scope access u"
  shows "on_call_tool sha p raw params s =
    (if cp_name params = NEXUS_SEARCH_TOOLS_NAME then call_search sha p cx scope access params u
     else call_business sha p cx scope access params u)"
proof -
  obtain cx0 s1 s2 where run: "mp_resolve_context p raw s = (Inr cx0, s1)" "with_trace_id p cx0 s1 = (Inr cx, s2)"
      "resolve_endpoint_scope raw = Inr scope" "resolve_access p scope cx s2 = (Inr access, u)"
    using assms by (auto simp: admitted_def)
  have scope: "bind (lift (resolve_endpoint_scope raw)) f s2 = f scope s2" for f :: "_ \<Rightarrow> ('a, call_outcome) prog"
    by (simp add: run(3) bind_def lift_def)
  show ?thesis
    unfolding on_call_tool_def attempt_run_known [of "mp_resolve_context p raw", OF run(1)]
    by (simp add: bind_run [of "with_trace_id p cx0", OF run(2)] scope
        attempt_run_known [of "resolve_access p scope cx", OF run(4)])
qed

text \<open>A scope error's result, once the denial was handed to the audit: a failing audit changes nothing.\<close>

definition denied_run ::
  "(string \<Rightarrow> string) \<Rightarrow> (record_scope_denial_command \<Rightarrow> ('s, unit) prog) \<Rightarrow> nexus_error \<Rightarrow> request_context \<Rightarrow>
   endpoint_scope \<Rightarrow> call_params \<Rightarrow> resolved_access option \<Rightarrow> 's \<Rightarrow> call_outcome result \<times> 's" where
  "denied_run sha audit e cx scope params access u =
     (case audit (scope_denial_command sha e cx scope params access) u of
        (r, t) \<Rightarrow> (if r = Inl CancelledError then Inl CancelledError else Inr (Tool_Result (call_tool_error e)), t))"

lemma audit_then_error:
  assumes "mp_scope_audit p = Some audit" "is_toolset_scope_error e"
  shows "seq (audit_scope_denial sha p e cx scope params access) (ret (Tool_Result (call_tool_error e))) u =
    denied_run sha audit e cx scope params access u"
  using assms
  by (auto simp: audit_scope_denial_def denied_run_def seq_def bind_def catch_def ret_def raise_def
      split: prod.splits sum.splits)

lemma audit_other: "\<not> is_toolset_scope_error e \<Longrightarrow> audit_scope_denial sha p e cx scope params access = ret ()"
  by (auto simp: audit_scope_denial_def split: option.splits)

lemma require_business_tool_cases:
  "require_business_tool a name =
    (if name \<in> pt_canonical_name ` set (ra_tools a) then Inr ()
     else Inl (NexusError (if name \<in> set (ra_unavailable_tool_names a) then ToolsetMemberUnavailableError
                           else ToolsetAccessDeniedError)))"
  by (auto simp: require_business_tool_def list_ex_iff)

lemma scope_errors [simp]:
  "is_toolset_scope_error ToolsetMemberUnavailableError" "is_toolset_scope_error ToolsetAccessDeniedError"
  by (simp_all add: is_toolset_scope_error_def)

section \<open>Business tools\<close>

lemma business_call_outside:
  assumes "cp_name params \<notin> pt_canonical_name ` set (ra_tools a)"
  shows "business_call p call cx (Some a) params u =
    (Inl (NexusError (if cp_name params \<in> set (ra_unavailable_tool_names a) then ToolsetMemberUnavailableError
                      else ToolsetAccessDeniedError)), u)"
  using assms by (simp add: business_call_def require_business_tool_cases seq_def bind_def lift_def)

lemma business_call_inside:
  assumes "cp_name params \<in> pt_canonical_name ` set (ra_tools a)"
  shows "business_call p call cx (Some a) params =
    seq (resolve_interactive_approval p cx params)
      (bind (lift (idempotency_key params)) (\<lambda>key.
       bind (lift (call_command_post_init (call_command cx (Some a) params key))) call))"
  using assms by (simp add: business_call_def require_business_tool_cases seq_def bind_def lift_def fun_eq_iff)

text \<open>Neither collaborator takes part in the admission.\<close>

lemma admitted_other_ports [simp]:
  "admitted (p\<lparr>mp_call_tool := x\<rparr>) = admitted p" "admitted (p\<lparr>mp_decide_approval := y\<rparr>) = admitted p"
  "admitted (p\<lparr>mp_search_tools := z\<rparr>) = admitted p"
  by (simp_all add: fun_eq_iff admitted_def with_trace_id_def resolve_access_def)

lemma audit_other_ports [simp]:
  "audit_scope_denial sha (p\<lparr>mp_call_tool := x\<rparr>) = audit_scope_denial sha p"
  "audit_scope_denial sha (p\<lparr>mp_decide_approval := y\<rparr>) = audit_scope_denial sha p"
  "audit_scope_denial sha (p\<lparr>mp_search_tools := z\<rparr>) = audit_scope_denial sha p"
  by (simp_all add: fun_eq_iff audit_scope_denial_def)

lemma interactive_other_ports [simp]:
  "resolve_interactive_approval (p\<lparr>mp_call_tool := x\<rparr>) = resolve_interactive_approval p"
  by (simp add: fun_eq_iff resolve_interactive_approval_def split: option.split)

text \<open>How a finished tool call is answered.\<close>

definition answer_call ::
  "(string \<Rightarrow> string) \<Rightarrow> 's mcp_ports \<Rightarrow> request_context \<Rightarrow> endpoint_scope \<Rightarrow> resolved_access option \<Rightarrow> call_params \<Rightarrow>
   call_tool_result result \<times> 's \<Rightarrow> call_outcome result \<times> 's" where
  "answer_call sha p cx scope access params rt =
     (case rt of
        (Inr r, t) \<Rightarrow> (Inr (Tool_Result (success_result r cx)), t)
      | (Inl e, t) \<Rightarrow>
          (case e of
             NexusError ne \<Rightarrow>
               (case ne of
                  ApprovalRequiredError (Some i) expires_at \<Rightarrow>
                    (Inr (if cx_protocol_era cx = MODERN
                          then Input_Required (approval_input_required (cp_name params) i expires_at)
                          else Tool_Result (call_tool_error ne)), t)
                | _ \<Rightarrow> seq (audit_scope_denial sha p ne cx scope params access) (ret (Tool_Result (call_tool_error ne))) t)
           | CancelledError \<Rightarrow> (Inl CancelledError, t)
           | _ \<Rightarrow> (Inr (Tool_Result plain_error), t)))"

lemma answer_other_ports [simp]: "answer_call sha (p\<lparr>mp_call_tool := x\<rparr>) = answer_call sha p"
  unfolding fun_eq_iff answer_call_def audit_other_ports by (rule allI)+ (rule HOL.refl)

lemma call_business_answers:
  assumes "mp_call_tool p = Some call"
  shows "call_business sha p cx scope access params u =
    answer_call sha p cx scope access params (business_call p call cx access params u)"
proof (cases "business_call p call cx access params u")
  case (Pair r t)
  show ?thesis
  proof (cases r)
    case (Inr x)
    then show ?thesis using assms Pair by (simp add: call_business_def answer_call_def catch_def bind_def ret_def)
  next
    case (Inl e)
    have step: "call_business sha p cx scope access params u = (case e of
        NexusError (ApprovalRequiredError approval_id expires_at) \<Rightarrow>
          (case approval_id of
             Some i \<Rightarrow>
               if cx_protocol_era cx = MODERN
               then ret (Input_Required (approval_input_required (cp_name params) i expires_at))
               else ret (Tool_Result (call_tool_error (ApprovalRequiredError approval_id expires_at)))
           | None \<Rightarrow> ret (Tool_Result (call_tool_error (ApprovalRequiredError approval_id expires_at))))
      | NexusError ne \<Rightarrow>
          seq (audit_scope_denial sha p ne cx scope params access) (ret (Tool_Result (call_tool_error ne)))
      | CancelledError \<Rightarrow> raise e
      | _ \<Rightarrow> ret (Tool_Result plain_error)) t"
      using assms Pair Inl by (simp add: call_business_def catch_def bind_def)
    show ?thesis
    proof (cases e)
      case (NexusError ne)
      then show ?thesis
        unfolding step answer_call_def Pair Inl
        by (cases ne) (simp_all add: ret_def audit_other is_toolset_scope_error_def seq_def bind_def split: option.split)
    qed (simp_all add: step answer_call_def Pair Inl ret_def raise_def)
  qed
qed

section \<open>Staying within the endpoint\<close>

text \<open>C13: A call stays within its endpoint. When the access of the request's endpoint is resolved and the
  named tool is not among its tools, neither the tool call nor the approval decision runs: the request
  ends with the error of an unavailable member or of a denied access, after exactly one denial with its
  code, endpoint and toolset was handed to the audit, and a failing audit does not change the answer. When
  the tool is among them, the tool call can only run with the command of this request and endpoint.\<close>

theorem call_stays_in_scope:
  assumes "admitted p raw s cx scope (Some a) u"
    and "mp_call_tool p = Some call" "mp_scope_audit p = Some audit"
    and "cp_name params \<noteq> NEXUS_SEARCH_TOOLS_NAME"
  shows "(cp_name params \<notin> pt_canonical_name ` set (ra_tools a) \<longrightarrow>
      (\<forall>call' decide'. on_call_tool sha (p\<lparr>mp_call_tool := Some call', mp_decide_approval := decide'\<rparr>) raw params s =
        denied_run sha audit
          (if cp_name params \<in> set (ra_unavailable_tool_names a) then ToolsetMemberUnavailableError
           else ToolsetAccessDeniedError) cx scope params (Some a) u)) \<and>
    (cp_name params \<in> pt_canonical_name ` set (ra_tools a) \<longrightarrow>
      (\<forall>call'. (\<forall>key. call' (call_command cx (Some a) params key) = call (call_command cx (Some a) params key)) \<longrightarrow>
        on_call_tool sha (p\<lparr>mp_call_tool := Some call'\<rparr>) raw params s = on_call_tool sha p raw params s))"
proof (intro conjI impI allI)
  fix call' decide'
  assume outside: "cp_name params \<notin> pt_canonical_name ` set (ra_tools a)"
  let ?q = "p\<lparr>mp_call_tool := Some call', mp_decide_approval := decide'\<rparr>"
  let ?e = "if cp_name params \<in> set (ra_unavailable_tool_names a) then ToolsetMemberUnavailableError
      else ToolsetAccessDeniedError"
  have "on_call_tool sha ?q raw params s = call_business sha ?q cx scope (Some a) params u"
    using on_call_tool_admitted [of ?q raw s cx scope "Some a" u] assms(1,4) by simp
  also have "\<dots> = answer_call sha ?q cx scope (Some a) params (business_call ?q call' cx (Some a) params u)"
    by (rule call_business_answers) simp
  also have "\<dots> = answer_call sha ?q cx scope (Some a) params (Inl (NexusError ?e), u)"
    by (simp only: business_call_outside [OF outside])
  also have "\<dots> = seq (audit_scope_denial sha p ?e cx scope params (Some a)) (ret (Tool_Result (call_tool_error ?e))) u"
    by (simp add: answer_call_def)
  also have "\<dots> = denied_run sha audit ?e cx scope params (Some a) u"
    by (rule audit_then_error [OF assms(3)]) simp
  finally show "on_call_tool sha ?q raw params s = denied_run sha audit ?e cx scope params (Some a) u" .
next
  fix call'
  assume inside: "cp_name params \<in> pt_canonical_name ` set (ra_tools a)"
    and same: "\<forall>key. call' (call_command cx (Some a) params key) = call (call_command cx (Some a) params key)"
  let ?q = "p\<lparr>mp_call_tool := Some call'\<rparr>"
  have only: "(bind (lift (call_command_post_init (call_command cx (Some a) params key))) call') =
      (bind (lift (call_command_post_init (call_command cx (Some a) params key))) call)" for key
  proof (cases "call_command_post_init (call_command cx (Some a) params key)")
    case (Inr c)
    then have "c = call_command cx (Some a) params key" by (simp add: call_command_post_init_def validated_Inr_iff)
    then show ?thesis using Inr same by (simp add: bind_def lift_def)
  qed (simp add: bind_def lift_def)
  have "business_call ?q call' cx (Some a) params = business_call p call cx (Some a) params"
    by (simp add: business_call_inside [OF inside] only)
  then have "call_business sha ?q cx scope (Some a) params u = call_business sha p cx scope (Some a) params u"
    using call_business_answers [of ?q call'] call_business_answers [OF assms(2)] by simp
  then show "on_call_tool sha ?q raw params s = on_call_tool sha p raw params s"
    using on_call_tool_admitted [OF assms(1)] on_call_tool_admitted [of ?q raw s cx scope "Some a" u] assms(1,4) by simp
qed

lemma scope_error_denied: "is_toolset_scope_error ToolsetAccessDeniedError" by simp

text \<open>C14: The search tool stays within its endpoint, too. Where the endpoint's discovery mode hides it, the
  search does not run and the denial is audited. Where a search answers, it ran with the arguments of the
  request and the tools of the endpoint as eligible, and every candidate of the answer is one of them,
  whatever the search returned.\<close>

theorem search_stays_in_scope:
  assumes "admitted p raw s cx scope (Some a) u"
    and "mp_search_tools p = Some search" "mp_scope_audit p = Some audit"
    and "cp_name params = NEXUS_SEARCH_TOOLS_NAME"
  shows "(\<not> meta_search_visible (Some a) (mp_search_first p) \<longrightarrow>
      (\<forall>search'. on_call_tool sha (p\<lparr>mp_search_tools := Some search'\<rparr>) raw params s =
        denied_run sha audit ToolsetAccessDeniedError cx scope params (Some a) u)) \<and>
    (\<forall>r t. on_call_tool sha p raw params s = (Inr (Search_Result r), t) \<longrightarrow>
      meta_search_visible (Some a) (mp_search_first p) \<and>
      (\<exists>q found. parse_search_tools_query (actor_of cx) (arguments_of params) = Inr q \<and>
         search (q\<lparr>mq_eligible_tool_ids := Some (sorted_set (available_tool_ids a))\<rparr>) u = (Inr found, t) \<and>
         r = search_tools_result (filter_search_result found a)) \<and>
      (\<forall>c \<in> set (sr_tools r). \<exists>tool \<in> set (ra_tools a). (''toolId'', JStr (pt_tool_id tool)) \<in> set (sc_fields c)))"
proof (intro conjI impI allI)
  fix search'
  assume hidden: "\<not> meta_search_visible (Some a) (mp_search_first p)"
  let ?q = "p\<lparr>mp_search_tools := Some search'\<rparr>"
  have "on_call_tool sha ?q raw params s = call_search sha ?q cx scope (Some a) params u"
    using on_call_tool_admitted [of ?q raw s cx scope "Some a" u] assms(1,4) by simp
  also have "\<dots> = seq (audit_scope_denial sha p ToolsetAccessDeniedError cx scope params (Some a))
      (ret (Tool_Result (call_tool_error ToolsetAccessDeniedError))) u"
    using hidden by (simp add: call_search_def meta_search_def seq_def bind_def catch_def raise_if_def raise_def)
  also have "\<dots> = denied_run sha audit ToolsetAccessDeniedError cx scope params (Some a) u"
    by (rule audit_then_error [OF assms(3) scope_error_denied])
  finally show "on_call_tool sha ?q raw params s = denied_run sha audit ToolsetAccessDeniedError cx scope params (Some a) u" .
next
  fix r t
  assume "on_call_tool sha p raw params s = (Inr (Search_Result r), t)"
  then have "catch (bind (meta_search p search cx (Some a) params) (\<lambda>r. ret (Search_Result (search_tools_result r))))
      (\<lambda>e. case e of
         NexusError ne \<Rightarrow>
           seq (audit_scope_denial sha p ne cx scope params (Some a)) (ret (Tool_Result (call_tool_error ne)))
       | CancelledError \<Rightarrow> raise e
       | _ \<Rightarrow> ret (Tool_Result plain_error)) u = (Inr (Search_Result r), t)"
    using on_call_tool_admitted [OF assms(1)] assms(2,4) by (simp add: call_search_def)
  then obtain x where "meta_search p search cx (Some a) params u = (Inr x, t)" "r = search_tools_result x"
    by (auto simp: catch_def bind_def ret_def raise_def seq_def split: prod.splits sum.splits exn.splits)
  then obtain q found where visible: "meta_search_visible (Some a) (mp_search_first p)"
      and q: "parse_search_tools_query (actor_of cx) (arguments_of params) = Inr q"
      and found: "search (q\<lparr>mq_eligible_tool_ids := Some (sorted_set (available_tool_ids a))\<rparr>) u = (Inr found, t)"
      and r: "r = search_tools_result (filter_search_result found a)"
    by (auto simp: meta_search_def run_Inr scoped_query_def)
  show "meta_search_visible (Some a) (mp_search_first p)" by (rule visible)
  show "\<exists>q found. parse_search_tools_query (actor_of cx) (arguments_of params) = Inr q \<and>
      search (q\<lparr>mq_eligible_tool_ids := Some (sorted_set (available_tool_ids a))\<rparr>) u = (Inr found, t) \<and>
      r = search_tools_result (filter_search_result found a)"
    using q found r by blast
  show "\<forall>c \<in> set (sr_tools r). \<exists>tool \<in> set (ra_tools a). (''toolId'', JStr (pt_tool_id tool)) \<in> set (sc_fields c)"
    by (auto simp: r search_tools_result_def filter_search_result_def Let_def available_tool_ids_def candidate_def)
qed

section \<open>The approval handshake\<close>

definition in_scope :: "resolved_access option \<Rightarrow> call_params \<Rightarrow> bool" where
  "in_scope access params \<longleftrightarrow>
     (case access of None \<Rightarrow> True | Some a \<Rightarrow> cp_name params \<in> pt_canonical_name ` set (ra_tools a))"

lemma business_call_in_scope:
  assumes "in_scope access params"
  shows "business_call p call cx access params =
    seq (resolve_interactive_approval p cx params)
      (bind (lift (idempotency_key params)) (\<lambda>key.
       bind (lift (call_command_post_init (call_command cx access params key))) call))"
  using assms
  by (cases access)
    (simp_all add: in_scope_def business_call_def require_business_tool_cases seq_def bind_def lift_def fun_eq_iff)

text \<open>What an answer to an approval request says: only an acceptance that carries the confirmation approves.\<close>

fun confirms :: "input_response \<Rightarrow> bool" where
  "confirms (Elicit_Result action content) \<longleftrightarrow>
     action = ''accept'' \<and> (\<exists>c. content = Some c \<and> dict_get c ''approved'' = Some (JBool True))"
| "confirms Other_Response \<longleftrightarrow> False"

fun declines :: "input_response \<Rightarrow> bool" where
  "declines (Elicit_Result action content) \<longleftrightarrow> action \<noteq> ''accept''"
| "declines Other_Response \<longleftrightarrow> False"

lemma approval_answer_is:
  "approval_answer [(''approval'', answer)] =
     (if confirms answer \<or> declines answer then Inr (confirms answer) else Inl (NexusError ApprovalMismatchError))"
  by (cases answer) (auto simp: approval_answer_def split: option.splits)

text \<open>A call made with such an answer.\<close>

definition answered_call ::
  "(decide_approval_command \<Rightarrow> ('s, approval_request) prog) \<Rightarrow> (call_tool_command \<Rightarrow> ('s, call_tool_result) prog) \<Rightarrow>
   request_context \<Rightarrow> call_tool_command \<Rightarrow> string \<Rightarrow> input_response \<Rightarrow> ('s, call_tool_result) prog" where
  "answered_call decide call cx command i answer =
     (if confirms answer \<or> declines answer
      then seq (decide \<lparr>dc_context = actor_of cx, dc_approval_id = i, dc_approved = confirms answer\<rparr>)
             (call (command\<lparr>ca_approval_id := Some i\<rparr>))
      else raise (NexusError ApprovalMismatchError))"

text \<open>C15: The approval handshake. A call within its endpoint that turns out to need an approval is answered,
  for a modern client, by a request for input that carries the approval's id as its state. Sending the
  same call again with that state and an answer decides exactly that approval, in the name of the caller,
  as approved if and only if the answer is an acceptance that confirms it, and then makes the same call
  with it; an acceptance without the confirmation, or no answer at all, is a mismatch that neither decides
  nor calls. \<close>

theorem approval_round_trip:
  assumes "admitted p raw s cx scope access u" "in_scope access params"
    and "cp_name params \<noteq> NEXUS_SEARCH_TOOLS_NAME" "cx_protocol_era cx = MODERN"
    and "mp_call_tool p = Some call" "mp_decide_approval p = Some decide"
    and "cp_input_responses params = None" "idempotency_key params = Inr key"
    and "call_command_post_init (call_command cx access params key) = Inr command"
    and "call command u = (Inl (NexusError (ApprovalRequiredError (Some i) expires_at)), w)"
  shows "\<exists>iq. on_call_tool sha p raw params s = (Inr (Input_Required iq), w) \<and> iq_request_state iq = i \<and>
    (\<forall>s' u' answer. admitted p raw s' cx scope access u' \<longrightarrow>
       (let again = params\<lparr>cp_request_state := Some (iq_request_state iq), cp_input_responses := Some [(''approval'', answer)]\<rparr>
        in on_call_tool sha p raw again s' =
          answer_call sha p cx scope access again (answered_call decide call cx command i answer u')))"
proof -
  have command: "command = call_command cx access params key"
    using assms(9) by (simp add: call_command_post_init_def validated_Inr_iff)
  have "business_call p call cx access params u = call command u"
    using assms(7-9) by (simp add: business_call_in_scope [OF assms(2)] resolve_interactive_approval_def seq_def bind_def lift_def ret_def)
  then have first: "on_call_tool sha p raw params s =
      (Inr (Input_Required (approval_input_required (cp_name params) i expires_at)), w)"
    using on_call_tool_admitted [OF assms(1)] assms(3,4,10) call_business_answers [OF assms(5)]
    by (simp add: answer_call_def)
  moreover have "on_call_tool sha p raw again s' =
      answer_call sha p cx scope access again (answered_call decide call cx command i answer u')"
    if "admitted p raw s' cx scope access u'"
      and again: "again = params\<lparr>cp_request_state := Some i, cp_input_responses := Some [(''approval'', answer)]\<rparr>"
    for s' u' answer again
  proof -
    have scope: "in_scope access again" using assms(2) by (simp add: again in_scope_def split: option.splits)
    have key: "idempotency_key again = Inr key" using assms(8) by (simp add: again idempotency_key_def)
    have next_command: "call_command cx access again key = command\<lparr>ca_approval_id := Some i\<rparr>"
      by (simp add: command call_command_def again arguments_of_def)
    have valid: "call_command_post_init (call_command cx access again key) = Inr (command\<lparr>ca_approval_id := Some i\<rparr>)"
      using assms(9) unfolding next_command by (simp add: call_command_post_init_def validated_Inr_iff)
    have "business_call p call cx access again u' = answered_call decide call cx command i answer u'"
    proof (cases "approval_answer [(''approval'', answer)]")
      case (Inl e)
      then have "\<not> (confirms answer \<or> declines answer)" "e = NexusError ApprovalMismatchError"
        by (auto simp: approval_answer_is split: if_splits)
      then show ?thesis
        using Inl
        unfolding business_call_in_scope [OF scope] answered_call_def resolve_interactive_approval_def
        by (simp add: again assms(6) seq_def bind_def lift_def raise_def)
    next
      case (Inr approved)
      then have "confirms answer \<or> declines answer" "approved = confirms answer"
        by (auto simp: approval_answer_is split: if_splits)
      then show ?thesis
        using Inr
        unfolding business_call_in_scope [OF scope] answered_call_def resolve_interactive_approval_def
        by (simp add: again assms(6) seq_def bind_def lift_def ret_def key [unfolded again] valid [unfolded again] split: prod.split sum.split)
    qed
    then show ?thesis
      using on_call_tool_admitted [OF that(1), of sha again] assms(3) call_business_answers [OF assms(5)] by (simp add: again)
  qed
  ultimately show ?thesis by (auto simp: approval_input_required_def Let_def)
qed

section \<open>A concrete endpoint\<close>

text \<open>Collaborators that note on the state that they ran; the endpoint offers one tool, the search finds
  two.\<close>

definition noting :: "string \<Rightarrow> 'a result \<Rightarrow> (string list, 'a) prog" where
  "noting what r = (\<lambda>s. (r, s @ [what]))"

definition crm_tool :: "string \<Rightarrow> string \<Rightarrow> published_tool" where
  "crm_tool i name = \<lparr>pt_tool_id = i, pt_tool_version_id = ''v'', pt_tenant_id = ''acme'',
     pt_canonical_name = name, pt_display_name = name, pt_description = [],
     pt_input_schema = JObj [(''type'', JStr ''object'')], pt_output_schema = None, pt_version = 1,
     pt_visibility = VIS_PUBLIC, pt_side_effect = READ_ONLY, pt_schema_digest = ''d'', pt_owner = None,
     pt_tags = []\<rparr>"

definition crm_scope :: endpoint_scope where
  "crm_scope = \<lparr>es_type = Toolset_Runtime.SCOPE_TOOLSET, es_toolset_slug = Some ''crm''\<rparr>"

definition crm_access :: resolved_access where
  "crm_access = \<lparr>ra_endpoint_scope = crm_scope, ra_tools = [crm_tool ''t1'' ''crm.find''],
     ra_unavailable_tool_names = [''crm.old''], ra_discovery_mode = Some DISCOVERY_SEARCH_FIRST,
     ra_toolset_id = Some ''ts'', ra_toolset_revision = Some 1\<rparr>"

definition crm_context :: request_context where
  "crm_context = \<lparr>cx_request_id = ''r'', cx_trace_id = ''x'', cx_tenant_id = ''acme'',
     cx_principal_id = ''anonymous'', cx_authn_method = ''anonymous'', cx_principal_type = ''anonymous'',
     cx_protocol_version = MODERN_PROTOCOL_VERSION, cx_protocol_era = MODERN, cx_policy_snapshot = None\<rparr>"

definition crm_approval :: approval_request where
  "crm_approval = \<lparr>ap_id = ''ap'', ap_tenant_id = ''acme'', ap_principal_id = ''anonymous'', ap_tool_id = ''t1'',
     ap_tool_version_id = ''v'', ap_arguments_digest = ''d'', ap_policy_version = ''1'', ap_status = APPROVED,
     ap_requested_at = 0, ap_expires_at = 9, ap_idempotency_key = None, ap_decided_by = Some ''anonymous'',
     ap_decided_at = Some 1, ap_consumed_at = None\<rparr>"

definition crm_result :: call_tool_result where
  "crm_result = \<lparr>cr_execution_id = ''e'', cr_data = JStr ''done'', cr_content_type = None,
     cr_upstream_status = Some 200, cr_attempt_count = 1\<rparr>"

definition crm_call :: "call_tool_command \<Rightarrow> (string list, call_tool_result) prog" where
  "crm_call c = noting ''call''
     (if ca_approval_id c = None then Inl (NexusError (ApprovalRequiredError (Some ''ap'') None)) else Inr crm_result)"

definition crm_search :: "meta_search_query \<Rightarrow> (string list, meta_search_result) prog" where
  "crm_search q = noting ''search'' (Inr \<lparr>mr_hits =
       [\<lparr>sh_tool = crm_tool ''t1'' ''crm.find'', sh_rank = 2\<rparr>, \<lparr>sh_tool = crm_tool ''t2'' ''crm.lock'', sh_rank = 1\<rparr>],
     mr_retrieval_mode = LEXICAL, mr_index_version = None, mr_diagnostics = None\<rparr>)"

definition crm_decide :: "decide_approval_command \<Rightarrow> (string list, approval_request) prog" where
  "crm_decide d = noting ''decide'' (Inr crm_approval)"

definition crm_audit :: "record_scope_denial_command \<Rightarrow> (string list, unit) prog" where
  "crm_audit d = noting ''audit'' (Inr ())"

definition crm_ports :: "string list mcp_ports" where
  "crm_ports = \<lparr>
     mp_resolve_context = (\<lambda>raw. lift (resolve_request_context ''u'' ''x'' raw ''acme'' None)),
     mp_observed_trace_id = ret None, mp_list_visible_tools = (\<lambda>_. ret []), mp_call_tool = Some crm_call,
     mp_search_tools = Some crm_search, mp_search_first = False, mp_decide_approval = Some crm_decide,
     mp_resolve_access = Some (\<lambda>cx scope. noting ''access'' (Inr crm_access)), mp_scope_audit = Some crm_audit\<rparr>"

definition crm_raw :: raw_context where
  "crm_raw = \<lparr>rw_protocol_version = MODERN_PROTOCOL_VERSION, rw_request_id = Some ''r'', rw_headers = None,
     rw_path_params = Some [(''toolset_slug'', JStr ''crm'')]\<rparr>"

definition crm_params :: "string \<Rightarrow> call_params" where
  "crm_params name = \<lparr>cp_name = name, cp_arguments = None, cp_meta = None, cp_request_state = None,
     cp_input_responses = None\<rparr>"

lemma crm_resolved: "resolve_request_context ''u'' ''x'' crm_raw ''acme'' None = Inr crm_context"
  by code_simp

lemma crm_scoped: "resolve_endpoint_scope crm_raw = Inr crm_scope"
  by code_simp

lemma crm_admitted: "admitted crm_ports crm_raw s crm_context crm_scope (Some crm_access) (s @ [''access''])"
  by (simp add: admitted_def crm_ports_def crm_resolved crm_scoped with_trace_id_def resolve_access_def noting_def
      lift_def bind_def ret_def)

lemma crm_ports_fields [simp]:
  "mp_call_tool crm_ports = Some crm_call" "mp_search_tools crm_ports = Some crm_search"
  "mp_scope_audit crm_ports = Some crm_audit" "mp_decide_approval crm_ports = Some crm_decide"
  "mp_search_first crm_ports = False"
  by (simp_all add: crm_ports_def)

lemma crm_names:
  "pt_canonical_name ` set (ra_tools crm_access) = {''crm.find''}" "ra_unavailable_tool_names crm_access = [''crm.old'']"
  by (simp_all add: crm_access_def crm_tool_def)

lemma crm_denied:
  "denied_run sha crm_audit e cx scope params access u = (Inr (Tool_Result (call_tool_error e)), u @ [''audit''])"
  by (simp add: denied_run_def crm_audit_def noting_def)

text \<open>A tool outside the endpoint, and one inside.\<close>

theorem call_stays_in_scope_witness:
  "on_call_tool sample_sha crm_ports crm_raw (crm_params ''crm.lock'') [] =
     (Inr (Tool_Result (call_tool_error ToolsetAccessDeniedError)), [''access'', ''audit'']) \<and>
   on_call_tool sample_sha crm_ports crm_raw (crm_params ''crm.old'') [] =
     (Inr (Tool_Result (call_tool_error ToolsetMemberUnavailableError)), [''access'', ''audit''])"
proof -
  have same: "crm_ports\<lparr>mp_call_tool := Some crm_call, mp_decide_approval := Some crm_decide\<rparr> = crm_ports"
    by (simp add: crm_ports_def)
  have outside: "on_call_tool sample_sha crm_ports crm_raw (crm_params name) [] =
      denied_run sample_sha crm_audit (if name = ''crm.old'' then ToolsetMemberUnavailableError else ToolsetAccessDeniedError)
        crm_context crm_scope (crm_params name) (Some crm_access) [''access'']"
    if "name = ''crm.lock'' \<or> name = ''crm.old''" for name
    using call_stays_in_scope [OF crm_admitted [of "[]"] crm_ports_fields(1,3), of "crm_params name" sample_sha,
        THEN conjunct1, THEN mp, rule_format, of "Some crm_decide" crm_call, unfolded same] that
    by (auto simp: crm_names crm_params_def NEXUS_SEARCH_TOOLS_NAME_def)
  show ?thesis by (simp add: outside crm_denied)
qed

text \<open>Of the two tools found only the endpoint's is shown.\<close>

definition crm_find :: call_params where
  "crm_find = (crm_params NEXUS_SEARCH_TOOLS_NAME)
     \<lparr>cp_arguments := Some [(''query'', JStr ''find''), (''retrieval_mode'', JStr ''lexical'')]\<rparr>"

lemma crm_search_runs:
  "\<exists>r. on_call_tool sample_sha crm_ports crm_raw crm_find [] = (Inr (Search_Result r), [''access'', ''search'']) \<and>
    length (sr_tools r) = 1"
proof -
  have "\<not> isl (parse_search_tools_query (actor_of crm_context) (arguments_of crm_find))" by code_simp
  then obtain q where q: "parse_search_tools_query (actor_of crm_context) (arguments_of crm_find) = Inr q"
    by (cases "parse_search_tools_query (actor_of crm_context) (arguments_of crm_find)") auto
  have visible: "meta_search_visible (Some crm_access) False" by code_simp
  have name: "cp_name crm_find = NEXUS_SEARCH_TOOLS_NAME" by (simp add: crm_find_def crm_params_def)
  have "length (sr_tools (search_tools_result (filter_search_result r crm_access))) = 1"
    if "crm_search q [] = (Inr r, t)" for r t q
    using that by (auto simp: crm_search_def noting_def search_tools_result_def filter_search_result_def
        available_tool_ids_def crm_access_def crm_tool_def)
  then show ?thesis
    using on_call_tool_admitted [OF crm_admitted [of "[]"], of sample_sha crm_find] name visible q
    by (simp add: call_search_def meta_search_def scoped_query_def crm_search_def noting_def seq_def bind_def catch_def
        raise_if_def ret_def lift_def)
qed

theorem search_stays_in_scope_witness:
  "\<exists>r. on_call_tool sample_sha crm_ports crm_raw crm_find [] = (Inr (Search_Result r), [''access'', ''search'']) \<and>
    length (sr_tools r) = 1 \<and>
    (\<forall>c \<in> set (sr_tools r). (''toolId'', JStr ''t1'') \<in> set (sc_fields c))"
proof -
  obtain r where run: "on_call_tool sample_sha crm_ports crm_raw crm_find [] = (Inr (Search_Result r), [''access'', ''search''])"
    and one: "length (sr_tools r) = 1"
    using crm_search_runs by blast
  have name: "cp_name crm_find = NEXUS_SEARCH_TOOLS_NAME" by (simp add: crm_find_def crm_params_def)
  have "\<forall>c \<in> set (sr_tools r). \<exists>tool \<in> set (ra_tools crm_access). (''toolId'', JStr (pt_tool_id tool)) \<in> set (sc_fields c)"
    using search_stays_in_scope [OF crm_admitted [of "[]"] crm_ports_fields(2,3) name, of sample_sha,
        THEN conjunct2, rule_format, OF run] by blast
  then show ?thesis using run one by (auto simp: crm_access_def crm_tool_def)
qed

text \<open>Asked, answered, called.\<close>

theorem approval_round_trip_witness:
  "\<exists>iq. on_call_tool sample_sha crm_ports crm_raw (crm_params ''crm.find'') [] = (Inr (Input_Required iq), [''access'', ''call'']) \<and>
    iq_request_state iq = ''ap'' \<and>
    on_call_tool sample_sha crm_ports crm_raw
      ((crm_params ''crm.find'')\<lparr>cp_request_state := Some (iq_request_state iq),
         cp_input_responses := Some [(''approval'', Elicit_Result ''accept'' (Some [(''approved'', JBool True)]))]\<rparr>) [] =
      (Inr (Tool_Result (success_result crm_result crm_context)), [''access'', ''decide'', ''call''])"
proof -
  let ?p = "crm_params ''crm.find''"
  let ?command = "call_command crm_context (Some crm_access) ?p None"
  have scope: "in_scope (Some crm_access) ?p" by (simp add: in_scope_def crm_names crm_params_def)
  have plain: "cp_name ?p \<noteq> NEXUS_SEARCH_TOOLS_NAME" "cp_input_responses ?p = None" "idempotency_key ?p = Inr None"
    "cp_request_state ?p = None"
    by (simp_all add: crm_params_def NEXUS_SEARCH_TOOLS_NAME_def idempotency_key_def)
  have modern: "cx_protocol_era crm_context = MODERN" by (simp add: crm_context_def)
  have valid: "call_command_post_init ?command = Inr ?command" by code_simp
  have asked: "crm_call ?command u = (Inl (NexusError (ApprovalRequiredError (Some ''ap'') None)), u @ [''call''])" for u
    by (simp add: crm_call_def noting_def call_command_def plain)
  note handshake = approval_round_trip [OF crm_admitted [of "[]"] scope plain(1) modern crm_ports_fields(1,4) plain(2,3) valid asked,
      of sample_sha]
  then obtain iq where first: "on_call_tool sample_sha crm_ports crm_raw ?p [] = (Inr (Input_Required iq), [''access'', ''call''])"
      and state: "iq_request_state iq = ''ap''"
      and again: "\<And>answer. on_call_tool sample_sha crm_ports crm_raw
        (?p\<lparr>cp_request_state := Some ''ap'', cp_input_responses := Some [(''approval'', answer)]\<rparr>) [] =
        answer_call sample_sha crm_ports crm_context crm_scope (Some crm_access)
          (?p\<lparr>cp_request_state := Some ''ap'', cp_input_responses := Some [(''approval'', answer)]\<rparr>)
          (answered_call crm_decide crm_call crm_context ?command ''ap'' answer [''access''])"
    using crm_admitted [of "[]"] by (auto simp: Let_def)
  show ?thesis
    using first state
    by (auto simp: again answered_call_def crm_decide_def crm_call_def noting_def seq_def bind_def answer_call_def)
qed

end
