(* ===== verification/Bootstrap_Correct.thy ===== *)
theory Bootstrap_Correct
  imports Bootstrap Http_Executor_Correct Egress_Correct Mcp_Correct
begin

text \<open>
  What the settings guarantee once the parts are put together: who a caller can be, and where a production
  gateway connects to.
\<close>

section \<open>Production settings\<close>

lemma validated_settings: "validate_runtime_mode s = Inr v \<Longrightarrow> v = s"
  by (simp add: validate_runtime_mode_def validated_Inr_iff)

lemma production_settings:
  assumes "validate_runtime_mode s = Inr s" "cf_environment s = ENV_PRODUCTION"
  shows "cf_catalog_backend s = BACKEND_POSTGRESQL \<and> cf_database_url s \<noteq> None \<and>
    cf_upstream_egress_policy_enabled s \<and> \<not> cf_upstream_allow_local_demo s \<and>
    (cf_upstream_allowed_hosts s \<noteq> [] \<or> cf_upstream_allowed_cidrs s \<noteq> []) \<and>
    (cf_tool_execution_enabled s \<longrightarrow> cf_request_state_key s \<noteq> None) \<and>
    (cf_control_plane_enabled s \<longrightarrow> cf_admin_identity_mode s = ADMIN_PUBLIC_DEMO)"
  using assms by (auto simp: validate_runtime_mode_def validated_Inr_iff)

text \<open>What the policy of a production gateway admits is no address of the host itself.\<close>

lemma fenced_endpoint:
  assumes "endpoint_admitted rt idna resolve pol x endpoint addresses" "\<not> eg_allow_local_demo pol"
  shows "\<forall>a \<in> set addresses. valid_ip a \<longrightarrow> \<not> local_range (seen_as (mapped_loopback rt) a)"
  using assms by (fastforce simp: endpoint_admitted_def address_admitted_def)

lemma egress_policy_demo: "egress_policy_init idna hosts cidrs ports demo = Inr pol \<Longrightarrow> eg_allow_local_demo pol = demo"
  by (auto simp: egress_policy_init_def result_bind_def split: sum.splits if_splits)


text \<open>A production gateway that may reach one network, and a call to an address in it.\<close>

definition production :: settings where
  "production = default_settings
     \<lparr>cf_environment := ENV_PRODUCTION, cf_catalog_backend := BACKEND_POSTGRESQL,
      cf_database_url := Some (SecretValue ''postgresql://db''), cf_upstream_egress_policy_enabled := True,
      cf_upstream_allowed_cidrs := [''10.0.0.0/8'']\<rparr>"

definition fenced_request :: executor_request where
  "fenced_request = (crm_request ''7'')
     \<lparr>er_tool := (er_tool (crm_request ''7''))\<lparr>rt_upstream_endpoint := ''https://10.1.2.3/api/''\<rparr>\<rparr>"

definition fence :: "(int, upstream_store) endpoint_policy" where
  "fence = (case resolved_endpoint_policy (sample_runtime True) (\<lambda>_. None) (\<lambda>_ _. ret []) production None of Inr p \<Rightarrow> p)"

lemma production_valid: "validate_runtime_mode production = Inr production"
proof -
  have "\<not> isl (validate_runtime_mode production)" by code_simp
  then show ?thesis using validated_settings by (cases "validate_runtime_mode production") auto
qed

lemma fence_built:
  "resolved_endpoint_policy (sample_runtime True) (\<lambda>_. None) (\<lambda>_ _. ret []) production None = Inr fence"
proof -
  have "\<not> isl (egress_policy_init (\<lambda>_. None) (cf_upstream_allowed_hosts production)
      (cf_upstream_allowed_cidrs production) (cf_upstream_allowed_ports production) (cf_upstream_allow_local_demo production))"
    by code_simp
  moreover have "cf_upstream_egress_policy_enabled production" by (simp add: production_def)
  ultimately show ?thesis
    by (auto simp: fence_def resolved_endpoint_policy_def result_bind_def split: sum.splits)
qed

lemma fenced_plain: "plain_path_names (parameters_of fenced_request)"
  unfolding plain_path_names_def by code_simp

lemma fence_lets_pass:
  "fst (httpx_execute fence (\<lambda>_. ret Timed_Out) 100 fenced_request None registry_start) \<noteq>
   fst (httpx_execute fence (\<lambda>_. ret Network_Failed) 100 fenced_request None registry_start)"
  by code_simp


section \<open>Callers\<close>

text \<open>C16: A request acts for nobody but a configured caller. Where the resolver that \<open>create_app\<close> builds
  yields a context, the context is in the deployment's own tenant, and its principal is the configured one
  of a static service, or, where agents must authenticate, the one whose token the request's authorization
  header carries; it is never anonymous because a header is missing. Under service identity a request
  without such a token gets an authentication error.\<close>

theorem callers_are_configured:
  assumes "create_context_resolver sha s identities = Inr resolver"
  shows "(\<forall>cx. resolver fresh_uuid fresh_hex raw = Inr cx \<longrightarrow>
      cx_tenant_id cx = cf_local_tenant_id s \<and>
      (case identities of
         None \<Rightarrow> cf_mcp_identity_mode s = STATIC_SERVICE \<and> cx_principal_id cx = cf_static_agent_principal_id s \<and>
           cx_authn_method cx = ''static_service''
       | Some ids \<Rightarrow> cf_mcp_identity_mode s = SERVICE_IDENTITY \<and>
           (\<exists>scheme token m.
              dict_get (request_headers raw) ''authorization'' = Some (scheme @ CHR '' '' # token) \<and>
              py_lower scheme = ''bearer'' \<and> token \<noteq> [] \<and> m \<in> set ids \<and>
              token_digest sha (reveal (bm_token m)) = token_digest sha token \<and>
              pr_tenant_id (bm_principal m) = cf_local_tenant_id s \<and>
              cx_principal_id cx = pr_id (bm_principal m) \<and> cx_authn_method cx = pr_authn_method (bm_principal m)))) \<and>
    (\<forall>e. identities \<noteq> None \<longrightarrow> resolver fresh_uuid fresh_hex raw = Inl e \<longrightarrow> e = NexusError AuthenticationError)"
proof -
  obtain caller where caller: "static_agent_principal s (identities \<noteq> None) = Inr caller"
      and resolver: "resolver fresh_uuid fresh_hex raw =
        app_context_resolver sha fresh_uuid fresh_hex identities caller (cf_local_tenant_id s) raw"
    using assms by (auto simp: create_context_resolver_def result_bind_def split: sum.splits)
  show ?thesis
  proof (cases identities)
    case None
    then have "cf_mcp_identity_mode s = STATIC_SERVICE"
        and p: "caller = Some \<lparr>pr_id = cf_static_agent_principal_id s, pr_tenant_id = cf_local_tenant_id s,
          pr_principal_type = AGENT_SERVICE, pr_authn_method = ''static_service''\<rparr>"
      using caller
      by (auto simp: static_agent_principal_def result_bind_def check_rules
          split: mcp_identity_mode.splits sum.splits)
    then show ?thesis
      using None by (auto simp: resolver app_context_resolver_def resolve_request_context_def result_bind_def)
  next
    case (Some ids)
    then have mode: "cf_mcp_identity_mode s = SERVICE_IDENTITY"
      using caller by (auto simp: static_agent_principal_def split: mcp_identity_mode.splits)
    let ?header = "dict_get (request_headers raw) ''authorization''"
    show ?thesis
    proof (cases "bearer_authenticate sha ids ?header (cf_local_tenant_id s)")
      case (Inl e)
      then have "e = NexusError AuthenticationError"
        using bearer_authenticate_sound by blast
      then show ?thesis
        using Some Inl by (simp add: resolver app_context_resolver_def result_bind_def)
    next
      case (Inr p)
      then obtain scheme token m where m: "?header = Some (scheme @ CHR '' '' # token)" "py_lower scheme = ''bearer''"
          "token \<noteq> []" "m \<in> set ids" "token_digest sha (reveal (bm_token m)) = token_digest sha token"
          "p = bm_principal m" "pr_tenant_id p = cf_local_tenant_id s"
        using bearer_authenticate_sound by blast
      show ?thesis
        using Some Inr mode m
        by (auto simp: resolver app_context_resolver_def resolve_request_context_def result_bind_def)
    qed
  qed
qed

definition agents :: settings where
  "agents = default_settings\<lparr>cf_mcp_identity_mode := SERVICE_IDENTITY, cf_local_tenant_id := ''acme''\<rparr>"

definition agent_raw :: raw_context where
  "agent_raw = crm_raw\<lparr>rw_headers := Some [(''Authorization'', ''Bearer s3cret'')]\<rparr>"

definition agent_resolver :: "string \<Rightarrow> string \<Rightarrow> raw_context \<Rightarrow> request_context result" where
  "agent_resolver fresh_uuid fresh_hex raw =
     app_context_resolver sample_sha fresh_uuid fresh_hex (Some sample_identities) None (cf_local_tenant_id agents) raw"

lemma agent_resolver_built: "create_context_resolver sample_sha agents (Some sample_identities) = Inr agent_resolver"
  by (simp add: create_context_resolver_def static_agent_principal_def agents_def result_bind_def agent_resolver_def fun_eq_iff)

theorem callers_are_configured_witness:
  "\<exists>cx. agent_resolver ''u'' ''x'' agent_raw = Inr cx \<and> cx_tenant_id cx = ''acme'' \<and> cx_principal_id cx = ''agent''"
proof -
  have "\<not> isl (agent_resolver ''u'' ''x'' agent_raw)" by code_simp
  then obtain cx where cx: "agent_resolver ''u'' ''x'' agent_raw = Inr cx"
    by (cases "agent_resolver ''u'' ''x'' agent_raw") auto
  moreover have "cf_local_tenant_id agents = ''acme''" by (simp add: agents_def)
  ultimately have "cx_tenant_id cx = ''acme'' \<and> (\<exists>m \<in> set sample_identities. cx_principal_id cx = pr_id (bm_principal m))"
    using callers_are_configured [OF agent_resolver_built, of "''u''" "''x''" agent_raw] by auto
  then show ?thesis using cx by (auto simp: sample_identities_def)
qed

end
