(* ===== verification/Http_Errors.thy ===== *)
theory Http_Errors
  imports Python_Text Errors
begin

text \<open>
  Errors at the HTTP interface (\<open>interfaces/http/errors.py\<close>): the status of an application error by its
  code, the problem details that leave the process, and those of a request that failed validation. The
  request id of the log context is an argument. A response is its status and its JSON content.
\<close>

definition HTTP_STATUS_BY_ERROR_CODE :: "(string, int) dict" where
  "HTTP_STATUS_BY_ERROR_CODE =
     [(''tool_not_found'', 404),
      (''tool_version_not_found'', 404),
      (''tool_binding_not_found'', 404),
      (''toolset_not_found'', 404),
      (''toolset_access_denied'', 403),
      (''openapi_source_not_found'', 404),
      (''openapi_import_job_not_found'', 404),
      (''imported_operation_not_found'', 404),
      (''upstream_not_found'', 404),
      (''tool_not_visible'', 403),
      (''tenant_boundary_violation'', 403),
      (''invalid_tool_state'', 409),
      (''publish_conflict'', 409),
      (''toolset_conflict'', 409),
      (''toolset_revision_conflict'', 409),
      (''toolset_member_unavailable'', 409),
      (''toolset_not_active'', 409),
      (''system_toolset_immutable'', 409),
      (''invalid_toolset_members'', 422),
      (''upstream_not_active'', 409),
      (''schema_digest_mismatch'', 409),
      (''binding_digest_mismatch'', 409),
      (''invalid_review_state'', 409),
      (''openapi_feature_unsupported'', 422),
      (''upstream_conflict'', 409),
      (''feature_not_enabled'', 501),
      (''authorization_denied'', 403),
      (''authentication_failed'', 401),
      (''approval_required'', 202),
      (''approval_not_found'', 404),
      (''approval_pending'', 409),
      (''approval_rejected'', 409),
      (''approval_expired'', 409),
      (''approval_already_consumed'', 409),
      (''approval_mismatch'', 409),
      (''approval_invalid_state'', 409),
      (''credential_binding_not_found'', 404),
      (''credential_binding_conflict'', 409),
      (''credential_resolution_failed'', 502),
      (''upstream_timeout'', 504),
      (''upstream_unavailable'', 502),
      (''upstream_response_error'', 502),
      (''unknown_execution_outcome'', 502),
      (''tool_execution_not_found'', 404),
      (''invalid_execution_state'', 409),
      (''execution_attempt_not_found'', 404),
      (''idempotency_key_required'', 422),
      (''idempotency_conflict'', 409),
      (''idempotency_in_progress'', 409),
      (''idempotency_already_completed'', 409),
      (''idempotency_outcome_unknown'', 409),
      (''idempotency_previous_failed'', 409),
      (''tool_search_mode_unavailable'', 503),
      (''tool_search_reindex_job_not_found'', 404),
      (''tool_search_reindex_job_conflict'', 409),
      (''embedding_authentication_failed'', 502),
      (''embedding_rate_limited'', 429),
      (''embedding_unavailable'', 503),
      (''embedding_response_invalid'', 502),
      (''unsafe_upstream_endpoint'', 403)]"

definition http_status_for :: "nexus_error \<Rightarrow> int" where
  "http_status_for e = (case dict_get HTTP_STATUS_BY_ERROR_CODE (error_code e) of Some n \<Rightarrow> n | None \<Rightarrow> 400)"

record problem_field_error =
  pf_field :: string
  pf_code :: string
  pf_detail :: string

record problem_details =
  pd_type :: string
  pd_title :: string
  pd_status :: int
  pd_problem_detail :: string
  pd_code :: string
  pd_request_id :: "string option"
  pd_errors :: "problem_field_error list option"

text \<open>\<open>model_dump(mode="json", exclude_none=True)\<close>\<close>

definition dump_field_error :: "problem_field_error \<Rightarrow> json" where
  "dump_field_error f =
     JObj [(''field'', JStr (pf_field f)), (''code'', JStr (pf_code f)), (''detail'', JStr (pf_detail f))]"

definition dump_problem :: "problem_details \<Rightarrow> json" where
  "dump_problem p = JObj
     ([(''type'', JStr (pd_type p)), (''title'', JStr (pd_title p)), (''status'', JInt (pd_status p)),
       (''detail'', JStr (pd_problem_detail p)), (''code'', JStr (pd_code p))] @
      (case pd_request_id p of None \<Rightarrow> [] | Some i \<Rightarrow> [(''request_id'', JStr i)]) @
      (case pd_errors p of None \<Rightarrow> [] | Some fs \<Rightarrow> [(''errors'', JList (map dump_field_error fs))]))"

definition http_error_body :: "string option \<Rightarrow> nexus_error \<Rightarrow> json" where
  "http_error_body request_id e = dump_problem
     \<lparr>pd_type = ''urn:nexusmcp:error:'' @ error_code e, pd_title = ''Request rejected'',
      pd_status = http_status_for e, pd_problem_detail = safe_message e, pd_code = error_code e,
      pd_request_id = request_id, pd_errors = None\<rparr>"

record http_reply =
  hy_status_code :: int
  hy_content :: json

text \<open>What is no application error is left to the server's own boundary.\<close>

definition nexusmcp_error_handler :: "string option \<Rightarrow> exn \<Rightarrow> http_reply result" where
  "nexusmcp_error_handler request_id error =
     (case error of
        NexusError e \<Rightarrow> Inr \<lparr>hy_status_code = http_status_for e, hy_content = http_error_body request_id e\<rparr>
      | _ \<Rightarrow> Inl (TypeError ''nexusmcp error handler received an unsupported exception''))"

section \<open>Request validation\<close>

text \<open>One item of \<open>RequestValidationError.errors()\<close>; \<open>None\<close> where the key is missing.\<close>

record validation_item =
  vi_loc :: "json list option"
  vi_type :: "string option"
  vi_msg :: "string option"

definition field_path :: "json list option \<Rightarrow> string" where
  "field_path location =
     (case location of
        None \<Rightarrow> ''request''
      | Some items \<Rightarrow>
          let joined = join_with ''.'' (map py_str
                (filter (\<lambda>item. item \<notin> {JStr ''body'', JStr ''query'', JStr ''path''}) items))
          in if joined = [] then ''request'' else joined)"

definition field_error_of :: "validation_item \<Rightarrow> problem_field_error" where
  "field_error_of item =
     \<lparr>pf_field = field_path (vi_loc item),
      pf_code = (case vi_type item of None \<Rightarrow> ''validation_error'' | Some t \<Rightarrow> t),
      pf_detail = (case vi_msg item of None \<Rightarrow> ''Invalid value'' | Some m \<Rightarrow> m)\<rparr>"

definition request_validation_reply :: "string option \<Rightarrow> validation_item list \<Rightarrow> http_reply" where
  "request_validation_reply request_id items =
     \<lparr>hy_status_code = 422, hy_content = dump_problem
        \<lparr>pd_type = ''urn:nexusmcp:error:request_validation_failed'', pd_title = ''Request validation failed'',
         pd_status = 422, pd_problem_detail = ''The request did not match the expected contract.'',
         pd_code = ''request_validation_failed'', pd_request_id = request_id,
         pd_errors = Some (map field_error_of items)\<rparr>\<rparr>"

text \<open>The statuses a route declares: validation failure always among them.\<close>

definition problem_statuses :: "int list \<Rightarrow> int list" where
  "problem_statuses statuses = sorted_set (422 # statuses)"

section \<open>Lemmas\<close>

lemma listed_status: "dict_get HTTP_STATUS_BY_ERROR_CODE code = Some n \<Longrightarrow> (code, n) \<in> set HTTP_STATUS_BY_ERROR_CODE"
  by (rule map_of_SomeD)

lemma listed_values:
  assumes "(code, n) \<in> set HTTP_STATUS_BY_ERROR_CODE"
  shows "n = 202 \<and> code = ''approval_required'' \<or> 400 \<le> n \<and> n \<le> 504 \<and> code \<noteq> ''approval_required''"
proof -
  have "list_all (\<lambda>(code, n). n = 202 \<and> code = ''approval_required'' \<or> 400 \<le> n \<and> n \<le> 504 \<and> code \<noteq> ''approval_required'')
      HTTP_STATUS_BY_ERROR_CODE"
    by code_simp
  then show ?thesis using assms by (auto simp: list_all_iff)
qed

lemma approval_listed: "dict_get HTTP_STATUS_BY_ERROR_CODE ''approval_required'' = Some 202"
  by code_simp

lemma approval_code: "error_code e = ''approval_required'' \<longleftrightarrow> (\<exists>i t. e = ApprovalRequiredError i t)"
  by (cases e) simp_all

lemma status_range:
  "if \<exists>i t. e = ApprovalRequiredError i t then http_status_for e = 202
   else 400 \<le> http_status_for e \<and> http_status_for e \<le> 504"
proof (cases "dict_get HTTP_STATUS_BY_ERROR_CODE (error_code e)")
  case None
  then have "error_code e \<noteq> ''approval_required''" using approval_listed by auto
  then show ?thesis using None approval_code [of e] by (simp add: http_status_for_def)
next
  case (Some n)
  then show ?thesis
    using listed_values [OF listed_status [OF Some]] approval_code [of e] by (auto simp: http_status_for_def)
qed

text \<open>An application error leaves the process as its stable code and safe message and nothing else, with a
  status of the client or server error classes that agrees with the one in the body; the one exception is
  a call that waits for its approval, which is accepted. Errors of the same code look the same.\<close>

theorem http_errors_are_safe:
  "\<exists>r. nexusmcp_error_handler request_id (NexusError e) = Inr r \<and>
     hy_status_code r = http_status_for e \<and>
     json_get (hy_content r) ''status'' = Some (JInt (hy_status_code r)) \<and>
     json_get (hy_content r) ''code'' = Some (JStr (error_code e)) \<and>
     json_get (hy_content r) ''detail'' = Some (JStr (safe_message e)) \<and>
     (case hy_content r of JObj kvs \<Rightarrow> map fst kvs =
        [''type'', ''title'', ''status'', ''detail'', ''code''] @ (case request_id of None \<Rightarrow> [] | Some i \<Rightarrow> [''request_id''])
      | _ \<Rightarrow> False) \<and>
     (if \<exists>i t. e = ApprovalRequiredError i t then hy_status_code r = 202
      else 400 \<le> hy_status_code r \<and> hy_status_code r \<le> 504)"
proof -
  have body: "hy_status_code r = http_status_for e \<and> hy_content r = http_error_body request_id e"
    if "nexusmcp_error_handler request_id (NexusError e) = Inr r" for r
    using that by (auto simp: nexusmcp_error_handler_def)
  show ?thesis
    using status_range [of e]
    by (auto simp: nexusmcp_error_handler_def http_error_body_def dump_problem_def json_get_def
        simp del: error_code.simps safe_message.simps split: option.split)
qed

end
