(* ===== verification/Mcp_Transport.thy ===== *)
theory Mcp_Transport
  imports Http_Errors Mcp_Interface
begin

text \<open>
  The routes of the MCP endpoints (\<open>interfaces/mcp/http_transport.py\<close>): the root endpoint takes every client,
  a toolset's endpoint only those of the current protocol. The session manager behind them, the name of the
  version header and the code of the JSON-RPC error belong to the SDK and are parameters; header names and
  values are the Latin-1 texts of their bytes.
\<close>

datatype asgi_scope_type = ASGI_HTTP | ASGI_OTHER

record asgi_scope =
  as_type :: asgi_scope_type
  as_headers :: "(string \<times> string) list"

definition requested_version :: "string \<Rightarrow> asgi_scope \<Rightarrow> string option" where
  "requested_version version_header scope =
     dict_get (dict_from (\<lambda>h. py_lower (fst h)) snd (as_headers scope)) version_header"

definition unsupported_protocol :: "int \<Rightarrow> string option \<Rightarrow> http_reply" where
  "unsupported_protocol unsupported_version requested =
     \<lparr>hy_status_code = 400, hy_content = JObj
        [(''jsonrpc'', JStr ''2.0''), (''id'', JNull),
         (''error'', JObj
            [(''code'', JInt unsupported_version),
             (''message'', JStr (''Scoped Toolset endpoints require MCP '' @ MODERN_PROTOCOL_VERSION @ ''.'')),
             (''data'', JObj [(''errorCode'', JStr ''unsupported_protocol''), (''requested'', json_option requested)])])]\<rparr>"

definition modern_toolset_endpoint ::
  "string \<Rightarrow> int \<Rightarrow> (asgi_scope \<Rightarrow> ('s, http_reply) prog) \<Rightarrow> asgi_scope \<Rightarrow> ('s, http_reply) prog" where
  "modern_toolset_endpoint version_header unsupported_version app scope =
     (if as_type scope = ASGI_HTTP \<and> requested_version version_header scope \<noteq> Some MODERN_PROTOCOL_VERSION
      then ret (unsupported_protocol unsupported_version (requested_version version_header scope))
      else app scope)"

datatype mcp_route = Root_Route | Toolset_Route string

definition mcp_route_app ::
  "string \<Rightarrow> int \<Rightarrow> (mcp_route \<Rightarrow> asgi_scope \<Rightarrow> ('s, http_reply) prog) \<Rightarrow> mcp_route \<Rightarrow> asgi_scope \<Rightarrow> ('s, http_reply) prog" where
  "mcp_route_app version_header unsupported_version handler route scope =
     (case route of
        Root_Route \<Rightarrow> handler route scope
      | Toolset_Route slug \<Rightarrow> modern_toolset_endpoint version_header unsupported_version (handler route) scope)"

section \<open>Lemmas\<close>

text \<open>The session behind a toolset's endpoint runs for clients of the current protocol only.\<close>

lemma scoped_request_is_modern:
  assumes "as_type scope = ASGI_HTTP" "requested_version version_header scope \<noteq> Some MODERN_PROTOCOL_VERSION"
  shows "\<exists>r. hy_status_code r = 400 \<and>
    (\<forall>handler s. mcp_route_app version_header code handler (Toolset_Route slug) scope s = (Inr r, s))"
  using assms
  by (auto simp: mcp_route_app_def modern_toolset_endpoint_def unsupported_protocol_def ret_def)

end
