(* ===== verification/Sql_Tables.thy ===== *)
theory Sql_Tables
  imports Python_Text Tenant_Repository
begin

text \<open>
  What the SQLAlchemy adapters rely on. A table is the list of its rows; a row is a record with the
  columns of the ORM model. The declarations of a table are a \<open>table_rules\<close> record: what its column
  types make of a row (\<open>None\<close> where a value does not fit), its \<open>CHECK\<close> and unique constraints and its
  foreign keys. \<open>insert_row\<close> and \<open>update_row\<close> are what \<open>flush\<close> does to an added and to a changed
  object: the row is stored as its types make it, or the first violated declaration is reported and
  nothing is changed.

  The \<open>sql_repository\<close> locale relates such a table to the dictionary of an in-memory repository. Its
  laws are about the mapping of one entity to one row and back; that reads agree and that writes keep
  them in agreement follows in it once for all repositories.
\<close>

section \<open>Columns\<close>

text \<open>\<open>Enum(value)\<close>, which raises for a text that is not the value of a member.\<close>

definition enum_of :: "string \<Rightarrow> ('a \<Rightarrow> string) \<Rightarrow> 'a list \<Rightarrow> string \<Rightarrow> 'a result" where
  "enum_of class_name value_of members s =
     (case List.find (\<lambda>m. value_of m = s) members of
        Some m \<Rightarrow> Inr m
      | None \<Rightarrow> Inl (ValueError (py_repr_string s @ '' is not a valid '' @ class_name)))"

definition optional :: "('a \<Rightarrow> 'b result) \<Rightarrow> 'a option \<Rightarrow> 'b option result" where
  "optional f v = (case v of None \<Rightarrow> Inr None | Some x \<Rightarrow> result_bind (f x) (\<lambda>y. Inr (Some y)))"

text \<open>A \<open>String(n)\<close> column; no text column takes the character NUL.\<close>

definition fits_text :: "string \<Rightarrow> bool" where
  "fits_text s \<longleftrightarrow> CHR 0x00 \<notin> set s"

definition fits_string :: "nat \<Rightarrow> string \<Rightarrow> bool" where
  "fits_string n s \<longleftrightarrow> length s \<le> n \<and> fits_text s"

definition fits_integer :: "int \<Rightarrow> bool" where
  "fits_integer n \<longleftrightarrow> - (2 ^ 31) \<le> n \<and> n < 2 ^ 31"

definition fits_optional :: "('a \<Rightarrow> bool) \<Rightarrow> 'a option \<Rightarrow> bool" where
  "fits_optional f v = (case v of None \<Rightarrow> True | Some x \<Rightarrow> f x)"

text \<open>An identifier as the database gives it back.\<close>

definition canonical_id :: "string \<Rightarrow> bool" where
  "canonical_id s \<longleftrightarrow> uuid_of s = Some s"

section \<open>Tables\<close>

datatype db_error = Data_Error | Check_Violation string | Unique_Violation string | Foreign_Key_Violation

record 'r table_rules =
  tr_store :: "'r \<Rightarrow> 'r option"
  tr_checks :: "(string \<times> ('r \<Rightarrow> bool)) list"
  tr_unique :: "(string \<times> ('r \<Rightarrow> 'r \<Rightarrow> bool)) list"
  tr_references :: "'r \<Rightarrow> bool"

definition violated :: "'r table_rules \<Rightarrow> 'r \<Rightarrow> 'r list \<Rightarrow> db_error option" where
  "violated rules r others =
     (case List.find (\<lambda>c. \<not> snd c r) (tr_checks rules) of
        Some c \<Rightarrow> Some (Check_Violation (fst c))
      | None \<Rightarrow>
          (case List.find (\<lambda>u. list_ex (snd u r) others) (tr_unique rules) of
             Some u \<Rightarrow> Some (Unique_Violation (fst u))
           | None \<Rightarrow> if tr_references rules r then None else Some Foreign_Key_Violation))"

definition insert_row :: "'r table_rules \<Rightarrow> 'r \<Rightarrow> 'r list \<Rightarrow> db_error + 'r list" where
  "insert_row rules r t =
     (case tr_store rules r of
        None \<Rightarrow> Inl Data_Error
      | Some s \<Rightarrow> (case violated rules s t of Some v \<Rightarrow> Inl v | None \<Rightarrow> Inr (t @ [s])))"

text \<open>Objects added together are inserted one by one.\<close>

fun insert_rows :: "'r table_rules \<Rightarrow> 'r list \<Rightarrow> 'r list \<Rightarrow> db_error + 'r list" where
  "insert_rows rules [] t = Inr t"
| "insert_rows rules (r # rs) t = (case insert_row rules r t of Inl e \<Rightarrow> Inl e | Inr t' \<Rightarrow> insert_rows rules rs t')"

definition replace_row :: "('r \<Rightarrow> string) \<Rightarrow> 'r \<Rightarrow> 'r list \<Rightarrow> 'r list" where
  "replace_row row_key s t = map (\<lambda>x. if row_key x = row_key s then s else x) t"

definition update_row :: "('r \<Rightarrow> string) \<Rightarrow> 'r table_rules \<Rightarrow> 'r \<Rightarrow> 'r list \<Rightarrow> db_error + 'r list" where
  "update_row row_key rules r t =
     (case tr_store rules r of
        None \<Rightarrow> Inl Data_Error
      | Some s \<Rightarrow>
          (case violated rules s [x \<leftarrow> t. row_key x \<noteq> row_key s] of
             Some v \<Rightarrow> Inl v
           | None \<Rightarrow> Inr (replace_row row_key s t)))"

text \<open>The exception of a failed statement: \<open>DataError\<close> or \<open>IntegrityError\<close>, neither of the gateway's own.\<close>

definition db_exn :: "db_error \<Rightarrow> exn" where
  "db_exn v = OtherException (if v = Data_Error then ''DataError'' else ''IntegrityError'')"

definition flushed :: "db_error + 'a \<Rightarrow> 'a result" where
  "flushed r = (case r of Inl v \<Rightarrow> Inl (db_exn v) | Inr x \<Rightarrow> Inr x)"

text \<open>\<open>flush\<close> under an \<open>except IntegrityError\<close> that renames the unique violations \<open>f\<close> picks.\<close>

definition flushed_unless :: "(string \<Rightarrow> exn option) \<Rightarrow> db_error + 'a \<Rightarrow> 'a result" where
  "flushed_unless f r =
     (case r of
        Inl (Unique_Violation name) \<Rightarrow> Inl (case f name of Some e \<Rightarrow> e | None \<Rightarrow> db_exn (Unique_Violation name))
      | Inl v \<Rightarrow> Inl (db_exn v)
      | Inr x \<Rightarrow> Inr x)"

text \<open>\<open>session.scalar(select(...).where(...))\<close>: the first row, or \<open>None\<close>.\<close>

definition select_first :: "('r \<Rightarrow> bool) \<Rightarrow> 'r list \<Rightarrow> 'r option" where
  "select_first P t = List.find P t"

text \<open>\<open>WHERE tenant_id = ... AND id = ...\<close>; converting the identifiers may raise.\<close>

definition scoped_where ::
  "('r \<Rightarrow> string) \<Rightarrow> ('r \<Rightarrow> string) \<Rightarrow> string \<Rightarrow> string \<Rightarrow> string \<Rightarrow> ('r \<Rightarrow> bool) result" where
  "scoped_where row_tenant row_key key_field tenant_id k =
     result_bind (as_uuid ''tenant id'' tenant_id) (\<lambda>tenant_uuid.
     result_bind (as_uuid key_field k) (\<lambda>key_uuid.
       Inr (\<lambda>r. row_tenant r = tenant_uuid \<and> row_key r = key_uuid)))"

section \<open>Lemmas\<close>

lemma optional_simps [simp]:
  "optional f None = Inr None" "optional f (Some x) = result_bind (f x) (\<lambda>y. Inr (Some y))"
  by (simp_all add: optional_def)

lemma fits_optional_simps [simp]: "fits_optional f None" "fits_optional f (Some x) = f x"
  by (simp_all add: fits_optional_def)

lemma enum_of_value:
  assumes "m \<in> set members" and "\<And>n. n \<in> set members \<Longrightarrow> value_of n = value_of m \<Longrightarrow> n = m"
  shows "enum_of class_name value_of members (value_of m) = Inr m"
proof -
  obtain n where "List.find (\<lambda>n. value_of n = value_of m) members = Some n"
    using assms(1) by (cases "List.find (\<lambda>n. value_of n = value_of m) members") (auto simp: find_None)
  moreover from this have "n = m" using assms(2) by (auto dest: find_Some_sat)
  ultimately show ?thesis by (simp add: enum_of_def)
qed

lemma enum_of_Inr: "enum_of class_name value_of members s = Inr m \<Longrightarrow> value_of m = s"
  by (auto simp: enum_of_def split: option.splits dest: find_Some_sat)

lemma canonical_as_uuid: "canonical_id s \<Longrightarrow> as_uuid field_name s = Inr s"
  by (simp add: canonical_id_def as_uuid_Inr)

lemma canonical_optional: "(\<And>s. v = Some s \<Longrightarrow> canonical_id s) \<Longrightarrow> optional (as_uuid field_name) v = Inr v"
  by (cases v) (simp_all add: canonical_as_uuid)

lemma canonical_scoped_where:
  "canonical_id tenant_id \<Longrightarrow> canonical_id k \<Longrightarrow>
   scoped_where row_tenant row_key key_field tenant_id k = Inr (\<lambda>r. row_tenant r = tenant_id \<and> row_key r = k)"
  by (simp add: scoped_where_def canonical_as_uuid)

lemma flushed_Inr: "flushed r = Inr x \<longleftrightarrow> r = Inr x"
  by (simp add: flushed_def split: sum.splits)

lemma flushed_unless_Inr: "flushed_unless f r = Inr x \<longleftrightarrow> r = Inr x"
  by (simp add: flushed_unless_def split: sum.splits db_error.splits)

lemma violated_None:
  "violated rules r others = None \<longleftrightarrow>
     (\<forall>c \<in> set (tr_checks rules). snd c r) \<and>
     (\<forall>u \<in> set (tr_unique rules). \<forall>x \<in> set others. \<not> snd u r x) \<and> tr_references rules r"
  by (auto simp: violated_def find_None find_None_iff list_ex_iff split: option.splits dest!: find_Some_sat)

lemma insert_row_Inr:
  "insert_row rules r t = Inr t' \<longleftrightarrow>
     (\<exists>s. tr_store rules r = Some s \<and> violated rules s t = None \<and> t' = t @ [s])"
  by (auto simp: insert_row_def split: option.splits)

lemma update_row_Inr:
  "update_row row_key rules r t = Inr t' \<longleftrightarrow>
     (\<exists>s. tr_store rules r = Some s \<and> violated rules s [x \<leftarrow> t. row_key x \<noteq> row_key s] = None \<and>
          t' = replace_row row_key s t)"
  by (auto simp: update_row_def split: option.splits)

section \<open>Tables that keep their declarations\<close>

definition conflict :: "'r table_rules \<Rightarrow> 'r \<Rightarrow> 'r \<Rightarrow> bool" where
  "conflict rules r x \<longleftrightarrow> (\<exists>u \<in> set (tr_unique rules). snd u r x)"

definition table_ok :: "'r table_rules \<Rightarrow> 'r list \<Rightarrow> bool" where
  "table_ok rules t \<longleftrightarrow>
     (\<forall>r \<in> set t. \<forall>c \<in> set (tr_checks rules). snd c r) \<and> sorted_wrt (\<lambda>r x. \<not> conflict rules r x) t"

lemma violated_conflict:
  "violated rules r others = None \<longleftrightarrow>
     (\<forall>c \<in> set (tr_checks rules). snd c r) \<and> (\<forall>x \<in> set others. \<not> conflict rules r x) \<and> tr_references rules r"
  by (auto simp: violated_None conflict_def)

lemma table_ok_Nil [simp]: "table_ok rules []"
  by (simp add: table_ok_def)

lemma insert_row_ok:
  assumes "\<And>r x. conflict rules r x \<Longrightarrow> conflict rules x r"
    and "table_ok rules t" and "insert_row rules r t = Inr t'"
  shows "table_ok rules t'"
proof -
  obtain s where s: "violated rules s t = None" "t' = t @ [s]" using assms(3) by (auto simp: insert_row_Inr)
  then have "\<forall>x \<in> set t. \<not> conflict rules x s" using assms(1) unfolding violated_conflict by blast
  then show ?thesis using assms(2) s by (auto simp: table_ok_def sorted_wrt_append violated_conflict)
qed

lemma update_row_ok:
  assumes symmetric: "\<And>r x. conflict rules r x \<Longrightarrow> conflict rules x r"
    and keys: "\<And>r x. row_key x = row_key r \<Longrightarrow> conflict rules r x"
    and ok: "table_ok rules t" and "update_row row_key rules r t = Inr t'"
  shows "table_ok rules t'"
proof -
  obtain s where s: "violated rules s [x \<leftarrow> t. row_key x \<noteq> row_key s] = None" and t': "t' = replace_row row_key s t"
    using assms(4) by (auto simp: update_row_Inr)
  have apart: "\<not> conflict rules s x \<and> \<not> conflict rules x s" if "x \<in> set t" "row_key x \<noteq> row_key s" for x
    using s that symmetric unfolding violated_conflict by auto
  have "sorted_wrt (\<lambda>r x. \<not> conflict rules r x) (replace_row row_key s u)"
    if "sorted_wrt (\<lambda>r x. \<not> conflict rules r x) u" "set u \<subseteq> set t" for u
    using that
  proof (induction u)
    case (Cons y u)
    have "row_key x \<noteq> row_key y" if "x \<in> set u" for x using Cons.prems(1) keys that by auto
    then have "\<forall>x \<in> set u. \<not> conflict rules (if row_key y = row_key s then s else y) (if row_key x = row_key s then s else x)"
      using Cons.prems apart apart [of y] by auto
    moreover have "sorted_wrt (\<lambda>r x. \<not> conflict rules r x) (replace_row row_key s u)" using Cons by simp
    ultimately show ?case unfolding replace_row_def list.map sorted_wrt.simps list.set_map by blast
  qed (simp add: replace_row_def)
  then show ?thesis using ok s by (auto simp: table_ok_def t' replace_row_def violated_conflict)
qed

lemma table_ok_unique:
  assumes "table_ok rules t" and "\<And>r x. conflict rules r x \<Longrightarrow> conflict rules x r"
    and "x \<in> set t" and "y \<in> set t" and "conflict rules x y"
  shows "x = y"
proof (rule ccontr)
  assume ne: "x \<noteq> y"
  obtain i j where ij: "i < length t" "j < length t" "x = t ! i" "y = t ! j"
    using assms(3,4) by (auto simp: in_set_conv_nth)
  moreover have "conflict rules y x" using assms(2,5) by blast
  ultimately show False using ne assms(1,5)
    by (cases i j rule: linorder_cases) (auto simp: table_ok_def sorted_wrt_iff_nth_less)
qed

lemma table_ok_distinct:
  assumes "table_ok rules t" and "\<And>r. conflict rules r r"
  shows "distinct t"
  using assms by (auto simp: table_ok_def distinct_conv_nth sorted_wrt_iff_nth_less nat_neq_iff) metis+

section \<open>A table and a dictionary\<close>

text \<open>The table holds, in order, rows that read back as the entities, up to what \<open>view\<close> shows of them.\<close>

definition table_holds ::
  "('r \<Rightarrow> 'e result) \<Rightarrow> ('e \<Rightarrow> 'v) \<Rightarrow> (string, 'e) dict \<Rightarrow> 'r list \<Rightarrow> bool" where
  "table_holds from_row view d t \<longleftrightarrow>
     list_all2 (\<lambda>e r. \<exists>f. from_row r = Inr f \<and> view f = view e) (dict_values d) t"

lemma table_holds_Nil [simp]: "table_holds from_row view [] []"
  by (simp add: table_holds_def)

lemma list_all2_find:
  assumes "list_all2 R xs ys" and "\<And>x y. R x y \<Longrightarrow> P x = Q y"
  shows "rel_option R (List.find P xs) (List.find Q ys)"
  using assms(1)
proof (induction rule: list_all2_induct)
  case (Cons x xs y ys)
  then show ?case using assms(2) [of x y] by simp
qed simp

lemma list_all2_filter:
  assumes "list_all2 R xs ys" and "\<And>x y. R x y \<Longrightarrow> P x = Q y"
  shows "list_all2 R (filter P xs) (filter Q ys)"
  using assms(1)
proof (induction rule: list_all2_induct)
  case (Cons x xs y ys)
  then show ?case using assms(2) [of x y] by simp
qed simp

lemma list_all2_value: "list_all2 R xs ys \<Longrightarrow> x \<in> set xs \<Longrightarrow> \<exists>y \<in> set ys. R x y"
  by (induction rule: list_all2_induct) auto

lemma list_all2_row: "list_all2 R xs ys \<Longrightarrow> y \<in> set ys \<Longrightarrow> \<exists>x \<in> set xs. R x y"
  by (induction rule: list_all2_induct) auto

lemma list_all2_insort_key:
  assumes "list_all2 R xs ys" and "R x y" and "\<And>x y. R x y \<Longrightarrow> f x = g y"
  shows "list_all2 R (insort_key f x xs) (insort_key g y ys)"
  using assms(1)
proof (induction rule: list_all2_induct)
  case (Cons a as b bs)
  then show ?case using assms(2) assms(3) [of x y] assms(3) [of a b] by simp
qed (use assms(2) in simp)

lemma list_all2_sort_key:
  assumes "list_all2 R xs ys" and "\<And>x y. R x y \<Longrightarrow> f x = g y"
  shows "list_all2 R (sort_key f xs) (sort_key g ys)"
  using assms(1) by (induction rule: list_all2_induct) (auto intro: list_all2_insort_key [OF _ _ assms(2)])

lemma keyed_Cons: "keyed key ((k, v) # d) \<longleftrightarrow> key v = k \<and> keyed key d \<and> k \<notin> fst ` set d"
  by (auto simp: keyed_def)

lemma keyed_find:
  "keyed key d \<Longrightarrow> List.find (\<lambda>e. tenant e = t \<and> key e = k) (dict_values d) = scoped_get tenant t k d"
proof (induction d)
  case (Cons a d)
  obtain l v where a: "a = (l, v)" by (cases a)
  have "scoped_get tenant t l d = None" if "l \<notin> fst ` set d"
    using that by (auto simp: scoped_get_None dest: map_of_SomeD intro: rev_image_eqI)
  then show ?case using Cons by (auto simp: a keyed_Cons scoped_get_def)
qed (simp add: scoped_get_def)

lemma list_all2_dict_set:
  assumes "list_all2 R (dict_values d) t" and "keyed key d" and "\<And>e r. R e r \<Longrightarrow> row_key r = key e"
    and "dict_get d (row_key s) = Some e" and "R e' s"
  shows "list_all2 R (dict_values (dict_set (row_key s) e' d)) (replace_row row_key s t)"
  using assms(1,2,4)
proof (induction d arbitrary: t)
  case (Cons a d)
  obtain l v where a: "a = (l, v)" by (cases a)
  from Cons.prems(1) obtain r u where t: "t = r # u" and r: "R v r" and u: "list_all2 R (dict_values d) u"
    by (auto simp: a list_all2_Cons1)
  have key: "key v = l" and d: "keyed key d" and fresh: "l \<notin> fst ` set d"
    using Cons.prems(2) by (simp_all add: a keyed_Cons)
  have row: "row_key r = l" using assms(3) [OF r] key by simp
  show ?case
  proof (cases "l = row_key s")
    case True
    have "x \<in> set u \<Longrightarrow> row_key x \<noteq> l" for x
    proof -
      assume "x \<in> set u"
      then obtain w where "w \<in> set (dict_values d)" "R w x" using list_all2_row [OF u \<open>x \<in> set u\<close>] by blast
      then show "row_key x \<noteq> l" using assms(3) fresh d by (force simp: keyed_def)
    qed
    then have "replace_row row_key s u = u" using True by (auto simp: replace_row_def intro: map_idI)
    then show ?thesis using True u assms(5) row by (simp add: a t replace_row_def)
  next
    case False
    then show ?thesis
      using Cons.IH [OF u d] Cons.prems(3) r row by (simp add: a t replace_row_def)
  qed
qed simp

text \<open>A table whose rows are only added and read, and one whose rows also change.\<close>

locale sql_table =
  fixes key :: "'e \<Rightarrow> string"
    and tenant :: "'e \<Rightarrow> string"
    and wf :: "'e \<Rightarrow> bool"
    and view :: "'e \<Rightarrow> 'v"
    and row_key :: "'r \<Rightarrow> string"
    and row_tenant :: "'r \<Rightarrow> string"
    and to_row :: "'e \<Rightarrow> 'r result"
    and from_row :: "'r \<Rightarrow> 'e result"
    and rules :: "'r table_rules"
  assumes view_ids: "view e = view f \<Longrightarrow> key e = key f \<and> tenant e = tenant f"
    and row_ids: "from_row r = Inr e \<Longrightarrow> row_key r = key e \<and> row_tenant r = tenant e"
    and primary_key: "\<exists>name. (name, \<lambda>r x. row_key x = row_key r) \<in> set (tr_unique rules)"
    and inserted: "wf e \<Longrightarrow> to_row e = Inr r \<Longrightarrow> tr_store rules r = Some s \<Longrightarrow>
      \<exists>f. from_row s = Inr f \<and> view f = view e"
begin

lemma holds_row: "from_row r = Inr f \<Longrightarrow> view f = view e \<Longrightarrow> row_key r = key e \<and> row_tenant r = tenant e"
  using view_ids row_ids by metis

lemma selected:
  assumes "table_holds from_row view d t" and "keyed key d"
  shows "rel_option (\<lambda>e r. \<exists>f. from_row r = Inr f \<and> view f = view e)
    (scoped_get tenant u k d) (select_first (\<lambda>r. row_tenant r = u \<and> row_key r = k) t)"
proof -
  have "rel_option (\<lambda>e r. \<exists>f. from_row r = Inr f \<and> view f = view e)
    (List.find (\<lambda>e. tenant e = u \<and> key e = k) (dict_values d))
    (List.find (\<lambda>r. row_tenant r = u \<and> row_key r = k) t)"
    by (rule list_all2_find [OF assms(1) [unfolded table_holds_def]]) (auto dest: holds_row)
  then show ?thesis using keyed_find [OF assms(2)] by (simp add: select_first_def)
qed

text \<open>A read returns what the dictionary has.\<close>

lemma get_agrees:
  assumes "table_holds from_row view d t" and "keyed key d"
  shows "\<exists>r. optional from_row (select_first (\<lambda>r. row_tenant r = u \<and> row_key r = k) t) = Inr r \<and>
    map_option view r = map_option view (scoped_get tenant u k d)"
  using selected [OF assms, of u k]
  by (cases "scoped_get tenant u k d"; cases "select_first (\<lambda>r. row_tenant r = u \<and> row_key r = k) t") auto

text \<open>A filtered and ordered list of rows reads back as that of the entities.\<close>

lemma list_agrees:
  assumes "table_holds from_row view d t"
    and "\<And>e r f. from_row r = Inr f \<Longrightarrow> view f = view e \<Longrightarrow> P e = Q r \<and> c e = k r"
  shows "\<exists>xs. collect_results from_row (sort_key k [r \<leftarrow> t. Q r]) = Inr xs \<and>
    map view xs = map view (sort_key c [e \<leftarrow> dict_values d. P e])"
proof -
  have "list_all2 (\<lambda>e r. \<exists>f. from_row r = Inr f \<and> view f = view e)
      (sort_key c [e \<leftarrow> dict_values d. P e]) (sort_key k [r \<leftarrow> t. Q r])"
    using assms(1) unfolding table_holds_def
    by (intro list_all2_sort_key list_all2_filter) (auto dest: assms(2))
  then show ?thesis by (induction rule: list_all2_induct) auto
qed

lemma insert_fresh:
  assumes "table_holds from_row view d t" and "keyed key d" and "wf e" and "to_row e = Inr r"
    and "insert_row rules r t = Inr t'"
  shows "dict_get d (key e) = None"
proof (rule ccontr)
  assume "dict_get d (key e) \<noteq> None"
  then obtain x where x: "dict_get d (key e) = Some x" by auto
  then have kx: "key x = key e" by (rule keyed_get [OF assms(2)])
  obtain y f where y: "y \<in> set t" "from_row y = Inr f" "view f = view x"
    using list_all2_value [OF assms(1) [unfolded table_holds_def] dict_get_values [OF x]] by auto
  obtain s where s: "tr_store rules r = Some s" "violated rules s t = None"
    using assms(5) by (auto simp: insert_row_Inr)
  obtain g where "from_row s = Inr g" "view g = view e" using inserted [OF assms(3,4) s(1)] by blast
  then have "row_key s = row_key y" using y holds_row kx by metis
  then show False using primary_key s(2) y(1) unfolding violated_None by fastforce
qed

lemma insert_holds:
  assumes "table_holds from_row view d t" and "keyed key d" and "wf e" and "to_row e = Inr r"
    and "insert_row rules r t = Inr t'"
  shows "table_holds from_row view (dict_set (key e) e d) t'"
proof -
  obtain s where s: "tr_store rules r = Some s" "t' = t @ [s]"
    using assms(5) by (auto simp: insert_row_Inr)
  then show ?thesis
    using assms(1) insert_fresh [OF assms] inserted [OF assms(3,4) s(1)]
    by (simp add: table_holds_def list_all2_appendI)
qed

lemma add_agrees:
  assumes "table_holds from_row view d t" and "keyed key d" and "wf e"
    and "result_bind (to_row e) (\<lambda>r. flushed (insert_row rules r t)) = Inr t'"
  shows "dict_get d (key e) = None \<and> table_holds from_row view (dict_set (key e) e d) t'"
  using assms(4) insert_fresh [OF assms(1-3)] insert_holds [OF assms(1-3)]
  by (auto simp: result_bind_Inr_iff flushed_Inr)

end

locale sql_repository = sql_table +
  fixes same :: "'e \<Rightarrow> 'e \<Rightarrow> bool"
    and change :: "'r \<Rightarrow> 'e \<Rightarrow> 'r result"
  assumes same_key: "same e f \<Longrightarrow> key e = key f"
    and changed: "wf e' \<Longrightarrow> from_row r = Inr f \<Longrightarrow> view f = view e \<Longrightarrow> same e e' \<Longrightarrow>
      change r e' = Inr r' \<Longrightarrow> tr_store rules r' = Some s \<Longrightarrow>
      \<exists>g. from_row s = Inr g \<and> view g = view e'"
begin

lemma update_holds:
  assumes "table_holds from_row view d t" and "keyed key d"
    and "scoped_get tenant u (key e') d = Some e" and "same e e'" and "wf e'"
    and "select_first (\<lambda>r. row_tenant r = u \<and> row_key r = key e') t = Some r"
    and "change r e' = Inr r'" and "update_row row_key rules r' t = Inr t'"
  shows "table_holds from_row view (dict_set (key e') e' d) t'"
proof -
  obtain f where f: "from_row r = Inr f" "view f = view e"
    using selected [OF assms(1,2), of u "key e'"] assms(3,6) by auto
  obtain s where s: "tr_store rules r' = Some s" "t' = replace_row row_key s t"
    using assms(8) by (auto simp: update_row_Inr)
  obtain g where g: "from_row s = Inr g" "view g = view e'"
    using changed [OF assms(5) f assms(4,7) s(1)] by blast
  then have sk: "row_key s = key e'" using holds_row by blast
  have "dict_get d (row_key s) = Some e" using assms(3) sk by (simp add: scoped_get_Some)
  then have "list_all2 (\<lambda>e r. \<exists>f. from_row r = Inr f \<and> view f = view e)
      (dict_values (dict_set (row_key s) e' d)) (replace_row row_key s t)"
    using assms(1) g unfolding table_holds_def
    by (intro list_all2_dict_set [OF _ assms(2)]) (auto dest: holds_row)
  then show ?thesis by (simp add: table_holds_def s(2) sk)
qed

lemma save_agrees:
  assumes "table_holds from_row view d t" and "keyed key d" and "wf e'"
    and "scoped_get tenant u (key e') d = Some e" and "same e e'"
    and "(case select_first (\<lambda>r. row_tenant r = u \<and> row_key r = key e') t of
            None \<Rightarrow> Inl missing
          | Some r \<Rightarrow> result_bind (change r e') (\<lambda>r'. flushed (update_row row_key rules r' t))) = Inr t'"
  shows "table_holds from_row view (dict_set (key e') e' d) t'"
  using assms(6) update_holds [OF assms(1,2,4,5,3)]
  by (auto simp: result_bind_Inr_iff flushed_Inr split: option.splits)

end

end
