(* ===== verification/Sql_Ledger.thy ===== *)
theory Sql_Ledger
  imports Sql_Tables Execution_Store
begin

text \<open>
  The SQLAlchemy adapters of the approval, audit and execution modules: the ORM models
  (\<open>sqlalchemy_models.py\<close>), the mapping of entities to them and back (\<open>sqlalchemy_mapping.py\<close>) and the
  repositories (\<open>sqlalchemy_repository.py\<close>) over tables of such rows.

  \<open>references\<close> is the database's check of a row's foreign keys, whose tables belong to other modules.
  \<open>reorder\<close> is what a \<open>JSONB\<close> column makes of a dictionary: PostgreSQL does not keep the order of keys.
  \<open>with_for_update\<close> locks the rows it selects; the rows are the same, so it is not seen here.
\<close>

section \<open>Enumerations in columns\<close>

fun approval_status_value :: "approval_status \<Rightarrow> string" where
  "approval_status_value PENDING = ''pending''"
| "approval_status_value APPROVED = ''approved''"
| "approval_status_value REJECTED = ''rejected''"
| "approval_status_value EXPIRED = ''expired''"
| "approval_status_value CONSUMED = ''consumed''"

definition approval_status_of :: "string \<Rightarrow> approval_status result" where
  "approval_status_of =
     enum_of ''ApprovalStatus'' approval_status_value
       [PENDING, APPROVED, REJECTED, EXPIRED, CONSUMED]"

fun audit_action_value :: "audit_action \<Rightarrow> string" where
  "audit_action_value TOOL_CALL = ''tool_call''"
| "audit_action_value APPROVAL_DECISION = ''approval_decision''"
| "audit_action_value CREDENTIAL_RESOLUTION = ''credential_resolution''"

definition audit_action_of :: "string \<Rightarrow> audit_action result" where
  "audit_action_of =
     enum_of ''AuditAction'' audit_action_value
       [TOOL_CALL, APPROVAL_DECISION, CREDENTIAL_RESOLUTION]"

fun audit_outcome_value :: "audit_outcome \<Rightarrow> string" where
  "audit_outcome_value OUTCOME_ALLOWED = ''allowed''"
| "audit_outcome_value OUTCOME_DENIED = ''denied''"
| "audit_outcome_value OUTCOME_APPROVAL_REQUIRED = ''approval_required''"
| "audit_outcome_value OUTCOME_SUCCEEDED = ''succeeded''"
| "audit_outcome_value OUTCOME_FAILED = ''failed''"
| "audit_outcome_value OUTCOME_UNKNOWN = ''unknown''"
| "audit_outcome_value OUTCOME_CANCELLED = ''cancelled''"

definition audit_outcome_of :: "string \<Rightarrow> audit_outcome result" where
  "audit_outcome_of =
     enum_of ''AuditOutcome'' audit_outcome_value
       [OUTCOME_ALLOWED, OUTCOME_DENIED, OUTCOME_APPROVAL_REQUIRED, OUTCOME_SUCCEEDED, OUTCOME_FAILED,
        OUTCOME_UNKNOWN, OUTCOME_CANCELLED]"

fun error_category_value :: "execution_error_category \<Rightarrow> string" where
  "error_category_value VALIDATION = ''validation''"
| "error_category_value AUTHENTICATION = ''authentication''"
| "error_category_value AUTHORIZATION = ''authorization''"
| "error_category_value APPROVAL = ''approval''"
| "error_category_value CREDENTIAL = ''credential''"
| "error_category_value TIMEOUT_BEFORE_SEND = ''timeout_before_send''"
| "error_category_value TIMEOUT_AFTER_SEND = ''timeout_after_send''"
| "error_category_value NETWORK = ''network''"
| "error_category_value UPSTREAM_4XX = ''upstream_4xx''"
| "error_category_value UPSTREAM_5XX = ''upstream_5xx''"
| "error_category_value CATEGORY_CANCELLED = ''cancelled''"
| "error_category_value CATEGORY_UNKNOWN = ''unknown''"

definition execution_error_category_of :: "string \<Rightarrow> execution_error_category result" where
  "execution_error_category_of =
     enum_of ''ExecutionErrorCategory'' error_category_value
       [VALIDATION, AUTHENTICATION, AUTHORIZATION, APPROVAL, CREDENTIAL, TIMEOUT_BEFORE_SEND,
        TIMEOUT_AFTER_SEND, NETWORK, UPSTREAM_4XX, UPSTREAM_5XX, CATEGORY_CANCELLED, CATEGORY_UNKNOWN]"

fun attempt_status_value :: "attempt_status \<Rightarrow> string" where
  "attempt_status_value AT_RUNNING = ''running''"
| "attempt_status_value AT_SUCCEEDED = ''succeeded''"
| "attempt_status_value AT_FAILED = ''failed''"
| "attempt_status_value AT_UNKNOWN = ''unknown''"
| "attempt_status_value AT_CANCELLED = ''cancelled''"

definition attempt_status_of :: "string \<Rightarrow> attempt_status result" where
  "attempt_status_of =
     enum_of ''ExecutionAttemptStatus'' attempt_status_value
       [AT_RUNNING, AT_SUCCEEDED, AT_FAILED, AT_UNKNOWN, AT_CANCELLED]"

definition execution_status_of :: "string \<Rightarrow> execution_status result" where
  "execution_status_of =
     enum_of ''ExecutionStatus'' execution_status_value
       [EX_PLANNED, EX_RUNNING, EX_SUCCEEDED, EX_FAILED, EX_UNKNOWN, EX_CANCELLED]"

definition mcp_scope_type_of :: "string \<Rightarrow> mcp_scope_type result" where
  "mcp_scope_type_of =
     enum_of ''McpScopeType'' scope_type_value
       [SCOPE_ROOT, SCOPE_TOOLSET]"

definition tool_side_effect_of :: "string \<Rightarrow> tool_side_effect result" where
  "tool_side_effect_of =
     enum_of ''ToolSideEffect'' side_effect_value
       [READ_ONLY, IDEMPOTENT_WRITE, NON_IDEMPOTENT_WRITE, SIDE_EFFECT_UNKNOWN]"

section \<open>Approvals\<close>

record approval_model =
  arq_id :: string
  arq_tenant_id :: string
  arq_principal_id :: string
  arq_tool_id :: string
  arq_tool_version_id :: string
  arq_arguments_digest :: string
  arq_policy_version :: string
  arq_idempotency_key :: "string option"
  arq_status :: string
  arq_requested_at :: instant
  arq_expires_at :: instant
  arq_decided_by :: "string option"
  arq_decided_at :: "instant option"
  arq_consumed_at :: "instant option"

definition approval_to_model :: "approval_request \<Rightarrow> approval_model result" where
  "approval_to_model a =
     result_bind (as_uuid ''approval id'' (ap_id a)) (\<lambda>id_uuid.
     result_bind (as_uuid ''tenant id'' (ap_tenant_id a)) (\<lambda>tenant_id_uuid.
     result_bind (as_uuid ''tool id'' (ap_tool_id a)) (\<lambda>tool_id_uuid.
     result_bind (as_uuid ''tool version id'' (ap_tool_version_id a)) (\<lambda>tool_version_id_uuid.
     Inr
      \<lparr>arq_id = id_uuid, arq_tenant_id = tenant_id_uuid, arq_principal_id = ap_principal_id a,
       arq_tool_id = tool_id_uuid, arq_tool_version_id = tool_version_id_uuid,
       arq_arguments_digest = ap_arguments_digest a, arq_policy_version = ap_policy_version a,
       arq_idempotency_key = ap_idempotency_key a, arq_status = approval_status_value (ap_status a),
       arq_requested_at = ap_requested_at a, arq_expires_at = ap_expires_at a,
       arq_decided_by = ap_decided_by a, arq_decided_at = ap_decided_at a,
       arq_consumed_at = ap_consumed_at a\<rparr>))))"

definition approval_from_model :: "approval_model \<Rightarrow> approval_request result" where
  "approval_from_model r =
     result_bind (approval_status_of (arq_status r)) (\<lambda>status.
     approval_post_init
      \<lparr>ap_id = arq_id r, ap_tenant_id = arq_tenant_id r, ap_principal_id = arq_principal_id r,
       ap_tool_id = arq_tool_id r, ap_tool_version_id = arq_tool_version_id r,
       ap_arguments_digest = arq_arguments_digest r, ap_policy_version = arq_policy_version r,
       ap_status = status, ap_requested_at = arq_requested_at r, ap_expires_at = arq_expires_at r,
       ap_idempotency_key = arq_idempotency_key r, ap_decided_by = arq_decided_by r,
       ap_decided_at = arq_decided_at r, ap_consumed_at = arq_consumed_at r\<rparr>)"

definition update_approval_model :: "approval_model \<Rightarrow> approval_request \<Rightarrow> approval_model" where
  "update_approval_model r a =
     r\<lparr>arq_status := approval_status_value (ap_status a), arq_decided_by := ap_decided_by a,
       arq_decided_at := ap_decided_at a, arq_consumed_at := ap_consumed_at a\<rparr>"

definition approval_model_fits :: "approval_model \<Rightarrow> bool" where
  "approval_model_fits r \<longleftrightarrow>
     fits_string 255 (arq_principal_id r) \<and> fits_string 64 (arq_arguments_digest r) \<and>
     fits_string 128 (arq_policy_version r) \<and>
     fits_optional (fits_string 128) (arq_idempotency_key r) \<and> fits_string 16 (arq_status r) \<and>
     fits_optional (fits_string 255) (arq_decided_by r)"

definition approval_rules :: "(approval_model \<Rightarrow> bool) \<Rightarrow> approval_model table_rules" where
  "approval_rules references =
     \<lparr>tr_store = (\<lambda>r. if approval_model_fits r then Some r else None),
      tr_checks = [(''ck_approval_request_status'',
        \<lambda>r. arq_status r \<in> {''pending'', ''approved'', ''rejected'', ''expired'', ''consumed''})],
      tr_unique = [(''pk_approval_request'', \<lambda>r x. arq_id x = arq_id r)],
      tr_references = references\<rparr>"

definition approval_statement :: "string \<Rightarrow> string \<Rightarrow> (approval_model \<Rightarrow> bool) result" where
  "approval_statement tenant_id approval_id = scoped_where arq_tenant_id arq_id ''approval id'' tenant_id approval_id"

definition sql_approval_add ::
  "(approval_model \<Rightarrow> bool) \<Rightarrow> string \<Rightarrow> approval_request \<Rightarrow> approval_model list \<Rightarrow> approval_model list result" where
  "sql_approval_add references tenant_id a t =
     (if ap_tenant_id a \<noteq> tenant_id then Inl (NexusError TenantBoundaryViolationError)
      else result_bind (approval_to_model a) (\<lambda>r. flushed (insert_row (approval_rules references) r t)))"

definition sql_approval_get :: "string \<Rightarrow> string \<Rightarrow> approval_model list \<Rightarrow> approval_request option result" where
  "sql_approval_get tenant_id approval_id t =
     result_bind (approval_statement tenant_id approval_id) (\<lambda>P. optional approval_from_model (select_first P t))"

definition sql_approval_save ::
  "(approval_model \<Rightarrow> bool) \<Rightarrow> string \<Rightarrow> approval_request \<Rightarrow> approval_model list \<Rightarrow> approval_model list result" where
  "sql_approval_save references tenant_id a t =
     (if ap_tenant_id a \<noteq> tenant_id then Inl (NexusError TenantBoundaryViolationError)
      else result_bind (approval_statement tenant_id (ap_id a)) (\<lambda>P.
        case select_first P t of
          None \<Rightarrow> Inl (ValueError ''approval does not exist in tenant'')
        | Some r \<Rightarrow> flushed (update_row arq_id (approval_rules references) (update_approval_model r a) t)))"

section \<open>Audit events\<close>

record audit_model =
  aev_id :: string
  aev_tenant_id :: string
  aev_actor_id :: string
  aev_action :: string
  aev_resource_type :: string
  aev_resource_id :: string
  aev_outcome :: string
  aev_request_id :: string
  aev_trace_id :: string
  aev_occurred_at :: instant
  aev_arguments_digest :: "string option"
  aev_policy_version :: "string option"
  aev_reason_code :: "string option"
  aev_execution_id :: "string option"
  aev_metadata :: "(string, audit_value) dict"

definition audit_to_model :: "audit_event \<Rightarrow> audit_model result" where
  "audit_to_model ev =
     result_bind (as_uuid ''audit id'' (au_id ev)) (\<lambda>id_uuid.
     result_bind (as_uuid ''tenant id'' (au_tenant_id ev)) (\<lambda>tenant_id_uuid.
     result_bind (optional (as_uuid ''execution id'') (au_execution_id ev)) (\<lambda>execution_id_uuid.
     Inr
      \<lparr>aev_id = id_uuid, aev_tenant_id = tenant_id_uuid, aev_actor_id = au_actor_id ev,
       aev_action = audit_action_value (au_action ev), aev_resource_type = au_resource_type ev,
       aev_resource_id = au_resource_id ev, aev_outcome = audit_outcome_value (au_outcome ev),
       aev_request_id = au_request_id ev, aev_trace_id = au_trace_id ev,
       aev_occurred_at = au_occurred_at ev, aev_arguments_digest = au_arguments_digest ev,
       aev_policy_version = au_policy_version ev, aev_reason_code = au_reason_code ev,
       aev_execution_id = execution_id_uuid,
       aev_metadata = (case au_metadata ev of None \<Rightarrow> [] | Some m \<Rightarrow> m)\<rparr>)))"

definition audit_from_model :: "audit_model \<Rightarrow> audit_event result" where
  "audit_from_model r =
     result_bind (audit_action_of (aev_action r)) (\<lambda>action.
     result_bind (audit_outcome_of (aev_outcome r)) (\<lambda>outcome.
     audit_post_init
      \<lparr>au_id = aev_id r, au_tenant_id = aev_tenant_id r, au_actor_id = aev_actor_id r, au_action = action,
       au_resource_type = aev_resource_type r, au_resource_id = aev_resource_id r, au_outcome = outcome,
       au_request_id = aev_request_id r, au_trace_id = aev_trace_id r, au_occurred_at = aev_occurred_at r,
       au_arguments_digest = aev_arguments_digest r, au_policy_version = aev_policy_version r,
       au_reason_code = aev_reason_code r, au_execution_id = aev_execution_id r,
       au_metadata = Some (aev_metadata r)\<rparr>))"

definition audit_model_fits :: "audit_model \<Rightarrow> bool" where
  "audit_model_fits r \<longleftrightarrow>
     fits_string 255 (aev_actor_id r) \<and> fits_string 32 (aev_action r) \<and>
     fits_string 64 (aev_resource_type r) \<and> fits_string 255 (aev_resource_id r) \<and>
     fits_string 32 (aev_outcome r) \<and> fits_string 128 (aev_request_id r) \<and>
     fits_string 64 (aev_trace_id r) \<and> fits_optional (fits_string 64) (aev_arguments_digest r) \<and>
     fits_optional (fits_string 128) (aev_policy_version r) \<and>
     fits_optional (fits_string 128) (aev_reason_code r)"

definition audit_rules ::
  "((string, audit_value) dict \<Rightarrow> (string, audit_value) dict) \<Rightarrow> (audit_model \<Rightarrow> bool) \<Rightarrow> audit_model table_rules" where
  "audit_rules reorder references =
     \<lparr>tr_store = (\<lambda>r. if audit_model_fits r then Some (r\<lparr>aev_metadata := reorder (aev_metadata r)\<rparr>) else None),
      tr_checks =
        [(''ck_audit_event_action'', \<lambda>r. aev_action r \<in> {''tool_call'', ''approval_decision'', ''credential_resolution''}),
         (''ck_audit_event_outcome'', \<lambda>r. aev_outcome r \<in>
           {''allowed'', ''denied'', ''approval_required'', ''succeeded'', ''failed'', ''unknown'', ''cancelled''})],
      tr_unique = [(''pk_audit_event'', \<lambda>r x. aev_id x = aev_id r)],
      tr_references = references\<rparr>"

definition sql_audit_append ::
  "((string, audit_value) dict \<Rightarrow> (string, audit_value) dict) \<Rightarrow> (audit_model \<Rightarrow> bool) \<Rightarrow> audit_event \<Rightarrow>
   audit_model list \<Rightarrow> audit_model list result" where
  "sql_audit_append reorder references ev t =
     result_bind (audit_to_model ev) (\<lambda>r. flushed (insert_row (audit_rules reorder references) r t))"

definition sql_audit_list_by_tenant :: "string \<Rightarrow> audit_model list \<Rightarrow> audit_event list result" where
  "sql_audit_list_by_tenant tenant_id t =
     result_bind (as_uuid ''tenant id'' tenant_id) (\<lambda>tenant_uuid.
       collect_results audit_from_model
         (sort_key (\<lambda>r. (aev_occurred_at r, aev_id r)) [r \<leftarrow> t. aev_tenant_id r = tenant_uuid]))"

definition sql_audit_list_by_execution :: "string \<Rightarrow> string \<Rightarrow> audit_model list \<Rightarrow> audit_event list result" where
  "sql_audit_list_by_execution tenant_id execution_id t =
     result_bind (as_uuid ''tenant id'' tenant_id) (\<lambda>tenant_uuid.
     result_bind (as_uuid ''execution id'' execution_id) (\<lambda>execution_uuid.
     result_bind (collect_results audit_from_model
       (sort_key (\<lambda>r. (aev_occurred_at r, aev_id r))
         [r \<leftarrow> t. aev_tenant_id r = tenant_uuid \<and> aev_execution_id r = Some execution_uuid])) (\<lambda>events.
     if list_ex (\<lambda>ev. au_tenant_id ev \<noteq> tenant_id) events then Inl (NexusError TenantBoundaryViolationError)
     else Inr events)))"

section \<open>Executions\<close>

record execution_model =
  exm_id :: string
  exm_tenant_id :: string
  exm_request_id :: string
  exm_trace_id :: string
  exm_principal_id :: string
  exm_tool_id :: string
  exm_tool_version_id :: string
  exm_tool_binding_id :: string
  exm_mcp_scope_type :: string
  exm_toolset_id :: "string option"
  exm_toolset_revision :: "int option"
  exm_approval_id :: "string option"
  exm_credential_binding_id :: "string option"
  exm_arguments_digest :: string
  exm_policy_version :: string
  exm_policy_reason_code :: string
  exm_side_effect :: string
  exm_status :: string
  exm_idempotency_key :: "string option"
  exm_planned_at :: instant
  exm_started_at :: "instant option"
  exm_finished_at :: "instant option"
  exm_error_code :: "string option"
  exm_error_category :: "string option"
  exm_attempt_count :: int

definition execution_to_model :: "tool_execution \<Rightarrow> execution_model result" where
  "execution_to_model e =
     result_bind (as_uuid ''execution id'' (ex_id e)) (\<lambda>id_uuid.
     result_bind (as_uuid ''tenant id'' (ex_tenant_id e)) (\<lambda>tenant_id_uuid.
     result_bind (as_uuid ''tool id'' (ex_tool_id e)) (\<lambda>tool_id_uuid.
     result_bind (as_uuid ''tool version id'' (ex_tool_version_id e)) (\<lambda>tool_version_id_uuid.
     result_bind (as_uuid ''tool binding id'' (ex_tool_binding_id e)) (\<lambda>tool_binding_id_uuid.
     result_bind (optional (as_uuid ''toolset id'') (ex_toolset_id e)) (\<lambda>toolset_id_uuid.
     result_bind (optional (as_uuid ''approval id'') (ex_approval_id e)) (\<lambda>approval_id_uuid.
     Inr
      \<lparr>exm_id = id_uuid, exm_tenant_id = tenant_id_uuid, exm_request_id = ex_request_id e,
       exm_trace_id = ex_trace_id e, exm_principal_id = ex_principal_id e, exm_tool_id = tool_id_uuid,
       exm_tool_version_id = tool_version_id_uuid, exm_tool_binding_id = tool_binding_id_uuid,
       exm_mcp_scope_type = scope_type_value (ex_mcp_scope_type e), exm_toolset_id = toolset_id_uuid,
       exm_toolset_revision = ex_toolset_revision e, exm_approval_id = approval_id_uuid,
       exm_credential_binding_id = ex_credential_binding_id e, exm_arguments_digest = ex_arguments_digest e,
       exm_policy_version = ex_policy_version e, exm_policy_reason_code = ex_policy_reason_code e,
       exm_side_effect = side_effect_value (ex_side_effect e),
       exm_status = execution_status_value (ex_status e), exm_idempotency_key = ex_idempotency_key e,
       exm_planned_at = ex_planned_at e, exm_started_at = ex_started_at e,
       exm_finished_at = ex_finished_at e, exm_error_code = ex_error_code e,
       exm_error_category = map_option error_category_value (ex_error_category e),
       exm_attempt_count = ex_attempt_count e\<rparr>)))))))"

definition execution_from_model :: "execution_model \<Rightarrow> tool_execution result" where
  "execution_from_model r =
     result_bind (tool_side_effect_of (exm_side_effect r)) (\<lambda>side_effect.
     result_bind (execution_status_of (exm_status r)) (\<lambda>status.
     result_bind (optional execution_error_category_of (exm_error_category r)) (\<lambda>error_category.
     result_bind (mcp_scope_type_of (exm_mcp_scope_type r)) (\<lambda>mcp_scope_type.
     execution_post_init
      \<lparr>ex_id = exm_id r, ex_tenant_id = exm_tenant_id r, ex_request_id = exm_request_id r,
       ex_trace_id = exm_trace_id r, ex_principal_id = exm_principal_id r, ex_tool_id = exm_tool_id r,
       ex_tool_version_id = exm_tool_version_id r, ex_tool_binding_id = exm_tool_binding_id r,
       ex_arguments_digest = exm_arguments_digest r, ex_policy_version = exm_policy_version r,
       ex_policy_reason_code = exm_policy_reason_code r, ex_side_effect = side_effect, ex_status = status,
       ex_planned_at = exm_planned_at r, ex_approval_id = exm_approval_id r,
       ex_credential_binding_id = exm_credential_binding_id r, ex_idempotency_key = exm_idempotency_key r,
       ex_started_at = exm_started_at r, ex_finished_at = exm_finished_at r,
       ex_error_code = exm_error_code r, ex_error_category = error_category,
       ex_attempt_count = exm_attempt_count r, ex_mcp_scope_type = mcp_scope_type,
       ex_toolset_id = exm_toolset_id r, ex_toolset_revision = exm_toolset_revision r\<rparr>))))"

definition update_execution_model :: "execution_model \<Rightarrow> tool_execution \<Rightarrow> execution_model" where
  "update_execution_model r e =
     r\<lparr>exm_status := execution_status_value (ex_status e), exm_started_at := ex_started_at e,
       exm_finished_at := ex_finished_at e, exm_error_code := ex_error_code e,
       exm_error_category := map_option error_category_value (ex_error_category e),
       exm_attempt_count := ex_attempt_count e\<rparr>"

definition execution_model_fits :: "execution_model \<Rightarrow> bool" where
  "execution_model_fits r \<longleftrightarrow>
     fits_string 128 (exm_request_id r) \<and> fits_string 64 (exm_trace_id r) \<and>
     fits_string 255 (exm_principal_id r) \<and> fits_string 16 (exm_mcp_scope_type r) \<and>
     fits_optional fits_integer (exm_toolset_revision r) \<and>
     fits_optional (fits_string 255) (exm_credential_binding_id r) \<and>
     fits_string 64 (exm_arguments_digest r) \<and> fits_string 128 (exm_policy_version r) \<and>
     fits_string 128 (exm_policy_reason_code r) \<and> fits_string 32 (exm_side_effect r) \<and>
     fits_string 16 (exm_status r) \<and> fits_optional (fits_string 255) (exm_idempotency_key r) \<and>
     fits_optional (fits_string 128) (exm_error_code r) \<and>
     fits_optional (fits_string 32) (exm_error_category r) \<and> fits_integer (exm_attempt_count r)"

text \<open>
  A \<open>CHECK\<close> is violated only if it is false; comparing a missing revision makes it neither. The unique
  index covers the rows that have an idempotency key.
\<close>

definition execution_rules :: "(execution_model \<Rightarrow> bool) \<Rightarrow> execution_model table_rules" where
  "execution_rules references =
     \<lparr>tr_store = (\<lambda>r. if execution_model_fits r then Some r else None),
      tr_checks =
        [(''ck_tool_execution_status'', \<lambda>r. exm_status r \<in>
           {''planned'', ''running'', ''succeeded'', ''failed'', ''unknown'', ''cancelled''}),
         (''ck_tool_execution_side_effect'', \<lambda>r. exm_side_effect r \<in>
           {''read_only'', ''idempotent_write'', ''non_idempotent_write'', ''unknown''}),
         (''ck_tool_execution_error_category'', \<lambda>r. fits_optional (\<lambda>c. c \<in>
           {''validation'', ''authentication'', ''authorization'', ''approval'', ''credential'',
            ''timeout_before_send'', ''timeout_after_send'', ''network'', ''upstream_4xx'', ''upstream_5xx'',
            ''cancelled'', ''unknown''}) (exm_error_category r)),
         (''ck_tool_execution_mcp_scope'', \<lambda>r.
           exm_mcp_scope_type r = ''root'' \<and> exm_toolset_id r = None \<and> exm_toolset_revision r = None \<or>
           exm_mcp_scope_type r = ''toolset'' \<and> exm_toolset_id r \<noteq> None \<and>
             fits_optional (\<lambda>n. n > 0) (exm_toolset_revision r))],
      tr_unique =
        [(''pk_tool_execution'', \<lambda>r x. exm_id x = exm_id r),
         (''uq_tool_execution_idempotency_scope'', \<lambda>r x.
           exm_tenant_id x = exm_tenant_id r \<and> exm_principal_id x = exm_principal_id r \<and>
           exm_tool_version_id x = exm_tool_version_id r \<and> exm_idempotency_key r \<noteq> None \<and>
           exm_idempotency_key x = exm_idempotency_key r)],
      tr_references = references\<rparr>"

definition execution_statement :: "string \<Rightarrow> string \<Rightarrow> (execution_model \<Rightarrow> bool) result" where
  "execution_statement tenant_id execution_id =
     scoped_where exm_tenant_id exm_id ''execution id'' tenant_id execution_id"

definition sql_execution_add ::
  "(execution_model \<Rightarrow> bool) \<Rightarrow> string \<Rightarrow> tool_execution \<Rightarrow> execution_model list \<Rightarrow> execution_model list result" where
  "sql_execution_add references tenant_id e t =
     (if ex_tenant_id e \<noteq> tenant_id then Inl (NexusError TenantBoundaryViolationError)
      else result_bind (execution_to_model e) (\<lambda>r.
        flushed_unless
          (\<lambda>name. if name = ''uq_tool_execution_idempotency_scope'' then Some (NexusError IdempotencyRaceError) else None)
          (insert_row (execution_rules references) r t)))"

definition sql_execution_get :: "string \<Rightarrow> string \<Rightarrow> execution_model list \<Rightarrow> tool_execution option result" where
  "sql_execution_get tenant_id execution_id t =
     result_bind (execution_statement tenant_id execution_id) (\<lambda>P.
       optional execution_from_model (select_first P t))"

definition sql_execution_save ::
  "(execution_model \<Rightarrow> bool) \<Rightarrow> string \<Rightarrow> tool_execution \<Rightarrow> execution_model list \<Rightarrow> execution_model list result" where
  "sql_execution_save references tenant_id e t =
     (if ex_tenant_id e \<noteq> tenant_id then Inl (NexusError TenantBoundaryViolationError)
      else result_bind (execution_statement tenant_id (ex_id e)) (\<lambda>P.
        case select_first P t of
          None \<Rightarrow> Inl (ValueError ''tool execution does not exist in tenant'')
        | Some r \<Rightarrow> flushed (update_row exm_id (execution_rules references) (update_execution_model r e) t)))"

definition sql_execution_get_by_idempotency_key ::
  "string \<Rightarrow> string \<Rightarrow> string \<Rightarrow> string \<Rightarrow> execution_model list \<Rightarrow> tool_execution option result" where
  "sql_execution_get_by_idempotency_key tenant_id principal_id tool_version_id idempotency_key t =
     result_bind (as_uuid ''tenant id'' tenant_id) (\<lambda>tenant_uuid.
     result_bind (as_uuid ''tool version id'' tool_version_id) (\<lambda>version_uuid.
     optional execution_from_model
       (select_first (\<lambda>r. exm_tenant_id r = tenant_uuid \<and> exm_principal_id r = principal_id \<and>
          exm_tool_version_id r = version_uuid \<and> exm_idempotency_key r = Some idempotency_key) t)))"

definition sql_execution_list_by_tenant :: "string \<Rightarrow> execution_model list \<Rightarrow> tool_execution list result" where
  "sql_execution_list_by_tenant tenant_id t =
     result_bind (as_uuid ''tenant id'' tenant_id) (\<lambda>tenant_uuid.
       collect_results execution_from_model
         (sort_key (\<lambda>r. (exm_planned_at r, exm_id r)) [r \<leftarrow> t. exm_tenant_id r = tenant_uuid]))"

section \<open>Attempts\<close>

record attempt_model =
  atm_id :: string
  atm_tenant_id :: string
  atm_execution_id :: string
  atm_attempt_number :: int
  atm_status :: string
  atm_started_at :: instant
  atm_finished_at :: "instant option"
  atm_error_code :: "string option"
  atm_error_category :: "string option"
  atm_upstream_status :: "int option"

definition attempt_to_model :: "execution_attempt \<Rightarrow> attempt_model result" where
  "attempt_to_model a =
     result_bind (as_uuid ''execution attempt id'' (at_id a)) (\<lambda>id_uuid.
     result_bind (as_uuid ''tenant id'' (at_tenant_id a)) (\<lambda>tenant_id_uuid.
     result_bind (as_uuid ''execution id'' (at_execution_id a)) (\<lambda>execution_id_uuid.
     Inr
      \<lparr>atm_id = id_uuid, atm_tenant_id = tenant_id_uuid, atm_execution_id = execution_id_uuid,
       atm_attempt_number = at_attempt_number a, atm_status = attempt_status_value (at_status a),
       atm_started_at = at_started_at a, atm_finished_at = at_finished_at a,
       atm_error_code = at_error_code a,
       atm_error_category = map_option error_category_value (at_error_category a),
       atm_upstream_status = at_upstream_status a\<rparr>)))"

definition attempt_from_model :: "attempt_model \<Rightarrow> execution_attempt result" where
  "attempt_from_model r =
     result_bind (attempt_status_of (atm_status r)) (\<lambda>status.
     result_bind (optional execution_error_category_of (atm_error_category r)) (\<lambda>error_category.
     attempt_post_init
      \<lparr>at_id = atm_id r, at_tenant_id = atm_tenant_id r, at_execution_id = atm_execution_id r,
       at_attempt_number = atm_attempt_number r, at_status = status, at_started_at = atm_started_at r,
       at_finished_at = atm_finished_at r, at_error_code = atm_error_code r,
       at_error_category = error_category, at_upstream_status = atm_upstream_status r\<rparr>))"

definition update_attempt_model :: "attempt_model \<Rightarrow> execution_attempt \<Rightarrow> attempt_model" where
  "update_attempt_model r a =
     r\<lparr>atm_status := attempt_status_value (at_status a), atm_finished_at := at_finished_at a,
       atm_error_code := at_error_code a,
       atm_error_category := map_option error_category_value (at_error_category a),
       atm_upstream_status := at_upstream_status a\<rparr>"

definition attempt_model_fits :: "attempt_model \<Rightarrow> bool" where
  "attempt_model_fits r \<longleftrightarrow>
     fits_integer (atm_attempt_number r) \<and> fits_string 16 (atm_status r) \<and>
     fits_optional (fits_string 128) (atm_error_code r) \<and>
     fits_optional (fits_string 32) (atm_error_category r) \<and>
     fits_optional fits_integer (atm_upstream_status r)"

definition attempt_rules :: "(attempt_model \<Rightarrow> bool) \<Rightarrow> attempt_model table_rules" where
  "attempt_rules references =
     \<lparr>tr_store = (\<lambda>r. if attempt_model_fits r then Some r else None),
      tr_checks =
        [(''ck_execution_attempt_status'',
          \<lambda>r. atm_status r \<in> {''running'', ''succeeded'', ''failed'', ''unknown'', ''cancelled''}),
         (''ck_execution_attempt_attempt_number_positive'', \<lambda>r. atm_attempt_number r > 0)],
      tr_unique =
        [(''pk_execution_attempt'', \<lambda>r x. atm_id x = atm_id r),
         (''uq_execution_attempt_execution_number'', \<lambda>r x.
           atm_execution_id x = atm_execution_id r \<and> atm_attempt_number x = atm_attempt_number r)],
      tr_references = references\<rparr>"

definition attempt_statement :: "string \<Rightarrow> string \<Rightarrow> (attempt_model \<Rightarrow> bool) result" where
  "attempt_statement tenant_id attempt_id =
     scoped_where atm_tenant_id atm_id ''execution attempt id'' tenant_id attempt_id"

definition sql_attempt_add ::
  "(attempt_model \<Rightarrow> bool) \<Rightarrow> string \<Rightarrow> execution_attempt \<Rightarrow> attempt_model list \<Rightarrow> attempt_model list result" where
  "sql_attempt_add references tenant_id a t =
     (if at_tenant_id a \<noteq> tenant_id then Inl (NexusError TenantBoundaryViolationError)
      else result_bind (attempt_to_model a) (\<lambda>r. flushed (insert_row (attempt_rules references) r t)))"

definition sql_attempt_get :: "string \<Rightarrow> string \<Rightarrow> attempt_model list \<Rightarrow> execution_attempt option result" where
  "sql_attempt_get tenant_id attempt_id t =
     result_bind (attempt_statement tenant_id attempt_id) (\<lambda>P. optional attempt_from_model (select_first P t))"

definition sql_attempt_save ::
  "(attempt_model \<Rightarrow> bool) \<Rightarrow> string \<Rightarrow> execution_attempt \<Rightarrow> attempt_model list \<Rightarrow> attempt_model list result" where
  "sql_attempt_save references tenant_id a t =
     (if at_tenant_id a \<noteq> tenant_id then Inl (NexusError TenantBoundaryViolationError)
      else result_bind (attempt_statement tenant_id (at_id a)) (\<lambda>P.
        case select_first P t of
          None \<Rightarrow> Inl (ValueError ''execution attempt does not exist in tenant'')
        | Some r \<Rightarrow> flushed (update_row atm_id (attempt_rules references) (update_attempt_model r a) t)))"

definition sql_attempt_list_by_execution ::
  "string \<Rightarrow> string \<Rightarrow> attempt_model list \<Rightarrow> execution_attempt list result" where
  "sql_attempt_list_by_execution tenant_id execution_id t =
     result_bind (as_uuid ''tenant id'' tenant_id) (\<lambda>tenant_uuid.
     result_bind (as_uuid ''execution id'' execution_id) (\<lambda>execution_uuid.
     collect_results attempt_from_model
       (sort_key atm_attempt_number
         [r \<leftarrow> t. atm_tenant_id r = tenant_uuid \<and> atm_execution_id r = execution_uuid])))"

end
