(* ===== verification/Sql_Catalog.thy ===== *)
theory Sql_Catalog
  imports Sql_Ledger Toolset_Store
begin

text \<open>
  The SQLAlchemy adapters of the registry, the connectors and the catalog: rows, mapping and
  repositories as in \<open>Sql_Ledger\<close>, the joins that serve discovery
  (\<open>catalog/adapters/sqlalchemy_repository.py\<close>, \<open>sqlalchemy_search.py\<close>), the resolver of a tool call
  (\<open>execution/adapters/sqlalchemy_resolver.py\<close>) and the toolsets' view of the catalog
  (\<open>infrastructure/persistence/toolset_catalog_reader.py\<close>).

  \<open>jsonb\<close> is what a \<open>JSONB\<close> column stores for a JSON value, if it takes it. The time stamps the database
  sets itself (\<open>TimestampMixin\<close>) reach no entity and are left out of the rows.
\<close>

section \<open>Enumerations in columns\<close>

fun tool_status_value :: "tool_status \<Rightarrow> string" where
  "tool_status_value TOOL_ACTIVE = ''active''"
| "tool_status_value TOOL_DISABLED = ''disabled''"

definition tool_status_of :: "string \<Rightarrow> tool_status result" where
  "tool_status_of =
     enum_of ''ToolStatus'' tool_status_value
       [TOOL_ACTIVE, TOOL_DISABLED]"

fun tool_version_status_value :: "tool_version_status \<Rightarrow> string" where
  "tool_version_status_value VERSION_DRAFT = ''draft''"
| "tool_version_status_value VERSION_REVIEW = ''review''"
| "tool_version_status_value VERSION_PUBLISHED = ''published''"
| "tool_version_status_value VERSION_RETIRED = ''retired''"

definition tool_version_status_of :: "string \<Rightarrow> tool_version_status result" where
  "tool_version_status_of =
     enum_of ''ToolVersionStatus'' tool_version_status_value
       [VERSION_DRAFT, VERSION_REVIEW, VERSION_PUBLISHED, VERSION_RETIRED]"

fun tool_visibility_value :: "tool_visibility \<Rightarrow> string" where
  "tool_visibility_value VIS_PUBLIC = ''public''"
| "tool_visibility_value VIS_AUTHENTICATED = ''authenticated''"
| "tool_visibility_value VIS_RESTRICTED = ''restricted''"

definition tool_visibility_of :: "string \<Rightarrow> tool_visibility result" where
  "tool_visibility_of =
     enum_of ''ToolVisibility'' tool_visibility_value
       [VIS_PUBLIC, VIS_AUTHENTICATED, VIS_RESTRICTED]"

fun tool_binding_status_value :: "tool_binding_status \<Rightarrow> string" where
  "tool_binding_status_value BINDING_DRAFT = ''draft''"
| "tool_binding_status_value BINDING_PUBLISHED = ''published''"
| "tool_binding_status_value BINDING_DISABLED = ''disabled''"

definition tool_binding_status_of :: "string \<Rightarrow> tool_binding_status result" where
  "tool_binding_status_of =
     enum_of ''ToolBindingStatus'' tool_binding_status_value
       [BINDING_DRAFT, BINDING_PUBLISHED, BINDING_DISABLED]"

definition tool_binding_type_of :: "string \<Rightarrow> tool_binding_type result" where
  "tool_binding_type_of =
     enum_of ''ToolBindingType'' binding_type_value
       [BINDING_HTTP, BINDING_REMOTE_MCP]"

fun upstream_service_type_value :: "upstream_service_type \<Rightarrow> string" where
  "upstream_service_type_value UPSTREAM_HTTP = ''http''"
| "upstream_service_type_value UPSTREAM_REMOTE_MCP = ''remote_mcp''"

definition upstream_service_type_of :: "string \<Rightarrow> upstream_service_type result" where
  "upstream_service_type_of =
     enum_of ''UpstreamServiceType'' upstream_service_type_value
       [UPSTREAM_HTTP, UPSTREAM_REMOTE_MCP]"

fun upstream_status_value :: "upstream_status \<Rightarrow> string" where
  "upstream_status_value UPSTREAM_DRAFT = ''draft''"
| "upstream_status_value UPSTREAM_ACTIVE = ''active''"
| "upstream_status_value UPSTREAM_DISABLED = ''disabled''"

definition upstream_status_of :: "string \<Rightarrow> upstream_status result" where
  "upstream_status_of =
     enum_of ''UpstreamStatus'' upstream_status_value
       [UPSTREAM_DRAFT, UPSTREAM_ACTIVE, UPSTREAM_DISABLED]"

section \<open>Upstream services\<close>

record upstream_model =
  usm_id :: string
  usm_tenant_id :: string
  usm_namespace :: string
  usm_name :: string
  usm_description :: "string option"
  usm_owner :: string
  usm_service_type :: string
  usm_transport_type :: string
  usm_endpoint :: string
  usm_protocol_min :: "string option"
  usm_protocol_max :: "string option"
  usm_auth_scheme :: "string option"
  usm_config :: json
  usm_status :: string

definition upstream_to_model :: "upstream_service \<Rightarrow> upstream_model result" where
  "upstream_to_model u =
     result_bind (as_uuid ''upstream service id'' (us_id u)) (\<lambda>id_uuid.
     result_bind (as_uuid ''tenant id'' (us_tenant_id u)) (\<lambda>tenant_id_uuid.
     Inr
      \<lparr>usm_id = id_uuid, usm_tenant_id = tenant_id_uuid, usm_namespace = us_namespace u,
       usm_name = us_name u, usm_description = us_description u, usm_owner = us_owner u,
       usm_service_type = upstream_service_type_value (us_service_type u),
       usm_transport_type = us_transport_type u, usm_endpoint = us_endpoint u,
       usm_protocol_min = us_protocol_min u, usm_protocol_max = us_protocol_max u,
       usm_auth_scheme = us_auth_scheme u, usm_config = us_config u,
       usm_status = upstream_status_value (us_status u)\<rparr>))"

definition upstream_from_model :: "upstream_model \<Rightarrow> upstream_service result" where
  "upstream_from_model r =
     result_bind (upstream_service_type_of (usm_service_type r)) (\<lambda>service_type.
     result_bind (upstream_status_of (usm_status r)) (\<lambda>status.
     upstream_post_init
      \<lparr>us_id = usm_id r, us_tenant_id = usm_tenant_id r, us_namespace = usm_namespace r,
       us_name = usm_name r, us_description = usm_description r, us_owner = usm_owner r,
       us_service_type = service_type, us_transport_type = usm_transport_type r,
       us_endpoint = usm_endpoint r, us_protocol_min = usm_protocol_min r,
       us_protocol_max = usm_protocol_max r, us_auth_scheme = usm_auth_scheme r, us_config = usm_config r,
       us_status = status\<rparr>))"

definition update_upstream_model :: "upstream_model \<Rightarrow> upstream_service \<Rightarrow> upstream_model" where
  "update_upstream_model r u =
     r\<lparr>usm_description := us_description u, usm_owner := us_owner u, usm_endpoint := us_endpoint u,
       usm_protocol_min := us_protocol_min u, usm_protocol_max := us_protocol_max u,
       usm_auth_scheme := us_auth_scheme u, usm_config := us_config u,
       usm_status := upstream_status_value (us_status u)\<rparr>"

definition upstream_model_fits :: "upstream_model \<Rightarrow> bool" where
  "upstream_model_fits r \<longleftrightarrow>
     fits_string 64 (usm_namespace r) \<and> fits_string 128 (usm_name r) \<and>
     fits_optional fits_text (usm_description r) \<and> fits_string 128 (usm_owner r) \<and>
     fits_string 32 (usm_service_type r) \<and> fits_string 32 (usm_transport_type r) \<and>
     fits_string 2048 (usm_endpoint r) \<and> fits_optional (fits_string 16) (usm_protocol_min r) \<and>
     fits_optional (fits_string 16) (usm_protocol_max r) \<and>
     fits_optional (fits_string 32) (usm_auth_scheme r) \<and> fits_string 16 (usm_status r)"

definition upstream_rules ::
  "(json \<Rightarrow> json option) \<Rightarrow> (upstream_model \<Rightarrow> bool) \<Rightarrow> upstream_model table_rules" where
  "upstream_rules jsonb references =
     \<lparr>tr_store = (\<lambda>r. if upstream_model_fits r then map_option (\<lambda>j. r\<lparr>usm_config := j\<rparr>) (jsonb (usm_config r)) else None),
      tr_checks =
        [(''ck_upstream_service_service_type'', \<lambda>r. usm_service_type r \<in> {''http'', ''remote_mcp''}),
         (''ck_upstream_service_status'', \<lambda>r. usm_status r \<in> {''draft'', ''active'', ''disabled''})],
      tr_unique =
        [(''pk_upstream_service'', \<lambda>r x. usm_id x = usm_id r),
         (''uq_upstream_service_tenant_namespace_name'', \<lambda>r x.
           usm_tenant_id x = usm_tenant_id r \<and> usm_namespace x = usm_namespace r \<and> usm_name x = usm_name r)],
      tr_references = references\<rparr>"

definition upstream_statement :: "string \<Rightarrow> string \<Rightarrow> (upstream_model \<Rightarrow> bool) result" where
  "upstream_statement tenant_id upstream_service_id =
     scoped_where usm_tenant_id usm_id ''upstream service id'' tenant_id upstream_service_id"

definition sql_upstream_add ::
  "(json \<Rightarrow> json option) \<Rightarrow> (upstream_model \<Rightarrow> bool) \<Rightarrow> string \<Rightarrow> upstream_service \<Rightarrow> upstream_model list \<Rightarrow>
   upstream_model list result" where
  "sql_upstream_add jsonb references tenant_id u t =
     (if tenant_id \<noteq> us_tenant_id u then Inl tenant_mismatch
      else result_bind (upstream_to_model u) (\<lambda>r.
        flushed_unless (\<lambda>name. Some (NexusError UpstreamConflictError)) (insert_row (upstream_rules jsonb references) r t)))"

definition sql_upstream_save ::
  "(json \<Rightarrow> json option) \<Rightarrow> (upstream_model \<Rightarrow> bool) \<Rightarrow> string \<Rightarrow> upstream_service \<Rightarrow> upstream_model list \<Rightarrow>
   upstream_model list result" where
  "sql_upstream_save jsonb references tenant_id u t =
     (if tenant_id \<noteq> us_tenant_id u then Inl tenant_mismatch
      else result_bind (upstream_statement tenant_id (us_id u)) (\<lambda>P.
        case select_first P t of
          None \<Rightarrow> Inl (ValueError ''upstream service does not exist in tenant'')
        | Some r \<Rightarrow> flushed (update_row usm_id (upstream_rules jsonb references) (update_upstream_model r u) t)))"

definition sql_upstream_get :: "string \<Rightarrow> string \<Rightarrow> upstream_model list \<Rightarrow> upstream_service option result" where
  "sql_upstream_get tenant_id upstream_service_id t =
     result_bind (upstream_statement tenant_id upstream_service_id) (\<lambda>P.
       optional upstream_from_model (select_first P t))"

definition sql_upstream_get_by_name ::
  "string \<Rightarrow> string \<Rightarrow> string \<Rightarrow> upstream_model list \<Rightarrow> upstream_service option result" where
  "sql_upstream_get_by_name tenant_id namespace name t =
     result_bind (as_uuid ''tenant id'' tenant_id) (\<lambda>tenant_uuid.
     optional upstream_from_model
       (select_first (\<lambda>r. usm_tenant_id r = tenant_uuid \<and> usm_namespace r = namespace \<and> usm_name r = name) t))"

definition sql_upstream_list_by_tenant :: "string \<Rightarrow> upstream_model list \<Rightarrow> upstream_service list result" where
  "sql_upstream_list_by_tenant tenant_id t =
     result_bind (as_uuid ''tenant id'' tenant_id) (\<lambda>tenant_uuid.
       collect_results upstream_from_model
         (sort_key (\<lambda>r. (usm_namespace r, usm_name r)) [r \<leftarrow> t. usm_tenant_id r = tenant_uuid]))"

section \<open>Tool bindings\<close>

record binding_model =
  tbm_id :: string
  tbm_tenant_id :: string
  tbm_tool_version_id :: string
  tbm_upstream_service_id :: string
  tbm_imported_operation_id :: "string option"
  tbm_binding_type :: string
  tbm_binding_config :: json
  tbm_binding_digest :: string
  tbm_status :: string
  tbm_created_at :: datetime
  tbm_published_at :: "datetime option"

definition tool_binding_to_model :: "tool_binding \<Rightarrow> binding_model result" where
  "tool_binding_to_model b =
     result_bind (as_uuid ''tool binding id'' (bi_id b)) (\<lambda>id_uuid.
     result_bind (as_uuid ''tenant id'' (bi_tenant_id b)) (\<lambda>tenant_id_uuid.
     result_bind (as_uuid ''tool version id'' (bi_tool_version_id b)) (\<lambda>tool_version_id_uuid.
     result_bind (as_uuid ''upstream service id'' (bi_upstream_service_id b)) (\<lambda>upstream_service_id_uuid.
     result_bind (optional (as_uuid ''imported operation id'') (bi_imported_operation_id b)) (\<lambda>imported_operation_id_uuid.
     Inr
      \<lparr>tbm_id = id_uuid, tbm_tenant_id = tenant_id_uuid, tbm_tool_version_id = tool_version_id_uuid,
       tbm_upstream_service_id = upstream_service_id_uuid,
       tbm_imported_operation_id = imported_operation_id_uuid,
       tbm_binding_type = binding_type_value (bi_binding_type b), tbm_binding_config = bi_binding_config b,
       tbm_binding_digest = bi_binding_digest b, tbm_status = tool_binding_status_value (bi_status b),
       tbm_created_at = bi_created_at b, tbm_published_at = bi_published_at b\<rparr>)))))"

definition tool_binding_from_model :: "binding_model \<Rightarrow> tool_binding result" where
  "tool_binding_from_model r =
     result_bind (tool_binding_type_of (tbm_binding_type r)) (\<lambda>binding_type.
     result_bind (tool_binding_status_of (tbm_status r)) (\<lambda>status.
     binding_post_init
      \<lparr>bi_id = tbm_id r, bi_tenant_id = tbm_tenant_id r, bi_tool_version_id = tbm_tool_version_id r,
       bi_upstream_service_id = tbm_upstream_service_id r,
       bi_imported_operation_id = tbm_imported_operation_id r, bi_binding_type = binding_type,
       bi_binding_config = tbm_binding_config r, bi_binding_digest = tbm_binding_digest r,
       bi_status = status, bi_created_at = tbm_created_at r, bi_published_at = tbm_published_at r\<rparr>))"

definition update_tool_binding_model :: "binding_model \<Rightarrow> tool_binding \<Rightarrow> binding_model result" where
  "update_tool_binding_model r b =
     result_bind (as_uuid ''tool version id'' (bi_tool_version_id b)) (\<lambda>tool_version_id_uuid.
     result_bind (as_uuid ''upstream service id'' (bi_upstream_service_id b)) (\<lambda>upstream_service_id_uuid.
     result_bind (optional (as_uuid ''imported operation id'') (bi_imported_operation_id b)) (\<lambda>imported_operation_id_uuid.
     Inr (r\<lparr>tbm_tool_version_id := tool_version_id_uuid, tbm_upstream_service_id := upstream_service_id_uuid,
       tbm_imported_operation_id := imported_operation_id_uuid,
       tbm_binding_type := binding_type_value (bi_binding_type b),
       tbm_binding_config := bi_binding_config b, tbm_binding_digest := bi_binding_digest b,
       tbm_status := tool_binding_status_value (bi_status b), tbm_created_at := bi_created_at b,
       tbm_published_at := bi_published_at b\<rparr>))))"

definition binding_model_fits :: "binding_model \<Rightarrow> bool" where
  "binding_model_fits r \<longleftrightarrow>
     fits_string 32 (tbm_binding_type r) \<and> fits_string 64 (tbm_binding_digest r) \<and>
     fits_string 16 (tbm_status r) \<and> is_aware (tbm_created_at r) \<and>
     fits_optional is_aware (tbm_published_at r)"

definition binding_rules ::
  "(json \<Rightarrow> json option) \<Rightarrow> (binding_model \<Rightarrow> bool) \<Rightarrow> binding_model table_rules" where
  "binding_rules jsonb references =
     \<lparr>tr_store = (\<lambda>r. if binding_model_fits r
        then map_option (\<lambda>j. r\<lparr>tbm_binding_config := j\<rparr>) (jsonb (tbm_binding_config r)) else None),
      tr_checks =
        [(''ck_tool_binding_binding_type'', \<lambda>r. tbm_binding_type r \<in> {''http'', ''remote_mcp''}),
         (''ck_tool_binding_status'', \<lambda>r. tbm_status r \<in> {''draft'', ''published'', ''disabled''})],
      tr_unique =
        [(''pk_tool_binding'', \<lambda>r x. tbm_id x = tbm_id r),
         (''uq_tool_binding_tool_version'', \<lambda>r x. tbm_tool_version_id x = tbm_tool_version_id r)],
      tr_references = references\<rparr>"

definition binding_statement :: "string \<Rightarrow> string \<Rightarrow> (binding_model \<Rightarrow> bool) result" where
  "binding_statement tenant_id binding_id = scoped_where tbm_tenant_id tbm_id ''tool binding id'' tenant_id binding_id"

definition sql_binding_add ::
  "(json \<Rightarrow> json option) \<Rightarrow> (binding_model \<Rightarrow> bool) \<Rightarrow> string \<Rightarrow> tool_binding \<Rightarrow> binding_model list \<Rightarrow>
   binding_model list result" where
  "sql_binding_add jsonb references tenant_id b t =
     (if tenant_id \<noteq> bi_tenant_id b then Inl tenant_mismatch
      else result_bind (tool_binding_to_model b) (\<lambda>r. flushed (insert_row (binding_rules jsonb references) r t)))"

definition sql_binding_save ::
  "(json \<Rightarrow> json option) \<Rightarrow> (binding_model \<Rightarrow> bool) \<Rightarrow> string \<Rightarrow> tool_binding \<Rightarrow> binding_model list \<Rightarrow>
   binding_model list result" where
  "sql_binding_save jsonb references tenant_id b t =
     (if tenant_id \<noteq> bi_tenant_id b then Inl tenant_mismatch
      else result_bind (binding_statement tenant_id (bi_id b)) (\<lambda>P.
        case select_first P t of
          None \<Rightarrow> Inl (ValueError ''tool binding does not exist in tenant'')
        | Some r \<Rightarrow>
            result_bind (update_tool_binding_model r b) (\<lambda>r'.
              flushed (update_row tbm_id (binding_rules jsonb references) r' t))))"

definition sql_binding_get :: "string \<Rightarrow> string \<Rightarrow> binding_model list \<Rightarrow> tool_binding option result" where
  "sql_binding_get tenant_id binding_id t =
     result_bind (binding_statement tenant_id binding_id) (\<lambda>P.
       optional tool_binding_from_model (select_first P t))"

definition sql_binding_get_by_tool_version ::
  "string \<Rightarrow> string \<Rightarrow> binding_model list \<Rightarrow> tool_binding option result" where
  "sql_binding_get_by_tool_version tenant_id tool_version_id t =
     result_bind (as_uuid ''tenant id'' tenant_id) (\<lambda>tenant_uuid.
     result_bind (as_uuid ''tool version id'' tool_version_id) (\<lambda>version_uuid.
     optional tool_binding_from_model
       (select_first (\<lambda>r. tbm_tenant_id r = tenant_uuid \<and> tbm_tool_version_id r = version_uuid) t)))"

section \<open>Tools\<close>

record tool_model =
  tlm_id :: string
  tlm_tenant_id :: string
  tlm_namespace :: string
  tlm_canonical_name :: string
  tlm_owner :: string
  tlm_status :: string

definition tool_to_model :: "tool \<Rightarrow> tool_model result" where
  "tool_to_model t =
     result_bind (as_uuid ''tool id'' (to_id t)) (\<lambda>id_uuid.
     result_bind (as_uuid ''tenant id'' (to_tenant_id t)) (\<lambda>tenant_id_uuid.
     Inr
      \<lparr>tlm_id = id_uuid, tlm_tenant_id = tenant_id_uuid, tlm_namespace = to_namespace t,
       tlm_canonical_name = to_canonical_name t, tlm_owner = to_owner t,
       tlm_status = tool_status_value (to_status t)\<rparr>))"

definition tool_from_model :: "tool_model \<Rightarrow> tool result" where
  "tool_from_model r =
     result_bind (tool_status_of (tlm_status r)) (\<lambda>status.
     tool_post_init
      \<lparr>to_id = tlm_id r, to_tenant_id = tlm_tenant_id r, to_namespace = tlm_namespace r,
       to_canonical_name = tlm_canonical_name r, to_owner = tlm_owner r, to_status = status\<rparr>)"

definition update_tool_model :: "tool_model \<Rightarrow> tool \<Rightarrow> tool_model" where
  "update_tool_model r t =
     r\<lparr>tlm_namespace := to_namespace t, tlm_canonical_name := to_canonical_name t, tlm_owner := to_owner t,
       tlm_status := tool_status_value (to_status t)\<rparr>"

definition tool_model_fits :: "tool_model \<Rightarrow> bool" where
  "tool_model_fits r \<longleftrightarrow>
     fits_string 64 (tlm_namespace r) \<and> fits_string 256 (tlm_canonical_name r) \<and>
     fits_string 128 (tlm_owner r) \<and> fits_string 16 (tlm_status r)"

definition tool_rules :: "(tool_model \<Rightarrow> bool) \<Rightarrow> tool_model table_rules" where
  "tool_rules references =
     \<lparr>tr_store = (\<lambda>r. if tool_model_fits r then Some r else None),
      tr_checks = [(''ck_tool_status'', \<lambda>r. tlm_status r \<in> {''active'', ''disabled''})],
      tr_unique =
        [(''pk_tool'', \<lambda>r x. tlm_id x = tlm_id r),
         (''uq_tool_tenant_canonical_name'', \<lambda>r x.
           tlm_tenant_id x = tlm_tenant_id r \<and> tlm_canonical_name x = tlm_canonical_name r)],
      tr_references = references\<rparr>"

definition tool_statement :: "string \<Rightarrow> string \<Rightarrow> (tool_model \<Rightarrow> bool) result" where
  "tool_statement tenant_id tool_id = scoped_where tlm_tenant_id tlm_id ''tool id'' tenant_id tool_id"

definition sql_tool_add :: "(tool_model \<Rightarrow> bool) \<Rightarrow> string \<Rightarrow> tool \<Rightarrow> tool_model list \<Rightarrow> tool_model list result" where
  "sql_tool_add references tenant_id x t =
     (if tenant_id \<noteq> to_tenant_id x then Inl tenant_mismatch
      else result_bind (tool_to_model x) (\<lambda>r. flushed (insert_row (tool_rules references) r t)))"

definition sql_tool_save :: "(tool_model \<Rightarrow> bool) \<Rightarrow> string \<Rightarrow> tool \<Rightarrow> tool_model list \<Rightarrow> tool_model list result" where
  "sql_tool_save references tenant_id x t =
     (if tenant_id \<noteq> to_tenant_id x then Inl tenant_mismatch
      else result_bind (tool_statement tenant_id (to_id x)) (\<lambda>P.
        case select_first P t of
          None \<Rightarrow> Inl (ValueError ''tool does not exist in tenant'')
        | Some r \<Rightarrow> flushed (update_row tlm_id (tool_rules references) (update_tool_model r x) t)))"

definition sql_tool_get :: "string \<Rightarrow> string \<Rightarrow> tool_model list \<Rightarrow> tool option result" where
  "sql_tool_get tenant_id tool_id t =
     result_bind (tool_statement tenant_id tool_id) (\<lambda>P. optional tool_from_model (select_first P t))"

definition sql_tool_get_by_name :: "string \<Rightarrow> string \<Rightarrow> tool_model list \<Rightarrow> tool option result" where
  "sql_tool_get_by_name tenant_id canonical_name t =
     result_bind (as_uuid ''tenant id'' tenant_id) (\<lambda>tenant_uuid.
     optional tool_from_model
       (select_first (\<lambda>r. tlm_tenant_id r = tenant_uuid \<and> tlm_canonical_name r = canonical_name) t))"

section \<open>Tool versions\<close>

record version_model =
  tvm_id :: string
  tvm_tenant_id :: string
  tvm_tool_id :: string
  tvm_version :: int
  tvm_display_name :: string
  tvm_description :: string
  tvm_input_schema :: json
  tvm_output_schema :: "json option"
  tvm_schema_digest :: string
  tvm_tags :: "string list"
  tvm_search_name :: string
  tvm_search_tags :: string
  tvm_search_description :: string
  tvm_side_effect :: string
  tvm_visibility :: string
  tvm_status :: string
  tvm_created_by :: string
  tvm_created_at :: datetime
  tvm_reviewed_at :: "datetime option"
  tvm_published_at :: "datetime option"
  tvm_retired_at :: "datetime option"

text \<open>The text that full-text search looks at.\<close>

definition tool_version_search_fields :: "tool_version \<Rightarrow> string \<Rightarrow> string \<Rightarrow> string \<times> string \<times> string" where
  "tool_version_search_fields v namespace canonical_name =
     (join_spaces [part \<leftarrow> [namespace, canonical_name, ve_display_name v]. part \<noteq> []],
      join_spaces (ve_tags v), ve_description v)"

definition tool_version_to_model :: "string \<Rightarrow> string \<Rightarrow> tool_version \<Rightarrow> version_model result" where
  "tool_version_to_model namespace canonical_name v =
     (let (search_name, search_tags, search_description) = tool_version_search_fields v namespace canonical_name in
     result_bind (as_uuid ''tool version id'' (ve_id v)) (\<lambda>id_uuid.
     result_bind (as_uuid ''tenant id'' (ve_tenant_id v)) (\<lambda>tenant_id_uuid.
     result_bind (as_uuid ''tool id'' (ve_tool_id v)) (\<lambda>tool_id_uuid.
     Inr
      \<lparr>tvm_id = id_uuid, tvm_tenant_id = tenant_id_uuid, tvm_tool_id = tool_id_uuid,
       tvm_version = ve_version v, tvm_display_name = ve_display_name v, tvm_description = ve_description v,
       tvm_input_schema = ve_input_schema v, tvm_output_schema = ve_output_schema v,
       tvm_schema_digest = ve_schema_digest v, tvm_tags = ve_tags v,
       tvm_search_name = search_name, tvm_search_tags = search_tags,
       tvm_search_description = search_description, tvm_side_effect = side_effect_value (ve_side_effect v),
       tvm_visibility = tool_visibility_value (ve_visibility v),
       tvm_status = tool_version_status_value (ve_status v), tvm_created_by = ve_created_by v,
       tvm_created_at = ve_created_at v, tvm_reviewed_at = ve_reviewed_at v,
       tvm_published_at = ve_published_at v, tvm_retired_at = ve_retired_at v\<rparr>))))"

definition tool_version_from_model :: "version_model \<Rightarrow> tool_version result" where
  "tool_version_from_model r =
     result_bind (tool_side_effect_of (tvm_side_effect r)) (\<lambda>side_effect.
     result_bind (tool_visibility_of (tvm_visibility r)) (\<lambda>visibility.
     result_bind (tool_version_status_of (tvm_status r)) (\<lambda>status.
     version_post_init
      \<lparr>ve_id = tvm_id r, ve_tenant_id = tvm_tenant_id r, ve_tool_id = tvm_tool_id r,
       ve_version = tvm_version r, ve_display_name = tvm_display_name r, ve_description = tvm_description r,
       ve_input_schema = tvm_input_schema r, ve_output_schema = tvm_output_schema r,
       ve_schema_digest = tvm_schema_digest r, ve_tags = tvm_tags r, ve_side_effect = side_effect,
       ve_visibility = visibility, ve_status = status, ve_created_by = tvm_created_by r,
       ve_created_at = tvm_created_at r, ve_reviewed_at = tvm_reviewed_at r,
       ve_published_at = tvm_published_at r, ve_retired_at = tvm_retired_at r\<rparr>)))"

definition update_tool_version_model :: "string \<Rightarrow> string \<Rightarrow> version_model \<Rightarrow> tool_version \<Rightarrow> version_model" where
  "update_tool_version_model namespace canonical_name r v =
     (let (search_name, search_tags, search_description) = tool_version_search_fields v namespace canonical_name in
     r\<lparr>tvm_version := ve_version v, tvm_display_name := ve_display_name v,
       tvm_description := ve_description v, tvm_input_schema := ve_input_schema v,
       tvm_output_schema := ve_output_schema v, tvm_schema_digest := ve_schema_digest v,
       tvm_tags := ve_tags v, tvm_search_name := search_name, tvm_search_tags := search_tags,
       tvm_search_description := search_description, tvm_side_effect := side_effect_value (ve_side_effect v),
       tvm_visibility := tool_visibility_value (ve_visibility v),
       tvm_status := tool_version_status_value (ve_status v), tvm_created_by := ve_created_by v,
       tvm_created_at := ve_created_at v, tvm_reviewed_at := ve_reviewed_at v,
       tvm_published_at := ve_published_at v, tvm_retired_at := ve_retired_at v\<rparr>)"

definition version_model_fits :: "version_model \<Rightarrow> bool" where
  "version_model_fits r \<longleftrightarrow>
     fits_integer (tvm_version r) \<and> fits_string 256 (tvm_display_name r) \<and>
     fits_text (tvm_description r) \<and> fits_string 64 (tvm_schema_digest r) \<and>
     list_all fits_text (tvm_tags r) \<and> fits_text (tvm_search_name r) \<and>
     fits_text (tvm_search_tags r) \<and> fits_text (tvm_search_description r) \<and> fits_string 32 (tvm_side_effect r) \<and> fits_string 16 (tvm_visibility r) \<and>
     fits_string 16 (tvm_status r) \<and> fits_string 128 (tvm_created_by r) \<and>
     is_aware (tvm_created_at r) \<and> fits_optional is_aware (tvm_reviewed_at r) \<and>
     fits_optional is_aware (tvm_published_at r) \<and> fits_optional is_aware (tvm_retired_at r)"

text \<open>The partial unique index lets a tool have one published version.\<close>

definition version_rules ::
  "(json \<Rightarrow> json option) \<Rightarrow> (version_model \<Rightarrow> bool) \<Rightarrow> version_model table_rules" where
  "version_rules jsonb references =
     \<lparr>tr_store = (\<lambda>r.
        if \<not> version_model_fits r then None
        else case (jsonb (tvm_input_schema r), map_option jsonb (tvm_output_schema r)) of
          (Some i, None) \<Rightarrow> Some (r\<lparr>tvm_input_schema := i\<rparr>)
        | (Some i, Some (Some ou)) \<Rightarrow> Some (r\<lparr>tvm_input_schema := i, tvm_output_schema := Some ou\<rparr>)
        | _ \<Rightarrow> None),
      tr_checks =
        [(''ck_tool_version_side_effect'', \<lambda>r. tvm_side_effect r \<in>
           {''read_only'', ''idempotent_write'', ''non_idempotent_write'', ''unknown''}),
         (''ck_tool_version_visibility'', \<lambda>r. tvm_visibility r \<in> {''public'', ''authenticated'', ''restricted''}),
         (''ck_tool_version_status'', \<lambda>r. tvm_status r \<in> {''draft'', ''review'', ''published'', ''retired''})],
      tr_unique =
        [(''pk_tool_version'', \<lambda>r x. tvm_id x = tvm_id r),
         (''uq_tool_version_tool_version'', \<lambda>r x. tvm_tool_id x = tvm_tool_id r \<and> tvm_version x = tvm_version r),
         (''uq_tool_version_one_published'', \<lambda>r x.
           tvm_tool_id x = tvm_tool_id r \<and> tvm_status r = ''published'' \<and> tvm_status x = ''published'')],
      tr_references = references\<rparr>"

definition version_statement :: "string \<Rightarrow> string \<Rightarrow> (version_model \<Rightarrow> bool) result" where
  "version_statement tenant_id tool_version_id =
     scoped_where tvm_tenant_id tvm_id ''tool version id'' tenant_id tool_version_id"

definition sql_version_add ::
  "(json \<Rightarrow> json option) \<Rightarrow> (version_model \<Rightarrow> bool) \<Rightarrow> string \<Rightarrow> tool_version \<Rightarrow> tool_model list \<Rightarrow>
   version_model list \<Rightarrow> version_model list result" where
  "sql_version_add jsonb references tenant_id v tools t =
     (if tenant_id \<noteq> ve_tenant_id v then Inl tenant_mismatch
      else result_bind (tool_statement tenant_id (ve_tool_id v)) (\<lambda>P.
        case select_first P tools of
          None \<Rightarrow> Inl (ValueError ''tool version parent does not exist in tenant'')
        | Some parent \<Rightarrow>
            result_bind (tool_version_to_model (tlm_namespace parent) (tlm_canonical_name parent) v) (\<lambda>r.
              flushed (insert_row (version_rules jsonb references) r t))))"

definition sql_version_save ::
  "(json \<Rightarrow> json option) \<Rightarrow> (version_model \<Rightarrow> bool) \<Rightarrow> string \<Rightarrow> tool_version \<Rightarrow> tool_model list \<Rightarrow>
   version_model list \<Rightarrow> version_model list result" where
  "sql_version_save jsonb references tenant_id v tools t =
     (if tenant_id \<noteq> ve_tenant_id v then Inl tenant_mismatch
      else result_bind (version_statement tenant_id (ve_id v)) (\<lambda>P.
        case select_first P t of
          None \<Rightarrow> Inl (ValueError ''tool version does not exist in tenant'')
        | Some r \<Rightarrow>
            result_bind (tool_statement tenant_id (ve_tool_id v)) (\<lambda>Q.
              case select_first Q tools of
                None \<Rightarrow> Inl (ValueError ''tool version parent does not exist in tenant'')
              | Some parent \<Rightarrow>
                  flushed (update_row tvm_id (version_rules jsonb references)
                    (update_tool_version_model (tlm_namespace parent) (tlm_canonical_name parent) r v) t))))"

definition sql_version_get :: "string \<Rightarrow> string \<Rightarrow> version_model list \<Rightarrow> tool_version option result" where
  "sql_version_get tenant_id tool_version_id t =
     result_bind (version_statement tenant_id tool_version_id) (\<lambda>P.
       optional tool_version_from_model (select_first P t))"

definition sql_get_published_version :: "string \<Rightarrow> string \<Rightarrow> version_model list \<Rightarrow> tool_version option result" where
  "sql_get_published_version tenant_id tool_id t =
     result_bind (as_uuid ''tenant id'' tenant_id) (\<lambda>tenant_uuid.
     result_bind (as_uuid ''tool id'' tool_id) (\<lambda>tool_uuid.
     optional tool_version_from_model
       (select_first (\<lambda>r. tvm_tenant_id r = tenant_uuid \<and> tvm_tool_id r = tool_uuid \<and>
          tvm_status r = tool_version_status_value VERSION_PUBLISHED) t)))"

definition sql_next_version_number :: "string \<Rightarrow> string \<Rightarrow> version_model list \<Rightarrow> int result" where
  "sql_next_version_number tenant_id tool_id t =
     result_bind (as_uuid ''tenant id'' tenant_id) (\<lambda>tenant_uuid.
     result_bind (as_uuid ''tool id'' tool_id) (\<lambda>tool_uuid.
     let next_version =
       (case [tvm_version r. r \<leftarrow> t, tvm_tenant_id r = tenant_uuid \<and> tvm_tool_id r = tool_uuid] of
          [] \<Rightarrow> 0 | n # ns \<Rightarrow> foldl max n ns) + 1
     in Inr (if next_version = 0 then 1 else next_version)))"

section \<open>Published tools\<close>

definition published_tool_from_models :: "tool_model \<Rightarrow> version_model \<Rightarrow> published_tool result" where
  "published_tool_from_models t v =
     result_bind (tool_visibility_of (tvm_visibility v)) (\<lambda>visibility.
     result_bind (tool_side_effect_of (tvm_side_effect v)) (\<lambda>side_effect.
     published_tool_post_init
      \<lparr>pt_tool_id = tlm_id t, pt_tool_version_id = tvm_id v, pt_tenant_id = tlm_tenant_id t,
       pt_canonical_name = tlm_canonical_name t, pt_display_name = tvm_display_name v,
       pt_description = tvm_description v, pt_input_schema = tvm_input_schema v,
       pt_output_schema = tvm_output_schema v, pt_version = tvm_version v, pt_visibility = visibility,
       pt_side_effect = side_effect, pt_schema_digest = tvm_schema_digest v, pt_owner = Some (tlm_owner t),
       pt_tags = tvm_tags v\<rparr>))"

text \<open>The join of an active tool with its published version and that version's published binding.\<close>

definition published_rows ::
  "string \<Rightarrow> tool_model list \<Rightarrow> version_model list \<Rightarrow> binding_model list \<Rightarrow> (tool_model \<times> version_model) list" where
  "published_rows tenant_uuid tools versions bindings =
     [(t, v). t \<leftarrow> tools, v \<leftarrow> versions, tvm_tool_id v = tlm_id t, b \<leftarrow> bindings, tbm_tool_version_id b = tvm_id v,
        tlm_tenant_id t = tenant_uuid \<and> tvm_tenant_id v = tenant_uuid \<and> tbm_tenant_id b = tenant_uuid \<and>
        tlm_status t = tool_status_value TOOL_ACTIVE \<and>
        tvm_status v = tool_version_status_value VERSION_PUBLISHED \<and>
        tbm_status b = tool_binding_status_value BINDING_PUBLISHED]"

text \<open>\<open>one_or_none\<close>.\<close>

definition one_or_none :: "'a list \<Rightarrow> 'a option result" where
  "one_or_none xs = (case xs of [] \<Rightarrow> Inr None | [x] \<Rightarrow> Inr (Some x) | _ \<Rightarrow> Inl (OtherException ''MultipleResultsFound''))"

definition sql_list_published_by_tenant ::
  "string \<Rightarrow> tool_model list \<Rightarrow> version_model list \<Rightarrow> binding_model list \<Rightarrow> published_tool list result" where
  "sql_list_published_by_tenant tenant_id tools versions bindings =
     result_bind (as_uuid ''tenant id'' tenant_id) (\<lambda>tenant_uuid.
       collect_results (\<lambda>(t, v). published_tool_from_models t v)
         (sort_key (\<lambda>(t, v). tlm_canonical_name t) (published_rows tenant_uuid tools versions bindings)))"

definition sql_get_published_by_name ::
  "string \<Rightarrow> string \<Rightarrow> tool_model list \<Rightarrow> version_model list \<Rightarrow> binding_model list \<Rightarrow>
   published_tool option result" where
  "sql_get_published_by_name tenant_id canonical_name tools versions bindings =
     result_bind (as_uuid ''tenant id'' tenant_id) (\<lambda>tenant_uuid.
     result_bind (one_or_none [(t, v) \<leftarrow> published_rows tenant_uuid tools versions bindings.
                    tlm_canonical_name t = canonical_name]) (\<lambda>row.
       optional (\<lambda>(t, v). published_tool_from_models t v) row))"

text \<open>
  Full-text search. \<open>websearch_to_tsquery\<close>, \<open>@@\<close> and \<open>ts_rank_cd\<close> are PostgreSQL's: \<open>ts_matches\<close> and
  \<open>ts_rank\<close> of the query text and a row. \<open>LIMIT\<close> follows the order.
\<close>

definition sql_search_published ::
  "(string \<Rightarrow> version_model \<Rightarrow> bool) \<Rightarrow> (string \<Rightarrow> version_model \<Rightarrow> rat) \<Rightarrow> string \<Rightarrow> string \<Rightarrow> search_filter \<Rightarrow> nat \<Rightarrow>
   tool_model list \<Rightarrow> version_model list \<Rightarrow> binding_model list \<Rightarrow> (published_tool \<times> rat) list result" where
  "sql_search_published ts_matches ts_rank tenant_id query_text f limit tools versions bindings =
     (if sf_eligible_tool_ids f = Some [] then Inr []
      else
        result_bind (as_uuid ''tenant id'' tenant_id) (\<lambda>tenant_uuid.
        result_bind (optional (collect_results (as_uuid ''eligible tool id'')) (sf_eligible_tool_ids f)) (\<lambda>eligible.
        let rows = [(t, v) \<leftarrow> published_rows tenant_uuid tools versions bindings.
              tvm_visibility v \<in> set (map tool_visibility_value (sf_visibilities f)) \<and>
              ts_matches query_text v \<and>
              fits_optional (\<lambda>ns. tlm_namespace t = ns) (sf_namespace f) \<and>
              fits_optional (\<lambda>ids. tlm_id t \<in> set ids) eligible \<and>
              fits_optional (\<lambda>e. tvm_side_effect v = side_effect_value e) (sf_side_effect f)]
        in collect_results
             (\<lambda>(t, v). result_bind (published_tool_from_models t v) (\<lambda>p. Inr (p, ts_rank query_text v)))
             (take limit (sort_key (\<lambda>(t, v). (- ts_rank query_text v, tlm_canonical_name t)) rows)))))"

section \<open>Resolving a call\<close>

definition resolve_rows ::
  "string \<Rightarrow> string \<Rightarrow> tool_model list \<Rightarrow> version_model list \<Rightarrow> binding_model list \<Rightarrow> upstream_model list \<Rightarrow>
   (tool_model \<times> version_model \<times> binding_model \<times> upstream_model) list" where
  "resolve_rows tenant_uuid canonical_name tools versions bindings upstreams =
     [(t, v, b, u). t \<leftarrow> tools, v \<leftarrow> versions, tvm_tool_id v = tlm_id t,
        b \<leftarrow> bindings, tbm_tool_version_id b = tvm_id v, u \<leftarrow> upstreams, usm_id u = tbm_upstream_service_id b,
        tlm_tenant_id t = tenant_uuid \<and> tvm_tenant_id v = tenant_uuid \<and> tbm_tenant_id b = tenant_uuid \<and>
        usm_tenant_id u = tenant_uuid \<and> tlm_canonical_name t = canonical_name \<and>
        tlm_status t = tool_status_value TOOL_ACTIVE \<and>
        tvm_status v = tool_version_status_value VERSION_PUBLISHED \<and>
        tbm_status b = tool_binding_status_value BINDING_PUBLISHED \<and>
        usm_status u = upstream_status_value UPSTREAM_ACTIVE]"

definition resolved_tool_from_row ::
  "string \<Rightarrow> tool_model \<times> version_model \<times> binding_model \<times> upstream_model \<Rightarrow> resolved_tool result" where
  "resolved_tool_from_row tenant_id row =
     (case row of (t, v, b, u) \<Rightarrow>
        result_bind (tool_side_effect_of (tvm_side_effect v)) (\<lambda>side_effect.
        result_bind (tool_visibility_of (tvm_visibility v)) (\<lambda>visibility.
        result_bind (tool_binding_type_of (tbm_binding_type b)) (\<lambda>binding_type.
        Inr
         \<lparr>rt_tenant_id = tenant_id, rt_tool_id = tlm_id t, rt_tool_version_id = tvm_id v,
          rt_tool_binding_id = tbm_id b, rt_upstream_service_id = usm_id u,
          rt_canonical_name = tlm_canonical_name t, rt_version = tvm_version v,
          rt_input_schema = tvm_input_schema v, rt_output_schema = tvm_output_schema v,
          rt_side_effect = side_effect, rt_visibility = visibility, rt_binding_type = binding_type,
          rt_binding_config = tbm_binding_config b, rt_upstream_endpoint = usm_endpoint u,
          rt_upstream_auth_scheme = usm_auth_scheme u\<rparr>))))"

definition sql_resolve ::
  "string \<Rightarrow> string \<Rightarrow> tool_model list \<Rightarrow> version_model list \<Rightarrow> binding_model list \<Rightarrow> upstream_model list \<Rightarrow>
   resolved_tool option result" where
  "sql_resolve tenant_id canonical_name tools versions bindings upstreams =
     result_bind (as_uuid ''tenant id'' tenant_id) (\<lambda>tenant_uuid.
     result_bind (one_or_none (resolve_rows tenant_uuid canonical_name tools versions bindings upstreams)) (\<lambda>row.
       optional (resolved_tool_from_row tenant_id) row))"

section \<open>Snapshots for toolsets\<close>

text \<open>\<open>len(json.dumps(...).encode("utf-8"))\<close>, which does not depend on the order of keys.\<close>

definition schema_size :: "json option \<Rightarrow> json option \<Rightarrow> int" where
  "schema_size input_schema output_schema =
     (case input_schema of
        None \<Rightarrow> 0
      | Some i \<Rightarrow> int (length (utf8_encode (json_dumps (JObj
          ([(''inputSchema'', i)] @ (case output_schema of None \<Rightarrow> [] | Some ou \<Rightarrow> [(''outputSchema'', ou)]))))))) "

definition member_snapshot :: "tool_model \<Rightarrow> version_model option \<Rightarrow> catalog_snapshot result" where
  "member_snapshot t published = snapshot_post_init
     \<lparr>sn_tool_id = tlm_id t, sn_tenant_id = tlm_tenant_id t,
      sn_availability =
        (if tlm_status t = tool_status_value TOOL_DISABLED then MEMBER_TOOL_DISABLED
         else if published = None then NO_PUBLISHED_VERSION else AVAILABLE),
      sn_published_tool_version_id =
        (if tlm_status t = tool_status_value TOOL_ACTIVE then map_option tvm_id published else None),
      sn_canonical_name = Some (tlm_canonical_name t), sn_description = map_option tvm_description published,
      sn_serialized_schema_size =
        schema_size (map_option tvm_input_schema published) (Option.bind published tvm_output_schema)\<rparr>"

text \<open>The published versions of a tool; an outer join has a row without one if there is none.\<close>

definition published_versions_of :: "tool_model \<Rightarrow> version_model list \<Rightarrow> version_model list" where
  "published_versions_of t versions =
     [v \<leftarrow> versions. tvm_tool_id v = tlm_id t \<and> tvm_tenant_id v = tlm_tenant_id t \<and>
        tvm_status v = tool_version_status_value VERSION_PUBLISHED]"

definition outer_published :: "tool_model \<Rightarrow> version_model list \<Rightarrow> version_model option list" where
  "outer_published t versions =
     (case published_versions_of t versions of [] \<Rightarrow> [None] | vs \<Rightarrow> map Some vs)"

definition sql_list_member_snapshots ::
  "string \<Rightarrow> string list \<Rightarrow> tool_model list \<Rightarrow> version_model list \<Rightarrow> catalog_snapshot list result" where
  "sql_list_member_snapshots tenant_id tool_ids tools versions =
     (if tool_ids = [] then Inr []
      else
        result_bind (as_uuid ''tenant id'' tenant_id) (\<lambda>tenant_uuid.
        result_bind (collect_results (as_uuid ''tool id'') tool_ids) (\<lambda>requested.
        let rows = [(t, p). t \<leftarrow> tools, p \<leftarrow> outer_published t versions,
              tlm_tenant_id t = tenant_uuid \<and> tlm_id t \<in> set requested]
        in result_bind (collect_results (\<lambda>(t, p). result_bind (member_snapshot t p) (\<lambda>s. Inr (tlm_id t, s))) rows)
             (\<lambda>pairs.
           let by_tool_id = fold (\<lambda>(k, s) d. dict_set k s d) pairs []
           in Inr (List.map_filter (\<lambda>tool_id. dict_get by_tool_id tool_id) tool_ids)))))"

definition sql_list_published_snapshots ::
  "string \<Rightarrow> tool_model list \<Rightarrow> version_model list \<Rightarrow> catalog_snapshot list result" where
  "sql_list_published_snapshots tenant_id tools versions =
     result_bind (as_uuid ''tenant id'' tenant_id) (\<lambda>tenant_uuid.
     let rows = sort_key (\<lambda>(t, v). tlm_canonical_name t)
           [(t, v). t \<leftarrow> tools, v \<leftarrow> published_versions_of t versions,
              tlm_tenant_id t = tenant_uuid \<and> tlm_status t = tool_status_value TOOL_ACTIVE]
     in collect_results (\<lambda>(t, v). snapshot_post_init
          \<lparr>sn_tool_id = tlm_id t, sn_tenant_id = tlm_tenant_id t, sn_availability = AVAILABLE,
           sn_published_tool_version_id = Some (tvm_id v), sn_canonical_name = Some (tlm_canonical_name t),
           sn_description = Some (tvm_description v),
           sn_serialized_schema_size = schema_size (Some (tvm_input_schema v)) (tvm_output_schema v)\<rparr>) rows)"

end
