(* ===== verification/Sql_Ledger_Correct.thy ===== *)
theory Sql_Ledger_Correct
  imports Sql_Ledger
begin

text \<open>
  The SQL repositories of approvals, executions and attempts against the in-memory ones: reading gives
  the same, and what a successful write leaves in the table is what the in-memory repository has after
  the same write. A row changed by \<open>update_*_model\<close> is the row of the changed entity, because no
  transition of the domain touches a column outside the ones it writes.
\<close>

section \<open>Enumerations\<close>

lemma approval_status_of_value [simp]: "approval_status_of (approval_status_value s) = Inr s"
  by (cases s) (simp_all add: approval_status_of_def enum_of_def)

lemma execution_status_of_value [simp]: "execution_status_of (execution_status_value s) = Inr s"
  by (cases s) (simp_all add: execution_status_of_def enum_of_def)

lemma attempt_status_of_value [simp]: "attempt_status_of (attempt_status_value s) = Inr s"
  by (cases s) (simp_all add: attempt_status_of_def enum_of_def)

lemma scope_type_of_value [simp]: "mcp_scope_type_of (scope_type_value s) = Inr s"
  by (cases s) (simp_all add: mcp_scope_type_of_def enum_of_def)

lemma side_effect_of_value [simp]: "tool_side_effect_of (side_effect_value s) = Inr s"
  by (cases s) (simp_all add: tool_side_effect_of_def enum_of_def)

lemma error_category_of_value [simp]: "execution_error_category_of (error_category_value s) = Inr s"
  by (cases s) (simp_all add: execution_error_category_of_def enum_of_def)

lemma optional_category_of_value [simp]:
  "optional execution_error_category_of (map_option error_category_value c) = Inr c"
  by (cases c) simp_all

lemma audit_action_of_value [simp]: "audit_action_of (audit_action_value a) = Inr a"
  by (cases a) (simp_all add: audit_action_of_def enum_of_def)

lemma audit_outcome_of_value [simp]: "audit_outcome_of (audit_outcome_value a) = Inr a"
  by (cases a) (simp_all add: audit_outcome_of_def enum_of_def)

section \<open>Approvals\<close>

definition approval_storable :: "approval_request \<Rightarrow> bool" where
  "approval_storable a \<longleftrightarrow> approval_post_init a = Inr a \<and> canonical_id (ap_id a) \<and>
     canonical_id (ap_tenant_id a) \<and> canonical_id (ap_tool_id a) \<and> canonical_id (ap_tool_version_id a)"

text \<open>Two states of one request: all that \<open>update_approval_model\<close> does not write is the same.\<close>

definition same_approval :: "approval_request \<Rightarrow> approval_request \<Rightarrow> bool" where
  "same_approval a b \<longleftrightarrow>
     b = a\<lparr>ap_status := ap_status b, ap_decided_by := ap_decided_by b, ap_decided_at := ap_decided_at b,
           ap_consumed_at := ap_consumed_at b\<rparr>"

definition approval_moves :: "approval_request \<Rightarrow> approval_request \<Rightarrow> bool" where
  "approval_moves a b \<longleftrightarrow>
     (\<exists>who now. approval_approve a who now = Inr b) \<or> (\<exists>who now. approval_reject a who now = Inr b) \<or>
     (\<exists>now. approval_expire a now = Inr b) \<or> (\<exists>p v d y k now. approval_consume a p v d y k now = Inr b)"

lemma approval_post_init_same: "approval_post_init a = Inr b \<Longrightarrow> b = a"
  by (simp add: approval_post_init_def validated_Inr_iff)

lemma approval_moves_same: "approval_moves a b \<Longrightarrow> same_approval a b"
  by (auto simp: approval_moves_def approval_approve_def approval_reject_def approval_expire_def approval_consume_def
      same_approval_def result_bind_Inr_iff split: if_splits dest!: approval_post_init_same)

lemma approval_row:
  "approval_storable a \<Longrightarrow> approval_to_model a = Inr r \<Longrightarrow> approval_from_model r = Inr a"
  by (cases a) (auto simp: approval_storable_def approval_to_model_def canonical_as_uuid approval_from_model_def)

lemma approval_update_row:
  "approval_from_model r = Inr a \<Longrightarrow>
   approval_from_model (update_approval_model r b) =
     approval_post_init (a\<lparr>ap_status := ap_status b, ap_decided_by := ap_decided_by b,
       ap_decided_at := ap_decided_at b, ap_consumed_at := ap_consumed_at b\<rparr>)"
  by (auto simp: approval_from_model_def update_approval_model_def result_bind_Inr_iff dest!: approval_post_init_same)

lemma approval_changed:
  "approval_storable b \<Longrightarrow> approval_from_model r = Inr a \<Longrightarrow> same_approval a b \<Longrightarrow>
   approval_from_model (update_approval_model r b) = Inr b"
  by (simp add: approval_update_row same_approval_def [symmetric] approval_storable_def) (simp add: same_approval_def)

lemma approval_row_ids:
  "approval_from_model r = Inr a \<Longrightarrow> arq_id r = ap_id a \<and> arq_tenant_id r = ap_tenant_id a"
  by (auto simp: approval_from_model_def result_bind_Inr_iff dest!: approval_post_init_same)

lemma same_approval_id: "same_approval a b \<Longrightarrow> ap_id a = ap_id b"
  by (cases a; cases b) (simp add: same_approval_def)

interpretation sql_approval: sql_repository ap_id ap_tenant_id approval_storable "\<lambda>a. a"
  arq_id arq_tenant_id approval_to_model approval_from_model "approval_rules references"
  same_approval "\<lambda>r a. Inr (update_approval_model r a)" for references
  by unfold_locales
    (auto simp: approval_rules_def split: if_splits
       dest: approval_row approval_changed approval_row_ids same_approval_id)

abbreviation approvals_held :: "approval_store \<Rightarrow> approval_model list \<Rightarrow> bool" where
  "approvals_held d t \<equiv> table_holds approval_from_model (\<lambda>a. a) d t \<and> keyed ap_id d"

lemma sql_approval_get_agrees:
  "approvals_held d t \<Longrightarrow> canonical_id u \<Longrightarrow> canonical_id i \<Longrightarrow> sql_approval_get u i t = Inr (approval_get u i d)"
  using sql_approval.get_agrees [of d t u i]
  by (simp add: sql_approval_get_def approval_statement_def canonical_scoped_where approval_get_def option.map_ident)

lemma sql_approval_add_agrees:
  assumes "approvals_held d t" "approval_storable a" "sql_approval_add references u a t = Inr t'"
  shows "\<exists>d'. approval_add u a d = Inr d' \<and> approvals_held d' t'"
  using sql_approval.add_agrees [of d t a references t'] assms
  by (auto simp: sql_approval_add_def approval_add_def split: if_splits)

lemma sql_approval_save_agrees:
  assumes "approvals_held d t" "approval_storable a" "approval_get u (ap_id a) d = Some old" "same_approval old a"
    and "sql_approval_save references u a t = Inr t'"
  shows "\<exists>d'. approval_save u a d = Inr d' \<and> approvals_held d' t'"
proof -
  have u: "ap_tenant_id a = u" using assms(5) by (auto simp: sql_approval_save_def split: if_splits)
  have "canonical_id (ap_tenant_id a)" "canonical_id (ap_id a)" using assms(2) by (simp_all add: approval_storable_def)
  then show ?thesis
    using sql_approval.save_agrees [of d t a u old "ValueError ''approval does not exist in tenant''" references t']
      assms u
    by (auto simp: sql_approval_save_def approval_save_def approval_get_def approval_statement_def
        canonical_scoped_where cong: option.case_cong)
qed

section \<open>Executions\<close>

definition execution_storable :: "tool_execution \<Rightarrow> bool" where
  "execution_storable e \<longleftrightarrow> execution_post_init e = Inr e \<and> canonical_id (ex_id e) \<and>
     canonical_id (ex_tenant_id e) \<and> canonical_id (ex_tool_id e) \<and> canonical_id (ex_tool_version_id e) \<and>
     canonical_id (ex_tool_binding_id e) \<and> fits_optional canonical_id (ex_toolset_id e) \<and>
     fits_optional canonical_id (ex_approval_id e)"

definition same_execution :: "tool_execution \<Rightarrow> tool_execution \<Rightarrow> bool" where
  "same_execution e f \<longleftrightarrow>
     f = e\<lparr>ex_status := ex_status f, ex_started_at := ex_started_at f, ex_finished_at := ex_finished_at f,
           ex_error_code := ex_error_code f, ex_error_category := ex_error_category f,
           ex_attempt_count := ex_attempt_count f\<rparr>"

definition execution_moves :: "tool_execution \<Rightarrow> tool_execution \<Rightarrow> bool" where
  "execution_moves e f \<longleftrightarrow>
     (\<exists>now. execution_start e now = Inr f) \<or> execution_register_attempt e = Inr f \<or>
     (\<exists>now. execution_succeed e now = Inr f) \<or> (\<exists>c g now. execution_fail e c g now = Inr f) \<or>
     (\<exists>c now. execution_mark_unknown e c now = Inr f) \<or> (\<exists>now. execution_cancel e now = Inr f)"

lemma execution_post_init_same: "execution_post_init e = Inr f \<Longrightarrow> f = e"
  by (simp add: execution_post_init_Inr)

lemma execution_moves_same: "execution_moves e f \<Longrightarrow> same_execution e f"
  by (auto simp: execution_moves_def execution_start_def execution_register_attempt_def execution_succeed_def
      execution_fail_def execution_mark_unknown_def execution_cancel_def same_execution_def result_bind_Inr_iff
      split: if_splits dest!: execution_post_init_same)

lemma canonical_optional_id: "fits_optional canonical_id v \<Longrightarrow> optional (as_uuid field_name) v = Inr v"
  by (cases v) (simp_all add: canonical_as_uuid)

lemma execution_row:
  "execution_storable e \<Longrightarrow> execution_to_model e = Inr r \<Longrightarrow> execution_from_model r = Inr e"
  by (cases e) (auto simp: execution_storable_def execution_to_model_def canonical_as_uuid canonical_optional_id
      execution_from_model_def)

lemma execution_update_row:
  "execution_from_model r = Inr e \<Longrightarrow>
   execution_from_model (update_execution_model r f) =
     execution_post_init (e\<lparr>ex_status := ex_status f, ex_started_at := ex_started_at f,
       ex_finished_at := ex_finished_at f, ex_error_code := ex_error_code f,
       ex_error_category := ex_error_category f, ex_attempt_count := ex_attempt_count f\<rparr>)"
  by (auto simp: execution_from_model_def update_execution_model_def result_bind_Inr_iff
      dest!: execution_post_init_same)

lemma execution_changed:
  "execution_storable f \<Longrightarrow> execution_from_model r = Inr e \<Longrightarrow> same_execution e f \<Longrightarrow>
   execution_from_model (update_execution_model r f) = Inr f"
  by (simp add: execution_update_row same_execution_def [symmetric] execution_storable_def)
    (simp add: same_execution_def)

lemma execution_row_fields:
  "execution_from_model r = Inr e \<Longrightarrow>
   exm_id r = ex_id e \<and> exm_tenant_id r = ex_tenant_id e \<and> exm_principal_id r = ex_principal_id e \<and>
   exm_tool_version_id r = ex_tool_version_id e \<and> exm_idempotency_key r = ex_idempotency_key e"
  by (auto simp: execution_from_model_def result_bind_Inr_iff dest!: execution_post_init_same)

lemma same_execution_id: "same_execution e f \<Longrightarrow> ex_id e = ex_id f"
  by (cases e; cases f) (simp add: same_execution_def)

interpretation sql_execution: sql_repository ex_id ex_tenant_id execution_storable "\<lambda>e. e"
  exm_id exm_tenant_id execution_to_model execution_from_model "execution_rules references"
  same_execution "\<lambda>r e. Inr (update_execution_model r e)" for references
  by unfold_locales
    (auto simp: execution_rules_def split: if_splits
       dest: execution_row execution_changed execution_row_fields same_execution_id)

abbreviation executions_held :: "execution_store \<Rightarrow> execution_model list \<Rightarrow> bool" where
  "executions_held d t \<equiv> table_holds execution_from_model (\<lambda>e. e) d t \<and> keyed ex_id d"

lemma sql_execution_get_agrees:
  "executions_held d t \<Longrightarrow> canonical_id u \<Longrightarrow> canonical_id i \<Longrightarrow> sql_execution_get u i t = Inr (execution_get u i d)"
  using sql_execution.get_agrees [of d t u i]
  by (simp add: sql_execution_get_def execution_statement_def canonical_scoped_where execution_get_def
      option.map_ident)

lemma sql_execution_add_agrees:
  assumes "executions_held d t" "execution_storable e" "sql_execution_add references u e t = Inr t'"
  shows "\<exists>d'. execution_add u e d = Inr d' \<and> executions_held d' t'"
  using sql_execution.add_agrees [of d t e references t'] assms
  by (auto simp: sql_execution_add_def execution_add_def result_bind_Inr_iff flushed_Inr flushed_unless_Inr
      split: if_splits)

lemma sql_execution_save_agrees:
  assumes "executions_held d t" "execution_storable e" "execution_get u (ex_id e) d = Some old" "same_execution old e"
    and "sql_execution_save references u e t = Inr t'"
  shows "\<exists>d'. execution_save u e d = Inr d' \<and> executions_held d' t'"
proof -
  have u: "ex_tenant_id e = u" using assms(5) by (auto simp: sql_execution_save_def split: if_splits)
  have "canonical_id (ex_tenant_id e)" "canonical_id (ex_id e)" using assms(2) by (simp_all add: execution_storable_def)
  then show ?thesis
    using sql_execution.save_agrees [of d t e u old "ValueError ''tool execution does not exist in tenant''" references t']
      assms u
    by (auto simp: sql_execution_save_def execution_save_Inr execution_get_def execution_statement_def
        canonical_scoped_where cong: option.case_cong)
qed

lemma sql_execution_by_key_agrees:
  assumes "executions_held d t" "canonical_id u" "canonical_id v"
  shows "sql_execution_get_by_idempotency_key u p v k t = Inr (execution_get_by_idempotency_key u p v k d)"
proof -
  have "rel_option (\<lambda>e r. \<exists>f. execution_from_model r = Inr f \<and> f = e)
    (execution_get_by_idempotency_key u p v k d)
    (select_first (\<lambda>r. exm_tenant_id r = u \<and> exm_principal_id r = p \<and> exm_tool_version_id r = v \<and>
       exm_idempotency_key r = Some k) t)"
    unfolding execution_get_by_idempotency_key_def select_first_def
    using assms(1) by (intro list_all2_find) (auto simp: table_holds_def dest: execution_row_fields)
  then show ?thesis using assms(2,3)
    by (auto simp: sql_execution_get_by_idempotency_key_def canonical_as_uuid option_rel_Some1 option_rel_Some2
        elim!: option.rel_cases)
qed

section \<open>Attempts\<close>

definition attempt_storable :: "execution_attempt \<Rightarrow> bool" where
  "attempt_storable a \<longleftrightarrow> attempt_post_init a = Inr a \<and> canonical_id (at_id a) \<and>
     canonical_id (at_tenant_id a) \<and> canonical_id (at_execution_id a)"

definition same_attempt :: "execution_attempt \<Rightarrow> execution_attempt \<Rightarrow> bool" where
  "same_attempt a b \<longleftrightarrow>
     b = a\<lparr>at_status := at_status b, at_finished_at := at_finished_at b, at_error_code := at_error_code b,
           at_error_category := at_error_category b, at_upstream_status := at_upstream_status b\<rparr>"

definition attempt_moves :: "execution_attempt \<Rightarrow> execution_attempt \<Rightarrow> bool" where
  "attempt_moves a b \<longleftrightarrow>
     (\<exists>now s. attempt_succeed a now s = Inr b) \<or> (\<exists>c g now x s. attempt_fail a c g now x s = Inr b) \<or>
     (\<exists>now. attempt_cancel a now = Inr b)"

lemma attempt_post_init_same: "attempt_post_init a = Inr b \<Longrightarrow> b = a"
  by (simp add: attempt_post_init_Inr)

lemma attempt_moves_same: "attempt_moves a b \<Longrightarrow> same_attempt a b"
  by (auto simp: attempt_moves_def attempt_succeed_def attempt_fail_def attempt_cancel_def same_attempt_def
      result_bind_Inr_iff split: if_splits dest!: attempt_post_init_same)

lemma attempt_row: "attempt_storable a \<Longrightarrow> attempt_to_model a = Inr r \<Longrightarrow> attempt_from_model r = Inr a"
  by (cases a) (auto simp: attempt_storable_def attempt_to_model_def canonical_as_uuid attempt_from_model_def)

lemma attempt_update_row:
  "attempt_from_model r = Inr a \<Longrightarrow>
   attempt_from_model (update_attempt_model r b) =
     attempt_post_init (a\<lparr>at_status := at_status b, at_finished_at := at_finished_at b,
       at_error_code := at_error_code b, at_error_category := at_error_category b,
       at_upstream_status := at_upstream_status b\<rparr>)"
  by (auto simp: attempt_from_model_def update_attempt_model_def result_bind_Inr_iff dest!: attempt_post_init_same)

lemma attempt_changed:
  "attempt_storable b \<Longrightarrow> attempt_from_model r = Inr a \<Longrightarrow> same_attempt a b \<Longrightarrow>
   attempt_from_model (update_attempt_model r b) = Inr b"
  by (simp add: attempt_update_row same_attempt_def [symmetric] attempt_storable_def) (simp add: same_attempt_def)

lemma attempt_row_fields:
  "attempt_from_model r = Inr a \<Longrightarrow>
   atm_id r = at_id a \<and> atm_tenant_id r = at_tenant_id a \<and> atm_execution_id r = at_execution_id a \<and>
   atm_attempt_number r = at_attempt_number a"
  by (auto simp: attempt_from_model_def result_bind_Inr_iff dest!: attempt_post_init_same)

lemma same_attempt_id: "same_attempt a b \<Longrightarrow> at_id a = at_id b"
  by (cases a; cases b) (simp add: same_attempt_def)

interpretation sql_attempt: sql_repository at_id at_tenant_id attempt_storable "\<lambda>a. a"
  atm_id atm_tenant_id attempt_to_model attempt_from_model "attempt_rules references"
  same_attempt "\<lambda>r a. Inr (update_attempt_model r a)" for references
  by unfold_locales
    (auto simp: attempt_rules_def split: if_splits
       dest: attempt_row attempt_changed attempt_row_fields same_attempt_id)

abbreviation attempts_held :: "attempt_store \<Rightarrow> attempt_model list \<Rightarrow> bool" where
  "attempts_held d t \<equiv> table_holds attempt_from_model (\<lambda>a. a) d t \<and> keyed at_id d"

lemma sql_attempt_get_agrees:
  "attempts_held d t \<Longrightarrow> canonical_id u \<Longrightarrow> canonical_id i \<Longrightarrow> sql_attempt_get u i t = Inr (attempt_get u i d)"
  using sql_attempt.get_agrees [of d t u i]
  by (simp add: sql_attempt_get_def attempt_statement_def canonical_scoped_where attempt_get_def option.map_ident)

lemma sql_attempt_add_agrees:
  assumes "attempts_held d t" "attempt_storable a" "sql_attempt_add references u a t = Inr t'"
  shows "\<exists>d'. attempt_add u a d = Inr d' \<and> attempts_held d' t'"
proof -
  obtain r s where r: "attempt_to_model a = Inr r" and s: "tr_store (attempt_rules references) r = Some s"
    and fresh: "violated (attempt_rules references) s t = None"
    using assms(3) by (auto simp: sql_attempt_add_def result_bind_Inr_iff flushed_Inr insert_row_Inr split: if_splits)
  have "attempt_from_model s = Inr a"
    using attempt_row [OF assms(2) r] s by (auto simp: attempt_rules_def split: if_splits)
  then have "atm_execution_id x = at_execution_id a \<Longrightarrow> atm_attempt_number x = at_attempt_number a \<Longrightarrow> x \<notin> set t" for x
    using fresh attempt_row_fields [of s a] by (auto simp: violated_None attempt_rules_def)
  moreover have "b \<in> set (dict_values d) \<Longrightarrow> \<exists>x \<in> set t. attempt_from_model x = Inr b" for b
    using assms(1) list_all2_value [of _ "dict_values d" t b] unfolding table_holds_def by fastforce
  ultimately have "\<not> (at_execution_id b = at_execution_id a \<and> at_attempt_number b = at_attempt_number a)"
    if "b \<in> set (dict_values d)" for b
    using that attempt_row_fields by metis
  then show ?thesis
    using sql_attempt.add_agrees [of d t a references t'] assms
    by (auto simp: sql_attempt_add_def attempt_add_Inr split: if_splits)
qed

lemma sql_attempt_save_agrees:
  assumes "attempts_held d t" "attempt_storable a" "attempt_get u (at_id a) d = Some old" "same_attempt old a"
    and "sql_attempt_save references u a t = Inr t'"
  shows "\<exists>d'. attempt_save u a d = Inr d' \<and> attempts_held d' t'"
proof -
  have u: "at_tenant_id a = u" using assms(5) by (auto simp: sql_attempt_save_def split: if_splits)
  have "canonical_id (at_tenant_id a)" "canonical_id (at_id a)" using assms(2) by (simp_all add: attempt_storable_def)
  then show ?thesis
    using sql_attempt.save_agrees [of d t a u old "ValueError ''execution attempt does not exist in tenant''" references t']
      assms u
    by (auto simp: sql_attempt_save_def attempt_save_Inr attempt_get_def attempt_statement_def
        canonical_scoped_where cong: option.case_cong)
qed

section \<open>Audit events\<close>

definition audit_storable :: "audit_event \<Rightarrow> bool" where
  "audit_storable ev \<longleftrightarrow> audit_post_init ev = Inr ev \<and> canonical_id (au_id ev) \<and>
     canonical_id (au_tenant_id ev) \<and> fits_optional canonical_id (au_execution_id ev)"

text \<open>An event up to the order of its metadata; no metadata reads back as none of them.\<close>

definition audit_view :: "audit_event \<Rightarrow> audit_event \<times> (string \<rightharpoonup> audit_value)" where
  "audit_view ev = (ev\<lparr>au_metadata := None\<rparr>, map_of (case au_metadata ev of None \<Rightarrow> [] | Some m \<Rightarrow> m))"

lemma audit_post_init_same: "audit_post_init ev = Inr ev' \<Longrightarrow> ev' = ev"
  by (simp add: audit_post_init_Inr)

lemma audit_post_init_view:
  assumes "audit_post_init ev = Inr ev" and "audit_view ev = audit_view ev'"
  shows "audit_post_init ev' = Inr ev'"
proof -
  have fields: "ev\<lparr>au_metadata := None\<rparr> = ev'\<lparr>au_metadata := None\<rparr>"
    and meta: "map_of (case au_metadata ev of None \<Rightarrow> [] | Some m \<Rightarrow> m) =
      map_of (case au_metadata ev' of None \<Rightarrow> [] | Some m \<Rightarrow> m)"
    using assms(2) by (simp_all add: audit_view_def)
  have "fst ` set (case au_metadata ev of None \<Rightarrow> [] | Some m \<Rightarrow> m) =
      fst ` set (case au_metadata ev' of None \<Rightarrow> [] | Some m \<Rightarrow> m)"
    using meta by (metis dom_map_of_conv_image_fst)
  then show ?thesis using assms(1) fields
    by (cases ev; cases ev') (auto simp: audit_post_init_Inr split: option.splits, blast+)
qed

lemma audit_row_ids:
  "audit_from_model r = Inr ev \<Longrightarrow>
   aev_id r = au_id ev \<and> aev_tenant_id r = au_tenant_id ev \<and> aev_execution_id r = au_execution_id ev \<and>
   aev_occurred_at r = au_occurred_at ev"
  by (auto simp: audit_from_model_def result_bind_Inr_iff dest!: audit_post_init_same)

lemma audit_row:
  assumes "audit_storable ev" and "audit_to_model ev = Inr r" and "\<And>m. map_of (reorder m) = map_of m"
  shows "\<exists>ev'. audit_from_model (r\<lparr>aev_metadata := reorder (aev_metadata r)\<rparr>) = Inr ev' \<and> audit_view ev' = audit_view ev"
proof -
  let ?m = "case au_metadata ev of None \<Rightarrow> [] | Some m \<Rightarrow> m"
  have "audit_from_model (r\<lparr>aev_metadata := reorder (aev_metadata r)\<rparr>) =
      audit_post_init (ev\<lparr>au_metadata := Some (reorder ?m)\<rparr>)"
    using assms(1,2) by (cases ev) (auto simp: audit_storable_def audit_to_model_def canonical_as_uuid
        canonical_optional_id audit_from_model_def)
  moreover have view: "audit_view (ev\<lparr>au_metadata := Some (reorder ?m)\<rparr>) = audit_view ev"
    by (simp add: audit_view_def assms(3))
  moreover have "audit_post_init (ev\<lparr>au_metadata := Some (reorder ?m)\<rparr>) = Inr (ev\<lparr>au_metadata := Some (reorder ?m)\<rparr>)"
    using assms(1) by (intro audit_post_init_view [OF _ view [symmetric]]) (simp add: audit_storable_def)
  ultimately show ?thesis by auto
qed

lemma audit_view_ids: "audit_view e = audit_view f \<Longrightarrow> au_id e = au_id f \<and> au_tenant_id e = au_tenant_id f"
  by (cases e; cases f) (simp add: audit_view_def)

lemma sql_audit_table:
  assumes "\<And>m. map_of (reorder m) = map_of m"
  shows "sql_table au_id au_tenant_id audit_storable audit_view aev_id aev_tenant_id audit_to_model
    audit_from_model (audit_rules reorder references)"
  using assms
  by unfold_locales
    (auto simp: audit_rules_def split: if_splits intro: audit_row dest: audit_row_ids audit_view_ids)

text \<open>With a column that keeps the order; \<open>sql_audit_table\<close> has the laws for any other.\<close>

interpretation sql_audit: sql_table au_id au_tenant_id audit_storable audit_view aev_id aev_tenant_id
  audit_to_model audit_from_model "audit_rules (\<lambda>m. m) references" for references
  by (rule sql_audit_table) simp

section \<open>The promises of the tables\<close>

text \<open>
  C12: The SQL repository of executions behaves as the in-memory one the other theorems are about: from a
  table that holds the executions of a dictionary, the two reads return what the dictionary has, an
  insertion that succeeds is one the dictionary accepts, and so is saving a transition of a stored
  execution; in both cases the table holds the new dictionary.
\<close>

theorem sql_executions_refine_memory:
  assumes "executions_held d t" and "canonical_id u" and "canonical_id i" and "canonical_id v"
  shows "sql_execution_get u i t = Inr (execution_get u i d) \<and>
    sql_execution_get_by_idempotency_key u p v k t = Inr (execution_get_by_idempotency_key u p v k d) \<and>
    (\<forall>e t'. execution_storable e \<longrightarrow> sql_execution_add references u e t = Inr t' \<longrightarrow>
       (\<exists>d'. execution_add u e d = Inr d' \<and> executions_held d' t')) \<and>
    (\<forall>e f t'. execution_get u (ex_id f) d = Some e \<longrightarrow> execution_moves e f \<longrightarrow> execution_storable f \<longrightarrow>
       sql_execution_save references u f t = Inr t' \<longrightarrow>
       (\<exists>d'. execution_save u f d = Inr d' \<and> executions_held d' t'))"
  using sql_execution_get_agrees [OF assms(1-3)] sql_execution_by_key_agrees [OF assms(1,2,4)]
    sql_execution_add_agrees [OF assms(1)] sql_execution_save_agrees [OF assms(1)] execution_moves_same
  by blast

text \<open>
  What \<open>update_approval_model\<close>, \<open>update_execution_model\<close> and \<open>update_attempt_model\<close> write is all that
  a transition of the domain changes: the updated row is the row of the new state, so saving a
  transition loses nothing.
\<close>

theorem transitions_are_saved_completely:
  "(approval_to_model a = Inr ra \<longrightarrow> approval_moves a b \<longrightarrow> approval_to_model b = Inr (update_approval_model ra b)) \<and>
   (execution_to_model e = Inr re \<longrightarrow> execution_moves e f \<longrightarrow> execution_to_model f = Inr (update_execution_model re f)) \<and>
   (attempt_to_model x = Inr rx \<longrightarrow> attempt_moves x y \<longrightarrow> attempt_to_model y = Inr (update_attempt_model rx y))"
proof (intro conjI impI)
  assume "approval_to_model a = Inr ra" "approval_moves a b"
  then show "approval_to_model b = Inr (update_approval_model ra b)"
    using approval_moves_same [of a b]
    by (cases a; cases b) (auto simp: approval_to_model_def update_approval_model_def same_approval_def result_bind_Inr_iff)
next
  assume "execution_to_model e = Inr re" "execution_moves e f"
  then show "execution_to_model f = Inr (update_execution_model re f)"
    using execution_moves_same [of e f]
    by (cases e; cases f) (auto simp: execution_to_model_def update_execution_model_def same_execution_def result_bind_Inr_iff)
next
  assume "attempt_to_model x = Inr rx" "attempt_moves x y"
  then show "attempt_to_model y = Inr (update_attempt_model rx y)"
    using attempt_moves_same [of x y]
    by (cases x; cases y) (auto simp: attempt_to_model_def update_attempt_model_def same_attempt_def result_bind_Inr_iff)
qed

section \<open>An instance\<close>

definition sample_uuid :: "char \<Rightarrow> string" where
  "sample_uuid c = ''00000000-0000-0000-0000-00000000000'' @ [c]"

definition stored_execution :: tool_execution where
  "stored_execution =
     \<lparr>ex_id = sample_uuid (CHR ''1''), ex_tenant_id = sample_uuid (CHR ''2''), ex_request_id = ''r'', ex_trace_id = ''t'',
      ex_principal_id = ''agent'', ex_tool_id = sample_uuid (CHR ''3''), ex_tool_version_id = sample_uuid (CHR ''4''),
      ex_tool_binding_id = sample_uuid (CHR ''5''), ex_arguments_digest = ''d'', ex_policy_version = ''1'',
      ex_policy_reason_code = ''allowed'', ex_side_effect = READ_ONLY, ex_status = EX_PLANNED, ex_planned_at = 1,
      ex_approval_id = None, ex_credential_binding_id = None, ex_idempotency_key = Some ''k'', ex_started_at = None,
      ex_finished_at = None, ex_error_code = None, ex_error_category = None, ex_attempt_count = 0,
      ex_mcp_scope_type = SCOPE_ROOT, ex_toolset_id = None, ex_toolset_revision = None\<rparr>"

definition started_execution :: tool_execution where
  "started_execution = stored_execution\<lparr>ex_status := EX_RUNNING, ex_started_at := Some 2\<rparr>"

definition rival_execution :: tool_execution where
  "rival_execution = stored_execution\<lparr>ex_id := sample_uuid (CHR ''6'')\<rparr>"

lemma sample_uuids_canonical:
  "canonical_id (sample_uuid (CHR ''1''))" "canonical_id (sample_uuid (CHR ''2''))"
  "canonical_id (sample_uuid (CHR ''3''))" "canonical_id (sample_uuid (CHR ''4''))"
  "canonical_id (sample_uuid (CHR ''5''))" "canonical_id (sample_uuid (CHR ''6''))"
  by code_simp+

lemma sample_executions:
  "execution_storable stored_execution" "execution_storable started_execution" "execution_storable rival_execution"
  by (simp_all add: execution_storable_def stored_execution_def started_execution_def rival_execution_def
      sample_uuids_canonical) code_simp+

lemmas sample_rows = execution_to_model_def stored_execution_def started_execution_def rival_execution_def
  sample_uuid_def canonical_as_uuid canonical_scoped_where sample_uuids_canonical [unfolded sample_uuid_def, simplified]
  insert_row_def update_row_def violated_def execution_rules_def execution_model_fits_def fits_string_def
  fits_text_def fits_integer_def flushed_def flushed_unless_def select_first_def

lemma sample_writes:
  "\<not> isl (result_bind (sql_execution_add (\<lambda>_. True) (ex_tenant_id stored_execution) stored_execution [])
     (\<lambda>t. sql_execution_save (\<lambda>_. True) (ex_tenant_id stored_execution) started_execution t))"
  by (simp add: sample_rows sql_execution_add_def sql_execution_save_def execution_statement_def
      update_execution_model_def cong: option.case_cong)

lemma not_isl_Inr: "\<not> isl r \<longleftrightarrow> (\<exists>x. r = Inr x)"
  by (cases r) simp_all

lemma sample_move: "execution_moves stored_execution started_execution"
proof -
  have "execution_start stored_execution 2 = Inr started_execution" by code_simp
  then show ?thesis unfolding execution_moves_def by blast
qed

theorem sql_executions_refine_memory_witness:
  "\<exists>t t' d'. sql_execution_add (\<lambda>_. True) (ex_tenant_id stored_execution) stored_execution [] = Inr t \<and>
     sql_execution_save (\<lambda>_. True) (ex_tenant_id stored_execution) started_execution t = Inr t' \<and>
     execution_save (ex_tenant_id stored_execution) started_execution
       [(ex_id stored_execution, stored_execution)] = Inr d' \<and> executions_held d' t'"
proof -
  let ?u = "ex_tenant_id stored_execution" and ?d = "[(ex_id stored_execution, stored_execution)]"
  obtain t t' where t: "sql_execution_add (\<lambda>_. True) ?u stored_execution [] = Inr t"
    and t': "sql_execution_save (\<lambda>_. True) ?u started_execution t = Inr t'"
    using sample_writes by (auto simp: not_isl_Inr result_bind_Inr_iff)
  have held: "executions_held ?d t"
    using sql_execution_add_agrees [of "[]" "[]" stored_execution "\<lambda>_. True" ?u t] t sample_executions(1)
    by (auto simp: execution_add_def)
  have ids: "canonical_id ?u" "canonical_id (ex_id started_execution)" "canonical_id (ex_tool_version_id started_execution)"
    using sample_executions(2) by (simp_all add: execution_storable_def started_execution_def)
  have "execution_get ?u (ex_id started_execution) ?d = Some stored_execution"
    by (simp add: execution_get_def scoped_get_def started_execution_def)
  then show ?thesis
    using sql_executions_refine_memory [OF held ids, of "''agent''" "''k''" "\<lambda>_. True"] t t' sample_move
      sample_executions(2) by blast
qed

theorem transitions_are_saved_completely_witness:
  "\<exists>r. execution_to_model stored_execution = Inr r \<and>
     execution_to_model started_execution = Inr (update_execution_model r started_execution)"
proof -
  have "\<not> isl (execution_to_model stored_execution)" by code_simp
  then obtain r where r: "execution_to_model stored_execution = Inr r" by (cases "execution_to_model stored_execution") auto
  with transitions_are_saved_completely [of _ _ _ stored_execution r started_execution] sample_move show ?thesis by blast
qed

section \<open>Concurrent claims of an idempotency key\<close>

definition same_scope :: "execution_model \<Rightarrow> execution_model \<Rightarrow> bool" where
  "same_scope r x \<longleftrightarrow> exm_tenant_id x = exm_tenant_id r \<and> exm_principal_id x = exm_principal_id r \<and>
     exm_tool_version_id x = exm_tool_version_id r \<and> exm_idempotency_key r \<noteq> None \<and>
     exm_idempotency_key x = exm_idempotency_key r"

definition scopes_unique :: "execution_model list \<Rightarrow> bool" where
  "scopes_unique t \<longleftrightarrow> distinct (map exm_id t) \<and>
     (\<forall>r \<in> set t. \<forall>x \<in> set t. same_scope r x \<longrightarrow> exm_id x = exm_id r)"

lemma execution_rules_unique:
  "violated (execution_rules references) s others = None \<Longrightarrow> x \<in> set others \<Longrightarrow> exm_id x \<noteq> exm_id s \<and> \<not> same_scope s x"
  by (auto simp: violated_None execution_rules_def same_scope_def)

lemma same_scope_sym: "same_scope r x \<Longrightarrow> same_scope x r"
  by (auto simp: same_scope_def)

lemma insert_keeps_scopes:
  assumes "scopes_unique t" and "insert_row (execution_rules references) r t = Inr t'"
  shows "scopes_unique t'"
proof -
  obtain s where s: "violated (execution_rules references) s t = None" "t' = t @ [s]"
    using assms(2) by (auto simp: insert_row_Inr)
  have "\<forall>x \<in> set t. exm_id x \<noteq> exm_id s \<and> \<not> same_scope s x \<and> \<not> same_scope x s"
    using execution_rules_unique [OF s(1)] same_scope_sym by blast
  then show ?thesis using assms(1) by (auto simp: scopes_unique_def s(2))
qed

lemma update_keeps_scopes:
  assumes "scopes_unique t" and "update_row exm_id (execution_rules references) r t = Inr t'"
  shows "scopes_unique t'"
proof -
  obtain s where s: "violated (execution_rules references) s [x \<leftarrow> t. exm_id x \<noteq> exm_id s] = None"
    and t': "t' = replace_row exm_id s t" using assms(2) by (auto simp: update_row_Inr)
  have ids: "map exm_id t' = map exm_id t" by (simp add: t' replace_row_def)
  have members: "x = s \<or> x \<in> set t \<and> exm_id x \<noteq> exm_id s" if "x \<in> set t'" for x
    using that by (auto simp: t' replace_row_def split: if_splits)
  have other: "\<not> same_scope s x \<and> \<not> same_scope x s" if "x \<in> set t" "exm_id x \<noteq> exm_id s" for x
    using execution_rules_unique [OF s, of x] that same_scope_sym by auto
  have "exm_id x = exm_id y" if "x \<in> set t'" "y \<in> set t'" "same_scope y x" for x y
    using members [OF that(1)] members [OF that(2)] that(3) assms(1) other by (auto simp: scopes_unique_def)
  then show ?thesis using assms(1) ids by (auto simp: scopes_unique_def)
qed

lemma execution_checks:
  assumes "execution_storable e" and "execution_to_model e = Inr r"
  shows "\<forall>c \<in> set (tr_checks (execution_rules references)). snd c r"
proof -
  have scope: "scope_ok (ex_mcp_scope_type e) (ex_toolset_id e) (ex_toolset_revision e)"
    using assms(1) by (simp add: execution_storable_def execution_post_init_Inr execution_wf_iff execution_text_ok_def)
  have r: "exm_status r = execution_status_value (ex_status e)" "exm_side_effect r = side_effect_value (ex_side_effect e)"
    "exm_error_category r = map_option error_category_value (ex_error_category e)"
    "exm_mcp_scope_type r = scope_type_value (ex_mcp_scope_type e)" "exm_toolset_id r = ex_toolset_id e"
    "exm_toolset_revision r = ex_toolset_revision e"
    using assms by (auto simp: execution_storable_def execution_to_model_def canonical_as_uuid canonical_optional_id)
  have "exm_status r \<in> {''planned'', ''running'', ''succeeded'', ''failed'', ''unknown'', ''cancelled''}"
    by (cases "ex_status e") (simp_all add: r)
  moreover have "exm_side_effect r \<in> {''read_only'', ''idempotent_write'', ''non_idempotent_write'', ''unknown''}"
    by (cases "ex_side_effect e") (simp_all add: r)
  moreover have "error_category_value c \<in>
      {''validation'', ''authentication'', ''authorization'', ''approval'', ''credential'', ''timeout_before_send'',
       ''timeout_after_send'', ''network'', ''upstream_4xx'', ''upstream_5xx'', ''cancelled'', ''unknown''}" for c
    by (cases c) simp_all
  ultimately show ?thesis using scope
    by (cases "ex_mcp_scope_type e"; cases "ex_error_category e") (auto simp: execution_rules_def r scope_ok_def)
qed

lemma taken_scope_violates:
  assumes "\<forall>c \<in> set (tr_checks (execution_rules references)). snd c r"
    and "exm_id r \<notin> exm_id ` set t" and "x \<in> set t" and "same_scope r x"
  shows "violated (execution_rules references) r t = Some (Unique_Violation ''uq_tool_execution_idempotency_scope'')"
proof -
  have checks: "List.find (\<lambda>c. \<not> snd c r) (tr_checks (execution_rules references)) = None"
    using assms(1) by (simp add: find_None)
  have "\<not> list_ex (\<lambda>x. exm_id x = exm_id r) t" unfolding list_ex_iff using assms(2) by (metis imageI)
  moreover have "list_ex (\<lambda>x. exm_tenant_id x = exm_tenant_id r \<and> exm_principal_id x = exm_principal_id r \<and>
      exm_tool_version_id x = exm_tool_version_id r \<and> exm_idempotency_key r \<noteq> None \<and>
      exm_idempotency_key x = exm_idempotency_key r) t"
    using assms(3,4) by (auto simp: list_ex_iff same_scope_def)
  ultimately have "List.find (\<lambda>u. list_ex (snd u r) t) (tr_unique (execution_rules references)) =
      Some (tr_unique (execution_rules references) ! 1)"
    by (simp add: execution_rules_def)
  then show ?thesis by (simp add: violated_def checks) (simp add: execution_rules_def)
qed

text \<open>
  C9: Two transactions that both looked for an idempotency key and found it free cannot both claim it:
  whatever was read before, no insertion or update makes a table with two executions of one scope, and
  the insertion that comes second raises the race error.
\<close>

theorem idempotency_race_is_decided:
  "(scopes_unique t \<longrightarrow> sql_execution_add references u e t = Inr t' \<longrightarrow> scopes_unique t') \<and>
   (scopes_unique t \<longrightarrow> sql_execution_save references u e t = Inr t' \<longrightarrow> scopes_unique t') \<and>
   (ex_tenant_id e = u \<longrightarrow> execution_to_model e = Inr r \<longrightarrow> execution_storable e \<longrightarrow> execution_model_fits r \<longrightarrow>
      exm_id r \<notin> exm_id ` set t \<longrightarrow> x \<in> set t \<longrightarrow> same_scope r x \<longrightarrow>
      sql_execution_add references u e t = Inl (NexusError IdempotencyRaceError))"
proof (intro conjI impI)
  assume "scopes_unique t" "sql_execution_add references u e t = Inr t'"
  then show "scopes_unique t'"
    by (auto simp: sql_execution_add_def result_bind_Inr_iff flushed_unless_Inr split: if_splits
        intro: insert_keeps_scopes)
next
  assume "scopes_unique t" "sql_execution_save references u e t = Inr t'"
  then show "scopes_unique t'"
    by (auto simp: sql_execution_save_def result_bind_Inr_iff flushed_Inr split: if_splits option.splits
        intro: update_keeps_scopes)
next
  assume e: "ex_tenant_id e = u" "execution_to_model e = Inr r" "execution_storable e" "execution_model_fits r"
    and t: "exm_id r \<notin> exm_id ` set t" "x \<in> set t" "same_scope r x"
  have "insert_row (execution_rules references) r t =
      Inl (Unique_Violation ''uq_tool_execution_idempotency_scope'')"
    using taken_scope_violates [OF execution_checks [OF e(3,2)] t] e(4)
    by (simp add: insert_row_def) (simp add: execution_rules_def)
  then show "sql_execution_add references u e t = Inl (NexusError IdempotencyRaceError)"
    by (simp add: sql_execution_add_def e(1,2) flushed_unless_def)
qed

lemma sample_rivals:
  "result_bind (sql_execution_add (\<lambda>_. True) (ex_tenant_id stored_execution) stored_execution []) (\<lambda>t.
     result_bind (execution_to_model rival_execution) (\<lambda>r.
       if execution_model_fits r \<and> exm_id r \<notin> set (map exm_id t) \<and> list_ex (same_scope r) t
       then Inr () else Inl AssertionError)) = Inr ()"
  by (simp add: sample_rows sql_execution_add_def same_scope_def)

theorem idempotency_race_is_decided_witness:
  "\<exists>t. sql_execution_add (\<lambda>_. True) (ex_tenant_id stored_execution) stored_execution [] = Inr t \<and> scopes_unique t \<and>
     sql_execution_add (\<lambda>_. True) (ex_tenant_id stored_execution) rival_execution t =
       Inl (NexusError IdempotencyRaceError)"
proof -
  let ?u = "ex_tenant_id stored_execution"
  obtain t r where t: "sql_execution_add (\<lambda>_. True) ?u stored_execution [] = Inr t"
    and r: "execution_to_model rival_execution = Inr r" "execution_model_fits r" "exm_id r \<notin> exm_id ` set t"
    and "list_ex (same_scope r) t"
    using sample_rivals by (auto simp: result_bind_Inr_iff split: if_splits)
  then obtain x where x: "x \<in> set t" "same_scope r x" by (auto simp: list_ex_iff)
  have "scopes_unique []" by (simp add: scopes_unique_def)
  then have "scopes_unique t" using idempotency_race_is_decided [of "[]" "\<lambda>_. True" ?u stored_execution t] t by blast
  moreover have "ex_tenant_id rival_execution = ?u" by (simp add: rival_execution_def)
  then have "sql_execution_add (\<lambda>_. True) ?u rival_execution t = Inl (NexusError IdempotencyRaceError)"
    using idempotency_race_is_decided [of t "\<lambda>_. True" ?u rival_execution _ r x] r x sample_executions(3) by blast
  ultimately show ?thesis using t by blast
qed

end
