(* ===== verification/Sql_Catalog_Correct.thy ===== *)
theory Sql_Catalog_Correct
  imports Sql_Catalog Sql_Ledger_Correct
begin

text \<open>
  What the joins of the catalog promise when the tables keep their declared constraints, and that the
  digests publishing compares are the same on what the database gives back.
\<close>

section \<open>Enumerations\<close>

lemma enum_of_total: "s \<in> value_of ` set members \<Longrightarrow> \<exists>m. enum_of class_name value_of members s = Inr m"
  by (auto simp: enum_of_def find_None split: option.splits)

lemma side_effect_of_total:
  "s \<in> {''read_only'', ''idempotent_write'', ''non_idempotent_write'', ''unknown''} \<Longrightarrow> \<exists>e. tool_side_effect_of s = Inr e"
  unfolding tool_side_effect_of_def by (rule enum_of_total) auto

lemma visibility_of_total:
  "s \<in> {''public'', ''authenticated'', ''restricted''} \<Longrightarrow> \<exists>e. tool_visibility_of s = Inr e"
  unfolding tool_visibility_of_def by (rule enum_of_total) auto

lemma binding_type_of_total: "s \<in> {''http'', ''remote_mcp''} \<Longrightarrow> \<exists>e. tool_binding_type_of s = Inr e"
  unfolding tool_binding_type_of_def by (rule enum_of_total) auto

lemma tool_status_of_value [simp]: "tool_status_of (tool_status_value s) = Inr s"
  by (cases s) (simp_all add: tool_status_of_def enum_of_def)

lemma version_status_of_value [simp]: "tool_version_status_of (tool_version_status_value s) = Inr s"
  by (cases s) (simp_all add: tool_version_status_of_def enum_of_def)

lemma visibility_of_value [simp]: "tool_visibility_of (tool_visibility_value s) = Inr s"
  by (cases s) (simp_all add: tool_visibility_of_def enum_of_def)

lemma binding_status_of_value [simp]: "tool_binding_status_of (tool_binding_status_value s) = Inr s"
  by (cases s) (simp_all add: tool_binding_status_of_def enum_of_def)

lemma binding_type_of_value [simp]: "tool_binding_type_of (binding_type_value s) = Inr s"
  by (cases s) (simp_all add: tool_binding_type_of_def enum_of_def)

lemma service_type_of_value [simp]: "upstream_service_type_of (upstream_service_type_value s) = Inr s"
  by (cases s) (simp_all add: upstream_service_type_of_def enum_of_def)

lemma upstream_status_of_value [simp]: "upstream_status_of (upstream_status_value s) = Inr s"
  by (cases s) (simp_all add: upstream_status_of_def enum_of_def)

section \<open>Joins with at most one row\<close>

definition at_most_one :: "'a list \<Rightarrow> bool" where
  "at_most_one xs \<longleftrightarrow> length xs \<le> 1"

lemma at_most_one_concat:
  assumes "\<And>x. x \<in> set xs \<Longrightarrow> at_most_one (f x)" and "sorted_wrt (\<lambda>x y. f x = [] \<or> f y = []) xs"
  shows "at_most_one (concat (map f xs))"
  using assms
proof (induction xs)
  case (Cons x xs)
  then show ?case using Cons.prems(1) [of x] by (cases "f x") (auto simp: at_most_one_def)
qed (simp add: at_most_one_def)

lemma at_most_one_join:
  assumes "table_ok rules t" and "\<And>x. x \<in> set t \<Longrightarrow> at_most_one (f x)"
    and "\<And>x y. f x \<noteq> [] \<Longrightarrow> f y \<noteq> [] \<Longrightarrow> conflict rules x y"
  shows "at_most_one (concat (map f t))"
proof (rule at_most_one_concat [OF assms(2)])
  show "sorted_wrt (\<lambda>x y. f x = [] \<or> f y = []) t"
    by (rule sorted_wrt_mono_rel [of _ "\<lambda>r x. \<not> conflict rules r x"])
      (use assms(1,3) in \<open>auto simp: table_ok_def\<close>)
qed simp

lemma at_most_one_simps [simp]: "at_most_one []" "at_most_one [x]"
  by (simp_all add: at_most_one_def)

lemma one_or_none_single: "at_most_one xs \<Longrightarrow> one_or_none xs = Inr (case xs of [] \<Rightarrow> None | x # _ \<Rightarrow> Some x)"
  by (auto simp: at_most_one_def one_or_none_def split: list.splits)

lemma at_most_one_resolution:
  assumes "table_ok (tool_rules rt) tools" and "table_ok (version_rules jv rv) versions"
    and "table_ok (binding_rules jb rb) bindings" and "table_ok (upstream_rules ju ru) upstreams"
  shows "at_most_one (resolve_rows u name tools versions bindings upstreams)"
  unfolding resolve_rows_def
  by (rule at_most_one_join [OF assms(1)], rule at_most_one_join [OF assms(2)], simp only: if_distrib [of at_most_one],
      simp, intro impI, rule at_most_one_join [OF assms(3)], simp, intro impI, rule at_most_one_join [OF assms(4)])
    (auto simp: conflict_def tool_rules_def version_rules_def binding_rules_def upstream_rules_def split: if_splits)

section \<open>Resolving a call\<close>

text \<open>An active tool, its published version, that version's published binding and the active upstream of it.\<close>

definition live_chain ::
  "string \<Rightarrow> string \<Rightarrow> tool_model list \<Rightarrow> version_model list \<Rightarrow> binding_model list \<Rightarrow> upstream_model list \<Rightarrow>
   tool_model \<Rightarrow> version_model \<Rightarrow> binding_model \<Rightarrow> upstream_model \<Rightarrow> bool" where
  "live_chain tenant name tools versions bindings upstreams t v b u \<longleftrightarrow>
     t \<in> set tools \<and> v \<in> set versions \<and> b \<in> set bindings \<and> u \<in> set upstreams \<and>
     tvm_tool_id v = tlm_id t \<and> tbm_tool_version_id b = tvm_id v \<and> usm_id u = tbm_upstream_service_id b \<and>
     tlm_tenant_id t = tenant \<and> tvm_tenant_id v = tenant \<and> tbm_tenant_id b = tenant \<and> usm_tenant_id u = tenant \<and>
     tlm_canonical_name t = name \<and> tlm_status t = ''active'' \<and> tvm_status v = ''published'' \<and>
     tbm_status b = ''published'' \<and> usm_status u = ''active''"

lemma resolve_rows_set:
  "(t, v, b, u) \<in> set (resolve_rows tenant name tools versions bindings upstreams) \<longleftrightarrow>
     live_chain tenant name tools versions bindings upstreams t v b u"
  by (auto simp: resolve_rows_def live_chain_def)

lemma resolved_tool_from_chain:
  assumes "table_ok (version_rules jv rv) versions" and "table_ok (binding_rules jb rb) bindings"
    and "live_chain tenant name tools versions bindings upstreams t v b u"
  shows "\<exists>r. resolved_tool_from_row tenant (t, v, b, u) = Inr r"
proof -
  have v: "v \<in> set versions" and b: "b \<in> set bindings" using assms(3) by (simp_all add: live_chain_def)
  have "\<exists>e. tool_side_effect_of (tvm_side_effect v) = Inr e"
    by (rule side_effect_of_total) (use assms(1) v in \<open>simp add: table_ok_def version_rules_def\<close>)
  moreover have "\<exists>e. tool_visibility_of (tvm_visibility v) = Inr e"
    by (rule visibility_of_total) (use assms(1) v in \<open>simp add: table_ok_def version_rules_def\<close>)
  moreover have "\<exists>e. tool_binding_type_of (tbm_binding_type b) = Inr e"
    by (rule binding_type_of_total) (use assms(2) b in \<open>simp add: table_ok_def binding_rules_def\<close>)
  ultimately show ?thesis by (auto simp: resolved_tool_from_row_def)
qed

lemma resolved_tool_fields:
  "resolved_tool_from_row tenant (t, v, b, u) = Inr r \<Longrightarrow>
   rt_tenant_id r = tenant \<and> rt_tool_id r = tlm_id t \<and> rt_tool_version_id r = tvm_id v \<and>
   rt_tool_binding_id r = tbm_id b \<and> rt_upstream_service_id r = usm_id u \<and> rt_canonical_name r = tlm_canonical_name t \<and>
   rt_input_schema r = tvm_input_schema v \<and> rt_binding_config r = tbm_binding_config b \<and>
   rt_upstream_endpoint r = usm_endpoint u \<and> side_effect_value (rt_side_effect r) = tvm_side_effect v"
  by (auto simp: resolved_tool_from_row_def tool_side_effect_of_def result_bind_Inr_iff dest: enum_of_Inr)

text \<open>
  C19: On tables that keep their declared constraints, resolving a tool's name never finds two
  candidates and never fails: it returns the tool exactly if there is an active tool of that name with
  a published version, a published binding of that version and an active upstream of that binding, all
  of the tenant, and what it returns is taken from them.
\<close>

theorem resolution_is_unambiguous:
  assumes "table_ok (tool_rules rt) tools" and "table_ok (version_rules jv rv) versions"
    and "table_ok (binding_rules jb rb) bindings" and "table_ok (upstream_rules ju ru) upstreams"
    and "canonical_id tenant"
  shows "\<exists>found. sql_resolve tenant name tools versions bindings upstreams = Inr found \<and>
    (case found of
       None \<Rightarrow> \<forall>t v b u. \<not> live_chain tenant name tools versions bindings upstreams t v b u
     | Some r \<Rightarrow> \<exists>t v b u. live_chain tenant name tools versions bindings upstreams t v b u \<and>
         rt_tenant_id r = tenant \<and> rt_tool_id r = tlm_id t \<and> rt_tool_version_id r = tvm_id v \<and>
         rt_tool_binding_id r = tbm_id b \<and> rt_upstream_service_id r = usm_id u \<and>
         rt_canonical_name r = name \<and> rt_input_schema r = tvm_input_schema v \<and>
         rt_binding_config r = tbm_binding_config b \<and> rt_upstream_endpoint r = usm_endpoint u \<and>
         side_effect_value (rt_side_effect r) = tvm_side_effect v)"
proof (cases "resolve_rows tenant name tools versions bindings upstreams")
  case Nil
  then have "\<forall>t v b u. \<not> live_chain tenant name tools versions bindings upstreams t v b u"
    using resolve_rows_set [of _ _ _ _ tenant name tools versions bindings upstreams] by simp
  then show ?thesis using assms(5) Nil by (simp add: sql_resolve_def canonical_as_uuid one_or_none_def)
next
  case (Cons row rows)
  obtain t v b u where row: "row = (t, v, b, u)" by (cases row)
  then have chain: "live_chain tenant name tools versions bindings upstreams t v b u"
    using Cons resolve_rows_set [of t v b u tenant name tools versions bindings upstreams] by simp
  obtain r where r: "resolved_tool_from_row tenant (t, v, b, u) = Inr r"
    using resolved_tool_from_chain [OF assms(2,3) chain] by blast
  have "sql_resolve tenant name tools versions bindings upstreams = Inr (Some r)"
    using one_or_none_single [OF at_most_one_resolution [OF assms(1-4), of tenant name]] r assms(5) Cons row
    by (simp add: sql_resolve_def canonical_as_uuid)
  moreover have "tlm_canonical_name t = name" using chain by (simp add: live_chain_def)
  ultimately show ?thesis using chain resolved_tool_fields [OF r] by (intro exI [of _ "Some r"]) auto
qed

definition published_tool_row :: tool_model where
  "published_tool_row =
     \<lparr>tlm_id = sample_uuid (CHR ''1''), tlm_tenant_id = sample_uuid (CHR ''2''), tlm_namespace = ''crm'',
      tlm_canonical_name = ''crm.read'', tlm_owner = ''team'', tlm_status = ''active''\<rparr>"

definition published_version_row :: version_model where
  "published_version_row =
     \<lparr>tvm_id = sample_uuid (CHR ''3''), tvm_tenant_id = sample_uuid (CHR ''2''), tvm_tool_id = sample_uuid (CHR ''1''),
      tvm_version = 1, tvm_display_name = ''Read'', tvm_description = ''Reads'', tvm_input_schema = JObj [],
      tvm_output_schema = None, tvm_schema_digest = ''d'', tvm_tags = [], tvm_search_name = ''crm crm.read Read'',
      tvm_search_tags = [], tvm_search_description = ''Reads'', tvm_side_effect = ''read_only'',
      tvm_visibility = ''public'', tvm_status = ''published'', tvm_created_by = ''root'', tvm_created_at = Aware 1,
      tvm_reviewed_at = None, tvm_published_at = Some (Aware 2), tvm_retired_at = None\<rparr>"

definition published_binding_row :: binding_model where
  "published_binding_row =
     \<lparr>tbm_id = sample_uuid (CHR ''4''), tbm_tenant_id = sample_uuid (CHR ''2''),
      tbm_tool_version_id = sample_uuid (CHR ''3''), tbm_upstream_service_id = sample_uuid (CHR ''5''),
      tbm_imported_operation_id = None, tbm_binding_type = ''http'', tbm_binding_config = JObj [],
      tbm_binding_digest = ''d'', tbm_status = ''published'', tbm_created_at = Aware 1, tbm_published_at = Some (Aware 2)\<rparr>"

definition active_upstream_row :: upstream_model where
  "active_upstream_row =
     \<lparr>usm_id = sample_uuid (CHR ''5''), usm_tenant_id = sample_uuid (CHR ''2''), usm_namespace = ''crm'',
      usm_name = ''crm'', usm_description = None, usm_owner = ''team'', usm_service_type = ''http'',
      usm_transport_type = ''http'', usm_endpoint = ''https://crm.example'', usm_protocol_min = None,
      usm_protocol_max = None, usm_auth_scheme = None, usm_config = JObj [], usm_status = ''active''\<rparr>"

lemma sample_chain:
  "live_chain (sample_uuid (CHR ''2'')) ''crm.read'' [published_tool_row] [published_version_row]
     [published_binding_row] [active_upstream_row] published_tool_row published_version_row published_binding_row
     active_upstream_row"
  by (simp add: live_chain_def published_tool_row_def published_version_row_def published_binding_row_def
      active_upstream_row_def)

lemma sample_tables:
  "table_ok (tool_rules (\<lambda>_. True)) [published_tool_row]"
  "table_ok (version_rules Some (\<lambda>_. True)) [published_version_row]"
  "table_ok (binding_rules Some (\<lambda>_. True)) [published_binding_row]"
  "table_ok (upstream_rules Some (\<lambda>_. True)) [active_upstream_row]"
  by (simp_all add: table_ok_def tool_rules_def version_rules_def binding_rules_def upstream_rules_def
      published_tool_row_def published_version_row_def published_binding_row_def active_upstream_row_def)

theorem resolution_is_unambiguous_witness:
  "\<exists>r. sql_resolve (sample_uuid (CHR ''2'')) ''crm.read'' [published_tool_row] [published_version_row]
     [published_binding_row] [active_upstream_row] = Inr (Some r) \<and> rt_canonical_name r = ''crm.read'' \<and>
     rt_tool_id r = sample_uuid (CHR ''1'')"
proof -
  have "\<exists>r t v b u. sql_resolve (sample_uuid (CHR ''2'')) ''crm.read'' [published_tool_row]
      [published_version_row] [published_binding_row] [active_upstream_row] = Inr (Some r) \<and>
      live_chain (sample_uuid (CHR ''2'')) ''crm.read'' [published_tool_row]
      [published_version_row] [published_binding_row] [active_upstream_row] t v b u \<and>
      rt_tool_id r = tlm_id t \<and> rt_canonical_name r = ''crm.read''"
    using resolution_is_unambiguous [OF sample_tables sample_uuids_canonical(2), of "''crm.read''"] sample_chain
    by (elim exE conjE) (simp split: option.splits, blast)
  then show ?thesis by (auto simp: live_chain_def published_tool_row_def)
qed

section \<open>Digests\<close>

text \<open>What a \<open>JSONB\<close> column keeps of a document: all of it but the order of keys.\<close>

definition keeps_documents :: "(json \<Rightarrow> json option) \<Rightarrow> bool" where
  "keeps_documents jsonb \<longleftrightarrow> (\<forall>j k. jsonb j = Some k \<longrightarrow> json_norm k = json_norm j)"

lemma json_norm_idem: "json_norm (json_norm j) = json_norm j"
proof (induction j)
  case (JObj kvs)
  have "map (map_prod id json_norm) (map (map_prod id json_norm) kvs) = map (map_prod id json_norm) kvs"
    using JObj by (auto simp: map_prod_def)
  then show ?case by (simp only: json_norm.simps map_sort_key_map_prod sort_key_idem)
qed simp_all

lemma json_dumps_kept: "keeps_documents jsonb \<Longrightarrow> jsonb j = Some k \<Longrightarrow> json_dumps k = json_dumps j"
  unfolding keeps_documents_def by (metis json_dumps_norm)

lemma schema_digest_kept:
  "json_dumps i = json_dumps j \<Longrightarrow> rel_option (\<lambda>x y. json_dumps x = json_dumps y) ou ov \<Longrightarrow>
   calculate_schema_digest sha i ou = calculate_schema_digest sha j ov"
  by (cases ou; cases ov) (auto simp: calculate_schema_digest_def canonical_json_digest_def map_prod_def)

lemma version_stored:
  assumes "tr_store (version_rules jsonb references) r = Some s"
  shows "jsonb (tvm_input_schema r) = Some (tvm_input_schema s) \<and>
    rel_option (\<lambda>x y. jsonb x = Some y) (tvm_output_schema r) (tvm_output_schema s) \<and>
    tvm_schema_digest s = tvm_schema_digest r"
  using assms by (auto simp: version_rules_def split: if_splits option.splits)

lemma version_row_fields:
  "tool_version_to_model namespace name v = Inr r \<Longrightarrow>
   tvm_input_schema r = ve_input_schema v \<and> tvm_output_schema r = ve_output_schema v \<and>
   tvm_schema_digest r = ve_schema_digest v"
  by (auto simp: tool_version_to_model_def result_bind_Inr_iff split: prod.splits)

lemma version_read_fields:
  "tool_version_from_model s = Inr w \<Longrightarrow>
   ve_input_schema w = tvm_input_schema s \<and> ve_output_schema w = tvm_output_schema s \<and>
   ve_schema_digest w = tvm_schema_digest s"
  by (auto simp: tool_version_from_model_def result_bind_Inr_iff version_post_init_Inr)

lemma binding_fields:
  "tool_binding_to_model b = Inr r \<Longrightarrow> tr_store (binding_rules jsonb references) r = Some s \<Longrightarrow>
   tool_binding_from_model s = Inr c \<Longrightarrow>
   bi_binding_type c = bi_binding_type b \<and> bi_binding_digest c = bi_binding_digest b \<and>
   as_uuid ''upstream service id'' (bi_upstream_service_id b) = Inr (bi_upstream_service_id c) \<and>
   jsonb (bi_binding_config b) = Some (bi_binding_config c)"
  by (auto simp: tool_binding_to_model_def tool_binding_from_model_def binding_rules_def result_bind_Inr_iff
      binding_post_init_Inr split: if_splits)


text \<open>A version with a schema of two keys, stored with its keys sorted.\<close>

definition stored_version :: tool_version where
  "stored_version =
     \<lparr>ve_id = sample_uuid (CHR ''3''), ve_tenant_id = sample_uuid (CHR ''2''), ve_tool_id = sample_uuid (CHR ''1''),
      ve_version = 1, ve_display_name = ''Read'', ve_description = ''Reads'',
      ve_input_schema = JObj [(''type'', JStr ''object''), (''required'', JList [])], ve_output_schema = Some (JObj []),
      ve_schema_digest = ''d'', ve_tags = [''crm''], ve_side_effect = READ_ONLY, ve_visibility = VIS_PUBLIC,
      ve_status = VERSION_DRAFT, ve_created_by = ''root'', ve_created_at = Aware 1, ve_reviewed_at = None,
      ve_published_at = None, ve_retired_at = None\<rparr>"

definition stored_again :: "(json \<Rightarrow> json option) \<Rightarrow> tool_version result" where
  "stored_again jsonb =
     result_bind (tool_version_to_model ''crm'' ''crm.read'' stored_version) (\<lambda>r.
       case tr_store (version_rules jsonb (\<lambda>_. True)) r of
         None \<Rightarrow> Inl AssertionError
       | Some s \<Rightarrow> tool_version_from_model s)"

lemma stored_again_value:
  "stored_again (\<lambda>j. Some (json_norm j)) =
     Inr (stored_version\<lparr>ve_input_schema := JObj [(''required'', JList []), (''type'', JStr ''object'')]\<rparr>)"
  by code_simp


end
