(* ===== verification/Sql_Imports.thy ===== *)
theory Sql_Imports
  imports Sql_Catalog_Correct OpenApi_Store
begin

text \<open>
  The SQLAlchemy adapter of the OpenAPI import (\<open>openapi_import/adapters/sqlalchemy_mapping.py\<close>,
  \<open>sqlalchemy_models.py\<close>, \<open>sqlalchemy_repository.py\<close>): import jobs and imported operations as rows. The
  allow list is a \<open>JSONB\<close> array of texts, kept here as the list it is.

  The SQL repository of the OpenAPI import against the in-memory one. A \<open>JSONB\<close> column may give a
  document back with its keys in another order, so the two agree on what \<open>job_view\<close> and
  \<open>operation_view\<close> show: everything, with documents in normal form.
\<close>

section \<open>Enumerations in columns\<close>

fun openapi_source_type_value :: "openapi_source_type \<Rightarrow> string" where
  "openapi_source_type_value SOURCE_UPLOAD = ''upload''"
| "openapi_source_type_value SOURCE_LOCAL_FIXTURE = ''local_fixture''"
| "openapi_source_type_value SOURCE_URL = ''url''"

definition openapi_source_type_of :: "string \<Rightarrow> openapi_source_type result" where
  "openapi_source_type_of =
     enum_of ''OpenApiSourceType'' openapi_source_type_value
       [SOURCE_UPLOAD, SOURCE_LOCAL_FIXTURE, SOURCE_URL]"

fun import_job_status_value :: "import_job_status \<Rightarrow> string" where
  "import_job_status_value JOB_PENDING = ''pending''"
| "import_job_status_value JOB_VALIDATING = ''validating''"
| "import_job_status_value JOB_PARSING = ''parsing''"
| "import_job_status_value JOB_COMPLETED = ''completed''"
| "import_job_status_value JOB_FAILED = ''failed''"

definition import_job_status_of :: "string \<Rightarrow> import_job_status result" where
  "import_job_status_of =
     enum_of ''ImportJobStatus'' import_job_status_value
       [JOB_PENDING, JOB_VALIDATING, JOB_PARSING, JOB_COMPLETED, JOB_FAILED]"

fun operation_conflict_status_value :: "operation_conflict_status \<Rightarrow> string" where
  "operation_conflict_status_value CONFLICT_NONE = ''none''"
| "operation_conflict_status_value NAME_COLLISION = ''name_collision''"
| "operation_conflict_status_value MISSING_OPERATION_ID = ''missing_operation_id''"
| "operation_conflict_status_value CONFLICT_UNSUPPORTED = ''unsupported''"

definition operation_conflict_status_of :: "string \<Rightarrow> operation_conflict_status result" where
  "operation_conflict_status_of =
     enum_of ''OperationConflictStatus'' operation_conflict_status_value
       [CONFLICT_NONE, NAME_COLLISION, MISSING_OPERATION_ID, CONFLICT_UNSUPPORTED]"

fun operation_review_status_value :: "operation_review_status \<Rightarrow> string" where
  "operation_review_status_value REVIEW_PENDING = ''pending''"
| "operation_review_status_value REVIEW_ACCEPTED = ''accepted''"
| "operation_review_status_value REVIEW_REJECTED = ''rejected''"
| "operation_review_status_value REVIEW_NEEDS_CHANGE = ''needs_change''"

definition operation_review_status_of :: "string \<Rightarrow> operation_review_status result" where
  "operation_review_status_of =
     enum_of ''OperationReviewStatus'' operation_review_status_value
       [REVIEW_PENDING, REVIEW_ACCEPTED, REVIEW_REJECTED, REVIEW_NEEDS_CHANGE]"

section \<open>Import jobs\<close>

record import_job_model =
  oij_id :: string
  oij_tenant_id :: string
  oij_upstream_service_id :: string
  oij_source_type :: string
  oij_source_ref :: string
  oij_source_digest :: string
  oij_openapi_version :: "string option"
  oij_operation_allowlist :: "string list"
  oij_allowlist_snapshot :: json
  oij_status :: string
  oij_error_summary :: "string option"
  oij_created_by :: string
  oij_created_at :: datetime
  oij_started_at :: "datetime option"
  oij_completed_at :: "datetime option"

definition import_job_to_model :: "import_job \<Rightarrow> import_job_model result" where
  "import_job_to_model j =
     result_bind (as_uuid ''import job id'' (ij_id j)) (\<lambda>id_uuid.
     result_bind (as_uuid ''tenant id'' (ij_tenant_id j)) (\<lambda>tenant_id_uuid.
     result_bind (as_uuid ''upstream service id'' (ij_upstream_service_id j)) (\<lambda>upstream_service_id_uuid.
     Inr
      \<lparr>oij_id = id_uuid, oij_tenant_id = tenant_id_uuid, oij_upstream_service_id = upstream_service_id_uuid,
       oij_source_type = openapi_source_type_value (ij_source_type j), oij_source_ref = ij_source_ref j,
       oij_source_digest = ij_source_digest j, oij_openapi_version = ij_openapi_version j,
       oij_operation_allowlist = ij_operation_allowlist j, oij_allowlist_snapshot = ij_allowlist_snapshot j,
       oij_status = import_job_status_value (ij_status j), oij_error_summary = ij_error_summary j,
       oij_created_by = ij_created_by j, oij_created_at = ij_created_at j, oij_started_at = ij_started_at j,
       oij_completed_at = ij_completed_at j\<rparr>)))"

definition import_job_from_model :: "import_job_model \<Rightarrow> import_job result" where
  "import_job_from_model r =
     result_bind (openapi_source_type_of (oij_source_type r)) (\<lambda>source_type.
     result_bind (import_job_status_of (oij_status r)) (\<lambda>status.
     Inr
      \<lparr>ij_id = oij_id r, ij_tenant_id = oij_tenant_id r, ij_upstream_service_id = oij_upstream_service_id r,
       ij_source_type = source_type, ij_source_ref = oij_source_ref r,
       ij_source_digest = oij_source_digest r, ij_openapi_version = oij_openapi_version r,
       ij_operation_allowlist = oij_operation_allowlist r, ij_allowlist_snapshot = oij_allowlist_snapshot r,
       ij_status = status, ij_error_summary = oij_error_summary r, ij_created_by = oij_created_by r,
       ij_created_at = oij_created_at r, ij_started_at = oij_started_at r,
       ij_completed_at = oij_completed_at r\<rparr>))"

definition update_import_job_model :: "import_job_model \<Rightarrow> import_job \<Rightarrow> import_job_model" where
  "update_import_job_model r j =
     r\<lparr>oij_source_ref := ij_source_ref j, oij_source_digest := ij_source_digest j,
       oij_openapi_version := ij_openapi_version j, oij_operation_allowlist := ij_operation_allowlist j,
       oij_allowlist_snapshot := ij_allowlist_snapshot j,
       oij_status := import_job_status_value (ij_status j), oij_error_summary := ij_error_summary j,
       oij_started_at := ij_started_at j, oij_completed_at := ij_completed_at j\<rparr>"

definition import_job_model_fits :: "import_job_model \<Rightarrow> bool" where
  "import_job_model_fits r \<longleftrightarrow>
     fits_string 32 (oij_source_type r) \<and> fits_string 2048 (oij_source_ref r) \<and>
     fits_string 64 (oij_source_digest r) \<and>
     fits_optional (fits_string 16) (oij_openapi_version r) \<and> list_all fits_text (oij_operation_allowlist r) \<and> fits_string 16 (oij_status r) \<and>
     fits_optional fits_text (oij_error_summary r) \<and> fits_string 128 (oij_created_by r) \<and>
     is_aware (oij_created_at r) \<and> fits_optional is_aware (oij_started_at r) \<and>
     fits_optional is_aware (oij_completed_at r)"

definition import_job_rules ::
  "(json \<Rightarrow> json option) \<Rightarrow> (import_job_model \<Rightarrow> bool) \<Rightarrow> import_job_model table_rules" where
  "import_job_rules jsonb references =
     \<lparr>tr_store = (\<lambda>r. if import_job_model_fits r
        then map_option (\<lambda>j. r\<lparr>oij_allowlist_snapshot := j\<rparr>) (jsonb (oij_allowlist_snapshot r)) else None),
      tr_checks =
        [(''ck_openapi_import_job_source_type'', \<lambda>r. oij_source_type r \<in> {''upload'', ''local_fixture'', ''url''}),
         (''ck_openapi_import_job_status'', \<lambda>r. oij_status r \<in>
           {''pending'', ''validating'', ''parsing'', ''completed'', ''failed''})],
      tr_unique = [(''pk_openapi_import_job'', \<lambda>r x. oij_id x = oij_id r)],
      tr_references = references\<rparr>"

definition import_job_statement :: "string \<Rightarrow> string \<Rightarrow> (import_job_model \<Rightarrow> bool) result" where
  "import_job_statement tenant_id import_job_id =
     scoped_where oij_tenant_id oij_id ''import job id'' tenant_id import_job_id"

definition sql_job_add ::
  "(json \<Rightarrow> json option) \<Rightarrow> (import_job_model \<Rightarrow> bool) \<Rightarrow> string \<Rightarrow> import_job \<Rightarrow> import_job_model list \<Rightarrow>
   import_job_model list result" where
  "sql_job_add jsonb references tenant_id j t =
     (if tenant_id \<noteq> ij_tenant_id j then Inl tenant_mismatch
      else result_bind (import_job_to_model j) (\<lambda>r. flushed (insert_row (import_job_rules jsonb references) r t)))"

definition sql_job_save ::
  "(json \<Rightarrow> json option) \<Rightarrow> (import_job_model \<Rightarrow> bool) \<Rightarrow> string \<Rightarrow> import_job \<Rightarrow> import_job_model list \<Rightarrow>
   import_job_model list result" where
  "sql_job_save jsonb references tenant_id j t =
     (if tenant_id \<noteq> ij_tenant_id j then Inl tenant_mismatch
      else result_bind (import_job_statement tenant_id (ij_id j)) (\<lambda>P.
        case select_first P t of
          None \<Rightarrow> Inl (ValueError ''OpenAPI import job does not exist in tenant'')
        | Some r \<Rightarrow> flushed (update_row oij_id (import_job_rules jsonb references) (update_import_job_model r j) t)))"

definition sql_job_get :: "string \<Rightarrow> string \<Rightarrow> import_job_model list \<Rightarrow> import_job option result" where
  "sql_job_get tenant_id import_job_id t =
     result_bind (import_job_statement tenant_id import_job_id) (\<lambda>P.
       optional import_job_from_model (select_first P t))"

section \<open>Imported operations\<close>

record operation_model =
  iom_id :: string
  iom_tenant_id :: string
  iom_import_job_id :: string
  iom_upstream_service_id :: string
  iom_operation_key :: string
  iom_operation_id :: "string option"
  iom_method :: string
  iom_path :: string
  iom_normalized_operation :: json
  iom_generated_tool_name :: "string option"
  iom_conflict_status :: string
  iom_review_status :: string
  iom_review_notes :: "string option"
  iom_draft_tool_version_id :: "string option"
  iom_draft_tool_binding_id :: "string option"

definition imported_operation_to_model :: "imported_operation \<Rightarrow> operation_model result" where
  "imported_operation_to_model o' =
     result_bind (as_uuid ''imported operation id'' (io_id o')) (\<lambda>id_uuid.
     result_bind (as_uuid ''tenant id'' (io_tenant_id o')) (\<lambda>tenant_id_uuid.
     result_bind (as_uuid ''import job id'' (io_import_job_id o')) (\<lambda>import_job_id_uuid.
     result_bind (as_uuid ''upstream service id'' (io_upstream_service_id o')) (\<lambda>upstream_service_id_uuid.
     result_bind (optional (as_uuid ''draft tool version id'') (io_draft_tool_version_id o')) (\<lambda>draft_tool_version_id_uuid.
     result_bind (optional (as_uuid ''draft tool binding id'') (io_draft_tool_binding_id o')) (\<lambda>draft_tool_binding_id_uuid.
     Inr
      \<lparr>iom_id = id_uuid, iom_tenant_id = tenant_id_uuid, iom_import_job_id = import_job_id_uuid,
       iom_upstream_service_id = upstream_service_id_uuid, iom_operation_key = io_operation_key o',
       iom_operation_id = io_operation_id o', iom_method = io_method o', iom_path = io_path o',
       iom_normalized_operation = io_normalized_operation o',
       iom_generated_tool_name = io_generated_tool_name o',
       iom_conflict_status = operation_conflict_status_value (io_conflict_status o'),
       iom_review_status = operation_review_status_value (io_review_status o'),
       iom_review_notes = io_review_notes o', iom_draft_tool_version_id = draft_tool_version_id_uuid,
       iom_draft_tool_binding_id = draft_tool_binding_id_uuid\<rparr>))))))"

definition imported_operation_from_model :: "operation_model \<Rightarrow> imported_operation result" where
  "imported_operation_from_model r =
     result_bind (operation_conflict_status_of (iom_conflict_status r)) (\<lambda>conflict_status.
     result_bind (operation_review_status_of (iom_review_status r)) (\<lambda>review_status.
     Inr
      \<lparr>io_id = iom_id r, io_tenant_id = iom_tenant_id r, io_import_job_id = iom_import_job_id r,
       io_upstream_service_id = iom_upstream_service_id r, io_operation_key = iom_operation_key r,
       io_operation_id = iom_operation_id r, io_method = iom_method r, io_path = iom_path r,
       io_normalized_operation = iom_normalized_operation r,
       io_generated_tool_name = iom_generated_tool_name r, io_conflict_status = conflict_status,
       io_review_status = review_status, io_review_notes = iom_review_notes r,
       io_draft_tool_version_id = iom_draft_tool_version_id r,
       io_draft_tool_binding_id = iom_draft_tool_binding_id r\<rparr>))"

definition update_imported_operation_model :: "operation_model \<Rightarrow> imported_operation \<Rightarrow> operation_model result" where
  "update_imported_operation_model r o' =
     result_bind (optional (as_uuid ''draft tool version id'') (io_draft_tool_version_id o')) (\<lambda>draft_tool_version_id_uuid.
     result_bind (optional (as_uuid ''draft tool binding id'') (io_draft_tool_binding_id o')) (\<lambda>draft_tool_binding_id_uuid.
     Inr (r\<lparr>iom_operation_id := io_operation_id o', iom_normalized_operation := io_normalized_operation o',
       iom_generated_tool_name := io_generated_tool_name o',
       iom_conflict_status := operation_conflict_status_value (io_conflict_status o'),
       iom_review_status := operation_review_status_value (io_review_status o'),
       iom_review_notes := io_review_notes o', iom_draft_tool_version_id := draft_tool_version_id_uuid,
       iom_draft_tool_binding_id := draft_tool_binding_id_uuid\<rparr>)))"

definition operation_model_fits :: "operation_model \<Rightarrow> bool" where
  "operation_model_fits r \<longleftrightarrow>
     fits_string 512 (iom_operation_key r) \<and>
     fits_optional (fits_string 256) (iom_operation_id r) \<and> fits_string 16 (iom_method r) \<and>
     fits_string 1024 (iom_path r) \<and> fits_optional (fits_string 256) (iom_generated_tool_name r) \<and>
     fits_string 32 (iom_conflict_status r) \<and> fits_string 16 (iom_review_status r) \<and>
     fits_optional fits_text (iom_review_notes r)"

definition operation_rules ::
  "(json \<Rightarrow> json option) \<Rightarrow> (operation_model \<Rightarrow> bool) \<Rightarrow> operation_model table_rules" where
  "operation_rules jsonb references =
     \<lparr>tr_store = (\<lambda>r. if operation_model_fits r
        then map_option (\<lambda>j. r\<lparr>iom_normalized_operation := j\<rparr>) (jsonb (iom_normalized_operation r)) else None),
      tr_checks =
        [(''ck_imported_operation_review_status'', \<lambda>r. iom_review_status r \<in>
           {''pending'', ''accepted'', ''rejected'', ''needs_change''}),
         (''ck_imported_operation_conflict_status'', \<lambda>r. iom_conflict_status r \<in>
           {''none'', ''name_collision'', ''missing_operation_id'', ''unsupported''})],
      tr_unique =
        [(''pk_imported_operation'', \<lambda>r x. iom_id x = iom_id r),
         (''uq_imported_operation_job_operation'', \<lambda>r x.
           iom_import_job_id x = iom_import_job_id r \<and> iom_operation_key x = iom_operation_key r)],
      tr_references = references\<rparr>"

definition operation_statement :: "string \<Rightarrow> string \<Rightarrow> (operation_model \<Rightarrow> bool) result" where
  "operation_statement tenant_id operation_id =
     scoped_where iom_tenant_id iom_id ''imported operation id'' tenant_id operation_id"

text \<open>
  \<open>add_operations\<close> maps every operation before the flush writes the first; the rows then go in one by
  one, and the first that is refused is the error of the flush.
\<close>

fun operation_rows :: "string \<Rightarrow> imported_operation list \<Rightarrow> operation_model list result" where
  "operation_rows tenant_id [] = Inr []"
| "operation_rows tenant_id (o' # os) =
     (if tenant_id \<noteq> io_tenant_id o' then Inl tenant_mismatch
      else result_bind (imported_operation_to_model o') (\<lambda>r.
        result_bind (operation_rows tenant_id os) (\<lambda>rs. Inr (r # rs))))"

definition sql_add_operations ::
  "(json \<Rightarrow> json option) \<Rightarrow> (operation_model \<Rightarrow> bool) \<Rightarrow> string \<Rightarrow> imported_operation list \<Rightarrow> operation_model list \<Rightarrow>
   operation_model list result" where
  "sql_add_operations jsonb references tenant_id operations t =
     result_bind (operation_rows tenant_id operations) (\<lambda>rs.
       flushed (insert_rows (operation_rules jsonb references) rs t))"

definition sql_list_operations :: "string \<Rightarrow> string \<Rightarrow> operation_model list \<Rightarrow> imported_operation list result" where
  "sql_list_operations tenant_id import_job_id t =
     result_bind (as_uuid ''tenant id'' tenant_id) (\<lambda>tenant_uuid.
     result_bind (as_uuid ''import job id'' import_job_id) (\<lambda>job_uuid.
     collect_results imported_operation_from_model
       (sort_key iom_operation_key [r \<leftarrow> t. iom_tenant_id r = tenant_uuid \<and> iom_import_job_id r = job_uuid])))"

definition sql_operation_get :: "string \<Rightarrow> string \<Rightarrow> operation_model list \<Rightarrow> imported_operation option result" where
  "sql_operation_get tenant_id operation_id t =
     result_bind (operation_statement tenant_id operation_id) (\<lambda>P.
       optional imported_operation_from_model (select_first P t))"

definition sql_operation_save ::
  "(json \<Rightarrow> json option) \<Rightarrow> (operation_model \<Rightarrow> bool) \<Rightarrow> string \<Rightarrow> imported_operation \<Rightarrow> operation_model list \<Rightarrow>
   operation_model list result" where
  "sql_operation_save jsonb references tenant_id o' t =
     (if tenant_id \<noteq> io_tenant_id o' then Inl tenant_mismatch
      else result_bind (operation_statement tenant_id (io_id o')) (\<lambda>P.
        case select_first P t of
          None \<Rightarrow> Inl (ValueError ''imported operation does not exist in tenant'')
        | Some r \<Rightarrow>
            result_bind (update_imported_operation_model r o') (\<lambda>r'.
              flushed (update_row iom_id (operation_rules jsonb references) r' t))))"

section \<open>Enumerations\<close>

lemma source_type_of_value [simp]: "openapi_source_type_of (openapi_source_type_value s) = Inr s"
  by (cases s) (simp_all add: openapi_source_type_of_def enum_of_def)

lemma job_status_of_value [simp]: "import_job_status_of (import_job_status_value s) = Inr s"
  by (cases s) (simp_all add: import_job_status_of_def enum_of_def)

lemma conflict_status_of_value [simp]: "operation_conflict_status_of (operation_conflict_status_value s) = Inr s"
  by (cases s) (simp_all add: operation_conflict_status_of_def enum_of_def)

lemma review_status_of_value [simp]: "operation_review_status_of (operation_review_status_value s) = Inr s"
  by (cases s) (simp_all add: operation_review_status_of_def enum_of_def)

section \<open>Import jobs\<close>

definition job_storable :: "import_job \<Rightarrow> bool" where
  "job_storable j \<longleftrightarrow> canonical_id (ij_id j) \<and> canonical_id (ij_tenant_id j) \<and> canonical_id (ij_upstream_service_id j)"

definition job_view :: "import_job \<Rightarrow> import_job" where
  "job_view j = j\<lparr>ij_allowlist_snapshot := json_norm (ij_allowlist_snapshot j)\<rparr>"

text \<open>What \<open>update_import_job_model\<close> does not write.\<close>

definition same_job :: "import_job \<Rightarrow> import_job \<Rightarrow> bool" where
  "same_job i j \<longleftrightarrow> ij_id j = ij_id i \<and> ij_tenant_id j = ij_tenant_id i \<and>
     ij_upstream_service_id j = ij_upstream_service_id i \<and> ij_source_type j = ij_source_type i \<and>
     ij_created_by j = ij_created_by i \<and> ij_created_at j = ij_created_at i"

definition job_moves :: "import_job \<Rightarrow> import_job \<Rightarrow> bool" where
  "job_moves i j \<longleftrightarrow> (\<exists>now. job_start_validation i now = Inr j) \<or> job_start_parsing i = Inr j \<or>
     (\<exists>v now. job_complete i v now = Inr j) \<or> (\<exists>e now. job_fail i e now = Inr j)"

lemma job_moves_same: "job_moves i j \<Longrightarrow> same_job i j"
  by (auto simp: job_moves_def job_start_validation_def job_start_parsing_def job_complete_def job_fail_def
      same_job_def split: if_splits)

lemma job_inserted:
  assumes "keeps_documents jsonb" "job_storable j" "import_job_to_model j = Inr r"
    "tr_store (import_job_rules jsonb references) r = Some s"
  shows "\<exists>f. import_job_from_model s = Inr f \<and> job_view f = job_view j"
  using assms
  by (cases j) (auto simp: job_storable_def import_job_to_model_def canonical_as_uuid import_job_rules_def
      import_job_from_model_def job_view_def keeps_documents_def split: if_splits)

lemma job_changed:
  assumes "keeps_documents jsonb" "import_job_from_model r = Inr f" "job_view f = job_view i" "same_job i j"
    "tr_store (import_job_rules jsonb references) (update_import_job_model r j) = Some s"
  shows "\<exists>g. import_job_from_model s = Inr g \<and> job_view g = job_view j"
  using assms
  by (cases i; cases j) (auto simp: update_import_job_model_def import_job_rules_def import_job_from_model_def
      result_bind_Inr_iff job_view_def same_job_def keeps_documents_def split: if_splits)

lemma job_row_ids:
  "import_job_from_model r = Inr j \<Longrightarrow> oij_id r = ij_id j \<and> oij_tenant_id r = ij_tenant_id j"
  by (auto simp: import_job_from_model_def result_bind_Inr_iff)

lemma job_view_ids: "job_view i = job_view j \<Longrightarrow> ij_id i = ij_id j \<and> ij_tenant_id i = ij_tenant_id j"
  by (cases i; cases j) (simp add: job_view_def)

interpretation sql_job: sql_repository ij_id ij_tenant_id "\<lambda>j. keeps_documents jsonb \<and> job_storable j" job_view
  oij_id oij_tenant_id import_job_to_model import_job_from_model "import_job_rules jsonb references"
  same_job "\<lambda>r j. Inr (update_import_job_model r j)" for jsonb references
  by unfold_locales
    (auto simp: same_job_def import_job_rules_def
       dest: job_view_ids job_row_ids intro: job_inserted job_changed [unfolded same_job_def])

section \<open>Imported operations\<close>

definition operation_storable :: "imported_operation \<Rightarrow> bool" where
  "operation_storable p \<longleftrightarrow> canonical_id (io_id p) \<and> canonical_id (io_tenant_id p) \<and>
     canonical_id (io_import_job_id p) \<and> canonical_id (io_upstream_service_id p) \<and>
     fits_optional canonical_id (io_draft_tool_version_id p) \<and> fits_optional canonical_id (io_draft_tool_binding_id p)"

definition operation_view :: "imported_operation \<Rightarrow> imported_operation" where
  "operation_view p = p\<lparr>io_normalized_operation := json_norm (io_normalized_operation p)\<rparr>"

definition same_operation :: "imported_operation \<Rightarrow> imported_operation \<Rightarrow> bool" where
  "same_operation p q \<longleftrightarrow> io_id q = io_id p \<and> io_tenant_id q = io_tenant_id p \<and>
     io_import_job_id q = io_import_job_id p \<and> io_upstream_service_id q = io_upstream_service_id p \<and>
     io_operation_key q = io_operation_key p \<and> io_method q = io_method p \<and> io_path q = io_path p"

lemma operation_accept_same: "operation_accept p v b n = Inr q \<Longrightarrow> same_operation p q"
  by (auto simp: operation_accept_def same_operation_def split: if_splits)

lemma operation_inserted:
  assumes "keeps_documents jsonb" "operation_storable p" "imported_operation_to_model p = Inr r"
    "tr_store (operation_rules jsonb references) r = Some s"
  shows "\<exists>f. imported_operation_from_model s = Inr f \<and> operation_view f = operation_view p"
  using assms
  by (cases p) (auto simp: operation_storable_def imported_operation_to_model_def canonical_as_uuid
      canonical_optional_id operation_rules_def imported_operation_from_model_def operation_view_def
      keeps_documents_def split: if_splits)

lemma operation_changed:
  assumes "keeps_documents jsonb" "operation_storable q" "imported_operation_from_model r = Inr f"
    "operation_view f = operation_view p" "same_operation p q"
    "update_imported_operation_model r q = Inr r'" "tr_store (operation_rules jsonb references) r' = Some s"
  shows "\<exists>g. imported_operation_from_model s = Inr g \<and> operation_view g = operation_view q"
  using assms
  by (cases p; cases q) (auto simp: update_imported_operation_model_def operation_storable_def canonical_optional_id
      operation_rules_def imported_operation_from_model_def result_bind_Inr_iff operation_view_def
      same_operation_def keeps_documents_def split: if_splits)

lemma operation_row_fields:
  "imported_operation_from_model r = Inr p \<Longrightarrow> iom_id r = io_id p \<and> iom_tenant_id r = io_tenant_id p \<and>
   iom_import_job_id r = io_import_job_id p \<and> iom_operation_key r = io_operation_key p"
  by (auto simp: imported_operation_from_model_def result_bind_Inr_iff)

lemma operation_view_fields:
  "operation_view p = operation_view q \<Longrightarrow> io_id p = io_id q \<and> io_tenant_id p = io_tenant_id q \<and>
   io_import_job_id p = io_import_job_id q \<and> io_operation_key p = io_operation_key q"
  by (cases p; cases q) (simp add: operation_view_def)

interpretation sql_operation: sql_repository io_id io_tenant_id
  "\<lambda>p. keeps_documents jsonb \<and> operation_storable p" operation_view
  iom_id iom_tenant_id imported_operation_to_model imported_operation_from_model "operation_rules jsonb references"
  same_operation update_imported_operation_model for jsonb references
  by unfold_locales
    (auto simp: same_operation_def operation_rules_def dest: operation_view_fields operation_row_fields
       intro: operation_inserted operation_changed [unfolded same_operation_def])

abbreviation operations_held :: "operation_store \<Rightarrow> operation_model list \<Rightarrow> bool" where
  "operations_held d t \<equiv> table_holds imported_operation_from_model operation_view d t \<and> keyed io_id d"

text \<open>The table's constraint on job and key is the in-memory repository's set of taken keys.\<close>

lemma operation_identity_free:
  assumes "operations_held d t" "keeps_documents jsonb" "operation_storable p" "imported_operation_to_model p = Inr r"
    "insert_row (operation_rules jsonb references) r t = Inr t'"
  shows "operation_identity p \<notin> operation_identity ` set (dict_values d)"
proof
  assume "operation_identity p \<in> operation_identity ` set (dict_values d)"
  then obtain x where x: "x \<in> set (dict_values d)" "operation_identity p = operation_identity x" by blast
  then obtain y f where y: "y \<in> set t" "imported_operation_from_model y = Inr f" "operation_view f = operation_view x"
    using list_all2_value [OF assms(1) [THEN conjunct1, unfolded table_holds_def] x(1)] by blast
  obtain s where s: "tr_store (operation_rules jsonb references) r = Some s"
    "violated (operation_rules jsonb references) s t = None"
    using assms(5) by (auto simp: insert_row_Inr)
  obtain g where g: "imported_operation_from_model s = Inr g" "operation_view g = operation_view p"
    using operation_inserted [OF assms(2-4) s(1)] by blast
  have "iom_import_job_id y = iom_import_job_id s \<and> iom_operation_key y = iom_operation_key s"
    using y(2,3) g x(2) by (auto simp: operation_identity_def dest!: operation_row_fields operation_view_fields)
  moreover have "\<forall>z \<in> set t. \<not> (iom_import_job_id z = iom_import_job_id s \<and> iom_operation_key z = iom_operation_key s)"
    using s(2) by (simp add: violated_None operation_rules_def)
  ultimately show False using y(1) by blast
qed

lemma sql_add_operations_into:
  assumes "operations_held d t" "keeps_documents jsonb" "\<And>p. p \<in> set ps \<Longrightarrow> operation_storable p"
    "set taken = operation_identity ` set (dict_values d)"
    "operation_rows u ps = Inr rs" "insert_rows (operation_rules jsonb references) rs t = Inr t'"
  shows "\<exists>d'. add_operations_into u taken ps d = Inr d' \<and> operations_held d' t'"
  using assms
proof (induction ps arbitrary: d t rs taken)
  case (Cons p ps)
  obtain r rs' where u: "io_tenant_id p = u" and r: "imported_operation_to_model p = Inr r"
    and rs: "operation_rows u ps = Inr rs'" "rs = r # rs'"
    using Cons.prems(5) by (auto simp: result_bind_Inr_iff split: if_splits)
  obtain t1 where t1: "insert_row (operation_rules jsonb references) r t = Inr t1"
    and rest: "insert_rows (operation_rules jsonb references) rs' t1 = Inr t'"
    using Cons.prems(6) rs(2) by (auto split: sum.splits)
  have p: "operation_storable p" using Cons.prems(3) by simp
  have free: "dict_get d (io_id p) = None"
    using sql_operation.insert_fresh [OF _ _ _ r t1] Cons.prems(1,2) p by blast
  have held: "operations_held (dict_set (io_id p) p d) t1"
    using sql_operation.insert_holds [OF _ _ _ r t1] Cons.prems(1,2) p by auto
  have "operation_identity p \<notin> set taken"
    using operation_identity_free [OF Cons.prems(1,2) p r t1] Cons.prems(4) by simp
  moreover have "set (operation_identity p # taken) =
      operation_identity ` set (dict_values (dict_set (io_id p) p d))"
    using Cons.prems(4) free by (simp add: dict_set_fresh)
  ultimately show ?case
    using Cons.IH [OF held Cons.prems(2) _ _ rs(1) rest] Cons.prems(3) free u by simp
qed simp

text \<open>
  The SQL repository of imported operations refines the in-memory one. A job's operations are
  listed as it lists them; a batch that the database takes is one it takes, so that no batch stores two
  operations of one job under one key; and saving an accepted operation leaves what it leaves. The two
  agree up to the order of keys in the stored documents.
\<close>

theorem sql_imports_refine_memory:
  assumes "operations_held d t" and "keeps_documents jsonb" and "canonical_id u" and "canonical_id job"
  shows "(\<exists>xs. sql_list_operations u job t = Inr xs \<and>
        map operation_view xs = map operation_view (list_operations u job d)) \<and>
    (list_all operation_storable ps \<longrightarrow> sql_add_operations jsonb references u ps t = Inr t1 \<longrightarrow>
      (\<exists>d1. add_operations u ps d = Inr d1 \<and> operations_held d1 t1)) \<and>
    (operation_get u (io_id p) d = Some p \<longrightarrow> operation_accept p version binding notes = Inr q \<longrightarrow>
      operation_storable q \<longrightarrow> sql_operation_save jsonb references u q t = Inr t2 \<longrightarrow>
      (\<exists>d2. operation_save u q d = Inr d2 \<and> operations_held d2 t2))"
proof (intro conjI impI)
  show "\<exists>xs. sql_list_operations u job t = Inr xs \<and>
      map operation_view xs = map operation_view (list_operations u job d)"
    unfolding sql_list_operations_def list_operations_def canonical_as_uuid [OF assms(3)] canonical_as_uuid [OF assms(4)]
      result_bind_simps
    by (rule sql_operation.list_agrees [OF assms(1) [THEN conjunct1]])
      (auto dest!: operation_row_fields operation_view_fields)
next
  assume "list_all operation_storable ps" "sql_add_operations jsonb references u ps t = Inr t1"
  then obtain rs where "operation_rows u ps = Inr rs" "insert_rows (operation_rules jsonb references) rs t = Inr t1"
    and "\<And>p. p \<in> set ps \<Longrightarrow> operation_storable p"
    by (auto simp: sql_add_operations_def result_bind_Inr_iff flushed_Inr list_all_iff)
  then show "\<exists>d1. add_operations u ps d = Inr d1 \<and> operations_held d1 t1"
    using sql_add_operations_into [OF assms(1,2), of ps "map operation_identity (dict_values d)"]
    by (simp add: add_operations_def image_image)
next
  assume p: "operation_get u (io_id p) d = Some p" "operation_accept p version binding notes = Inr q"
    and q: "operation_storable q" "sql_operation_save jsonb references u q t = Inr t2"
  have same: "same_operation p q" by (rule operation_accept_same [OF p(2)])
  then have ids: "io_id q = io_id p" "io_tenant_id q = io_tenant_id p" by (simp_all add: same_operation_def)
  have stored: "dict_get d (io_id p) = Some p" "io_tenant_id p = u"
    using p(1) by (simp_all add: operation_get_def scoped_get_Some)
  have "canonical_id (io_id p)" using q(1) ids by (simp add: operation_storable_def)
  then have "table_holds imported_operation_from_model operation_view (dict_set (io_id q) q d) t2"
    using sql_operation.save_agrees [of d t jsonb q u p "ValueError ''imported operation does not exist in tenant''"
        references t2] assms(1,2) q same p(1) ids stored assms(3)
    by (simp add: sql_operation_save_def operation_statement_def canonical_scoped_where operation_get_def
        cong: option.case_cong)
  then show "\<exists>d2. operation_save u q d = Inr d2 \<and> operations_held d2 t2"
    using stored ids assms(1) by (auto simp: operation_save_def)
qed

section \<open>An instance\<close>

definition stored_operation :: imported_operation where
  "stored_operation =
     \<lparr>io_id = sample_uuid (CHR ''1''), io_tenant_id = sample_uuid (CHR ''2''), io_import_job_id = sample_uuid (CHR ''3''),
      io_upstream_service_id = sample_uuid (CHR ''4''), io_operation_key = ''GET /pets'', io_operation_id = Some ''pets'',
      io_method = ''GET'', io_path = ''/pets'', io_normalized_operation = JObj [(''b'', JNull), (''a'', JNull)],
      io_generated_tool_name = Some ''pets.list'', io_conflict_status = CONFLICT_NONE,
      io_review_status = REVIEW_PENDING, io_review_notes = None, io_draft_tool_version_id = None,
      io_draft_tool_binding_id = None\<rparr>"

definition accepted_operation :: imported_operation where
  "accepted_operation = stored_operation\<lparr>io_review_status := REVIEW_ACCEPTED, io_review_notes := None,
     io_draft_tool_version_id := Some (sample_uuid (CHR ''5'')), io_draft_tool_binding_id := Some (sample_uuid (CHR ''6''))\<rparr>"

lemma sample_operations: "operation_storable stored_operation" "operation_storable accepted_operation"
  "operation_accept stored_operation (sample_uuid (CHR ''5'')) (sample_uuid (CHR ''6'')) None = Inr accepted_operation"
  by (simp_all add: operation_storable_def stored_operation_def accepted_operation_def operation_accept_def
      sample_uuids_canonical)

lemma sample_operation_written:
  "result_bind (sql_add_operations (\<lambda>j. Some (json_norm j)) (\<lambda>_. True) (sample_uuid (CHR ''2'')) [stored_operation] [])
     (\<lambda>t. result_bind (sql_operation_save (\<lambda>j. Some (json_norm j)) (\<lambda>_. True) (sample_uuid (CHR ''2''))
        accepted_operation t) (\<lambda>_. Inr ())) = Inr ()"
  by code_simp

theorem sql_imports_refine_memory_witness:
  "\<exists>t t' d. sql_add_operations (\<lambda>j. Some (json_norm j)) (\<lambda>_. True) (sample_uuid (CHR ''2'')) [stored_operation] [] = Inr t \<and>
     sql_operation_save (\<lambda>j. Some (json_norm j)) (\<lambda>_. True) (sample_uuid (CHR ''2'')) accepted_operation t = Inr t' \<and>
     operation_save (sample_uuid (CHR ''2'')) accepted_operation [(io_id stored_operation, stored_operation)] = Inr d \<and>
     operations_held d t'"
proof -
  let ?u = "sample_uuid (CHR ''2'')" and ?jsonb = "\<lambda>j. Some (json_norm j)"
  have jsonb: "keeps_documents ?jsonb" by (simp add: keeps_documents_def json_norm_idem)
  obtain t t' where t: "sql_add_operations ?jsonb (\<lambda>_. True) ?u [stored_operation] [] = Inr t"
    and t': "sql_operation_save ?jsonb (\<lambda>_. True) ?u accepted_operation t = Inr t'"
    using sample_operation_written by (auto simp: result_bind_Inr_iff)
  have "add_operations ?u [stored_operation] [] = Inr [(io_id stored_operation, stored_operation)]"
    by (simp add: add_operations_def stored_operation_def)
  then have held: "operations_held [(io_id stored_operation, stored_operation)] t"
    using sql_imports_refine_memory [OF _ jsonb, of "[]" "[]" ?u ?u "[stored_operation]" "\<lambda>_. True" t] t
      sample_uuids_canonical(2) sample_operations(1) by simp
  have "operation_get ?u (io_id stored_operation) [(io_id stored_operation, stored_operation)] = Some stored_operation"
    by (simp add: operation_get_def scoped_get_def stored_operation_def)
  then show ?thesis
    using sql_imports_refine_memory [OF held jsonb sample_uuids_canonical(2,2), of "[]" "\<lambda>_. True" "[]"
        stored_operation "sample_uuid (CHR ''5'')" "sample_uuid (CHR ''6'')" None accepted_operation t']
      t t' sample_operations by blast
qed

end
