(* ===== verification/Sql_Toolsets.thy ===== *)
theory Sql_Toolsets
  imports Sql_Catalog_Correct
begin

text \<open>
  The SQLAlchemy adapter of the toolsets (\<open>toolsets/adapters/sqlalchemy_mapping.py\<close>,
  \<open>sqlalchemy_models.py\<close>, \<open>sqlalchemy_repository.py\<close>): an aggregate is a row of its own and the rows of
  its members and grants, which a save replaces as a whole. Sessions do not flush by themselves
  (\<open>autoflush=False\<close>), so the deletions of a save come before its changes are flushed.

  What the SQL repository of the toolsets stores of an aggregate and gives back: all of it, and nothing
  of another one.
\<close>

section \<open>Enumerations in columns\<close>

definition toolset_kind_of :: "string \<Rightarrow> toolset_kind result" where
  "toolset_kind_of =
     enum_of ''ToolsetKind'' toolset_kind_value
       [EXPLICIT, ALL_PUBLISHED]"

fun toolset_discovery_mode_value :: "toolset_discovery_mode \<Rightarrow> string" where
  "toolset_discovery_mode_value DISCOVERY_DIRECT = ''direct''"
| "toolset_discovery_mode_value DISCOVERY_SEARCH_FIRST = ''search_first''"

definition toolset_discovery_mode_of :: "string \<Rightarrow> toolset_discovery_mode result" where
  "toolset_discovery_mode_of =
     enum_of ''ToolsetDiscoveryMode'' toolset_discovery_mode_value
       [DISCOVERY_DIRECT, DISCOVERY_SEARCH_FIRST]"

fun toolset_status_value :: "toolset_status \<Rightarrow> string" where
  "toolset_status_value TOOLSET_DRAFT = ''draft''"
| "toolset_status_value TOOLSET_ACTIVE = ''active''"
| "toolset_status_value TOOLSET_DISABLED = ''disabled''"

definition toolset_status_of :: "string \<Rightarrow> toolset_status result" where
  "toolset_status_of =
     enum_of ''ToolsetStatus'' toolset_status_value
       [TOOLSET_DRAFT, TOOLSET_ACTIVE, TOOLSET_DISABLED]"

section \<open>Rows\<close>

record member_model =
  smm_tenant_id :: string
  smm_toolset_id :: string
  smm_tool_id :: string
  smm_added_by :: string
  smm_added_at :: datetime

definition member_to_model :: "toolset_member \<Rightarrow> member_model result" where
  "member_to_model m =
     result_bind (as_uuid ''tenant id'' (me_tenant_id m)) (\<lambda>tenant_id_uuid.
     result_bind (as_uuid ''toolset id'' (me_toolset_id m)) (\<lambda>toolset_id_uuid.
     result_bind (as_uuid ''tool id'' (me_tool_id m)) (\<lambda>tool_id_uuid.
     Inr
      \<lparr>smm_tenant_id = tenant_id_uuid, smm_toolset_id = toolset_id_uuid, smm_tool_id = tool_id_uuid,
       smm_added_by = me_added_by m, smm_added_at = me_added_at m\<rparr>)))"

definition member_from_model :: "member_model \<Rightarrow> toolset_member result" where
  "member_from_model r =
     member_post_init
      \<lparr>me_tenant_id = smm_tenant_id r, me_toolset_id = smm_toolset_id r, me_tool_id = smm_tool_id r,
       me_added_by = smm_added_by r, me_added_at = smm_added_at r\<rparr>"

definition member_model_fits :: "member_model \<Rightarrow> bool" where
  "member_model_fits r \<longleftrightarrow>
     fits_string 255 (smm_added_by r) \<and> is_aware (smm_added_at r)"

record grant_model =
  sgm_tenant_id :: string
  sgm_toolset_id :: string
  sgm_principal_id :: string
  sgm_granted_by :: string
  sgm_granted_at :: datetime

definition grant_to_model :: "toolset_grant \<Rightarrow> grant_model result" where
  "grant_to_model g =
     result_bind (as_uuid ''tenant id'' (gr_tenant_id g)) (\<lambda>tenant_id_uuid.
     result_bind (as_uuid ''toolset id'' (gr_toolset_id g)) (\<lambda>toolset_id_uuid.
     Inr
      \<lparr>sgm_tenant_id = tenant_id_uuid, sgm_toolset_id = toolset_id_uuid,
       sgm_principal_id = gr_principal_id g, sgm_granted_by = gr_granted_by g,
       sgm_granted_at = gr_granted_at g\<rparr>))"

definition grant_from_model :: "grant_model \<Rightarrow> toolset_grant result" where
  "grant_from_model r =
     grant_post_init
      \<lparr>gr_tenant_id = sgm_tenant_id r, gr_toolset_id = sgm_toolset_id r,
       gr_principal_id = sgm_principal_id r, gr_granted_by = sgm_granted_by r,
       gr_granted_at = sgm_granted_at r\<rparr>"

definition grant_model_fits :: "grant_model \<Rightarrow> bool" where
  "grant_model_fits r \<longleftrightarrow>
     fits_string 255 (sgm_principal_id r) \<and> fits_string 255 (sgm_granted_by r) \<and>
     is_aware (sgm_granted_at r)"

record toolset_model =
  stm_id :: string
  stm_tenant_id :: string
  stm_slug :: string
  stm_name :: string
  stm_description :: "string option"
  stm_kind :: string
  stm_discovery_mode :: string
  stm_status :: string
  stm_revision :: int
  stm_membership_digest :: string
  stm_created_by :: string
  stm_created_at :: datetime
  stm_updated_at :: datetime

definition toolset_to_model :: "toolset \<Rightarrow> toolset_model result" where
  "toolset_to_model s =
     result_bind (as_uuid ''toolset id'' (ts_id s)) (\<lambda>id_uuid.
     result_bind (as_uuid ''tenant id'' (ts_tenant_id s)) (\<lambda>tenant_id_uuid.
     Inr
      \<lparr>stm_id = id_uuid, stm_tenant_id = tenant_id_uuid, stm_slug = ts_slug s, stm_name = ts_name s,
       stm_description = ts_description s, stm_kind = toolset_kind_value (ts_kind s),
       stm_discovery_mode = toolset_discovery_mode_value (ts_discovery_mode s),
       stm_status = toolset_status_value (ts_status s), stm_revision = ts_revision s,
       stm_membership_digest = ts_membership_digest s, stm_created_by = ts_created_by s,
       stm_created_at = ts_created_at s, stm_updated_at = ts_updated_at s\<rparr>))"

definition update_toolset_model :: "toolset_model \<Rightarrow> toolset \<Rightarrow> toolset_model result" where
  "update_toolset_model r s =
     (if stm_id r \<noteq> ts_id s \<or> stm_tenant_id r \<noteq> ts_tenant_id s \<or> stm_slug r \<noteq> ts_slug s \<or>
         stm_kind r \<noteq> toolset_kind_value (ts_kind s) \<or> stm_created_by r \<noteq> ts_created_by s \<or>
         stm_created_at r \<noteq> ts_created_at s
      then Inl (ValueError ''toolset stable identity fields are immutable'')
      else Inr (r\<lparr>stm_name := ts_name s, stm_description := ts_description s,
        stm_discovery_mode := toolset_discovery_mode_value (ts_discovery_mode s),
        stm_status := toolset_status_value (ts_status s), stm_revision := ts_revision s,
        stm_membership_digest := ts_membership_digest s, stm_updated_at := ts_updated_at s\<rparr>))"

text \<open>The arguments of the constructor are built in order, the members and grants among them.\<close>

definition toolset_from_models ::
  "(string \<Rightarrow> string) \<Rightarrow> toolset_model \<Rightarrow> member_model list \<Rightarrow> grant_model list \<Rightarrow> toolset result" where
  "toolset_from_models sha r members grants =
     result_bind (toolset_kind_of (stm_kind r)) (\<lambda>kind.
     result_bind (toolset_discovery_mode_of (stm_discovery_mode r)) (\<lambda>mode.
     result_bind (toolset_status_of (stm_status r)) (\<lambda>status.
     result_bind (collect_results member_from_model members) (\<lambda>ms.
     result_bind (collect_results grant_from_model grants) (\<lambda>gs.
     toolset_post_init sha
      \<lparr>ts_id = stm_id r, ts_tenant_id = stm_tenant_id r, ts_slug = stm_slug r, ts_name = stm_name r,
       ts_description = stm_description r, ts_kind = kind, ts_discovery_mode = mode, ts_status = status,
       ts_revision = stm_revision r, ts_membership_digest = stm_membership_digest r,
       ts_created_by = stm_created_by r, ts_created_at = stm_created_at r, ts_updated_at = stm_updated_at r,
       ts_members = ms, ts_grants = gs\<rparr>)))))"

section \<open>Tables\<close>

record toolset_tables =
  tt_toolsets :: "toolset_model list"
  tt_members :: "member_model list"
  tt_grants :: "grant_model list"

record toolset_references =
  tf_toolset :: "toolset_model \<Rightarrow> bool"
  tf_member :: "member_model \<Rightarrow> bool"
  tf_grant :: "grant_model \<Rightarrow> bool"

definition toolset_model_fits :: "toolset_model \<Rightarrow> bool" where
  "toolset_model_fits r \<longleftrightarrow>
     fits_string 64 (stm_slug r) \<and> fits_string 128 (stm_name r) \<and> fits_optional fits_text (stm_description r) \<and>
     fits_string 32 (stm_kind r) \<and> fits_string 32 (stm_discovery_mode r) \<and> fits_string 16 (stm_status r) \<and>
     fits_integer (stm_revision r) \<and> fits_string 64 (stm_membership_digest r) \<and>
     fits_string 255 (stm_created_by r) \<and> is_aware (stm_created_at r) \<and> is_aware (stm_updated_at r)"

text \<open>The partial unique index lets a tenant have one \<open>all_published\<close> toolset.\<close>

definition toolset_rules :: "(toolset_model \<Rightarrow> bool) \<Rightarrow> toolset_model table_rules" where
  "toolset_rules references =
     \<lparr>tr_store = (\<lambda>r. if toolset_model_fits r then Some r else None),
      tr_checks =
        [(''ck_toolset_kind'', \<lambda>r. stm_kind r \<in> {''explicit'', ''all_published''}),
         (''ck_toolset_discovery_mode'', \<lambda>r. stm_discovery_mode r \<in> {''direct'', ''search_first''}),
         (''ck_toolset_status'', \<lambda>r. stm_status r \<in> {''draft'', ''active'', ''disabled''}),
         (''ck_toolset_revision_positive'', \<lambda>r. 0 < stm_revision r)],
      tr_unique =
        [(''pk_toolset'', \<lambda>r x. stm_id x = stm_id r),
         (''uq_toolset_tenant_slug'', \<lambda>r x. stm_tenant_id x = stm_tenant_id r \<and> stm_slug x = stm_slug r),
         (''uq_toolset_all_published_tenant'', \<lambda>r x.
           stm_tenant_id x = stm_tenant_id r \<and> stm_kind r = ''all_published'' \<and> stm_kind x = ''all_published'')],
      tr_references = references\<rparr>"

definition member_rules :: "(member_model \<Rightarrow> bool) \<Rightarrow> member_model table_rules" where
  "member_rules references =
     \<lparr>tr_store = (\<lambda>r. if member_model_fits r then Some r else None), tr_checks = [],
      tr_unique = [(''pk_toolset_member'', \<lambda>r x. smm_toolset_id x = smm_toolset_id r \<and> smm_tool_id x = smm_tool_id r)],
      tr_references = references\<rparr>"

definition grant_rules :: "(grant_model \<Rightarrow> bool) \<Rightarrow> grant_model table_rules" where
  "grant_rules references =
     \<lparr>tr_store = (\<lambda>r. if grant_model_fits r then Some r else None), tr_checks = [],
      tr_unique = [(''pk_toolset_access_grant'', \<lambda>r x.
        sgm_toolset_id x = sgm_toolset_id r \<and> sgm_principal_id x = sgm_principal_id r)],
      tr_references = references\<rparr>"

section \<open>Repository\<close>

definition toolset_flushed :: "db_error + 'a \<Rightarrow> 'a result" where
  "toolset_flushed = flushed_unless (\<lambda>name. Some (ValueError ''toolset uniqueness constraint was violated''))"

text \<open>The members and grants of an aggregate, mapped and then flushed.\<close>

definition flush_parts :: "toolset_references \<Rightarrow> toolset \<Rightarrow> toolset_tables \<Rightarrow> toolset_tables result" where
  "flush_parts references s w =
     result_bind (collect_results member_to_model (ts_members s)) (\<lambda>ms.
     result_bind (collect_results grant_to_model (ts_grants s)) (\<lambda>gs.
     result_bind (toolset_flushed (insert_rows (member_rules (tf_member references)) ms (tt_members w))) (\<lambda>members.
     result_bind (toolset_flushed (insert_rows (grant_rules (tf_grant references)) gs (tt_grants w))) (\<lambda>grants.
     Inr (w\<lparr>tt_members := members, tt_grants := grants\<rparr>)))))"

definition sql_toolset_add ::
  "toolset_references \<Rightarrow> string \<Rightarrow> toolset \<Rightarrow> toolset_tables \<Rightarrow> toolset_tables result" where
  "sql_toolset_add references tenant_id s w =
     (if tenant_id \<noteq> ts_tenant_id s then Inl tenant_mismatch
      else result_bind (toolset_to_model s) (\<lambda>r.
        result_bind (toolset_flushed (insert_row (toolset_rules (tf_toolset references)) r (tt_toolsets w))) (\<lambda>toolsets.
          flush_parts references s (w\<lparr>tt_toolsets := toolsets\<rparr>))))"

text \<open>\<open>_aggregate\<close>: the rows of members and grants in the order of tool and principal.\<close>

definition sql_aggregate :: "(string \<Rightarrow> string) \<Rightarrow> toolset_tables \<Rightarrow> toolset_model \<Rightarrow> toolset result" where
  "sql_aggregate sha w r =
     toolset_from_models sha r
       (sort_key smm_tool_id [m \<leftarrow> tt_members w. smm_toolset_id m = stm_id r])
       (sort_key sgm_principal_id [g \<leftarrow> tt_grants w. sgm_toolset_id g = stm_id r])"

definition toolset_statement :: "string \<Rightarrow> string \<Rightarrow> (toolset_model \<Rightarrow> bool) result" where
  "toolset_statement tenant_id toolset_id = scoped_where stm_tenant_id stm_id ''toolset id'' tenant_id toolset_id"

definition sql_toolset_save ::
  "(string \<Rightarrow> string) \<Rightarrow> toolset_references \<Rightarrow> string \<Rightarrow> toolset \<Rightarrow> toolset_tables \<Rightarrow> toolset_tables result" where
  "sql_toolset_save sha references tenant_id s w =
     (if tenant_id \<noteq> ts_tenant_id s then Inl tenant_mismatch
      else result_bind (toolset_statement tenant_id (ts_id s)) (\<lambda>P.
        case select_first P (tt_toolsets w) of
          None \<Rightarrow> Inl (ValueError ''toolset does not exist in tenant'')
        | Some r \<Rightarrow>
            result_bind (sql_aggregate sha w r) (\<lambda>current.
            result_bind (requires_persistence_update current s) (\<lambda>needed.
              if \<not> needed then Inr w
              else
                result_bind (update_toolset_model r s) (\<lambda>r'.
                result_bind (as_uuid ''toolset id'' (ts_id s)) (\<lambda>toolset_uuid.
                let rest = w\<lparr>tt_members := [m \<leftarrow> tt_members w. smm_toolset_id m \<noteq> toolset_uuid],
                              tt_grants := [g \<leftarrow> tt_grants w. sgm_toolset_id g \<noteq> toolset_uuid]\<rparr> in
                result_bind (toolset_flushed (update_row stm_id (toolset_rules (tf_toolset references)) r' (tt_toolsets rest)))
                  (\<lambda>toolsets. flush_parts references s (rest\<lparr>tt_toolsets := toolsets\<rparr>))))))))"

definition sql_toolset_get ::
  "(string \<Rightarrow> string) \<Rightarrow> string \<Rightarrow> string \<Rightarrow> toolset_tables \<Rightarrow> toolset option result" where
  "sql_toolset_get sha tenant_id toolset_id w =
     result_bind (toolset_statement tenant_id toolset_id) (\<lambda>P.
       optional (sql_aggregate sha w) (select_first P (tt_toolsets w)))"

definition sql_toolset_get_by_slug ::
  "(string \<Rightarrow> string) \<Rightarrow> string \<Rightarrow> string \<Rightarrow> toolset_tables \<Rightarrow> toolset option result" where
  "sql_toolset_get_by_slug sha tenant_id slug w =
     result_bind (as_uuid ''tenant id'' tenant_id) (\<lambda>tenant_uuid.
       optional (sql_aggregate sha w)
         (select_first (\<lambda>r. stm_tenant_id r = tenant_uuid \<and> stm_slug r = slug) (tt_toolsets w)))"

definition sql_toolset_get_all_published ::
  "(string \<Rightarrow> string) \<Rightarrow> string \<Rightarrow> toolset_tables \<Rightarrow> toolset option result" where
  "sql_toolset_get_all_published sha tenant_id w =
     result_bind (as_uuid ''tenant id'' tenant_id) (\<lambda>tenant_uuid.
       optional (sql_aggregate sha w)
         (select_first (\<lambda>r. stm_tenant_id r = tenant_uuid \<and> stm_kind r = toolset_kind_value ALL_PUBLISHED)
           (tt_toolsets w)))"

definition sql_toolset_list_by_tenant ::
  "(string \<Rightarrow> string) \<Rightarrow> string \<Rightarrow> toolset_tables \<Rightarrow> toolset list result" where
  "sql_toolset_list_by_tenant sha tenant_id w =
     result_bind (as_uuid ''tenant id'' tenant_id) (\<lambda>tenant_uuid.
       collect_results (sql_aggregate sha w)
         (sort_key stm_slug [r \<leftarrow> tt_toolsets w. stm_tenant_id r = tenant_uuid]))"

definition sql_list_granted_active ::
  "(string \<Rightarrow> string) \<Rightarrow> string \<Rightarrow> string \<Rightarrow> toolset_tables \<Rightarrow> toolset list result" where
  "sql_list_granted_active sha tenant_id principal_id w =
     result_bind (as_uuid ''tenant id'' tenant_id) (\<lambda>tenant_uuid.
       collect_results (sql_aggregate sha w)
         (sort_key stm_slug
           [r. r \<leftarrow> tt_toolsets w, g \<leftarrow> tt_grants w, sgm_toolset_id g = stm_id r,
              stm_tenant_id r = tenant_uuid \<and> stm_status r = toolset_status_value TOOLSET_ACTIVE \<and>
              sgm_principal_id g = principal_id]))"

section \<open>Enumerations\<close>

lemma toolset_kind_of_value [simp]: "toolset_kind_of (toolset_kind_value k) = Inr k"
  by (cases k) (simp_all add: toolset_kind_of_def enum_of_def)

lemma toolset_mode_of_value [simp]: "toolset_discovery_mode_of (toolset_discovery_mode_value m) = Inr m"
  by (cases m) (simp_all add: toolset_discovery_mode_of_def enum_of_def)

lemma toolset_status_of_value [simp]: "toolset_status_of (toolset_status_value s) = Inr s"
  by (cases s) (simp_all add: toolset_status_of_def enum_of_def)

section \<open>Parts of an aggregate\<close>

definition member_storable :: "toolset_member \<Rightarrow> bool" where
  "member_storable m \<longleftrightarrow> member_post_init m = Inr m \<and> canonical_id (me_tenant_id m) \<and>
     canonical_id (me_toolset_id m) \<and> canonical_id (me_tool_id m)"

definition grant_storable :: "toolset_grant \<Rightarrow> bool" where
  "grant_storable g \<longleftrightarrow> grant_post_init g = Inr g \<and> canonical_id (gr_tenant_id g) \<and> canonical_id (gr_toolset_id g)"

lemma member_row:
  "member_storable m \<Longrightarrow> member_to_model m = Inr r \<Longrightarrow>
   member_from_model r = Inr m \<and> smm_toolset_id r = me_toolset_id m \<and> smm_tool_id r = me_tool_id m"
  by (cases m) (auto simp: member_storable_def member_to_model_def member_from_model_def canonical_as_uuid)

lemma grant_row:
  "grant_storable g \<Longrightarrow> grant_to_model g = Inr r \<Longrightarrow>
   grant_from_model r = Inr g \<and> sgm_toolset_id r = gr_toolset_id g \<and> sgm_principal_id r = gr_principal_id g"
  by (cases g) (auto simp: grant_storable_def grant_to_model_def grant_from_model_def canonical_as_uuid)

lemma collect_rows:
  assumes "collect_results to_row xs = Inr rs"
    and "\<And>x r. x \<in> set xs \<Longrightarrow> to_row x = Inr r \<Longrightarrow> from_row r = Inr x \<and> key_of r = k x \<and> owner r = i"
  shows "collect_results from_row rs = Inr xs \<and> map key_of rs = map k xs \<and> (\<forall>r \<in> set rs. owner r = i)"
  using assms
proof (induction xs arbitrary: rs)
  case (Cons x xs)
  obtain r us where r: "to_row x = Inr r" "collect_results to_row xs = Inr us" "rs = r # us"
    using Cons.prems(1) by (auto simp: result_bind_Inr_iff)
  have "collect_results from_row us = Inr xs \<and> map key_of us = map k xs \<and> (\<forall>r \<in> set us. owner r = i)"
    by (rule Cons.IH [OF r(2)]) (use Cons.prems(2) in auto)
  then show ?case using Cons.prems(2) [of x r] r by simp
qed simp

lemma insert_rows_append:
  assumes "\<And>r s. tr_store rules r = Some s \<Longrightarrow> s = r" and "insert_rows rules rs t = Inr t'"
  shows "t' = t @ rs"
  using assms(2)
proof (induction rs arbitrary: t)
  case (Cons r rs)
  obtain u where u: "insert_row rules r t = Inr u" "insert_rows rules rs u = Inr t'"
    using Cons.prems by (auto split: sum.splits)
  then have "u = t @ [r]" using assms(1) by (auto simp: insert_row_Inr)
  then show ?case using Cons.IH [OF u(2)] by simp
qed simp

lemma toolset_flushed_Inr: "toolset_flushed r = Inr x \<longleftrightarrow> r = Inr x"
  by (simp add: toolset_flushed_def flushed_unless_Inr)

definition toolset_storable :: "(string \<Rightarrow> string) \<Rightarrow> toolset \<Rightarrow> bool" where
  "toolset_storable sha s \<longleftrightarrow> toolset_post_init sha s = Inr s \<and> canonical_id (ts_id s) \<and> canonical_id (ts_tenant_id s) \<and>
     list_all (\<lambda>m. member_storable m \<and> me_toolset_id m = ts_id s) (ts_members s) \<and>
     list_all (\<lambda>g. grant_storable g \<and> gr_toolset_id g = ts_id s) (ts_grants s) \<and>
     sorted (ts_tool_ids s) \<and> sorted (ts_principal_ids s)"

text \<open>No row of the aggregate before its parts are written.\<close>

definition parts_free :: "string \<Rightarrow> toolset_tables \<Rightarrow> bool" where
  "parts_free i w \<longleftrightarrow> (\<forall>m \<in> set (tt_members w). smm_toolset_id m \<noteq> i) \<and> (\<forall>g \<in> set (tt_grants w). sgm_toolset_id g \<noteq> i)"

lemma flushed_parts:
  assumes "flush_parts references s w = Inr w'" and "toolset_storable sha s" and "parts_free (ts_id s) w"
  shows "tt_toolsets w' = tt_toolsets w \<and>
    collect_results member_from_model (sort_key smm_tool_id [m \<leftarrow> tt_members w'. smm_toolset_id m = ts_id s]) =
      Inr (ts_members s) \<and>
    collect_results grant_from_model (sort_key sgm_principal_id [g \<leftarrow> tt_grants w'. sgm_toolset_id g = ts_id s]) =
      Inr (ts_grants s) \<and>
    (\<forall>i. i \<noteq> ts_id s \<longrightarrow>
      [m \<leftarrow> tt_members w'. smm_toolset_id m = i] = [m \<leftarrow> tt_members w. smm_toolset_id m = i] \<and>
      [g \<leftarrow> tt_grants w'. sgm_toolset_id g = i] = [g \<leftarrow> tt_grants w. sgm_toolset_id g = i])"
proof -
  obtain ms gs members grants where ms: "collect_results member_to_model (ts_members s) = Inr ms"
    and gs: "collect_results grant_to_model (ts_grants s) = Inr gs"
    and m: "insert_rows (member_rules (tf_member references)) ms (tt_members w) = Inr members"
    and g: "insert_rows (grant_rules (tf_grant references)) gs (tt_grants w) = Inr grants"
    and w': "w' = w\<lparr>tt_members := members, tt_grants := grants\<rparr>"
    using assms(1) by (auto simp: flush_parts_def result_bind_Inr_iff toolset_flushed_Inr)
  have m': "members = tt_members w @ ms"
    by (rule insert_rows_append [OF _ m]) (simp add: member_rules_def split: if_splits)
  have g': "grants = tt_grants w @ gs"
    by (rule insert_rows_append [OF _ g]) (simp add: grant_rules_def split: if_splits)
  have member_rows: "collect_results member_from_model ms = Inr (ts_members s) \<and>
      map smm_tool_id ms = map me_tool_id (ts_members s) \<and> (\<forall>r \<in> set ms. smm_toolset_id r = ts_id s)"
  proof (rule collect_rows [OF ms])
    show "member_from_model r = Inr m \<and> smm_tool_id r = me_tool_id m \<and> smm_toolset_id r = ts_id s"
      if "m \<in> set (ts_members s)" "member_to_model m = Inr r" for m r
      using member_row [OF _ that(2)] assms(2) that(1) by (simp add: toolset_storable_def list_all_iff)
  qed
  have grant_rows: "collect_results grant_from_model gs = Inr (ts_grants s) \<and>
      map sgm_principal_id gs = map gr_principal_id (ts_grants s) \<and> (\<forall>r \<in> set gs. sgm_toolset_id r = ts_id s)"
  proof (rule collect_rows [OF gs])
    show "grant_from_model r = Inr g \<and> sgm_principal_id r = gr_principal_id g \<and> sgm_toolset_id r = ts_id s"
      if "g \<in> set (ts_grants s)" "grant_to_model g = Inr r" for g r
      using grant_row [OF _ that(2)] assms(2) that(1) by (simp add: toolset_storable_def list_all_iff)
  qed
  have "[r \<leftarrow> members. smm_toolset_id r = ts_id s] = ms" "[r \<leftarrow> grants. sgm_toolset_id r = ts_id s] = gs"
    using assms(3) member_rows grant_rows by (auto simp: m' g' parts_free_def filter_empty_conv intro: filter_True)
  moreover have "sort_key smm_tool_id ms = ms" "sort_key sgm_principal_id gs = gs"
    using assms(2) member_rows grant_rows
    by (auto simp: toolset_storable_def ts_tool_ids_def ts_principal_ids_def intro!: sort_key_id_if_sorted)
  ultimately show ?thesis using member_rows grant_rows
    by (auto simp: w' m' g' filter_empty_conv)
qed

section \<open>Rows of an aggregate\<close>

lemma update_toolset_is_to_model:
  "update_toolset_model r s = Inr r' \<Longrightarrow> canonical_id (ts_id s) \<Longrightarrow> canonical_id (ts_tenant_id s) \<Longrightarrow>
   toolset_to_model s = Inr r'"
  by (cases r; cases s) (auto simp: update_toolset_model_def toolset_to_model_def canonical_as_uuid split: if_splits)

lemma aggregate_row:
  assumes "toolset_to_model s = Inr r" and "toolset_storable sha s"
    and "collect_results member_from_model ms = Inr (ts_members s)"
    and "collect_results grant_from_model gs = Inr (ts_grants s)"
  shows "toolset_from_models sha r ms gs = Inr s"
  using assms
  by (cases s) (auto simp: toolset_to_model_def toolset_from_models_def toolset_storable_def canonical_as_uuid)

lemma toolset_row_ids:
  "toolset_to_model s = Inr r \<Longrightarrow> toolset_storable sha s \<Longrightarrow> stm_id r = ts_id s \<and> stm_tenant_id r = ts_tenant_id s"
  by (auto simp: toolset_to_model_def toolset_storable_def canonical_as_uuid)

lemma toolset_stored: "tr_store (toolset_rules references) r = Some x \<Longrightarrow> x = r"
  by (simp add: toolset_rules_def split: if_splits)

lemma sql_toolset_get_canonical:
  "canonical_id v \<Longrightarrow> canonical_id k \<Longrightarrow>
   sql_toolset_get sha v k w =
     optional (sql_aggregate sha w) (select_first (\<lambda>r. stm_tenant_id r = v \<and> stm_id r = k) (tt_toolsets w))"
  by (simp add: sql_toolset_get_def toolset_statement_def canonical_scoped_where)

text \<open>Another aggregate is read as before if its rows are the same.\<close>

lemma other_aggregate:
  assumes "select_first P (tt_toolsets w') = select_first P (tt_toolsets w)"
    and "\<And>r. P r \<Longrightarrow> stm_id r = k"
    and "[m \<leftarrow> tt_members w'. smm_toolset_id m = k] = [m \<leftarrow> tt_members w. smm_toolset_id m = k]"
    and "[g \<leftarrow> tt_grants w'. sgm_toolset_id g = k] = [g \<leftarrow> tt_grants w. sgm_toolset_id g = k]"
  shows "optional (sql_aggregate sha w') (select_first P (tt_toolsets w')) =
    optional (sql_aggregate sha w) (select_first P (tt_toolsets w))"
proof (cases "select_first P (tt_toolsets w)")
  case (Some r)
  then have "stm_id r = k" using assms(2) by (auto simp: select_first_def dest: find_Some_sat)
  then show ?thesis using assms Some by (simp add: sql_aggregate_def optional_def)
qed (use assms(1) in \<open>simp add: optional_def\<close>)

lemma select_first_append_other:
  "\<not> P x \<Longrightarrow> select_first P (t @ [x]) = select_first P t"
  by (induction t) (simp_all add: select_first_def)

lemma select_first_append_new:
  "select_first P t = None \<Longrightarrow> P x \<Longrightarrow> select_first P (t @ [x]) = Some x"
  by (induction t) (auto simp: select_first_def split: if_splits)

lemma select_first_replace_other:
  "(\<And>x. row_key x = row_key s \<Longrightarrow> \<not> P x) \<Longrightarrow> select_first P (replace_row row_key s t) = select_first P t"
  by (induction t) (auto simp: select_first_def replace_row_def)

lemma select_first_replace_same:
  assumes "select_first P t = Some r" and "\<And>x. P x \<Longrightarrow> row_key x = row_key s" and "P s"
  shows "select_first P (replace_row row_key s t) = Some s"
  using assms(1)
proof (induction t)
  case (Cons x t)
  have "P x \<Longrightarrow> row_key x = row_key s" by (rule assms(2))
  then show ?case using Cons assms(3) by (cases "P x"; cases "row_key x = row_key s") (simp_all add: select_first_def replace_row_def)
qed (simp add: select_first_def)

section \<open>Writing an aggregate\<close>

text \<open>Members and grants belong to a toolset: their foreign keys.\<close>

definition parts_owned :: "toolset_tables \<Rightarrow> bool" where
  "parts_owned w \<longleftrightarrow> (\<forall>m \<in> set (tt_members w). smm_toolset_id m \<in> stm_id ` set (tt_toolsets w)) \<and>
     (\<forall>g \<in> set (tt_grants w). sgm_toolset_id g \<in> stm_id ` set (tt_toolsets w))"

lemma toolset_added:
  assumes "sql_toolset_add references u s w = Inr w'" and "toolset_storable sha s" and "parts_owned w"
    and "canonical_id v" and "canonical_id k"
  shows "sql_toolset_get sha u (ts_id s) w' = Inr (Some s) \<and>
    (k \<noteq> ts_id s \<longrightarrow> sql_toolset_get sha v k w' = sql_toolset_get sha v k w)"
proof -
  obtain r t where u: "ts_tenant_id s = u" and r: "toolset_to_model s = Inr r"
    and t: "insert_row (toolset_rules (tf_toolset references)) r (tt_toolsets w) = Inr t"
    and parts: "flush_parts references s (w\<lparr>tt_toolsets := t\<rparr>) = Inr w'"
    using assms(1) by (auto simp: sql_toolset_add_def result_bind_Inr_iff toolset_flushed_Inr split: if_splits)
  have ids: "stm_id r = ts_id s" "stm_tenant_id r = u" using toolset_row_ids [OF r assms(2)] u by simp_all
  have t': "t = tt_toolsets w @ [r]" and new: "\<forall>x \<in> set (tt_toolsets w). stm_id x \<noteq> stm_id r"
    using t toolset_stored by (auto simp: insert_row_Inr violated_None toolset_rules_def split: if_splits)
  have free: "parts_free (ts_id s) (w\<lparr>tt_toolsets := t\<rparr>)"
    using assms(3) new ids by (auto simp: parts_owned_def parts_free_def)
  note stored = flushed_parts [OF parts assms(2) free]
  have "select_first (\<lambda>x. stm_tenant_id x = u \<and> stm_id x = ts_id s) (tt_toolsets w') = Some r"
    using stored t' ids new
    by (auto simp: select_first_def find_None intro!: select_first_append_new [unfolded select_first_def])
  then have "sql_toolset_get sha u (ts_id s) w' = Inr (Some s)"
    using assms(2) u aggregate_row [OF r assms(2)] stored ids
    by (simp add: sql_toolset_get_canonical toolset_storable_def sql_aggregate_def)
  moreover have "sql_toolset_get sha v k w' = sql_toolset_get sha v k w" if "k \<noteq> ts_id s"
    unfolding sql_toolset_get_canonical [OF assms(4,5)]
    by (rule other_aggregate) (use stored t' ids that in \<open>auto simp: select_first_append_other\<close>)
  ultimately show ?thesis by blast
qed

lemma toolset_saved:
  assumes "sql_toolset_save sha references u s w = Inr w'" and "toolset_storable sha s"
    and "canonical_id v" and "canonical_id k"
  shows "sql_toolset_get sha u (ts_id s) w' = Inr (Some s) \<and>
    (k \<noteq> ts_id s \<longrightarrow> sql_toolset_get sha v k w' = sql_toolset_get sha v k w)"
proof -
  have u: "ts_tenant_id s = u" using assms(1) by (auto simp: sql_toolset_save_def split: if_splits)
  have canonical: "canonical_id u" "canonical_id (ts_id s)" using assms(2) u by (auto simp: toolset_storable_def)
  obtain r current needed where r: "select_first (\<lambda>x. stm_tenant_id x = u \<and> stm_id x = ts_id s) (tt_toolsets w) = Some r"
    and current: "sql_aggregate sha w r = Inr current" "requires_persistence_update current s = Inr needed"
    using assms(1) u canonical
    by (auto simp: sql_toolset_save_def toolset_statement_def canonical_scoped_where result_bind_Inr_iff
        split: option.splits)
  show ?thesis
  proof (cases needed)
    case False
    then have "w' = w" using assms(1) u canonical r current
      by (simp add: sql_toolset_save_def toolset_statement_def canonical_scoped_where)
    moreover have "current = s" using requires_persistence_False [of current s] current(2) False by simp
    ultimately show ?thesis using r current canonical by (simp add: sql_toolset_get_canonical)
  next
    case True
    let ?rest = "w\<lparr>tt_members := [m \<leftarrow> tt_members w. smm_toolset_id m \<noteq> ts_id s],
                   tt_grants := [g \<leftarrow> tt_grants w. sgm_toolset_id g \<noteq> ts_id s]\<rparr>"
    obtain r' t where r': "update_toolset_model r s = Inr r'"
      and t: "update_row stm_id (toolset_rules (tf_toolset references)) r' (tt_toolsets w) = Inr t"
      and parts: "flush_parts references s (?rest\<lparr>tt_toolsets := t\<rparr>) = Inr w'"
      using assms(1) u canonical r current True
      by (auto simp: sql_toolset_save_def toolset_statement_def canonical_scoped_where canonical_as_uuid
          result_bind_Inr_iff toolset_flushed_Inr Let_def)
    have model: "toolset_to_model s = Inr r'"
      by (rule update_toolset_is_to_model [OF r']) (use canonical u in auto)
    have ids: "stm_id r' = ts_id s" "stm_tenant_id r' = u" using toolset_row_ids [OF model assms(2)] u by simp_all
    have t': "t = replace_row stm_id r' (tt_toolsets w)" using t toolset_stored by (auto simp: update_row_Inr)
    have free: "parts_free (ts_id s) (?rest\<lparr>tt_toolsets := t\<rparr>)" by (simp add: parts_free_def)
    note stored = flushed_parts [OF parts assms(2) free]
    have "select_first (\<lambda>x. stm_tenant_id x = u \<and> stm_id x = ts_id s) t = Some r'"
      unfolding t' by (rule select_first_replace_same [OF r]) (simp_all add: ids)
    then have "sql_toolset_get sha u (ts_id s) w' = Inr (Some s)"
      using aggregate_row [OF model assms(2)] stored ids
      by (simp add: sql_toolset_get_canonical [OF canonical] sql_aggregate_def)
    moreover have "sql_toolset_get sha v k w' = sql_toolset_get sha v k w" if k: "k \<noteq> ts_id s"
    proof -
      have "[m \<leftarrow> tt_members ?rest. smm_toolset_id m = k] = [m \<leftarrow> tt_members w. smm_toolset_id m = k]"
        "[g \<leftarrow> tt_grants ?rest. sgm_toolset_id g = k] = [g \<leftarrow> tt_grants w. sgm_toolset_id g = k]"
        using k by (auto intro: filter_cong)
      then show ?thesis unfolding sql_toolset_get_canonical [OF assms(3,4)]
        by (intro other_aggregate) (use stored t' ids k in \<open>auto simp: select_first_replace_other\<close>)
    qed
    ultimately show ?thesis by blast
  qed
qed


section \<open>An instance\<close>

definition stored_member :: "char \<Rightarrow> toolset_member" where
  "stored_member c = \<lparr>me_tenant_id = sample_uuid (CHR ''2''), me_toolset_id = sample_uuid (CHR ''1''),
     me_tool_id = sample_uuid c, me_added_by = ''dev'', me_added_at = Aware 1\<rparr>"

definition stored_toolset :: toolset where
  "stored_toolset =
     \<lparr>ts_id = sample_uuid (CHR ''1''), ts_tenant_id = sample_uuid (CHR ''2''), ts_slug = ''sales'', ts_name = ''Sales'',
      ts_description = None, ts_kind = EXPLICIT, ts_discovery_mode = DISCOVERY_DIRECT, ts_status = TOOLSET_DRAFT,
      ts_revision = 1, ts_membership_digest = sample_sha [], ts_created_by = ''dev'', ts_created_at = Aware 1,
      ts_updated_at = Aware 1, ts_members = [stored_member (CHR ''3''), stored_member (CHR ''4'')], ts_grants = []\<rparr>"

definition granted_toolset :: toolset where
  "granted_toolset = stored_toolset\<lparr>ts_revision := 2, ts_updated_at := Aware 2, ts_members := [stored_member (CHR ''4'')],
     ts_grants := [\<lparr>gr_tenant_id = sample_uuid (CHR ''2''), gr_toolset_id = sample_uuid (CHR ''1''),
       gr_principal_id = ''agent'', gr_granted_by = ''dev'', gr_granted_at = Aware 2\<rparr>]\<rparr>"

definition any_reference :: toolset_references where
  "any_reference = \<lparr>tf_toolset = (\<lambda>_. True), tf_member = (\<lambda>_. True), tf_grant = (\<lambda>_. True)\<rparr>"

definition empty_toolset_tables :: toolset_tables where
  "empty_toolset_tables = \<lparr>tt_toolsets = [], tt_members = [], tt_grants = []\<rparr>"

lemma sample_toolsets_valid:
  "toolset_post_init sample_sha stored_toolset = Inr stored_toolset"
  "toolset_post_init sample_sha granted_toolset = Inr granted_toolset"
  by code_simp+

lemma sample_toolsets_storable: "toolset_storable sample_sha stored_toolset" "toolset_storable sample_sha granted_toolset"
  unfolding toolset_storable_def sample_toolsets_valid
  by (simp_all add: stored_toolset_def granted_toolset_def stored_member_def member_storable_def grant_storable_def
      sample_uuids_canonical ts_tool_ids_def ts_principal_ids_def) code_simp+

lemma sample_toolset_writes:
  "result_bind (sql_toolset_add any_reference (sample_uuid (CHR ''2'')) stored_toolset empty_toolset_tables) (\<lambda>w.
     result_bind (sql_toolset_save sample_sha any_reference (sample_uuid (CHR ''2'')) granted_toolset w) (\<lambda>_. Inr ())) = Inr ()"
  by code_simp


end
