(* ===== verification/Sql_Search.thy ===== *)
theory Sql_Search
  imports Sql_Catalog_Correct Search_Query
begin

text \<open>
  The PostgreSQL side of semantic search: the table of embeddings with its mapping and repository
  (\<open>tool_search/adapters/sqlalchemy_models.py\<close>, \<open>sqlalchemy_mapping.py\<close>, \<open>sqlalchemy_repository.py\<close>) and the
  exact scan over it (\<open>sqlalchemy_vector_search.py\<close>).

  pgvector is a parameter: \<open>float4\<close> is what a component of a \<open>VECTOR\<close> column stores for a number, if it
  takes it, and \<open>distance\<close> the cosine distance of two vectors.

  What the exact scan counts and returns, on tables that keep their declared constraints.
\<close>

section \<open>Embeddings\<close>

definition TOOL_EMBEDDING_DIMENSIONS :: int where
  "TOOL_EMBEDDING_DIMENSIONS = 2048"

record embedding_model =
  sem_id :: string
  sem_tenant_id :: string
  sem_tool_version_id :: string
  sem_embedding_model :: string
  sem_embedding_dimensions :: int
  sem_source_digest :: string
  sem_embedding :: "rat list"
  sem_indexed_at :: datetime

definition embedding_from_model :: "embedding_model \<Rightarrow> search_embedding result" where
  "embedding_from_model r =
     result_bind (vector_post_init
       \<lparr>ev_model = sem_embedding_model r, ev_dimensions = sem_embedding_dimensions r,
        ev_values = map Finite (sem_embedding r)\<rparr>) (\<lambda>v.
     embedding_post_init
      \<lparr>se_id = sem_id r, se_tenant_id = sem_tenant_id r, se_tool_version_id = sem_tool_version_id r,
       se_embedding_model = sem_embedding_model r, se_embedding_dimensions = sem_embedding_dimensions r,
       se_source_digest = sem_source_digest r, se_vector = v, se_indexed_at = sem_indexed_at r\<rparr>)"

definition finite_value :: "py_float \<Rightarrow> rat option" where
  "finite_value v = (case v of Finite q \<Rightarrow> Some q | Not_Finite \<Rightarrow> None)"

text \<open>The values of one row of the \<open>INSERT\<close>; the last is the vector as its column stores it.\<close>

definition embedding_values ::
  "(rat \<Rightarrow> rat option) \<Rightarrow> string \<Rightarrow> search_embedding \<Rightarrow> (embedding_model \<times> rat list option) result" where
  "embedding_values float4 tenant_id e =
     result_bind (as_uuid ''embedding id'' (se_id e)) (\<lambda>id_uuid.
     result_bind (as_uuid ''tenant id'' tenant_id) (\<lambda>tenant_uuid.
     result_bind (as_uuid ''tool version id'' (se_tool_version_id e)) (\<lambda>version_uuid.
     Inr
      (\<lparr>sem_id = id_uuid, sem_tenant_id = tenant_uuid, sem_tool_version_id = version_uuid,
        sem_embedding_model = se_embedding_model e, sem_embedding_dimensions = se_embedding_dimensions e,
        sem_source_digest = se_source_digest e, sem_embedding = [], sem_indexed_at = se_indexed_at e\<rparr>,
       those (map (\<lambda>v. Option.bind (finite_value v) float4) (ev_values (se_vector e)))))))"

definition embedding_model_fits :: "embedding_model \<Rightarrow> bool" where
  "embedding_model_fits r \<longleftrightarrow>
     fits_string 256 (sem_embedding_model r) \<and> fits_integer (sem_embedding_dimensions r) \<and>
     fits_string 64 (sem_source_digest r) \<and> int (length (sem_embedding r)) = TOOL_EMBEDDING_DIMENSIONS \<and>
     is_aware (sem_indexed_at r)"

definition same_embedding_scope :: "embedding_model \<Rightarrow> embedding_model \<Rightarrow> bool" where
  "same_embedding_scope r x \<longleftrightarrow>
     sem_tenant_id x = sem_tenant_id r \<and> sem_tool_version_id x = sem_tool_version_id r \<and>
     sem_embedding_model x = sem_embedding_model r \<and> sem_embedding_dimensions x = sem_embedding_dimensions r"

definition embedding_rules :: "(embedding_model \<Rightarrow> bool) \<Rightarrow> embedding_model table_rules" where
  "embedding_rules references =
     \<lparr>tr_store = (\<lambda>r. if embedding_model_fits r then Some r else None),
      tr_checks = [(''ck_tool_search_embedding_dimensions'', \<lambda>r. sem_embedding_dimensions r = TOOL_EMBEDDING_DIMENSIONS)],
      tr_unique =
        [(''pk_tool_search_embedding'', \<lambda>r x. sem_id x = sem_id r),
         (''uq_tool_search_embedding_scope'', same_embedding_scope)],
      tr_references = references\<rparr>"

definition sql_list_by_tool_versions ::
  "string \<Rightarrow> string list \<Rightarrow> string \<Rightarrow> int \<Rightarrow> embedding_model list \<Rightarrow> search_embedding list result" where
  "sql_list_by_tool_versions tenant_id version_ids model dimensions t =
     (if version_ids = [] then Inr []
      else
        result_bind (as_uuid ''tenant id'' tenant_id) (\<lambda>tenant_uuid.
        result_bind (collect_results (as_uuid ''tool version id'') version_ids) (\<lambda>versions.
        collect_results embedding_from_model
          [r \<leftarrow> t. sem_tenant_id r = tenant_uuid \<and> sem_tool_version_id r \<in> set versions \<and>
             sem_embedding_model r = model \<and> sem_embedding_dimensions r = dimensions])))"

text \<open>
  \<open>INSERT ... ON CONFLICT ON CONSTRAINT uq_tool_search_embedding_scope DO UPDATE\<close>. One statement may not
  change a row twice: \<open>written\<close> are the rows it has proposed so far.
\<close>

datatype upsert_error = Database db_error | Cardinality_Violation

fun upsert_rows ::
  "(embedding_model \<Rightarrow> bool) \<Rightarrow> (embedding_model \<times> rat list option) list \<Rightarrow> embedding_model list \<Rightarrow>
   embedding_model list \<Rightarrow> upsert_error + embedding_model list" where
  "upsert_rows references [] written t = Inr t"
| "upsert_rows references ((r, vector) # rest) written t =
     (case Option.bind vector (\<lambda>vs. tr_store (embedding_rules references) (r\<lparr>sem_embedding := vs\<rparr>)) of
        None \<Rightarrow> Inl (Database Data_Error)
      | Some s \<Rightarrow>
          if list_ex (same_embedding_scope s) t
          then
            if list_ex (same_embedding_scope s) written then Inl Cardinality_Violation
            else upsert_rows references rest (s # written)
              (map (\<lambda>x. if same_embedding_scope s x
                 then x\<lparr>sem_source_digest := sem_source_digest s, sem_embedding := sem_embedding s,
                        sem_indexed_at := sem_indexed_at s\<rparr> else x) t)
          else
            case violated (embedding_rules references) s t of
              Some e \<Rightarrow> Inl (Database e)
            | None \<Rightarrow> upsert_rows references rest (s # written) (t @ [s]))"

definition sql_upsert_many ::
  "(rat \<Rightarrow> rat option) \<Rightarrow> (embedding_model \<Rightarrow> bool) \<Rightarrow> string \<Rightarrow> search_embedding list \<Rightarrow> embedding_model list \<Rightarrow>
   embedding_model list result" where
  "sql_upsert_many float4 references tenant_id embeddings t =
     (if embeddings = [] then Inr t
      else if list_ex (\<lambda>e. se_tenant_id e \<noteq> tenant_id) embeddings
        then Inl (NexusError TenantBoundaryViolationError)
      else result_bind (collect_results (embedding_values float4 tenant_id) embeddings) (\<lambda>rows.
        case upsert_rows references rows [] t of
          Inl (Database e) \<Rightarrow> Inl (db_exn e)
        | Inl Cardinality_Violation \<Rightarrow> Inl (OtherException ''DBAPIError'')
        | Inr t' \<Rightarrow> Inr t'))"

section \<open>The exact scan\<close>

text \<open>The published tools a query may see, and those of them that have an embedding for its model.\<close>

definition vector_scope ::
  "string \<Rightarrow> string list option \<Rightarrow> search_filter \<Rightarrow> tool_model list \<Rightarrow> version_model list \<Rightarrow> binding_model list \<Rightarrow>
   (tool_model \<times> version_model) list" where
  "vector_scope tenant_uuid eligible f tools versions bindings =
     [(t, v) \<leftarrow> published_rows tenant_uuid tools versions bindings.
        tvm_visibility v \<in> set (map tool_visibility_value (sf_visibilities f)) \<and>
        fits_optional (\<lambda>ns. tlm_namespace t = ns) (sf_namespace f) \<and>
        fits_optional (\<lambda>ids. tlm_id t \<in> set ids) eligible \<and>
        fits_optional (\<lambda>e. tvm_side_effect v = side_effect_value e) (sf_side_effect f)]"

definition embedding_join ::
  "string \<Rightarrow> embedding_vector \<Rightarrow> (tool_model \<times> version_model) list \<Rightarrow> embedding_model list \<Rightarrow>
   (tool_model \<times> version_model \<times> embedding_model) list" where
  "embedding_join tenant_uuid query_vector rows embeddings =
     [(t, v, e). (t, v) \<leftarrow> rows, e \<leftarrow> embeddings,
        sem_tool_version_id e = tvm_id v \<and> sem_tenant_id e = tenant_uuid \<and>
        sem_embedding_model e = ev_model query_vector \<and> sem_embedding_dimensions e = ev_dimensions query_vector]"

definition sql_search_by_vector ::
  "(rat list \<Rightarrow> py_float list \<Rightarrow> rat) \<Rightarrow> string \<Rightarrow> embedding_vector \<Rightarrow> search_filter \<Rightarrow> nat \<Rightarrow>
   tool_model list \<Rightarrow> version_model list \<Rightarrow> binding_model list \<Rightarrow> embedding_model list \<Rightarrow> vector_search_result result" where
  "sql_search_by_vector distance tenant_id query_vector f limit tools versions bindings embeddings =
     (if sf_visibilities f = [] \<or> sf_eligible_tool_ids f = Some []
      then vector_result_post_init \<lparr>vr_hits = [], vr_eligible_count = 0, vr_indexed_count = 0\<rparr>
      else
        result_bind (as_uuid ''tenant id'' tenant_id) (\<lambda>tenant_uuid.
        result_bind (optional (collect_results (as_uuid ''eligible tool id'')) (sf_eligible_tool_ids f)) (\<lambda>eligible.
        let rows = vector_scope tenant_uuid eligible f tools versions bindings;
            joined = embedding_join tenant_uuid query_vector rows embeddings;
            distance_of = (\<lambda>e. distance (sem_embedding e) (ev_values query_vector));
            candidates = take limit (sort_key (\<lambda>(t, v, e). (distance_of e, tlm_canonical_name t)) joined)
        in result_bind (collect_results (\<lambda>(t, v, e).
               result_bind (published_tool_from_models t v) (\<lambda>p. Inr \<lparr>sh_tool = p, sh_rank = 1 - distance_of e\<rparr>))
             candidates) (\<lambda>hits.
           vector_result_post_init
             \<lparr>vr_hits = hits,
              vr_eligible_count = int (length (remdups (map (\<lambda>(t, v). tvm_id v) rows))),
              vr_indexed_count = int (length (remdups (map (\<lambda>(t, v, e). sem_tool_version_id e) joined)))\<rparr>))))"

section \<open>Joins without repetition\<close>

lemma distinct_join:
  assumes "table_ok rules t" and "\<And>x. x \<in> set t \<Longrightarrow> distinct (map g (f x))"
    and "\<And>x y a b. x \<in> set t \<Longrightarrow> y \<in> set t \<Longrightarrow> a \<in> set (f x) \<Longrightarrow> b \<in> set (f y) \<Longrightarrow> g a = g b \<Longrightarrow> conflict rules x y"
  shows "distinct (map g (concat (map f t)))"
proof -
  have "distinct (map g (concat (map f u)))"
    if "sorted_wrt (\<lambda>r x. \<not> conflict rules r x) u" "set u \<subseteq> set t" for u
    using that
  proof (induction u)
    case (Cons x u)
    have "g a \<noteq> g b" if "a \<in> set (f x)" "y \<in> set u" "b \<in> set (f y)" for a y b
      using assms(3) [of x y a b] that Cons.prems by auto
    then show ?case using Cons assms(2) [of x] by (auto simp: image_iff)
  qed simp
  then show ?thesis using assms(1) by (auto simp: table_ok_def)
qed

lemma distinct_extended:
  assumes "distinct (map g xs)" and "\<And>x. x \<in> set xs \<Longrightarrow> at_most_one (f x)"
    and "\<And>x a. x \<in> set xs \<Longrightarrow> a \<in> set (f x) \<Longrightarrow> h a = g x"
  shows "distinct (map h (concat (map f xs))) \<and> set (map h (concat (map f xs))) \<subseteq> set (map g xs)"
  using assms
proof (induction xs)
  case (Cons x xs)
  have rest: "distinct (map h (concat (map f xs)))" "set (map h (concat (map f xs))) \<subseteq> set (map g xs)"
    using Cons.IH Cons.prems by auto
  have "f x = [] \<or> (\<exists>a. f x = [a] \<and> h a = g x)"
    using Cons.prems(2) [of x] Cons.prems(3) [of x] by (cases "f x"; cases "tl (f x)") (auto simp: at_most_one_def)
  then show ?case
  proof
    assume "\<exists>a. f x = [a] \<and> h a = g x"
    then obtain a where a: "f x = [a]" "h a = g x" by blast
    have "g x \<notin> set (map h (concat (map f xs)))" using rest(2) Cons.prems(1) unfolding distinct.simps list.map by blast
    then show ?thesis using rest a by auto
  qed (use rest in auto)
qed simp

lemma at_most_one_distinct: "at_most_one xs \<Longrightarrow> distinct (map g xs)"
  by (cases xs; cases "tl xs") (auto simp: at_most_one_def)

section \<open>The scan\<close>

lemma conflict_version_id: "tvm_id x = tvm_id y \<Longrightarrow> conflict (version_rules jv rv) x y"
  by (auto simp: conflict_def version_rules_def)

lemma conflict_version_sym: "conflict (version_rules jv rv) x y \<Longrightarrow> conflict (version_rules jv rv) y x"
  by (auto simp: conflict_def version_rules_def)

lemma published_rows_distinct:
  assumes "table_ok (tool_rules rt) tools" and "table_ok (version_rules jv rv) versions"
    and "table_ok (binding_rules jb rb) bindings"
  shows "distinct (map (\<lambda>(t, v). tvm_id v) (published_rows u tools versions bindings))"
  unfolding published_rows_def
proof (rule distinct_join [OF assms(1)], goal_cases)
  case (1 t)
  show ?case
  proof (rule distinct_join [OF assms(2)], goal_cases)
    case (1 v)
    show ?case
      by (rule at_most_one_distinct, simp only: if_distrib [of at_most_one], simp, intro impI,
          rule at_most_one_join [OF assms(3)])
        (auto simp: conflict_def binding_rules_def split: if_splits)
  next
    case (2 v w a b)
    then show ?case by (intro conflict_version_id) (auto split: if_splits)
  qed
next
  case (2 t s a b)
  then obtain v w where v: "v \<in> set versions" "tvm_tool_id v = tlm_id t" "w \<in> set versions" "tvm_tool_id w = tlm_id s"
    "tvm_id v = tvm_id w" by (auto split: if_splits)
  then have "v = w" using table_ok_unique [OF assms(2) conflict_version_sym] conflict_version_id by blast
  then show ?case using v by (auto simp: conflict_def tool_rules_def)
qed

lemma embedding_join_distinct:
  assumes "distinct (map (\<lambda>(t, v). tvm_id v) rows)" and "table_ok (embedding_rules re) embeddings"
  shows "distinct (map (\<lambda>(t, v, e). sem_tool_version_id e) (embedding_join u q rows embeddings)) \<and>
    set (map (\<lambda>(t, v, e). sem_tool_version_id e) (embedding_join u q rows embeddings)) \<subseteq>
      set (map (\<lambda>(t, v). tvm_id v) rows)"
  unfolding embedding_join_def
proof (rule distinct_extended [OF assms(1)], goal_cases)
  case (1 x)
  show ?case unfolding case_prod_unfold
    by (rule at_most_one_join [OF assms(2)])
      (auto simp: conflict_def embedding_rules_def same_embedding_scope_def split: if_splits)
next
  case (2 x a)
  then show ?case by (auto split: if_splits)
qed

lemma vector_scope_distinct:
  "distinct (map (\<lambda>(t, v). tvm_id v) (published_rows u tools versions bindings)) \<Longrightarrow>
   distinct (map (\<lambda>(t, v). tvm_id v) (vector_scope u eligible f tools versions bindings))"
  unfolding vector_scope_def by (rule distinct_map_filter)

text \<open>
  On tables that keep their declared constraints the constructor of the result never refuses what the
  scan found: an embedded tool is counted once although it is joined from four tables, is one of the
  eligible ones, and no more tools are returned than are counted.
\<close>

theorem vector_result_is_consistent:
  assumes "table_ok (tool_rules rt) tools" and "table_ok (version_rules jv rv) versions"
    and "table_ok (binding_rules jb rb) bindings" and "table_ok (embedding_rules re) embeddings"
    and "rows = vector_scope u eligible f tools versions bindings"
    and "joined = embedding_join u query_vector rows embeddings"
    and "collect_results hit (take limit (sort_key key_of joined)) = Inr hits"
  shows "vector_result_post_init
      \<lparr>vr_hits = hits,
       vr_eligible_count = int (length (remdups (map (\<lambda>(t, v). tvm_id v) rows))),
       vr_indexed_count = int (length (remdups (map (\<lambda>(t, v, e). sem_tool_version_id e) joined)))\<rparr> =
    Inr \<lparr>vr_hits = hits, vr_eligible_count = int (length rows), vr_indexed_count = int (length joined)\<rparr>"
proof -
  let ?i = "map (\<lambda>(t, v). tvm_id v) rows" and ?j = "map (\<lambda>(t, v, e). sem_tool_version_id e) joined"
  have i: "distinct ?i"
    unfolding assms(5) by (intro vector_scope_distinct published_rows_distinct [OF assms(1-3)])
  have j: "distinct ?j" "set ?j \<subseteq> set ?i"
    using embedding_join_distinct [OF i assms(4)] by (simp_all only: assms(6))
  have "length hits = length (take limit (sort_key key_of joined))"
    using assms(7) by (auto simp: collect_results_all2 dest: list_all2_lengthD)
  then have "length hits \<le> length joined" by simp
  moreover have "length joined \<le> length rows"
    using card_mono [OF finite_set j(2)] distinct_card [OF i] distinct_card [OF j(1)] by (simp only: length_map)
  moreover have "length (remdups ?i) = length rows" "length (remdups ?j) = length joined"
    using i j(1) by (simp_all add: distinct_remdups_id)
  ultimately show ?thesis by (simp add: vector_result_post_init_def validated_Inr_iff)
qed

end
