(* ===== verification/Spec2Isabelle.thy ===== *)
theory Spec2Isabelle
  imports Call_Properties Publish_Properties Toolset_Endpoints Egress_Correct OpenApi_Review_Correct Embedding_Provider_Correct Bootstrap_Correct Mcp_Transport Sql_Imports Sql_Toolsets Sql_Search
begin

text \<open>
  NexusMCP: a gateway between agents and upstream tools. An operator registers upstream services,
  imports their OpenAPI documents, reviews the imported operations and publishes them as tools. An
  agent that speaks MCP searches for tools and calls them; each call is checked against policies,
  may need an approval, is recorded as an execution with its attempts and audit events, and reaches
  the upstream through an executor that maps the arguments to an HTTP request.

  The development models the modules under \<open>src/nexusmcp/modules\<close>, the parts of \<open>shared\<close>,
  \<open>infrastructure/networking\<close>, \<open>interfaces/mcp\<close>, \<open>interfaces/http\<close> and \<open>bootstrap\<close> they rest on, and
  proves what each promises. Definitions keep the names of the functions and classes they model;
  every field and every early return of the source is a field or a branch of the model.

  \<^bold>\<open>How the parts interact.\<close> \<open>interfaces/mcp/server.py\<close> resolves the caller and the endpoint's scope
  (toolsets), and runs the search (tool search) or the call (execution). A call asks the catalog for
  the published version, the policy evaluator for a decision, the approval module for an approval
  if the policy requires one, the credentials module for a secret and the connectors module for the
  binding; \<open>ExecutionLifecycle\<close> writes the execution, its attempts and audit events in short
  transactions around the executor. The control plane (registry, OpenAPI import, publishing,
  toolsets) writes the stores the data plane reads. \<open>bootstrap\<close> puts them together.

  \<^bold>\<open>Theories, and the code they model\<close> (paths under \<open>src/src/nexusmcp\<close>).
  \<^item> Shared: \<open>Prelude\<close> (Python's strings, dictionaries, sorted sets), \<open>Python_Text\<close> (\<open>quote\<close>,
    \<open>str\<close>, \<open>replace\<close>, \<open>uuid.UUID\<close> and \<open>infrastructure/persistence/identifiers.py\<close>), \<open>Errors\<close> (\<open>shared/errors.py\<close>: one constructor per error class), \<open>Effects\<close>
    (programs over a state, units of work, weakest preconditions), \<open>Digests\<close> (\<open>shared/digests.py\<close>,
    JSON values), \<open>Urls\<close> (\<open>urlsplit\<close> and \<open>ipaddress\<close> as far as used), \<open>Specificity\<close> and \<open>Tenant_Repository\<close> (the locales
    of rule selection and of the repositories).
  \<^item> Data plane: \<open>Identity\<close>, \<open>Audit_Log\<close>, \<open>Policy\<close>, \<open>Credentials\<close>, \<open>Approval\<close>, \<open>Connectors\<close>
    (the modules of these names), \<open>Execution_Domain\<close>, \<open>Execution_Store\<close>, \<open>Execution_Lifecycle\<close>,
    \<open>Retrying_Executor\<close>, \<open>Call_Tool\<close> (\<open>modules/execution\<close>), \<open>Http_Executor\<close>
    (\<open>execution/adapters/httpx_executor.py\<close>).
  \<^item> Control plane: \<open>Registry\<close>, \<open>Catalog_Domain\<close>, \<open>Catalog_Store\<close>, \<open>Publish\<close> (\<open>modules/catalog\<close>),
    \<open>Toolset_Domain\<close>, \<open>Toolset_Store\<close>, \<open>Toolset_Use_Cases\<close>, \<open>Toolset_Runtime\<close> (\<open>modules/toolsets\<close>),
    \<open>OpenApi_Parser\<close>, \<open>OpenApi_Store\<close>, \<open>OpenApi_Import\<close>, \<open>OpenApi_Review\<close>
    (\<open>modules/openapi_import\<close>), \<open>Egress\<close> (\<open>infrastructure/networking/egress.py\<close>).
  \<^item> Search: \<open>Search_Documents\<close>, \<open>Search_Fusion\<close>, \<open>Search_Query\<close>, \<open>Search_Index\<close>, \<open>Search_Jobs\<close>,
    \<open>Embedding_Provider\<close> (\<open>modules/tool_search\<close>).
  \<^item> Interfaces: \<open>Mcp_Interface\<close>, \<open>Mcp_Server\<close>, \<open>Mcp_Transport\<close> (\<open>interfaces/mcp\<close>), \<open>Http_Errors\<close>
    (\<open>interfaces/http/errors.py\<close>), \<open>Bootstrap\<close> (\<open>bootstrap/config.py\<close>, the choices of
    \<open>bootstrap/app.py\<close>).
  \<^item> Persistence: \<open>Sql_Tables\<close> (what the adapters rely on: tables, flushes, constraints), \<open>Sql_Ledger\<close>
    (the \<open>sqlalchemy_*.py\<close> of approval, audit and execution), \<open>Sql_Catalog\<close> (those of registry,
    connectors and catalog, \<open>sqlalchemy_resolver.py\<close>, \<open>sqlalchemy_search.py\<close>,
    \<open>infrastructure/persistence/toolset_catalog_reader.py\<close>), \<open>Sql_Imports\<close>, \<open>Sql_Toolsets\<close> and
    \<open>Sql_Search\<close> (those of the OpenAPI import, the toolsets and the embeddings).
  \<^item> Each \<open>X_Correct\<close> proves what \<open>X\<close> promises; \<open>Execution_Transactions\<close> and \<open>gateway_step\<close> show that
    every transaction is a step of one transition system, and \<open>Ledger_Properties\<close>,
    \<open>Call_Properties\<close>, \<open>Publish_Properties\<close>, \<open>Toolset_Properties\<close>, \<open>Toolset_Claims\<close> and
    \<open>Toolset_Endpoints\<close> state the properties of the modules taken together.

  \<^bold>\<open>State.\<close> A module's store is a record of dictionaries (association lists in insertion order)
  keyed by the entity's identifier, as in \<open>adapters/in_memory.py\<close>. A use case is a program
  \<open>'s \<Rightarrow> 'a result \<times> 's\<close> over \<open>sys\<close>: the clock and identifier ports as streams of answers, and the
  committed stores. \<open>async with unit_of_work\<close> is \<open>with_uow\<close>: a working copy that \<open>commit\<close> publishes
  and that is dropped otherwise. One block is one atomic step, since the in-memory adapters hold one
  lock for it; everything between two blocks can be interleaved (\<open>Ledger_Properties\<close>). Errors, cancellation
  included, are values of \<open>exn\<close>, and every \<open>except\<close> clause is a case distinction on them.
  A SQL table is the list of its rows; a row is a record with the columns of the ORM model, and its
  declarations (what the column types take, \<open>CHECK\<close>, unique indexes) are a record of functions that
  \<open>insert_row\<close> and \<open>update_row\<close> consult. Reindex jobs exist only as a table; their store is the statements of
  \<open>sqlalchemy_job_store.py\<close> with the unique index and the checks of \<open>sqlalchemy_models.py\<close> (column
  lengths apart).

  \<^bold>\<open>What the lemmas show.\<close>
  \<^item> Executions and approvals, over every interleaving of transactions of any number of requests: an
    approval pays for at most one execution, an idempotency key is used once, each execution has
    exactly the audit trail its life cycle asks for, and what has ended does not change. Planning
    happens completely or not at all.
  \<^item> One call, over arbitrary ports: the executor runs only for an execution that has been planned
    and is running; a call ends the execution it planned; a denied call touches nothing but the
    audit log; retries are bounded and only follow failures that are safe to retry.
  \<^item> Connections: each upstream that the production policy admitted has an allowed name or address,
    the HTTP executor checks it again before it connects, and the URL it uses stays below the base
    URL of the binding with every argument percent-encoded.
  \<^item> MCP: calls and searches stay within the toolset of the endpoint, an approval asked for in one
    call is used by the next exactly if it was confirmed, and a caller is one of those the settings
    name.
  \<^item> Rules: policy decisions and credential bindings are the most specific that apply, with denial
    first; both interpret one locale.
  \<^item> Control plane: publishing refines the map of live versions and publishes only what was
    reviewed; the invariants of registry, catalog and toolset stores hold in every reachable state;
    writes to toolsets compare revisions; an import ends its job and accepted operations make drafts
    once; a direct publication is the composition of its parts, or nothing.
  \<^item> OpenAPI: reference resolution ends and its result has a bounded depth; operations are
    unambiguous.
  \<^item> Search: the fused order is that of the sums of reciprocal places; only permitted tools are
    shown; a reindex that returns has embedded every document as it is now, a tenant has at most one
    active job, a job that runs ends, and the provider's vectors are matched to their texts in
    whatever order the service sends them.
  \<^item> Persistence: the SQL repositories of executions and of imported operations refine the in-memory
    ones the other theorems are about (\<open>sql_repository\<close> is the locale that carries this for every
    table); a transition is saved completely; unique indexes decide races; a name resolves to at
    most one live chain of rows; digests and whole aggregates survive a round trip; the counts of
    the vector search are consistent.
  \<^item> Where the code does something else than it means to, the theorem says what it does.

  \<^bold>\<open>Parameters.\<close> Code outside the repository is an argument of the definitions that use it: the hash
  function (\<open>sha\<close>), the IDNA codec on non-ASCII names, the address classification of \<open>ipaddress\<close>,
  name resolution, the clock, new identifiers, the HTTP clients of the executor and of the embedding
  provider (a request gives a response or an error), the reader of OpenAPI documents, the JSON schema
  validator, the sleeper, the vector index, and the trace identifier of the telemetry. Of the database: foreign keys
  (\<open>references\<close>), what a \<open>JSONB\<close> or a \<open>VECTOR\<close> column stores (\<open>jsonb\<close>, \<open>float4\<close>), the matching and
  ranking of full-text search, and vector distance. Ports inside
  the repository with more than one implementation (policy evaluator, executor, embedding provider,
  endpoint policy, credential provider) are arguments too, and their implementations are modelled
  and put in place where they are composed. Where a property needs something of a parameter, it is a
  hypothesis of the theorem, and the witness has a concrete one.

  \<^bold>\<open>Bounds.\<close> Recursion is structural or has a measure. Resolution of references carries the depth
  the code carries (at most 32), and a deeper document is an error in both. Retry loops count the
  attempts of the command (at most 10). Batches are of 1 to 64 documents, and a search returns at
  most 50 (keyword, vector) or 10 (meta tool) results, as in the code. No other fuel is used.

  \<^bold>\<open>Where Python and HOL differ.\<close> Strings are code points below 256, with Python's tables for white
  space and case on that range. Python's unbounded \<open>int\<close> is \<open>int\<close>. The lexical rank of the keyword
  search is an integer and vectors hold rationals: floating-point sums in the rank fusion are
  rationals, and \<open>fractions_apart\<close> shows that different sums of the fractions in question are further
  apart than rounding can bring together. Not-a-number and the infinities are one value,
  which the code tests for and rejects; JSON values have no floats except in the provider's payload.
  \<open>asyncio.gather\<close> over calls that share no state runs them in order. The copies the in-memory
  adapters make by \<open>replace\<close> revalidate values that were valid when stored, which never fails and is
  left out. Texts of log records and telemetry attributes are left out.

  Texts are ordered by code point, so \<open>ORDER BY\<close> on a text column means the database's \<open>C\<close> collation.

  \<^bold>\<open>Not modelled.\<close> SQLAlchemy's sessions, engine set-up and migrations: opening, committing and closing
  around the modelled statements is the library's, and row locks only matter between transactions. The
  read models and hand-written queries of the admin interface, which no other component uses. The routes and request models of
  the admin interface, the command line and the health probes, which pass requests to the modelled
  use cases and copy results field by field through FastAPI, pydantic and Typer. In \<open>bootstrap/app.py\<close>,
  building, starting and closing the objects. Logging and telemetry, the system clock and
  \<open>uuid4\<close>. The offline evaluation of searches, the demo data, examples, benchmarks and the launcher.
\<close>

end
